(* ===== verification/Utf8.thy ===== *)
theory Utf8
  imports Prelude
begin

text \<open>
  Go's \<open>unicode/utf8\<close>: \<open>Valid\<close>, \<open>AppendRune\<close>, the decoding that \<open>for _, r := range s\<close>
  performs, and \<open>RuneCountInString\<close>. Validity is the run of a byte automaton, so that a
  reader which copies its input byte by byte can carry it as an invariant.
\<close>

section \<open>Validity\<close>

datatype u8state = Start | Cont1 | Cont2 | Cont3 | AfterE0 | AfterED | AfterF0 | AfterF4

definition between :: "nat \<Rightarrow> nat \<Rightarrow> nat \<Rightarrow> bool" where
  "between lo hi n \<longleftrightarrow> lo \<le> n \<and> n \<le> hi"

fun utf8_step :: "u8state \<Rightarrow> nat \<Rightarrow> u8state option" where
  "utf8_step Start b =
     (if b < 0x80 then Some Start
      else if between 0xC2 0xDF b then Some Cont1
      else if b = 0xE0 then Some AfterE0
      else if b = 0xED then Some AfterED
      else if between 0xE1 0xEF b then Some Cont2
      else if b = 0xF0 then Some AfterF0
      else if between 0xF1 0xF3 b then Some Cont3
      else if b = 0xF4 then Some AfterF4
      else None)"
| "utf8_step Cont1 b = (if between 0x80 0xBF b then Some Start else None)"
| "utf8_step Cont2 b = (if between 0x80 0xBF b then Some Cont1 else None)"
| "utf8_step Cont3 b = (if between 0x80 0xBF b then Some Cont2 else None)"
| "utf8_step AfterE0 b = (if between 0xA0 0xBF b then Some Cont1 else None)"
| "utf8_step AfterED b = (if between 0x80 0x9F b then Some Cont1 else None)"
| "utf8_step AfterF0 b = (if between 0x90 0xBF b then Some Cont2 else None)"
| "utf8_step AfterF4 b = (if between 0x80 0x8F b then Some Cont2 else None)"

fun utf8_run :: "u8state \<Rightarrow> string \<Rightarrow> u8state option" where
  "utf8_run st [] = Some st"
| "utf8_run st (c # cs) =
     (case utf8_step st (byte c) of None \<Rightarrow> None | Some st' \<Rightarrow> utf8_run st' cs)"

definition utf8_valid :: "string \<Rightarrow> bool" where
  "utf8_valid s \<longleftrightarrow> utf8_run Start s = Some Start"

lemma utf8_run_append:
  "utf8_run st (xs @ ys) = Option.bind (utf8_run st xs) (\<lambda>st'. utf8_run st' ys)"
  by (induction xs arbitrary: st) (auto split: option.splits)

lemma utf8_step_ascii: "b < 0x80 \<Longrightarrow> utf8_step st b = (if st = Start then Some Start else None)"
  by (cases st) (auto simp: between_def)

text \<open>An ASCII byte of a text that decodes stands between two encoded runes.\<close>

lemma utf8_run_ascii_Cons:
  assumes "byte c < 0x80"
  shows "utf8_run st (c # cs) = (if st = Start then utf8_run Start cs else None)"
  using assms by (simp add: utf8_step_ascii)

lemma utf8_valid_Nil [simp]: "utf8_valid []"
  by (simp add: utf8_valid_def)

lemma utf8_valid_ascii_Cons: "byte c < 0x80 \<Longrightarrow> utf8_valid (c # cs) \<longleftrightarrow> utf8_valid cs"
  by (simp add: utf8_valid_def utf8_step_ascii)

lemma utf8_run_valid_append: "utf8_valid xs \<Longrightarrow> utf8_run Start (xs @ ys) = utf8_run Start ys"
  by (simp add: utf8_valid_def utf8_run_append)

lemma utf8_valid_append: "utf8_valid xs \<Longrightarrow> utf8_valid ys \<Longrightarrow> utf8_valid (xs @ ys)"
  by (simp add: utf8_valid_def utf8_run_append)

lemma utf8_valid_ascii: "\<forall>c \<in> set s. byte c < 0x80 \<Longrightarrow> utf8_valid s"
  by (induction s) (auto simp: utf8_valid_ascii_Cons)

lemma utf8_valid_ascii_append:
  "\<forall>c \<in> set xs. byte c < 0x80 \<Longrightarrow> utf8_valid (xs @ s) \<longleftrightarrow> utf8_valid s"
  by (induction xs) (auto simp: utf8_valid_ascii_Cons)

lemma utf8_drop_ascii:
  assumes "utf8_valid s" "\<forall>c \<in> set (take k s). byte c < 0x80"
  shows "utf8_valid (drop k s)"
  using assms utf8_valid_ascii_append [of "take k s" "drop k s"] by simp

lemma utf8_suffix_ascii:
  assumes "utf8_valid (a @ c # b)" "byte c < 0x80"
  shows "utf8_valid (c # b)"
proof -
  from assms(1) obtain st where "utf8_run st (c # b) = Some Start"
    by (auto simp: utf8_valid_def utf8_run_append bind_eq_Some_conv simp del: utf8_run.simps)
  with assms(2) show ?thesis
    by (auto simp: utf8_valid_def utf8_step_ascii split: if_split_asm)
qed

section \<open>Encoding\<close>

text \<open>A Unicode scalar value; \<open>AppendRune\<close> writes U+FFFD for anything else.\<close>

definition scalar :: "nat \<Rightarrow> bool" where
  "scalar r \<longleftrightarrow> r < 0xD800 \<or> (0xDFFF < r \<and> r \<le> 0x10FFFF)"

definition encode_rune :: "nat \<Rightarrow> string" where
  "encode_rune n =
     (let r = (if scalar n then n else 0xFFFD)
      in if r < 0x80 then [char_of r]
         else if r < 0x800 then [char_of (0xC0 + r div 64), char_of (0x80 + r mod 64)]
         else if r < 0x10000 then
           [char_of (0xE0 + r div 4096), char_of (0x80 + r div 64 mod 64),
            char_of (0x80 + r mod 64)]
         else
           [char_of (0xF0 + r div 262144), char_of (0x80 + r div 4096 mod 64),
            char_of (0x80 + r div 64 mod 64), char_of (0x80 + r mod 64)])"

lemma utf8_run_char_of:
  "n < 256 \<Longrightarrow> utf8_run st (char_of n # cs) =
     (case utf8_step st n of None \<Rightarrow> None | Some st' \<Rightarrow> utf8_run st' cs)"
  by simp

lemma utf8_run_two:
  fixes a b :: nat
  assumes "2 \<le> a" "a < 32" "b < 64"
  shows "utf8_run Start [char_of (192 + a), char_of (128 + b)] = Some Start"
  using assms by (subst utf8_run_char_of, simp)+ (simp add: between_def)

lemma utf8_run_three:
  fixes a b c :: nat
  assumes "a < 16" "b < 64" "c < 64" "a = 0 \<longrightarrow> 32 \<le> b" "a = 13 \<longrightarrow> b < 32"
  shows "utf8_run Start [char_of (224 + a), char_of (128 + b), char_of (128 + c)] = Some Start"
proof -
  define st where "st = (if a = 0 then AfterE0 else if a = 13 then AfterED else Cont2)"
  have 1: "utf8_step Start (224 + a) = Some st"
    using assms by (auto simp: between_def st_def)
  have 2: "utf8_step st (128 + b) = Some Cont1"
    using assms by (auto simp: between_def st_def)
  have 3: "utf8_step Cont1 (128 + c) = Some Start"
    using assms by (auto simp: between_def)
  have "224 + a < 256" "128 + b < 256" "128 + c < 256" using assms by simp_all
  then show ?thesis
    by (simp only: utf8_run_char_of 1 2 3 option.case utf8_run.simps(1))
qed

lemma utf8_run_four:
  fixes a b c d :: nat
  assumes "a < 5" "b < 64" "c < 64" "d < 64" "a = 0 \<longrightarrow> 16 \<le> b" "a = 4 \<longrightarrow> b < 16"
  shows "utf8_run Start [char_of (240 + a), char_of (128 + b), char_of (128 + c), char_of (128 + d)]
    = Some Start"
proof -
  define st where "st = (if a = 0 then AfterF0 else if a = 4 then AfterF4 else Cont3)"
  have 1: "utf8_step Start (240 + a) = Some st"
    using assms by (auto simp: between_def st_def)
  have 2: "utf8_step st (128 + b) = Some Cont2"
    using assms by (auto simp: between_def st_def)
  have 3: "utf8_step Cont2 (128 + c) = Some Cont1" "utf8_step Cont1 (128 + d) = Some Start"
    using assms by (auto simp: between_def)
  have "240 + a < 256" "128 + b < 256" "128 + c < 256" "128 + d < 256" using assms by simp_all
  then show ?thesis
    by (simp only: utf8_run_char_of 1 2 3 option.case utf8_run.simps(1))
qed

lemma utf8_valid_encode_rune: "utf8_valid (encode_rune n)"
proof -
  define r where "r = (if scalar n then n else 0xFFFD)"
  have sc: "scalar r" by (simp add: r_def scalar_def)
  note defs = encode_rune_def Let_def r_def [symmetric] utf8_valid_def
  consider "r < 0x80" | "0x80 \<le> r" "r < 0x800" | "0x800 \<le> r" "r < 0x10000" | "0x10000 \<le> r"
    by linarith
  then show ?thesis
  proof cases
    case 1
    then show ?thesis by (simp add: defs)
  next
    case 2
    have "utf8_run Start [char_of (192 + r div 64), char_of (128 + r mod 64)] = Some Start"
      by (rule utf8_run_two) (use 2 in auto)
    with 2 show ?thesis by (simp add: defs del: utf8_run.simps)
  next
    case 3
    define q where "q = r div 64"
    have q: "q = 64 * (q div 64) + q mod 64" by simp
    have qd: "r div 4096 = q div 64" by (simp add: q_def div_mult2_eq [symmetric])
    have lo: "32 \<le> q" "q < 1024" using 3 by (auto simp: q_def)
    have sur: "q < 864 \<or> 896 \<le> q" using sc by (auto simp: q_def scalar_def)
    have "utf8_run Start [char_of (224 + q div 64), char_of (128 + q mod 64),
        char_of (128 + r mod 64)] = Some Start"
    proof (rule utf8_run_three)
      show "q div 64 < 16" using lo by auto
      show "q div 64 = 0 \<longrightarrow> 32 \<le> q mod 64" using lo q by linarith
      show "q div 64 = 13 \<longrightarrow> q mod 64 < 32"
      proof
        assume "q div 64 = 13"
        moreover have "q mod 64 < 64" by simp
        ultimately show "q mod 64 < 32" using q sur by linarith
      qed
    qed simp_all
    then have "utf8_run Start [char_of (224 + r div 4096), char_of (128 + r div 64 mod 64),
        char_of (128 + r mod 64)] = Some Start"
      by (simp only: qd q_def)
    with 3 show ?thesis by (simp add: defs del: utf8_run.simps)
  next
    case 4
    define q where "q = r div 4096"
    have q: "q = 64 * (q div 64) + q mod 64" by simp
    have qd: "r div 262144 = q div 64" by (simp add: q_def div_mult2_eq [symmetric])
    have lo: "16 \<le> q" "q < 272" using 4 sc by (auto simp: q_def scalar_def)
    have "utf8_run Start [char_of (240 + q div 64), char_of (128 + q mod 64),
        char_of (128 + r div 64 mod 64), char_of (128 + r mod 64)] = Some Start"
    proof (rule utf8_run_four)
      show "q div 64 < 5" using lo by auto
      show "q div 64 = 0 \<longrightarrow> 16 \<le> q mod 64" using lo q by linarith
      show "q div 64 = 4 \<longrightarrow> q mod 64 < 16" using lo q by linarith
    qed simp_all
    then have "utf8_run Start [char_of (240 + r div 262144), char_of (128 + r div 4096 mod 64),
        char_of (128 + r div 64 mod 64), char_of (128 + r mod 64)] = Some Start"
      by (simp only: qd q_def)
    with 4 show ?thesis by (simp add: defs del: utf8_run.simps)
  qed
qed

lemma encode_rune_ascii: "r < 0x80 \<Longrightarrow> encode_rune r = [char_of r]"
  by (simp add: encode_rune_def scalar_def)

section \<open>Decoding\<close>

definition cont :: "char \<Rightarrow> bool" where
  "cont c \<longleftrightarrow> between 0x80 0xBF (byte c)"

text \<open>\<open>DecodeRuneInString\<close>: the first rune and its width; (U+FFFD, 1) for a bad byte.\<close>

definition decode_rune :: "char \<Rightarrow> string \<Rightarrow> nat \<times> nat" where
  "decode_rune c cs =
     (let b = byte c; bad = (0xFFFD, 1)
      in if b < 0x80 then (b, 1)
         else if between 0xC2 0xDF b then
           (case cs of
              c1 # _ \<Rightarrow> if cont c1 then ((b mod 32) * 64 + byte c1 mod 64, 2) else bad
            | _ \<Rightarrow> bad)
         else if between 0xE0 0xEF b then
           (case cs of
              c1 # c2 # _ \<Rightarrow>
                if between (if b = 0xE0 then 0xA0 else 0x80) (if b = 0xED then 0x9F else 0xBF) (byte c1)
                   \<and> cont c2
                then ((b mod 16) * 4096 + (byte c1 mod 64) * 64 + byte c2 mod 64, 3) else bad
            | _ \<Rightarrow> bad)
         else if between 0xF0 0xF4 b then
           (case cs of
              c1 # c2 # c3 # _ \<Rightarrow>
                if between (if b = 0xF0 then 0x90 else 0x80) (if b = 0xF4 then 0x8F else 0xBF) (byte c1)
                   \<and> cont c2 \<and> cont c3
                then ((b mod 8) * 262144 + (byte c1 mod 64) * 4096 + (byte c2 mod 64) * 64
                      + byte c3 mod 64, 4) else bad
            | _ \<Rightarrow> bad)
         else bad)"

text \<open>The runes a \<open>range\<close> loop over a string visits, each with the bytes it came from.\<close>

function rune_chunks :: "string \<Rightarrow> (nat \<times> string) list" where
  "rune_chunks [] = []"
| "rune_chunks (c # cs) =
     (case decode_rune c cs of
        (r, w) \<Rightarrow> (r, c # take (w - 1) cs) # rune_chunks (drop (w - 1) cs))"
  by pat_completeness auto
termination by (relation "measure length") auto

definition runes :: "string \<Rightarrow> nat list" where
  "runes s = map fst (rune_chunks s)"

definition RuneCount :: "string \<Rightarrow> nat" where
  "RuneCount s = length (runes s)"

lemma decode_rune_ascii: "byte c < 0x80 \<Longrightarrow> decode_rune c cs = (byte c, 1)"
  by (simp add: decode_rune_def)

lemma runes_Nil [simp]: "runes [] = []"
  by (simp add: runes_def)

lemma runes_ascii_Cons [simp]: "byte c < 0x80 \<Longrightarrow> runes (c # cs) = byte c # runes cs"
  by (simp add: runes_def decode_rune_ascii)

lemma rune_chunks_concat: "concat (map snd (rune_chunks s)) = s"
  by (induction s rule: rune_chunks.induct) (auto split: prod.splits)

lemma RuneCount_le: "RuneCount s \<le> length s"
proof (induction s rule: rune_chunks.induct)
  case 1
  then show ?case by (simp add: RuneCount_def runes_def)
next
  case (2 c cs)
  obtain r w where d: "decode_rune c cs = (r, w)" by fastforce
  have "RuneCount (drop (w - 1) cs) \<le> length (drop (w - 1) cs)" using 2 [OF d [symmetric]] by simp
  with d show ?case by (simp add: RuneCount_def runes_def)
qed

lemma RuneCount_ascii: "\<forall>c \<in> set s. byte c < 0x80 \<Longrightarrow> RuneCount s = length s"
  by (induction s) (auto simp: RuneCount_def)

lemma runes_ascii: "\<forall>c \<in> set s. byte c < 0x80 \<Longrightarrow> runes s = map byte s"
  by (induction s) auto

lemma runes_neq_Nil [simp]: "runes s = [] \<longleftrightarrow> s = []"
  by (cases s) (auto simp: runes_def split: prod.splits)

text \<open>A byte below 0x80 in a string is one of its runes.\<close>

lemma decode_rune_width: "decode_rune c cs = (r, w) \<Longrightarrow> \<forall>d \<in> set (take (w - 1) cs). 0x80 \<le> byte d"
  by (auto simp: decode_rune_def Let_def cont_def between_def
      split: if_splits list.splits)

lemma ascii_in_runes:
  "c \<in> set s \<Longrightarrow> byte c < 0x80 \<Longrightarrow> byte c \<in> set (runes s)"
proof (induction s rule: rune_chunks.induct)
  case 1
  then show ?case by simp
next
  case (2 d cs)
  obtain r w where d: "decode_rune d cs = (r, w)" by fastforce
  have split: "set cs = set (take (w - 1) cs) \<union> set (drop (w - 1) cs)"
    by (metis append_take_drop_id set_append)
  consider "c = d" | "c \<in> set (take (w - 1) cs)" | "c \<in> set (drop (w - 1) cs)"
    using "2.prems"(1) split by auto
  then show ?case
  proof cases
    case 1
    then show ?thesis using "2.prems"(2) by simp
  next
    case 2
    then show ?thesis using decode_rune_width [OF d] "2.prems"(2) by auto
  next
    case 3
    then have "byte c \<in> set (runes (drop (w - 1) cs))"
      using "2.IH" [OF d [symmetric]] "2.prems"(2) by simp
    then show ?thesis using d by (simp add: runes_def)
  qed
qed

end
