(* ===== verification/GoStrings.thy ===== *)
theory GoStrings
  imports Utf8
begin

text \<open>
  The functions of Go's \<open>strings\<close> and \<open>strconv\<close> packages that the components call, on
  byte strings, and the facts about decimal numerals that the JSON round trip needs.
\<close>

section \<open>Package strings\<close>

definition HasPrefix :: "string \<Rightarrow> string \<Rightarrow> bool" where
  "HasPrefix s p \<longleftrightarrow> take (length p) s = p"

definition HasSuffix :: "string \<Rightarrow> string \<Rightarrow> bool" where
  "HasSuffix s p \<longleftrightarrow> length p \<le> length s \<and> drop (length s - length p) s = p"

definition CutPrefix :: "string \<Rightarrow> string \<Rightarrow> string option" where
  "CutPrefix s p = (if HasPrefix s p then Some (drop (length p) s) else None)"

definition TrimPrefix :: "string \<Rightarrow> string \<Rightarrow> string" where
  "TrimPrefix s p = (if HasPrefix s p then drop (length p) s else s)"

definition TrimSuffix :: "string \<Rightarrow> string \<Rightarrow> string" where
  "TrimSuffix s p = (if HasSuffix s p then take (length s - length p) s else s)"

text \<open>\<open>Cut\<close> at a one-byte separator: the text before it, the text after it, whether it occurs.\<close>

definition Cut :: "string \<Rightarrow> char \<Rightarrow> string \<times> string \<times> bool" where
  "Cut s c = (if c \<in> set s then (takeWhile (\<lambda>d. d \<noteq> c) s, tl (dropWhile (\<lambda>d. d \<noteq> c) s), True)
              else (s, [], False))"

fun Split :: "string \<Rightarrow> char \<Rightarrow> string list" where
  "Split [] c = [[]]"
| "Split (d # s) c =
     (if d = c then [] # Split s c
      else (case Split s c of [] \<Rightarrow> [[d]] | w # ws \<Rightarrow> (d # w) # ws))"

fun Join :: "string list \<Rightarrow> string \<Rightarrow> string" where
  "Join [] sep = []"
| "Join [w] sep = w"
| "Join (w # ws) sep = w @ sep @ Join ws sep"

definition TrimRight :: "string \<Rightarrow> char \<Rightarrow> string" where
  "TrimRight s c = rev (dropWhile (\<lambda>d. d = c) (rev s))"

text \<open>\<open>LastIndexByte\<close>, with \<open>None\<close> for -1.\<close>

fun LastIndexByte :: "string \<Rightarrow> char \<Rightarrow> nat option" where
  "LastIndexByte [] c = None"
| "LastIndexByte (d # s) c =
     (case LastIndexByte s c of Some i \<Rightarrow> Some (Suc i) | None \<Rightarrow> if d = c then Some 0 else None)"

definition ContainsAny :: "string \<Rightarrow> string \<Rightarrow> bool" where
  "ContainsAny s cs \<longleftrightarrow> (\<exists>c \<in> set s. c \<in> set cs)"

text \<open>\<open>unicode.IsSpace\<close> and \<open>TrimSpace\<close>, rune by rune.\<close>

definition is_space_rune :: "nat \<Rightarrow> bool" where
  "is_space_rune r \<longleftrightarrow>
     r \<in> {9, 10, 11, 12, 13, 32, 0x85, 0xA0, 0x1680, 0x2028, 0x2029, 0x202F, 0x205F, 0x3000}
     \<or> (0x2000 \<le> r \<and> r \<le> 0x200A)"

definition TrimSpace :: "string \<Rightarrow> string" where
  "TrimSpace s =
     (let skip = dropWhile (\<lambda>(r, bs). is_space_rune r)
      in concat (map snd (rev (skip (rev (skip (rune_chunks s)))))))"

lemma HasPrefix_iff: "HasPrefix s p \<longleftrightarrow> (\<exists>t. s = p @ t)"
  by (auto simp: HasPrefix_def) (metis append_take_drop_id)

lemma HasPrefix_append [simp]: "HasPrefix (p @ t) p"
  by (auto simp: HasPrefix_iff)

lemma HasSuffix_iff: "HasSuffix s p \<longleftrightarrow> (\<exists>t. s = t @ p)"
proof
  assume "HasSuffix s p"
  then have "s = take (length s - length p) s @ p"
    by (metis HasSuffix_def append_take_drop_id)
  then show "\<exists>t. s = t @ p" ..
qed (auto simp: HasSuffix_def)

lemma TrimSuffix_append [simp]: "TrimSuffix (t @ p) p = t"
  by (simp add: TrimSuffix_def HasSuffix_def)

lemma CutPrefix_Some: "CutPrefix s p = Some t \<longleftrightarrow> s = p @ t"
  by (auto simp: CutPrefix_def HasPrefix_iff)

lemma Cut_found: "Cut s c = (a, b, True) \<longleftrightarrow> s = a @ c # b \<and> c \<notin> set a"
proof
  assume "Cut s c = (a, b, True)"
  then have c: "c \<in> set s" and a: "a = takeWhile (\<lambda>d. d \<noteq> c) s"
    and b: "b = tl (dropWhile (\<lambda>d. d \<noteq> c) s)"
    by (auto simp: Cut_def split: if_splits)
  have ne: "dropWhile (\<lambda>d. d \<noteq> c) s \<noteq> []" using c by (simp add: dropWhile_eq_Nil_conv)
  have "hd (dropWhile (\<lambda>d. d \<noteq> c) s) = c" using hd_dropWhile [OF ne] by simp
  then have "dropWhile (\<lambda>d. d \<noteq> c) s = c # b" using ne b by (metis list.collapse)
  then have "s = a @ c # b" using a by (metis takeWhile_dropWhile_id)
  moreover have "c \<notin> set a" using a by (auto dest: set_takeWhileD)
  ultimately show "s = a @ c # b \<and> c \<notin> set a" ..
next
  assume "s = a @ c # b \<and> c \<notin> set a"
  then show "Cut s c = (a, b, True)"
    by (auto simp: Cut_def takeWhile_append dropWhile_append)
qed

lemma Split_neq_Nil [simp]: "Split s c \<noteq> []"
  by (induction s) (auto split: list.splits)

lemma Join_Split: "Join (Split s c) [c] = s"
proof (induction s)
  case Nil
  then show ?case by simp
next
  case (Cons d s)
  obtain w ws where w: "Split s c = w # ws" by (cases "Split s c") auto
  with Cons show ?case by (cases ws) auto
qed

lemma Split_no_sep: "w \<in> set (Split s c) \<Longrightarrow> c \<notin> set w"
  by (induction s arbitrary: w) (auto split: if_splits list.splits)

lemma Split_append_no_sep:
  "c \<notin> set w \<Longrightarrow> Split (w @ s) c = (case Split s c of [] \<Rightarrow> [w] | v # vs \<Rightarrow> (w @ v) # vs)"
  by (induction w) (auto split: list.splits)

lemma Split_Join: "\<forall>w \<in> set ws. c \<notin> set w \<Longrightarrow> ws \<noteq> [] \<Longrightarrow> Split (Join ws [c]) c = ws"
proof (induction ws "[c]" rule: Join.induct)
  case (2 w)
  then show ?case using Split_append_no_sep [of c w "[]"] by simp
next
  case (3 w v vs)
  then show ?case using Split_append_no_sep [of c w "c # Join (v # vs) [c]"] by simp
qed simp

section \<open>Decimal numerals\<close>

definition digit_char :: "nat \<Rightarrow> char" where
  "digit_char d = char_of (48 + d)"

definition digit_val :: "char \<Rightarrow> nat" where
  "digit_val c = byte c - 48"

text \<open>\<open>strconv.Itoa\<close> and \<open>AppendInt (\<dots>, 10)\<close>.\<close>

fun dec :: "nat \<Rightarrow> string" where
  "dec n = (if n < 10 then [digit_char n] else dec (n div 10) @ [digit_char (n mod 10)])"

declare dec.simps [simp del]

definition Itoa :: "int \<Rightarrow> string" where
  "Itoa i = (if i < 0 then CHR ''-'' # dec (nat (- i)) else dec (nat i))"

definition dec_value :: "string \<Rightarrow> nat" where
  "dec_value s = foldl (\<lambda>n c. n * 10 + digit_val c) 0 s"

lemma digit_char_props [simp]:
  assumes "d < 10"
  shows "is_digit (digit_char d)" "digit_val (digit_char d) = d" "byte (digit_char d) = 48 + d"
  using assms by (simp_all add: digit_char_def digit_val_def is_digit_byte)

lemma is_digit_ascii: "is_digit c \<Longrightarrow> byte c < 0x80"
  by (simp add: is_digit_byte)

lemma digit_val_less: "is_digit c \<Longrightarrow> digit_val c < 10"
  unfolding digit_val_def is_digit_byte by linarith

lemma dec_neq_Nil [simp]: "dec n \<noteq> []"
  by (subst dec.simps) simp

lemma dec_digits: "\<forall>c \<in> set (dec n). is_digit c"
proof (induction n rule: dec.induct)
  case (1 n)
  then show ?case by (subst dec.simps) auto
qed

lemma dec_value_snoc [simp]: "dec_value (s @ [c]) = dec_value s * 10 + digit_val c"
  by (simp add: dec_value_def)

lemma dec_value_Nil [simp]: "dec_value [] = 0"
  by (simp add: dec_value_def)

lemma dec_value_dec [simp]: "dec_value (dec n) = n"
proof (induction n rule: dec.induct)
  case (1 n)
  then show ?case
    by (subst dec.simps) (auto simp: dec_value_def)
qed

lemma dec_zero [simp]: "dec 0 = ''0''"
proof -
  have "char_of (byte (CHR ''0'')) = CHR ''0''" by (rule char_of_char)
  then show ?thesis by (subst dec.simps) (simp add: digit_char_def)
qed

lemma dec_hd: "0 < n \<Longrightarrow> hd (dec n) \<noteq> CHR ''0''"
proof (induction n rule: dec.induct)
  case (1 n)
  show ?case
  proof (cases "n < 10")
    case True
    then have "byte (digit_char n) \<noteq> byte (CHR ''0'')"
      using "1.prems" by simp
    then have "digit_char n \<noteq> CHR ''0''" by metis
    with True show ?thesis by (subst dec.simps) simp
  next
    case False
    then have "0 < n div 10" by auto
    with False 1 show ?thesis by (subst dec.simps) simp
  qed
qed

lemma dec_length: "n < 10 ^ k \<Longrightarrow> 0 < k \<Longrightarrow> length (dec n) \<le> k"
proof (induction n arbitrary: k rule: dec.induct)
  case (1 n)
  show ?case
  proof (cases "n < 10")
    case True
    with "1.prems" show ?thesis by (subst dec.simps) simp
  next
    case False
    have "k \<noteq> 1" using False "1.prems"(1) by auto
    then obtain k' where k: "k = Suc k'" "0 < k'"
      using "1.prems"(2) by (cases k) auto
    have "n div 10 < 10 ^ k'" using "1.prems"(1) k(1) by (simp add: less_mult_imp_div_less)
    then have "length (dec (n div 10)) \<le> k'" using "1.IH" False k(2) by simp
    with False k show ?thesis by (subst dec.simps) simp
  qed
qed

lemma dec_value_bound: "\<forall>c \<in> set s. is_digit c \<Longrightarrow> dec_value s < 10 ^ length s"
proof (induction s rule: rev_induct)
  case Nil
  then show ?case by simp
next
  case (snoc c s)
  then have "dec_value s < 10 ^ length s" "digit_val c < 10" by (auto simp: digit_val_less)
  then have "dec_value s * 10 + digit_val c < (dec_value s + 1) * 10" by simp
  also have "\<dots> \<le> 10 ^ length s * 10"
    using \<open>dec_value s < 10 ^ length s\<close> by (intro mult_right_mono) auto
  finally show ?case by simp
qed

text \<open>Hexadecimal printing: \<open>hex.EncodeToString\<close>.\<close>

definition hexDigit :: "nat \<Rightarrow> char" where
  "hexDigit n = (if n < 10 then char_of (48 + n) else char_of (87 + n))"

definition hex_EncodeToString :: "string \<Rightarrow> string" where
  "hex_EncodeToString s = concat (map (\<lambda>c. [hexDigit (byte c div 16), hexDigit (byte c mod 16)]) s)"

lemma length_hex_EncodeToString [simp]: "length (hex_EncodeToString s) = 2 * length s"
  by (induction s) (auto simp: hex_EncodeToString_def)

lemma hexDigit_lower_hex: "n < 16 \<Longrightarrow> is_lower_hex (hexDigit n)"
  by (auto simp: is_lower_hex_def hexDigit_def less_eq_char_byte)

lemma hex_EncodeToString_lower_hex: "\<forall>c \<in> set (hex_EncodeToString s). is_lower_hex c"
proof -
  have "byte c div 16 < 16" for c by (simp add: less_mult_imp_div_less)
  then show ?thesis by (auto simp: hex_EncodeToString_def hexDigit_lower_hex)
qed

text \<open>\<open>strconv.ParseInt (s, 10, 64)\<close>: an optional sign and decimal digits, \<open>None\<close> for a
  syntax error and for a value outside the 64-bit range.\<close>

definition ParseInt64 :: "string \<Rightarrow> int option" where
  "ParseInt64 s =
     (let neg = (case s of c # _ \<Rightarrow> c = CHR ''-'' | [] \<Rightarrow> False);
          ds = (case s of c # cs \<Rightarrow> if c = CHR ''-'' \<or> c = CHR ''+'' then cs else s | [] \<Rightarrow> s);
          n = int (dec_value ds)
      in if ds = [] \<or> \<not> list_all is_digit ds then None
         else if neg then (if n \<le> 2 ^ 63 then Some (- n) else None)
         else (if n < 2 ^ 63 then Some n else None))"

lemma ParseInt64_Itoa:
  assumes "0 \<le> n" and "n < 2 ^ 63"
  shows "ParseInt64 (Itoa n) = Some n"
proof -
  obtain c cs where d: "dec (nat n) = c # cs"
    by (cases "dec (nat n)") simp_all
  have digits: "\<forall>x \<in> set (c # cs). is_digit x"
    using dec_digits [of "nat n"] d by simp
  then have "c \<noteq> CHR ''-''" "c \<noteq> CHR ''+''"
    by (auto simp: is_digit_byte)
  moreover have "dec_value (c # cs) = nat n"
    using dec_value_dec [of "nat n"] d by simp
  ultimately show ?thesis
    using assms digits d by (simp add: ParseInt64_def Itoa_def list_all_iff)
qed

lemma Itoa_not_dashes: "0 \<le> n \<Longrightarrow> \<not> HasPrefix (Itoa n) ''--''"
  using dec_digits [of "nat n"] by (auto simp: Itoa_def HasPrefix_iff is_digit_byte)

section \<open>Patterns\<close>

definition id_byte :: "char \<Rightarrow> bool" where
  [byte_defs]: "id_byte c \<longleftrightarrow> is_lower c \<or> is_digit c"

text \<open>The identifier patterns \<open>^[a-z0-9][a-z0-9-]{0,n}$\<close>.\<close>

definition id_pattern :: "nat \<Rightarrow> string \<Rightarrow> bool" where
  "id_pattern n s = (case s of [] \<Rightarrow> False
     | c # cs \<Rightarrow> id_byte c \<and> length cs \<le> n \<and> list_all (\<lambda>d. id_byte d \<or> d = CHR ''-'') cs)"

lemma id_pattern_props:
  assumes "id_pattern n s"
  shows "s \<noteq> []" and "HasPrefix p ''-'' \<Longrightarrow> \<not> HasPrefix s p"
  using assms by (auto simp: id_pattern_def HasPrefix_iff byte_defs split: list.splits)

section \<open>Argument vectors\<close>

text \<open>A flag that is printed when it is set.\<close>

definition flagArg :: "string \<Rightarrow> bool \<Rightarrow> string list" where
  "flagArg f b = (if b then [f] else [])"

lemma set_flagArg [simp]: "set (flagArg f b) = (if b then {f} else {})"
  by (simp add: flagArg_def)

end
