(* ===== verification/Sha256.thy ===== *)
theory Sha256
  imports GoStrings
begin

text \<open>
  Go's \<open>crypto/sha256.Sum256\<close>, after FIPS 180-4: padding, the message schedule and the
  compression function over 32-bit words. The digests of the fragment (\<open>fragment.Digest\<close>)
  and of the member records (\<open>memberwire.decode\<close>) are computed with it.
\<close>

unbundle bit_operations_syntax

type_synonym u32 = "32 word"

text \<open>
  The standard defines its constants as the leading 32 bits of the fractional parts of the cube
  roots of the first 64 primes and of the square roots of the first eight; so does the model. An
  integer root is found bit by bit, from the high bit down.
\<close>

fun int_root :: "nat \<Rightarrow> nat \<Rightarrow> int \<Rightarrow> int \<Rightarrow> int" where
  "int_root k 0 n r = r"
| "int_root k (Suc b) n r = int_root k b n (if (r + 2 ^ b) ^ k \<le> n then r + 2 ^ b else r)"

definition sha_primes :: "nat list" where
  "sha_primes = filter (\<lambda>p. list_all (\<lambda>d. p mod d \<noteq> 0) [2..<p]) [2..<312]"

definition sha_k :: "u32 list" where
  "sha_k = map (\<lambda>p. word_of_int (int_root 3 35 (int p * 2 ^ 96) 0)) sha_primes"

definition sha_init :: "u32 list" where
  "sha_init = map (\<lambda>p. word_of_int (int_root 2 35 (int p * 2 ^ 64) 0)) [2, 3, 5, 7, 11, 13, 17, 19 :: nat]"

lemma length_sha_init [simp]: "length sha_init = 8"
  by (simp add: sha_init_def)

definition rotr :: "nat \<Rightarrow> u32 \<Rightarrow> u32" where
  "rotr n x = drop_bit n x OR push_bit (32 - n) x"

text \<open>The \<open>k\<close> low bytes of a word, most significant first (\<open>binary.BigEndian\<close>).\<close>

definition be_bytes :: "nat \<Rightarrow> 'a::len word \<Rightarrow> nat list" where
  "be_bytes k w = map (\<lambda>i. unat (drop_bit (8 * i) w AND 0xFF)) (rev [0..<k])"

text \<open>Padding: a one bit, zeros, and the length in bits as 64 bits, to a multiple of 64 bytes.\<close>

definition sha_pad :: "string \<Rightarrow> nat list" where
  "sha_pad s =
     (let n = length s; z = (55 + 64 - n mod 64) mod 64
      in map byte s @ [128] @ replicate z 0 @ be_bytes 8 (push_bit 3 (of_nat n :: 64 word)))"

fun be_words :: "nat list \<Rightarrow> u32 list" where
  "be_words (a # b # c # d # bs) =
     (push_bit 24 (of_nat a) OR push_bit 16 (of_nat b) OR push_bit 8 (of_nat c) OR of_nat d)
     # be_words bs"
| "be_words _ = []"

fun blocks :: "nat \<Rightarrow> u32 list \<Rightarrow> u32 list list" where
  "blocks 0 ws = []"
| "blocks (Suc n) ws = take 16 ws # blocks n (drop 16 ws)"

text \<open>The schedule is kept newest first: \<open>w!1\<close> is \<open>W[t-2]\<close>, \<open>w!15\<close> is \<open>W[t-16]\<close>.\<close>

fun sha_schedule :: "nat \<Rightarrow> u32 list \<Rightarrow> u32 list" where
  "sha_schedule 0 w = rev w"
| "sha_schedule (Suc n) w =
     (let a = w ! 1; b = w ! 14;
          s1 = rotr 17 a XOR rotr 19 a XOR drop_bit 10 a;
          s0 = rotr 7 b XOR rotr 18 b XOR drop_bit 3 b
      in sha_schedule n ((s1 + w ! 6 + s0 + w ! 15) # w))"

fun sha_round :: "u32 list \<Rightarrow> u32 \<times> u32 \<Rightarrow> u32 list" where
  "sha_round [a, b, c, d, e, f, g, h] (k, w) =
     (let s1 = rotr 6 e XOR rotr 11 e XOR rotr 25 e;
          ch = (e AND f) XOR (NOT e AND g);
          t1 = h + s1 + ch + k + w;
          s0 = rotr 2 a XOR rotr 13 a XOR rotr 22 a;
          maj = (a AND b) XOR (a AND c) XOR (b AND c)
      in [t1 + (s0 + maj), a, b, c, d + t1, e, f, g])"
| "sha_round st _ = st"

definition sha_block :: "u32 list \<Rightarrow> u32 list \<Rightarrow> u32 list" where
  "sha_block st blk =
     map2 (+) st (foldl sha_round st (zip sha_k (sha_schedule 48 (rev blk))))"

definition Sum256 :: "string \<Rightarrow> string" where
  "Sum256 s =
     (let ws = be_words (sha_pad s);
          st = foldl sha_block sha_init (blocks (length ws div 16) ws)
      in concat (map (\<lambda>w. map char_of (be_bytes 4 w)) st))"

lemma length_be_bytes [simp]: "length (be_bytes k n) = k"
  by (simp add: be_bytes_def)

lemma length_sha_round [simp]: "length (sha_round st kw) = length st"
  by (cases "(st, kw)" rule: sha_round.cases) (auto simp: Let_def)

lemma length_foldl_sha_round [simp]: "length (foldl sha_round st ks) = length st"
  by (induction ks arbitrary: st) auto

lemma length_sha_block [simp]: "length (sha_block st blk) = length st"
  by (simp add: sha_block_def)

lemma length_foldl_sha_block [simp]: "length (foldl sha_block st bs) = length st"
  by (induction bs arbitrary: st) auto

lemma length_Sum256 [simp]: "length (Sum256 s) = 32"
proof -
  have "length (concat (map (\<lambda>w. map char_of (be_bytes 4 w) :: string) xs)) = 4 * length xs"
    for xs :: "u32 list"
    by (induction xs) auto
  then show ?thesis by (simp add: Sum256_def Let_def)
qed

end
