(* ===== verification/FragmentJson.thy ===== *)
theory FragmentJson
  imports Sha256
begin

text \<open>
  \<open>internal/fragment/json.go\<close> and \<open>internal/fragment/ccj1.go\<close>: the strict CCJ-1 JSON reader
  and the canonical writer behind the fragment digest.

  The reader's state \<open>*parser\<close> is the pair of \<open>p.pos\<close> and the unread suffix
  \<open>p.data[p.pos:]\<close>; the methods return the new state with their value. The recursion through
  \<open>value\<close>, \<open>object\<close> and \<open>array\<close> descends on the nesting levels left below \<open>maxDepth\<close>; the
  two \<open>for\<close> loops carry fuel, one unit per round, started at the number of unread bytes plus
  one, which \<open>ParseJSON_total\<close> shows is enough.
\<close>

section \<open>Values and errors\<close>

datatype jvalue =
  JNull
| JBool bool
| JInt int
| JString string
| JArray "jvalue list"
| JObject "(string \<times> jvalue) list"

datatype jkind = KindNull | KindBool | KindInt | KindString | KindArray | KindObject

fun Kind :: "jvalue \<Rightarrow> jkind" where
  "Kind JNull = KindNull"
| "Kind (JBool _) = KindBool"
| "Kind (JInt _) = KindInt"
| "Kind (JString _) = KindString"
| "Kind (JArray _) = KindArray"
| "Kind (JObject _) = KindObject"

text \<open>\<open>Value.Get\<close>: the first member of that key; a value that is not an object has none.\<close>

fun Get :: "jvalue \<Rightarrow> string \<Rightarrow> jvalue option" where
  "Get (JObject ms) key = map_of ms key"
| "Get _ key = None"

datatype jmsg =
  NestingDeeper | UnexpectedEnd | UnexpectedByte char | InvalidLiteral
| ExpectedKey | DuplicateKey string | ExpectedColon | EndInObject | ExpectedCommaInObject
| EndInArray | ExpectedCommaInArray
| InvalidNumber | LeadingZero | NonInteger | NegativeZero | OutsideRange
| UnterminatedString | RawControl | UnterminatedEscape | LoneHigh | HighWithoutLow | LoneLow
| InvalidEscape char | TruncatedHex | InvalidHex | TrailingContent

datatype jerr = ErrInvalidUTF8 | SyntaxError nat jmsg | OutOfFuel

type_synonym parser = "nat \<times> string"
type_synonym 'a jres = "jerr + ('a \<times> parser)"

definition maxDepth :: nat where
  "maxDepth = 64"

definition maxSafeInt :: int where
  "maxSafeInt = 9007199254740991"


section \<open>The reader\<close>

definition json_space :: "char \<Rightarrow> bool" where
  "json_space c \<longleftrightarrow> c = CHR '' '' \<or> c = CHR 0x09 \<or> c = CHR 0x0A \<or> c = CHR 0x0D"

fun skipSpace :: "parser \<Rightarrow> parser" where
  "skipSpace (n, []) = (n, [])"
| "skipSpace (n, c # cs) = (if json_space c then skipSpace (Suc n, cs) else (n, c # cs))"

definition p_literal :: "string \<Rightarrow> jvalue \<Rightarrow> parser \<Rightarrow> jvalue jres" where
  "p_literal word v = (\<lambda>(n, s).
     if length s < length word \<or> take (length word) s \<noteq> word then Inl (SyntaxError n InvalidLiteral)
     else Inr (v, (n + length word, drop (length word) s)))"

text \<open>
  \<open>number\<close>: the sign, then the digits, read from \<open>s\<close> at position \<open>n\<close>. The digits are one
  zero or a maximal run.
\<close>

definition digit_run :: "string \<Rightarrow> string" where
  "digit_run s = (case s of c # _ \<Rightarrow> if c = CHR ''0'' then [c] else takeWhile is_digit s | [] \<Rightarrow> [])"

definition next_is :: "string \<Rightarrow> string \<Rightarrow> bool" where
  "next_is s cs \<longleftrightarrow> (case s of c # _ \<Rightarrow> c \<in> set cs | [] \<Rightarrow> False)"

definition number_digits :: "bool \<Rightarrow> nat \<Rightarrow> string \<Rightarrow> jvalue jres" where
  "number_digits neg n s =
     res_bind (check (next_is s ''0123456789'') (SyntaxError n InvalidNumber)) (\<lambda>_.
     res_bind (check (\<not> (hd s = CHR ''0'' \<and> next_is (tl s) ''0123456789'')) (SyntaxError (Suc n) LeadingZero)) (\<lambda>_.
     let digits = digit_run s;
         n' = n + length digits;
         r = drop (length digits) s;
         v = int (dec_value digits)
     in res_bind (check (\<not> next_is r ''.eE'') (SyntaxError n' NonInteger)) (\<lambda>_.
        res_bind (check (\<not> (neg \<and> digits = ''0'')) (SyntaxError n' NegativeZero)) (\<lambda>_.
        res_bind (check (length digits \<le> 16) (SyntaxError n' OutsideRange)) (\<lambda>_.
        res_bind (check (v \<le> maxSafeInt) (SyntaxError n' OutsideRange)) (\<lambda>_.
        Inr (JInt (if neg then - v else v), (n', r))))))))"

definition p_number :: "parser \<Rightarrow> jvalue jres" where
  "p_number = (\<lambda>(n, s).
     if next_is s ''-'' then number_digits True (Suc n) (tl s)
     else number_digits False n s)"

fun hex4_digits :: "nat \<Rightarrow> string \<Rightarrow> nat option" where
  "hex4_digits r [] = Some r"
| "hex4_digits r (c # cs) =
     (case hex_value c of None \<Rightarrow> None | Some d \<Rightarrow> hex4_digits (r * 16 + d) cs)"

definition hex4 :: "parser \<Rightarrow> nat jres" where
  "hex4 = (\<lambda>(n, s).
     if length s < 4 then Inl (SyntaxError n TruncatedHex)
     else (case hex4_digits 0 (take 4 s) of
             None \<Rightarrow> Inl (SyntaxError n InvalidHex)
           | Some r \<Rightarrow> Inr (r, (n + 4, drop 4 s))))"

text \<open>The part of \<open>str\<close> after \<open>\u\<close>: one escape, or a surrogate pair of two.\<close>

definition unicode_escape :: "parser \<Rightarrow> string jres" where
  "unicode_escape p =
     res_bind (hex4 p) (\<lambda>(r, (n, s)).
       if 0xD800 \<le> r \<and> r \<le> 0xDBFF then
         if length s < 2 \<or> take 2 s \<noteq> [bslash, CHR ''u''] then Inl (SyntaxError n LoneHigh)
         else
           res_bind (hex4 (n + 2, drop 2 s)) (\<lambda>(lo, (n', s')).
             if lo < 0xDC00 \<or> 0xDFFF < lo then Inl (SyntaxError n' HighWithoutLow)
             else Inr (encode_rune (0x10000 + (r - 0xD800) * 1024 + (lo - 0xDC00)), (n', s')))
       else if 0xDC00 \<le> r \<and> r \<le> 0xDFFF then Inl (SyntaxError n LoneLow)
       else Inr (encode_rune r, (n, s)))"

text \<open>What follows a backslash: the bytes that the escape stands for.\<close>

definition str_escape :: "parser \<Rightarrow> string jres" where
  "str_escape = (\<lambda>(n, s).
     case s of
       [] \<Rightarrow> Inl (SyntaxError n UnterminatedEscape)
     | e # s' \<Rightarrow>
         let p = (Suc n, s')
         in if e = dquote \<or> e = bslash \<or> e = CHR ''/'' then Inr ([e], p)
            else if e = CHR ''b'' then Inr ([CHR 0x08], p)
            else if e = CHR ''f'' then Inr ([CHR 0x0C], p)
            else if e = CHR ''n'' then Inr ([CHR 0x0A], p)
            else if e = CHR ''r'' then Inr ([CHR 0x0D], p)
            else if e = CHR ''t'' then Inr ([CHR 0x09], p)
            else if e = CHR ''u'' then unicode_escape p
            else Inl (SyntaxError (Suc n) (InvalidEscape e)))"

text \<open>A state reached by reading at least \<open>k\<close> bytes.\<close>

definition advances :: "nat \<Rightarrow> parser \<Rightarrow> parser \<Rightarrow> bool" where
  "advances k p p' \<longleftrightarrow>
     (\<exists>pre. snd p = pre @ snd p' \<and> fst p' = fst p + length pre \<and> k \<le> length pre)"

lemma advancesI: "s = pre @ s' \<Longrightarrow> n' = n + length pre \<Longrightarrow> k \<le> length pre \<Longrightarrow> advances k (n, s) (n', s')"
  by (auto simp: advances_def)

lemma advances_refl [simp]: "advances 0 p p"
  by (simp add: advances_def)

lemma advances_trans: "advances j p q \<Longrightarrow> advances k q r \<Longrightarrow> m \<le> j + k \<Longrightarrow> advances m p r"
  by (auto simp: advances_def)

lemma advances_length: "advances k (n, s) (n', s') \<Longrightarrow> length s' + k \<le> length s"
  by (auto simp: advances_def)

lemma hex4_advances: "hex4 p = Inr (r, p') \<Longrightarrow> advances 4 p p'"
  by (auto simp: hex4_def advances_def split: if_splits option.splits prod.splits
      intro!: exI [of _ "take 4 (snd p)"])

lemma unicode_escape_advances: "unicode_escape p = Inr (bs, p') \<Longrightarrow> advances 4 p p'"
proof -
  assume a: "unicode_escape p = Inr (bs, p')"
  then obtain r n s where h: "hex4 p = Inr (r, (n, s))"
    by (auto simp: unicode_escape_def)
  have 1: "advances 4 p (n, s)" using hex4_advances [OF h] .
  show ?thesis
  proof (cases "0xD800 \<le> r \<and> r \<le> 0xDBFF")
    case True
    then obtain lo n' s' where h2: "hex4 (n + 2, drop 2 s) = Inr (lo, (n', s'))" "p' = (n', s')"
        "\<not> length s < 2"
      using a h by (auto simp: unicode_escape_def split: if_splits)
    have "advances 2 (n, s) (n + 2, drop 2 s)"
      by (rule advancesI [where pre = "take 2 s"]) (use h2(3) in auto)
    moreover have "advances 4 (n + 2, drop 2 s) p'" using hex4_advances [OF h2(1)] h2(2) by simp
    ultimately show ?thesis using 1 by (meson advances_trans le_add1 order_refl)
  next
    case False
    then have "p' = (n, s)" using a h by (auto simp: unicode_escape_def split: if_splits)
    with 1 show ?thesis by simp
  qed
qed

lemma str_escape_advances: "str_escape p = Inr (bs, p') \<Longrightarrow> advances 1 p p'"
proof -
  assume a: "str_escape p = Inr (bs, p')"
  obtain n s where p: "p = (n, s)" by (cases p)
  from a p obtain e s' where s: "s = e # s'" by (cases s) (auto simp: str_escape_def)
  have one: "advances 1 p (Suc n, s')"
    unfolding p s by (rule advancesI [where pre = "[e]"]) auto
  show ?thesis
  proof (cases "p' = (Suc n, s')")
    case True
    with one show ?thesis by simp
  next
    case False
    then have "unicode_escape (Suc n, s') = Inr (bs, p')"
      using a p s by (auto simp: str_escape_def Let_def split: if_splits)
    then have "advances 4 (Suc n, s') p'" by (rule unicode_escape_advances)
    with one show ?thesis by (rule advances_trans) simp
  qed
qed

lemma str_escape_length [termination_simp]:
  "str_escape (n, s) = Inr (bs, (n', s')) \<Longrightarrow> length s' < length s"
  using advances_length [OF str_escape_advances] by fastforce

function str_loop :: "string \<Rightarrow> parser \<Rightarrow> string jres" where
  "str_loop out (n, []) = Inl (SyntaxError n UnterminatedString)"
| "str_loop out (n, c # cs) =
     (if c = dquote then Inr (out, (Suc n, cs))
      else if byte c < 0x20 then Inl (SyntaxError n RawControl)
      else if c = bslash then
        res_bind (str_escape (Suc n, cs)) (\<lambda>(bs, p'). str_loop (out @ bs) p')
      else str_loop (out @ [c]) (Suc n, cs))"
  by pat_completeness auto
termination
  by (relation "measure (\<lambda>(out, n, s). length s)") (auto dest: str_escape_length)

text \<open>\<open>str\<close> starts at the opening quote.\<close>

definition p_str :: "parser \<Rightarrow> string jres" where
  "p_str = (\<lambda>(n, s). str_loop [] (Suc n, tl s))"

text \<open>
  The loops of \<open>object\<close> and \<open>array\<close>, over the reader \<open>val\<close> of the values one level deeper.
  \<open>seen\<close> is the set of the keys met so far, \<open>obj\<close> and \<open>arr\<close> the value built so far.
\<close>

fun p_members :: "(parser \<Rightarrow> jvalue jres) \<Rightarrow> nat \<Rightarrow> string set \<Rightarrow> (string \<times> jvalue) list \<Rightarrow> parser \<Rightarrow> jvalue jres"
where
  "p_members val 0 seen obj p = Inl OutOfFuel"
| "p_members val (Suc f) seen obj p =
     (case skipSpace p of (n1, s1) \<Rightarrow>
        if (case s1 of c # _ \<Rightarrow> c \<noteq> dquote | [] \<Rightarrow> True) then Inl (SyntaxError n1 ExpectedKey)
        else res_bind (p_str (n1, s1)) (\<lambda>(key, p2).
          if key \<in> seen then Inl (SyntaxError (fst p2) (DuplicateKey key))
          else (case skipSpace p2 of (n3, s3) \<Rightarrow>
            if (case s3 of c # _ \<Rightarrow> c \<noteq> CHR '':'' | [] \<Rightarrow> True) then Inl (SyntaxError n3 ExpectedColon)
            else res_bind (val (skipSpace (Suc n3, tl s3))) (\<lambda>(v, p4).
              (case skipSpace p4 of (n5, s5) \<Rightarrow>
                (case s5 of
                   [] \<Rightarrow> Inl (SyntaxError n5 EndInObject)
                 | c # s6 \<Rightarrow>
                     if c = CHR '','' then
                       p_members val f (insert key seen) (obj @ [(key, v)]) (Suc n5, s6)
                     else if c = CHR ''}'' then Inr (JObject (obj @ [(key, v)]), (Suc n5, s6))
                     else Inl (SyntaxError n5 ExpectedCommaInObject)))))))"

definition p_object :: "(parser \<Rightarrow> jvalue jres) \<Rightarrow> parser \<Rightarrow> jvalue jres" where
  "p_object val = (\<lambda>(n, s).
     (case skipSpace (Suc n, tl s) of (n1, s1) \<Rightarrow>
        if (case s1 of c # _ \<Rightarrow> c = CHR ''}'' | [] \<Rightarrow> False) then Inr (JObject [], (Suc n1, tl s1))
        else p_members val (length s1 + 1) {} [] (n1, s1)))"

fun p_elements :: "(parser \<Rightarrow> jvalue jres) \<Rightarrow> nat \<Rightarrow> jvalue list \<Rightarrow> parser \<Rightarrow> jvalue jres" where
  "p_elements val 0 arr p = Inl OutOfFuel"
| "p_elements val (Suc f) arr p =
     res_bind (val (skipSpace p)) (\<lambda>(el, p2).
       (case skipSpace p2 of (n3, s3) \<Rightarrow>
         (case s3 of
            [] \<Rightarrow> Inl (SyntaxError n3 EndInArray)
          | c # s4 \<Rightarrow>
              if c = CHR '','' then p_elements val f (arr @ [el]) (Suc n3, s4)
              else if c = CHR '']'' then Inr (JArray (arr @ [el]), (Suc n3, s4))
              else Inl (SyntaxError n3 ExpectedCommaInArray))))"

definition p_array :: "(parser \<Rightarrow> jvalue jres) \<Rightarrow> parser \<Rightarrow> jvalue jres" where
  "p_array val = (\<lambda>(n, s).
     (case skipSpace (Suc n, tl s) of (n1, s1) \<Rightarrow>
        if (case s1 of c # _ \<Rightarrow> c = CHR '']'' | [] \<Rightarrow> False) then Inr (JArray [], (Suc n1, tl s1))
        else p_elements val (length s1 + 1) [] (n1, s1)))"

text \<open>\<open>value(depth)\<close>; the argument is \<open>maxDepth - depth\<close>, the levels that are left.\<close>

fun p_value :: "nat \<Rightarrow> parser \<Rightarrow> jvalue jres" where
  "p_value 0 p = Inl (SyntaxError (fst p) NestingDeeper)"
| "p_value (Suc k) p =
     (case snd p of
        [] \<Rightarrow> Inl (SyntaxError (fst p) UnexpectedEnd)
      | c # _ \<Rightarrow>
          if c = CHR ''{'' then p_object (p_value k) p
          else if c = CHR ''['' then p_array (p_value k) p
          else if c = dquote then res_bind (p_str p) (\<lambda>(str, p'). Inr (JString str, p'))
          else if c = CHR ''t'' then p_literal ''true'' (JBool True) p
          else if c = CHR ''f'' then p_literal ''false'' (JBool False) p
          else if c = CHR ''n'' then p_literal ''null'' JNull p
          else if c = CHR ''-'' \<or> is_digit c then p_number p
          else Inl (SyntaxError (fst p) (UnexpectedByte c)))"

definition ParseJSON :: "string \<Rightarrow> jerr + jvalue" where
  "ParseJSON data =
     (if \<not> utf8_valid data then Inl ErrInvalidUTF8
      else res_bind (p_value maxDepth (skipSpace (0, data))) (\<lambda>(v, p).
        (case skipSpace p of (n, s) \<Rightarrow>
           if s \<noteq> [] then Inl (SyntaxError n TrailingContent) else Inr v)))"

section \<open>The canonical writer\<close>

text \<open>\<open>appendString\<close> and \<open>appendCanonical\<close> append to a buffer; the model gives what they append.\<close>

definition hexDigits :: string where
  "hexDigits = ''0123456789abcdef''"

definition escape_byte :: "char \<Rightarrow> string" where
  "escape_byte c =
     (if c = dquote then [bslash, dquote]
      else if c = bslash then [bslash, bslash]
      else if c = CHR 0x08 then [bslash, CHR ''b'']
      else if c = CHR 0x0C then [bslash, CHR ''f'']
      else if c = CHR 0x0A then [bslash, CHR ''n'']
      else if c = CHR 0x0D then [bslash, CHR ''r'']
      else if c = CHR 0x09 then [bslash, CHR ''t'']
      else if byte c < 0x20 then
        [bslash, CHR ''u'', CHR ''0'', CHR ''0'', hexDigits ! (byte c div 16), hexDigits ! (byte c mod 16)]
      else [c])"

definition appendString :: "string \<Rightarrow> string" where
  "appendString s = dquote # concat (map escape_byte s) @ [dquote]"

primrec appendCanonical :: "jvalue \<Rightarrow> string" where
  "appendCanonical JNull = ''null''"
| "appendCanonical (JBool b) = (if b then ''true'' else ''false'')"
| "appendCanonical (JInt i) = Itoa i"
| "appendCanonical (JString s) = appendString s"
| "appendCanonical (JArray vs) = ''['' @ Join (map appendCanonical vs) '','' @ '']''"
| "appendCanonical (JObject ms) =
     (let byKey = map (map_prod id appendCanonical) ms;
          keys = sort (map fst byKey)
      in ''{'' @ Join (map (\<lambda>k. appendString k @ '':'' @ the (map_of (rev byKey) k)) keys) '',''
         @ ''}'')"

fun stripSig :: "jvalue \<Rightarrow> jvalue" where
  "stripSig (JObject ms) = JObject (filter (\<lambda>(k, v). k \<noteq> ''sig'') ms)"
| "stripSig v = v"

definition Canonical :: "jvalue \<Rightarrow> string" where
  "Canonical v = appendCanonical (stripSig v)"

definition Digest :: "jvalue \<Rightarrow> string" where
  "Digest v = ''sha256:'' @ hex_EncodeToString (Sum256 (Canonical v))"

end
