(* ===== verification/FragmentJsonReader.thy ===== *)
theory FragmentJsonReader
  imports FragmentJson
begin

text \<open>
  What the CCJ-1 reader of \<open>internal/fragment/json.go\<close> guarantees: it always returns, it
  reads forward, and every value it returns is well formed (unique keys, safe integers, valid
  UTF-8 strings, bounded nesting). The two loops are verified once, in the locale
  \<open>value_reader\<close> of a reader for the values one level deeper, which \<open>value\<close> interprets at
  every depth.
\<close>

lemmas advances_chain = advances_trans [rotated -1]

section \<open>Progress of the elementary readers\<close>

lemma skipSpace_advances: "advances 0 p (skipSpace p)"
proof (induction p rule: skipSpace.induct)
  case (2 n c cs)
  have "advances 0 (n, c # cs) (Suc n, cs)" by (rule advancesI [where pre = "[c]"]) auto
  with 2 show ?case by (auto intro: advances_trans)
qed simp

lemma skipSpace_head: "skipSpace p = (n, c # s) \<Longrightarrow> \<not> json_space c"
  by (induction p rule: skipSpace.induct) (auto split: if_splits)

lemma advances_tl: "s \<noteq> [] \<Longrightarrow> advances 1 (n, s) (Suc n, tl s)"
  by (rule advancesI [where pre = "[hd s]"]) auto

lemma advances_open: "advances 1 (n, c # s) (skipSpace (Suc n, s))"
proof -
  have "advances 1 (n, c # s) (Suc n, s)" by (rule advancesI [where pre = "[c]"]) auto
  then show ?thesis using skipSpace_advances by (rule advances_trans) simp
qed

lemma str_loop_advances: "str_loop out p = Inr (r, p') \<Longrightarrow> advances 1 p p'"
proof (induction out p rule: str_loop.induct)
  case (2 out n c cs)
  have one: "advances 1 (n, c # cs) (Suc n, cs)" by (rule advancesI [where pre = "[c]"]) auto
  show ?case
  proof (cases "c = dquote \<or> byte c < 0x20")
    case True
    with "2.prems" one show ?thesis by (auto split: if_splits)
  next
    case nq: False
    show ?thesis
    proof (cases "c = bslash")
      case True
      with nq "2.prems" obtain bs q where e: "str_escape (Suc n, cs) = Inr (bs, q)"
        and l: "str_loop (out @ bs) q = Inr (r, p')"
        by (auto split: if_splits)
      have "advances 1 q p'" using "2.IH"(1) nq True e l by simp
      moreover have "advances 1 (Suc n, cs) q" using str_escape_advances [OF e] .
      ultimately show ?thesis using one by (meson advances_trans le_add1 order_refl)
    next
      case False
      with nq "2.prems" have "str_loop (out @ [c]) (Suc n, cs) = Inr (r, p')" by simp
      then have "advances 1 (Suc n, cs) p'" using "2.IH"(2) nq False by simp
      with one show ?thesis by (rule advances_trans) simp
    qed
  qed
qed simp

lemma p_str_advances: "p_str (n, s) = Inr (r, p') \<Longrightarrow> s \<noteq> [] \<Longrightarrow> advances 2 (n, s) p'"
proof -
  assume a: "p_str (n, s) = Inr (r, p')" and "s \<noteq> []"
  then have "advances 1 (n, s) (Suc n, tl s)" by (intro advances_tl)
  moreover have "str_loop [] (Suc n, tl s) = Inr (r, p')" using a by (simp add: p_str_def)
  then have "advances 1 (Suc n, tl s) p'" by (rule str_loop_advances)
  ultimately show ?thesis by (rule advances_trans) simp
qed

lemma p_literal_advances:
  "p_literal w v p = Inr (v', p') \<Longrightarrow> w \<noteq> [] \<Longrightarrow> advances 1 p p' \<and> v' = v"
  by (cases p) (auto simp: p_literal_def advances_def Suc_le_eq split: if_splits
      intro!: exI [of _ w], metis append_take_drop_id)

lemma is_digit_iff: "is_digit c \<longleftrightarrow> c \<in> set ''0123456789''"
proof
  assume "is_digit c"
  then have "byte c \<in> {48..57}" by (simp add: is_digit_byte)
  then have "byte c \<in> {48, 49, 50, 51, 52, 53, 54, 55, 56, 57}"
    by (simp only: atLeastAtMost_iff insert_iff empty_iff) presburger
  then have "byte c \<in> byte ` set ''0123456789''" by simp
  then show "c \<in> set ''0123456789''" by (auto simp only: image_iff byte_inject)
qed (auto simp: is_digit_def)

lemma next_is_digit:
  assumes "next_is s ''0123456789''"
  obtains c cs where "s = c # cs" "is_digit c"
  using assms by (cases s) (auto simp: next_is_def is_digit_iff)

lemma number_digits_shape:
  assumes "number_digits neg n s = Inr (v, p')"
  obtains ds where "ds \<noteq> []" "\<forall>c \<in> set ds. is_digit c" "s = ds @ snd p'"
    "fst p' = n + length ds" "v = JInt (if neg then - int (dec_value ds) else int (dec_value ds))"
    "int (dec_value ds) \<le> maxSafeInt"
proof -
  from assms have "next_is s ''0123456789''" by (simp add: number_digits_def)
  then obtain c cs where c: "s = c # cs" "is_digit c" by (rule next_is_digit)
  let ?ds = "digit_run s"
  have ds: "?ds \<noteq> []" "\<forall>c \<in> set ?ds. is_digit c" "s = ?ds @ drop (length ?ds) s"
    using c by (auto simp: digit_run_def dropWhile_eq_drop [symmetric] dest: set_takeWhileD)
  have "p' = (n + length ?ds, drop (length ?ds) s)" "int (dec_value ?ds) \<le> maxSafeInt"
    "v = JInt (if neg then - int (dec_value ?ds) else int (dec_value ?ds))"
    using assms by (simp_all only: number_digits_def res_bind_Inr check_Inr Let_def) clarify+
  with ds show ?thesis by (intro that [of ?ds]) simp_all
qed

lemma p_number_cases:
  assumes "p_number p = Inr (v, p')"
  obtains neg n s where "number_digits neg n s = Inr (v, p')"
    "snd p = (if neg then [CHR ''-''] else []) @ s" "n = fst p + (if neg then 1 else 0)"
proof (cases "\<exists>s. snd p = CHR ''-'' # s")
  case True
  with assms show ?thesis by (intro that [of True "Suc (fst p)" "tl (snd p)"]) (auto simp: p_number_def next_is_def split: prod.splits)
next
  case False
  with assms show ?thesis
    by (intro that [of False "fst p" "snd p"])
      (auto simp: p_number_def next_is_def split: prod.splits list.splits if_splits)
qed

lemma p_number_advances: "p_number p = Inr (v, p') \<Longrightarrow> advances 1 p p'"
proof -
  assume "p_number p = Inr (v, p')"
  then obtain neg n s where d: "number_digits neg n s = Inr (v, p')"
    and s: "snd p = (if neg then [CHR ''-''] else []) @ s" "n = fst p + (if neg then 1 else 0)"
    by (rule p_number_cases)
  from d obtain ds where "ds \<noteq> []" "s = ds @ snd p'" "fst p' = n + length ds"
    by (rule number_digits_shape)
  with s show ?thesis
    by (auto simp: advances_def Suc_le_eq intro!: exI [of _ "(if neg then [CHR ''-''] else []) @ ds"])
qed

section \<open>Strings stay valid UTF-8\<close>

lemma json_space_ascii: "json_space c \<Longrightarrow> byte c < 0x80"
  by (auto simp: json_space_def)

lemma skipSpace_utf8: "utf8_valid (snd p) \<Longrightarrow> utf8_valid (snd (skipSpace p))"
  by (induction p rule: skipSpace.induct) (auto simp: utf8_valid_ascii_Cons json_space_ascii)

lemma hex_value_ascii: "hex_value c = Some d \<Longrightarrow> byte c < 0x80"
  by (auto simp: hex_value_def less_eq_char_byte split: if_splits)

lemma hex4_digits_ascii: "hex4_digits r s = Some v \<Longrightarrow> \<forall>c \<in> set s. byte c < 0x80"
  by (induction r s rule: hex4_digits.induct) (auto split: option.splits dest: hex_value_ascii)

lemma hex4_utf8: "hex4 p = Inr (r, p') \<Longrightarrow> utf8_valid (snd p) \<Longrightarrow> utf8_valid (snd p')"
  by (cases p) (auto simp: hex4_def split: if_splits option.splits
      intro!: utf8_drop_ascii dest: hex4_digits_ascii)

lemma unicode_escape_utf8:
  assumes "unicode_escape p = Inr (bs, p')" "utf8_valid (snd p)"
  shows "utf8_valid bs \<and> utf8_valid (snd p')"
proof -
  from assms(1) obtain r n s where h: "hex4 p = Inr (r, (n, s))"
    by (auto simp: unicode_escape_def)
  have s: "utf8_valid s" using hex4_utf8 [OF h assms(2)] by simp
  show ?thesis
  proof (cases "0xD800 \<le> r \<and> r \<le> 0xDBFF")
    case True
    then obtain lo n' s' where h2: "hex4 (n + 2, drop 2 s) = Inr (lo, (n', s'))" "p' = (n', s')"
        "take 2 s = [bslash, CHR ''u'']" "\<exists>u. bs = encode_rune u"
      using assms(1) h by (auto simp: unicode_escape_def split: if_splits)
    have "utf8_valid (drop 2 s)" by (rule utf8_drop_ascii [OF s]) (simp add: h2(3))
    with hex4_utf8 [OF h2(1)] h2 show ?thesis by (auto simp: utf8_valid_encode_rune)
  next
    case False
    with assms(1) h s show ?thesis
      by (auto simp: unicode_escape_def utf8_valid_encode_rune split: if_splits)
  qed
qed

lemma str_escape_utf8:
  assumes "str_escape p = Inr (bs, p')" "utf8_valid (snd p)"
  shows "utf8_valid bs \<and> utf8_valid (snd p')"
proof -
  obtain n e s where p: "p = (n, e # s)"
    using assms(1) by (cases p) (auto simp: str_escape_def split: list.splits)
  show ?thesis
  proof (cases "e = CHR ''u''")
    case True
    with assms p show ?thesis
      by (auto simp: str_escape_def Let_def utf8_valid_ascii_Cons dest: unicode_escape_utf8)
  next
    case False
    with assms p show ?thesis
      by (auto simp: str_escape_def Let_def utf8_valid_ascii_Cons split: if_splits)
  qed
qed

text \<open>
  The bytes copied so far leave the automaton in the state from which the rest of the input
  completes it; at a quote or a backslash that state can only be the initial one.
\<close>

lemma str_loop_utf8:
  assumes "str_loop out p = Inr (r, p')" "utf8_run Start out = Some st"
    and "utf8_run st (snd p) = Some Start"
  shows "utf8_valid r \<and> utf8_valid (snd p')"
  using assms
proof (induction out p arbitrary: st rule: str_loop.induct)
  case (2 out n c cs)
  show ?case
  proof (cases "c = dquote \<or> c = bslash")
    case True
    then have ascii: "byte c < 0x80" by auto
    with "2.prems"(3) have st: "st = Start" and cs: "utf8_valid cs"
      by (auto simp: utf8_step_ascii utf8_valid_def split: if_splits)
    with "2.prems"(2) have out: "utf8_valid out" by (simp add: utf8_valid_def)
    show ?thesis
    proof (cases "c = dquote")
      case True
      with "2.prems"(1) out cs show ?thesis by auto
    next
      case False
      with True have c: "c = bslash" by simp
      with "2.prems"(1) obtain bs q where e: "str_escape (Suc n, cs) = Inr (bs, q)"
        and l: "str_loop (out @ bs) q = Inr (r, p')"
        by (auto split: if_splits)
      have u: "utf8_valid bs" "utf8_valid (snd q)" using str_escape_utf8 [OF e] cs by auto
      have "\<not> byte c < 0x20" using c by simp
      then show ?thesis
        using "2.IH"(1) [OF False _ c e, of bs q] l utf8_valid_append [OF out u(1)] u(2)
        by (auto simp: utf8_valid_def)
    qed
  next
    case False
    with "2.prems"(1) have nc: "\<not> byte c < 0x20" and l: "str_loop (out @ [c]) (Suc n, cs) = Inr (r, p')"
      by (auto split: if_splits)
    from "2.prems"(3) obtain st' where st': "utf8_step st (byte c) = Some st'"
        "utf8_run st' cs = Some Start"
      by (auto split: option.splits)
    have "utf8_run Start (out @ [c]) = Some st'"
      using "2.prems"(2) st'(1) by (simp add: utf8_run_append)
    with "2.IH"(2) False nc l st'(2) show ?thesis by simp
  qed
qed simp

lemma p_str_utf8:
  assumes "p_str (n, dquote # s) = Inr (r, p')" "utf8_valid (dquote # s)"
  shows "utf8_valid r \<and> utf8_valid (snd p')"
  using assms str_loop_utf8 [of "[]" "(Suc n, s)" r p' Start]
  by (auto simp: p_str_def utf8_valid_def utf8_step_ascii)

section \<open>The elementary readers never run out of fuel\<close>

lemma unicode_escape_total: "unicode_escape p \<noteq> Inl OutOfFuel"
  by (auto simp: unicode_escape_def hex4_def res_bind_Inl split: if_splits option.splits prod.splits)

lemma str_escape_total: "str_escape p \<noteq> Inl OutOfFuel"
  by (cases p) (auto simp: str_escape_def Let_def unicode_escape_total split: list.splits)

lemma str_loop_total: "str_loop out p \<noteq> Inl OutOfFuel"
  by (induction out p rule: str_loop.induct) (auto simp: res_bind_Inl str_escape_total)

lemma p_str_total: "p_str p \<noteq> Inl OutOfFuel"
  by (cases p) (simp add: p_str_def str_loop_total)

lemma p_number_total: "p_number p \<noteq> Inl OutOfFuel"
  by (cases p) (simp add: p_number_def number_digits_def res_bind_Inl Let_def)

lemma p_literal_total: "p_literal w v p \<noteq> Inl OutOfFuel"
  by (cases p) (simp add: p_literal_def)

section \<open>Well-formed values\<close>

text \<open>
  What a value of a document looks like with \<open>k\<close> nesting levels left: the reader rules of
  the CCJ-1 registry, as the comment of \<open>ParseJSON\<close> lists them.
\<close>

fun jwf :: "nat \<Rightarrow> jvalue \<Rightarrow> bool" where
  "jwf 0 v \<longleftrightarrow> False"
| "jwf (Suc k) JNull \<longleftrightarrow> True"
| "jwf (Suc k) (JBool b) \<longleftrightarrow> True"
| "jwf (Suc k) (JInt i) \<longleftrightarrow> \<bar>i\<bar> \<le> maxSafeInt"
| "jwf (Suc k) (JString s) \<longleftrightarrow> utf8_valid s"
| "jwf (Suc k) (JArray vs) \<longleftrightarrow> (\<forall>v \<in> set vs. jwf k v)"
| "jwf (Suc k) (JObject ms) \<longleftrightarrow>
     distinct (map fst ms) \<and> (\<forall>(key, v) \<in> set ms. utf8_valid key \<and> jwf k v)"

lemma jwf_code [code]:
  "jwf k v \<longleftrightarrow> 0 < k \<and>
     (case v of
        JNull \<Rightarrow> True
      | JBool b \<Rightarrow> True
      | JInt i \<Rightarrow> \<bar>i\<bar> \<le> maxSafeInt
      | JString s \<Rightarrow> utf8_valid s
      | JArray vs \<Rightarrow> list_all (jwf (k - 1)) vs
      | JObject ms \<Rightarrow> distinct (map fst ms) \<and> list_all (\<lambda>(key, v). utf8_valid key \<and> jwf (k - 1) v) ms)"
  by (cases k; cases v) (auto simp: list_all_iff)

section \<open>The loops, over any reader of the inner values\<close>

locale value_reader =
  fixes val :: "parser \<Rightarrow> jvalue jres" and ok :: "jvalue \<Rightarrow> bool"
  assumes val_advances: "val p = Inr (v, p') \<Longrightarrow> advances 1 p p'"
    and val_total: "val p \<noteq> Inl OutOfFuel"
    and val_sound: "val p = Inr (v, p') \<Longrightarrow> utf8_valid (snd p) \<Longrightarrow> ok v \<and> utf8_valid (snd p')"
begin

text \<open>One round of the loop of \<open>object\<close>: a member, then a comma or the closing brace.\<close>

lemma members_step:
  assumes "p_members val (Suc f) seen obj p = Inr (v, p')"
  obtains key x s6 n1 s1 p2 n3 s3 p4 n5 where
    "skipSpace p = (n1, dquote # s1)" "p_str (n1, dquote # s1) = Inr (key, p2)" "key \<notin> seen"
    "skipSpace p2 = (n3, CHR '':'' # s3)" "val (skipSpace (Suc n3, s3)) = Inr (x, p4)"
    "skipSpace p4 = (n5, CHR '','' # s6) \<and>
       p_members val f (insert key seen) (obj @ [(key, x)]) (Suc n5, s6) = Inr (v, p') \<or>
     skipSpace p4 = (n5, CHR ''}'' # s6) \<and> v = JObject (obj @ [(key, x)]) \<and> p' = (Suc n5, s6)"
proof -
  obtain n1 t1 where 1: "skipSpace p = (n1, t1)" by fastforce
  with assms obtain s1 where t1: "t1 = dquote # s1"
    by (cases t1) (auto split: if_splits)
  with assms 1 obtain key p2 where 2: "p_str (n1, dquote # s1) = Inr (key, p2)" "key \<notin> seen"
    by (auto split: if_splits)
  obtain n3 t3 where 3: "skipSpace p2 = (n3, t3)" by fastforce
  with assms 1 t1 2 obtain s3 where t3: "t3 = CHR '':'' # s3"
    by (cases t3) (auto split: if_splits)
  with assms 1 t1 2 3 obtain x p4 where 4: "val (skipSpace (Suc n3, s3)) = Inr (x, p4)"
    by (auto split: if_splits)
  obtain n5 t5 where 5: "skipSpace p4 = (n5, t5)" by fastforce
  with assms 1 t1 2 3 t3 4 obtain c s6 where t5: "t5 = c # s6" by (cases t5) auto
  show ?thesis
    by (rule that [OF 1 [unfolded t1] 2 3 [unfolded t3] 4, of n5 s6])
      (use assms 1 t1 2 3 t3 4 5 t5 in \<open>auto split: if_splits\<close>)
qed

lemma member_progress:
  assumes "skipSpace p = (n1, dquote # s1)" "p_str (n1, dquote # s1) = Inr (key, p2)"
    "skipSpace p2 = (n3, c # s3)" "val (skipSpace (Suc n3, s3)) = Inr (x, p4)"
    "skipSpace p4 = (n5, d # s6)"
  shows "advances 3 p (Suc n5, s6)"
proof -
  have "advances 0 p (n1, dquote # s1)" using skipSpace_advances [of p] assms(1) by simp
  moreover have "advances 2 (n1, dquote # s1) p2" using p_str_advances assms(2) by blast
  ultimately have "advances 2 p p2" by (rule advances_trans) simp
  moreover have "advances 0 p2 (n3, c # s3)" using skipSpace_advances [of p2] assms(3) by simp
  ultimately have "advances 2 p (n3, c # s3)" by (rule advances_trans) simp
  moreover have "advances 0 (n3, c # s3) (skipSpace (Suc n3, s3))"
    using advances_tl [of "c # s3" n3] skipSpace_advances
    by (metis advances_trans le0 list.sel(3) neq_Nil_conv)
  ultimately have "advances 2 p (skipSpace (Suc n3, s3))" by (rule advances_trans) simp
  moreover have "advances 1 (skipSpace (Suc n3, s3)) p4" using val_advances assms(4) by blast
  ultimately have "advances 2 p p4" by (rule advances_trans) simp
  moreover have "advances 0 p4 (n5, d # s6)" using skipSpace_advances [of p4] assms(5) by simp
  ultimately have "advances 2 p (n5, d # s6)" by (rule advances_trans) simp
  moreover have "advances 1 (n5, d # s6) (Suc n5, s6)"
    using advances_tl [of "d # s6" n5] by simp
  ultimately show ?thesis by (rule advances_trans) simp
qed

lemma members_advances: "p_members val f seen obj p = Inr (v, p') \<Longrightarrow> advances 1 p p'"
proof (induction f arbitrary: seen obj p)
  case (Suc f)
  from Suc.prems show ?case
  proof (rule members_step)
    fix key x s6 n1 s1 p2 n3 s3 p4 n5
    assume a: "skipSpace p = (n1, dquote # s1)" "p_str (n1, dquote # s1) = Inr (key, p2)"
      "skipSpace p2 = (n3, CHR '':'' # s3)" "val (skipSpace (Suc n3, s3)) = Inr (x, p4)"
    assume d: "skipSpace p4 = (n5, CHR '','' # s6) \<and>
       p_members val f (insert key seen) (obj @ [(key, x)]) (Suc n5, s6) = Inr (v, p') \<or>
     skipSpace p4 = (n5, CHR ''}'' # s6) \<and> v = JObject (obj @ [(key, x)]) \<and> p' = (Suc n5, s6)"
    have 3: "advances 3 p (Suc n5, s6)" using member_progress [OF a] d by blast
    from d show "advances 1 p p'"
    proof
      assume "skipSpace p4 = (n5, CHR '','' # s6) \<and>
        p_members val f (insert key seen) (obj @ [(key, x)]) (Suc n5, s6) = Inr (v, p')"
      then have "advances 1 (Suc n5, s6) p'" using Suc.IH by blast
      with 3 show ?thesis by (rule advances_trans) simp
    next
      assume "skipSpace p4 = (n5, CHR ''}'' # s6) \<and> v = JObject (obj @ [(key, x)]) \<and> p' = (Suc n5, s6)"
      then have "advances 3 p p'" using 3 by simp
      then show ?thesis by (rule advances_trans [OF _ advances_refl]) simp
    qed
  qed
qed simp

text \<open>The fuel of a loop that starts with more fuel than unread bytes never runs out.\<close>

lemma members_total:
  "length (snd p) < f \<Longrightarrow> p_members val f seen obj p \<noteq> Inl OutOfFuel"
proof (induction f arbitrary: seen obj p)
  case (Suc f)
  obtain n1 t1 where 1: "skipSpace p = (n1, t1)" by fastforce
  show ?case
  proof
    assume a: "p_members val (Suc f) seen obj p = Inl OutOfFuel"
    with 1 obtain s1 where t1: "t1 = dquote # s1"
      by (cases t1) (auto split: if_splits)
    from a 1 t1 obtain key p2 where 2: "p_str (n1, dquote # s1) = Inr (key, p2)" "key \<notin> seen"
      by (auto simp: res_bind_Inl p_str_total split: if_splits)
    obtain n3 t3 where 3: "skipSpace p2 = (n3, t3)" by fastforce
    with a 1 t1 2 obtain s3 where t3: "t3 = CHR '':'' # s3"
      by (cases t3) (auto split: if_splits)
    from a 1 t1 2 3 t3 obtain x p4 where 4: "val (skipSpace (Suc n3, s3)) = Inr (x, p4)"
      by (auto simp: res_bind_Inl val_total split: if_splits)
    obtain n5 t5 where 5: "skipSpace p4 = (n5, t5)" by fastforce
    with a 1 t1 2 3 t3 4 obtain s6 where t5: "t5 = CHR '','' # s6"
      and r: "p_members val f (insert key seen) (obj @ [(key, x)]) (Suc n5, s6) = Inl OutOfFuel"
      by (cases t5) (auto split: if_splits)
    have "advances 3 p (Suc n5, s6)"
      using member_progress 1 t1 2(1) 3 t3 4 5 t5 by blast
    then have "length s6 < f" using Suc.prems advances_length [of 3 "fst p" "snd p"] by fastforce
    then show False using Suc.IH r by simp
  qed
qed simp

lemma members_sound:
  assumes "p_members val f seen obj p = Inr (v, p')" "utf8_valid (snd p)"
    and "seen = set (map fst obj)" "distinct (map fst obj)"
    and "\<forall>(key, x) \<in> set obj. utf8_valid key \<and> ok x"
  shows "\<exists>ms. v = JObject ms \<and> distinct (map fst ms) \<and>
           (\<forall>(key, x) \<in> set ms. utf8_valid key \<and> ok x) \<and> utf8_valid (snd p')"
  using assms
proof (induction f arbitrary: seen obj p)
  case (Suc f)
  from Suc.prems(1) show ?case
  proof (rule members_step)
    fix key x s6 n1 s1 p2 n3 s3 p4 n5
    assume a: "skipSpace p = (n1, dquote # s1)" "p_str (n1, dquote # s1) = Inr (key, p2)"
      "key \<notin> seen" "skipSpace p2 = (n3, CHR '':'' # s3)"
      "val (skipSpace (Suc n3, s3)) = Inr (x, p4)"
    assume d: "skipSpace p4 = (n5, CHR '','' # s6) \<and>
       p_members val f (insert key seen) (obj @ [(key, x)]) (Suc n5, s6) = Inr (v, p') \<or>
     skipSpace p4 = (n5, CHR ''}'' # s6) \<and> v = JObject (obj @ [(key, x)]) \<and> p' = (Suc n5, s6)"
    have "utf8_valid (dquote # s1)" using skipSpace_utf8 [OF Suc.prems(2)] a(1) by simp
    then have key: "utf8_valid key" "utf8_valid (snd p2)" using p_str_utf8 a(2) by blast+
    then have "utf8_valid s3" using skipSpace_utf8 [of p2] a(4) by (simp add: utf8_valid_ascii_Cons)
    then have x: "ok x" "utf8_valid (snd p4)"
      using val_sound [OF a(5)] skipSpace_utf8 [of "(Suc n3, s3)"] by auto
    have s6: "utf8_valid s6"
      using skipSpace_utf8 [OF x(2)] d by (auto simp: utf8_valid_ascii_Cons)
    have obj: "insert key seen = set (map fst (obj @ [(key, x)]))"
      "distinct (map fst (obj @ [(key, x)]))"
      "\<forall>(key, x) \<in> set (obj @ [(key, x)]). utf8_valid key \<and> ok x"
      using Suc.prems(3,4,5) a(3) key x by auto
    from d show ?thesis
    proof
      assume "skipSpace p4 = (n5, CHR '','' # s6) \<and>
        p_members val f (insert key seen) (obj @ [(key, x)]) (Suc n5, s6) = Inr (v, p')"
      then show ?thesis using s6 by (intro Suc.IH [OF _ _ obj]) auto
    next
      assume "skipSpace p4 = (n5, CHR ''}'' # s6) \<and> v = JObject (obj @ [(key, x)]) \<and> p' = (Suc n5, s6)"
      then show ?thesis using obj s6 by auto
    qed
  qed
qed simp

lemma elements_step:
  assumes "p_elements val (Suc f) arr p = Inr (v, p')"
  obtains x p2 n3 s4 where "val (skipSpace p) = Inr (x, p2)"
    "skipSpace p2 = (n3, CHR '','' # s4) \<and> p_elements val f (arr @ [x]) (Suc n3, s4) = Inr (v, p') \<or>
     skipSpace p2 = (n3, CHR '']'' # s4) \<and> v = JArray (arr @ [x]) \<and> p' = (Suc n3, s4)"
proof -
  from assms obtain x p2 where 1: "val (skipSpace p) = Inr (x, p2)" by auto
  obtain n3 t3 where 2: "skipSpace p2 = (n3, t3)" by fastforce
  with assms 1 obtain c s4 where t3: "t3 = c # s4" by (cases t3) auto
  show ?thesis
    by (rule that [OF 1, of n3 s4]) (use assms 1 2 t3 in \<open>auto split: if_splits\<close>)
qed

lemma element_progress:
  assumes "val (skipSpace p) = Inr (x, p2)" "skipSpace p2 = (n3, c # s4)"
  shows "advances 2 p (Suc n3, s4)"
proof -
  have "advances 1 p p2"
    using skipSpace_advances val_advances [OF assms(1)] by (rule advances_trans) simp
  moreover have "advances 0 p2 (n3, c # s4)" using skipSpace_advances [of p2] assms(2) by simp
  ultimately have "advances 1 p (n3, c # s4)" by (rule advances_trans) simp
  moreover have "advances 1 (n3, c # s4) (Suc n3, s4)"
    using advances_tl [of "c # s4" n3] by simp
  ultimately show ?thesis by (rule advances_trans) simp
qed

lemma elements_advances: "p_elements val f arr p = Inr (v, p') \<Longrightarrow> advances 1 p p'"
proof (induction f arbitrary: arr p)
  case (Suc f)
  from Suc.prems show ?case
  proof (rule elements_step)
    fix x p2 n3 s4
    assume a: "val (skipSpace p) = Inr (x, p2)"
    assume d: "skipSpace p2 = (n3, CHR '','' # s4) \<and> p_elements val f (arr @ [x]) (Suc n3, s4) = Inr (v, p') \<or>
      skipSpace p2 = (n3, CHR '']'' # s4) \<and> v = JArray (arr @ [x]) \<and> p' = (Suc n3, s4)"
    have 2: "advances 2 p (Suc n3, s4)" using element_progress [OF a] d by blast
    from d show "advances 1 p p'"
    proof
      assume "skipSpace p2 = (n3, CHR '','' # s4) \<and> p_elements val f (arr @ [x]) (Suc n3, s4) = Inr (v, p')"
      then have "advances 1 (Suc n3, s4) p'" using Suc.IH by blast
      with 2 show ?thesis by (rule advances_trans) simp
    next
      assume "skipSpace p2 = (n3, CHR '']'' # s4) \<and> v = JArray (arr @ [x]) \<and> p' = (Suc n3, s4)"
      then have "advances 2 p p'" using 2 by simp
      then show ?thesis by (rule advances_trans [OF _ advances_refl]) simp
    qed
  qed
qed simp

lemma elements_total: "length (snd p) < f \<Longrightarrow> p_elements val f arr p \<noteq> Inl OutOfFuel"
proof (induction f arbitrary: arr p)
  case (Suc f)
  show ?case
  proof
    assume a: "p_elements val (Suc f) arr p = Inl OutOfFuel"
    then obtain x p2 where 1: "val (skipSpace p) = Inr (x, p2)"
      by (auto simp: res_bind_Inl val_total)
    obtain n3 t3 where 2: "skipSpace p2 = (n3, t3)" by fastforce
    with a 1 obtain s4 where t3: "t3 = CHR '','' # s4"
      and r: "p_elements val f (arr @ [x]) (Suc n3, s4) = Inl OutOfFuel"
      by (cases t3) (auto split: if_splits)
    have "advances 2 p (Suc n3, s4)" using element_progress [OF 1] 2 t3 by simp
    then have "length s4 < f" using Suc.prems advances_length [of 2 "fst p" "snd p"] by fastforce
    then show False using Suc.IH r by simp
  qed
qed simp

lemma elements_sound:
  assumes "p_elements val f arr p = Inr (v, p')" "utf8_valid (snd p)" "\<forall>x \<in> set arr. ok x"
  shows "\<exists>vs. v = JArray vs \<and> (\<forall>x \<in> set vs. ok x) \<and> utf8_valid (snd p')"
  using assms
proof (induction f arbitrary: arr p)
  case (Suc f)
  from Suc.prems(1) show ?case
  proof (rule elements_step)
    fix x p2 n3 s4
    assume a: "val (skipSpace p) = Inr (x, p2)"
    assume d: "skipSpace p2 = (n3, CHR '','' # s4) \<and> p_elements val f (arr @ [x]) (Suc n3, s4) = Inr (v, p') \<or>
      skipSpace p2 = (n3, CHR '']'' # s4) \<and> v = JArray (arr @ [x]) \<and> p' = (Suc n3, s4)"
    have x: "ok x" "utf8_valid (snd p2)"
      using val_sound [OF a skipSpace_utf8 [OF Suc.prems(2)]] by auto
    have "utf8_valid s4" using skipSpace_utf8 [OF x(2)] d by (auto simp: utf8_valid_ascii_Cons)
    with d x Suc.prems(3) show ?thesis
      using Suc.IH [of "arr @ [x]" "(Suc n3, s4)"] by auto
  qed
qed simp

text \<open>\<open>object\<close> and \<open>array\<close> start their loops with enough fuel.\<close>

lemma object_reader:
  assumes "snd p \<noteq> []"
  shows "p_object val p \<noteq> Inl OutOfFuel"
    and "p_object val p = Inr (v, p') \<Longrightarrow> advances 1 p p'"
    and "p_object val p = Inr (v, p') \<Longrightarrow> byte (hd (snd p)) < 0x80 \<Longrightarrow> utf8_valid (snd p) \<Longrightarrow>
      \<exists>ms. v = JObject ms \<and> distinct (map fst ms) \<and>
           (\<forall>(key, x) \<in> set ms. utf8_valid key \<and> ok x) \<and> utf8_valid (snd p')"
proof -
  obtain n c s where p: "p = (n, c # s)" using assms by (cases p) (auto simp: neq_Nil_conv)
  obtain n1 s1 where 1: "skipSpace (Suc n, s) = (n1, s1)" by fastforce
  have 2: "advances 1 p (n1, s1)"
    using advances_open [of n c s] 1 p by simp
  note defs = p_object_def p 1
  show "p_object val p \<noteq> Inl OutOfFuel"
    using members_total [of "(n1, s1)" "length s1 + 1"] by (simp add: defs del: p_members.simps)
  assume r: "p_object val p = Inr (v, p')"
  show "advances 1 p p'"
  proof (cases "case s1 of c # _ \<Rightarrow> c = CHR ''}'' | [] \<Rightarrow> False")
    case True
    then have "advances 1 (n1, s1) (Suc n1, tl s1)" by (intro advances_tl) auto
    with 2 have "advances 1 p (Suc n1, tl s1)" by (rule advances_trans) simp
    with r True show ?thesis by (simp add: defs)
  next
    case False
    with r have "p_members val (length s1 + 1) {} [] (n1, s1) = Inr (v, p')" by (simp add: defs)
    then have "advances 1 (n1, s1) p'" by (rule members_advances)
    with 2 show ?thesis by (rule advances_trans) simp
  qed
  assume u: "byte (hd (snd p)) < 0x80" "utf8_valid (snd p)"
  then have s1: "utf8_valid s1"
    using skipSpace_utf8 [of "(Suc n, s)"] 1 p by (simp add: utf8_valid_ascii_Cons)
  show "\<exists>ms. v = JObject ms \<and> distinct (map fst ms) \<and>
           (\<forall>(key, x) \<in> set ms. utf8_valid key \<and> ok x) \<and> utf8_valid (snd p')"
  proof (cases "case s1 of c # _ \<Rightarrow> c = CHR ''}'' | [] \<Rightarrow> False")
    case True
    with r s1 show ?thesis by (auto simp: defs utf8_valid_ascii_Cons split: list.splits)
  next
    case False
    with r have "p_members val (length s1 + 1) {} [] (n1, s1) = Inr (v, p')" by (simp add: defs)
    from members_sound [OF this] s1 show ?thesis by simp
  qed
qed

lemma array_reader:
  assumes "snd p \<noteq> []"
  shows "p_array val p \<noteq> Inl OutOfFuel"
    and "p_array val p = Inr (v, p') \<Longrightarrow> advances 1 p p'"
    and "p_array val p = Inr (v, p') \<Longrightarrow> byte (hd (snd p)) < 0x80 \<Longrightarrow> utf8_valid (snd p) \<Longrightarrow>
      \<exists>vs. v = JArray vs \<and> (\<forall>x \<in> set vs. ok x) \<and> utf8_valid (snd p')"
proof -
  obtain n c s where p: "p = (n, c # s)" using assms by (cases p) (auto simp: neq_Nil_conv)
  obtain n1 s1 where 1: "skipSpace (Suc n, s) = (n1, s1)" by fastforce
  have 2: "advances 1 p (n1, s1)"
    using advances_open [of n c s] 1 p by simp
  note defs = p_array_def p 1
  show "p_array val p \<noteq> Inl OutOfFuel"
    using elements_total [of "(n1, s1)" "length s1 + 1"] by (simp add: defs del: p_elements.simps)
  assume r: "p_array val p = Inr (v, p')"
  show "advances 1 p p'"
  proof (cases "case s1 of c # _ \<Rightarrow> c = CHR '']'' | [] \<Rightarrow> False")
    case True
    then have "advances 1 (n1, s1) (Suc n1, tl s1)" by (intro advances_tl) auto
    with 2 have "advances 1 p (Suc n1, tl s1)" by (rule advances_trans) simp
    with r True show ?thesis by (simp add: defs)
  next
    case False
    with r have "p_elements val (length s1 + 1) [] (n1, s1) = Inr (v, p')" by (simp add: defs)
    then have "advances 1 (n1, s1) p'" by (rule elements_advances)
    with 2 show ?thesis by (rule advances_trans) simp
  qed
  assume u: "byte (hd (snd p)) < 0x80" "utf8_valid (snd p)"
  then have s1: "utf8_valid s1"
    using skipSpace_utf8 [of "(Suc n, s)"] 1 p by (simp add: utf8_valid_ascii_Cons)
  show "\<exists>vs. v = JArray vs \<and> (\<forall>x \<in> set vs. ok x) \<and> utf8_valid (snd p')"
  proof (cases "case s1 of c # _ \<Rightarrow> c = CHR '']'' | [] \<Rightarrow> False")
    case True
    with r s1 show ?thesis by (auto simp: defs utf8_valid_ascii_Cons split: list.splits)
  next
    case False
    with r have "p_elements val (length s1 + 1) [] (n1, s1) = Inr (v, p')" by (simp add: defs)
    from elements_sound [OF this] s1 show ?thesis by simp
  qed
qed

end

section \<open>The reader of values, at every depth\<close>

lemma p_literal_sound:
  "p_literal w v p = Inr (v', p') \<Longrightarrow> \<forall>c \<in> set w. byte c < 0x80 \<Longrightarrow> utf8_valid (snd p) \<Longrightarrow>
   v' = v \<and> utf8_valid (snd p')"
  by (cases p) (auto simp: p_literal_def split: if_splits intro!: utf8_drop_ascii)

lemma p_number_sound:
  assumes "p_number p = Inr (v, p')" "utf8_valid (snd p)"
  shows "(\<exists>i. v = JInt i \<and> \<bar>i\<bar> \<le> maxSafeInt) \<and> utf8_valid (snd p')"
proof -
  from assms(1) obtain neg n s where d: "number_digits neg n s = Inr (v, p')"
    and s: "snd p = (if neg then [CHR ''-''] else []) @ s"
    by (rule p_number_cases)
  from d obtain ds where ds: "\<forall>c \<in> set ds. is_digit c" "s = ds @ snd p'"
    "v = JInt (if neg then - int (dec_value ds) else int (dec_value ds))"
    "int (dec_value ds) \<le> maxSafeInt"
    by (rule number_digits_shape)
  have "utf8_valid s" using assms(2) s by (auto simp: utf8_valid_ascii_Cons split: if_splits)
  then have "utf8_valid (snd p')"
    using ds(1,2) by (simp add: utf8_valid_ascii_append is_digit_ascii)
  with ds show ?thesis by auto
qed

lemma p_value_cases:
  assumes "p_value (Suc k) p = Inr (v, p')"
  obtains (object) "snd p \<noteq> []" "hd (snd p) = CHR ''{''" "p_object (p_value k) p = Inr (v, p')"
    | (array) "snd p \<noteq> []" "hd (snd p) = CHR ''[''" "p_array (p_value k) p = Inr (v, p')"
    | (string) n s str where "p = (n, dquote # s)" "p_str (n, dquote # s) = Inr (str, p')" "v = JString str"
    | (literal) w where "p_literal w v p = Inr (v, p')"
        "(w, v) \<in> {(''true'', JBool True), (''false'', JBool False), (''null'', JNull)}"
    | (number) "p_number p = Inr (v, p')"
proof -
  from assms obtain n c s where p: "p = (n, c # s)" by (cases p; cases "snd p") auto
  consider "c = CHR ''{''" | "c = CHR ''[''" | "c = dquote" | "c = CHR ''t''" | "c = CHR ''f''"
    | "c = CHR ''n''"
    | "c \<noteq> CHR ''{''" "c \<noteq> CHR ''[''" "c \<noteq> dquote" "c \<noteq> CHR ''t''" "c \<noteq> CHR ''f''" "c \<noteq> CHR ''n''"
    by blast
  then show ?thesis
  proof cases
    case 1
    with assms p show ?thesis by (intro object) auto
  next
    case 2
    with assms p show ?thesis by (intro array) auto
  next
    case 3
    with assms p string show ?thesis by auto
  next
    case 4
    with assms p have "p_literal ''true'' (JBool True) p = Inr (v, p')" by simp
    then show ?thesis using p_literal_advances [of _ _ p v p'] by (intro literal [of "''true''"]) auto
  next
    case 5
    with assms p have "p_literal ''false'' (JBool False) p = Inr (v, p')" by simp
    then show ?thesis using p_literal_advances [of _ _ p v p'] by (intro literal [of "''false''"]) auto
  next
    case 6
    with assms p have "p_literal ''null'' JNull p = Inr (v, p')" by simp
    then show ?thesis using p_literal_advances [of _ _ p v p'] by (intro literal [of "''null''"]) auto
  next
    case 7
    with assms p show ?thesis by (intro number) (auto split: if_splits)
  qed
qed

lemma value_reader_p_value: "value_reader (p_value k) (jwf k)"
proof (induction k)
  case 0
  show ?case by unfold_locales simp_all
next
  case (Suc k)
  note obj = value_reader.object_reader [OF Suc.IH]
  note arr = value_reader.array_reader [OF Suc.IH]
  show ?case
  proof
    fix p v p'
    assume r: "p_value (Suc k) p = Inr (v, p')"
    then show "advances 1 p p'"
    proof (cases rule: p_value_cases)
      case (string n s str)
      have "advances 2 p p'" using string p_str_advances by blast
      then show ?thesis by (rule advances_trans [OF _ advances_refl]) simp
    next
      case (literal w)
      then show ?thesis using p_literal_advances by blast
    qed (use obj(2) arr(2) p_number_advances in blast)+
  next
    fix p
    show "p_value (Suc k) p \<noteq> Inl OutOfFuel"
      using obj(1) [of p] arr(1) [of p]
      by (cases "snd p") (auto simp: res_bind_Inl p_str_total p_literal_total p_number_total)
  next
    fix p v p'
    assume r: "p_value (Suc k) p = Inr (v, p')" and u: "utf8_valid (snd p)"
    from r show "jwf (Suc k) v \<and> utf8_valid (snd p')"
    proof (cases rule: p_value_cases)
      case object
      then show ?thesis using obj(3) [OF _ _ _ u] by fastforce
    next
      case array
      then show ?thesis using arr(3) [OF _ _ _ u] by fastforce
    next
      case (string n s str)
      then show ?thesis using p_str_utf8 u by auto
    next
      case (literal w)
      then show ?thesis using p_literal_sound [OF literal(1) _ u] by auto
    next
      case number
      then show ?thesis using p_number_sound [OF _ u] by auto
    qed
  qed
qed

interpretation json: value_reader "p_value k" "jwf k" for k
  by (rule value_reader_p_value)

section \<open>The reader as a whole\<close>

text \<open>
  \<open>ParseJSON\<close> returns on every input: neither loop of the reader runs out of the fuel it
  is started with, so the result is always a value or an error of the source.
\<close>

lemma ParseJSON_total: "ParseJSON data \<noteq> Inl OutOfFuel"
  using json.val_total [of maxDepth "skipSpace (0, data)"]
  by (auto simp: ParseJSON_def res_bind_Inl split: prod.splits)

lemma ParseJSON_jwf:
  assumes "ParseJSON data = Inr v"
  shows "utf8_valid data \<and> jwf maxDepth v"
proof -
  from assms have u: "utf8_valid data" by (auto simp: ParseJSON_def split: if_splits)
  with assms obtain w p where "p_value maxDepth (skipSpace (0, data)) = Inr (w, p)"
    "(case skipSpace p of (n, s) \<Rightarrow> if s \<noteq> [] then Inl (SyntaxError n TrailingContent) else Inr w) = Inr v"
    by (auto simp: ParseJSON_def)
  then have "p_value maxDepth (skipSpace (0, data)) = Inr (v, p)" by (auto split: prod.splits if_splits)
  with u show ?thesis
    using json.val_sound [of maxDepth "skipSpace (0, data)" v] skipSpace_utf8 [of "(0, data)"] by auto
qed

text \<open>
  Every document that \<open>ParseJSON\<close> accepts obeys the CCJ-1 reader rules: object keys are
  unique, integers lie within \<open>2^53 - 1\<close> in magnitude, all strings and keys are valid UTF-8
  and fewer than \<open>maxDepth\<close> levels are nested above any value.
\<close>

lemma ParseJSON_sound:
  assumes "ParseJSON data = Inr v"
  shows "utf8_valid data \<and> jwf maxDepth v"
  using assms by (rule ParseJSON_jwf)

text \<open>
  C38. The strict reader is total and sound. \<open>ParseJSON\<close> returns on every input: no loop of the
  reader runs out of the fuel it is started with, so the result is a value or an error of the
  source. A document that it accepts obeys the CCJ-1 reader rules: object keys are unique,
  integers lie within \<open>2^53 - 1\<close> in magnitude, all strings and keys are valid UTF-8 and fewer
  than \<open>maxDepth\<close> levels are nested above any value.
\<close>

theorem reader_returns:
  "ParseJSON data \<noteq> Inl OutOfFuel \<and> (\<forall>v. ParseJSON data = Inr v \<longrightarrow> utf8_valid data \<and> jwf maxDepth v)"
  using ParseJSON_total ParseJSON_sound by blast

theorem reader_returns_witness:
  "ParseJSON ''{ }'' = Inr (JObject []) \<and> utf8_valid ''{ }'' \<and> jwf maxDepth (JObject [])"
proof -
  have "ParseJSON ''{ }'' = Inr (JObject [])" by code_simp
  with reader_returns [of "''{ }''"] show ?thesis by blast
qed

end
