(* ===== verification/Fragment.thy ===== *)
theory Fragment
  imports FragmentJsonReader
begin

text \<open>
  \<open>internal/fragment/fragment.go\<close>, \<open>v4.go\<close> and \<open>launch.go\<close>: the closed
  \<open>launch-env-fragment\<close> reader for revisions 1 to 4. \<open>fromValue\<close> is cut at its section
  comments into one definition per member, run in the order of the source; every
  \<open>invalid(path, \<dots>)\<close> is an \<open>InvalidError\<close> with the same path and one constructor per
  message. Go's \<open>map[string]string\<close> is an association list with distinct keys.
\<close>

section \<open>Types\<close>

datatype imsg =
  Expected jkind jkind
| MemberWithdrawn | UnknownMember | MissingMember string
| NotOneOf string "string list"
| NotIdentifier string | NotAbsolutePath string | DotDotSegment string | NotFlagToken string
| NotPortable string | ControlCharacter string
| MuseRequiresV3 | LockedIffGlobal | SourceMustCarryNative string
| NotHex256 | MustEqualFile | MuseParent string
| MuseHasNoPrompt | NotRegistryPrompt string
| NoMCPChannel string | ReservedName string | NamesNotSorted | NotRegistryMCP string
| OutsideEnvironments string string
| NameRequired | NameNotAllowed | WithEmpty | DuplicateCompanion string
| OnlyMuseRootContext | MustEqualTrue | CredentialRequiredForMuse | MuseRequiresFile
| AdapterRequiresNative | OverridesForbidden | OverridesRequired | OverrideDisagrees

datatype ferr = JsonError jerr | InvalidError string imsg

record channel =
  chKind :: string
  chSemantics :: string
  chFlag :: string
  chArgument :: string
  chName :: string
  chWith :: "string list"
  chKey :: string
  chVariable :: string
  chFilename :: string

definition emptyChannel :: channel where
  "emptyChannel = \<lparr>chKind = [], chSemantics = [], chFlag = [], chArgument = [], chName = [],
     chWith = [], chKey = [], chVariable = [], chFilename = []\<rparr>"

record profile =
  profName :: string
  profLockSHA256 :: string

record permissions =
  permMode :: string
  permLocked :: bool
  permSource :: string

record precedence =
  precWinner :: string
  precPlacement :: string

record rootContext =
  rcExclusive :: bool

record credentialStore =
  csSelection :: string
  csConfigOverrides :: "(string \<times> string) list"

record systemPrompt =
  spPath :: string
  spChannels :: "channel list"

record mcp =
  mcpPath :: string
  mcpEnvNames :: "string list"
  mcpChannels :: "channel list"

record fragment =
  Revision :: string
  Environment :: string
  Profile :: profile
  Precedence :: precedence
  Permissions :: "permissions option"
  RootContext :: "rootContext option"
  CredentialStore :: "credentialStore option"
  Env :: "(string \<times> string) list"
  SystemPrompt :: "systemPrompt option"
  MCP :: "mcp option"
  PathPrepend :: string
  fCanonical :: string
  fDigest :: string

definition Identity :: string where "Identity = ''launch-env-fragment-v1''"
definition IdentityV2 :: string where "IdentityV2 = ''launch-env-fragment-v2''"
definition IdentityV3 :: string where "IdentityV3 = ''launch-env-fragment-v3''"
definition IdentityV4 :: string where "IdentityV4 = ''launch-env-fragment-v4''"

definition EnvClaudeCode :: string where "EnvClaudeCode = ''claude_code''"
definition EnvCodexCLI :: string where "EnvCodexCLI = ''codex_cli''"
definition EnvOpenCode :: string where "EnvOpenCode = ''opencode''"
definition EnvPi :: string where "EnvPi = ''pi''"
definition EnvMuse :: string where "EnvMuse = ''muse''"

lemmas identity_defs = Identity_def IdentityV2_def IdentityV3_def IdentityV4_def
lemmas env_defs = EnvClaudeCode_def EnvCodexCLI_def EnvOpenCode_def EnvPi_def EnvMuse_def

section \<open>The adapter registries\<close>

text \<open>Reading a Go map of strings gives the empty string for a missing key.\<close>

definition lookupStr :: "(string \<times> string) list \<Rightarrow> string \<Rightarrow> string" where
  "lookupStr m k = (case map_of m k of Some v \<Rightarrow> v | None \<Rightarrow> [])"

definition homeVariable :: "(string \<times> string) list" where
  "homeVariable =
     [(EnvClaudeCode, ''CLAUDE_CONFIG_DIR''), (EnvCodexCLI, ''CODEX_HOME''),
      (EnvOpenCode, ''XDG_CONFIG_HOME''), (EnvPi, ''PI_CODING_AGENT_DIR''),
      (EnvMuse, ''XDG_CONFIG_HOME'')]"

definition HomeVariable :: "string \<Rightarrow> string" where
  "HomeVariable env = lookupStr homeVariable env"

definition Home :: "fragment \<Rightarrow> string" where
  "Home f =
     (if Environment f = EnvMuse then TrimSuffix (lookupStr (Env f) ''XDG_CONFIG_HOME'') ''/config''
      else lookupStr (Env f) (lookupStr homeVariable (Environment f)))"

definition systemPromptRegistry :: "string \<Rightarrow> channel list" where
  "systemPromptRegistry env =
     (if env = EnvClaudeCode then
        [emptyChannel\<lparr>chKind := ''flag'', chSemantics := ''append'',
            chFlag := ''--append-system-prompt-file'', chArgument := ''path''\<rparr>,
         emptyChannel\<lparr>chKind := ''flag'', chSemantics := ''replace'',
            chFlag := ''--system-prompt-file'', chArgument := ''path''\<rparr>]
      else if env = EnvCodexCLI then
        [emptyChannel\<lparr>chKind := ''config-key'', chSemantics := ''replace'',
            chKey := ''model_instructions_file''\<rparr>]
      else if env = EnvPi then
        [emptyChannel\<lparr>chKind := ''flag'', chSemantics := ''append'',
            chFlag := ''--append-system-prompt'', chArgument := ''path''\<rparr>,
         emptyChannel\<lparr>chKind := ''file'', chSemantics := ''append'', chFilename := ''APPEND_SYSTEM.md''\<rparr>,
         emptyChannel\<lparr>chKind := ''file'', chSemantics := ''replace'', chFilename := ''SYSTEM.md''\<rparr>]
      else [])"

definition mcpRegistry :: "string \<Rightarrow> channel option" where
  "mcpRegistry env =
     (if env = EnvClaudeCode then
        Some (emptyChannel\<lparr>chKind := ''flag'', chFlag := ''--mcp-config'', chArgument := ''path'',
          chWith := [''--strict-mcp-config'']\<rparr>)
      else if env = EnvCodexCLI then
        Some (emptyChannel\<lparr>chKind := ''flag'', chFlag := ''-p'', chArgument := ''name'',
          chName := ''curator-mcp''\<rparr>)
      else if env = EnvOpenCode then
        Some (emptyChannel\<lparr>chKind := ''variable'', chVariable := ''OPENCODE_CONFIG''\<rparr>)
      else None)"

section \<open>The regular expressions\<close>

definition identifier_char :: "char \<Rightarrow> bool" where
  "identifier_char c \<longleftrightarrow> is_alnum c \<or> c = CHR ''.'' \<or> c = CHR ''_'' \<or> c = CHR ''-''"

text \<open>First byte alphanumeric, all bytes of the class, the last one not a dot.\<close>

definition identifierPattern :: "string \<Rightarrow> bool" where
  "identifierPattern s \<longleftrightarrow>
     s \<noteq> [] \<and> is_alnum (hd s) \<and> list_all identifier_char s \<and> last s \<noteq> CHR ''.''"

definition lower_ascii :: "char \<Rightarrow> char" where
  "lower_ascii c = (if is_upper c then char_of (byte c + 32) else c)"

definition windowsReserved :: "string \<Rightarrow> bool" where
  "windowsReserved s \<longleftrightarrow>
     map lower_ascii (takeWhile (\<lambda>c. c \<noteq> CHR ''.'') s) \<in>
       set ([''con'', ''prn'', ''aux'', ''nul''] @
            map (\<lambda>d. ''com'' @ [d]) ''123456789'' @ map (\<lambda>d. ''lpt'' @ [d]) ''123456789'')"

definition hex256Pattern :: "string \<Rightarrow> bool" where
  "hex256Pattern s \<longleftrightarrow> length s = 64 \<and> list_all is_lower_hex s"

definition reservedEnvName :: "string \<Rightarrow> bool" where
  "reservedEnvName s \<longleftrightarrow>
     s \<in> set [''PATH'', ''HOME'', ''TMPDIR'', ''TEMP'', ''TMP'', ''XDG_CONFIG_HOME'', ''XDG_CACHE_HOME'',
       ''XDG_DATA_HOME'', ''XDG_STATE_HOME'', ''HTTP_PROXY'', ''HTTPS_PROXY'', ''ALL_PROXY'',
       ''FTP_PROXY'', ''NO_PROXY'', ''http_proxy'', ''https_proxy'', ''all_proxy'', ''ftp_proxy'',
       ''no_proxy'', ''RES_OPTIONS'', ''HOSTALIASES'', ''LOCALDOMAIN'', ''IFS'', ''CSK_PROJECT_ROOT'',
       ''USERPROFILE'', ''APPDATA'', ''LOCALAPPDATA'', ''PATHEXT'', ''COMSPEC'', ''WINDIR'',
       ''SYSTEMROOT'', ''__PYVENV_LAUNCHER__'']
     \<or> (CHR 0x0A \<notin> set s \<and>
         (\<exists>p \<in> set [''LD_'', ''DYLD_'', ''PYTHON'', ''NODE_'', ''NPM_CONFIG_'']. HasPrefix s p))"

section \<open>Member access\<close>

abbreviation invalid :: "string \<Rightarrow> imsg \<Rightarrow> ferr + 'a" where
  "invalid path msg \<equiv> Inl (InvalidError path msg)"

text \<open>\<open>m, _ := v.Get(key)\<close>: the zero \<open>Value\<close>, a null, when the member is absent.\<close>

definition get0 :: "jvalue \<Rightarrow> string \<Rightarrow> jvalue" where
  "get0 v key = (case Get v key of Some m \<Rightarrow> m | None \<Rightarrow> JNull)"

definition closedObject :: "string \<Rightarrow> jvalue \<Rightarrow> string list \<Rightarrow> string list \<Rightarrow> ferr + unit" where
  "closedObject path v required optional =
     (case v of
        JObject obj \<Rightarrow>
          (case find (\<lambda>m. fst m \<notin> set required \<union> set optional) obj of
             Some m \<Rightarrow>
               if fst m = ''composition'' then invalid (path @ ''/'' @ fst m) MemberWithdrawn
               else invalid (path @ ''/'' @ fst m) UnknownMember
           | None \<Rightarrow>
               (case find (\<lambda>k. Get v k = None) required of
                  Some k \<Rightarrow> invalid path (MissingMember k)
                | None \<Rightarrow> Inr ()))
      | _ \<Rightarrow> invalid path (Expected KindObject (Kind v)))"

definition asString :: "string \<Rightarrow> jvalue \<Rightarrow> ferr + string" where
  "asString path v =
     (case v of JString s \<Rightarrow> Inr s | _ \<Rightarrow> invalid path (Expected KindString (Kind v)))"

definition asArray :: "string \<Rightarrow> jvalue \<Rightarrow> ferr + jvalue list" where
  "asArray path v =
     (case v of JArray vs \<Rightarrow> Inr vs | _ \<Rightarrow> invalid path (Expected KindArray (Kind v)))"

definition stringMember :: "string \<Rightarrow> jvalue \<Rightarrow> string \<Rightarrow> ferr + string" where
  "stringMember path v key = asString (path @ ''/'' @ key) (get0 v key)"

definition enumMember :: "string \<Rightarrow> jvalue \<Rightarrow> string \<Rightarrow> string list \<Rightarrow> ferr + string" where
  "enumMember path v key allowed =
     res_bind (stringMember path v key) (\<lambda>s.
       if s \<in> set allowed then Inr s else invalid (path @ ''/'' @ key) (NotOneOf s allowed))"

definition checkIdentifier :: "string \<Rightarrow> string \<Rightarrow> ferr + unit" where
  "checkIdentifier path s =
     (if 128 < length s \<or> \<not> identifierPattern s \<or> windowsReserved s
      then invalid path (NotIdentifier s) else Inr ())"

definition checkAbsolutePath :: "string \<Rightarrow> string \<Rightarrow> ferr + unit" where
  "checkAbsolutePath path s =
     (if RuneCount s < 2 \<or> 4096 < RuneCount s \<or> hd s \<noteq> CHR ''/'' \<or> CHR 0x00 \<in> set s
      then invalid path (NotAbsolutePath s)
      else if ''..'' \<in> set (Split s (CHR ''/'')) then invalid path (DotDotSegment s)
      else Inr ())"

definition checkFlagToken :: "string \<Rightarrow> string \<Rightarrow> ferr + unit" where
  "checkFlagToken path s =
     (if length s < 2 \<or> 128 < length s \<or> hd s \<noteq> CHR ''-''
         \<or> ContainsAny s [CHR '' '', CHR 0x09, CHR 0x0A, CHR 0x0D, CHR 0x0C, CHR 0x0B]
      then invalid path (NotFlagToken s) else Inr ())"

definition checkPortableFilename :: "string \<Rightarrow> string \<Rightarrow> ferr + unit" where
  "checkPortableFilename path s =
     (if s = [] \<or> 4096 < length s \<or> ContainsAny s [CHR ''/'', bslash, CHR '':'']
      then invalid path (NotPortable s)
      else if \<exists>r \<in> set (runes s). r < 0x20 \<or> (0x7F \<le> r \<and> r \<le> 0x9F)
      then invalid path (ControlCharacter s)
      else if HasSuffix s '' '' \<or> HasSuffix s ''.'' \<or> s = ''.'' \<or> s = ''..'' \<or> windowsReserved s
      then invalid path (NotPortable s)
      else Inr ())"

section \<open>Channel descriptors\<close>

fun withFlags :: "string \<Rightarrow> nat \<Rightarrow> string set \<Rightarrow> string list \<Rightarrow> jvalue list \<Rightarrow> ferr + string list" where
  "withFlags path i seen acc [] = Inr acc"
| "withFlags path i seen acc (w # ws) =
     (let p = path @ ''/with/'' @ dec i
      in res_bind (asString p w) (\<lambda>s.
         res_bind (checkFlagToken p s) (\<lambda>_.
         if s \<in> seen then invalid p (DuplicateCompanion s)
         else withFlags path (Suc i) (insert s seen) (acc @ [s]) ws)))"

definition flagChannel :: "string \<Rightarrow> jvalue \<Rightarrow> channel \<Rightarrow> ferr + channel" where
  "flagChannel path v c =
     res_bind (stringMember path v ''flag'') (\<lambda>flag.
     res_bind (checkFlagToken (path @ ''/flag'') flag) (\<lambda>_.
     res_bind (enumMember path v ''argument'' [''path'', ''contents'', ''name'']) (\<lambda>arg.
     let name = Get v ''name''
     in res_bind (check (\<not> (arg = ''name'' \<and> name = None)) (InvalidError path NameRequired)) (\<lambda>_.
        res_bind (check (\<not> (arg \<noteq> ''name'' \<and> name \<noteq> None))
          (InvalidError (path @ ''/name'') NameNotAllowed)) (\<lambda>_.
        res_bind (case name of
            None \<Rightarrow> Inr []
          | Some m \<Rightarrow> res_bind (asString (path @ ''/name'') m) (\<lambda>n.
              res_bind (checkIdentifier (path @ ''/name'') n) (\<lambda>_. Inr n))) (\<lambda>n.
        res_bind (case Get v ''with'' of
            None \<Rightarrow> Inr []
          | Some m \<Rightarrow> res_bind (asArray (path @ ''/with'') m) (\<lambda>ws.
              if ws = [] then invalid (path @ ''/with'') WithEmpty
              else withFlags path 0 {} [] ws)) (\<lambda>ws.
        Inr (c\<lparr>chFlag := flag, chArgument := arg, chName := n, chWith := ws\<rparr>))))))))"

definition channelOf :: "string \<Rightarrow> jvalue \<Rightarrow> bool \<Rightarrow> ferr + channel" where
  "channelOf path v withSemantics =
     (if Kind v \<noteq> KindObject then invalid path (Expected KindObject (Kind v))
      else
        res_bind (enumMember path v ''kind'' [''flag'', ''config-key'', ''variable'', ''file'']) (\<lambda>kind.
        let required = [''kind''] @ (if withSemantics then [''semantics''] else []) @
              (if kind = ''flag'' then [''flag'', ''argument'']
               else if kind = ''config-key'' then [''key'']
               else if kind = ''variable'' then [''variable'']
               else [''filename'']);
            optional = (if kind = ''flag'' then [''name'', ''with''] else [])
        in res_bind (closedObject path v required optional) (\<lambda>_.
           res_bind (if withSemantics then enumMember path v ''semantics'' [''append'', ''replace'']
                     else Inr []) (\<lambda>sem.
           let c = emptyChannel\<lparr>chKind := kind, chSemantics := sem\<rparr>
           in if kind = ''flag'' then flagChannel path v c
              else if kind = ''config-key'' then
                res_bind (stringMember path v ''key'') (\<lambda>s.
                res_bind (checkIdentifier (path @ ''/key'') s) (\<lambda>_. Inr (c\<lparr>chKey := s\<rparr>)))
              else if kind = ''variable'' then
                res_bind (stringMember path v ''variable'') (\<lambda>s.
                res_bind (checkIdentifier (path @ ''/variable'') s) (\<lambda>_. Inr (c\<lparr>chVariable := s\<rparr>)))
              else
                res_bind (stringMember path v ''filename'') (\<lambda>s.
                res_bind (checkPortableFilename (path @ ''/filename'') s) (\<lambda>_.
                Inr (c\<lparr>chFilename := s\<rparr>)))))))"

fun channelList :: "string \<Rightarrow> nat \<Rightarrow> bool \<Rightarrow> channel list \<Rightarrow> jvalue list \<Rightarrow> ferr + channel list" where
  "channelList path i withSemantics out [] = Inr out"
| "channelList path i withSemantics out (el # els) =
     res_bind (channelOf (path @ ''/'' @ dec i) el withSemantics) (\<lambda>c.
       channelList path (Suc i) withSemantics (out @ [c]) els)"

definition channels :: "string \<Rightarrow> jvalue \<Rightarrow> bool \<Rightarrow> ferr + channel list" where
  "channels path v withSemantics =
     res_bind (asArray path v) (channelList path 0 withSemantics [])"

definition sameChannel :: "channel \<Rightarrow> channel \<Rightarrow> bool" where
  "sameChannel x y \<longleftrightarrow>
     chKind x = chKind y \<and> chSemantics x = chSemantics y \<and> chFlag x = chFlag y
     \<and> chArgument x = chArgument y \<and> chName x = chName y \<and> chKey x = chKey y
     \<and> chVariable x = chVariable y \<and> chFilename x = chFilename y \<and> chWith x = chWith y"

definition sameChannels :: "channel list \<Rightarrow> channel list \<Rightarrow> bool" where
  "sameChannels a b \<longleftrightarrow> length a = length b \<and> (\<forall>(x, y) \<in> set (zip a b). sameChannel x y)"

section \<open>The sections of a fragment\<close>

definition emptyFragment :: fragment where
  "emptyFragment = \<lparr>Revision = [], Environment = [], Profile = \<lparr>profName = [], profLockSHA256 = []\<rparr>,
     Precedence = \<lparr>precWinner = [], precPlacement = []\<rparr>, Permissions = None, RootContext = None,
     CredentialStore = None, Env = [], SystemPrompt = None, MCP = None, PathPrepend = [],
     fCanonical = [], fDigest = []\<rparr>"

definition permissionsOf :: "jvalue \<Rightarrow> ferr + permissions" where
  "permissionsOf root =
     (let value = get0 root ''permissions'' in
      res_bind (closedObject ''/permissions'' value [''mode'', ''locked'', ''source''] []) (\<lambda>_.
      res_bind (enumMember ''/permissions'' value ''mode'' [''native'', ''yolo'']) (\<lambda>mode.
      res_bind (case get0 value ''locked'' of
          JBool b \<Rightarrow> Inr b
        | m \<Rightarrow> invalid ''/permissions/locked'' (Expected KindBool (Kind m))) (\<lambda>locked.
      res_bind (enumMember ''/permissions'' value ''source'' [''profile'', ''global'', ''default'']) (\<lambda>source.
      if locked \<noteq> (source = ''global'') then invalid ''/permissions'' LockedIffGlobal
      else if source \<noteq> ''profile'' \<and> mode \<noteq> ''native'' then
        invalid ''/permissions/mode'' (SourceMustCarryNative source)
      else Inr \<lparr>permMode = mode, permLocked = locked, permSource = source\<rparr>)))))"

definition profileOf :: "jvalue \<Rightarrow> ferr + profile" where
  "profileOf root =
     (let prof = get0 root ''profile'' in
      res_bind (closedObject ''/profile'' prof [''name'', ''lock_sha256''] []) (\<lambda>_.
      res_bind (stringMember ''/profile'' prof ''name'') (\<lambda>name.
      res_bind (checkIdentifier ''/profile/name'' name) (\<lambda>_.
      res_bind (stringMember ''/profile'' prof ''lock_sha256'') (\<lambda>lock.
      if \<not> hex256Pattern lock then invalid ''/profile/lock_sha256'' NotHex256
      else Inr \<lparr>profName = name, profLockSHA256 = lock\<rparr>)))))"

definition precedenceOf :: "jvalue \<Rightarrow> ferr + precedence" where
  "precedenceOf root =
     (let prec = get0 root ''precedence'' in
      res_bind (closedObject ''/precedence'' prec [''winner'', ''placement''] []) (\<lambda>_.
      res_bind (enumMember ''/precedence'' prec ''winner'' [''higher-weight'', ''lower-weight'']) (\<lambda>winner.
      res_bind (enumMember ''/precedence'' prec ''placement'' [''winner-last'', ''winner-first'']) (\<lambda>placement.
      Inr \<lparr>precWinner = winner, precPlacement = placement\<rparr>))))"

definition envVariables :: "string \<Rightarrow> string \<Rightarrow> string list" where
  "envVariables revision env =
     (if env = EnvMuse then
        [''XDG_CONFIG_HOME'', ''XDG_DATA_HOME'', ''XDG_STATE_HOME'', ''XDG_CACHE_HOME''] @
        (if revision = IdentityV4 then [''TBH_CREDENTIAL_BACKEND''] else [])
      else [lookupStr homeVariable env])"

fun envValues :: "jvalue \<Rightarrow> (string \<times> string) list \<Rightarrow> string list \<Rightarrow> ferr + (string \<times> string) list" where
  "envValues envObj acc [] = Inr acc"
| "envValues envObj acc (name # names) =
     res_bind (stringMember ''/env'' envObj name) (\<lambda>value.
     res_bind (if name = ''TBH_CREDENTIAL_BACKEND'' then
                 check (value = ''file'') (InvalidError (''/env/'' @ name) MustEqualFile)
               else checkAbsolutePath (''/env/'' @ name) value) (\<lambda>_.
     envValues envObj (acc @ [(name, value)]) names))"

fun museParents :: "fragment \<Rightarrow> (string \<times> string) list \<Rightarrow> ferr + unit" where
  "museParents f [] = Inr ()"
| "museParents f ((variable, suffix) # rest) =
     (if lookupStr (Env f) variable \<noteq> Home f @ ''/'' @ suffix
      then invalid (''/env/'' @ variable) (MuseParent suffix)
      else museParents f rest)"

text \<open>The \<open>env\<close> section; it reads the environment already stored in \<open>f\<close>.\<close>

definition envOf :: "jvalue \<Rightarrow> fragment \<Rightarrow> ferr + fragment" where
  "envOf root f =
     (let envObj = get0 root ''env'';
          variables = envVariables (Revision f) (Environment f)
      in res_bind (closedObject ''/env'' envObj variables []) (\<lambda>_.
         res_bind (envValues envObj [] variables) (\<lambda>env.
         let f = f\<lparr>Env := env\<rparr>
         in if Environment f = EnvMuse then
              res_bind (museParents f (zip variables [''config'', ''data'', ''state'', ''cache''])) (\<lambda>_.
              res_bind (checkAbsolutePath ''/env'' (Home f)) (\<lambda>_. Inr f))
            else Inr f)))"

text \<open>\<open>v4Policy\<close>: the root-context fact, then the credential store.\<close>

definition rootContextOf :: "jvalue \<Rightarrow> fragment \<Rightarrow> ferr + rootContext option" where
  "rootContextOf root f =
     (case Get root ''root_context'' of
        None \<Rightarrow> Inr None
      | Some value \<Rightarrow>
          if Environment f \<noteq> EnvMuse then invalid ''/root_context'' OnlyMuseRootContext
          else
            res_bind (closedObject ''/root_context'' value [''exclusive''] []) (\<lambda>_.
            if get0 value ''exclusive'' \<noteq> JBool True then
              invalid ''/root_context/exclusive'' MustEqualTrue
            else Inr (Some \<lparr>rcExclusive = True\<rparr>)))"

text \<open>The override that a selection requires; the empty string for none.\<close>

definition expectedOverride :: "string \<Rightarrow> string \<Rightarrow> ferr + string" where
  "expectedOverride env selection =
     (if env = EnvMuse then
        if selection \<noteq> ''file'' then invalid ''/credential_store/selection'' MuseRequiresFile
        else Inr []
      else if env = EnvCodexCLI then
        if selection = ''file'' then Inr ''file''
        else if selection = ''keychain'' then Inr ''keyring''
        else Inr []
      else if selection \<noteq> ''native'' then
        invalid ''/credential_store/selection'' AdapterRequiresNative
      else Inr [])"

definition credentialStoreOf :: "jvalue \<Rightarrow> fragment \<Rightarrow> ferr + credentialStore option" where
  "credentialStoreOf root f =
     (case Get root ''credential_store'' of
        None \<Rightarrow>
          if Environment f = EnvMuse then invalid ''/credential_store'' CredentialRequiredForMuse
          else Inr None
      | Some value \<Rightarrow>
          res_bind (closedObject ''/credential_store'' value [''selection''] [''config_overrides'']) (\<lambda>_.
          res_bind (enumMember ''/credential_store'' value ''selection'' [''native'', ''file'', ''keychain'']) (\<lambda>selection.
          let overrides = Get value ''config_overrides'';
              path = ''/credential_store/config_overrides''
          in res_bind (expectedOverride (Environment f) selection) (\<lambda>expected.
             if expected = [] then
               if overrides \<noteq> None then invalid path OverridesForbidden
               else Inr (Some \<lparr>csSelection = selection, csConfigOverrides = []\<rparr>)
             else
               (case overrides of
                  None \<Rightarrow> invalid path OverridesRequired
                | Some o' \<Rightarrow>
                    res_bind (closedObject path o' [''cli_auth_credentials_store''] []) (\<lambda>_.
                    res_bind (stringMember path o' ''cli_auth_credentials_store'') (\<lambda>actual.
                    if actual \<noteq> expected then
                      invalid (path @ ''/cli_auth_credentials_store'') OverrideDisagrees
                    else Inr (Some \<lparr>csSelection = selection,
                      csConfigOverrides = [(''cli_auth_credentials_store'', expected)]\<rparr>))))))))"

definition v4Policy :: "jvalue \<Rightarrow> fragment \<Rightarrow> ferr + fragment" where
  "v4Policy root f =
     res_bind (rootContextOf root f) (\<lambda>rc.
     res_bind (credentialStoreOf root f) (\<lambda>cs.
     Inr (f\<lparr>RootContext := rc, CredentialStore := cs\<rparr>)))"

definition systemPromptOf :: "jvalue \<Rightarrow> string \<Rightarrow> ferr + systemPrompt option" where
  "systemPromptOf root env =
     (case Get root ''system_prompt'' of
        None \<Rightarrow> Inr None
      | Some sp \<Rightarrow>
          if env = EnvMuse then invalid ''/system_prompt'' MuseHasNoPrompt
          else
            res_bind (closedObject ''/system_prompt'' sp [''path'', ''channels''] []) (\<lambda>_.
            res_bind (stringMember ''/system_prompt'' sp ''path'') (\<lambda>pth.
            res_bind (checkAbsolutePath ''/system_prompt/path'' pth) (\<lambda>_.
            res_bind (channels ''/system_prompt/channels'' (get0 sp ''channels'') True) (\<lambda>chs.
            if \<not> sameChannels chs (systemPromptRegistry env) then
              invalid ''/system_prompt/channels'' (NotRegistryPrompt env)
            else Inr (Some \<lparr>spPath = pth, spChannels = chs\<rparr>))))))"

text \<open>The loop over \<open>env_names\<close>; \<open>acc\<close> is \<open>mc.EnvNames\<close>, whose last name is the previous one.\<close>

fun envNames :: "nat \<Rightarrow> string list \<Rightarrow> jvalue list \<Rightarrow> ferr + string list" where
  "envNames i acc [] = Inr acc"
| "envNames i acc (n # ns) =
     (let p = ''/mcp/env_names/'' @ dec i
      in res_bind (asString p n) (\<lambda>s.
         res_bind (checkIdentifier p s) (\<lambda>_.
         if reservedEnvName s then invalid p (ReservedName s)
         else if acc \<noteq> [] \<and> s \<le> last acc then invalid p NamesNotSorted
         else envNames (Suc i) (acc @ [s]) ns)))"

definition mcpOf :: "jvalue \<Rightarrow> string \<Rightarrow> ferr + mcp option" where
  "mcpOf root env =
     (case Get root ''mcp'' of
        None \<Rightarrow> Inr None
      | Some mv \<Rightarrow>
          (case mcpRegistry env of
             None \<Rightarrow> invalid ''/mcp'' (NoMCPChannel env)
           | Some reg \<Rightarrow>
               res_bind (closedObject ''/mcp'' mv [''path'', ''env_names'', ''channels''] []) (\<lambda>_.
               res_bind (stringMember ''/mcp'' mv ''path'') (\<lambda>pth.
               res_bind (checkAbsolutePath ''/mcp/path'' pth) (\<lambda>_.
               res_bind (asArray ''/mcp/env_names'' (get0 mv ''env_names'')) (\<lambda>arr.
               res_bind (envNames 0 [] arr) (\<lambda>names.
               res_bind (channels ''/mcp/channels'' (get0 mv ''channels'') False) (\<lambda>chs.
               if \<not> sameChannels chs [reg] then invalid ''/mcp/channels'' (NotRegistryMCP env)
               else Inr (Some \<lparr>mcpPath = pth, mcpEnvNames = names, mcpChannels = chs\<rparr>)))))))))"

definition environmentsRoot :: "string \<Rightarrow> string" where
  "environmentsRoot home0 =
     (let home = TrimRight home0 (CHR ''/'')
      in case LastIndexByte home (CHR ''/'') of
           None \<Rightarrow> []
         | Some i \<Rightarrow>
             if i = 0 then []
             else (case LastIndexByte (take i home) (CHR ''/'') of
                     None \<Rightarrow> []
                   | Some j \<Rightarrow> if j = 0 then [] else take j home))"

definition pathPrependOf :: "jvalue \<Rightarrow> fragment \<Rightarrow> ferr + string" where
  "pathPrependOf root f =
     (case Get root ''path_prepend'' of
        None \<Rightarrow> Inr []
      | Some pp \<Rightarrow>
          res_bind (asString ''/path_prepend'' pp) (\<lambda>s.
          res_bind (checkAbsolutePath ''/path_prepend'' s) (\<lambda>_.
          let rootDir = environmentsRoot (Home f)
          in if rootDir = [] \<or> \<not> HasPrefix s (rootDir @ ''/'') then
               invalid ''/path_prepend'' (OutsideEnvironments s rootDir)
             else Inr s)))"

text \<open>
  \<open>fromValue\<close> after the environment is known: the permissions section and every section after
  it, in the order of the source.
\<close>

definition fromSections :: "jvalue \<Rightarrow> string \<Rightarrow> string \<Rightarrow> ferr + fragment" where
  "fromSections root revision env =
     (let f = emptyFragment\<lparr>Revision := revision, Environment := env\<rparr> in
     res_bind (if revision \<noteq> Identity then res_bind (permissionsOf root) (\<lambda>p. Inr (Some p))
               else Inr None) (\<lambda>perms.
     res_bind (profileOf root) (\<lambda>prof.
     res_bind (precedenceOf root) (\<lambda>prec.
     res_bind (envOf root (f\<lparr>Permissions := perms, Profile := prof, Precedence := prec\<rparr>)) (\<lambda>f.
     res_bind (if revision = IdentityV4 then v4Policy root f else Inr f) (\<lambda>f.
     res_bind (systemPromptOf root env) (\<lambda>sp.
     res_bind (mcpOf root env) (\<lambda>mc.
     res_bind (pathPrependOf root f) (\<lambda>pp.
     Inr (f\<lparr>SystemPrompt := sp, MCP := mc, PathPrepend := pp\<rparr>))))))))))"

definition fromValue :: "jvalue \<Rightarrow> ferr + fragment" where
  "fromValue root =
     res_bind (enumMember [] root ''fragment'' [Identity, IdentityV2, IdentityV3, IdentityV4]) (\<lambda>revision.
     let required = [''fragment'', ''environment'', ''profile'', ''precedence'', ''env''] @
           (if revision \<noteq> Identity then [''permissions''] else []);
         optional = [''system_prompt'', ''mcp'', ''path_prepend''] @
           (if revision = IdentityV4 then [''root_context'', ''credential_store''] else [])
     in
     res_bind (closedObject [] root required optional) (\<lambda>_.
     res_bind (enumMember [] root ''environment'' [EnvClaudeCode, EnvCodexCLI, EnvOpenCode, EnvPi, EnvMuse]) (\<lambda>env.
     if env = EnvMuse \<and> revision \<noteq> IdentityV3 \<and> revision \<noteq> IdentityV4 then
       invalid ''/environment'' MuseRequiresV3
     else fromSections root revision env)))"

definition Parse :: "string \<Rightarrow> ferr + fragment" where
  "Parse data =
     (case ParseJSON data of
        Inl e \<Rightarrow> Inl (JsonError e)
      | Inr root \<Rightarrow>
          res_bind (fromValue root) (\<lambda>f.
            Inr (f\<lparr>fCanonical := Canonical root, fDigest := Digest root\<rparr>)))"

section \<open>The launch boundary (launch.go)\<close>

datatype versionError = VersionError (veEnvironment: string) (veRequired: string)

definition CheckLaunchRevision :: "fragment \<Rightarrow> versionError option" where
  "CheckLaunchRevision f =
     (if Environment f = EnvMuse \<and>
         (Revision f = Identity \<or> Revision f = IdentityV2 \<or> Revision f = IdentityV3)
      then Some (VersionError EnvMuse IdentityV4) else None)"

definition legacyMuseUpgrade :: "string \<Rightarrow> string \<Rightarrow> versionError option" where
  "legacyMuseUpgrade raw requested =
     (case ParseJSON raw of
        Inl _ \<Rightarrow> None
      | Inr root \<Rightarrow>
          (case (get0 root ''environment'', get0 root ''fragment'') of
             (JString env, JString rv) \<Rightarrow>
               if env \<noteq> requested then None
               else CheckLaunchRevision (emptyFragment\<lparr>Environment := env, Revision := rv\<rparr>)
           | _ \<Rightarrow> None))"

end
