(* ===== verification/FragmentResolve.thy ===== *)
theory FragmentResolve
  imports Fragment
begin

text \<open>
  \<open>internal/fragment/resolve.go\<close>: one run of \<open>curator env resolve\<close> and the classification of
  what it produced. The \<open>Runner\<close> interface (production: \<open>os/exec\<close>) is the parameter \<open>run\<close>,
  a function of the world and the call, so the calls that were made can be counted; it returns
  the captured stdout and stderr and either a start error or an exit status.
\<close>

datatype curatorCode =
  CodeInvocationFailed | CodeEnvironmentUnknown | CodeProfileUnknown
| CodeRepairFailed | CodeLockUnavailable | CodeFragmentInvalid

datatype 'x resolveDetail =
  NoEnvironment | ProfileWithoutName
| CouldNotRun string "string list" 'x
| ExitedMapped nat string string | ExitedUnmapped nat string string | ExitedSilent nat
| NotAFragment ferr | NamesOther string string

record 'x resolveError =
  reCode :: curatorCode
  reDetail :: "'x resolveDetail"
  reCuratorCode :: string
  reExitCode :: int

datatype 'x resolveFailure = ResolveFailed "'x resolveError" | UpgradeRequired versionError

record request =
  EnvID :: string
  rqProfile :: string
  ProfileSet :: bool
  rqDir :: string
  rqEnv :: "string list option"

record call =
  callBinary :: string
  callArgv :: "string list"
  callDir :: string
  callEnv :: "string list"

datatype 'x outcome = StartError 'x | Exited nat

record 'x ran =
  ranStdout :: string
  ranStderr :: string
  ranOutcome :: "'x outcome"

definition curatorCodes :: "string \<Rightarrow> curatorCode option" where
  "curatorCodes =
     map_of [(''environment_unknown'', CodeEnvironmentUnknown),
             (''profile_unknown'', CodeProfileUnknown),
             (''environment_repair_failed'', CodeRepairFailed),
             (''environment_lock_unavailable'', CodeLockUnavailable)]"

definition Argv :: "request \<Rightarrow> string list" where
  "Argv r =
     [''env'', ''resolve'', EnvID r]
     @ (if ProfileSet r then [''--profile'', rqProfile r] else [])
     @ [''--repair'', ''--format'', ''json'']"

definition isCodeToken :: "string \<Rightarrow> bool" where
  "isCodeToken s \<longleftrightarrow>
     (\<forall>r \<in> set (runes s). (97 \<le> r \<and> r \<le> 122) \<or> (48 \<le> r \<and> r \<le> 57) \<or> r = 95)"

fun diagnosticLines :: "string list \<Rightarrow> string \<times> string" where
  "diagnosticLines [] = ([], [])"
| "diagnosticLines (line # lines) =
     (case CutPrefix line ''curator: '' of
        None \<Rightarrow> diagnosticLines lines
      | Some rest \<Rightarrow>
          (case Cut rest (CHR '':'') of
             (c, d, found) \<Rightarrow>
               if \<not> found \<or> c = [] \<or> \<not> isCodeToken c then diagnosticLines lines
               else (c, TrimSpace d)))"

definition curatorDiagnostic :: "string \<Rightarrow> string \<times> string" where
  "curatorDiagnostic stderr = diagnosticLines (Split stderr (CHR 0x0A))"

definition resolveExit :: "nat \<Rightarrow> string \<Rightarrow> 'x resolveError" where
  "resolveExit exit stderr =
     (case curatorDiagnostic stderr of
        (code, detail) \<Rightarrow>
          (case curatorCodes code of
             Some mapped \<Rightarrow>
               \<lparr>reCode = mapped, reDetail = ExitedMapped exit code detail, reCuratorCode = code,
                reExitCode = int exit\<rparr>
           | None \<Rightarrow>
               \<lparr>reCode = CodeInvocationFailed,
                reDetail = (if code \<noteq> [] then ExitedUnmapped exit code detail else ExitedSilent exit),
                reCuratorCode = code, reExitCode = int exit\<rparr>))"

definition refusal :: "curatorCode \<Rightarrow> 'x resolveDetail \<Rightarrow> int \<Rightarrow> 'x resolveFailure" where
  "refusal code detail exit =
     ResolveFailed \<lparr>reCode = code, reDetail = detail, reCuratorCode = [], reExitCode = exit\<rparr>"

text \<open>What a run that exited with status zero means.\<close>

definition resolveStdout :: "request \<Rightarrow> string \<Rightarrow> 'x resolveFailure + fragment" where
  "resolveStdout req stdout =
     (case legacyMuseUpgrade stdout (EnvID req) of
        Some e \<Rightarrow> Inl (UpgradeRequired e)
      | None \<Rightarrow>
          (case Parse stdout of
             Inl e \<Rightarrow> Inl (refusal CodeFragmentInvalid (NotAFragment e) 0)
           | Inr f \<Rightarrow>
               if Environment f \<noteq> EnvID req then
                 Inl (refusal CodeFragmentInvalid (NamesOther (Environment f) (EnvID req)) 0)
               else Inr f))"

definition Resolve ::
  "('w \<Rightarrow> call \<Rightarrow> 'x ran \<times> 'w) \<Rightarrow> string \<Rightarrow> string list \<Rightarrow> request \<Rightarrow> 'w
   \<Rightarrow> ('x resolveFailure + fragment) \<times> string \<times> 'w" where
  "Resolve run binary environ req w =
     (if EnvID req = [] then (Inl (refusal CodeInvocationFailed NoEnvironment (- 1)), [], w)
      else if ProfileSet req \<and> rqProfile req = [] then
        (Inl (refusal CodeInvocationFailed ProfileWithoutName (- 1)), [], w)
      else
        let env = (case rqEnv req of None \<Rightarrow> environ | Some e \<Rightarrow> e);
            c = \<lparr>callBinary = binary, callArgv = Argv req, callDir = rqDir req, callEnv = env\<rparr>
        in (case run w c of (r, w') \<Rightarrow>
              ((case ranOutcome r of
                  StartError x \<Rightarrow> Inl (refusal CodeInvocationFailed (CouldNotRun binary (Argv req) x) (- 1))
                | Exited exit \<Rightarrow>
                    if exit \<noteq> 0 then Inl (ResolveFailed (resolveExit exit (ranStderr r)))
                    else resolveStdout req (ranStdout r)),
               ranStderr r, w')))"

end
