(* ===== verification/FragmentRoundtrip.thy ===== *)
theory FragmentRoundtrip
  imports FragmentJsonReader
begin

text \<open>
  The canonical writer of \<open>internal/fragment/ccj1.go\<close> against the reader of \<open>json.go\<close>:
  what \<open>Canonical\<close> prints is read back as the same value with its members in key order, so
  the fragment digest depends on the parsed object and not on the bytes that were read.
\<close>

section \<open>Strings\<close>

lemma hexDigits_nth: "d < 16 \<Longrightarrow> hex_value (hexDigits ! d) = Some d"
proof -
  assume "d < 16"
  then have "d \<in> {0, 1, 2, 3, 4, 5, 6, 7, 8, 9, 10, 11, 12, 13, 14, 15}"
    by (simp only: insert_iff empty_iff) presburger
  then show ?thesis by (auto simp: hexDigits_def hex_value_def)
qed

lemma hex4_control:
  assumes "b < 32"
  shows "hex4 (n, CHR ''0'' # CHR ''0'' # hexDigits ! (b div 16) # hexDigits ! (b mod 16) # r)
    = Inr (b, (n + 4, r))"
proof -
  have "b div 16 < 16" "b mod 16 < 16" using assms by auto
  then have "hex_value (hexDigits ! (b div 16)) = Some (b div 16)"
    "hex_value (hexDigits ! (b mod 16)) = Some (b mod 16)"
    by (simp_all only: hexDigits_nth)
  moreover have "hex_value (CHR ''0'') = Some 0" by (simp add: hex_value_def)
  ultimately show ?thesis by (simp add: hex4_def)
qed

lemma str_loop_escape_byte:
  "str_loop out (n, escape_byte c @ r) = str_loop (out @ [c]) (n + length (escape_byte c), r)"
proof -
  consider "c \<in> set [dquote, bslash, CHR 0x08, CHR 0x0C, CHR 0x0A, CHR 0x0D, CHR 0x09]"
    | "c \<notin> set [dquote, bslash, CHR 0x08, CHR 0x0C, CHR 0x0A, CHR 0x0D, CHR 0x09]" "byte c < 32"
    | "c \<noteq> dquote" "c \<noteq> bslash" "\<not> byte c < 32"
    by auto
  then show ?thesis
  proof cases
    case 1
    then show ?thesis by (auto simp: escape_byte_def str_escape_def)
  next
    case 2
    have e: "escape_byte c = [bslash, CHR ''u'', CHR ''0'', CHR ''0'', hexDigits ! (byte c div 16),
        hexDigits ! (byte c mod 16)]"
      using 2 by (simp add: escape_byte_def)
    have enc: "encode_rune (byte c) = [c]" using 2 by (simp add: encode_rune_ascii)
    have len: "n + length (escape_byte c) = Suc (Suc n) + 4" by (simp add: e)
    have "str_loop out (n, escape_byte c @ r) = str_loop (out @ [c]) (Suc (Suc n) + 4, r)"
      using 2(2) by (simp add: e str_escape_def unicode_escape_def hex4_control enc)
    then show ?thesis by (simp only: len)
  next
    case 3
    then show ?thesis by (auto simp: escape_byte_def)
  qed
qed

lemma str_loop_escaped:
  "str_loop out (n, concat (map escape_byte s) @ dquote # r)
    = Inr (out @ s, (n + length (concat (map escape_byte s)) + 1, r))"
  by (induction s arbitrary: out n) (simp_all add: str_loop_escape_byte)

lemma p_str_appendString:
  "p_str (n, appendString s @ r) = Inr (s, (n + length (appendString s), r))"
  by (simp add: p_str_def appendString_def str_loop_escaped)

section \<open>Numbers\<close>

text \<open>What may follow a value: nothing, a comma or a closing bracket.\<close>

definition delimited :: "string \<Rightarrow> bool" where
  "delimited r \<longleftrightarrow> r = [] \<or> hd r \<in> set '',]}''"

lemma delimited_simps [simp]:
  "delimited []" "delimited (CHR '','' # r)" "delimited (CHR '']'' # r)" "delimited (CHR ''}'' # r)"
  by (simp_all add: delimited_def)

lemma delimited_next:
  assumes "delimited r"
  shows "\<not> next_is r ''.eE''" "takeWhile is_digit r = []" "\<not> next_is r ''0123456789''"
  using assms by (cases r; auto simp: delimited_def next_is_def is_digit_iff)+

lemma digit_run_dec:
  assumes "delimited r"
  shows "digit_run (dec m @ r) = dec m"
proof (cases "m = 0")
  case True
  then show ?thesis by (simp add: digit_run_def)
next
  case False
  then have "hd (dec m) \<noteq> CHR ''0''" by (simp add: dec_hd)
  then show ?thesis
    using delimited_next(2) [OF assms] dec_neq_Nil [of m] dec_digits [of m]
    by (cases "dec m") (auto simp: digit_run_def takeWhile_append2)
qed

lemma number_digits_dec:
  assumes "delimited r" "int m \<le> maxSafeInt" "neg \<longrightarrow> m \<noteq> 0"
  shows "number_digits neg n (dec m @ r) =
    Inr (JInt (if neg then - int m else int m), (n + length (dec m), r))"
proof -
  obtain c cs where c: "dec m = c # cs" using dec_neq_Nil by (cases "dec m") auto
  have 1: "next_is (dec m @ r) ''0123456789''"
    using dec_digits [of m] c by (simp add: next_is_def is_digit_iff)
  have 2: "\<not> (hd (dec m @ r) = CHR ''0'' \<and> next_is (tl (dec m @ r)) ''0123456789'')"
  proof (cases "m = 0")
    case True
    then show ?thesis using delimited_next(3) [OF assms(1)] by simp
  next
    case False
    then show ?thesis using dec_hd [of m] c by simp
  qed
  have 3: "dec m \<noteq> ''0''" if "m \<noteq> 0" using dec_hd [of m] that by auto
  have "m < 10 ^ 16" using assms(2) by (simp add: maxSafeInt_def)
  then have 4: "length (dec m) \<le> 16" by (rule dec_length) simp
  show ?thesis
    using 1 2 3 4 assms delimited_next(1) [OF assms(1)]
    by (simp add: number_digits_def digit_run_dec)
qed

lemma p_number_Itoa:
  assumes "\<bar>i\<bar> \<le> maxSafeInt" "delimited r"
  shows "p_number (n, Itoa i @ r) = Inr (JInt i, (n + length (Itoa i), r))"
proof (cases "i < 0")
  case True
  then show ?thesis
    using assms number_digits_dec [of r "nat (- i)" True "Suc n"]
    by (simp add: p_number_def Itoa_def next_is_def)
next
  case False
  have "\<not> next_is (dec (nat i) @ r) ''-''"
    using dec_digits [of "nat i"] dec_neq_Nil [of "nat i"]
    by (cases "dec (nat i)") (auto simp: next_is_def is_digit_iff)
  then show ?thesis
    using False assms number_digits_dec [of r "nat i" False n]
    by (simp add: p_number_def Itoa_def)
qed

section \<open>Members in key order\<close>

text \<open>The value with the members of every object in key order, as they are printed.\<close>

primrec norm :: "jvalue \<Rightarrow> jvalue" where
  "norm JNull = JNull"
| "norm (JBool b) = JBool b"
| "norm (JInt i) = JInt i"
| "norm (JString s) = JString s"
| "norm (JArray vs) = JArray (map norm vs)"
| "norm (JObject ms) = JObject (sort_key fst (map (map_prod id norm) ms))"

lemma insort_key_map_fst:
  "map fst (insort_key fst x xs) = insort (fst x) (map fst (xs :: (string \<times> 'v) list))"
  by (induction xs) auto

lemma sort_key_map_fst: "sort (map fst ms) = map fst (sort_key fst (ms :: (string \<times> 'v) list))"
  by (induction ms) (simp_all add: insort_key_map_fst)

lemma sort_key_fst_eq:
  assumes "distinct (map fst (ms :: (string \<times> 'v) list))"
  shows "map (\<lambda>k. (k, the (map_of (rev ms) k))) (sort (map fst ms)) = sort_key fst ms"
proof -
  have "map (\<lambda>k. (k, the (map_of (rev ms) k))) (map fst (sort_key fst ms)) = sort_key fst ms"
  proof (rule nth_equalityI)
    fix i assume i: "i < length (map (\<lambda>k. (k, the (map_of (rev ms) k))) (map fst (sort_key fst ms)))"
    obtain k v where kv: "sort_key fst ms ! i = (k, v)" by fastforce
    then have "(k, v) \<in> set ms" using i by (metis length_map nth_mem set_sort)
    then have "map_of (rev ms) k = Some v"
      using assms by (simp add: rev_map [symmetric])
    with i kv show "map (\<lambda>k. (k, the (map_of (rev ms) k))) (map fst (sort_key fst ms)) ! i
        = sort_key fst ms ! i"
      by simp
  qed simp
  moreover have "sort (map fst ms) = map fst (sort_key fst ms)"
    by (rule sort_key_map_fst)
  ultimately show ?thesis by simp
qed

lemma appendCanonical_object:
  assumes "distinct (map fst ms)"
  shows "appendCanonical (JObject ms) =
    ''{'' @ Join (map (\<lambda>(k, b). appendString k @ '':'' @ b)
                 (sort_key fst (map (map_prod id appendCanonical) ms))) '','' @ ''}''"
proof -
  let ?by = "map (map_prod id appendCanonical) ms"
  have d: "distinct (map fst ?by)" using assms by (simp add: map_prod_def case_prod_beta comp_def)
  have "map (\<lambda>k. appendString k @ '':'' @ the (map_of (rev ?by) k)) (sort (map fst ?by))
    = map (\<lambda>(k, b). appendString k @ '':'' @ b)
        (map (\<lambda>k. (k, the (map_of (rev ?by) k))) (sort (map fst ?by)))"
    by simp
  also have "\<dots> = map (\<lambda>(k, b). appendString k @ '':'' @ b) (sort_key fst ?by)"
    by (simp only: sort_key_fst_eq [OF d])
  finally show ?thesis by (simp add: Let_def)
qed

lemma insort_map_prod:
  "insort_key fst (k, f v) (map (map_prod id f) ms) =
     map (map_prod id f) (insort_key fst (k, v) (ms :: (string \<times> 'v) list))"
  by (induction ms) auto

lemma sort_key_map_prod:
  "sort_key fst (map (map_prod id f) ms) = map (map_prod id f) (sort_key fst (ms :: (string \<times> 'v) list))"
  by (induction ms) (auto simp: insort_map_prod [unfolded id_def] id_def)

section \<open>Reading back what was printed, one level at a time\<close>

definition value_head :: "string \<Rightarrow> bool" where
  "value_head s \<longleftrightarrow> s \<noteq> [] \<and> \<not> json_space (hd s) \<and> hd s \<noteq> CHR '']''"

definition print_member :: "('v \<Rightarrow> string) \<Rightarrow> string \<times> 'v \<Rightarrow> string" where
  "print_member print kv = appendString (fst kv) @ '':'' @ print (snd kv)"

lemma skipSpace_value_head: "value_head s \<Longrightarrow> skipSpace (n, s @ r) = (n, s @ r)"
  by (cases s) (auto simp: value_head_def)

lemma skipSpace_appendString [simp]: "skipSpace (n, appendString s @ r) = (n, appendString s @ r)"
  by (simp add: appendString_def json_space_def)

lemma skipSpace_Cons: "\<not> json_space c \<Longrightarrow> skipSpace (n, c # r) = (n, c # r)"
  by simp

lemma Join_Cons: "ws \<noteq> [] \<Longrightarrow> Join (w # ws) sep = w @ sep @ Join ws sep"
  by (cases ws) auto

locale roundtrip_reader = value_reader val ok
  for val :: "parser \<Rightarrow> jvalue jres" and ok :: "jvalue \<Rightarrow> bool" +
  fixes print :: "jvalue \<Rightarrow> string" and nrm :: "jvalue \<Rightarrow> jvalue"
  assumes val_print: "ok v \<Longrightarrow> delimited r \<Longrightarrow>
      val (n, print v @ r) = Inr (nrm v, (n + length (print v), r))"
    and print_head: "ok v \<Longrightarrow> value_head (print v)"
begin

lemma elements_print:
  assumes "vs \<noteq> []" "\<forall>v \<in> set vs. ok v" "length vs \<le> f"
  shows "p_elements val f arr (n, Join (map print vs) '','' @ CHR '']'' # r)
    = Inr (JArray (arr @ map nrm vs), (n + length (Join (map print vs) '','') + 1, r))"
  using assms
proof (induction vs arbitrary: f arr n)
  case (Cons v vs)
  from Cons.prems(3) obtain g where f: "f = Suc g" by (cases f) auto
  have ok: "ok v" using Cons.prems(2) by simp
  show ?case
  proof (cases "vs = []")
    case True
    have "skipSpace (n, print v @ CHR '']'' # r) = (n, print v @ CHR '']'' # r)"
      using print_head [OF ok] by (rule skipSpace_value_head)
    with True f val_print [OF ok, of "CHR '']'' # r" n] show ?thesis
      by (simp add: skipSpace_Cons json_space_def)
  next
    case False
    let ?rest = "Join (map print vs) '','' @ CHR '']'' # r"
    have "skipSpace (n, print v @ CHR '','' # ?rest) = (n, print v @ CHR '','' # ?rest)"
      using print_head [OF ok] by (rule skipSpace_value_head)
    with False f val_print [OF ok, of "CHR '','' # ?rest" n] Cons.prems
      Cons.IH [of g "arr @ [nrm v]" "Suc (n + length (print v))"]
    show ?thesis by (simp add: Join_Cons skipSpace_Cons json_space_def)
  qed
qed simp

lemma member_read:
  assumes "ok v" "delimited (c # r)" "\<not> json_space c" "key \<notin> seen"
  shows "p_members val (Suc g) seen obj (n, print_member print (key, v) @ c # r) =
    (let n5 = n + length (print_member print (key, v))
     in if c = CHR '','' then p_members val g (insert key seen) (obj @ [(key, nrm v)]) (Suc n5, r)
        else if c = CHR ''}'' then Inr (JObject (obj @ [(key, nrm v)]), (Suc n5, r))
        else Inl (SyntaxError n5 ExpectedCommaInObject))"
proof -
  let ?t = "CHR '':'' # print v @ c # r"
  define n2 where "n2 = n + length (appendString key)"
  have 1: "skipSpace (n, appendString key @ ?t) = (n, appendString key @ ?t)" by simp
  have 2: "p_str (n, appendString key @ ?t) = Inr (key, (n2, ?t))"
    by (simp add: p_str_appendString n2_def)
  have 3: "skipSpace (n2, ?t) = (n2, ?t)" by (simp add: json_space_def)
  have 4: "skipSpace (Suc n2, print v @ c # r) = (Suc n2, print v @ c # r)"
    using print_head [OF assms(1)] by (rule skipSpace_value_head)
  have 5: "val (Suc n2, print v @ c # r) = Inr (nrm v, (Suc n2 + length (print v), c # r))"
    using val_print [OF assms(1,2)] .
  have q: "(case appendString key @ ?t of c # _ \<Rightarrow> c \<noteq> dquote | [] \<Rightarrow> True) = False"
    by (simp add: appendString_def)
  show ?thesis
    using assms(3,4)
    by (simp add: print_member_def 1 2 3 4 5 q skipSpace_Cons Let_def del: skipSpace.simps)
      (simp add: n2_def add.assoc)
qed

lemma members_print:
  assumes "ms \<noteq> []" "\<forall>(key, v) \<in> set ms. ok v" "length ms \<le> f"
    "distinct (map fst ms)" "set (map fst ms) \<inter> seen = {}"
  shows "p_members val f seen obj (n, Join (map (print_member print) ms) '','' @ CHR ''}'' # r)
    = Inr (JObject (obj @ map (map_prod id nrm) ms),
        (n + length (Join (map (print_member print) ms) '','') + 1, r))"
  using assms
proof (induction ms arbitrary: f seen obj n)
  case (Cons kv ms)
  obtain key v where kv: "kv = (key, v)" by fastforce
  from Cons.prems(3) obtain g where f: "f = Suc g" by (cases f) auto
  have ok: "ok v" "key \<notin> seen" using Cons.prems(2,5) kv by auto
  show ?case
  proof (cases "ms = []")
    case True
    then show ?thesis
      using member_read [OF ok(1) _ _ ok(2), of "CHR ''}''" r g obj n]
      by (simp add: kv f json_space_def Let_def del: p_members.simps)
  next
    case False
    let ?rest = "Join (map (print_member print) ms) '','' @ CHR ''}'' # r"
    have "set (map fst ms) \<inter> insert key seen = {}" using Cons.prems(4,5) kv by auto
    with False Cons.prems show ?thesis
      using member_read [OF ok(1) _ _ ok(2), of "CHR '',''" ?rest g obj n]
        Cons.IH [of g "insert key seen" "obj @ [(key, nrm v)]"
          "Suc (n + length (print_member print (key, v)))"]
      by (simp add: kv f Join_Cons json_space_def Let_def del: p_members.simps)
  qed
qed simp

end

section \<open>The round trip\<close>

lemma value_head_dec: "value_head (dec m)"
proof -
  obtain c cs where "dec m = c # cs" using dec_neq_Nil by (cases "dec m") auto
  moreover then have "is_digit c" using dec_digits [of m] by simp
  ultimately show ?thesis by (auto simp: value_head_def json_space_def is_digit_iff)
qed

lemma value_head_print: "value_head (appendCanonical v)"
  using value_head_dec
  by (cases v) (auto simp: Itoa_def value_head_def json_space_def appendString_def Let_def)

lemma norm_JObject_keys:
  "distinct (map fst ms) \<Longrightarrow> norm (JObject ms) = JObject (map (map_prod id norm) (sort_key fst ms))"
  by (simp add: sort_key_map_prod)

lemma print_member_map:
  "map (\<lambda>(k, b). appendString k @ '':'' @ b) (map (map_prod id f) ms) = map (print_member f) ms"
  by (simp add: print_member_def case_prod_beta)

lemma appendCanonical_members:
  assumes "distinct (map fst ms)"
  shows "appendCanonical (JObject ms) =
    ''{'' @ Join (map (print_member appendCanonical) (sort_key fst ms)) '','' @ ''}''"
  by (simp only: appendCanonical_object [OF assms] sort_key_map_prod print_member_map)

lemma length_Join_le: "\<forall>w \<in> set ws. w \<noteq> [] \<Longrightarrow> length ws \<le> length (Join ws '','')"
proof (induction ws)
  case (Cons w ws)
  then have "0 < length w" by simp
  with Cons show ?case by (cases ws) (auto simp: Suc_le_eq)
qed simp

lemma p_array_print:
  assumes r: "roundtrip_reader val ok appendCanonical norm" and ok: "\<forall>v \<in> set vs. ok v"
  shows "p_array val (n, appendCanonical (JArray vs) @ r) =
    Inr (norm (JArray vs), (n + length (appendCanonical (JArray vs)), r))"
proof (cases "vs = []")
  case True
  then show ?thesis by (simp add: p_array_def json_space_def)
next
  case False
  let ?body = "Join (map appendCanonical vs) '',''"
  obtain v vs' where vs: "vs = v # vs'" using False by (cases vs) auto
  have h: "value_head ?body"
    using value_head_print [of v] vs by (cases vs') (auto simp: value_head_def)
  then have sk: "skipSpace (Suc n, ?body @ CHR '']'' # r) = (Suc n, ?body @ CHR '']'' # r)"
    by (rule skipSpace_value_head)
  have nc: "(case ?body @ CHR '']'' # r of c # _ \<Rightarrow> c = CHR '']'' | [] \<Rightarrow> False) = False"
    using h by (cases ?body) (auto simp: value_head_def)
  have "length vs \<le> length ?body"
    using length_Join_le [of "map appendCanonical vs"] value_head_print
    by (auto simp: value_head_def)
  then have f: "length vs \<le> length (?body @ CHR '']'' # r) + 1" by simp
  show ?thesis
    using roundtrip_reader.elements_print [OF r False ok f, of "[]" "Suc n" r]
    by (simp add: p_array_def sk nc del: p_elements.simps)
qed

lemma p_object_print:
  assumes r: "roundtrip_reader val ok appendCanonical norm" and d: "distinct (map fst ms)"
    and ok: "\<forall>(key, v) \<in> set ms. ok v"
  shows "p_object val (n, appendCanonical (JObject ms) @ r) =
    Inr (norm (JObject ms), (n + length (appendCanonical (JObject ms)), r))"
proof (cases "ms = []")
  case True
  then show ?thesis by (simp add: p_object_def json_space_def)
next
  case False
  let ?ms = "sort_key fst ms"
  let ?body = "Join (map (print_member appendCanonical) ?ms) '',''"
  have ne: "?ms \<noteq> []" using False by (metis set_empty set_sort)
  then obtain kv ms' where ms: "?ms = kv # ms'" by (cases ?ms) auto
  obtain t where t: "?body = dquote # t"
    using ms by (cases ms') (auto simp: print_member_def appendString_def)
  have sk: "skipSpace (Suc n, ?body @ CHR ''}'' # r) = (Suc n, ?body @ CHR ''}'' # r)"
    by (simp add: t json_space_def)
  have nc: "(case ?body @ CHR ''}'' # r of c # _ \<Rightarrow> c = CHR ''}'' | [] \<Rightarrow> False) = False"
    by (simp add: t)
  have "length ?ms \<le> length ?body"
    using length_Join_le [of "map (print_member appendCanonical) ?ms"]
    by (auto simp: print_member_def)
  then have f: "length ?ms \<le> length (?body @ CHR ''}'' # r) + 1" by simp
  have ok': "\<forall>(key, v) \<in> set ?ms. ok v" using ok by simp
  have d': "distinct (map fst ?ms)"
    using d by (simp flip: sort_key_map_fst)
  show ?thesis
    using roundtrip_reader.members_print [OF r ne ok' f d', of "{}" "[]" "Suc n" r]
    unfolding appendCanonical_members [OF d] norm_JObject_keys [OF d]
    by (simp add: p_object_def sk nc del: p_members.simps)
qed

lemma roundtrip_p_value: "roundtrip_reader (p_value k) (jwf k) appendCanonical norm"
proof (induction k)
  case 0
  show ?case
    by (rule roundtrip_reader.intro [OF value_reader_p_value]) (unfold_locales, simp_all)
next
  case (Suc k)
  show ?case
  proof (rule roundtrip_reader.intro [OF value_reader_p_value], unfold_locales)
    fix v n and r :: string
    assume ok: "jwf (Suc k) v" and del: "delimited r"
    show "p_value (Suc k) (n, appendCanonical v @ r) =
        Inr (norm v, (n + length (appendCanonical v), r))"
    proof (cases v)
      case (JInt i)
      obtain c cs where c: "Itoa i = c # cs" "c = CHR ''-'' \<or> is_digit c"
      proof (cases "i < 0")
        case False
        obtain c cs where "dec (nat i) = c # cs" using dec_neq_Nil by (cases "dec (nat i)") auto
        then show ?thesis using that False dec_digits [of "nat i"] by (simp add: Itoa_def)
      qed (simp add: Itoa_def that)
      have "p_value (Suc k) (n, Itoa i @ r) = p_number (n, Itoa i @ r)"
        using c by (auto simp: is_digit_iff)
      then show ?thesis using JInt ok p_number_Itoa del by simp
    next
      case (JString s)
      have "p_value (Suc k) (n, appendString s @ r) =
          res_bind (p_str (n, appendString s @ r)) (\<lambda>(str, p'). Inr (JString str, p'))"
        by (simp add: appendString_def)
      then show ?thesis using JString p_str_appendString by simp
    next
      case (JArray vs)
      then show ?thesis
        using p_array_print [OF Suc.IH, of vs n r] ok by simp
    next
      case (JObject ms)
      then have d: "distinct (map fst ms)" and o: "\<forall>(key, v) \<in> set ms. jwf k v" using ok by auto
      have "p_value (Suc k) (n, appendCanonical (JObject ms) @ r) =
          p_object (p_value k) (n, appendCanonical (JObject ms) @ r)"
        by (simp add: Let_def)
      then show ?thesis using p_object_print [OF Suc.IH d o] JObject by simp
    qed (simp_all add: p_literal_def)
  qed (rule value_head_print)
qed

interpretation json_rt: roundtrip_reader "p_value k" "jwf k" appendCanonical norm for k
  by (rule roundtrip_p_value)

section \<open>The canonical bytes are valid UTF-8\<close>

lemma escape_byte_ascii: "byte c < 0x80 \<Longrightarrow> \<forall>d \<in> set (escape_byte c). byte d < 0x80"
proof -
  assume a: "byte c < 0x80"
  have h: "byte (hexDigits ! d) < 0x80" if "d < 16" for d
    using hexDigits_nth [OF that] by (rule hex_value_ascii)
  have "byte c div 16 < 16" "byte c mod 16 < 16" using a by auto
  then have "byte (hexDigits ! (byte c div 16)) < 0x80" "byte (hexDigits ! (byte c mod 16)) < 0x80"
    by (simp_all add: h)
  with a show ?thesis by (simp add: escape_byte_def)
qed

lemma utf8_run_escaped:
  "utf8_run st s = Some st' \<Longrightarrow> utf8_run st (concat (map escape_byte s)) = Some st'"
proof (induction s arbitrary: st)
  case (Cons c s)
  then obtain st1 where 1: "utf8_step st (byte c) = Some st1" "utf8_run st1 s = Some st'"
    by (auto split: option.splits)
  have "utf8_run st (escape_byte c) = Some st1"
  proof (cases "byte c < 0x80")
    case True
    then have "st = Start" "st1 = Start" using 1(1) by (auto simp: utf8_step_ascii split: if_splits)
    then show ?thesis
      using utf8_valid_ascii [OF escape_byte_ascii [OF True]] by (simp add: utf8_valid_def)
  next
    case False
    then have ne: "c \<noteq> d" if "byte d < 0x80" for d using that by auto
    have "\<not> byte c < 0x20" using False by simp
    then have "escape_byte c = [c]" by (simp add: escape_byte_def ne)
    then show ?thesis using 1(1) by simp
  qed
  with Cons.IH [OF 1(2)] show ?case by (simp add: utf8_run_append)
qed simp

lemma utf8_appendString: "utf8_valid s \<Longrightarrow> utf8_valid (appendString s)"
  using utf8_run_escaped [of Start s Start]
  by (simp add: appendString_def utf8_valid_ascii_Cons)
    (simp add: utf8_valid_def utf8_run_append utf8_step_ascii)

lemma utf8_Join: "\<forall>w \<in> set ws. utf8_valid w \<Longrightarrow> utf8_valid sep \<Longrightarrow> utf8_valid (Join ws sep)"
  by (induction ws sep rule: Join.induct) (auto intro: utf8_valid_append)

lemma utf8_dec: "utf8_valid (dec m)"
  using dec_digits by (intro utf8_valid_ascii) (auto dest: is_digit_ascii)

lemma utf8_appendCanonical: "jwf k v \<Longrightarrow> utf8_valid (appendCanonical v)"
proof (induction k arbitrary: v)
  case (Suc k)
  have br: "utf8_valid (c # w @ [d])" if "utf8_valid w" "byte c < 0x80" "byte d < 0x80" for c d w
    using that by (simp add: utf8_valid_ascii_Cons utf8_valid_append)
  show ?case
  proof (cases v)
    case (JInt i)
    then show ?thesis by (auto simp: Itoa_def utf8_dec utf8_valid_ascii_Cons)
  next
    case (JString s)
    with Suc.prems show ?thesis by (simp add: utf8_appendString)
  next
    case (JArray vs)
    have "utf8_valid (Join (map appendCanonical vs) '','')"
      using Suc JArray by (intro utf8_Join) (auto simp: utf8_valid_ascii_Cons)
    with JArray show ?thesis by (simp add: br)
  next
    case (JObject ms)
    have "utf8_valid (print_member appendCanonical kv)" if "kv \<in> set ms" for kv
      using that Suc JObject
      by (auto simp: print_member_def utf8_valid_ascii_Cons intro!: utf8_valid_append utf8_appendString)
    then have "utf8_valid (Join (map (print_member appendCanonical) (sort_key fst ms)) '','')"
      by (intro utf8_Join) (auto simp: utf8_valid_ascii_Cons)
    then have "utf8_valid (CHR ''{'' # Join (map (print_member appendCanonical) (sort_key fst ms)) '','' @ [CHR ''}''])"
      by (rule br) simp_all
    moreover have "distinct (map fst ms)" using Suc.prems JObject by simp
    ultimately show ?thesis using JObject by (simp only: appendCanonical_members append_Cons append_Nil)
  qed (simp_all add: utf8_valid_ascii_Cons)
qed simp

section \<open>Stability of the canonical form\<close>

lemma ParseJSON_appendCanonical:
  assumes "jwf maxDepth v"
  shows "ParseJSON (appendCanonical v) = Inr (norm v)"
proof -
  have u: "utf8_valid (appendCanonical v)" using utf8_appendCanonical assms .
  have s: "skipSpace (0, appendCanonical v @ []) = (0, appendCanonical v @ [])"
    using value_head_print by (rule skipSpace_value_head)
  have "p_value maxDepth (0, appendCanonical v @ []) = Inr (norm v, (0 + length (appendCanonical v), []))"
    by (rule json_rt.val_print [OF assms]) simp
  with u s show ?thesis by (simp add: ParseJSON_def)
qed

lemma jwf_norm: "jwf k v \<Longrightarrow> jwf k (norm v)"
proof (induction k arbitrary: v)
  case (Suc k)
  then show ?case
    by (cases v) (auto simp: sort_key_map_prod distinct_map comp_def simp flip: sort_key_map_fst)
qed simp

lemma appendCanonical_norm: "jwf k v \<Longrightarrow> appendCanonical (norm v) = appendCanonical v"
proof (induction k arbitrary: v)
  case (Suc k)
  show ?case
  proof (cases v)
    case (JArray vs)
    then have "map appendCanonical (map norm vs) = map appendCanonical vs"
      using Suc by auto
    with JArray show ?thesis by (simp del: map_map)
  next
    case (JObject ms)
    then have d: "distinct (map fst ms)" using Suc.prems by simp
    let ?ms = "map (map_prod id norm) (sort_key fst ms)"
    have d': "distinct (map fst ?ms)"
      using d by (simp add: comp_def flip: sort_key_map_fst)
    have s: "sort_key fst ?ms = ?ms"
      by (rule sort_key_id_if_sorted) (simp add: comp_def flip: sort_key_map_fst)
    have "map (print_member appendCanonical) ?ms = map (print_member appendCanonical) (sort_key fst ms)"
      using Suc JObject by (auto simp: print_member_def)
    then show ?thesis
      unfolding JObject norm_JObject_keys [OF d]
      by (simp only: appendCanonical_members [OF d] appendCanonical_members [OF d'] s)
  qed simp_all
qed simp

lemma jwf_stripSig: "jwf k v \<Longrightarrow> jwf k (stripSig v)"
  by (cases k; cases v) (auto simp: distinct_map_filter)

lemma stripSig_norm_stripSig: "stripSig (norm (stripSig v)) = norm (stripSig v)"
  by (cases v) (auto simp: sort_key_map_prod filter_id_conv)

lemma Canonical_norm:
  assumes "jwf maxDepth v"
  shows "Canonical (norm (stripSig v)) = Canonical v"
  using appendCanonical_norm [OF jwf_stripSig [OF assms]]
  by (simp add: Canonical_def stripSig_norm_stripSig)

text \<open>
  C25. Printing a well-formed value canonically and reading it back gives the same value, with
  the members of every object in key order: the writer and the reader agree on the whole of
  CCJ-1 (escapes, integers, literals, arrays, objects), and the canonical text is valid UTF-8.
\<close>

theorem parse_print_roundtrip:
  assumes "jwf maxDepth v"
  shows "ParseJSON (appendCanonical v) = Inr (norm v)"
  using ParseJSON_appendCanonical [OF assms] .

theorem parse_print_roundtrip_witness:
  "ParseJSON (appendCanonical (JObject [(''b'', JInt (- 12)), (''a'', JString [CHR 0x01, dquote])]))
    = Inr (JObject [(''a'', JString [CHR 0x01, dquote]), (''b'', JInt (- 12))])"
proof -
  let ?v = "JObject [(''b'', JInt (- 12)), (''a'', JString [CHR 0x01, dquote])]"
  have "jwf maxDepth ?v" by code_simp
  moreover have "norm ?v = JObject [(''a'', JString [CHR 0x01, dquote]), (''b'', JInt (- 12))]"
    by code_simp
  ultimately show ?thesis using parse_print_roundtrip [of ?v] by simp
qed

text \<open>
  The digest is stable: for every document that the reader accepts, the canonical bytes are
  themselves accepted, and the value read from them has the same canonical bytes and the same
  digest. A printer change of Curator that keeps the parsed object is therefore no drift.
\<close>

lemma canonical_digest_stable:
  assumes "ParseJSON data = Inr v"
  shows "\<exists>w. ParseJSON (Canonical v) = Inr w \<and> Canonical w = Canonical v \<and> Digest w = Digest v"
proof -
  have wf: "jwf maxDepth v" using assms by (auto dest: ParseJSON_jwf)
  then have "ParseJSON (Canonical v) = Inr (norm (stripSig v))"
    by (simp add: Canonical_def ParseJSON_appendCanonical jwf_stripSig)
  with Canonical_norm [OF wf] show ?thesis by (auto simp: Digest_def)
qed

text \<open>
  The canonical form decides equality of documents: two well-formed values have the same
  canonical bytes exactly when they are the same value up to the order of object members.
\<close>

lemma canonical_injective:
  assumes "jwf maxDepth v" "jwf maxDepth w"
  shows "appendCanonical v = appendCanonical w \<longleftrightarrow> norm v = norm w"
proof
  assume "appendCanonical v = appendCanonical w"
  then show "norm v = norm w"
    using ParseJSON_appendCanonical [OF assms(1)] ParseJSON_appendCanonical [OF assms(2)] by simp
next
  assume "norm v = norm w"
  then show "appendCanonical v = appendCanonical w"
    using appendCanonical_norm assms by metis
qed

text \<open>
  C39. Canonical forms. For every document that the reader accepts, the canonical bytes are accepted
  themselves and give the same canonical bytes and digest, so a printer change that keeps the
  parsed object is no drift; and two well-formed values have the same canonical bytes exactly
  when they are equal up to the order of object members.
\<close>

theorem canonical_forms:
  "(\<forall>data v. ParseJSON data = Inr v \<longrightarrow>
      (\<exists>w. ParseJSON (Canonical v) = Inr w \<and> Canonical w = Canonical v \<and> Digest w = Digest v)) \<and>
    (\<forall>v w. jwf maxDepth v \<and> jwf maxDepth w \<longrightarrow> (appendCanonical v = appendCanonical w \<longleftrightarrow> norm v = norm w))"
  using canonical_digest_stable canonical_injective by blast

theorem canonical_forms_witness:
  "\<exists>w. ParseJSON (Canonical (JObject [(''b'', JNull), (''a'', JInt 1)])) = Inr w
     \<and> Digest w = Digest (JObject [(''b'', JNull), (''a'', JInt 1)])"
proof -
  have "ParseJSON ''{ \"b\" : null , \"a\":1}'' = Inr (JObject [(''b'', JNull), (''a'', JInt 1)])"
    by code_simp
  then show ?thesis using canonical_forms [THEN conjunct1] by blast
qed

end
