(* ===== verification/FragmentProps.thy ===== *)
theory FragmentProps
  imports FragmentResolve FragmentRoundtrip
begin

text \<open>
  What an accepted launch fragment guarantees to its consumers (the plan, composition and
  launch steps): closed membership, the permission agreement, the Muse home layout, registry
  channels, sorted environment names, and the launch and resolve boundaries.
\<close>

section \<open>Inversion of the readers\<close>

named_theorems reader_inv \<open>what an accepting reader has checked\<close>

lemma closedObject_Inr [reader_inv]:
  "closedObject path v required optional = Inr u \<longleftrightarrow>
     (\<exists>obj. v = JObject obj \<and> fst ` set obj \<subseteq> set required \<union> set optional
        \<and> set required \<subseteq> fst ` set obj)"
proof (cases v)
  case (JObject obj)
  have 1: "find (\<lambda>m. fst m \<notin> set required \<union> set optional) obj = None \<longleftrightarrow>
      fst ` set obj \<subseteq> set required \<union> set optional"
    by (auto simp: find_None_iff)
  have 2: "find (\<lambda>k. Get v k = None) required = None \<longleftrightarrow> set required \<subseteq> fst ` set obj"
    using JObject by (auto simp: find_None_iff map_of_eq_None_iff)
  show ?thesis
    using JObject by (auto simp: closedObject_def 1 [symmetric] 2 [symmetric] split: option.splits if_splits)
qed (auto simp: closedObject_def)

lemma asString_Inr [reader_inv]: "asString path v = Inr s \<longleftrightarrow> v = JString s"
  by (cases v) (auto simp: asString_def)

lemma asArray_Inr [reader_inv]: "asArray path v = Inr vs \<longleftrightarrow> v = JArray vs"
  by (cases v) (auto simp: asArray_def)

lemma stringMember_Inr [reader_inv]: "stringMember path v key = Inr s \<longleftrightarrow> get0 v key = JString s"
  by (simp add: stringMember_def reader_inv)

lemma enumMember_Inr [reader_inv]:
  "enumMember path v key allowed = Inr s \<longleftrightarrow> get0 v key = JString s \<and> s \<in> set allowed"
  by (auto simp: enumMember_def reader_inv)

lemma checkIdentifier_Inr [reader_inv]:
  "checkIdentifier path s = Inr u \<longleftrightarrow> length s \<le> 128 \<and> identifierPattern s \<and> \<not> windowsReserved s"
  by (auto simp: checkIdentifier_def)

text \<open>An absolute path of the schema.\<close>

definition absolutePath :: "string \<Rightarrow> bool" where
  "absolutePath s \<longleftrightarrow>
     2 \<le> RuneCount s \<and> RuneCount s \<le> 4096 \<and> hd s = CHR ''/'' \<and> CHR 0x00 \<notin> set s
     \<and> ''..'' \<notin> set (Split s (CHR ''/''))"

lemma checkAbsolutePath_Inr [reader_inv]: "checkAbsolutePath path s = Inr u \<longleftrightarrow> absolutePath s"
  by (auto simp: checkAbsolutePath_def absolutePath_def)

lemma sameChannels_iff [reader_inv]: "sameChannels a b \<longleftrightarrow> a = b"
proof
  assume s: "sameChannels a b"
  show "a = b"
  proof (rule nth_equalityI)
    fix i assume "i < length a"
    then have "(a ! i, b ! i) \<in> set (zip a b)"
      using s by (auto simp: sameChannels_def set_zip)
    then have "sameChannel (a ! i) (b ! i)" using s by (auto simp: sameChannels_def)
    then show "a ! i = b ! i" by (auto simp: sameChannel_def intro: channel.equality)
  qed (use s in \<open>simp add: sameChannels_def\<close>)
qed (auto simp: sameChannels_def sameChannel_def set_zip)

section \<open>The sections\<close>

definition permissions_ok :: "permissions \<Rightarrow> bool" where
  "permissions_ok p \<longleftrightarrow>
     permMode p \<in> {''native'', ''yolo''} \<and> permSource p \<in> {''profile'', ''global'', ''default''}
     \<and> (permLocked p \<longleftrightarrow> permSource p = ''global'')
     \<and> (permMode p = ''yolo'' \<longrightarrow> permSource p = ''profile'' \<and> \<not> permLocked p)"

lemma permissionsOf_ok:
  assumes "permissionsOf root = Inr p"
  shows "permissions_ok p"
proof -
  from assms obtain mode locked source where
    m: "mode \<in> set [''native'', ''yolo'']" "source \<in> set [''profile'', ''global'', ''default'']"
    and i: "(if locked \<noteq> (source = ''global'') then invalid ''/permissions'' LockedIffGlobal
      else if source \<noteq> ''profile'' \<and> mode \<noteq> ''native'' then
        invalid ''/permissions/mode'' (SourceMustCarryNative source)
      else Inr \<lparr>permMode = mode, permLocked = locked, permSource = source\<rparr>) = Inr p"
    unfolding permissionsOf_def Let_def res_bind_Inr enumMember_Inr by blast
  from i have "p = \<lparr>permMode = mode, permLocked = locked, permSource = source\<rparr>"
    "locked = (source = ''global'')" "source = ''profile'' \<or> mode = ''native''"
    by (metis Inl_Inr_False Inr_inject)+
  with m show ?thesis by (auto simp: permissions_ok_def)
qed

lemma profileOf_ok:
  "profileOf root = Inr p \<Longrightarrow> hex256Pattern (profLockSHA256 p) \<and> identifierPattern (profName p)"
  unfolding profileOf_def Let_def res_bind_Inr checkIdentifier_Inr
  by (auto split: if_split_asm)

lemma envValues_keys:
  "envValues envObj acc names = Inr env \<Longrightarrow> map fst env = map fst acc @ names"
  by (induction envObj acc names rule: envValues.induct) auto

lemma envValues_ok:
  "envValues envObj acc names = Inr env \<Longrightarrow>
   \<forall>(k, v) \<in> set acc. if k = ''TBH_CREDENTIAL_BACKEND'' then v = ''file'' else absolutePath v \<Longrightarrow>
   \<forall>(k, v) \<in> set env. if k = ''TBH_CREDENTIAL_BACKEND'' then v = ''file'' else absolutePath v"
proof (induction envObj acc names rule: envValues.induct)
  case (2 envObj acc name names)
  from "2.prems"(1) obtain v where v: "get0 envObj name = JString v"
    "if name = ''TBH_CREDENTIAL_BACKEND'' then v = ''file'' else absolutePath v"
    "envValues envObj (acc @ [(name, v)]) names = Inr env"
    by (auto simp: reader_inv split: if_splits)
  show ?case
    by (rule "2.IH" [OF _ _ v(3), of "()"]) (use v "2.prems"(2) in \<open>auto simp: reader_inv\<close>)
qed simp

lemma museParents_Inr:
  "museParents f ps = Inr u \<longleftrightarrow> (\<forall>(v, s) \<in> set ps. lookupStr (Env f) v = Home f @ ''/'' @ s)"
  by (induction f ps rule: museParents.induct) auto

lemma envOf_frame:
  assumes "envOf root f = Inr g"
  shows "\<exists>env. g = f\<lparr>Env := env\<rparr>"
  using assms by (auto simp: envOf_def Let_def split: if_splits)

lemma envOf_values:
  assumes "envOf root f = Inr g"
  shows "map fst (Env g) = envVariables (Revision f) (Environment f)"
    "\<forall>(k, v) \<in> set (Env g). if k = ''TBH_CREDENTIAL_BACKEND'' then v = ''file'' else absolutePath v"
proof -
  from assms obtain env where e: "envValues (get0 root ''env'') [] (envVariables (Revision f) (Environment f)) = Inr env"
    and g: "g = f\<lparr>Env := env\<rparr>"
    by (auto simp: envOf_def Let_def split: if_splits)
  show "map fst (Env g) = envVariables (Revision f) (Environment f)"
    using envValues_keys [OF e] g by simp
  show "\<forall>(k, v) \<in> set (Env g). if k = ''TBH_CREDENTIAL_BACKEND'' then v = ''file'' else absolutePath v"
    using envValues_ok [OF e] g by simp
qed

text \<open>The home layout of an accepted environment: absolute, and for Muse four siblings.\<close>

definition muse_layout :: "fragment \<Rightarrow> bool" where
  "muse_layout f \<longleftrightarrow>
     lookupStr (Env f) ''XDG_CONFIG_HOME'' = Home f @ ''/config''
     \<and> lookupStr (Env f) ''XDG_DATA_HOME'' = Home f @ ''/data''
     \<and> lookupStr (Env f) ''XDG_STATE_HOME'' = Home f @ ''/state''
     \<and> lookupStr (Env f) ''XDG_CACHE_HOME'' = Home f @ ''/cache''"

lemma envOf_muse:
  assumes "envOf root f = Inr g" "Environment f = EnvMuse"
  shows "muse_layout g \<and> absolutePath (Home g)"
proof -
  from assms obtain env where g: "g = f\<lparr>Env := env\<rparr>"
    and m: "museParents g (zip (envVariables (Revision f) EnvMuse) [''config'', ''data'', ''state'', ''cache'']) = Inr ()"
    and h: "absolutePath (Home g)"
    by (auto simp: envOf_def Let_def reader_inv)
  from m h show ?thesis
    by (simp add: museParents_Inr envVariables_def muse_layout_def del: museParents.simps)
qed

lemma lookupStr_in: "k \<in> fst ` set m \<Longrightarrow> (k, lookupStr m k) \<in> set m"
  by (auto simp: lookupStr_def map_of_eq_None_iff dest: map_of_SomeD split: option.splits)

lemma homeVariable_not_backend:
  "env \<in> fst ` set homeVariable \<Longrightarrow> lookupStr homeVariable env \<noteq> ''TBH_CREDENTIAL_BACKEND''"
  by (auto simp: homeVariable_def lookupStr_def env_defs)

lemma envOf_home:
  assumes "envOf root f = Inr g" "Environment f \<in> fst ` set homeVariable"
  shows "absolutePath (Home g)"
proof (cases "Environment f = EnvMuse")
  case True
  with assms envOf_muse show ?thesis by blast
next
  case False
  let ?v = "lookupStr homeVariable (Environment f)"
  have e: "Environment g = Environment f" using envOf_frame [OF assms(1)] by auto
  have "map fst (Env g) = [?v]" using envOf_values(1) [OF assms(1)] False by (simp add: envVariables_def)
  then have "?v \<in> fst ` set (Env g)" by (metis list.set_intros(1) list.set_map)
  then have "(?v, lookupStr (Env g) ?v) \<in> set (Env g)" by (rule lookupStr_in)
  then have "absolutePath (lookupStr (Env g) ?v)"
    using envOf_values(2) [OF assms(1)] homeVariable_not_backend [OF assms(2)] by fastforce
  then show ?thesis using False e by (simp add: Home_def)
qed

lemma credentialStoreOf_muse:
  assumes "credentialStoreOf root f = Inr cs" "Environment f = EnvMuse"
  shows "\<exists>s. cs = Some s \<and> csSelection s = ''file'' \<and> csConfigOverrides s = []"
  using assms
  by (auto simp: credentialStoreOf_def expectedOverride_def Let_def split: option.splits if_splits)

lemma systemPromptOf_ok:
  "systemPromptOf root env = Inr (Some s) \<Longrightarrow>
   absolutePath (spPath s) \<and> spChannels s = systemPromptRegistry env \<and> env \<noteq> EnvMuse"
  by (auto simp: systemPromptOf_def reader_inv split: option.splits if_splits)

lemma envNames_ok:
  "envNames i acc ns = Inr out \<Longrightarrow>
   sorted_wrt (<) acc \<Longrightarrow> \<forall>s \<in> set acc. \<not> reservedEnvName s \<and> identifierPattern s \<Longrightarrow>
   sorted_wrt (<) out \<and> (\<forall>s \<in> set out. \<not> reservedEnvName s \<and> identifierPattern s)"
proof (induction i acc ns rule: envNames.induct)
  case (2 i acc n ns)
  from "2.prems"(1) obtain s where s: "n = JString s" "\<not> reservedEnvName s" "identifierPattern s"
    "length s \<le> 128 \<and> identifierPattern s \<and> \<not> windowsReserved s"
    "acc = [] \<or> last acc < s" "envNames (Suc i) (acc @ [s]) ns = Inr out"
    by (auto simp: Let_def reader_inv not_le split: if_splits)
  have sorted: "sorted_wrt (<) (acc @ [s])"
  proof (cases "acc = []")
    case False
    have "x \<le> last acc" if "x \<in> set acc" for x
      using "2.prems"(2) False that
      by (cases acc rule: rev_cases) (auto simp: sorted_wrt_append)
    with s(5) False "2.prems"(2) show ?thesis by (fastforce simp: sorted_wrt_append)
  qed simp
  show ?case
    by (rule "2.IH" [OF refl, of s "()"]) (use s "2.prems"(3) sorted in \<open>auto simp: reader_inv\<close>)
qed simp

lemma mcpOf_ok:
  assumes "mcpOf root env = Inr (Some m)"
  shows "absolutePath (mcpPath m)" "\<exists>reg. mcpRegistry env = Some reg \<and> mcpChannels m = [reg]"
    "sorted_wrt (<) (mcpEnvNames m)" "\<forall>s \<in> set (mcpEnvNames m). \<not> reservedEnvName s \<and> identifierPattern s"
  using assms envNames_ok [of 0 "[]"]
  by (auto simp: mcpOf_def reader_inv split: option.splits if_splits)

lemma pathPrependOf_ok:
  "pathPrependOf root f = Inr pp \<Longrightarrow> pp \<noteq> [] \<Longrightarrow>
   environmentsRoot (Home f) \<noteq> [] \<and> HasPrefix pp (environmentsRoot (Home f) @ ''/'') \<and> absolutePath pp"
  by (auto simp: pathPrependOf_def Let_def reader_inv split: option.splits if_splits)

section \<open>An accepted fragment\<close>

lemma ex_unit_Inr: "(\<exists>u. r = Inr (u :: unit) \<and> P u) \<longleftrightarrow> r = Inr () \<and> P ()"
  by (metis (full_types) unit.exhaust)

lemma fromSections_InrE:
  assumes "fromSections root revision env = Inr f"
  obtains perms prof prec f1 f2 sp mc pp where
    "if revision \<noteq> Identity then \<exists>p. perms = Some p \<and> permissionsOf root = Inr p else perms = None"
    "profileOf root = Inr prof"
    "envOf root (emptyFragment\<lparr>Revision := revision, Environment := env, Permissions := perms,
       Profile := prof, Precedence := prec\<rparr>) = Inr f1"
    "if revision = IdentityV4 then v4Policy root f1 = Inr f2 else f2 = f1"
    "systemPromptOf root env = Inr sp"
    "mcpOf root env = Inr mc"
    "pathPrependOf root f2 = Inr pp"
    "f = f2\<lparr>SystemPrompt := sp, MCP := mc, PathPrepend := pp\<rparr>"
proof -
  from assms obtain perms prof prec f1 f2 sp mc pp where
    "(if revision \<noteq> Identity then res_bind (permissionsOf root) (\<lambda>p. Inr (Some p)) else Inr None) = Inr perms"
    "profileOf root = Inr prof"
    "envOf root (emptyFragment\<lparr>Revision := revision, Environment := env, Permissions := perms,
       Profile := prof, Precedence := prec\<rparr>) = Inr f1"
    "(if revision = IdentityV4 then v4Policy root f1 else Inr f1) = Inr f2"
    "systemPromptOf root env = Inr sp" "mcpOf root env = Inr mc" "pathPrependOf root f2 = Inr pp"
    "f = f2\<lparr>SystemPrompt := sp, MCP := mc, PathPrepend := pp\<rparr>"
    unfolding fromSections_def Let_def res_bind_Inr by blast
  then show thesis
    by (intro that [of perms prof prec f1 f2 sp mc pp]) (auto split: if_split_asm)
qed

lemma fromValue_InrE:
  assumes "fromValue root = Inr f"
  obtains revision env where
    "revision \<in> set [Identity, IdentityV2, IdentityV3, IdentityV4]"
    "closedObject [] root
       ([''fragment'', ''environment'', ''profile'', ''precedence'', ''env''] @
          (if revision \<noteq> Identity then [''permissions''] else []))
       ([''system_prompt'', ''mcp'', ''path_prepend''] @
          (if revision = IdentityV4 then [''root_context'', ''credential_store''] else [])) = Inr ()"
    "get0 root ''fragment'' = JString revision" "get0 root ''environment'' = JString env"
    "env \<in> set [EnvClaudeCode, EnvCodexCLI, EnvOpenCode, EnvPi, EnvMuse]"
    "env = EnvMuse \<Longrightarrow> revision = IdentityV3 \<or> revision = IdentityV4"
    "fromSections root revision env = Inr f"
proof -
  from assms obtain revision env where
    "revision \<in> set [Identity, IdentityV2, IdentityV3, IdentityV4]"
    "get0 root ''fragment'' = JString revision" "get0 root ''environment'' = JString env"
    "env \<in> set [EnvClaudeCode, EnvCodexCLI, EnvOpenCode, EnvPi, EnvMuse]" and
    c: "closedObject [] root
       ([''fragment'', ''environment'', ''profile'', ''precedence'', ''env''] @
          (if revision \<noteq> Identity then [''permissions''] else []))
       ([''system_prompt'', ''mcp'', ''path_prepend''] @
          (if revision = IdentityV4 then [''root_context'', ''credential_store''] else [])) = Inr ()" and
    i: "(if env = EnvMuse \<and> revision \<noteq> IdentityV3 \<and> revision \<noteq> IdentityV4 then
       invalid ''/environment'' MuseRequiresV3
     else fromSections root revision env) = Inr f"
    unfolding fromValue_def Let_def res_bind_Inr enumMember_Inr ex_unit_Inr by blast
  moreover from i have "env = EnvMuse \<Longrightarrow> revision = IdentityV3 \<or> revision = IdentityV4"
    "fromSections root revision env = Inr f"
    by (meson Inl_Inr_False)+
  ultimately show thesis by (intro that [of revision env])
qed

lemma v4Policy_frame:
  assumes "v4Policy root f = Inr g"
  obtains rc cs where "g = f\<lparr>RootContext := rc, CredentialStore := cs\<rparr>"
    "credentialStoreOf root f = Inr cs"
  using assms unfolding v4Policy_def res_bind_Inr by blast

lemma fromSections_facts:
  assumes "fromSections root revision env = Inr f" "env \<in> fst ` set homeVariable"
  shows "Revision f = revision" "Environment f = env"
    "if revision \<noteq> Identity then \<exists>p. Permissions f = Some p \<and> permissions_ok p else Permissions f = None"
    "hex256Pattern (profLockSHA256 (Profile f))" "identifierPattern (profName (Profile f))"
    "map fst (Env f) = envVariables revision env"
    "\<forall>(k, v) \<in> set (Env f). if k = ''TBH_CREDENTIAL_BACKEND'' then v = ''file'' else absolutePath v"
    "absolutePath (Home f)"
    "env = EnvMuse \<Longrightarrow> muse_layout f \<and> SystemPrompt f = None \<and> MCP f = None"
    "env = EnvMuse \<Longrightarrow> revision = IdentityV4 \<Longrightarrow> \<exists>s. CredentialStore f = Some s \<and> csSelection s = ''file''"
    "\<And>s. SystemPrompt f = Some s \<Longrightarrow> systemPromptOf root env = Inr (Some s)"
    "\<And>m. MCP f = Some m \<Longrightarrow> mcpOf root env = Inr (Some m)"
    "PathPrepend f \<noteq> [] \<Longrightarrow> environmentsRoot (Home f) \<noteq> []
       \<and> HasPrefix (PathPrepend f) (environmentsRoot (Home f) @ ''/'') \<and> absolutePath (PathPrepend f)"
proof -
  from assms(1) obtain perms prof prec f1 f2 sp mc pp where
    p: "if revision \<noteq> Identity then \<exists>p. perms = Some p \<and> permissionsOf root = Inr p else perms = None"
    and prof: "profileOf root = Inr prof"
    and e: "envOf root (emptyFragment\<lparr>Revision := revision, Environment := env, Permissions := perms,
       Profile := prof, Precedence := prec\<rparr>) = Inr f1"
    and v4: "if revision = IdentityV4 then v4Policy root f1 = Inr f2 else f2 = f1"
    and sp: "systemPromptOf root env = Inr sp" and mc: "mcpOf root env = Inr mc"
    and pp: "pathPrependOf root f2 = Inr pp"
    and f: "f = f2\<lparr>SystemPrompt := sp, MCP := mc, PathPrepend := pp\<rparr>"
    by (rule fromSections_InrE)
  from envOf_frame [OF e] obtain evs where
    f1: "f1 = emptyFragment\<lparr>Revision := revision, Environment := env, Permissions := perms,
       Profile := prof, Precedence := prec, Env := evs\<rparr>"
    by auto
  have f2: "\<exists>rc cs. f2 = f1\<lparr>RootContext := rc, CredentialStore := cs\<rparr>"
  proof (cases "revision = IdentityV4")
    case True
    with v4 v4Policy_frame show ?thesis by metis
  next
    case False
    with v4 have "f2 = f1\<lparr>RootContext := RootContext f1, CredentialStore := CredentialStore f1\<rparr>" by simp
    then show ?thesis by blast
  qed
  then have same: "Revision f = revision" "Environment f = env" "Permissions f = perms"
    "Profile f = prof" "Env f = Env f1" "Home f = Home f1" "Home f = Home f2"
    "SystemPrompt f = sp" "MCP f = mc" "PathPrepend f = pp" "CredentialStore f = CredentialStore f2"
    by (auto simp: f f1 Home_def)
  then have layout: "muse_layout f \<longleftrightarrow> muse_layout f1" by (simp add: muse_layout_def)
  show "Revision f = revision" "Environment f = env" using same by auto
  show "if revision \<noteq> Identity then \<exists>p. Permissions f = Some p \<and> permissions_ok p else Permissions f = None"
    using p same permissionsOf_ok by auto
  show "hex256Pattern (profLockSHA256 (Profile f))" "identifierPattern (profName (Profile f))"
    using profileOf_ok [OF prof] same by auto
  show "map fst (Env f) = envVariables revision env"
    "\<forall>(k, v) \<in> set (Env f). if k = ''TBH_CREDENTIAL_BACKEND'' then v = ''file'' else absolutePath v"
    using envOf_values [OF e] same by simp_all
  show "absolutePath (Home f)" using envOf_home [OF e] assms(2) same by simp
  show "muse_layout f \<and> SystemPrompt f = None \<and> MCP f = None" if m: "env = EnvMuse"
  proof -
    have "sp = None" using sp systemPromptOf_ok m by (cases sp) auto
    moreover have "mc = None"
      using mc m by (auto simp: mcpOf_def mcpRegistry_def env_defs split: option.splits)
    ultimately show ?thesis using envOf_muse [OF e] m same layout by simp
  qed
  show "\<exists>s. CredentialStore f = Some s \<and> csSelection s = ''file''"
    if m: "env = EnvMuse" and r: "revision = IdentityV4"
  proof -
    from r v4 obtain rc cs where "f2 = f1\<lparr>RootContext := rc, CredentialStore := cs\<rparr>"
      "credentialStoreOf root f1 = Inr cs" using v4Policy_frame by (metis (full_types))
    with credentialStoreOf_muse [of root f1 cs] m f1 same show ?thesis by auto
  qed
  show "systemPromptOf root env = Inr (Some s)" if "SystemPrompt f = Some s" for s
    using sp same that by simp
  show "mcpOf root env = Inr (Some m)" if "MCP f = Some m" for m
    using mc same that by simp
  show "environmentsRoot (Home f) \<noteq> [] \<and> HasPrefix (PathPrepend f) (environmentsRoot (Home f) @ ''/'')
      \<and> absolutePath (PathPrepend f)" if "PathPrepend f \<noteq> []"
    using pathPrependOf_ok [OF pp] that same by simp
qed

lemma Parse_InrE:
  assumes "Parse data = Inr f"
  obtains root g where "ParseJSON data = Inr root" "fromValue root = Inr g"
    "f = g\<lparr>fCanonical := Canonical root, fDigest := Digest root\<rparr>"
  using assms by (auto simp: Parse_def split: sum.splits)

lemma homeVariable_dom: "fst ` set homeVariable = {EnvClaudeCode, EnvCodexCLI, EnvOpenCode, EnvPi, EnvMuse}"
  by (simp add: homeVariable_def)

text \<open>The facts of \<open>fromSections\<close> carried to a parsed document.\<close>

lemma Parse_factsE:
  assumes "Parse data = Inr f"
  obtains root g where "ParseJSON data = Inr root" "fromSections root (Revision f) (Environment f) = Inr g"
    "f = g\<lparr>fCanonical := Canonical root, fDigest := Digest root\<rparr>"
    "Environment f \<in> fst ` set homeVariable"
    "Revision f \<in> {Identity, IdentityV2, IdentityV3, IdentityV4}"
    "Environment f = EnvMuse \<Longrightarrow> Revision f = IdentityV3 \<or> Revision f = IdentityV4"
    "closedObject [] root
       ([''fragment'', ''environment'', ''profile'', ''precedence'', ''env''] @
          (if Revision f \<noteq> Identity then [''permissions''] else []))
       ([''system_prompt'', ''mcp'', ''path_prepend''] @
          (if Revision f = IdentityV4 then [''root_context'', ''credential_store''] else [])) = Inr ()"
proof -
  from assms obtain root g where r: "ParseJSON data = Inr root" "fromValue root = Inr g"
    and f: "f = g\<lparr>fCanonical := Canonical root, fDigest := Digest root\<rparr>"
    by (rule Parse_InrE)
  from r(2) obtain revision env where
    v: "revision \<in> set [Identity, IdentityV2, IdentityV3, IdentityV4]"
    and c: "closedObject [] root
       ([''fragment'', ''environment'', ''profile'', ''precedence'', ''env''] @
          (if revision \<noteq> Identity then [''permissions''] else []))
       ([''system_prompt'', ''mcp'', ''path_prepend''] @
          (if revision = IdentityV4 then [''root_context'', ''credential_store''] else [])) = Inr ()"
    and e: "env \<in> set [EnvClaudeCode, EnvCodexCLI, EnvOpenCode, EnvPi, EnvMuse]"
    and m: "env = EnvMuse \<Longrightarrow> revision = IdentityV3 \<or> revision = IdentityV4"
    and s: "fromSections root revision env = Inr g"
    by (rule fromValue_InrE) blast
  have e': "env \<in> fst ` set homeVariable" using e by (simp add: homeVariable_dom)
  have "Revision f = revision" "Environment f = env"
    using fromSections_facts(1,2) [OF s e'] f by simp_all
  with that r(1) v c e' m s f show thesis by simp
qed

end
