(* ===== verification/FragmentGuarantees.thy ===== *)
theory FragmentGuarantees
  imports FragmentProps
begin

text \<open>
  What a consumer of an accepted launch fragment may rely on, and what one run of
  \<open>curator env resolve\<close> yields. The two example documents are fragments in the shape that the
  upstream manager prints: a Muse revision 4 document and a Claude Code revision 2 document.
\<close>

section \<open>Two documents\<close>

definition muse_document :: string where
  "muse_document = ''{\"fragment\":\"launch-env-fragment-v4\",\"environment\":\"muse\",\"permissions\":{\"mode\":\"yolo\",\"locked\":false,\"source\":\"profile\"},\"profile\":{\"name\":\"dev\",\"lock_sha256\":\"aaaaaaaaaaaaaaaaaaaaaaaaaaaaaaaaaaaaaaaaaaaaaaaaaaaaaaaaaaaaaaaa\"},\"precedence\":{\"winner\":\"higher-weight\",\"placement\":\"winner-last\"},\"env\":{\"XDG_CONFIG_HOME\":\"/r/p/e/config\",\"XDG_DATA_HOME\":\"/r/p/e/data\",\"XDG_STATE_HOME\":\"/r/p/e/state\",\"XDG_CACHE_HOME\":\"/r/p/e/cache\",\"TBH_CREDENTIAL_BACKEND\":\"file\"},\"credential_store\":{\"selection\":\"file\"},\"root_context\":{\"exclusive\":true},\"path_prepend\":\"/r/x\"}''"

definition muse_root :: jvalue where
  "muse_root =
     JObject [
       (''fragment'', JString ''launch-env-fragment-v4''),
       (''environment'', JString ''muse''),
       (''permissions'', JObject [
       (''mode'', JString ''yolo''),
       (''locked'', JBool False),
       (''source'', JString ''profile'')]),
       (''profile'', JObject [
       (''name'', JString ''dev''),
       (''lock_sha256'', JString ''aaaaaaaaaaaaaaaaaaaaaaaaaaaaaaaaaaaaaaaaaaaaaaaaaaaaaaaaaaaaaaaa'')]),
       (''precedence'', JObject [
       (''winner'', JString ''higher-weight''),
       (''placement'', JString ''winner-last'')]),
       (''env'', JObject [
       (''XDG_CONFIG_HOME'', JString ''/r/p/e/config''),
       (''XDG_DATA_HOME'', JString ''/r/p/e/data''),
       (''XDG_STATE_HOME'', JString ''/r/p/e/state''),
       (''XDG_CACHE_HOME'', JString ''/r/p/e/cache''),
       (''TBH_CREDENTIAL_BACKEND'', JString ''file'')]),
       (''credential_store'', JObject [
       (''selection'', JString ''file'')]),
       (''root_context'', JObject [
       (''exclusive'', JBool True)]),
       (''path_prepend'', JString ''/r/x'')]"

definition muse_fragment :: fragment where
  "muse_fragment = projr (fromValue muse_root)"

definition claude_document :: string where
  "claude_document = ''{\"fragment\":\"launch-env-fragment-v2\",\"environment\":\"claude_code\",\"permissions\":{\"mode\":\"native\",\"locked\":true,\"source\":\"global\"},\"profile\":{\"name\":\"dev\",\"lock_sha256\":\"aaaaaaaaaaaaaaaaaaaaaaaaaaaaaaaaaaaaaaaaaaaaaaaaaaaaaaaaaaaaaaaa\"},\"precedence\":{\"winner\":\"higher-weight\",\"placement\":\"winner-last\"},\"env\":{\"CLAUDE_CONFIG_DIR\":\"/r/environments/p/e\"},\"mcp\":{\"path\":\"/r/m.json\",\"env_names\":[\"A_KEY\",\"B_KEY\"],\"channels\":[{\"kind\":\"flag\",\"flag\":\"--mcp-config\",\"argument\":\"path\",\"with\":[\"--strict-mcp-config\"]}]},\"path_prepend\":\"/r/environments/bin\"}''"

definition claude_root :: jvalue where
  "claude_root =
     JObject [
       (''fragment'', JString ''launch-env-fragment-v2''),
       (''environment'', JString ''claude_code''),
       (''permissions'', JObject [
       (''mode'', JString ''native''),
       (''locked'', JBool True),
       (''source'', JString ''global'')]),
       (''profile'', JObject [
       (''name'', JString ''dev''),
       (''lock_sha256'', JString ''aaaaaaaaaaaaaaaaaaaaaaaaaaaaaaaaaaaaaaaaaaaaaaaaaaaaaaaaaaaaaaaa'')]),
       (''precedence'', JObject [
       (''winner'', JString ''higher-weight''),
       (''placement'', JString ''winner-last'')]),
       (''env'', JObject [
       (''CLAUDE_CONFIG_DIR'', JString ''/r/environments/p/e'')]),
       (''mcp'', JObject [
       (''path'', JString ''/r/m.json''),
       (''env_names'', JArray [JString ''A_KEY'', JString ''B_KEY'']),
       (''channels'', JArray [JObject [
       (''kind'', JString ''flag''),
       (''flag'', JString ''--mcp-config''),
       (''argument'', JString ''path''),
       (''with'', JArray [JString ''--strict-mcp-config''])]])]),
       (''path_prepend'', JString ''/r/environments/bin'')]"

definition claude_fragment :: fragment where
  "claude_fragment = projr (fromValue claude_root)"

lemma muse_root: "ParseJSON muse_document = Inr muse_root"
  by code_simp

lemma muse_parses:
  "Parse muse_document = Inr (muse_fragment\<lparr>fCanonical := Canonical muse_root, fDigest := Digest muse_root\<rparr>)"
proof -
  note muse_root
  moreover have "\<not> isl (fromValue muse_root)" by code_simp
  then have "fromValue muse_root = Inr muse_fragment" by (simp add: muse_fragment_def)
  ultimately show ?thesis by (simp add: Parse_def)
qed

lemma claude_parses:
  "Parse claude_document =
     Inr (claude_fragment\<lparr>fCanonical := Canonical claude_root, fDigest := Digest claude_root\<rparr>)"
proof -
  have "ParseJSON claude_document = Inr claude_root" by code_simp
  moreover have "\<not> isl (fromValue claude_root)" by code_simp
  then have "fromValue claude_root = Inr claude_fragment" by (simp add: claude_fragment_def)
  ultimately show ?thesis by (simp add: Parse_def)
qed

lemma examples_facts:
  "Environment muse_fragment = EnvMuse" "Revision muse_fragment = IdentityV4"
  "Environment claude_fragment = EnvClaudeCode" "Revision claude_fragment = IdentityV2"
  "PathPrepend claude_fragment = ''/r/environments/bin''" "MCP claude_fragment \<noteq> None"
  by code_simp+

section \<open>Guarantees of an accepted document\<close>

lemma Parse_permissions:
  assumes "Parse data = Inr f"
  shows "(Permissions f = None \<longleftrightarrow> Revision f = Identity) \<and>
    (\<forall>p. Permissions f = Some p \<longrightarrow>
       permMode p \<in> {''native'', ''yolo''} \<and>
       (permLocked p \<longleftrightarrow> permSource p = ''global'') \<and>
       (permMode p = ''yolo'' \<longrightarrow> permSource p = ''profile'' \<and> \<not> permLocked p))"
proof (rule Parse_factsE [OF assms])
  fix root g
  assume s: "fromSections root (Revision f) (Environment f) = Inr g" "Environment f \<in> fst ` set homeVariable"
    and f: "f = g\<lparr>fCanonical := Canonical root, fDigest := Digest root\<rparr>"
  from f have "Permissions f = Permissions g" by simp
  with fromSections_facts(3) [OF s] show ?thesis by (auto simp: permissions_ok_def split: if_split_asm)
qed

text \<open>
  C26. Permission agreement. An accepted fragment carries permissions exactly when its revision is
  not 1, and then the mode, lock and source agree: locked means that the global policy decided,
  and the permissive mode is only ever granted by the profile and is never locked.
\<close>

theorem fragment_permissions:
  assumes "Parse data = Inr f"
  shows "(Permissions f = None \<longleftrightarrow> Revision f = Identity) \<and>
    (\<forall>p. Permissions f = Some p \<longrightarrow>
       permMode p \<in> {''native'', ''yolo''} \<and>
       (permLocked p \<longleftrightarrow> permSource p = ''global'') \<and>
       (permMode p = ''yolo'' \<longrightarrow> permSource p = ''profile'' \<and> \<not> permLocked p))"
  using assms by (rule Parse_permissions)

theorem fragment_permissions_witness:
  "\<exists>f. Parse muse_document = Inr f \<and> Revision f = IdentityV4 \<and>
     (\<exists>p. Permissions f = Some p \<and> (permLocked p \<longleftrightarrow> permSource p = ''global''))"
proof -
  let ?f = "muse_fragment\<lparr>fCanonical := Canonical muse_root, fDigest := Digest muse_root\<rparr>"
  from fragment_permissions [OF muse_parses] have "Permissions ?f \<noteq> None"
    "\<forall>p. Permissions ?f = Some p \<longrightarrow> (permLocked p \<longleftrightarrow> permSource p = ''global'')"
    by (simp_all add: examples_facts identity_defs)
  then show ?thesis using muse_parses examples_facts(2) by auto
qed

text \<open>The variables and the channels of an accepted fragment.\<close>

lemma fragment_environment:
  assumes "Parse data = Inr f"
  shows "map fst (Env f) = envVariables (Revision f) (Environment f) \<and>
    (\<forall>(k, v) \<in> set (Env f). if k = ''TBH_CREDENTIAL_BACKEND'' then v = ''file'' else absolutePath v) \<and>
    absolutePath (Home f) \<and>
    (Environment f = EnvMuse \<longrightarrow> Revision f \<in> {IdentityV3, IdentityV4} \<and> muse_layout f)"
proof (rule Parse_factsE [OF assms])
  fix root g
  assume s: "fromSections root (Revision f) (Environment f) = Inr g" "Environment f \<in> fst ` set homeVariable"
    and f: "f = g\<lparr>fCanonical := Canonical root, fDigest := Digest root\<rparr>"
    and m: "Environment f = EnvMuse \<Longrightarrow> Revision f = IdentityV3 \<or> Revision f = IdentityV4"
  from f have "Env f = Env g" "Home f = Home g" "muse_layout f = muse_layout g"
    by (simp_all add: Home_def muse_layout_def)
  with fromSections_facts(6-9) [OF s] m show ?thesis by simp
qed

lemma fragment_channels:
  assumes "Parse data = Inr f"
  shows "(\<forall>s. SystemPrompt f = Some s \<longrightarrow>
       absolutePath (spPath s) \<and> spChannels s = systemPromptRegistry (Environment f)) \<and>
    (\<forall>m. MCP f = Some m \<longrightarrow>
       absolutePath (mcpPath m) \<and> map Some (mcpChannels m) = [mcpRegistry (Environment f)] \<and>
       sorted_wrt (<) (mcpEnvNames m) \<and>
       (\<forall>s \<in> set (mcpEnvNames m). identifierPattern s \<and> \<not> reservedEnvName s)) \<and>
    (PathPrepend f \<noteq> [] \<longrightarrow>
       environmentsRoot (Home f) \<noteq> [] \<and>
       HasPrefix (PathPrepend f) (environmentsRoot (Home f) @ ''/'') \<and> absolutePath (PathPrepend f))"
proof (rule Parse_factsE [OF assms])
  fix root g
  assume s: "fromSections root (Revision f) (Environment f) = Inr g" "Environment f \<in> fst ` set homeVariable"
    and f: "f = g\<lparr>fCanonical := Canonical root, fDigest := Digest root\<rparr>"
  have home: "Home f = Home g" by (simp add: f Home_def)
  have "absolutePath (spPath sp) \<and> spChannels sp = systemPromptRegistry (Environment f)"
    if "SystemPrompt f = Some sp" for sp
    using systemPromptOf_ok fromSections_facts(11) [OF s] f that by simp
  moreover have "absolutePath (mcpPath m) \<and> map Some (mcpChannels m) = [mcpRegistry (Environment f)] \<and>
       sorted_wrt (<) (mcpEnvNames m) \<and>
       (\<forall>s \<in> set (mcpEnvNames m). identifierPattern s \<and> \<not> reservedEnvName s)"
    if "MCP f = Some m" for m
  proof -
    from f that have "mcpOf root (Environment f) = Inr (Some m)" using fromSections_facts(12) [OF s] by simp
    from mcpOf_ok [OF this] show ?thesis by auto
  qed
  moreover have "PathPrepend f \<noteq> [] \<longrightarrow>
       environmentsRoot (Home f) \<noteq> [] \<and>
       HasPrefix (PathPrepend f) (environmentsRoot (Home f) @ ''/'') \<and> absolutePath (PathPrepend f)"
    using fromSections_facts(13) [OF s] f home by simp
  ultimately show ?thesis by blast
qed

text \<open>
  C31. Layout. The variables of an accepted fragment are exactly the ones that its adapter
  registers, in that order; every value is an absolute path without dot-dot segments (the credential
  backend is the word file); the adapter home is such a path; and a Muse fragment has revision 3 or 4
  and four sibling directories under one home. The channels are exactly the registered ones of the
  adapter, MCP environment names are strictly ascending, well formed and not reserved, and a path
  entry lies strictly below the environments root that holds the home.
\<close>

theorem fragment_layout:
  assumes "Parse data = Inr f"
  shows "(map fst (Env f) = envVariables (Revision f) (Environment f) \<and>
    (\<forall>(k, v) \<in> set (Env f). if k = ''TBH_CREDENTIAL_BACKEND'' then v = ''file'' else absolutePath v) \<and>
    absolutePath (Home f) \<and>
    (Environment f = EnvMuse \<longrightarrow> Revision f \<in> {IdentityV3, IdentityV4} \<and> muse_layout f)) \<and>
    ((\<forall>s. SystemPrompt f = Some s \<longrightarrow>
       absolutePath (spPath s) \<and> spChannels s = systemPromptRegistry (Environment f)) \<and>
    (\<forall>m. MCP f = Some m \<longrightarrow>
       absolutePath (mcpPath m) \<and> map Some (mcpChannels m) = [mcpRegistry (Environment f)] \<and>
       sorted_wrt (<) (mcpEnvNames m) \<and>
       (\<forall>s \<in> set (mcpEnvNames m). identifierPattern s \<and> \<not> reservedEnvName s)) \<and>
    (PathPrepend f \<noteq> [] \<longrightarrow>
       environmentsRoot (Home f) \<noteq> [] \<and>
       HasPrefix (PathPrepend f) (environmentsRoot (Home f) @ ''/'') \<and> absolutePath (PathPrepend f)))"
  using fragment_environment [OF assms] fragment_channels [OF assms] by blast

theorem fragment_layout_witness:
  "\<exists>f m. Parse claude_document = Inr f \<and> MCP f = Some m \<and>
     map Some (mcpChannels m) = [mcpRegistry EnvClaudeCode] \<and> sorted_wrt (<) (mcpEnvNames m) \<and>
     HasPrefix ''/r/environments/bin'' (environmentsRoot (Home f) @ ''/'')"
proof -
  let ?f = "claude_fragment\<lparr>fCanonical := Canonical claude_root, fDigest := Digest claude_root\<rparr>"
  from examples_facts obtain m where m: "MCP ?f = Some m" by auto
  from fragment_layout [OF claude_parses] m examples_facts
  have "map Some (mcpChannels m) = [mcpRegistry EnvClaudeCode]" "sorted_wrt (<) (mcpEnvNames m)"
    "HasPrefix ''/r/environments/bin'' (environmentsRoot (Home ?f) @ ''/'')"
    by simp_all
  with m claude_parses show ?thesis by metis
qed

text \<open>
  C32. Closed membership. The members of an accepted document are among the ones that its revision
  names, and all the required ones are there; in particular a document with the withdrawn
  composition member is refused whatever else it holds.
\<close>

theorem fragment_closed:
  assumes "Parse data = Inr f"
  shows "\<exists>ms. ParseJSON data = Inr (JObject ms) \<and>
    {''fragment'', ''environment'', ''profile'', ''precedence'', ''env''} \<subseteq> fst ` set ms \<and>
    fst ` set ms \<subseteq> {''fragment'', ''environment'', ''profile'', ''precedence'', ''env'',
       ''permissions'', ''system_prompt'', ''mcp'', ''path_prepend'', ''root_context'', ''credential_store''} \<and>
    (''permissions'' \<in> fst ` set ms \<longleftrightarrow> Revision f \<noteq> Identity) \<and>
    (Revision f \<noteq> IdentityV4 \<longrightarrow>
       ''root_context'' \<notin> fst ` set ms \<and> ''credential_store'' \<notin> fst ` set ms) \<and>
    ''composition'' \<notin> fst ` set ms \<and> distinct (map fst ms)"
proof (rule Parse_factsE [OF assms])
  fix root g
  assume r: "ParseJSON data = Inr root"
    and c: "closedObject [] root
       ([''fragment'', ''environment'', ''profile'', ''precedence'', ''env''] @
          (if Revision f \<noteq> Identity then [''permissions''] else []))
       ([''system_prompt'', ''mcp'', ''path_prepend''] @
          (if Revision f = IdentityV4 then [''root_context'', ''credential_store''] else [])) = Inr ()"
  from c obtain ms where ms: "root = JObject ms"
    "fst ` set ms \<subseteq> set ([''fragment'', ''environment'', ''profile'', ''precedence'', ''env''] @
       (if Revision f \<noteq> Identity then [''permissions''] else [])) \<union>
      set ([''system_prompt'', ''mcp'', ''path_prepend''] @
       (if Revision f = IdentityV4 then [''root_context'', ''credential_store''] else []))"
    "set ([''fragment'', ''environment'', ''profile'', ''precedence'', ''env''] @
       (if Revision f \<noteq> Identity then [''permissions''] else [])) \<subseteq> fst ` set ms"
    unfolding closedObject_Inr by blast
  have "distinct (map fst ms)" using ParseJSON_jwf [OF r] ms(1) by (auto elim: jwf.elims)
  moreover have "''composition'' \<notin> fst ` set ms" using ms(2) by (auto split: if_split_asm)
  moreover have "''permissions'' \<in> fst ` set ms \<longleftrightarrow> Revision f \<noteq> Identity"
    using ms(2,3) by (auto split: if_split_asm)
  moreover have "Revision f \<noteq> IdentityV4 \<longrightarrow>
       ''root_context'' \<notin> fst ` set ms \<and> ''credential_store'' \<notin> fst ` set ms"
    using ms(2) by (auto split: if_split_asm)
  moreover have "{''fragment'', ''environment'', ''profile'', ''precedence'', ''env''} \<subseteq> fst ` set ms"
    using ms(3) by simp
  moreover have "fst ` set ms \<subseteq> {''fragment'', ''environment'', ''profile'', ''precedence'', ''env'',
       ''permissions'', ''system_prompt'', ''mcp'', ''path_prepend'', ''root_context'', ''credential_store''}"
    using ms(2) by (auto split: if_split_asm)
  ultimately show ?thesis using r ms(1) by blast
qed

theorem fragment_closed_witness:
  "\<exists>ms. ParseJSON claude_document = Inr (JObject ms) \<and> ''permissions'' \<in> fst ` set ms \<and>
     ''root_context'' \<notin> fst ` set ms"
  using fragment_closed [OF claude_parses] by (auto simp: examples_facts identity_defs)

text \<open>
  C15. Launch boundary. A Muse fragment that passes the launch revision check has revision 4, so
  it selects the file credential store and sets the file credential backend; the check refuses
  Muse fragments of revision 3 and lets every other adapter through.
\<close>

theorem fragment_launch_muse:
  assumes "Parse data = Inr f"
  shows "(CheckLaunchRevision f = None \<longleftrightarrow> Environment f \<noteq> EnvMuse \<or> Revision f = IdentityV4) \<and>
    (CheckLaunchRevision f = None \<and> Environment f = EnvMuse \<longrightarrow>
       (\<exists>s. CredentialStore f = Some s \<and> csSelection s = ''file'') \<and>
       (''TBH_CREDENTIAL_BACKEND'', ''file'') \<in> set (Env f))"
proof (rule Parse_factsE [OF assms])
  fix root g
  assume s: "fromSections root (Revision f) (Environment f) = Inr g" "Environment f \<in> fst ` set homeVariable"
    and f: "f = g\<lparr>fCanonical := Canonical root, fDigest := Digest root\<rparr>"
    and m: "Environment f = EnvMuse \<Longrightarrow> Revision f = IdentityV3 \<or> Revision f = IdentityV4"
  have 1: "CheckLaunchRevision f = None \<longleftrightarrow> Environment f \<noteq> EnvMuse \<or> Revision f = IdentityV4"
    using m by (auto simp: CheckLaunchRevision_def identity_defs)
  have "(''TBH_CREDENTIAL_BACKEND'', ''file'') \<in> set (Env f)"
    if "Environment f = EnvMuse" "Revision f = IdentityV4"
  proof -
    have "''TBH_CREDENTIAL_BACKEND'' \<in> set (map fst (Env g))"
      using fromSections_facts(6) [OF s] that by (simp add: envVariables_def)
    then obtain v where v: "(''TBH_CREDENTIAL_BACKEND'', v) \<in> set (Env g)" by auto
    with fromSections_facts(7) [OF s] have "v = ''file''" by fastforce
    with v f show ?thesis by simp
  qed
  moreover have "CredentialStore f = CredentialStore g" using f by simp
  ultimately show ?thesis using 1 fromSections_facts(10) [OF s] by auto
qed

theorem fragment_launch_muse_witness:
  "\<exists>f. Parse muse_document = Inr f \<and> CheckLaunchRevision f = None \<and>
     (''TBH_CREDENTIAL_BACKEND'', ''file'') \<in> set (Env f)"
  using fragment_launch_muse [OF muse_parses] by (simp add: muse_parses examples_facts)

section \<open>One resolve run\<close>

lemma legacyMuseUpgrade_None:
  assumes "legacyMuseUpgrade data (Environment f) = None" "Parse data = Inr f"
  shows "CheckLaunchRevision f = None"
proof -
  from assms(2) obtain root g where r: "ParseJSON data = Inr root" "fromValue root = Inr g"
    and f: "f = g\<lparr>fCanonical := Canonical root, fDigest := Digest root\<rparr>"
    by (rule Parse_InrE)
  from r(2) obtain revision env where
    "get0 root ''fragment'' = JString revision" "get0 root ''environment'' = JString env"
    and e: "env \<in> set [EnvClaudeCode, EnvCodexCLI, EnvOpenCode, EnvPi, EnvMuse]"
    and s: "fromSections root revision env = Inr g"
    by (rule fromValue_InrE) blast
  moreover have "Revision f = revision" "Environment f = env"
    using fromSections_facts(1,2) [OF s] e f by (simp_all add: homeVariable_dom)
  ultimately show ?thesis
    using assms(1) r(1) by (simp add: legacyMuseUpgrade_def CheckLaunchRevision_def emptyFragment_def)
qed

text \<open>
  C4. A resolve that succeeds has run the manager exactly once, with the argument vector of the
  request, its directory and its environment; that run exited with status zero and its whole
  standard output is the accepted fragment; the fragment is the one asked for, and it passes the
  launch revision check, so a Muse fragment below revision 4 is never returned.
\<close>

theorem resolve_success:
  fixes run :: "'w \<Rightarrow> call \<Rightarrow> 'x ran \<times> 'w"
  assumes "Resolve run binary environ req w = (Inr f, forwarded, w')"
  shows "\<exists>r. run w \<lparr>callBinary = binary,
        callArgv = [''env'', ''resolve'', EnvID req] @ (if ProfileSet req then [''--profile'', rqProfile req] else [])
          @ [''--repair'', ''--format'', ''json''],
        callDir = rqDir req,
        callEnv = (case rqEnv req of None \<Rightarrow> environ | Some e \<Rightarrow> e)\<rparr> = (r, w') \<and>
      ranOutcome r = Exited 0 \<and> Parse (ranStdout r) = Inr f \<and> forwarded = ranStderr r \<and>
      Environment f = EnvID req \<and> CheckLaunchRevision f = None"
proof -
  let ?c = "\<lparr>callBinary = binary, callArgv = Argv req, callDir = rqDir req,
     callEnv = (case rqEnv req of None \<Rightarrow> environ | Some e \<Rightarrow> e)\<rparr>"
  obtain r w2 where r: "run w ?c = (r, w2)" by (cases "run w ?c")
  with assms have "ranOutcome r = Exited 0" "(resolveStdout req (ranStdout r) :: 'x resolveFailure + fragment) = Inr f"
    "forwarded = ranStderr r" "w' = w2"
    by (auto simp: Resolve_def split: if_split_asm outcome.splits)
  moreover from this(2) have "legacyMuseUpgrade (ranStdout r) (EnvID req) = None"
    "Parse (ranStdout r) = Inr f" "Environment f = EnvID req"
    by (auto simp: resolveStdout_def split: option.splits sum.splits if_split_asm)
  ultimately show ?thesis using r legacyMuseUpgrade_None [of "ranStdout r" f] by (auto simp: Argv_def)
qed

definition muse_request :: request where
  "muse_request = \<lparr>EnvID = ''muse'', rqProfile = [], ProfileSet = False, rqDir = ''/w'', rqEnv = None\<rparr>"

definition muse_runner :: "call list \<Rightarrow> call \<Rightarrow> unit ran \<times> call list" where
  "muse_runner log c = (\<lparr>ranStdout = muse_document, ranStderr = [], ranOutcome = Exited 0\<rparr>, log @ [c])"

theorem resolve_success_witness:
  "\<exists>f c. Resolve muse_runner ''curator'' [''A=1''] muse_request [] = (Inr f, [], [c]) \<and>
     callArgv c = [''env'', ''resolve'', ''muse'', ''--repair'', ''--format'', ''json''] \<and>
     CheckLaunchRevision f = None"
proof -
  let ?f = "muse_fragment\<lparr>fCanonical := Canonical muse_root, fDigest := Digest muse_root\<rparr>"
  have "get0 muse_root ''environment'' = JString EnvMuse" "get0 muse_root ''fragment'' = JString IdentityV4"
    by code_simp+
  then have "legacyMuseUpgrade muse_document EnvMuse = None"
    by (simp add: legacyMuseUpgrade_def muse_root CheckLaunchRevision_def emptyFragment_def identity_defs)
  then have "resolveStdout muse_request muse_document = (Inr ?f :: unit resolveFailure + fragment)"
    by (simp add: resolveStdout_def muse_request_def muse_parses examples_facts env_defs)
  then have "\<exists>c. Resolve muse_runner ''curator'' [''A=1''] muse_request [] = (Inr ?f, [], [c]) \<and>
     callArgv c = [''env'', ''resolve'', ''muse'', ''--repair'', ''--format'', ''json'']"
    by (simp add: Resolve_def muse_runner_def muse_request_def Argv_def)
  then obtain c where c: "Resolve muse_runner ''curator'' [''A=1''] muse_request [] = (Inr ?f, [], [c])"
    "callArgv c = [''env'', ''resolve'', ''muse'', ''--repair'', ''--format'', ''json'']" by blast
  with resolve_success [OF c(1)] show ?thesis by blast
qed

lemma diagnosticLines_skip:
  "\<forall>l \<in> set pre. \<not> HasPrefix l ''curator: '' \<Longrightarrow> diagnosticLines (pre @ ls) = diagnosticLines ls"
  by (induction pre) (auto simp: CutPrefix_def)

lemma diagnosticLines_found:
  assumes "CHR '':'' \<notin> set code" "code \<noteq> []" "isCodeToken code"
  shows "diagnosticLines ((''curator: '' @ code @ '':'' @ detail) # ls) = (code, TrimSpace detail)"
proof -
  let ?l = "''curator: '' @ code @ '':'' @ detail"
  have "CutPrefix ?l ''curator: '' = Some (code @ CHR '':'' # detail)"
    using CutPrefix_Some [of ?l "''curator: ''" "code @ CHR '':'' # detail"] by simp
  moreover have "Cut (code @ CHR '':'' # detail) (CHR '':'') = (code, detail, True)"
    using assms(1) by (simp add: Cut_found)
  ultimately show ?thesis using assms(2,3) by simp
qed

text \<open>A failed run is classified by the first diagnostic line of the manager.\<close>

lemma resolve_exit_code:
  assumes "CHR '':'' \<notin> set code" "code \<noteq> []" "isCodeToken code"
    and "\<forall>l \<in> set pre. \<not> HasPrefix l ''curator: '' \<and> CHR 0x0A \<notin> set l"
    and "CHR 0x0A \<notin> set code" "CHR 0x0A \<notin> set detail" "\<forall>l \<in> set post. CHR 0x0A \<notin> set l"
  shows "\<exists>e. resolveExit exit (Join (pre @ (''curator: '' @ code @ '':'' @ detail) # post) [CHR 0x0A]) = e \<and>
     reCode e = (case curatorCodes code of Some c \<Rightarrow> c | None \<Rightarrow> CodeInvocationFailed) \<and>
     reCuratorCode e = code \<and> reExitCode e = int exit"
proof -
  let ?ls = "pre @ (''curator: '' @ code @ '':'' @ detail) # post"
  have "Split (Join ?ls [CHR 0x0A]) (CHR 0x0A) = ?ls"
    using assms(4-7) by (intro Split_Join) auto
  then have "curatorDiagnostic (Join ?ls [CHR 0x0A]) = (code, TrimSpace detail)"
    using diagnosticLines_skip [of pre] diagnosticLines_found [OF assms(1-3)] assms(4)
    by (simp add: curatorDiagnostic_def)
  then show ?thesis by (simp add: resolveExit_def split: option.split)
qed

end
