(* ===== verification/MemberLex.thy ===== *)
theory MemberLex
  imports Sha256 GoStrings "HOL-Library.AList"
begin

text \<open>
  \<open>internal/memberwire/lex.go\<close>: the bounded reader of member-protocol records. Tokenizing, the
  iterative grammar check and the construction of the value are separate passes, as in the code.
  A slice of \<open>raw\<close> from an index on is the list of the bytes that are left, so \<open>i++\<close> drops the
  head. \<open>map[string]any\<close> is an association list, \<open>o[k] = v\<close> is \<open>AList.update\<close>, and a number is
  a 64-bit word as in the code.
\<close>

section \<open>Tokens\<close>

definition safeInteger :: "64 word" where
  "safeInteger = 9007199254740991"

record token =
  tkKind :: char
  tkText :: string
  tkNumber :: "64 word"

record faults =
  fBounds :: bool
  fSchema :: bool

definition no_faults :: faults where
  "no_faults = \<lparr>fBounds = False, fSchema = False\<rparr>"

definition add_faults :: "faults \<Rightarrow> faults \<Rightarrow> faults" where
  "add_faults f g = \<lparr>fBounds = (fBounds f \<or> fBounds g), fSchema = (fSchema f \<or> fSchema g)\<rparr>"

definition plain :: "char \<Rightarrow> token" where
  "plain c = \<lparr>tkKind = c, tkText = [], tkNumber = 0\<rparr>"

definition whitespace :: "char \<Rightarrow> bool" where
  "whitespace c \<longleftrightarrow> c = CHR '' '' \<or> c = CHR 0x09 \<or> c = CHR 0x0D \<or> c = CHR 0x0A"

definition punctuation :: string where
  "punctuation = ''{}[]:,''"

definition delimiter :: "char \<Rightarrow> bool" where
  "delimiter c \<longleftrightarrow> whitespace c \<or> c \<in> set punctuation \<or> c = CHR ''/''"

section \<open>Numbers\<close>

text \<open>The loop of \<open>numberToken\<close>: the value so far, \<open>None\<close> when the next digit overflows.\<close>

fun number_digits64 :: "64 word \<Rightarrow> string \<Rightarrow> 64 word option" where
  "number_digits64 n [] = Some n"
| "number_digits64 n (c # cs) =
     (let d = of_nat (digit_val c)
      in if n > (safeInteger - d) div 10 then None else number_digits64 (n * 10 + d) cs)"

text \<open>The value, whether the text is a plain numeral, whether it overflows.\<close>

definition numberToken :: "string \<Rightarrow> 64 word \<times> bool \<times> bool" where
  "numberToken s =
     (if s = [] \<or> (1 < length s \<and> hd s = CHR ''0'') then (0, False, False)
      else if \<not> list_all is_digit s then (0, False, False)
      else (case number_digits64 0 s of
              None \<Rightarrow> (0, True, True)
            | Some n \<Rightarrow> (n, True, False)))"

section \<open>Strings\<close>

fun quad_digits :: "16 word \<Rightarrow> string \<Rightarrow> 16 word option" where
  "quad_digits n [] = Some n"
| "quad_digits n (c # cs) =
     (case hex_value c of None \<Rightarrow> None | Some d \<Rightarrow> quad_digits (n * 16 + of_nat d) cs)"

definition hexQuad :: "string \<Rightarrow> 16 word option" where
  "hexQuad s = (if length s < 4 then None else quad_digits 0 (take 4 s))"

text \<open>\<open>utf16.DecodeRune\<close> on a surrogate pair.\<close>

definition DecodeRune :: "nat \<Rightarrow> nat \<Rightarrow> nat" where
  "DecodeRune r low = 0x10000 + (r - 0xD800) * 1024 + (low - 0xDC00)"

text \<open>The case \<open>'u'\<close>: the bytes written and the rest.\<close>

definition unicodeEscape :: "string \<Rightarrow> (string \<times> string) option" where
  "unicodeEscape s =
     (case hexQuad s of
        None \<Rightarrow> None
      | Some u \<Rightarrow>
          if u = 0 then None
          else
            let s' = drop 4 s
            in if 0xD800 \<le> u \<and> u \<le> 0xDBFF then
                 if length s' < 6 \<or> take 2 s' \<noteq> [bslash, CHR ''u''] then None
                 else (case hexQuad (drop 2 s') of
                         None \<Rightarrow> None
                       | Some low \<Rightarrow>
                           if low < 0xDC00 \<or> 0xDFFF < low then None
                           else Some (encode_rune (DecodeRune (unat u) (unat low)), drop 6 s'))
               else if 0xDC00 \<le> u \<and> u \<le> 0xDFFF then None
               else Some (encode_rune (unat u), s'))"

definition stringEscape :: "char \<Rightarrow> string \<Rightarrow> (string \<times> string) option" where
  "stringEscape c s =
     (if c = dquote \<or> c = bslash \<or> c = CHR ''/'' then Some ([c], s)
      else if c = CHR ''b'' then Some ([CHR 0x08], s)
      else if c = CHR ''f'' then Some ([CHR 0x0C], s)
      else if c = CHR ''n'' then Some ([CHR 0x0A], s)
      else if c = CHR ''r'' then Some ([CHR 0x0D], s)
      else if c = CHR ''t'' then Some ([CHR 0x09], s)
      else if c = CHR ''u'' then unicodeEscape s
      else None)"

lemma stringEscape_length: "stringEscape c s = Some (bs, r) \<Longrightarrow> length r \<le> length s"
  by (auto simp: stringEscape_def unicodeEscape_def Let_def split: if_split_asm option.splits)

text \<open>The loop of \<open>stringToken\<close> after the opening quote; \<open>out\<close> is the builder.\<close>

function stringToken :: "string \<Rightarrow> string \<Rightarrow> (string \<times> string) option" where
  "stringToken out [] = None"
| "stringToken out (c # cs) =
     (if c = dquote then Some (out, cs)
      else if byte c < 0x20 then None
      else if c \<noteq> bslash then stringToken (out @ [c]) cs
      else (case cs of
              [] \<Rightarrow> None
            | e # cs' \<Rightarrow>
                (case stringEscape e cs' of
                   None \<Rightarrow> None
                 | Some (bs, rest) \<Rightarrow> stringToken (out @ bs) rest)))"
  by pat_completeness auto
termination
  by (relation "measure (\<lambda>(out, s). length s)") (auto dest: stringEscape_length)

lemma stringToken_length: "stringToken out s = Some (str, r) \<Longrightarrow> length r < length s"
  by (induction out s rule: stringToken.induct)
    (fastforce split: if_split_asm list.splits option.splits dest: stringEscape_length)+

section \<open>Tokenizing\<close>

text \<open>The text after the first \<open>*/\<close>.\<close>

fun comment_end :: "string \<Rightarrow> string option" where
  "comment_end (a # b # s) = (if a = CHR ''*'' \<and> b = CHR ''/'' then Some s else comment_end (b # s))"
| "comment_end _ = None"

definition wordToken :: "string \<Rightarrow> (token \<times> faults) option" where
  "wordToken s =
     (if s = ''true'' then Some (plain CHR ''t'', no_faults)
      else if s = ''false'' then Some (plain CHR ''f'', no_faults)
      else if s = ''null'' then Some (plain CHR ''z'', no_faults)
      else if \<not> (is_digit (hd s) \<or> hd s = CHR ''-'' \<or> hd s = CHR ''+'' \<or> hd s = CHR ''.''
                \<or> s = ''NaN'' \<or> s = ''Infinity'') then None
      else (case numberToken s of
              (n, lexical, overflow) \<Rightarrow>
                Some (\<lparr>tkKind = CHR ''n'', tkText = [], tkNumber = n\<rparr>,
                      \<lparr>fBounds = overflow, fSchema = \<not> lexical\<rparr>)))"

text \<open>One round of the loop of \<open>tokenize\<close>: the tokens appended, the faults noted, the rest.\<close>

definition lex1 :: "char \<Rightarrow> string \<Rightarrow> (token list \<times> faults \<times> string) option" where
  "lex1 c cs =
     (if whitespace c then Some ([], no_faults, cs)
      else if c \<in> set punctuation then Some ([plain c], no_faults, cs)
      else if c = dquote then
        (case stringToken [] cs of
           None \<Rightarrow> None
         | Some (s, rest) \<Rightarrow>
             Some ([\<lparr>tkKind = CHR ''s'', tkText = s, tkNumber = 0\<rparr>],
                   \<lparr>fBounds = 4096 < length s, fSchema = False\<rparr>, rest))
      else if c = CHR ''/'' \<and> HasPrefix cs ''/'' then
        Some ([], \<lparr>fBounds = False, fSchema = True\<rparr>, dropWhile (\<lambda>d. d \<noteq> CHR 0x0A) (tl cs))
      else if c = CHR ''/'' \<and> HasPrefix cs ''*'' then
        (case comment_end (tl cs) of
           None \<Rightarrow> None
         | Some rest \<Rightarrow> Some ([], \<lparr>fBounds = False, fSchema = True\<rparr>, rest))
      else
        let s = takeWhile (\<lambda>d. \<not> delimiter d) (c # cs);
            rest = dropWhile (\<lambda>d. \<not> delimiter d) (c # cs)
        in if s = [] then None
           else (case wordToken s of None \<Rightarrow> None | Some (t, f) \<Rightarrow> Some ([t], f, rest)))"

lemma comment_end_length: "comment_end s = Some r \<Longrightarrow> length r < length s"
  by (induction s rule: comment_end.induct) (auto split: if_split_asm)

lemma lex1_length: "lex1 c cs = Some (ts, f, rest) \<Longrightarrow> length rest < Suc (length cs)"
  using length_dropWhile_le [of "\<lambda>d. d \<noteq> CHR 0x0A" "tl cs"]
    length_dropWhile_le [of "\<lambda>d. \<not> delimiter d" cs]
  by (auto simp: lex1_def Let_def HasPrefix_iff dest: stringToken_length comment_end_length
      split: if_split_asm option.splits prod.splits)

function tokenize :: "token list \<Rightarrow> faults \<Rightarrow> string \<Rightarrow> (token list \<times> faults) option" where
  "tokenize out f [] = Some (out, f)"
| "tokenize out f (c # cs) =
     (case lex1 c cs of
        None \<Rightarrow> None
      | Some (ts, g, rest) \<Rightarrow> tokenize (out @ ts) (add_faults f g) rest)"
  by pat_completeness auto
termination
  by (relation "measure (\<lambda>(out, f, s). length s)") (auto dest: lex1_length)

end
