(* ===== verification/MemberParse.thy ===== *)
theory MemberParse
  imports MemberLex
begin

text \<open>
  \<open>internal/memberwire/lex.go\<close>, second half: the pushdown check \<open>grammar\<close>, the construction of
  the value, and \<open>parseObject\<close> with its phases. Every round of the loop of \<open>grammar\<close> either stops
  or consumes one token, so the loop is a recursion on the tokens that are left; the top of the
  Go stack is the head of the list. In \<open>buildValue\<close> the index is again the list of the tokens
  from it on; reading past the end is the runtime panic \<open>IndexPanic\<close>, and a type assertion that
  fails is \<open>AssertPanic\<close>. Its recursion is bounded by fuel, and parseObject gives enough.
\<close>

section \<open>The grammar\<close>

record frame =
  frKind :: char
  frState :: nat
  frNames :: "string set"

definition newFrame :: "char \<Rightarrow> frame" where
  "newFrame k = \<lparr>frKind = k, frState = 0, frNames = {}\<rparr>"

datatype verdict =
  Reject
| Pop
| Next frame faults
| ValueNext frame

text \<open>
  The switch on \<open>top.state\<close>: reject, pop the frame, or go on with the changed frame;
  \<open>ValueNext\<close> falls through to the common value step.
\<close>

definition stateStep :: "frame \<Rightarrow> token \<Rightarrow> faults \<Rightarrow> verdict" where
  "stateStep fr t f =
     (if frState fr = 0 \<or> frState fr = 4 then
        if frKind fr = CHR ''{'' then
          if tkKind t = CHR ''}'' \<and> frState fr = 0 then Pop
          else if tkKind t \<noteq> CHR ''s'' then Reject
          else Next (fr\<lparr>frNames := insert (tkText t) (frNames fr), frState := 1\<rparr>)
                 (if tkText t \<in> frNames fr then f\<lparr>fSchema := True\<rparr> else f)
        else if tkKind t = CHR '']'' \<and> frState fr = 0 then Pop
        else ValueNext (fr\<lparr>frState := 2\<rparr>)
      else if frState fr = 1 then
        if tkKind t \<noteq> CHR '':'' then Reject else Next (fr\<lparr>frState := 2\<rparr>) f
      else if frState fr = 3 then
        if frKind fr = CHR ''{'' \<and> tkKind t = CHR ''}'' \<or> frKind fr = CHR ''['' \<and> tkKind t = CHR '']''
        then Pop
        else if tkKind t \<noteq> CHR '','' then Reject
        else Next (fr\<lparr>frState := 4\<rparr>) f
      else ValueNext fr)"

definition is_open :: "token \<Rightarrow> bool" where
  "is_open t \<longleftrightarrow> tkKind t = CHR ''{'' \<or> tkKind t = CHR ''[''"

definition is_scalar :: "token \<Rightarrow> bool" where
  "is_scalar t \<longleftrightarrow> tkKind t \<in> set ''sntfz''"

definition fault_if :: "bool \<Rightarrow> faults \<Rightarrow> faults" where
  "fault_if b f = f\<lparr>fBounds := fBounds f \<or> b\<rparr>"

text \<open>The common value step after the switch: the new stack, node count and faults.\<close>

definition valueStep ::
  "frame \<Rightarrow> frame list \<Rightarrow> nat \<Rightarrow> faults \<Rightarrow> token \<Rightarrow> (frame list \<times> nat \<times> faults) option" where
  "valueStep fr stack nodes f t =
     (let stack1 = fr\<lparr>frState := 3\<rparr> # stack; nodes = nodes + 1
      in if is_open t then
           let stack2 = newFrame (tkKind t) # stack1
           in Some (stack2, nodes, fault_if (8192 < nodes) (fault_if (16 < length stack2) f))
         else if is_scalar t then Some (stack1, nodes, fault_if (8192 < nodes) f)
         else None)"

definition grammarStep ::
  "frame \<Rightarrow> frame list \<Rightarrow> nat \<Rightarrow> faults \<Rightarrow> token \<Rightarrow> (frame list \<times> nat \<times> faults) option" where
  "grammarStep fr stack nodes f t =
     (case stateStep fr t f of
        Reject \<Rightarrow> None
      | Pop \<Rightarrow> Some (stack, nodes, f)
      | Next fr' f' \<Rightarrow> Some (fr' # stack, nodes, f')
      | ValueNext fr' \<Rightarrow> valueStep fr' stack nodes f t)"

text \<open>The loop of \<open>grammar\<close> from a token on; the stack is its top frame and the ones below.\<close>

fun grammar_loop :: "frame list \<Rightarrow> nat \<Rightarrow> faults \<Rightarrow> token list \<Rightarrow> faults option" where
  "grammar_loop [] nodes f ts = (if ts = [] then Some f else None)"
| "grammar_loop (fr # stack) nodes f [] = None"
| "grammar_loop (fr # stack) nodes f (t # ts) =
     (case grammarStep fr stack nodes f t of
        None \<Rightarrow> None
      | Some (stack', nodes', f') \<Rightarrow> grammar_loop stack' nodes' f' ts)"

definition grammar :: "token list \<Rightarrow> faults \<Rightarrow> faults option" where
  "grammar tokens f =
     (case tokens of
        [] \<Rightarrow> None
      | t # ts \<Rightarrow> if tkKind t \<noteq> CHR ''{'' then None else grammar_loop [newFrame CHR ''{''] 1 f ts)"

section \<open>The value\<close>

datatype gvalue =
  GNil
| GBool bool
| GNum "64 word"
| GStr string
| GArr "gvalue list"
| GObj "(string \<times> gvalue) list"

datatype gpanic = IndexPanic | AssertPanic | OutOfFuel

fun scalar :: "token \<Rightarrow> gvalue" where
  "scalar t =
     (if tkKind t = CHR ''s'' then GStr (tkText t)
      else if tkKind t = CHR ''n'' then GNum (tkNumber t)
      else if tkKind t = CHR ''t'' then GBool True
      else if tkKind t = CHR ''f'' then GBool False
      else GNil)"

text \<open>\<open>if tokens[*i].kind == ',' { *i++ }\<close>\<close>

definition skipComma :: "token list \<Rightarrow> gpanic + token list" where
  "skipComma ts =
     (case ts of
        [] \<Rightarrow> Inl IndexPanic
      | c # cs \<Rightarrow> Inr (if tkKind c = CHR '','' then cs else ts))"

fun buildValue :: "nat \<Rightarrow> token list \<Rightarrow> gpanic + (gvalue \<times> token list)"
  and buildMembers :: "nat \<Rightarrow> (string \<times> gvalue) list \<Rightarrow> token list \<Rightarrow> gpanic + (gvalue \<times> token list)"
  and buildElements :: "nat \<Rightarrow> gvalue list \<Rightarrow> token list \<Rightarrow> gpanic + (gvalue \<times> token list)"
where
  "buildValue 0 ts = Inl OutOfFuel"
| "buildValue (Suc n) ts =
     (case ts of
        [] \<Rightarrow> Inl IndexPanic
      | t # ts' \<Rightarrow>
          if tkKind t = CHR ''{'' then buildMembers n [] ts'
          else if tkKind t = CHR ''['' then buildElements n [] ts'
          else Inr (scalar t, ts'))"
| "buildMembers 0 obj ts = Inl OutOfFuel"
| "buildMembers (Suc n) obj ts =
     (case ts of
        [] \<Rightarrow> Inl IndexPanic
      | t # ts' \<Rightarrow>
          if tkKind t = CHR ''}'' then Inr (GObj obj, ts')
          else
            res_bind (buildValue n (drop 1 ts')) (\<lambda>(v, rest).
            res_bind (skipComma rest) (\<lambda>rest.
            buildMembers n (AList.update (tkText t) v obj) rest)))"
| "buildElements 0 arr ts = Inl OutOfFuel"
| "buildElements (Suc n) arr ts =
     (case ts of
        [] \<Rightarrow> Inl IndexPanic
      | t # ts' \<Rightarrow>
          if tkKind t = CHR '']'' then Inr (GArr arr, ts')
          else
            res_bind (buildValue n ts) (\<lambda>(v, rest).
            res_bind (skipComma rest) (\<lambda>rest.
            buildElements n (arr @ [v]) rest)))"

section \<open>parseObject\<close>

datatype wireCode = EncodingInvalid | BoundsExceeded | SchemaInvalid

datatype wireError = ParseError wireCode | Panic gpanic

definition RequestLimit :: nat where "RequestLimit = 64 * 1024"

definition parseObject :: "string \<Rightarrow> wireError + (string \<times> gvalue) list" where
  "parseObject raw =
     (if RequestLimit < length raw then Inl (ParseError BoundsExceeded)
      else if \<not> utf8_valid raw \<or> HasPrefix raw [CHR 0xEF, CHR 0xBB, CHR 0xBF] \<or> CHR 0x00 \<in> set raw
      then Inl (ParseError EncodingInvalid)
      else
        (case tokenize [] no_faults raw of
           None \<Rightarrow> Inl (ParseError EncodingInvalid)
         | Some (tokens, f) \<Rightarrow>
             (case grammar tokens f of
                None \<Rightarrow> Inl (ParseError EncodingInvalid)
              | Some f \<Rightarrow>
                  if fBounds f then Inl (ParseError BoundsExceeded)
                  else if fSchema f then Inl (ParseError SchemaInvalid)
                  else
                    (case buildValue (2 * length tokens + 2) tokens of
                       Inl p \<Rightarrow> Inl (Panic p)
                     | Inr (GObj o', _) \<Rightarrow> Inr o'
                     | Inr _ \<Rightarrow> Inl (Panic AssertPanic)))))"

end
