(* ===== verification/MemberParseProps.thy ===== *)
theory MemberParseProps
  imports MemberParse
begin

text \<open>
  The three passes of the member-record reader agree: a token sequence that the pushdown check
  accepts without faults is built into a value without a panic, and the counters of the check
  bound the depth, the number of nodes and the keys of that value.
\<close>

section \<open>Well-formed values\<close>

definition text_bound :: "string \<Rightarrow> bool" where
  "text_bound s \<longleftrightarrow> length s \<le> 4096 \<and> utf8_valid s"

text \<open>What the reader promises of a value with \<open>d\<close> container levels left.\<close>

fun gok :: "nat \<Rightarrow> gvalue \<Rightarrow> bool" where
  "gok d GNil = True"
| "gok d (GBool b) = True"
| "gok d (GNum n) = (n \<le> safeInteger)"
| "gok d (GStr s) = text_bound s"
| "gok d (GArr vs) = (0 < d \<and> (\<forall>v \<in> set vs. gok (d - 1) v))"
| "gok d (GObj ms) = (0 < d \<and> distinct (map fst ms)
     \<and> (\<forall>(k, v) \<in> set ms. text_bound k \<and> gok (d - 1) v))"

text \<open>The number of values of a value, itself included; member names do not count.\<close>

fun gnodes :: "gvalue \<Rightarrow> nat" where
  "gnodes (GArr vs) = Suc (sum_list (map gnodes vs))"
| "gnodes (GObj ms) = Suc (sum_list (map (\<lambda>kv. gnodes (snd kv)) ms))"
| "gnodes v = 1"

definition tok_ok :: "token \<Rightarrow> bool" where
  "tok_ok t \<longleftrightarrow> text_bound (tkText t) \<and> tkNumber t \<le> safeInteger"

section \<open>Faults only accumulate\<close>

definition clean :: "faults \<Rightarrow> bool" where
  "clean f \<longleftrightarrow> \<not> fBounds f \<and> \<not> fSchema f"

lemma clean_fault_if [simp]: "clean (fault_if b f) \<longleftrightarrow> \<not> b \<and> clean f"
  by (auto simp: clean_def fault_if_def)

lemma grammarStep_clean:
  "grammarStep fr st n f t = Some (st', n', f') \<Longrightarrow> clean f' \<Longrightarrow> clean f"
  by (auto simp: grammarStep_def stateStep_def valueStep_def Let_def clean_def fault_if_def
      split: if_split_asm)

lemma grammar_loop_clean: "grammar_loop st n f ts = Some f' \<Longrightarrow> clean f' \<Longrightarrow> clean f"
  by (induction st n f ts rule: grammar_loop.induct)
    (auto split: if_split_asm option.splits dest: grammarStep_clean)

section \<open>Building along an accepted run\<close>

text \<open>
  What building a value from \<open>ts\<close> gives, seen from the run of the pushdown check: the value, the
  tokens after it, and a run on them of the same stack. \<open>build\<close> is the builder with its fuel,
  \<open>m\<close> the fuel it needs, and \<open>good n n2 v\<close> what holds of the value when nothing was faulted.
\<close>

definition built ::
  "(nat \<Rightarrow> gpanic + (gvalue \<times> token list)) \<Rightarrow> nat \<Rightarrow> nat \<Rightarrow> frame list \<Rightarrow> faults
   \<Rightarrow> (nat \<Rightarrow> gvalue \<Rightarrow> bool) \<Rightarrow> bool" where
  "built build m len st f' good \<longleftrightarrow>
     (\<exists>v rest n2 f2. grammar_loop st n2 f2 rest = Some f' \<and> length rest < len \<and> (\<forall>t \<in> set rest. tok_ok t) \<and>
        (\<forall>fuel. m < fuel \<longrightarrow> build fuel = Inr (v, rest)) \<and> (clean f' \<longrightarrow> good n2 v \<and> n2 \<le> 8192))"

definition okobj :: "nat \<Rightarrow> (string \<times> gvalue) list \<Rightarrow> bool" where
  "okobj d obj \<longleftrightarrow> distinct (map fst obj) \<and> (\<forall>(k, v) \<in> set obj. text_bound k \<and> gok d v)"

definition objnodes :: "(string \<times> gvalue) list \<Rightarrow> nat" where
  "objnodes obj = sum_list (map (\<lambda>kv. gnodes (snd kv)) obj)"

definition members_good :: "nat \<Rightarrow> nat \<Rightarrow> (string \<times> gvalue) list \<Rightarrow> nat \<Rightarrow> gvalue \<Rightarrow> bool" where
  "members_good d n obj n2 v \<longleftrightarrow>
     (\<exists>obj'. v = GObj obj' \<and> okobj d obj' \<and> n2 + objnodes obj = n + objnodes obj')"

definition elements_good :: "nat \<Rightarrow> nat \<Rightarrow> gvalue list \<Rightarrow> nat \<Rightarrow> gvalue \<Rightarrow> bool" where
  "elements_good d n arr n2 v \<longleftrightarrow>
     (\<exists>arr'. v = GArr arr' \<and> (\<forall>w \<in> set arr'. gok d w)
        \<and> n2 + sum_list (map gnodes arr) = n + sum_list (map gnodes arr'))"

text \<open>The claims for the rest of an object and the rest of an array.\<close>

definition obj_claim :: "token list \<Rightarrow> bool" where
  "obj_claim ts \<longleftrightarrow>
     (\<forall>st n f names s obj f'.
        grammar_loop (\<lparr>frKind = CHR ''{'', frState = s, frNames = names\<rparr> # st) n f ts = Some f' \<longrightarrow>
        s \<in> {0, 4} \<longrightarrow> (\<forall>t \<in> set ts. tok_ok t) \<longrightarrow> fst ` set obj = names \<longrightarrow>
        (clean f' \<longrightarrow> n \<le> 8192 \<and> okobj (16 - Suc (length st)) obj) \<longrightarrow>
        built (\<lambda>fuel. buildMembers fuel obj ts) (2 * length ts + 1) (length ts) st f'
          (members_good (16 - Suc (length st)) n obj))"

definition arr_claim :: "token list \<Rightarrow> bool" where
  "arr_claim ts \<longleftrightarrow>
     (\<forall>st n f names s arr f'.
        grammar_loop (\<lparr>frKind = CHR ''['', frState = s, frNames = names\<rparr> # st) n f ts = Some f' \<longrightarrow>
        s \<in> {0, 4} \<longrightarrow> (\<forall>t \<in> set ts. tok_ok t) \<longrightarrow>
        (clean f' \<longrightarrow> n \<le> 8192 \<and> (\<forall>w \<in> set arr. gok (16 - Suc (length st)) w)) \<longrightarrow>
        built (\<lambda>fuel. buildElements fuel arr ts) (2 * length ts + 1) (length ts) st f'
          (elements_good (16 - Suc (length st)) n arr))"

lemma obj_claimD:
  assumes "obj_claim ts"
    "grammar_loop (\<lparr>frKind = CHR ''{'', frState = s, frNames = names\<rparr> # st) n f ts = Some f'"
    "s \<in> {0, 4}" "\<forall>t \<in> set ts. tok_ok t" "fst ` set obj = names"
    "clean f' \<Longrightarrow> n \<le> 8192 \<and> okobj (16 - Suc (length st)) obj"
  shows "built (\<lambda>fuel. buildMembers fuel obj ts) (2 * length ts + 1) (length ts) st f'
    (members_good (16 - Suc (length st)) n obj)"
  using assms unfolding obj_claim_def by blast

lemma arr_claimD:
  assumes "arr_claim ts"
    "grammar_loop (\<lparr>frKind = CHR ''['', frState = s, frNames = names\<rparr> # st) n f ts = Some f'"
    "s \<in> {0, 4}" "\<forall>t \<in> set ts. tok_ok t"
    "clean f' \<Longrightarrow> n \<le> 8192 \<and> (\<forall>w \<in> set arr. gok (16 - Suc (length st)) w)"
  shows "built (\<lambda>fuel. buildElements fuel arr ts) (2 * length ts + 1) (length ts) st f'
    (elements_good (16 - Suc (length st)) n arr)"
  using assms unfolding arr_claim_def by blast

lemma builtI:
  assumes "grammar_loop st n2 f2 rest = Some f'" "length rest < len" "\<forall>t \<in> set rest. tok_ok t"
    "\<And>fuel. m < fuel \<Longrightarrow> build fuel = Inr (v, rest)" "clean f' \<Longrightarrow> good n2 v \<and> n2 \<le> 8192"
  shows "built build m len st f' good"
  using assms unfolding built_def by blast

text \<open>A value, given the claims for the tokens after its first one.\<close>

lemma value_built:
  assumes o': "obj_claim ts" and a: "arr_claim ts"
    and step: "valueStep fr st n f t = Some (st', n', f1)"
    and run: "grammar_loop st' n' f1 ts = Some f'"
    and ok: "tok_ok t" "\<forall>t \<in> set ts. tok_ok t"
  shows "built (\<lambda>fuel. buildValue fuel (t # ts)) (2 * length (t # ts)) (length (t # ts))
    (fr\<lparr>frState := 3\<rparr> # st) f' (\<lambda>n2 v. gok (16 - Suc (length st)) v \<and> n2 = n + gnodes v)"
proof (cases "is_open t")
  case False
  with step have sc: "is_scalar t" and st': "st' = fr\<lparr>frState := 3\<rparr> # st" "n' = n + 1"
    "f1 = fault_if (8192 < n + 1) f"
    by (auto simp: valueStep_def split: if_split_asm)
  have "tkKind t \<noteq> CHR ''{''" "tkKind t \<noteq> CHR ''[''" using False by (auto simp: is_open_def)
  then have b: "buildValue fuel (t # ts) = Inr (scalar t, ts)" if "2 * length (t # ts) < fuel" for fuel
    using that by (cases fuel) auto
  have g: "gok (16 - Suc (length st)) (scalar t) \<and> gnodes (scalar t) = 1"
    using ok(1) by (simp add: tok_ok_def)
  show ?thesis
  proof (rule builtI [OF _ _ _ b])
    show "grammar_loop (fr\<lparr>frState := 3\<rparr> # st) (n + 1) f1 ts = Some f'" using run st' by simp
    show "(gok (16 - Suc (length st)) (scalar t) \<and> n + 1 = n + gnodes (scalar t)) \<and> n + 1 \<le> 8192"
      if "clean f'"
      using g grammar_loop_clean [OF run that] st'(3) by simp
  qed (use ok in simp_all)
next
  case True
  let ?st = "fr\<lparr>frState := 3\<rparr> # st"
  from True step have st': "st' = newFrame (tkKind t) # ?st" "n' = n + 1"
    "f1 = fault_if (8192 < n + 1) (fault_if (16 < Suc (Suc (length st))) f)"
    by (auto simp: valueStep_def Let_def)
  have room: "0 < 16 - Suc (length st) \<and> 16 - Suc (length ?st) = 16 - Suc (length st) - 1 \<and> n + 1 \<le> 8192"
    if "clean f'"
    using grammar_loop_clean [OF run that] st'(3) by auto
  show ?thesis
  proof (cases "tkKind t = CHR ''{''")
    case True
    have "built (\<lambda>fuel. buildMembers fuel [] ts) (2 * length ts + 1) (length ts) ?st f'
        (members_good (16 - Suc (length ?st)) (n + 1) [])"
      by (rule obj_claimD [OF o', where s = 0 and names = "{}"])
        (use run room ok in \<open>auto simp: st' True newFrame_def okobj_def\<close>)
    then obtain v rest n2 f2 where r: "grammar_loop ?st n2 f2 rest = Some f'" "length rest < length ts"
      "\<forall>t \<in> set rest. tok_ok t" "\<And>fuel. 2 * length ts + 1 < fuel \<Longrightarrow> buildMembers fuel [] ts = Inr (v, rest)"
      "clean f' \<Longrightarrow> members_good (16 - Suc (length ?st)) (n + 1) [] n2 v \<and> n2 \<le> 8192"
      unfolding built_def by blast
    show ?thesis
    proof (rule builtI [OF r(1) _ r(3), of _ _ _ v])
      show "buildValue fuel (t # ts) = Inr (v, rest)" if "2 * length (t # ts) < fuel" for fuel
        using that True r(4) by (cases fuel) auto
      show "(gok (16 - Suc (length st)) v \<and> n2 = n + gnodes v) \<and> n2 \<le> 8192" if c: "clean f'"
        using r(5) [OF c] room [OF c] by (auto simp: members_good_def okobj_def objnodes_def)
    qed (use r(2) in simp)
  next
    case F: False
    with True have k: "tkKind t = CHR ''[''" by (auto simp: is_open_def)
    have "built (\<lambda>fuel. buildElements fuel [] ts) (2 * length ts + 1) (length ts) ?st f'
        (elements_good (16 - Suc (length ?st)) (n + 1) [])"
      by (rule arr_claimD [OF a, where s = 0 and names = "{}"])
        (use run room ok in \<open>auto simp: st' k newFrame_def\<close>)
    then obtain v rest n2 f2 where r: "grammar_loop ?st n2 f2 rest = Some f'" "length rest < length ts"
      "\<forall>t \<in> set rest. tok_ok t" "\<And>fuel. 2 * length ts + 1 < fuel \<Longrightarrow> buildElements fuel [] ts = Inr (v, rest)"
      "clean f' \<Longrightarrow> elements_good (16 - Suc (length ?st)) (n + 1) [] n2 v \<and> n2 \<le> 8192"
      unfolding built_def by blast
    show ?thesis
    proof (rule builtI [OF r(1) _ r(3), of _ _ _ v])
      show "buildValue fuel (t # ts) = Inr (v, rest)" if "2 * length (t # ts) < fuel" for fuel
        using that k r(4) by (cases fuel) auto
      show "(gok (16 - Suc (length st)) v \<and> n2 = n + gnodes v) \<and> n2 \<le> 8192" if c: "clean f'"
        using r(5) [OF c] room [OF c] by (auto simp: elements_good_def)
    qed (use r(2) in simp)
  qed
qed

text \<open>The rest of an object after a member value, and of an array after an element.\<close>

lemma object_after:
  assumes claims: "\<And>us. length us < length ts \<Longrightarrow> obj_claim us"
    and run: "grammar_loop (\<lparr>frKind = CHR ''{'', frState = 3, frNames = names\<rparr> # st) n f ts = Some f'"
    and ok: "\<forall>t \<in> set ts. tok_ok t" and names: "fst ` set obj = names"
    and c: "clean f' \<Longrightarrow> n \<le> 8192 \<and> okobj (16 - Suc (length st)) obj"
  shows "built (\<lambda>fuel. res_bind (skipComma ts) (buildMembers fuel obj)) (2 * length ts + 1) (length ts) st f'
    (members_good (16 - Suc (length st)) n obj)"
proof (cases ts)
  case Nil
  with run show ?thesis by simp
next
  case (Cons t us)
  show ?thesis
  proof (cases "tkKind t = CHR ''}''")
    case True
    with run Cons have r: "grammar_loop st n f us = Some f'"
      by (simp add: grammarStep_def stateStep_def)
    show ?thesis
    proof (rule builtI [OF r, of _ _ _ "GObj obj"])
      show "res_bind (skipComma ts) (buildMembers fuel obj) = Inr (GObj obj, us)"
        if "2 * length ts + 1 < fuel" for fuel
        using that True Cons by (cases fuel) (auto simp: skipComma_def)
    qed (use Cons ok c in \<open>auto simp: members_good_def\<close>)
  next
    case False
    with run Cons have t: "tkKind t = CHR '',''"
      and r: "grammar_loop (\<lparr>frKind = CHR ''{'', frState = 4, frNames = names\<rparr> # st) n f us = Some f'"
      by (auto simp: grammarStep_def stateStep_def split: if_split_asm)
    have "built (\<lambda>fuel. buildMembers fuel obj us) (2 * length us + 1) (length us) st f'
       (members_good (16 - Suc (length st)) n obj)"
      by (rule obj_claimD [OF claims r]) (use Cons ok names c in auto)
    moreover have "res_bind (skipComma ts) (buildMembers fuel obj) = buildMembers fuel obj us" for fuel
      using t Cons by (simp add: skipComma_def)
    ultimately show ?thesis using Cons unfolding built_def by fastforce
  qed
qed

lemma array_after:
  assumes claims: "\<And>us. length us < length ts \<Longrightarrow> arr_claim us"
    and run: "grammar_loop (\<lparr>frKind = CHR ''['', frState = 3, frNames = names\<rparr> # st) n f ts = Some f'"
    and ok: "\<forall>t \<in> set ts. tok_ok t"
    and c: "clean f' \<Longrightarrow> n \<le> 8192 \<and> (\<forall>w \<in> set arr. gok (16 - Suc (length st)) w)"
  shows "built (\<lambda>fuel. res_bind (skipComma ts) (buildElements fuel arr)) (2 * length ts + 1) (length ts) st f'
    (elements_good (16 - Suc (length st)) n arr)"
proof (cases ts)
  case Nil
  with run show ?thesis by simp
next
  case (Cons t us)
  show ?thesis
  proof (cases "tkKind t = CHR '']''")
    case True
    with run Cons have r: "grammar_loop st n f us = Some f'"
      by (simp add: grammarStep_def stateStep_def)
    show ?thesis
    proof (rule builtI [OF r, of _ _ _ "GArr arr"])
      show "res_bind (skipComma ts) (buildElements fuel arr) = Inr (GArr arr, us)"
        if "2 * length ts + 1 < fuel" for fuel
        using that True Cons by (cases fuel) (auto simp: skipComma_def)
    qed (use Cons ok c in \<open>auto simp: elements_good_def\<close>)
  next
    case False
    with run Cons have t: "tkKind t = CHR '',''"
      and r: "grammar_loop (\<lparr>frKind = CHR ''['', frState = 4, frNames = names\<rparr> # st) n f us = Some f'"
      by (auto simp: grammarStep_def stateStep_def split: if_split_asm)
    have "built (\<lambda>fuel. buildElements fuel arr us) (2 * length us + 1) (length us) st f'
       (elements_good (16 - Suc (length st)) n arr)"
      by (rule arr_claimD [OF claims r]) (use Cons ok c in auto)
    moreover have "res_bind (skipComma ts) (buildElements fuel arr) = buildElements fuel arr us" for fuel
      using t Cons by (simp add: skipComma_def)
    ultimately show ?thesis using Cons unfolding built_def by fastforce
  qed
qed

lemma update_fresh: "k \<notin> fst ` set obj \<Longrightarrow> AList.update k v obj = obj @ [(k, v)]"
  by (induction obj) auto

lemma object_step:
  assumes claims: "\<And>us. length us < length ts \<Longrightarrow> obj_claim us \<and> arr_claim us"
  shows "obj_claim ts"
  unfolding obj_claim_def
proof (intro allI impI)
  fix st n f names s obj f'
  assume run: "grammar_loop (\<lparr>frKind = CHR ''{'', frState = s, frNames = names\<rparr> # st) n f ts = Some f'"
    and s: "s \<in> {0, 4 :: nat}" and ok: "\<forall>t \<in> set ts. tok_ok t" and names: "fst ` set obj = names"
    and c: "clean f' \<longrightarrow> n \<le> 8192 \<and> okobj (16 - Suc (length st)) obj"
  from run obtain t us where ts: "ts = t # us" by (cases ts) auto
  show "built (\<lambda>fuel. buildMembers fuel obj ts) (2 * length ts + 1) (length ts) st f'
    (members_good (16 - Suc (length st)) n obj)"
  proof (cases "tkKind t = CHR ''}''")
    case True
    with run ts s have r: "grammar_loop st n f us = Some f'"
      by (auto simp: grammarStep_def stateStep_def split: if_split_asm)
    show ?thesis
    proof (rule builtI [OF r, of _ _ _ "GObj obj"])
      show "buildMembers fuel obj ts = Inr (GObj obj, us)" if "2 * length ts + 1 < fuel" for fuel
        using that True ts by (cases fuel) auto
    qed (use ts ok c in \<open>auto simp: members_good_def\<close>)
  next
    case False
    let ?k = "tkText t"
    let ?fr = "\<lambda>q. \<lparr>frKind = CHR ''{'', frState = q, frNames = insert ?k names\<rparr>"
    define f1 where "f1 = (if ?k \<in> names then f\<lparr>fSchema := True\<rparr> else f)"
    have "grammarStep \<lparr>frKind = CHR ''{'', frState = s, frNames = names\<rparr> st n f t
        = (if tkKind t = CHR ''s'' then Some (?fr 1 # st, n, f1) else None)"
      using s False by (auto simp: grammarStep_def stateStep_def f1_def)
    with run ts have r1: "grammar_loop (?fr 1 # st) n f1 us = Some f'" by (auto split: if_split_asm)
    then obtain t2 ws where us: "us = t2 # ws" by (cases us) auto
    have "grammarStep (?fr 1) st n f1 t2 = (if tkKind t2 = CHR '':'' then Some (?fr 2 # st, n, f1) else None)"
      by (simp add: grammarStep_def stateStep_def)
    with r1 us have r2: "grammar_loop (?fr 2 # st) n f1 ws = Some f'" by (auto split: if_split_asm)
    then obtain w xs where ws: "ws = w # xs" by (cases ws) auto
    have "grammarStep (?fr 2) st n f1 w = valueStep (?fr 2) st n f1 w"
      by (simp add: grammarStep_def stateStep_def)
    with r2 ws obtain st' n' f2 where step: "valueStep (?fr 2) st n f1 w = Some (st', n', f2)"
      and r3: "grammar_loop st' n' f2 xs = Some f'" by (auto split: option.splits)
    have "built (\<lambda>fuel. buildValue fuel (w # xs)) (2 * length (w # xs)) (length (w # xs))
        ((?fr 2)\<lparr>frState := 3\<rparr> # st) f' (\<lambda>n2 v. gok (16 - Suc (length st)) v \<and> n2 = n + gnodes v)"
      by (rule value_built [OF _ _ step r3]) (use claims ts us ws ok in auto)
    then obtain v rest n2 f3 where v: "grammar_loop (?fr 3 # st) n2 f3 rest = Some f'"
      "length rest < length (w # xs)" "\<forall>t \<in> set rest. tok_ok t"
      "\<And>fuel. 2 * length (w # xs) < fuel \<Longrightarrow> buildValue fuel (w # xs) = Inr (v, rest)"
      "clean f' \<Longrightarrow> gok (16 - Suc (length st)) v \<and> n2 = n + gnodes v \<and> n2 \<le> 8192"
      unfolding built_def by auto
    let ?obj = "AList.update ?k v obj"
    have fresh: "?obj = obj @ [(?k, v)]" if "clean f'"
    proof -
      have "clean f1" using grammar_loop_clean [OF r1 that] .
      then have "?k \<notin> names" by (auto simp: f1_def clean_def split: if_split_asm)
      with names show ?thesis by (simp add: update_fresh)
    qed
    have c': "n2 \<le> 8192 \<and> okobj (16 - Suc (length st)) ?obj" if cl: "clean f'"
    proof -
      have "clean f1" using grammar_loop_clean [OF r1 cl] .
      then have "?k \<notin> names" by (auto simp: f1_def clean_def split: if_split_asm)
      moreover have "text_bound ?k" using ok ts by (simp add: tok_ok_def)
      ultimately show ?thesis
        using v(5) [OF cl] c cl names by (auto simp: fresh [OF cl] okobj_def)
    qed
    have "built (\<lambda>fuel. res_bind (skipComma rest) (buildMembers fuel ?obj)) (2 * length rest + 1) (length rest) st f'
        (members_good (16 - Suc (length st)) n2 ?obj)"
    proof (rule object_after [OF _ v(1) v(3)])
      show "obj_claim us'" if "length us' < length rest" for us'
        using claims that v(2) ts us ws by simp
      show "fst ` set ?obj = insert ?k names"
        using names by (simp add: dom_map_of_conv_image_fst [symmetric] update_conv')
    qed (use c' in auto)
    then obtain v' rest' n3 f4 where o': "grammar_loop st n3 f4 rest' = Some f'" "length rest' < length rest"
      "\<forall>t \<in> set rest'. tok_ok t"
      "\<And>fuel. 2 * length rest + 1 < fuel \<Longrightarrow> res_bind (skipComma rest) (buildMembers fuel ?obj) = Inr (v', rest')"
      "clean f' \<Longrightarrow> members_good (16 - Suc (length st)) n2 ?obj n3 v' \<and> n3 \<le> 8192"
      unfolding built_def by auto
    show ?thesis
    proof (rule builtI [OF o'(1) _ o'(3), of _ _ _ v'])
      show "length rest' < length ts" using o'(2) v(2) ts us ws by simp
      show "buildMembers fuel obj ts = Inr (v', rest')" if m: "2 * length ts + 1 < fuel" for fuel
      proof -
        from m ts us ws obtain k where k: "fuel = Suc k" "2 * length (w # xs) < k" "2 * length rest + 1 < k"
          using v(2) by (cases fuel) auto
        have "buildMembers fuel obj ts = res_bind (skipComma rest) (buildMembers k ?obj)"
          using v(4) [OF k(2)] False by (simp add: k(1) ts us ws)
        with o'(4) [OF k(3)] show ?thesis by simp
      qed
      show "members_good (16 - Suc (length st)) n obj n3 v' \<and> n3 \<le> 8192" if cl: "clean f'"
        using o'(5) [OF cl] v(5) [OF cl]
        by (auto simp: members_good_def fresh [OF cl] objnodes_def)
    qed
  qed
qed

lemma array_step:
  assumes claims: "\<And>us. length us < length ts \<Longrightarrow> obj_claim us \<and> arr_claim us"
  shows "arr_claim ts"
  unfolding arr_claim_def
proof (intro allI impI)
  fix st n f names s arr f'
  assume run: "grammar_loop (\<lparr>frKind = CHR ''['', frState = s, frNames = names\<rparr> # st) n f ts = Some f'"
    and s: "s \<in> {0, 4 :: nat}" and ok: "\<forall>t \<in> set ts. tok_ok t"
    and c: "clean f' \<longrightarrow> n \<le> 8192 \<and> (\<forall>w \<in> set arr. gok (16 - Suc (length st)) w)"
  from run obtain t us where ts: "ts = t # us" by (cases ts) auto
  show "built (\<lambda>fuel. buildElements fuel arr ts) (2 * length ts + 1) (length ts) st f'
    (elements_good (16 - Suc (length st)) n arr)"
  proof (cases "tkKind t = CHR '']''")
    case True
    have "s = 0"
      using run ts s True
      by (auto simp: grammarStep_def stateStep_def valueStep_def is_open_def is_scalar_def split: if_split_asm)
    with True run ts have r: "grammar_loop st n f us = Some f'"
      by (auto simp: grammarStep_def stateStep_def)
    show ?thesis
    proof (rule builtI [OF r, of _ _ _ "GArr arr"])
      show "buildElements fuel arr ts = Inr (GArr arr, us)" if "2 * length ts + 1 < fuel" for fuel
        using that True ts by (cases fuel) auto
    qed (use ts ok c in \<open>auto simp: elements_good_def\<close>)
  next
    case False
    let ?fr = "\<lambda>q. \<lparr>frKind = CHR ''['', frState = q, frNames = names\<rparr>"
    have "grammarStep (?fr s) st n f t = valueStep (?fr 2) st n f t"
      using s False by (auto simp: grammarStep_def stateStep_def)
    with run ts obtain st' n' f2 where step: "valueStep (?fr 2) st n f t = Some (st', n', f2)"
      and r3: "grammar_loop st' n' f2 us = Some f'" by (auto split: option.splits)
    have "built (\<lambda>fuel. buildValue fuel (t # us)) (2 * length (t # us)) (length (t # us))
        ((?fr 2)\<lparr>frState := 3\<rparr> # st) f' (\<lambda>n2 v. gok (16 - Suc (length st)) v \<and> n2 = n + gnodes v)"
      by (rule value_built [OF _ _ step r3]) (use claims ts ok in auto)
    then obtain v rest n2 f3 where v: "grammar_loop (?fr 3 # st) n2 f3 rest = Some f'"
      "length rest < length (t # us)" "\<forall>t \<in> set rest. tok_ok t"
      "\<And>fuel. 2 * length (t # us) < fuel \<Longrightarrow> buildValue fuel (t # us) = Inr (v, rest)"
      "clean f' \<Longrightarrow> gok (16 - Suc (length st)) v \<and> n2 = n + gnodes v \<and> n2 \<le> 8192"
      unfolding built_def by auto
    let ?arr = "arr @ [v]"
    have "built (\<lambda>fuel. res_bind (skipComma rest) (buildElements fuel ?arr)) (2 * length rest + 1) (length rest) st f'
        (elements_good (16 - Suc (length st)) n2 ?arr)"
    proof (rule array_after [OF _ v(1) v(3)])
      show "arr_claim us'" if "length us' < length rest" for us'
        using claims that v(2) ts by simp
    qed (use c v(5) in auto)
    then obtain v' rest' n3 f4 where o': "grammar_loop st n3 f4 rest' = Some f'" "length rest' < length rest"
      "\<forall>t \<in> set rest'. tok_ok t"
      "\<And>fuel. 2 * length rest + 1 < fuel \<Longrightarrow> res_bind (skipComma rest) (buildElements fuel ?arr) = Inr (v', rest')"
      "clean f' \<Longrightarrow> elements_good (16 - Suc (length st)) n2 ?arr n3 v' \<and> n3 \<le> 8192"
      unfolding built_def by auto
    show ?thesis
    proof (rule builtI [OF o'(1) _ o'(3), of _ _ _ v'])
      show "length rest' < length ts" using o'(2) v(2) ts by simp
      show "buildElements fuel arr ts = Inr (v', rest')" if m: "2 * length ts + 1 < fuel" for fuel
      proof -
        from m ts obtain k where k: "fuel = Suc k" "2 * length (t # us) < k" "2 * length rest + 1 < k"
          using v(2) by (cases fuel) auto
        have "buildElements fuel arr ts = res_bind (skipComma rest) (buildElements k ?arr)"
          using v(4) [OF k(2)] False by (simp add: k(1) ts)
        with o'(4) [OF k(3)] show ?thesis by simp
      qed
      show "elements_good (16 - Suc (length st)) n arr n3 v' \<and> n3 \<le> 8192" if cl: "clean f'"
        using o'(5) [OF cl] v(5) [OF cl] by (auto simp: elements_good_def)
    qed
  qed
qed

lemma claims: "obj_claim ts \<and> arr_claim ts"
proof (induction "length ts" arbitrary: ts rule: less_induct)
  case less
  show ?case
  proof
    show "obj_claim ts" by (rule object_step) (rule less)
    show "arr_claim ts" by (rule array_step) (rule less)
  qed
qed

lemma grammar_builds:
  assumes g: "grammar tokens f = Some f'" and ok: "\<forall>t \<in> set tokens. tok_ok t"
    and fuel: "2 * length tokens < fuel"
  shows "\<exists>v. buildValue fuel tokens = Inr (v, []) \<and>
    (clean f' \<longrightarrow> (\<exists>obj. v = GObj obj) \<and> gok 16 v \<and> gnodes v \<le> 8192)"
proof -
  from g obtain t ts where ts: "tokens = t # ts" "tkKind t = CHR ''{''"
    and run: "grammar_loop [newFrame CHR ''{''] 1 f ts = Some f'"
    by (auto simp: grammar_def split: list.splits if_split_asm)
  have "built (\<lambda>fuel. buildMembers fuel [] ts) (2 * length ts + 1) (length ts) [] f'
      (members_good (16 - Suc (length ([] :: frame list))) 1 [])"
    by (rule obj_claimD [where s = 0 and names = "{}"])
      (use claims run ok ts in \<open>auto simp: newFrame_def okobj_def\<close>)
  then obtain v rest n2 f2 where r: "grammar_loop [] n2 f2 rest = Some f'"
    "\<And>fuel. 2 * length ts + 1 < fuel \<Longrightarrow> buildMembers fuel [] ts = Inr (v, rest)"
    "clean f' \<Longrightarrow> members_good 15 1 [] n2 v \<and> n2 \<le> 8192"
    unfolding built_def by auto
  from r(1) have "rest = []" by (simp split: if_split_asm)
  moreover have "buildValue fuel tokens = Inr (v, rest)"
    using fuel ts r(2) by (cases fuel) auto
  moreover have "(\<exists>obj. v = GObj obj) \<and> gok 16 v \<and> gnodes v \<le> 8192" if "clean f'"
    using r(3) [OF that] by (auto simp: members_good_def okobj_def objnodes_def)
  ultimately show ?thesis by blast
qed

end
