(* ===== verification/MemberReader.thy ===== *)
theory MemberReader
  imports MemberParseProps
begin

text \<open>
  The lexical part of the member-record reader: numbers are read at their value without wrapping,
  strings decode to valid UTF-8, and the faults of the tokenizer are exactly the bounds that its
  tokens break. With the pushdown check this gives the type of every accepted record.
\<close>

section \<open>Numbers\<close>

definition dec_from :: "nat \<Rightarrow> string \<Rightarrow> nat" where
  "dec_from n s = foldl (\<lambda>n c. n * 10 + digit_val c) n s"

lemma dec_from_simps [simp]:
  "dec_from n [] = n" "dec_from n (c # cs) = dec_from (n * 10 + digit_val c) cs"
  by (simp_all add: dec_from_def)

lemma dec_from_ge: "n \<le> dec_from n s"
proof (induction s arbitrary: n)
  case (Cons c s)
  have "n \<le> n * 10 + digit_val c" by simp
  also have "\<dots> \<le> dec_from (n * 10 + digit_val c) s" by (rule Cons)
  finally show ?case by simp
qed simp

lemma unat_u64: "n < 2 ^ 64 \<Longrightarrow> unat (of_nat n :: 64 word) = n"
  by (simp add: unat_of_nat)

lemma unat_safeInteger: "unat safeInteger = 9007199254740991"
  by (simp add: safeInteger_def)

text \<open>The overflow test of one round, and the round without overflow, at the value level.\<close>

lemma digit_round:
  assumes n: "unat n \<le> 9007199254740991" and d: "d < 10"
  shows "n > (safeInteger - of_nat d) div 10 \<longleftrightarrow> 9007199254740991 < unat n * 10 + d"
    and "unat n * 10 + d \<le> 9007199254740991 \<Longrightarrow> unat (n * 10 + of_nat d :: 64 word) = unat n * 10 + d"
proof -
  have d': "unat (of_nat d :: 64 word) = d" using d by (simp add: unat_u64)
  have "(of_nat d :: 64 word) \<le> safeInteger" using d by (simp add: word_le_nat_alt d' unat_safeInteger)
  then have "unat (safeInteger - of_nat d) = 9007199254740991 - d"
    by (simp add: unat_sub d' unat_safeInteger)
  then have "unat ((safeInteger - of_nat d) div 10) = (9007199254740991 - d) div 10"
    by (simp add: unat_div)
  then show "n > (safeInteger - of_nat d) div 10 \<longleftrightarrow> 9007199254740991 < unat n * 10 + d"
    using d by (simp add: word_less_nat_alt) linarith
  show "unat (n * 10 + of_nat d :: 64 word) = unat n * 10 + d" if "unat n * 10 + d \<le> 9007199254740991"
  proof -
    have "(n * 10 + of_nat d :: 64 word) = of_nat (unat n * 10 + d)" by simp
    moreover have "unat n * 10 + d < 2 ^ 64" using that by simp
    ultimately show ?thesis by (simp only: unat_u64)
  qed
qed

lemma number_digits64_value:
  assumes "unat n \<le> 9007199254740991" "list_all is_digit s"
  shows "number_digits64 n s =
    (if dec_from (unat n) s \<le> 9007199254740991 then Some (of_nat (dec_from (unat n) s)) else None)"
  using assms
proof (induction s arbitrary: n)
  case (Cons c s)
  let ?d = "digit_val c"
  have d: "?d < 10" using Cons.prems(2) by (simp add: digit_val_less)
  show ?case
  proof (cases "unat n * 10 + ?d \<le> 9007199254740991")
    case True
    note r = digit_round [OF Cons.prems(1) d]
    have "unat (n * 10 + of_nat ?d) = unat n * 10 + ?d" using r(2) True .
    with Cons.IH [of "n * 10 + of_nat ?d"] Cons.prems True r(1) show ?thesis by (simp add: Let_def)
  next
    case False
    moreover have "unat n * 10 + ?d \<le> dec_from (unat n * 10 + ?d) s" by (rule dec_from_ge)
    ultimately show ?thesis using digit_round(1) [OF Cons.prems(1) d] by (simp add: Let_def)
  qed
qed simp

lemma dec_from_0: "dec_from 0 s = dec_value s"
  by (simp add: dec_from_def dec_value_def)

lemma numberToken_digits:
  assumes "s \<noteq> []" "list_all is_digit s" "length s = 1 \<or> hd s \<noteq> CHR ''0''"
  shows "numberToken s =
    (if dec_value s \<le> 9007199254740991 then (of_nat (dec_value s), True, False) else (0, True, True))"
  using assms number_digits64_value [of 0 s] dec_from_0 [of s]
  by (cases s) (auto simp: numberToken_def)

lemma numberToken_safe: "numberToken s = (n, l, ov) \<Longrightarrow> n \<le> safeInteger"
proof -
  assume "numberToken s = (n, l, ov)"
  moreover have "n' \<le> safeInteger" if "number_digits64 0 s = Some n'" "list_all is_digit s" for n'
  proof -
    from that have "n' = of_nat (dec_value s)" "dec_value s \<le> 9007199254740991"
      using number_digits64_value [of 0 s] dec_from_0 [of s] by (simp_all split: if_split_asm)
    then show ?thesis by (simp add: word_le_nat_alt unat_u64 unat_safeInteger)
  qed
  ultimately show ?thesis by (auto simp: numberToken_def split: if_split_asm option.splits)
qed

section \<open>Strings\<close>

lemma quad_digits_ascii: "quad_digits n s = Some r \<Longrightarrow> \<forall>c \<in> set s. byte c < 0x80"
proof (induction s arbitrary: n)
  case (Cons c s)
  then show ?case
    by (auto simp: hex_value_def less_eq_char_byte split: option.splits if_split_asm)
qed simp

lemma hexQuad_utf8: "hexQuad s = Some u \<Longrightarrow> utf8_valid s \<Longrightarrow> utf8_valid (drop 4 s)"
  by (auto simp: hexQuad_def split: if_split_asm intro!: utf8_drop_ascii dest: quad_digits_ascii)

lemma unicodeEscape_utf8:
  assumes "unicodeEscape s = Some (bs, r)" "utf8_valid s"
  shows "utf8_valid bs \<and> utf8_valid r"
proof -
  from assms(1) obtain u where h: "hexQuad s = Some u"
    by (auto simp: unicodeEscape_def split: option.splits)
  have s': "utf8_valid (drop 4 s)" using hexQuad_utf8 [OF h assms(2)] .
  show ?thesis
  proof (cases "0xD800 \<le> u \<and> u \<le> 0xDBFF")
    case True
    then obtain low n where l: "hexQuad (drop 2 (drop 4 s)) = Some low" "bs = encode_rune n"
      "r = drop 6 (drop 4 s)" "take 2 (drop 4 s) = [bslash, CHR ''u'']"
      using assms(1) h by (auto simp: unicodeEscape_def Let_def split: if_split_asm option.splits)
    have "utf8_valid (drop 2 (drop 4 s))"
      by (rule utf8_drop_ascii [OF s']) (simp only: l(4), simp)
    from hexQuad_utf8 [OF l(1) this] l(2,3) show ?thesis by (simp add: utf8_valid_encode_rune)
  next
    case False
    then obtain n where "bs = encode_rune n" "r = drop 4 s"
      using assms(1) h by (auto simp: unicodeEscape_def Let_def split: if_split_asm)
    with s' show ?thesis by (simp add: utf8_valid_encode_rune)
  qed
qed

lemma stringEscape_utf8:
  assumes "stringEscape c s = Some (bs, r)" "utf8_valid s"
  shows "utf8_valid bs \<and> utf8_valid r"
proof (cases "c = CHR ''u''")
  case True
  with assms show ?thesis by (auto simp: stringEscape_def dest: unicodeEscape_utf8)
next
  case False
  with assms show ?thesis
    by (auto simp: stringEscape_def utf8_valid_ascii_Cons split: if_split_asm)
qed

text \<open>
  The bytes copied so far leave the automaton in the state from which the rest of the input
  completes it; at a quote or a backslash that state can only be the initial one.
\<close>

lemma stringToken_utf8:
  assumes "stringToken out s = Some (str, r)" "utf8_run Start out = Some st" "utf8_run st s = Some Start"
  shows "utf8_valid str \<and> utf8_valid r"
  using assms
proof (induction out s arbitrary: st rule: stringToken.induct)
  case (2 out c cs)
  show ?case
  proof (cases "c = dquote \<or> c = bslash")
    case True
    then have "byte c < 0x80" by auto
    with "2.prems"(3) have st: "st = Start" and cs: "utf8_valid cs"
      by (auto simp: utf8_step_ascii utf8_valid_def split: if_split_asm)
    with "2.prems"(2) have out: "utf8_valid out" by (simp add: utf8_valid_def)
    show ?thesis
    proof (cases "c = dquote")
      case True
      with "2.prems"(1) out cs show ?thesis by auto
    next
      case False
      with \<open>c = dquote \<or> c = bslash\<close> have c: "c = bslash" by simp
      with "2.prems"(1) obtain e cs' bs rest where e: "cs = e # cs'" "stringEscape e cs' = Some (bs, rest)"
        and l: "stringToken (out @ bs) rest = Some (str, r)"
        by (auto split: list.splits option.splits)
      have "byte e < 0x80" using e(2) by (auto simp: stringEscape_def split: if_split_asm)
      then have "utf8_valid cs'" using cs e(1) by (simp add: utf8_valid_ascii_Cons)
      from stringEscape_utf8 [OF e(2) this] have u: "utf8_valid bs" "utf8_valid rest" by auto
      have nc: "\<not> byte c < 0x20" "\<not> c \<noteq> bslash" using c by auto
      show ?thesis
        by (rule "2.IH"(2) [OF False nc e(1) e(2), of bs rest Start])
          (use l utf8_valid_append [OF out u(1)] u(2) in \<open>simp_all add: utf8_valid_def\<close>)
    qed
  next
    case False
    with "2.prems"(1) have nc: "\<not> byte c < 0x20" and l: "stringToken (out @ [c]) cs = Some (str, r)"
      by (auto split: if_split_asm)
    from "2.prems"(3) obtain st' where st': "utf8_step st (byte c) = Some st'" "utf8_run st' cs = Some Start"
      by (auto split: option.splits)
    have "utf8_run Start (out @ [c]) = Some st'"
      using "2.prems"(2) st'(1) by (simp add: utf8_run_append)
    with "2.IH"(1) False nc l st'(2) show ?thesis by simp
  qed
qed simp

section \<open>Tokens\<close>

lemma delimiter_ascii: "delimiter c \<Longrightarrow> byte c < 0x80"
  by (auto simp: delimiter_def whitespace_def punctuation_def)

text \<open>The rest after a round is a suffix that starts at an ASCII byte or follows one.\<close>

lemma utf8_dropWhile:
  assumes "utf8_valid s" "\<And>d. \<not> P d \<Longrightarrow> byte d < 0x80"
  shows "utf8_valid (dropWhile P s)"
proof (cases "dropWhile P s")
  case (Cons c cs)
  then have "\<not> P c" by (simp add: dropWhile_eq_Cons_conv)
  moreover have "utf8_valid (takeWhile P s @ c # cs)" using assms(1) Cons by (metis takeWhile_dropWhile_id)
  ultimately show ?thesis using assms(2) Cons utf8_suffix_ascii by metis
next
  case Nil
  then show ?thesis by (simp only: utf8_valid_Nil)
qed

lemma comment_end_utf8:
  assumes "comment_end s = Some r" "utf8_valid (a @ s)"
  shows "utf8_valid r"
  using assms
proof (induction s arbitrary: a rule: comment_end.induct)
  case (1 x y s)
  show ?case
  proof (cases "x = CHR ''*'' \<and> y = CHR ''/''")
    case True
    with "1.prems" utf8_suffix_ascii [of a x "y # s"] show ?thesis
      by (auto simp: utf8_valid_ascii_Cons)
  next
    case False
    then show ?thesis using "1.IH" [of "a @ [x]"] "1.prems" by auto
  qed
qed auto

definition text_ok :: "token \<Rightarrow> bool" where
  "text_ok t \<longleftrightarrow> utf8_valid (tkText t)"

lemma wordToken_ok:
  "wordToken s = Some (t, f) \<Longrightarrow> tkText t = [] \<and> tkNumber t \<le> safeInteger"
proof -
  assume w: "wordToken s = Some (t, f)"
  obtain n l ov where n: "numberToken s = (n, l, ov)" by (cases "numberToken s")
  have "t \<in> {plain CHR ''t'', plain CHR ''f'', plain CHR ''z'', \<lparr>tkKind = CHR ''n'', tkText = [], tkNumber = n\<rparr>}"
    using w unfolding wordToken_def n prod.case by (simp only: split: if_split_asm) simp_all
  with numberToken_safe [OF n] show ?thesis by (auto simp: plain_def)
qed

lemma lex1_ok:
  assumes "lex1 c cs = Some (ts, f, rest)" "utf8_valid (c # cs)"
  shows "utf8_valid rest \<and> (\<forall>t \<in> set ts. text_ok t) \<and> (clean f \<longrightarrow> (\<forall>t \<in> set ts. tok_ok t))"
proof -
  consider "whitespace c" | "c \<in> set punctuation" "\<not> whitespace c"
    | "c = dquote" | "c = CHR ''/''" "HasPrefix cs ''/''" | "c = CHR ''/''" "HasPrefix cs ''*''"
    | "\<not> whitespace c" "c \<notin> set punctuation" "c \<noteq> dquote"
      "\<not> (c = CHR ''/'' \<and> HasPrefix cs ''/'')" "\<not> (c = CHR ''/'' \<and> HasPrefix cs ''*'')"
    by blast
  then show ?thesis
  proof cases
    case 1
    then have "byte c < 0x80" by (simp add: delimiter_ascii delimiter_def)
    with 1 assms show ?thesis by (auto simp: lex1_def utf8_valid_ascii_Cons)
  next
    case 2
    then have "byte c < 0x80" by (simp add: delimiter_ascii delimiter_def)
    with 2 assms show ?thesis
      by (auto simp: lex1_def utf8_valid_ascii_Cons plain_def text_ok_def tok_ok_def text_bound_def)
  next
    case 3
    then have nw: "\<not> whitespace c" "c \<notin> set punctuation" by (simp_all add: whitespace_def punctuation_def)
    with 3 assms(1) obtain s where s: "stringToken [] cs = Some (s, rest)"
      "ts = [\<lparr>tkKind = CHR ''s'', tkText = s, tkNumber = 0\<rparr>]"
      "f = \<lparr>fBounds = 4096 < length s, fSchema = False\<rparr>"
      by (auto simp: lex1_def split: option.splits)
    have "utf8_valid cs" using assms(2) 3 by (simp add: utf8_valid_ascii_Cons)
    then have "utf8_valid s \<and> utf8_valid rest"
      using stringToken_utf8 [OF s(1), of Start] by (simp add: utf8_valid_def)
    with s show ?thesis by (auto simp: text_ok_def tok_ok_def text_bound_def clean_def)
  next
    case 4
    then have nw: "\<not> whitespace c" "c \<notin> set punctuation" by (simp_all add: whitespace_def punctuation_def)
    with 4 assms(1) have r: "rest = dropWhile (\<lambda>d. d \<noteq> CHR 0x0A) (tl cs)" "ts = []"
      by (auto simp: lex1_def)
    have "utf8_valid (tl cs)"
      using assms(2) 4 by (cases cs) (auto simp: HasPrefix_iff utf8_valid_ascii_Cons)
    then have "utf8_valid rest" unfolding r(1) by (rule utf8_dropWhile) auto
    with r show ?thesis by simp
  next
    case 5
    then have nw: "\<not> whitespace c" "c \<notin> set punctuation" by (simp_all add: whitespace_def punctuation_def)
    have np: "\<not> HasPrefix cs ''/''" using 5(2) by (auto simp: HasPrefix_iff)
    with nw 5 assms(1) have r: "comment_end (tl cs) = Some rest" "ts = []"
      by (auto simp: lex1_def split: option.splits)
    have "utf8_valid ([] @ tl cs)"
      using assms(2) 5 by (cases cs) (auto simp: HasPrefix_iff utf8_valid_ascii_Cons)
    with comment_end_utf8 [OF r(1), of "[]"] r(2) show ?thesis by simp
  next
    case 6
    let ?r = "dropWhile (\<lambda>d. \<not> delimiter d) (c # cs)"
    from 6 assms(1) obtain t where r: "wordToken (takeWhile (\<lambda>d. \<not> delimiter d) (c # cs)) = Some (t, f)"
      "ts = [t]" "rest = ?r"
      unfolding lex1_def Let_def by (auto split: option.splits if_split_asm)
    have "utf8_valid ?r" by (rule utf8_dropWhile [OF assms(2)]) (simp add: delimiter_ascii)
    with r wordToken_ok [OF r(1)] show ?thesis by (simp add: text_ok_def tok_ok_def text_bound_def)
  qed
qed

lemma clean_add_faults [simp]: "clean (add_faults f g) \<longleftrightarrow> clean f \<and> clean g"
  by (auto simp: clean_def add_faults_def)

lemma tokenize_ok:
  assumes "tokenize out f s = Some (toks, f')" "utf8_valid s" "\<forall>t \<in> set out. text_ok t"
    "clean f \<longrightarrow> (\<forall>t \<in> set out. tok_ok t)"
  shows "(\<forall>t \<in> set toks. text_ok t) \<and> (clean f' \<longrightarrow> clean f \<and> (\<forall>t \<in> set toks. tok_ok t))"
  using assms
proof (induction out f s rule: tokenize.induct)
  case (2 out f c cs)
  then obtain ts g rest where l: "lex1 c cs = Some (ts, g, rest)"
    and t: "tokenize (out @ ts) (add_faults f g) rest = Some (toks, f')"
    by (auto split: option.splits)
  show ?case
    using "2.IH" [OF l refl refl t] lex1_ok [OF l "2.prems"(2)] "2.prems"(3,4) by auto
qed auto

end
