(* ===== verification/MemberSchema.thy ===== *)
theory MemberSchema
  imports MemberParse
begin

text \<open>
  The record predicates of \<open>internal/memberwire\<close>: \<open>schema.go\<close>, \<open>bindings.go\<close>,
  \<open>compatibility.go\<close>, \<open>lifecycle.go\<close> and \<open>outcomes.go\<close>. A predicate on \<open>any\<close> is a predicate
  on \<open>gvalue\<close>; \<open>o[k]\<close> of an absent key is the nil value, and a type assertion that fails in its
  comma-ok form gives the zero value, so no predicate can panic. The Go functions \<open>id\<close>,
  \<open>is\<close> and \<open>integer\<close> are called \<open>wid\<close>, \<open>is_one\<close> and \<open>integer_in\<close> here.
\<close>

section \<open>schema.go\<close>

type_synonym gobject = "(string \<times> gvalue) list"

definition gget :: "gobject \<Rightarrow> string \<Rightarrow> gvalue" where
  "gget o' k = (case map_of o' k of Some v \<Rightarrow> v | None \<Rightarrow> GNil)"

definition closed :: "gobject \<Rightarrow> string list \<Rightarrow> bool" where
  "closed o' keys \<longleftrightarrow> length o' = length keys \<and> list_all (\<lambda>k. map_of o' k \<noteq> None) keys"

definition object :: "gvalue \<Rightarrow> gobject" where
  "object v = (case v of GObj o' \<Rightarrow> o' | _ \<Rightarrow> [])"

definition is_one :: "gvalue \<Rightarrow> string list \<Rightarrow> bool" where
  "is_one v choices \<longleftrightarrow> (case v of GStr s \<Rightarrow> s \<in> set choices | _ \<Rightarrow> False)"

definition integer_in :: "gvalue \<Rightarrow> 64 word \<Rightarrow> 64 word \<Rightarrow> bool" where
  "integer_in v low high \<longleftrightarrow> (case v of GNum n \<Rightarrow> low \<le> n \<and> n \<le> high | _ \<Rightarrow> False)"

definition lowerHex :: "gvalue \<Rightarrow> nat \<Rightarrow> bool" where
  "lowerHex v len \<longleftrightarrow> (case v of GStr s \<Rightarrow> length s = len \<and> list_all is_lower_hex s | _ \<Rightarrow> False)"

definition wid :: "gvalue \<Rightarrow> bool" where "wid v \<longleftrightarrow> lowerHex v 32"
definition digest :: "gvalue \<Rightarrow> bool" where "digest v \<longleftrightarrow> lowerHex v 64"

definition name :: "gvalue \<Rightarrow> bool" where
  "name v \<longleftrightarrow>
     (case v of
        GStr s \<Rightarrow> 1 \<le> length s \<and> length s \<le> 64 \<and> is_alnum (hd s) \<and>
          list_all (\<lambda>c. is_alnum c \<or> c = CHR ''.'' \<or> c = CHR ''_'' \<or> c = CHR ''-'') s
      | _ \<Rightarrow> False)"

definition reference :: "gvalue \<Rightarrow> bool" where
  "reference v \<longleftrightarrow>
     (let o' = object v in
      closed o' [''name'', ''length'', ''sha256''] \<and> name (gget o' ''name'')
      \<and> integer_in (gget o' ''length'') 0 4194304 \<and> digest (gget o' ''sha256''))"

abbreviation nil_or :: "(gvalue \<Rightarrow> bool) \<Rightarrow> gvalue \<Rightarrow> bool" where
  "nil_or p v \<equiv> v = GNil \<or> p v"

definition identity :: "gvalue \<Rightarrow> bool" where
  "identity v \<longleftrightarrow>
     (let o' = object v in
      closed o' [''controller_id'', ''assignment_id'', ''invocation_id'', ''member_id'', ''consumer_id'',
        ''role'', ''producer_member_id'', ''predecessor_invocation_id'']
      \<and> list_all (\<lambda>k. wid (gget o' k))
          [''controller_id'', ''assignment_id'', ''invocation_id'', ''member_id'', ''consumer_id'']
      \<and> is_one (gget o' ''role'') [''development'', ''source_review'', ''recipient_assessment'']
      \<and> nil_or wid (gget o' ''producer_member_id'')
      \<and> nil_or wid (gget o' ''predecessor_invocation_id''))"

definition artifacts :: "gvalue \<Rightarrow> bool" where
  "artifacts v \<longleftrightarrow>
     (case v of
        GArr a \<Rightarrow> 1 \<le> length a \<and> length a \<le> 128 \<and>
          list_all (\<lambda>v.
            let o' = object v in
            closed o' [''object'', ''role''] \<and> reference (gget o' ''object'') \<and>
            is_one (gget o' ''role'') [''instruction'', ''source'', ''tuple'', ''owner_input'',
              ''profile_input'', ''receipt'', ''assignment'']) a
      | _ \<Rightarrow> False)"

text \<open>The loop of \<open>names\<close>; \<open>seen\<close> is the map of the names so far.\<close>

fun names_loop :: "string set \<Rightarrow> gvalue list \<Rightarrow> bool" where
  "names_loop seen [] = True"
| "names_loop seen (v # vs) =
     (name v \<and> (case v of GStr s \<Rightarrow> s \<notin> seen \<and> names_loop (insert s seen) vs | _ \<Rightarrow> False))"

definition names :: "gvalue \<Rightarrow> nat \<Rightarrow> bool" where
  "names v maximum \<longleftrightarrow> (case v of GArr a \<Rightarrow> length a \<le> maximum \<and> names_loop {} a | _ \<Rightarrow> False)"

definition effects :: "gvalue \<Rightarrow> bool" where
  "effects v \<longleftrightarrow>
     (let o' = object v in
      closed o' [''tools'', ''read_objects'', ''output_names'', ''network'', ''provider_binding_sha256'',
        ''max_processes'', ''max_provider_requests'', ''max_provider_tokens'']
      \<and> names (gget o' ''tools'') 32 \<and> names (gget o' ''read_objects'') 128
      \<and> names (gget o' ''output_names'') 128 \<and> integer_in (gget o' ''max_processes'') 1 64
      \<and> (if gget o' ''network'' = GStr ''disabled'' then
           gget o' ''provider_binding_sha256'' = GNil \<and> integer_in (gget o' ''max_provider_requests'') 0 0
           \<and> integer_in (gget o' ''max_provider_tokens'') 0 0
         else if gget o' ''network'' = GStr ''admitted_provider'' then
           digest (gget o' ''provider_binding_sha256'') \<and> integer_in (gget o' ''max_provider_requests'') 1 64
           \<and> integer_in (gget o' ''max_provider_tokens'') 1 65536
         else False))"

definition deadlines :: "gvalue \<Rightarrow> bool" where
  "deadlines v \<longleftrightarrow>
     (let o' = object v in
      closed o' [''startup_ms'', ''runtime_ms'', ''term_ms'', ''kill_observation_ms'', ''result_ms'',
        ''state_budget_bytes'']
      \<and> integer_in (gget o' ''startup_ms'') 1 60000 \<and> integer_in (gget o' ''runtime_ms'') 1 3600000
      \<and> integer_in (gget o' ''term_ms'') 1 6000 \<and> integer_in (gget o' ''kill_observation_ms'') 1 6000
      \<and> integer_in (gget o' ''result_ms'') 1 6000 \<and> integer_in (gget o' ''state_budget_bytes'') 1 67108864)"

definition requestValid :: "gobject \<Rightarrow> bool" where
  "requestValid o' \<longleftrightarrow>
     is_one (gget o' ''kind'') [''curator-run member-request/1''] \<and> wid (gget o' ''request_id'') \<and>
     (let op = gget o' ''operation'' in
      if op = GStr ''submit'' then
        closed o' [''kind'', ''request_id'', ''operation'', ''identity'', ''tuple'', ''artifacts'', ''effects'',
          ''deadlines'', ''assignment'']
        \<and> identity (gget o' ''identity'') \<and> reference (gget o' ''tuple'') \<and> artifacts (gget o' ''artifacts'')
        \<and> effects (gget o' ''effects'') \<and> deadlines (gget o' ''deadlines'') \<and> reference (gget o' ''assignment'')
      else if op = GStr ''inspect'' \<or> op = GStr ''reconcile'' then
        closed o' [''kind'', ''request_id'', ''operation'', ''invocation_id''] \<and> wid (gget o' ''invocation_id'')
      else if op = GStr ''cancel'' then
        closed o' [''kind'', ''request_id'', ''operation'', ''invocation_id'', ''cancel_id'', ''reason'']
        \<and> wid (gget o' ''invocation_id'') \<and> wid (gget o' ''cancel_id'')
        \<and> is_one (gget o' ''reason'') [''controller_request'', ''deadline'']
      else if op = GStr ''consume'' then
        (let keys = [''kind'', ''request_id'', ''operation'', ''action'', ''invocation_id'', ''consumer_id'',
               ''effect_id'', ''result_sha256''];
             ack = is_one (gget o' ''action'') [''ack'']
         in (if ack then reference (gget o' ''receipt'') else is_one (gget o' ''action'') [''reserve''])
            \<and> closed o' (if ack then keys @ [''receipt''] else keys)
            \<and> wid (gget o' ''invocation_id'') \<and> wid (gget o' ''consumer_id'') \<and> wid (gget o' ''effect_id'')
            \<and> digest (gget o' ''result_sha256''))
      else False)"

definition authorizationValid :: "gobject \<Rightarrow> bool" where
  "authorizationValid o' \<longleftrightarrow>
     closed o' [''kind'', ''controller_id'', ''store_id'', ''request_length'', ''request_sha256'', ''expires_at_ms'']
     \<and> is_one (gget o' ''kind'') [''curator-run member-authorization/1'']
     \<and> wid (gget o' ''controller_id'') \<and> wid (gget o' ''store_id'')
     \<and> integer_in (gget o' ''request_length'') 1 65536 \<and> digest (gget o' ''request_sha256'')
     \<and> integer_in (gget o' ''expires_at_ms'') 1 9007199254740991"

section \<open>compatibility.go\<close>

definition textLength :: "gvalue \<Rightarrow> nat \<Rightarrow> bool" where
  "textLength v maximum \<longleftrightarrow>
     (case v of GStr s \<Rightarrow> 1 \<le> RuneCount s \<and> RuneCount s \<le> maximum | _ \<Rightarrow> False)"

definition revision :: "gvalue \<Rightarrow> bool" where
  "revision v \<longleftrightarrow> lowerHex v 40 \<or> lowerHex v 64"

text \<open>A class of ASCII runes, tested on the runes of a string as \<open>for _, c := range s\<close> does.\<close>

definition all_runes :: "char list \<Rightarrow> string \<Rightarrow> bool" where
  "all_runes extra s \<longleftrightarrow>
     list_all (\<lambda>r. (65 \<le> r \<and> r \<le> 90) \<or> (97 \<le> r \<and> r \<le> 122) \<or> (48 \<le> r \<and> r \<le> 57) \<or> r \<in> byte ` set extra)
       (runes s)"

definition repository :: "gvalue \<Rightarrow> bool" where
  "repository v \<longleftrightarrow>
     (case v of
        GStr s \<Rightarrow> length s \<le> 2048 \<and> HasPrefix s ''https://'' \<and> length s \<noteq> length ''https://''
          \<and> all_runes ''./_-'' (drop (length ''https://'') s)
      | _ \<Rightarrow> False)"

definition componentValid :: "gvalue \<Rightarrow> bool" where
  "componentValid v \<longleftrightarrow>
     (let o' = object v in
      closed o' [''repository'', ''revision'', ''binary_sha256'', ''release''] \<and> repository (gget o' ''repository'')
      \<and> revision (gget o' ''revision'') \<and> digest (gget o' ''binary_sha256'') \<and> textLength (gget o' ''release'') 128)"

definition ownerInputValid :: "gvalue \<Rightarrow> bool" where
  "ownerInputValid v \<longleftrightarrow>
     (let o' = object v in
      closed o' [''owner'', ''repository'', ''revision'', ''document'']
      \<and> is_one (gget o' ''owner'') [''curator'', ''runtime'', ''launcher''] \<and> repository (gget o' ''repository'')
      \<and> revision (gget o' ''revision'') \<and> reference (gget o' ''document''))"

definition has_owner :: "gvalue list \<Rightarrow> string \<Rightarrow> bool" where
  "has_owner a owner \<longleftrightarrow> list_ex (\<lambda>item. gget (object item) ''owner'' = GStr owner) a"

definition ownerInputsValid :: "gvalue \<Rightarrow> bool \<Rightarrow> bool" where
  "ownerInputsValid v requireEachOwner \<longleftrightarrow>
     (case v of
        GArr a \<Rightarrow> 3 \<le> length a \<and> length a \<le> 16 \<and> list_all ownerInputValid a \<and>
          (\<not> requireEachOwner \<or> has_owner a ''curator'' \<and> has_owner a ''runtime'' \<and> has_owner a ''launcher'')
      | _ \<Rightarrow> False)"

definition managerValid :: "gvalue \<Rightarrow> bool" where
  "managerValid v \<longleftrightarrow>
     (let o' = object v; mode = gget o' ''mode'' in
      if mode = GStr ''required'' then
        closed o' [''mode'', ''id'', ''registration_sha256'', ''transport_binding_sha256'', ''capabilities_sha256'',
          ''protocol'', ''compatibility_sha256'']
        \<and> name (gget o' ''id'') \<and> digest (gget o' ''registration_sha256'')
        \<and> digest (gget o' ''transport_binding_sha256'') \<and> digest (gget o' ''capabilities_sha256'')
        \<and> textLength (gget o' ''protocol'') 128 \<and> digest (gget o' ''compatibility_sha256'')
      else if mode = GStr ''compatible_absence'' then
        closed o' [''mode'', ''compatibility_sha256''] \<and> digest (gget o' ''compatibility_sha256'')
      else False)"

definition effortValid :: "gvalue \<Rightarrow> bool" where
  "effortValid v \<longleftrightarrow>
     (let o' = object v; mode = gget o' ''mode'' in
      if mode = GStr ''named'' then closed o' [''mode'', ''value''] \<and> textLength (gget o' ''value'') 64
      else if mode = GStr ''not_applicable'' then
        closed o' [''mode'', ''evidence_sha256''] \<and> digest (gget o' ''evidence_sha256'')
      else False)"

definition runtimeValid :: "gvalue \<Rightarrow> bool" where
  "runtimeValid v \<longleftrightarrow>
     (let o' = object v in
      closed o' [''id'', ''vendor'', ''release'', ''binary_sha256'', ''model'', ''effort'', ''os'', ''architecture'',
        ''adapter_id'', ''adapter_revision'']
      \<and> name (gget o' ''id'') \<and> name (gget o' ''vendor'') \<and> textLength (gget o' ''release'') 128
      \<and> digest (gget o' ''binary_sha256'') \<and> textLength (gget o' ''model'') 128 \<and> effortValid (gget o' ''effort'')
      \<and> is_one (gget o' ''os'') [''linux'', ''darwin''] \<and> is_one (gget o' ''architecture'') [''amd64'', ''arm64'']
      \<and> name (gget o' ''adapter_id'') \<and> revision (gget o' ''adapter_revision''))"

definition profileValid :: "gvalue \<Rightarrow> bool" where
  "profileValid v \<longleftrightarrow>
     (let o' = object v in
      closed o' [''id'', ''revision'', ''source_closure_sha256'', ''config_sha256'', ''lock_sha256'', ''fragment_kind'',
        ''fragment_sha256'', ''effective_config_sha256'', ''permission_posture'', ''permission_policy_sha256'']
      \<and> name (gget o' ''id'') \<and> revision (gget o' ''revision'') \<and> digest (gget o' ''source_closure_sha256'')
      \<and> digest (gget o' ''config_sha256'') \<and> digest (gget o' ''lock_sha256'')
      \<and> textLength (gget o' ''fragment_kind'') 128 \<and> digest (gget o' ''fragment_sha256'')
      \<and> digest (gget o' ''effective_config_sha256'') \<and> textLength (gget o' ''permission_posture'') 64
      \<and> digest (gget o' ''permission_policy_sha256''))"

definition homeValid :: "gvalue \<Rightarrow> bool" where
  "homeValid v \<longleftrightarrow>
     (let o' = object v in
      closed o' [''uid'', ''mode'', ''provenance_sha256'', ''native_origin_sha256'', ''auth_binding_sha256'']
      \<and> integer_in (gget o' ''uid'') 1 4294967295 \<and> is_one (gget o' ''mode'') [''managed_snapshot'', ''native_strict'']
      \<and> digest (gget o' ''provenance_sha256'') \<and> digest (gget o' ''native_origin_sha256'')
      \<and> digest (gget o' ''auth_binding_sha256''))"

definition tupleValid :: "gobject \<Rightarrow> bool" where
  "tupleValid o' \<longleftrightarrow>
     closed o' [''kind'', ''launcher'', ''curator'', ''agents_management'', ''runtime'', ''profile'', ''home'',
       ''manager'', ''owner_inputs'']
     \<and> is_one (gget o' ''kind'') [''curator-run member-tuple/1'']
     \<and> (let sam = object (gget o' ''agents_management'') in
        componentValid (gget o' ''launcher'') \<and> componentValid (gget o' ''curator'')
        \<and> closed sam [''module'', ''version'', ''revision'']
        \<and> is_one (gget sam ''module'') [''github.com/relux-works/skill-agents-management'']
        \<and> textLength (gget sam ''version'') 128 \<and> revision (gget sam ''revision''))
     \<and> runtimeValid (gget o' ''runtime'') \<and> profileValid (gget o' ''profile'') \<and> homeValid (gget o' ''home'')
     \<and> managerValid (gget o' ''manager'') \<and> ownerInputsValid (gget o' ''owner_inputs'') True"

definition ownerValid :: "gobject \<Rightarrow> bool" where
  "ownerValid o' \<longleftrightarrow>
     closed o' [''kind'', ''controller_id'', ''store_id'', ''uid'', ''catalog_sha256'']
     \<and> is_one (gget o' ''kind'') [''curator-run member-owner/1''] \<and> wid (gget o' ''controller_id'')
     \<and> wid (gget o' ''store_id'') \<and> integer_in (gget o' ''uid'') 1 4294967295 \<and> digest (gget o' ''catalog_sha256'')"

definition catalogEntryValid :: "gvalue \<Rightarrow> bool" where
  "catalogEntryValid item \<longleftrightarrow>
     (let e = object item in
      closed e [''tuple'', ''owner_inputs'', ''construction_contract_sha256'',
        ''private_verification_contract_sha256'', ''scope_contract_sha256'']
      \<and> reference (gget e ''tuple'') \<and> ownerInputsValid (gget e ''owner_inputs'') False
      \<and> digest (gget e ''construction_contract_sha256'')
      \<and> digest (gget e ''private_verification_contract_sha256'') \<and> digest (gget e ''scope_contract_sha256''))"

definition catalogValid :: "gobject \<Rightarrow> bool" where
  "catalogValid o' \<longleftrightarrow>
     closed o' [''kind'', ''controller_id'', ''store_id'', ''entries'']
     \<and> is_one (gget o' ''kind'') [''curator-run member-catalog/1''] \<and> wid (gget o' ''controller_id'')
     \<and> wid (gget o' ''store_id'')
     \<and> (case gget o' ''entries'' of GArr a \<Rightarrow> length a \<le> 32 \<and> list_all catalogEntryValid a | _ \<Rightarrow> False)"

section \<open>bindings.go\<close>

definition assignmentValid :: "gobject \<Rightarrow> bool" where
  "assignmentValid o' \<longleftrightarrow>
     closed o' [''kind'', ''store_id'', ''controller_id'', ''assignment_id'', ''member_id'', ''consumer_id'', ''role'',
       ''producer_member_id'', ''tuple'', ''artifacts'', ''effects'', ''deadlines'']
     \<and> is_one (gget o' ''kind'') [''curator-run member-assignment/1''] \<and> wid (gget o' ''store_id'')
     \<and> wid (gget o' ''controller_id'') \<and> wid (gget o' ''assignment_id'') \<and> wid (gget o' ''member_id'')
     \<and> wid (gget o' ''consumer_id'')
     \<and> is_one (gget o' ''role'') [''development'', ''source_review'', ''recipient_assessment'']
     \<and> nil_or wid (gget o' ''producer_member_id'') \<and> reference (gget o' ''tuple'')
     \<and> artifacts (gget o' ''artifacts'') \<and> effects (gget o' ''effects'') \<and> deadlines (gget o' ''deadlines'')"

definition attemptValid :: "gobject \<Rightarrow> bool" where
  "attemptValid o' \<longleftrightarrow>
     closed o' [''kind'', ''store_id'', ''assignment_id'', ''assignment_sha256'', ''ordinal'', ''invocation_id'',
       ''predecessor_invocation_id'', ''request_sha256'']
     \<and> is_one (gget o' ''kind'') [''curator-run member-attempt/1''] \<and> wid (gget o' ''store_id'')
     \<and> wid (gget o' ''assignment_id'') \<and> digest (gget o' ''assignment_sha256'')
     \<and> integer_in (gget o' ''ordinal'') 1 256 \<and> wid (gget o' ''invocation_id'')
     \<and> nil_or wid (gget o' ''predecessor_invocation_id'') \<and> digest (gget o' ''request_sha256'')"

definition operationIntentValid :: "gobject \<Rightarrow> bool" where
  "operationIntentValid o' \<longleftrightarrow>
     closed o' [''kind'', ''store_id'', ''controller_id'', ''sequence'', ''operation'', ''invocation_id'',
       ''candidate_sha256'']
     \<and> is_one (gget o' ''kind'') [''curator-run member-operation-intent/1''] \<and> wid (gget o' ''store_id'')
     \<and> wid (gget o' ''controller_id'') \<and> integer_in (gget o' ''sequence'') 1 4096
     \<and> is_one (gget o' ''operation'') [''submit'', ''cancel'', ''reconcile'', ''reserve'', ''ack'', ''publish'']
     \<and> wid (gget o' ''invocation_id'') \<and> digest (gget o' ''candidate_sha256'')"

definition operationCompletionValid :: "gobject \<Rightarrow> bool" where
  "operationCompletionValid o' \<longleftrightarrow>
     closed o' [''kind'', ''store_id'', ''sequence'', ''intent'', ''disposition'', ''conflict'']
     \<and> is_one (gget o' ''kind'') [''curator-run member-operation-completion/1''] \<and> wid (gget o' ''store_id'')
     \<and> integer_in (gget o' ''sequence'') 1 4096 \<and> reference (gget o' ''intent'')
     \<and> (if gget o' ''disposition'' = GStr ''clear'' then gget o' ''conflict'' = GNil
        else if gget o' ''disposition'' = GStr ''conflict'' then reference (gget o' ''conflict'')
        else False)"

end
