(* ===== verification/MemberLifecycle.thy ===== *)
theory MemberLifecycle
  imports MemberSchema
begin

text \<open>
  \<open>internal/memberwire/lifecycle.go\<close> and \<open>outcomes.go\<close>: the retained lifecycle records, with the
  phase conditionals of a snapshot, and the result and response records.
\<close>

section \<open>lifecycle.go\<close>

definition lifecycleBool :: "gvalue \<Rightarrow> bool" where
  "lifecycleBool v \<longleftrightarrow> (case v of GBool _ \<Rightarrow> True | _ \<Rightarrow> False)"

definition scopeValid :: "gvalue \<Rightarrow> bool" where
  "scopeValid v \<longleftrightarrow>
     (let o' = object v in
      closed o' [''adapter_id'', ''adapter_revision'', ''scope_id'', ''identity_sha256'', ''boot_sha256'',
        ''namespace_sha256'', ''root_incarnation_sha256'']
      \<and> name (gget o' ''adapter_id'') \<and> revision (gget o' ''adapter_revision'') \<and> wid (gget o' ''scope_id'')
      \<and> digest (gget o' ''identity_sha256'') \<and> digest (gget o' ''boot_sha256'')
      \<and> digest (gget o' ''namespace_sha256'') \<and> nil_or digest (gget o' ''root_incarnation_sha256''))"

definition writerValid :: "gvalue \<Rightarrow> bool" where
  "writerValid v \<longleftrightarrow>
     (let o' = object v in
      closed o' [''role'', ''id'', ''incarnation_sha256'', ''supervisor_id'']
      \<and> is_one (gget o' ''role'') [''supervisor'', ''reconciler''] \<and> wid (gget o' ''id'')
      \<and> digest (gget o' ''incarnation_sha256'') \<and> wid (gget o' ''supervisor_id''))"

definition lifecycleSignal :: "gobject \<Rightarrow> bool" where
  "lifecycleSignal o' \<longleftrightarrow>
     (case gget o' ''name'' of
        GStr s \<Rightarrow> 1 \<le> length s \<and> length s \<le> 32
          \<and> list_all (\<lambda>r. (65 \<le> r \<and> r \<le> 90) \<or> (48 \<le> r \<and> r \<le> (57 :: nat))) (runes s)
      | _ \<Rightarrow> False)
     \<and> integer_in (gget o' ''number'') 1 255 \<and> lifecycleBool (gget o' ''core_dumped'')"

definition waitValid :: "gvalue \<Rightarrow> bool" where
  "waitValid v \<longleftrightarrow>
     (let o' = object v; status = gget o' ''status'' in
      integer_in (gget o' ''raw_status'') 0 4294967295 \<and>
      (if status = GStr ''exit'' then
         closed o' [''status'', ''code'', ''raw_status''] \<and> integer_in (gget o' ''code'') 0 255
       else if status = GStr ''signal'' then
         closed o' [''status'', ''number'', ''name'', ''core_dumped'', ''raw_status''] \<and> lifecycleSignal o'
       else False))"

text \<open>The check of \<open>argv\<close>, written twice in the code.\<close>

definition outcomeArgvValid :: "gvalue \<Rightarrow> bool" where
  "outcomeArgvValid v \<longleftrightarrow>
     v = GNil \<or>
     (case v of GArr a \<Rightarrow> length a \<le> 128 \<and> list_all (\<lambda>arg. textLength arg 4096) a | _ \<Rightarrow> False)"

definition observationValid :: "gobject \<Rightarrow> bool" where
  "observationValid o' \<longleftrightarrow>
     closed o' [''kind'', ''invocation_id'', ''supervisor_id'', ''scope'', ''process_incarnation_sha256'',
       ''boot_sha256'', ''observed_monotonic_ms'', ''wait'', ''actual_tuple'', ''argv'']
     \<and> is_one (gget o' ''kind'') [''curator-run member-observation/1''] \<and> wid (gget o' ''invocation_id'')
     \<and> wid (gget o' ''supervisor_id'') \<and> scopeValid (gget o' ''scope'')
     \<and> digest (gget o' ''process_incarnation_sha256'') \<and> digest (gget o' ''boot_sha256'')
     \<and> integer_in (gget o' ''observed_monotonic_ms'') 0 safeInteger \<and> waitValid (gget o' ''wait'')
     \<and> nil_or reference (gget o' ''actual_tuple'') \<and> outcomeArgvValid (gget o' ''argv'')"

definition scopeProofValid :: "gobject \<Rightarrow> bool" where
  "scopeProofValid o' \<longleftrightarrow>
     closed o' [''kind'', ''invocation_id'', ''scope'', ''observer'', ''observed_monotonic_ms'', ''method_sha256'',
       ''observation_complete'', ''scope_matches'', ''empty'']
     \<and> is_one (gget o' ''kind'') [''curator-run member-scope-proof/1''] \<and> wid (gget o' ''invocation_id'')
     \<and> scopeValid (gget o' ''scope'') \<and> writerValid (gget o' ''observer'')
     \<and> integer_in (gget o' ''observed_monotonic_ms'') 0 safeInteger \<and> digest (gget o' ''method_sha256'')
     \<and> lifecycleBool (gget o' ''observation_complete'') \<and> lifecycleBool (gget o' ''scope_matches'')
     \<and> lifecycleBool (gget o' ''empty'')"

definition sourceErrorValid :: "gvalue \<Rightarrow> bool" where
  "sourceErrorValid v \<longleftrightarrow>
     (let o' = object v in
      closed o' [''component'', ''namespace'', ''code''] \<and> name (gget o' ''component'')
      \<and> name (gget o' ''namespace'')
      \<and> (case gget o' ''code'' of
           GStr s \<Rightarrow> 1 \<le> length s \<and> length s \<le> 128 \<and> all_runes ''_.:-'' s
         | _ \<Rightarrow> False))"

text \<open>The codes of each stage, the switch of \<open>lifecycleErrorValid\<close>.\<close>

definition stageCodes :: "string \<Rightarrow> string list option" where
  "stageCodes = map_of
     [(''bootstrap'', [''transport_unavailable'', ''descriptor_invalid'']),
      (''parse'', [''encoding_invalid'', ''schema_invalid'', ''bounds_exceeded'']),
      (''admission'', [''authorization_invalid'', ''authorization_expired'', ''input_mismatch'',
         ''identity_mismatch'', ''invocation_conflict'', ''assignment_conflict'']),
      (''compatibility'', [''compatibility_unpublished'', ''compatibility_mismatch'', ''configuration_unknown'',
         ''presence_contamination'', ''history_contamination'']),
      (''store'', [''store_busy'', ''store_unreadable'', ''store_full'', ''store_interlocked'']),
      (''start'', [''spawn_failed'']),
      (''runtime'', [''supervisor_lost'']),
      (''result'', [''result_invalid'', ''result_overflow'', ''result_conflict'']),
      (''cleanup'', [''scope_unknown'', ''cleanup_failed'']),
      (''consume'', [''consumption_conflict'', ''effect_unknown'']),
      (''cancel'', [''cancel_conflict''])]"

definition lifecycleErrorValid :: "gvalue \<Rightarrow> bool" where
  "lifecycleErrorValid v \<longleftrightarrow>
     (let o' = object v in
      closed o' [''stage'', ''code'', ''source'', ''evidence''] \<and> nil_or sourceErrorValid (gget o' ''source'')
      \<and> nil_or reference (gget o' ''evidence'')
      \<and> (case gget o' ''stage'' of
           GStr stage \<Rightarrow>
             (case stageCodes stage of Some codes \<Rightarrow> is_one (gget o' ''code'') codes | None \<Rightarrow> False)
         | _ \<Rightarrow> False))"

definition nativeValid :: "gvalue \<Rightarrow> bool" where
  "nativeValid v \<longleftrightarrow>
     (let o' = object v; status = gget o' ''status'' in
      if status \<in> {GStr ''not_started'', GStr ''running'', GStr ''unknown''} then closed o' [''status'']
      else if status = GStr ''exit'' then
        closed o' [''status'', ''code'', ''evidence''] \<and> integer_in (gget o' ''code'') 0 255
        \<and> reference (gget o' ''evidence'')
      else if status = GStr ''signal'' then
        closed o' [''status'', ''number'', ''name'', ''core_dumped'', ''evidence''] \<and> lifecycleSignal o'
        \<and> reference (gget o' ''evidence'')
      else False)"

definition startValid :: "gvalue \<Rightarrow> bool" where
  "startValid v \<longleftrightarrow>
     (let o' = object v; status = gget o' ''status'' in
      if status \<in> {GStr ''not_attempted'', GStr ''attempted_unknown''} then closed o' [''status'']
      else if status \<in> {GStr ''spawned'', GStr ''exec_confirmed''} then
        closed o' [''status'', ''process_incarnation_sha256''] \<and> digest (gget o' ''process_incarnation_sha256'')
      else if status = GStr ''spawn_failed'' then
        closed o' [''status'', ''os_error''] \<and> sourceErrorValid (gget o' ''os_error'')
      else False)"

definition cleanupValid :: "gvalue \<Rightarrow> bool" where
  "cleanupValid v \<longleftrightarrow>
     (let o' = object v; status = gget o' ''status'' in
      if status \<in> {GStr ''not_started'', GStr ''pending'', GStr ''unknown''} then closed o' [''status'']
      else if status = GStr ''failed'' then
        closed o' [''status'', ''evidence''] \<and> nil_or reference (gget o' ''evidence'')
      else if status = GStr ''confirmed_absent'' then
        closed o' [''status'', ''evidence''] \<and> reference (gget o' ''evidence'')
      else False)"

definition allocationValid :: "gvalue \<Rightarrow> bool" where
  "allocationValid v \<longleftrightarrow>
     (let o' = object v; status = gget o' ''status'' in
      if status = GStr ''not_requested'' then closed o' [''status'']
      else if status \<in> {GStr ''intent'', GStr ''known'', GStr ''unknown''} then
        closed o' [''status'', ''allocation_id''] \<and> wid (gget o' ''allocation_id'')
      else False)"

definition stopValid :: "gvalue \<Rightarrow> bool" where
  "stopValid v \<longleftrightarrow>
     (let o' = object v in
      closed o' [''stop_id'', ''reason'', ''boot_sha256'', ''begun_ms'', ''term_deadline_ms'', ''kill_deadline_ms'',
        ''term_action_id'', ''kill_action_id'', ''stage'']
      \<and> wid (gget o' ''stop_id'')
      \<and> is_one (gget o' ''reason'') [''controller_request'', ''deadline'', ''controller_lost'',
          ''supervisor_signal'', ''descendants_remaining'', ''overflow'']
      \<and> digest (gget o' ''boot_sha256'') \<and> integer_in (gget o' ''begun_ms'') 0 safeInteger
      \<and> integer_in (gget o' ''term_deadline_ms'') 1 safeInteger
      \<and> integer_in (gget o' ''kill_deadline_ms'') 1 safeInteger
      \<and> wid (gget o' ''term_action_id'') \<and> wid (gget o' ''kill_action_id'')
      \<and> is_one (gget o' ''stage'') [''term_intent'', ''term_observe'', ''kill_intent'', ''kill_observe'',
          ''complete'', ''unknown''])"

definition cancelValid :: "gobject \<Rightarrow> bool" where
  "cancelValid o' \<longleftrightarrow>
     closed o' [''kind'', ''invocation_id'', ''cancel_id'', ''source'', ''requested_at_ms'']
     \<and> is_one (gget o' ''kind'') [''curator-run member-cancel/1''] \<and> wid (gget o' ''invocation_id'')
     \<and> wid (gget o' ''cancel_id'')
     \<and> is_one (gget o' ''source'') [''controller_request'', ''deadline'', ''controller_lost'', ''supervisor_signal'']
     \<and> integer_in (gget o' ''requested_at_ms'') 1 safeInteger"

definition headValid :: "gobject \<Rightarrow> bool" where
  "headValid o' \<longleftrightarrow>
     closed o' [''kind'', ''invocation_id'', ''generation'', ''snapshot'']
     \<and> is_one (gget o' ''kind'') [''curator-run member-head/1''] \<and> wid (gget o' ''invocation_id'')
     \<and> integer_in (gget o' ''generation'') 1 256 \<and> reference (gget o' ''snapshot'')"

text \<open>The switch on the phase of a snapshot.\<close>

definition snapshotPhase :: "gobject \<Rightarrow> bool" where
  "snapshotPhase o' \<longleftrightarrow>
     (let start = gget (object (gget o' ''start'')) ''status'';
          native = gget (object (gget o' ''native'')) ''status'';
          cleanup = gget (object (gget o' ''cleanup'')) ''status'';
          allocation = gget (object (gget o' ''allocation'')) ''status'';
          scope = gget o' ''scope''; res = gget o' ''result''; stop = gget o' ''stop'';
          phase = gget o' ''phase''
      in if phase = GStr ''admitted'' then
           start = GStr ''not_attempted'' \<and> native = GStr ''not_started'' \<and> cleanup = GStr ''not_started''
           \<and> scope = GNil \<and> res = GNil \<and> allocation = GStr ''not_requested''
         else if phase = GStr ''allocating'' \<or> phase = GStr ''allocated'' then
           (let allocated = (phase = GStr ''allocated'') in
            allocation = (if allocated then GStr ''known'' else GStr ''intent'')
            \<and> (scope \<noteq> GNil) = allocated \<and> start = GStr ''not_attempted'' \<and> native = GStr ''not_started''
            \<and> cleanup = GStr ''pending'' \<and> res = GNil \<and> stop = GNil
            \<and> gget o' ''gate'' = GStr ''not_created'')
         else if phase = GStr ''start_intent'' then
           start = GStr ''attempted_unknown'' \<and> native = GStr ''unknown'' \<and> scope \<noteq> GNil
           \<and> cleanup = GStr ''pending'' \<and> res = GNil
         else if phase = GStr ''spawned'' then
           start = GStr ''spawned'' \<and> native = GStr ''unknown'' \<and> scope \<noteq> GNil
           \<and> cleanup = GStr ''pending'' \<and> res = GNil
         else if phase = GStr ''running'' then
           start = GStr ''exec_confirmed'' \<and> native = GStr ''running'' \<and> scope \<noteq> GNil
           \<and> cleanup = GStr ''pending'' \<and> res = GNil
         else if phase = GStr ''stopping'' then stop \<noteq> GNil \<and> res = GNil
         else if phase = GStr ''terminal'' then
           is_one native [''not_started'', ''exit'', ''signal'']
           \<and> is_one cleanup [''not_started'', ''confirmed_absent''] \<and> res \<noteq> GNil
         else phase = GStr ''uncertain'')"

definition snapshotValid :: "gobject \<Rightarrow> bool" where
  "snapshotValid o' \<longleftrightarrow>
     closed o' [''kind'', ''store_id'', ''identity'', ''request_sha256'', ''tuple_sha256'', ''authorization_sha256'',
       ''generation'', ''phase'', ''writer'', ''scope'', ''boot_sha256'', ''deadline_monotonic_ms'', ''start'',
       ''native'', ''cleanup'', ''result'', ''error'', ''allocation'', ''gate'', ''stop'']
     \<and> is_one (gget o' ''kind'') [''curator-run member-snapshot/1''] \<and> wid (gget o' ''store_id'')
     \<and> identity (gget o' ''identity'') \<and> digest (gget o' ''request_sha256'') \<and> digest (gget o' ''tuple_sha256'')
     \<and> digest (gget o' ''authorization_sha256'') \<and> integer_in (gget o' ''generation'') 1 256
     \<and> writerValid (gget o' ''writer'') \<and> nil_or scopeValid (gget o' ''scope'') \<and> digest (gget o' ''boot_sha256'')
     \<and> integer_in (gget o' ''deadline_monotonic_ms'') 1 safeInteger \<and> startValid (gget o' ''start'')
     \<and> nativeValid (gget o' ''native'') \<and> cleanupValid (gget o' ''cleanup'')
     \<and> nil_or reference (gget o' ''result'') \<and> nil_or lifecycleErrorValid (gget o' ''error'')
     \<and> allocationValid (gget o' ''allocation'')
     \<and> is_one (gget o' ''gate'') [''not_created'', ''held'', ''release_intent'', ''released_or_unknown'', ''closed'']
     \<and> nil_or stopValid (gget o' ''stop'') \<and> snapshotPhase o'"

section \<open>outcomes.go\<close>

definition streamValid :: "gvalue \<Rightarrow> bool" where
  "streamValid v \<longleftrightarrow>
     (let o' = object v in
      closed o' [''length'', ''sha256'', ''truncated''] \<and> integer_in (gget o' ''length'') 0 1048576
      \<and> digest (gget o' ''sha256'') \<and> lifecycleBool (gget o' ''truncated''))"

definition resultValid :: "gobject \<Rightarrow> bool" where
  "resultValid o' \<longleftrightarrow>
     closed o' [''kind'', ''store_id'', ''identity'', ''request_sha256'', ''tuple_sha256'', ''writer'', ''scope'',
       ''actual_tuple'', ''argv'', ''native'', ''cleanup'', ''cancel'', ''worker_output'', ''outputs'', ''stdout'',
       ''stderr'', ''error'', ''final_generation'']
     \<and> is_one (gget o' ''kind'') [''curator-run member-result/1''] \<and> wid (gget o' ''store_id'')
     \<and> identity (gget o' ''identity'') \<and> digest (gget o' ''request_sha256'') \<and> digest (gget o' ''tuple_sha256'')
     \<and> writerValid (gget o' ''writer'') \<and> nil_or scopeValid (gget o' ''scope'')
     \<and> nil_or reference (gget o' ''actual_tuple'') \<and> outcomeArgvValid (gget o' ''argv'')
     \<and> nativeValid (gget o' ''native'') \<and> cleanupValid (gget o' ''cleanup'') \<and> nil_or reference (gget o' ''cancel'')
     \<and> is_one (gget o' ''worker_output'') [''complete'', ''missing'', ''partial'', ''invalid'', ''overflow'']
     \<and> streamValid (gget o' ''stdout'') \<and> streamValid (gget o' ''stderr'')
     \<and> nil_or lifecycleErrorValid (gget o' ''error'') \<and> integer_in (gget o' ''final_generation'') 1 256
     \<and> (case gget o' ''outputs'' of GArr a \<Rightarrow> length a \<le> 128 \<and> list_all reference a | _ \<Rightarrow> False)"

definition replayValid :: "gvalue \<Rightarrow> bool" where
  "replayValid v \<longleftrightarrow>
     (let o' = object v in
      closed o' [''kind'', ''key'', ''classification'', ''original_request_sha256'', ''current_request_sha256'',
        ''original_result_sha256'']
      \<and> is_one (gget o' ''kind'') [''curator-run member-replay/1'']
      \<and> is_one (gget o' ''key'') [''invocation'', ''cancel'', ''effect'', ''none'']
      \<and> is_one (gget o' ''classification'') [''new'', ''identical'', ''conflict'', ''none'']
      \<and> nil_or digest (gget o' ''original_request_sha256'') \<and> nil_or digest (gget o' ''current_request_sha256'')
      \<and> nil_or digest (gget o' ''original_result_sha256''))"

text \<open>The switch on the outcome of a response.\<close>

definition responseOutcome :: "gobject \<Rightarrow> bool" where
  "responseOutcome o' \<longleftrightarrow>
     (let outcome = gget o' ''outcome''; snapshot = gget o' ''snapshot''; res = gget o' ''result'';
          reservation = gget o' ''reservation''; ack = gget o' ''ack''; err = gget o' ''error''
      in if outcome = GStr ''refused'' \<or> outcome = GStr ''conflict'' then
           err \<noteq> GNil \<and> res = GNil \<and> reservation = GNil \<and> ack = GNil
         else if outcome = GStr ''snapshot'' then
           snapshot \<noteq> GNil \<and> res = GNil \<and> err = GNil \<and> reservation = GNil \<and> ack = GNil
         else if outcome = GStr ''result'' then
           res \<noteq> GNil \<and> snapshot \<noteq> GNil \<and> err = GNil \<and> reservation = GNil \<and> ack = GNil
         else if outcome = GStr ''consumption'' then
           reservation \<noteq> GNil \<and> res \<noteq> GNil \<and> snapshot \<noteq> GNil \<and> err = GNil
         else False)"

definition responseValid :: "gobject \<Rightarrow> bool" where
  "responseValid o' \<longleftrightarrow>
     closed o' [''kind'', ''request_id'', ''request_sha256'', ''operation'', ''outcome'', ''snapshot'', ''result'',
       ''reservation'', ''ack'', ''error'', ''replay'']
     \<and> is_one (gget o' ''kind'') [''curator-run member-response/1''] \<and> nil_or wid (gget o' ''request_id'')
     \<and> nil_or digest (gget o' ''request_sha256'')
     \<and> (gget o' ''operation'' = GNil \<or>
        is_one (gget o' ''operation'') [''submit'', ''inspect'', ''cancel'', ''reconcile'', ''consume''])
     \<and> nil_or lifecycleErrorValid (gget o' ''error'') \<and> replayValid (gget o' ''replay'')
     \<and> list_all (\<lambda>k. nil_or reference (gget o' k)) [''snapshot'', ''result'', ''reservation'', ''ack'']
     \<and> responseOutcome o'"

definition reservationValid :: "gobject \<Rightarrow> bool" where
  "reservationValid o' \<longleftrightarrow>
     closed o' [''kind'', ''store_id'', ''assignment_id'', ''invocation_id'', ''consumer_id'', ''effect_id'',
       ''result_sha256'', ''assignment_sha256'', ''attempt_ordinal'']
     \<and> is_one (gget o' ''kind'') [''curator-run member-reservation/1''] \<and> wid (gget o' ''store_id'')
     \<and> wid (gget o' ''assignment_id'') \<and> wid (gget o' ''invocation_id'') \<and> wid (gget o' ''consumer_id'')
     \<and> wid (gget o' ''effect_id'') \<and> digest (gget o' ''result_sha256'') \<and> digest (gget o' ''assignment_sha256'')
     \<and> integer_in (gget o' ''attempt_ordinal'') 1 256"

definition ackValid :: "gobject \<Rightarrow> bool" where
  "ackValid o' \<longleftrightarrow>
     closed o' [''kind'', ''reservation_sha256'', ''receipt''] \<and> is_one (gget o' ''kind'') [''curator-run member-ack/1'']
     \<and> digest (gget o' ''reservation_sha256'') \<and> reference (gget o' ''receipt'')"

definition conflictValid :: "gobject \<Rightarrow> bool" where
  "conflictValid o' \<longleftrightarrow>
     closed o' [''kind'', ''store_id'', ''invocation_id'', ''category'', ''original_sha256'', ''conflicting_sha256'',
       ''writer'']
     \<and> is_one (gget o' ''kind'') [''curator-run member-conflict/1''] \<and> wid (gget o' ''store_id'')
     \<and> wid (gget o' ''invocation_id'')
     \<and> is_one (gget o' ''category'') [''request'', ''result'', ''cancel'', ''consumption'', ''observation'', ''assignment'']
     \<and> digest (gget o' ''original_sha256'') \<and> digest (gget o' ''conflicting_sha256'')
     \<and> writerValid (gget o' ''writer'')"

end
