(* ===== verification/MemberDecode.thy ===== *)
theory MemberDecode
  imports MemberReader MemberLifecycle
begin

text \<open>
  \<open>internal/memberwire/decode.go\<close> and \<open>descriptor.go\<close>: the decoders of the sixteen record kinds
  and the descriptor arguments of the member entry. A decoder is the shared \<open>decode\<close> with a size
  limit and a record predicate; the locale \<open>record_kind\<close> states what the predicate of a kind
  must promise, and each kind interprets it.
\<close>

section \<open>decode.go\<close>

record untrustedRecord =
  urRaw :: string
  urValue :: gobject
  urDigest :: string

definition decode :: "string \<Rightarrow> nat \<Rightarrow> (gobject \<Rightarrow> bool) \<Rightarrow> wireError + untrustedRecord" where
  "decode raw limit valid =
     (if limit < length raw then Inl (ParseError BoundsExceeded)
      else
        (case parseObject raw of
           Inl e \<Rightarrow> Inl e
         | Inr value \<Rightarrow>
             if \<not> valid value then Inl (ParseError SchemaInvalid)
             else Inr \<lparr>urRaw = raw, urValue = value, urDigest = Sum256 raw\<rparr>))"

text \<open>\<open>copyValue\<close>: map entries are copied one by one into a new map.\<close>

fun copyValue :: "gvalue \<Rightarrow> gvalue" where
  "copyValue (GObj ms) = GObj (foldl (\<lambda>out (k, v). AList.update k v out) [] (map (\<lambda>(k, v). (k, copyValue v)) ms))"
| "copyValue (GArr vs) = GArr (map copyValue vs)"
| "copyValue v = v"

definition Value :: "untrustedRecord \<Rightarrow> gvalue" where
  "Value r = copyValue (GObj (urValue r))"

definition AuthorizationLimit :: nat where "AuthorizationLimit = 4 * 1024"
definition AssignmentLimit :: nat where "AssignmentLimit = 64 * 1024"
definition AttemptLimit :: nat where "AttemptLimit = 16 * 1024"
definition OperationIntentLimit :: nat where "OperationIntentLimit = 16 * 1024"
definition OperationCompletionLimit :: nat where "OperationCompletionLimit = 16 * 1024"
definition OwnerLimit :: nat where "OwnerLimit = 4 * 1024"
definition CatalogLimit :: nat where "CatalogLimit = 64 * 1024"
definition TupleLimit :: nat where "TupleLimit = 64 * 1024"
definition SnapshotLimit :: nat where "SnapshotLimit = 16 * 1024"
definition HeadLimit :: nat where "HeadLimit = 16 * 1024"
definition CancelLimit :: nat where "CancelLimit = 4 * 1024"
definition ObservationLimit :: nat where "ObservationLimit = 64 * 1024"
definition ScopeProofLimit :: nat where "ScopeProofLimit = 16 * 1024"
definition ResultLimit :: nat where "ResultLimit = 64 * 1024"
definition ResponseLimit :: nat where "ResponseLimit = 16 * 1024"
definition ReservationLimit :: nat where "ReservationLimit = 16 * 1024"
definition AckLimit :: nat where "AckLimit = 16 * 1024"
definition ConflictLimit :: nat where "ConflictLimit = 16 * 1024"

definition DecodeRequest where "DecodeRequest raw = decode raw RequestLimit requestValid"
definition DecodeAuthorization where "DecodeAuthorization raw = decode raw AuthorizationLimit authorizationValid"
definition DecodeAssignment where "DecodeAssignment raw = decode raw AssignmentLimit assignmentValid"
definition DecodeAttempt where "DecodeAttempt raw = decode raw AttemptLimit attemptValid"
definition DecodeOperationIntent where
  "DecodeOperationIntent raw = decode raw OperationIntentLimit operationIntentValid"
definition DecodeOperationCompletion where
  "DecodeOperationCompletion raw = decode raw OperationCompletionLimit operationCompletionValid"
definition DecodeOwner where "DecodeOwner raw = decode raw OwnerLimit ownerValid"
definition DecodeCatalog where "DecodeCatalog raw = decode raw CatalogLimit catalogValid"
definition DecodeTuple where "DecodeTuple raw = decode raw TupleLimit tupleValid"
definition DecodeSnapshot where "DecodeSnapshot raw = decode raw SnapshotLimit snapshotValid"
definition DecodeHead where "DecodeHead raw = decode raw HeadLimit headValid"
definition DecodeCancel where "DecodeCancel raw = decode raw CancelLimit cancelValid"
definition DecodeObservation where "DecodeObservation raw = decode raw ObservationLimit observationValid"
definition DecodeScopeProof where "DecodeScopeProof raw = decode raw ScopeProofLimit scopeProofValid"
definition DecodeResult where "DecodeResult raw = decode raw ResultLimit resultValid"
definition DecodeResponse where "DecodeResponse raw = decode raw ResponseLimit responseValid"
definition DecodeReservation where "DecodeReservation raw = decode raw ReservationLimit reservationValid"
definition DecodeAck where "DecodeAck raw = decode raw AckLimit ackValid"
definition DecodeConflict where "DecodeConflict raw = decode raw ConflictLimit conflictValid"

lemmas decoder_defs = DecodeRequest_def DecodeAuthorization_def DecodeAssignment_def DecodeAttempt_def
  DecodeOperationIntent_def DecodeOperationCompletion_def DecodeOwner_def DecodeCatalog_def DecodeTuple_def
  DecodeSnapshot_def DecodeHead_def DecodeCancel_def DecodeObservation_def DecodeScopeProof_def
  DecodeResult_def DecodeResponse_def DecodeReservation_def DecodeAck_def DecodeConflict_def

section \<open>descriptor.go\<close>

record descriptorNumbers =
  dnRequest :: nat
  dnAuthorization :: nat
  dnObjects :: nat
  dnState :: nat
  dnResponse :: nat
  dnController :: nat

datatype bootstrapError = DescriptorInvalid

definition fdIndex :: "string \<Rightarrow> nat option" where
  "fdIndex = map_of
     [(''--request-fd'', 0), (''--authorization-fd'', 1), (''--objects-fd'', 2), (''--state-fd'', 3),
      (''--response-fd'', 4), (''--controller-fd'', 5)]"

text \<open>The text of a number: at most three digits, no leading zero.\<close>

definition fdNumber :: "string \<Rightarrow> nat option" where
  "fdNumber s =
     (if s = [] \<or> 3 < length s \<or> hd s = CHR ''0'' then None
      else if \<not> list_all is_digit s then None
      else Some (dec_value s))"

text \<open>The loop; \<open>values\<close> holds \<open>None\<close> where \<open>seen\<close> is false.\<close>

fun descriptorLoop :: "nat option list \<Rightarrow> nat set \<Rightarrow> string list \<Rightarrow> nat option list option" where
  "descriptorLoop values used (flag # s # args) =
     (case fdIndex flag of
        None \<Rightarrow> None
      | Some index \<Rightarrow>
          if values ! index \<noteq> None then None
          else (case fdNumber s of
                  None \<Rightarrow> None
                | Some n \<Rightarrow>
                    if n < 3 \<or> 255 < n \<or> n \<in> used then None
                    else descriptorLoop (values[index := Some n]) (insert n used) args))"
| "descriptorLoop values used [] = Some values"
| "descriptorLoop values used [s] = None"

definition zero_or :: "nat option \<Rightarrow> nat" where
  "zero_or x = (case x of Some n \<Rightarrow> n | None \<Rightarrow> 0)"

definition ParseDescriptorArgs :: "string list \<Rightarrow> bootstrapError + descriptorNumbers" where
  "ParseDescriptorArgs args =
     (if length args \<noteq> 12 then Inl DescriptorInvalid
      else (case descriptorLoop (replicate 6 None) {} args of
              None \<Rightarrow> Inl DescriptorInvalid
            | Some values \<Rightarrow>
                Inr \<lparr>dnRequest = zero_or (values ! 0), dnAuthorization = zero_or (values ! 1),
                     dnObjects = zero_or (values ! 2), dnState = zero_or (values ! 3),
                     dnResponse = zero_or (values ! 4), dnController = zero_or (values ! 5)\<rparr>))"

section \<open>What a decoder promises\<close>

lemma grammar_clean: "grammar toks f = Some f' \<Longrightarrow> clean f' \<Longrightarrow> clean f"
  by (auto simp: grammar_def split: list.splits if_split_asm dest: grammar_loop_clean)

lemma parseObject_cases:
  obtains (err) c where "parseObject raw = Inl (ParseError c)"
  | (ok) obj where "parseObject raw = Inr obj" "gok 16 (GObj obj)" "gnodes (GObj obj) \<le> 8192"
      "utf8_valid raw" "length raw \<le> RequestLimit"
proof (cases "RequestLimit < length raw \<or> \<not> utf8_valid raw \<or> HasPrefix raw [CHR 0xEF, CHR 0xBB, CHR 0xBF]
    \<or> CHR 0x00 \<in> set raw \<or> tokenize [] no_faults raw = None")
  case True
  then have "\<exists>c. parseObject raw = Inl (ParseError c)" by (auto simp: parseObject_def)
  then show thesis using err by blast
next
  case False
  then obtain toks f where t: "tokenize [] no_faults raw = Some (toks, f)" by auto
  show thesis
  proof (cases "grammar toks f")
    case None
    with False t show thesis by (intro err) (auto simp: parseObject_def)
  next
    case (Some f')
    show thesis
    proof (cases "clean f'")
      case dirty: False
      with False t Some show thesis
        by (cases "fBounds f'") (intro err; simp add: parseObject_def clean_def)+
    next
      case True
      have "\<forall>t \<in> set toks. tok_ok t"
        using tokenize_ok [OF t] grammar_clean [OF Some True] False by simp
      from grammar_builds [OF Some this, of "2 * length toks + 2"] True
      obtain obj where b: "buildValue (2 * length toks + 2) toks = Inr (GObj obj, [])"
        "gok 16 (GObj obj)" "gnodes (GObj obj) \<le> 8192" by auto
      from True have "\<not> fBounds f'" "\<not> fSchema f'" by (simp_all add: clean_def)
      with False t Some b(1) have "parseObject raw = Inr obj" by (simp add: parseObject_def)
      with b(2,3) False ok show thesis by simp
    qed
  qed
qed

locale record_kind =
  fixes limit :: nat and valid :: "gobject \<Rightarrow> bool" and kind :: string
  assumes valid_kind: "valid o' \<Longrightarrow> gget o' ''kind'' = GStr kind"
begin

lemma decoded:
  assumes "decode raw limit valid = Inr r"
  shows "urRaw r = raw" "length raw \<le> limit" "utf8_valid raw" "urDigest r = Sum256 raw"
    "valid (urValue r)" "gget (urValue r) ''kind'' = GStr kind"
    "parseObject raw = Inr (urValue r)" "gok 16 (GObj (urValue r))" "gnodes (GObj (urValue r)) \<le> 8192"
proof -
  from assms show a: "urRaw r = raw" "length raw \<le> limit" "urDigest r = Sum256 raw" "valid (urValue r)"
    and p: "parseObject raw = Inr (urValue r)"
    by (auto simp: decode_def split: if_split_asm sum.splits)
  show "gget (urValue r) ''kind'' = GStr kind" using a(4) by (rule valid_kind)
  show "utf8_valid raw" "gok 16 (GObj (urValue r))" "gnodes (GObj (urValue r)) \<le> 8192"
    using p by (cases raw rule: parseObject_cases; simp)+
qed

lemma not_panic: "decode raw limit valid \<noteq> Inl (Panic p)"
  by (cases raw rule: parseObject_cases) (auto simp: decode_def)

end

lemma is_one_single: "is_one v [s] \<longleftrightarrow> v = GStr s"
  by (auto simp: is_one_def split: gvalue.splits)

interpretation request_kind: record_kind RequestLimit requestValid "''curator-run member-request/1''"
  by unfold_locales (simp add: requestValid_def is_one_single)

interpretation authorization_kind: record_kind AuthorizationLimit authorizationValid "''curator-run member-authorization/1''"
  by unfold_locales (simp add: authorizationValid_def is_one_single)

interpretation snapshot_kind: record_kind SnapshotLimit snapshotValid "''curator-run member-snapshot/1''"
  by unfold_locales (simp add: snapshotValid_def is_one_single)

interpretation response_kind: record_kind ResponseLimit responseValid "''curator-run member-response/1''"
  by unfold_locales (simp add: responseValid_def is_one_single)

interpretation result_kind: record_kind ResultLimit resultValid "''curator-run member-result/1''"
  by unfold_locales (simp add: resultValid_def is_one_single)

end
