(* ===== verification/MemberGuarantees.thy ===== *)
theory MemberGuarantees
  imports MemberDecode
begin

text \<open>
  What the member-record decoders and the descriptor arguments guarantee: the type and the bounds
  of an accepted record, the order of the refusals, exact numbers, the shapes of requests,
  snapshots and responses, and descriptor numbers that are pairwise different.
\<close>

section \<open>The reader\<close>

text \<open>
  C33. Type and bounds of an accepted record. Whatever predicate a decoder uses, an accepted
  record keeps the bytes it was read from with their digest; the bytes are valid UTF-8 within the
  limit; and the value nests at most 16 containers, has at most 8192 nodes, no duplicate keys, and
  only texts of at most 4096 bytes of valid UTF-8 and integers up to \<open>2^53 - 1\<close>.
\<close>

theorem decode_type:
  assumes "decode raw limit valid = Inr r"
  shows "urRaw r = raw \<and> urDigest r = Sum256 raw \<and> length raw \<le> min limit RequestLimit \<and> utf8_valid raw \<and>
    gok 16 (GObj (urValue r)) \<and> gnodes (GObj (urValue r)) \<le> 8192 \<and> valid (urValue r)"
proof -
  from assms have p: "parseObject raw = Inr (urValue r)" "urRaw r = raw" "urDigest r = Sum256 raw"
    "length raw \<le> limit" "valid (urValue r)"
    by (auto simp: decode_def split: if_split_asm sum.splits)
  from p(1) show ?thesis using p(2-5) by (cases raw rule: parseObject_cases) auto
qed

definition ack_document :: string where
  "ack_document = ''{\"kind\":\"curator-run member-ack/1\",\"reservation_sha256\":\"aaaaaaaaaaaaaaaaaaaaaaaaaaaaaaaaaaaaaaaaaaaaaaaaaaaaaaaaaaaaaaaa\",\"receipt\":{\"name\":\"r\",\"length\":12,\"sha256\":\"bbbbbbbbbbbbbbbbbbbbbbbbbbbbbbbbbbbbbbbbbbbbbbbbbbbbbbbbbbbbbbbb\"}}''"

definition ack_value :: gobject where
  "ack_value =
     [(''kind'', GStr ''curator-run member-ack/1''),
      (''reservation_sha256'', GStr ''aaaaaaaaaaaaaaaaaaaaaaaaaaaaaaaaaaaaaaaaaaaaaaaaaaaaaaaaaaaaaaaa''),
      (''receipt'', GObj [(''name'', GStr ''r''), (''length'', GNum 12),
        (''sha256'', GStr ''bbbbbbbbbbbbbbbbbbbbbbbbbbbbbbbbbbbbbbbbbbbbbbbbbbbbbbbbbbbbbbbb'')])]"

lemma ack_parses: "parseObject ack_document = Inr ack_value"
  by code_simp

lemma ack_decodes:
  "decode ack_document AckLimit ackValid =
     Inr \<lparr>urRaw = ack_document, urValue = ack_value, urDigest = Sum256 ack_document\<rparr>"
proof -
  have "length ack_document \<le> AckLimit" "ackValid ack_value" by code_simp+
  then show ?thesis by (simp add: decode_def ack_parses)
qed

theorem decode_type_witness:
  "\<exists>r. decode ack_document AckLimit ackValid = Inr r \<and> urRaw r = ack_document \<and>
     gok 16 (GObj (urValue r)) \<and> gnodes (GObj (urValue r)) \<le> 8192"
  using decode_type [OF ack_decodes] ack_decodes by blast

text \<open>
  No panic. No input makes a decoder panic: building the value never reads past the last
  token and the root is always an object, and the recursion is never cut off; every refusal is one
  of the three parse codes.
\<close>

lemma decode_never_panics:
  "decode raw limit valid \<noteq> Inl (Panic p)"
  by (cases raw rule: parseObject_cases) (auto simp: decode_def)

text \<open>
  Order of the refusals. A record over the limit is refused for its size whatever its bytes
  are; one within it that is not valid UTF-8, starts with a byte-order mark, holds a zero byte or
  does not follow the grammar is refused for its encoding, even when it also breaks bounds; broken
  bounds come before a broken schema.
\<close>

lemma decode_refusals:
  "(limit < length raw \<longrightarrow> decode raw limit valid = Inl (ParseError BoundsExceeded)) \<and>
   (length raw \<le> limit \<and> length raw \<le> RequestLimit \<longrightarrow>
     (\<not> utf8_valid raw \<or> HasPrefix raw [CHR 0xEF, CHR 0xBB, CHR 0xBF] \<or> CHR 0x00 \<in> set raw \<longrightarrow>
        decode raw limit valid = Inl (ParseError EncodingInvalid)) \<and>
     (\<forall>toks f. tokenize [] no_faults raw = Some (toks, f) \<and> grammar toks f = None \<longrightarrow>
        decode raw limit valid = Inl (ParseError EncodingInvalid)) \<and>
     (\<forall>toks f f'. utf8_valid raw \<and> \<not> HasPrefix raw [CHR 0xEF, CHR 0xBB, CHR 0xBF] \<and> CHR 0x00 \<notin> set raw \<and>
        tokenize [] no_faults raw = Some (toks, f) \<and> grammar toks f = Some f' \<longrightarrow>
          (fBounds f' \<longrightarrow> decode raw limit valid = Inl (ParseError BoundsExceeded)) \<and>
          (\<not> fBounds f' \<and> fSchema f' \<longrightarrow> decode raw limit valid = Inl (ParseError SchemaInvalid))))"
  by (auto simp: decode_def parseObject_def)

text \<open>
  C40. The refusals of a decoder. No input makes it panic or cuts its recursion off: every refusal is
  one of the three parse codes, and they come in a fixed order, size before encoding (invalid
  UTF-8, a byte-order mark, a zero byte, a text outside the grammar), encoding before bounds,
  bounds before the schema.
\<close>

theorem decode_outcomes:
  "(\<forall>p. decode raw limit valid \<noteq> Inl (Panic p)) \<and>
   (limit < length raw \<longrightarrow> decode raw limit valid = Inl (ParseError BoundsExceeded)) \<and>
   (length raw \<le> limit \<and> length raw \<le> RequestLimit \<longrightarrow>
     (\<not> utf8_valid raw \<or> HasPrefix raw [CHR 0xEF, CHR 0xBB, CHR 0xBF] \<or> CHR 0x00 \<in> set raw \<longrightarrow>
        decode raw limit valid = Inl (ParseError EncodingInvalid)) \<and>
     (\<forall>toks f. tokenize [] no_faults raw = Some (toks, f) \<and> grammar toks f = None \<longrightarrow>
        decode raw limit valid = Inl (ParseError EncodingInvalid)) \<and>
     (\<forall>toks f f'. utf8_valid raw \<and> \<not> HasPrefix raw [CHR 0xEF, CHR 0xBB, CHR 0xBF] \<and> CHR 0x00 \<notin> set raw \<and>
        tokenize [] no_faults raw = Some (toks, f) \<and> grammar toks f = Some f' \<longrightarrow>
          (fBounds f' \<longrightarrow> decode raw limit valid = Inl (ParseError BoundsExceeded)) \<and>
          (\<not> fBounds f' \<and> fSchema f' \<longrightarrow> decode raw limit valid = Inl (ParseError SchemaInvalid))))"
  by (rule conjI [OF allI [OF decode_never_panics] decode_refusals])

theorem decode_outcomes_witness:
  "decode (replicate 5000 CHR ''x'') CancelLimit cancelValid = Inl (ParseError BoundsExceeded) \<and>
   decode [CHR 0xFF] AckLimit ackValid = Inl (ParseError EncodingInvalid)"
proof -
  have "\<not> utf8_valid [CHR 0xFF]" by code_simp
  then show ?thesis
    using decode_outcomes [where raw = "replicate 5000 CHR ''x''" and limit = CancelLimit and valid = cancelValid]
      decode_outcomes [where raw = "[CHR 0xFF]" and limit = AckLimit and valid = ackValid]
    by (simp add: AckLimit_def CancelLimit_def RequestLimit_def)
qed

text \<open>
  C27. Exact numbers. A plain decimal numeral is read at its value exactly when the value is at
  most \<open>2^53 - 1\<close>, and is an overflow otherwise; the 64-bit arithmetic never wraps. Every other
  text, a leading zero included, is a fault of the schema.
\<close>

theorem numberToken_exact:
  "case numberToken s of (n, lexical, overflow) \<Rightarrow>
     (lexical \<longleftrightarrow> s \<noteq> [] \<and> list_all is_digit s \<and> (length s = 1 \<or> hd s \<noteq> CHR ''0'')) \<and>
     (lexical \<longrightarrow> (overflow \<longleftrightarrow> 2 ^ 53 \<le> dec_value s) \<and> (\<not> overflow \<longrightarrow> unat n = dec_value s))"
proof (cases "s \<noteq> [] \<and> list_all is_digit s \<and> (length s = 1 \<or> hd s \<noteq> CHR ''0'')")
  case True
  then show ?thesis using numberToken_digits [of s] by (auto simp: unat_u64)
next
  case False
  then have "numberToken s = (0, False, False)" by (cases s) (auto simp: numberToken_def)
  with False show ?thesis by simp
qed

theorem numberToken_exact_witness:
  "numberToken ''9007199254740991'' = (9007199254740991, True, False) \<and>
   (case numberToken ''9007199254740992'' of (n, lexical, overflow) \<Rightarrow> lexical \<and> overflow)"
proof -
  have v: "dec_value ''9007199254740992'' = 9007199254740992"
    "list_all is_digit ''9007199254740992''" by code_simp+
  have "numberToken ''9007199254740991'' = (9007199254740991, True, False)" by code_simp
  then show ?thesis using numberToken_exact [of "''9007199254740992''"] v
    by (auto split: prod.splits)
qed

section \<open>Record kinds\<close>

text \<open>The decoders with their kinds.\<close>

definition decoders :: "(nat \<times> (gobject \<Rightarrow> bool) \<times> string) list" where
  "decoders =
     [(RequestLimit, requestValid, ''curator-run member-request/1''),
      (AuthorizationLimit, authorizationValid, ''curator-run member-authorization/1''),
      (AssignmentLimit, assignmentValid, ''curator-run member-assignment/1''),
      (AttemptLimit, attemptValid, ''curator-run member-attempt/1''),
      (OperationIntentLimit, operationIntentValid, ''curator-run member-operation-intent/1''),
      (OperationCompletionLimit, operationCompletionValid, ''curator-run member-operation-completion/1''),
      (OwnerLimit, ownerValid, ''curator-run member-owner/1''),
      (CatalogLimit, catalogValid, ''curator-run member-catalog/1''),
      (TupleLimit, tupleValid, ''curator-run member-tuple/1''),
      (SnapshotLimit, snapshotValid, ''curator-run member-snapshot/1''),
      (HeadLimit, headValid, ''curator-run member-head/1''),
      (CancelLimit, cancelValid, ''curator-run member-cancel/1''),
      (ObservationLimit, observationValid, ''curator-run member-observation/1''),
      (ScopeProofLimit, scopeProofValid, ''curator-run member-scope-proof/1''),
      (ResultLimit, resultValid, ''curator-run member-result/1''),
      (ResponseLimit, responseValid, ''curator-run member-response/1''),
      (ReservationLimit, reservationValid, ''curator-run member-reservation/1''),
      (AckLimit, ackValid, ''curator-run member-ack/1''),
      (ConflictLimit, conflictValid, ''curator-run member-conflict/1'')]"

lemmas kind_defs = requestValid_def authorizationValid_def assignmentValid_def attemptValid_def
  operationIntentValid_def operationCompletionValid_def ownerValid_def catalogValid_def tupleValid_def
  snapshotValid_def headValid_def cancelValid_def observationValid_def scopeProofValid_def
  resultValid_def responseValid_def reservationValid_def ackValid_def conflictValid_def

lemma decoders_record_kind: "(limit, valid, kind) \<in> set decoders \<Longrightarrow> record_kind valid kind"
  unfolding decoders_def record_kind_def kind_defs by (auto simp: is_one_single)

text \<open>
  C34. No confusion of kinds. Of the nineteen decoders of the protocol no two accept the same
  bytes: the kind that a record names is the kind of the only decoder that accepts it.
\<close>

theorem decoders_disjoint:
  assumes "(limit, valid, kind) \<in> set decoders" "(limit', valid', kind') \<in> set decoders"
    and "decode raw limit valid = Inr r" "decode raw limit' valid' = Inr r'"
  shows "kind = kind' \<and> r = r'"
proof -
  note k = decoders_record_kind [OF assms(1)] decoders_record_kind [OF assms(2)]
  have "urValue r = urValue r'"
    using record_kind.decoded(7) [OF k(1) assms(3)] record_kind.decoded(7) [OF k(2) assms(4)] by simp
  then have "kind = kind'"
    using record_kind.decoded(6) [OF k(1) assms(3)] record_kind.decoded(6) [OF k(2) assms(4)] by simp
  moreover have "r = r'"
    using assms(3,4) by (auto simp: decode_def split: if_split_asm sum.splits)
  ultimately show ?thesis ..
qed

theorem decoders_disjoint_witness:
  "(\<exists>r. decode ack_document AckLimit ackValid = Inr r) \<and>
   \<not> (\<exists>r. decode ack_document ConflictLimit conflictValid = Inr r)"
proof -
  have "''curator-run member-ack/1'' \<noteq> ''curator-run member-conflict/1''" by simp
  moreover have "(AckLimit, ackValid, ''curator-run member-ack/1'') \<in> set decoders"
    "(ConflictLimit, conflictValid, ''curator-run member-conflict/1'') \<in> set decoders"
    by (simp_all add: decoders_def)
  ultimately have "decode ack_document ConflictLimit conflictValid \<noteq> Inr r" for r
    using decoders_disjoint [of AckLimit ackValid _ ConflictLimit conflictValid _ ack_document _ r, OF _ _ ack_decodes]
    by blast
  then show ?thesis using ack_decodes by blast
qed

lemma closed_keys:
  assumes "closed o' keys" "distinct keys" "distinct (map fst o')"
  shows "fst ` set o' = set keys"
proof (rule sym, rule card_subset_eq)
  show "set keys \<subseteq> fst ` set o'"
  proof
    fix k assume "k \<in> set keys"
    then have "map_of o' k \<noteq> None"
      using assms(1) by (simp add: closed_def list_all_iff del: not_None_eq)
    then show "k \<in> fst ` set o'" by (simp add: map_of_eq_None_iff)
  qed
  have "card (fst ` set o') = length o'" using assms(3) by (metis distinct_card length_map set_map)
  then show "card (set keys) = card (fst ` set o')"
    using assms(1,2) by (simp add: closed_def distinct_card)
qed simp

definition request_members :: "(string \<times> string list) list" where
  "request_members =
     [(''submit'', [''identity'', ''tuple'', ''artifacts'', ''effects'', ''deadlines'', ''assignment'']),
      (''inspect'', [''invocation_id'']), (''reconcile'', [''invocation_id'']),
      (''cancel'', [''invocation_id'', ''cancel_id'', ''reason'']),
      (''consume'', [''action'', ''invocation_id'', ''consumer_id'', ''effect_id'', ''result_sha256'']),
      (''consume'', [''action'', ''invocation_id'', ''consumer_id'', ''effect_id'', ''result_sha256'', ''receipt''])]"

definition shaped :: "gobject \<Rightarrow> string \<Rightarrow> string list \<Rightarrow> bool" where
  "shaped o' op extra \<longleftrightarrow> gget o' ''operation'' = GStr op \<and> (op, extra) \<in> set request_members \<and>
    closed o' ([''kind'', ''request_id'', ''operation''] @ extra) \<and>
    (op = ''consume'' \<longrightarrow> (''receipt'' \<in> set extra \<longleftrightarrow> gget o' ''action'' = GStr ''ack'')) \<and>
    (op = ''submit'' \<longrightarrow> effects (gget o' ''effects''))"

lemma requestValid_shape:
  assumes "requestValid o'"
  shows "\<exists>op extra. shaped o' op extra"
proof -
  note valid = assms [unfolded requestValid_def Let_def is_one_single]
  consider "gget o' ''operation'' = GStr ''submit''" | "gget o' ''operation'' = GStr ''inspect''"
    | "gget o' ''operation'' = GStr ''reconcile''" | "gget o' ''operation'' = GStr ''cancel''"
    | "gget o' ''operation'' = GStr ''consume''"
    using valid by (simp only: split: if_split_asm) blast+
  then show ?thesis
  proof cases
    case 1
    then have "shaped o' ''submit'' [''identity'', ''tuple'', ''artifacts'', ''effects'', ''deadlines'', ''assignment'']"
      using valid by (simp add: shaped_def request_members_def)
    then show ?thesis by blast
  next
    case 2
    then have "shaped o' ''inspect'' [''invocation_id'']"
      using valid by (simp add: shaped_def request_members_def)
    then show ?thesis by blast
  next
    case 3
    then have "shaped o' ''reconcile'' [''invocation_id'']"
      using valid by (simp add: shaped_def request_members_def)
    then show ?thesis by blast
  next
    case 4
    then have "shaped o' ''cancel'' [''invocation_id'', ''cancel_id'', ''reason'']"
      using valid by (simp add: shaped_def request_members_def)
    then show ?thesis by blast
  next
    case 5
    then have "shaped o' ''consume'' ([''action'', ''invocation_id'', ''consumer_id'', ''effect_id'', ''result_sha256''] @
        (if gget o' ''action'' = GStr ''ack'' then [''receipt''] else []))"
      using valid by (simp add: shaped_def request_members_def split: if_split_asm)
    then show ?thesis by blast
  qed
qed

lemma closed_keys_distinct: "(op, extra) \<in> set request_members \<Longrightarrow> distinct ([''kind'', ''request_id'', ''operation''] @ extra)"
  unfolding request_members_def by auto

text \<open>
  C35. Request shapes. An accepted request is one of five operations, and its members are exactly
  the ones of that operation: an acknowledging consume has a receipt and a reserving one has none;
  a submit that disables the network binds no provider and asks for no provider requests or tokens.
\<close>

theorem request_shapes:
  assumes "DecodeRequest raw = Inr r"
  shows "(\<exists>op extra. gget (urValue r) ''operation'' = GStr op \<and>
     fst ` set (urValue r) = set ([''kind'', ''request_id'', ''operation''] @ extra) \<and>
     (op, extra) \<in> set request_members \<and>
     (op = ''consume'' \<longrightarrow>
        (''receipt'' \<in> set extra \<longleftrightarrow> gget (urValue r) ''action'' = GStr ''ack'')) \<and>
     (op = ''submit'' \<and> gget (object (gget (urValue r) ''effects'')) ''network'' = GStr ''disabled'' \<longrightarrow>
        gget (object (gget (urValue r) ''effects'')) ''provider_binding_sha256'' = GNil \<and>
        integer_in (gget (object (gget (urValue r) ''effects'')) ''max_provider_requests'') 0 0 \<and>
        integer_in (gget (object (gget (urValue r) ''effects'')) ''max_provider_tokens'') 0 0))"
proof -
  from assms have v: "requestValid (urValue r)" and "gok 16 (GObj (urValue r))"
    using request_kind.decoded(5,8) by (simp_all add: DecodeRequest_def)
  then have d: "distinct (map fst (urValue r))" by simp
  obtain op extra where "shaped (urValue r) op extra"
    using requestValid_shape [OF v] by blast
  then have shape: "gget (urValue r) ''operation'' = GStr op" "(op, extra) \<in> set request_members"
    "closed (urValue r) ([''kind'', ''request_id'', ''operation''] @ extra)"
    "op = ''consume'' \<longrightarrow> (''receipt'' \<in> set extra \<longleftrightarrow> gget (urValue r) ''action'' = GStr ''ack'')"
    "op = ''submit'' \<longrightarrow> effects (gget (urValue r) ''effects'')"
    unfolding shaped_def by blast+
  note keys = closed_keys [OF shape(3) closed_keys_distinct [OF shape(2)] d]
  show ?thesis
    using shape keys by (intro exI [of _ op] exI [of _ extra]) (simp add: effects_def Let_def)
qed

definition inspect_document :: string where
  "inspect_document = ''{\"kind\":\"curator-run member-request/1\",\"request_id\":\"00000000000000000000000000000000\",\"operation\":\"inspect\",\"invocation_id\":\"11111111111111111111111111111111\"}''"

definition inspect_value :: gobject where
  "inspect_value =
     [(''kind'', GStr ''curator-run member-request/1''),
      (''request_id'', GStr ''00000000000000000000000000000000''),
      (''operation'', GStr ''inspect''),
      (''invocation_id'', GStr ''11111111111111111111111111111111'')]"

lemma inspect_decodes:
  "DecodeRequest inspect_document =
     Inr \<lparr>urRaw = inspect_document, urValue = inspect_value, urDigest = Sum256 inspect_document\<rparr>"
proof -
  have "parseObject inspect_document = Inr inspect_value" by code_simp
  moreover have "length inspect_document \<le> RequestLimit" "requestValid inspect_value" by code_simp+
  ultimately show ?thesis by (simp add: DecodeRequest_def decode_def)
qed

theorem request_shapes_witness:
  "\<exists>r op. DecodeRequest inspect_document = Inr r \<and> gget (urValue r) ''operation'' = GStr op \<and>
     {''kind'', ''request_id'', ''operation''} \<subseteq> fst ` set (urValue r)"
proof -
  from request_shapes [OF inspect_decodes] obtain op extra where
    "gget inspect_value ''operation'' = GStr op"
    "fst ` set inspect_value = set ([''kind'', ''request_id'', ''operation''] @ extra)"
    by (simp only: untrustedRecord.simps) blast
  then show ?thesis by (simp add: inspect_decodes)
qed

section \<open>Conditionals of the retained records\<close>

text \<open>What a phase says of a snapshot: the status of start, process and cleanup, whether there is a
  scope, and the status of the allocation where the phase fixes it.\<close>

definition phaseTable :: "(string \<times> string \<times> string \<times> string \<times> bool \<times> string option) list" where
  "phaseTable =
     [(''admitted'', ''not_attempted'', ''not_started'', ''not_started'', False, Some ''not_requested''),
      (''allocating'', ''not_attempted'', ''not_started'', ''pending'', False, Some ''intent''),
      (''allocated'', ''not_attempted'', ''not_started'', ''pending'', True, Some ''known''),
      (''start_intent'', ''attempted_unknown'', ''unknown'', ''pending'', True, None),
      (''spawned'', ''spawned'', ''unknown'', ''pending'', True, None),
      (''running'', ''exec_confirmed'', ''running'', ''pending'', True, None)]"

definition statusOf :: "gobject \<Rightarrow> string \<Rightarrow> gvalue" where
  "statusOf o' k = gget (object (gget o' k)) ''status''"

definition inPhase :: "gobject \<Rightarrow> string \<times> string \<times> string \<times> string \<times> bool \<times> string option \<Rightarrow> bool" where
  "inPhase o' = (\<lambda>(phase, start, native, cleanup, scoped, allocation).
     gget o' ''phase'' = GStr phase \<longrightarrow>
       statusOf o' ''start'' = GStr start \<and> statusOf o' ''native'' = GStr native \<and> statusOf o' ''cleanup'' = GStr cleanup \<and>
       (gget o' ''scope'' \<noteq> GNil \<longleftrightarrow> scoped) \<and> (\<forall>a. allocation = Some a \<longrightarrow> statusOf o' ''allocation'' = GStr a))"

lemma snapshotPhase_table: "snapshotPhase o' \<Longrightarrow> list_all (inPhase o') phaseTable"
  unfolding phaseTable_def list.pred_inject inPhase_def prod.case snapshotPhase_def Let_def
  by (intro conjI TrueI impI; simp add: statusOf_def)

lemma snapshotPhase_started:
  "snapshotPhase o' \<Longrightarrow> gget o' ''phase'' \<in> {GStr ''spawned'', GStr ''running''} \<Longrightarrow>
    gget (object (gget o' ''start'')) ''status'' \<in> {GStr ''spawned'', GStr ''exec_confirmed''}"
  unfolding snapshotPhase_def Let_def by (elim insertE emptyE) simp_all

lemma snapshotPhase_result:
  assumes "snapshotPhase o'" "gget o' ''phase'' \<noteq> GStr ''uncertain''"
  shows "gget o' ''result'' \<noteq> GNil \<longleftrightarrow> gget o' ''phase'' = GStr ''terminal''"
proof (cases "gget o' ''phase'' = GStr ''terminal''")
  case True
  then show ?thesis
    using assms(1) unfolding snapshotPhase_def Let_def by simp
next
  case False
  then have "gget o' ''result'' = GNil"
    using assms unfolding snapshotPhase_def Let_def by (simp split: if_split_asm)
  then show ?thesis using False by simp
qed

lemma startValid_started: "startValid v \<Longrightarrow> gget (object v) ''status'' \<in> {GStr ''spawned'', GStr ''exec_confirmed''} \<Longrightarrow>
    digest (gget (object v) ''process_incarnation_sha256'')"
  by (auto simp: startValid_def Let_def)

lemma nativeValid_ended: "nativeValid v \<Longrightarrow> gget (object v) ''status'' \<in> {GStr ''exit'', GStr ''signal''} \<Longrightarrow>
    reference (gget (object v) ''evidence'')"
  by (auto simp: nativeValid_def Let_def)

lemma cleanupValid_absent: "cleanupValid v \<Longrightarrow> gget (object v) ''status'' = GStr ''confirmed_absent'' \<Longrightarrow>
    reference (gget (object v) ''evidence'')"
  by (auto simp: cleanupValid_def Let_def)

text \<open>
  C28. Snapshot phases. From admitted to running the phase of an accepted snapshot fixes whether the
  process was started and how far (start and native status), the cleanup, whether there is a scope
  and, before the start, the allocation; a started process has the digest of its incarnation. The
  allocation phases have no gate and no stop, a stopping snapshot has its stop. A terminal process
  was never started or has ended, with evidence, and its cleanup was never due or is confirmed with
  evidence. Outside the uncertain phase, which leaves start, process, cleanup and result open, a
  result is retained exactly in the terminal one.
\<close>

theorem snapshot_phases:
  assumes "snapshotValid o'"
  shows "(\<exists>phase \<in> {''admitted'', ''allocating'', ''allocated'', ''start_intent'', ''spawned'', ''running'', ''stopping'', ''terminal'', ''uncertain''}.
       gget o' ''phase'' = GStr phase) \<and>
    list_all (inPhase o') phaseTable \<and>
    (gget o' ''phase'' \<in> {GStr ''spawned'', GStr ''running''} \<longrightarrow> digest (gget (object (gget o' ''start'')) ''process_incarnation_sha256'')) \<and>
    (gget o' ''phase'' \<in> {GStr ''allocating'', GStr ''allocated''} \<longrightarrow> gget o' ''stop'' = GNil \<and> gget o' ''gate'' = GStr ''not_created'') \<and>
    (gget o' ''phase'' = GStr ''stopping'' \<longrightarrow> gget o' ''stop'' \<noteq> GNil) \<and>
    (gget o' ''phase'' = GStr ''terminal'' \<longrightarrow>
       (statusOf o' ''native'' = GStr ''not_started'' \<or>
        statusOf o' ''native'' \<in> {GStr ''exit'', GStr ''signal''} \<and> reference (gget (object (gget o' ''native'')) ''evidence'')) \<and>
       (statusOf o' ''cleanup'' = GStr ''not_started'' \<or>
        statusOf o' ''cleanup'' = GStr ''confirmed_absent'' \<and> reference (gget (object (gget o' ''cleanup'')) ''evidence''))) \<and>
    (gget o' ''phase'' \<noteq> GStr ''uncertain'' \<longrightarrow> (gget o' ''result'' \<noteq> GNil \<longleftrightarrow> gget o' ''phase'' = GStr ''terminal''))"
proof (intro conjI impI)
  have p: "snapshotPhase o'" and start: "startValid (gget o' ''start'')" and native: "nativeValid (gget o' ''native'')"
    and cleanup: "cleanupValid (gget o' ''cleanup'')"
    using assms by (simp_all add: snapshotValid_def)
  show table: "list_all (inPhase o') phaseTable"
    by (rule snapshotPhase_table [OF p])
  have phases: "gget o' ''phase'' \<in> {GStr ''admitted'', GStr ''allocating'', GStr ''allocated'', GStr ''start_intent'',
      GStr ''spawned'', GStr ''running'', GStr ''stopping'', GStr ''terminal'', GStr ''uncertain''}"
    using p unfolding snapshotPhase_def Let_def by (simp split: if_split_asm)
  then show "\<exists>phase \<in> {''admitted'', ''allocating'', ''allocated'', ''start_intent'', ''spawned'', ''running'', ''stopping'', ''terminal'', ''uncertain''}.
      gget o' ''phase'' = GStr phase"
    by simp
  show "digest (gget (object (gget o' ''start'')) ''process_incarnation_sha256'')"
    if "gget o' ''phase'' \<in> {GStr ''spawned'', GStr ''running''}"
    using snapshotPhase_started [OF p that] startValid_started [OF start] by blast
  show "gget o' ''stop'' = GNil" "gget o' ''gate'' = GStr ''not_created''" if "gget o' ''phase'' \<in> {GStr ''allocating'', GStr ''allocated''}"
    using that p unfolding snapshotPhase_def Let_def by (elim insertE emptyE; simp)+
  show "gget o' ''stop'' \<noteq> GNil" if "gget o' ''phase'' = GStr ''stopping''"
    using that p unfolding snapshotPhase_def Let_def by simp
  {
    assume t: "gget o' ''phase'' = GStr ''terminal''"
    have "is_one (statusOf o' ''native'') [''not_started'', ''exit'', ''signal'']" "is_one (statusOf o' ''cleanup'') [''not_started'', ''confirmed_absent'']"
      using t p unfolding snapshotPhase_def Let_def statusOf_def by simp_all
    then have "statusOf o' ''native'' \<in> {GStr ''not_started'', GStr ''exit'', GStr ''signal''}"
      "statusOf o' ''cleanup'' \<in> {GStr ''not_started'', GStr ''confirmed_absent''}"
      by (auto simp: is_one_def split: gvalue.splits)
    then show "statusOf o' ''native'' = GStr ''not_started'' \<or>
        statusOf o' ''native'' \<in> {GStr ''exit'', GStr ''signal''} \<and> reference (gget (object (gget o' ''native'')) ''evidence'')"
      "statusOf o' ''cleanup'' = GStr ''not_started'' \<or>
        statusOf o' ''cleanup'' = GStr ''confirmed_absent'' \<and> reference (gget (object (gget o' ''cleanup'')) ''evidence'')"
      using nativeValid_ended [OF native] cleanupValid_absent [OF cleanup] unfolding statusOf_def by blast+
  }
  show "gget o' ''result'' \<noteq> GNil \<longleftrightarrow> gget o' ''phase'' = GStr ''terminal''" if "gget o' ''phase'' \<noteq> GStr ''uncertain''"
    using snapshotPhase_result [OF p that] phases by blast
qed

definition id_text :: gvalue where "id_text = GStr (replicate 32 CHR ''0'')"
definition sha_text :: gvalue where "sha_text = GStr (replicate 64 CHR ''a'')"

definition a_reference :: gvalue where
  "a_reference = GObj [(''name'', GStr ''r''), (''length'', GNum 12), (''sha256'', sha_text)]"

definition a_snapshot :: gobject where
  "a_snapshot =
     [(''kind'', GStr ''curator-run member-snapshot/1''), (''store_id'', id_text),
      (''identity'', GObj
        [(''controller_id'', id_text), (''assignment_id'', id_text), (''invocation_id'', id_text),
         (''member_id'', id_text), (''consumer_id'', id_text), (''role'', GStr ''development''),
         (''producer_member_id'', GNil), (''predecessor_invocation_id'', GNil)]),
      (''request_sha256'', sha_text), (''tuple_sha256'', sha_text), (''authorization_sha256'', sha_text),
      (''generation'', GNum 3), (''phase'', GStr ''terminal''),
      (''writer'', GObj [(''role'', GStr ''supervisor''), (''id'', id_text),
         (''incarnation_sha256'', sha_text), (''supervisor_id'', id_text)]),
      (''scope'', GNil), (''boot_sha256'', sha_text), (''deadline_monotonic_ms'', GNum 5),
      (''start'', GObj [(''status'', GStr ''exec_confirmed''), (''process_incarnation_sha256'', sha_text)]),
      (''native'', GObj [(''status'', GStr ''exit''), (''code'', GNum 0), (''evidence'', a_reference)]),
      (''cleanup'', GObj [(''status'', GStr ''confirmed_absent''), (''evidence'', a_reference)]),
      (''result'', a_reference), (''error'', GNil), (''allocation'', GObj [(''status'', GStr ''not_requested'')]),
      (''gate'', GStr ''closed''), (''stop'', GNil)]"

theorem snapshot_phases_witness:
  "snapshotValid a_snapshot \<and> gget a_snapshot ''phase'' = GStr ''terminal'' \<and> gget a_snapshot ''result'' \<noteq> GNil"
proof -
  have "snapshotValid a_snapshot" "gget a_snapshot ''phase'' = GStr ''terminal''" by code_simp+
  with snapshot_phases [of a_snapshot] show ?thesis by simp
qed

text \<open>A response with another acknowledgement.\<close>

definition withAck :: "gvalue \<Rightarrow> gobject \<Rightarrow> gobject" where
  "withAck a = map (\<lambda>(k, v). (k, if k = ''ack'' then a else v))"

lemma map_of_withAck: "map_of (withAck a o') k = map_option (\<lambda>v. if k = ''ack'' then a else v) (map_of o' k)"
  by (induction o') (auto simp: withAck_def)

lemma gget_withAck: "k \<noteq> ''ack'' \<Longrightarrow> gget (withAck a o') k = gget o' k"
  by (cases "map_of o' k") (simp_all add: gget_def map_of_withAck)

lemma closed_withAck: "closed (withAck a o') ks \<longleftrightarrow> closed o' ks"
  by (simp add: closed_def map_of_withAck list_all_iff) (simp add: withAck_def)

lemma withAck_valid:
  assumes "responseValid o'" "gget o' ''outcome'' = GStr ''consumption''" "nil_or reference a"
  shows "responseValid (withAck a o')"
proof -
  have "map_of o' ''ack'' \<noteq> None"
    using assms(1) by (simp add: responseValid_def closed_def)
  then have "gget (withAck a o') ''ack'' = a"
    by (auto simp: gget_def map_of_withAck)
  moreover have "responseOutcome (withAck a o')"
    using assms(1,2) unfolding responseValid_def responseOutcome_def Let_def by (simp add: gget_withAck)
  ultimately show ?thesis
    using assms(1,3) unfolding responseValid_def by (simp add: gget_withAck closed_withAck)
qed

text \<open>
  C36. Response outcomes. An accepted response has an error exactly when it refuses or reports a
  conflict, a reservation exactly when it reports a consumption, a result exactly for a result or a
  consumption, and a snapshot whenever it is a snapshot, a result or a consumption. An
  acknowledgement is there only for a consumption, and there it is free: the response stays accepted
  with any reference or none in its place.
\<close>

theorem response_outcomes:
  assumes "responseValid o'"
  shows "(gget o' ''error'' \<noteq> GNil \<longleftrightarrow> gget o' ''outcome'' \<in> {GStr ''refused'', GStr ''conflict''}) \<and>
    (gget o' ''reservation'' \<noteq> GNil \<longleftrightarrow> gget o' ''outcome'' = GStr ''consumption'') \<and>
    (gget o' ''result'' \<noteq> GNil \<longleftrightarrow> gget o' ''outcome'' \<in> {GStr ''result'', GStr ''consumption''}) \<and>
    (gget o' ''outcome'' \<in> {GStr ''snapshot'', GStr ''result'', GStr ''consumption''} \<longrightarrow> gget o' ''snapshot'' \<noteq> GNil) \<and>
    (gget o' ''outcome'' \<in> {GStr ''refused'', GStr ''conflict'', GStr ''snapshot'', GStr ''result'', GStr ''consumption''}) \<and>
    (gget o' ''ack'' \<noteq> GNil \<longrightarrow> gget o' ''outcome'' = GStr ''consumption'') \<and>
    (gget o' ''outcome'' = GStr ''consumption'' \<longrightarrow> (\<forall>a. nil_or reference a \<longrightarrow> responseValid (withAck a o')))"
proof (intro conjI impI allI)
  have p: "responseOutcome o'" using assms by (simp add: responseValid_def)
  show outcome: "gget o' ''outcome'' \<in> {GStr ''refused'', GStr ''conflict'', GStr ''snapshot'', GStr ''result'', GStr ''consumption''}"
    using p unfolding responseOutcome_def Let_def by (simp split: if_split_asm) blast
  show "gget o' ''error'' \<noteq> GNil \<longleftrightarrow> gget o' ''outcome'' \<in> {GStr ''refused'', GStr ''conflict''}"
    "gget o' ''reservation'' \<noteq> GNil \<longleftrightarrow> gget o' ''outcome'' = GStr ''consumption''"
    "gget o' ''result'' \<noteq> GNil \<longleftrightarrow> gget o' ''outcome'' \<in> {GStr ''result'', GStr ''consumption''}"
    using outcome p unfolding responseOutcome_def Let_def by (elim insertE emptyE; simp)+
  show "gget o' ''snapshot'' \<noteq> GNil" if "gget o' ''outcome'' \<in> {GStr ''snapshot'', GStr ''result'', GStr ''consumption''}"
    using that p unfolding responseOutcome_def Let_def by (elim insertE emptyE) simp_all
  show "gget o' ''outcome'' = GStr ''consumption''" if "gget o' ''ack'' \<noteq> GNil"
    using that outcome p unfolding responseOutcome_def Let_def by (elim insertE emptyE) simp_all
  show "responseValid (withAck a o')" if "gget o' ''outcome'' = GStr ''consumption''" "nil_or reference a" for a
    using withAck_valid that assms by blast
qed

definition a_response :: gobject where
  "a_response =
     [(''kind'', GStr ''curator-run member-response/1''), (''request_id'', id_text), (''request_sha256'', sha_text),
      (''operation'', GStr ''inspect''), (''outcome'', GStr ''result''), (''snapshot'', a_reference),
      (''result'', a_reference), (''reservation'', GNil), (''ack'', GNil), (''error'', GNil),
      (''replay'', GObj
        [(''kind'', GStr ''curator-run member-replay/1''), (''key'', GStr ''none''),
         (''classification'', GStr ''none''), (''original_request_sha256'', GNil),
         (''current_request_sha256'', GNil), (''original_result_sha256'', GNil)])]"

theorem response_outcomes_witness:
  "responseValid a_response \<and> gget a_response ''error'' = GNil \<and> gget a_response ''snapshot'' \<noteq> GNil"
proof -
  have "responseValid a_response" "gget a_response ''outcome'' = GStr ''result''" by code_simp+
  with response_outcomes [of a_response] show ?thesis by simp
qed

end
