(* ===== verification/MemberDescriptor.thy ===== *)
theory MemberDescriptor
  imports MemberDecode
begin

text \<open>
  The descriptor arguments of the member entry: they are accepted exactly when they give each of
  the six descriptors once, in any order, with different canonical numbers from 3 to 255.
\<close>

section \<open>Descriptor arguments\<close>

lemma digit_char_val: "is_digit c \<Longrightarrow> digit_char (digit_val c) = c"
  by (simp add: digit_char_def digit_val_def is_digit_byte)

lemma dec_dec_value:
  "s \<noteq> [] \<Longrightarrow> \<forall>c \<in> set s. is_digit c \<Longrightarrow> hd s \<noteq> CHR ''0'' \<Longrightarrow> dec (dec_value s) = s \<and> 0 < dec_value s"
proof (induction s rule: rev_induct)
  case (snoc c s)
  have d: "digit_val c < 10" "is_digit c" using snoc.prems(2) by (simp_all add: digit_val_less)
  show ?case
  proof (cases "s = []")
    case True
    have "digit_val c \<noteq> 0"
    proof
      assume "digit_val c = 0"
      with digit_char_val [OF d(2)] have "c = CHR ''0''" using dec_zero by (subst (asm) dec.simps) simp
      with snoc.prems(3) True show False by simp
    qed
    with True d show ?thesis by (subst dec.simps) (simp add: dec_value_def digit_char_val)
  next
    case False
    with snoc have "dec (dec_value s) = s" "0 < dec_value s" by simp_all
    with d show ?thesis by (subst dec.simps) (simp add: digit_char_val)
  qed
qed simp

lemma fdNumber_iff: "fdNumber s = Some n \<and> 3 \<le> n \<and> n \<le> 255 \<longleftrightarrow> s = dec n \<and> 3 \<le> n \<and> n \<le> 255"
proof
  assume a: "fdNumber s = Some n \<and> 3 \<le> n \<and> n \<le> 255"
  then have "s \<noteq> []" "\<forall>c \<in> set s. is_digit c" "hd s \<noteq> CHR ''0''" "n = dec_value s"
    by (auto simp: fdNumber_def list_all_iff split: if_split_asm)
  with a dec_dec_value show "s = dec n \<and> 3 \<le> n \<and> n \<le> 255" by metis
next
  assume a: "s = dec n \<and> 3 \<le> n \<and> n \<le> 255"
  then have "length (dec n) \<le> 3" by (intro dec_length) auto
  with a dec_hd [of n] dec_digits [of n] show "fdNumber s = Some n \<and> 3 \<le> n \<and> n \<le> 255"
    by (auto simp: fdNumber_def list_all_iff)
qed

text \<open>The arguments that a list of flags with numbers stands for.\<close>

definition flag_args :: "(string \<times> nat) list \<Rightarrow> string list" where
  "flag_args ps = concat (map (\<lambda>(flag, n). [flag, dec n]) ps)"

lemma flag_args_simps [simp]:
  "flag_args [] = []" "flag_args ((flag, n) # ps) = flag # dec n # flag_args ps"
  by (simp_all add: flag_args_def)

lemma length_flag_args [simp]: "length (flag_args ps) = 2 * length ps"
  by (induction ps) auto

definition flags :: "string list" where
  "flags = [''--request-fd'', ''--authorization-fd'', ''--objects-fd'', ''--state-fd'', ''--response-fd'',
     ''--controller-fd'']"

lemma fdIndex_flags: "fdIndex f = Some i \<longleftrightarrow> i < 6 \<and> f = flags ! i"
proof
  assume "fdIndex f = Some i"
  then show "i < 6 \<and> f = flags ! i" by (auto simp: fdIndex_def flags_def split: if_split_asm)
next
  assume a: "i < 6 \<and> f = flags ! i"
  then have "i \<in> {0, 1, 2, 3, 4, 5}" by auto
  with a show "fdIndex f = Some i" by (auto simp: fdIndex_def flags_def)
qed

lemma distinct_flags: "distinct flags" "length flags = 6"
  by (simp_all add: flags_def)

text \<open>What the loop does on the rest of the arguments, in terms of the pairs they stand for.\<close>

lemma descriptorLoop_sound:
  assumes "descriptorLoop vs used args = Some vs'" "length vs = 6"
  shows "\<exists>ps. args = flag_args ps \<and> distinct (map fst ps) \<and> distinct (map snd ps) \<and> length vs' = 6 \<and>
    (\<forall>(f, n) \<in> set ps. \<exists>i < 6. f = flags ! i \<and> vs ! i = None \<and> vs' ! i = Some n \<and>
       3 \<le> n \<and> n \<le> 255 \<and> n \<notin> used) \<and>
    (\<forall>i < 6. flags ! i \<notin> fst ` set ps \<longrightarrow> vs' ! i = vs ! i)"
  using assms
proof (induction vs used args rule: descriptorLoop.induct)
  case (1 vs used flag s args)
  from "1.prems"(1) obtain index n where i: "fdIndex flag = Some index" and v: "vs ! index = None"
    and n: "fdNumber s = Some n" "\<not> (n < 3 \<or> 255 < n \<or> n \<in> used)"
    and l: "descriptorLoop (vs[index := Some n]) (insert n used) args = Some vs'"
    by (auto split: option.splits if_split_asm)
  have s: "s = dec n" using fdNumber_iff [of s n] n by auto
  from i have idx: "index < 6" "flag = flags ! index" by (simp_all add: fdIndex_flags)
  from "1.IH" [OF i _ n(1) n(2) l] v "1.prems"(2) obtain ps where
    ps: "args = flag_args ps" "distinct (map fst ps)" "distinct (map snd ps)" "length vs' = 6"
    and all: "\<forall>(f, m) \<in> set ps. \<exists>i < 6. f = flags ! i \<and> vs[index := Some n] ! i = None \<and>
       vs' ! i = Some m \<and> 3 \<le> m \<and> m \<le> 255 \<and> m \<notin> insert n used"
      "\<forall>i < 6. flags ! i \<notin> fst ` set ps \<longrightarrow> vs' ! i = vs[index := Some n] ! i"
    by (auto simp del: insert_iff)
  from all have mem: "\<And>f m. (f, m) \<in> set ps \<Longrightarrow> \<exists>i < 6. f = flags ! i \<and> vs[index := Some n] ! i = None \<and>
       vs' ! i = Some m \<and> 3 \<le> m \<and> m \<le> 255 \<and> m \<notin> insert n used"
    and frame: "\<And>i. i < 6 \<Longrightarrow> flags ! i \<notin> fst ` set ps \<Longrightarrow> vs' ! i = vs[index := Some n] ! i"
    by fast+
  have fresh: "flag \<notin> fst ` set ps"
  proof
    assume "flag \<in> fst ` set ps"
    then obtain m i where "i < 6" "flag = flags ! i" "vs[index := Some n] ! i = None"
      using mem by force
    moreover from this idx have "i = index"
      using distinct_flags nth_eq_iff_index_eq [of flags i index] by simp
    ultimately show False using "1.prems"(2) idx by simp
  qed
  have "n \<notin> snd ` set ps" using mem by force
  have keep: "vs ! i = None" if "vs[index := Some n] ! i = None" "i < 6" for i
    using that "1.prems"(2) by (cases "i = index") auto
  show ?case
  proof (intro exI [of _ "(flag, n) # ps"] conjI)
    show "\<forall>(f, m) \<in> set ((flag, n) # ps). \<exists>i < 6. f = flags ! i \<and> vs ! i = None \<and> vs' ! i = Some m \<and>
       3 \<le> m \<and> m \<le> 255 \<and> m \<notin> used"
    proof safe
      fix f m assume "(f, m) \<in> set ((flag, n) # ps)"
      then consider "f = flag" "m = n" | "(f, m) \<in> set ps" by auto
      then show "\<exists>i < 6. f = flags ! i \<and> vs ! i = None \<and> vs' ! i = Some m \<and>
         3 \<le> m \<and> m \<le> 255 \<and> m \<notin> used"
      proof cases
        case 1
        have "vs' ! index = Some n" using frame [OF idx(1)] fresh idx "1.prems"(2) by simp
        with 1 idx v n(2) show ?thesis by auto
      next
        case 2
        from mem [OF this] keep show ?thesis by blast
      qed
    qed
    show "\<forall>i < 6. flags ! i \<notin> fst ` set ((flag, n) # ps) \<longrightarrow> vs' ! i = vs ! i"
    proof (intro allI impI)
      fix i assume i: "i < 6" "flags ! i \<notin> fst ` set ((flag, n) # ps)"
      then have "i \<noteq> index" using idx by auto
      with frame [OF i(1)] i(2) show "vs' ! i = vs ! i" by simp
    qed
  qed (use ps s fresh \<open>n \<notin> snd ` set ps\<close> in auto)
qed (auto intro: exI [of _ "[]"])

lemma descriptorLoop_complete:
  assumes "length vs = 6" "distinct (map fst ps)" "distinct (map snd ps)"
    and "\<forall>(f, n) \<in> set ps. \<exists>i < 6. f = flags ! i \<and> vs ! i = None \<and> 3 \<le> n \<and> n \<le> 255 \<and> n \<notin> used"
  shows "descriptorLoop vs used (flag_args ps) \<noteq> None"
  using assms
proof (induction ps arbitrary: vs used)
  case (Cons p ps)
  obtain f n where p: "p = (f, n)" by (cases p)
  with Cons.prems obtain i where i: "i < 6" "f = flags ! i" "vs ! i = None" and n: "3 \<le> n" "n \<le> 255" "n \<notin> used"
    by auto
  have "descriptorLoop (vs[i := Some n]) (insert n used) (flag_args ps) \<noteq> None"
  proof (rule Cons.IH)
    show "\<forall>(f', m) \<in> set ps. \<exists>j < 6. f' = flags ! j \<and> vs[i := Some n] ! j = None \<and> 3 \<le> m \<and> m \<le> 255
       \<and> m \<notin> insert n used"
    proof safe
      fix f' m assume q: "(f', m) \<in> set ps"
      with Cons.prems(4) obtain j where j: "j < 6" "f' = flags ! j" "vs ! j = None" "3 \<le> m" "m \<le> 255" "m \<notin> used"
        by fastforce
      have "f' \<noteq> f" "m \<noteq> n" using Cons.prems(2,3) p q by force+
      then have "j \<noteq> i" using i(2) j(2) by auto
      with j \<open>m \<noteq> n\<close> show "\<exists>j < 6. f' = flags ! j \<and> vs[i := Some n] ! j = None \<and> 3 \<le> m \<and> m \<le> 255 \<and> m \<notin> insert n used"
        by (intro exI [of _ j]) auto
    qed
  qed (use Cons.prems p in auto)
  moreover have "fdIndex f = Some i" using i by (simp add: fdIndex_flags)
  moreover have "fdNumber (dec n) = Some n" using fdNumber_iff [of "dec n" n] n by simp
  ultimately show ?case using p i n by simp
qed simp

section \<open>Exactly the six descriptors\<close>

definition descriptor_pairs :: "descriptorNumbers \<Rightarrow> (string \<times> nat) list" where
  "descriptor_pairs d =
     [(''--request-fd'', dnRequest d), (''--authorization-fd'', dnAuthorization d), (''--objects-fd'', dnObjects d),
      (''--state-fd'', dnState d), (''--response-fd'', dnResponse d), (''--controller-fd'', dnController d)]"

lemma descriptor_pairs_fst: "map fst (descriptor_pairs d) = flags"
  by (simp add: descriptor_pairs_def flags_def)

lemma descriptor_pairs_of:
  "length vs = 6 \<Longrightarrow>
   descriptor_pairs \<lparr>dnRequest = zero_or (vs ! 0), dnAuthorization = zero_or (vs ! 1), dnObjects = zero_or (vs ! 2),
     dnState = zero_or (vs ! 3), dnResponse = zero_or (vs ! 4), dnController = zero_or (vs ! 5)\<rparr>
   = map (\<lambda>i. (flags ! i, zero_or (vs ! i))) [0..<6]"
  by (simp add: descriptor_pairs_def flags_def upt_conv_Cons numeral_eq_Suc)

lemma flag_args_inject: "flag_args ps = flag_args qs \<longleftrightarrow> ps = qs"
proof
  show "flag_args ps = flag_args qs \<Longrightarrow> ps = qs"
  proof (induction ps arbitrary: qs)
    case Nil
    then show ?case by (cases qs) (auto simp: flag_args_def)
  next
    case (Cons p ps)
    obtain f n where p: "p = (f, n)" by (cases p)
    with Cons.prems obtain g m qs' where q: "qs = (g, m) # qs'" "f = g" "dec n = dec m"
      "flag_args ps = flag_args qs'"
      by (cases qs) (auto simp: flag_args_def)
    from q(3) have "n = m" by (metis dec_value_dec)
    with Cons.IH q p show ?case by simp
  qed
qed simp

lemma ParseDescriptorArgs_forward:
  assumes "ParseDescriptorArgs args = Inr d"
  shows "\<exists>ps. args = flag_args ps \<and> length ps = 6 \<and> set ps = set (descriptor_pairs d) \<and> distinct (map snd ps) \<and>
    (\<forall>(f, n) \<in> set ps. 3 \<le> n \<and> n \<le> 255)"
proof -
  from assms obtain vs where len: "length args = 12" and l: "descriptorLoop (replicate 6 None) {} args = Some vs"
    and d: "d = \<lparr>dnRequest = zero_or (vs ! 0), dnAuthorization = zero_or (vs ! 1), dnObjects = zero_or (vs ! 2),
     dnState = zero_or (vs ! 3), dnResponse = zero_or (vs ! 4), dnController = zero_or (vs ! 5)\<rparr>"
    by (auto simp: ParseDescriptorArgs_def split: if_split_asm option.splits)
  from descriptorLoop_sound [OF l] obtain ps where ps: "args = flag_args ps" "distinct (map fst ps)"
    "distinct (map snd ps)" "length vs = 6"
    and mem: "\<And>f n. (f, n) \<in> set ps \<Longrightarrow> \<exists>i < 6. f = flags ! i \<and> vs ! i = Some n \<and> 3 \<le> n \<and> n \<le> 255"
    by fastforce
  have six: "length ps = 6" using len ps(1) by simp
  have "fst ` set ps \<subseteq> set flags"
  proof
    fix f assume "f \<in> fst ` set ps"
    then obtain i where "i < 6" "f = flags ! i" using mem by force
    then show "f \<in> set flags" using distinct_flags(2) by simp
  qed
  moreover have "card (fst ` set ps) = 6" using ps(2) six by (metis distinct_card length_map set_map)
  moreover have "card (set flags) = 6" using distinct_flags by (simp add: distinct_card)
  ultimately have all: "fst ` set ps = set flags" by (simp add: card_subset_eq)
  have pairs: "descriptor_pairs d = map (\<lambda>i. (flags ! i, zero_or (vs ! i))) [0..<6]"
    unfolding d by (rule descriptor_pairs_of) (rule ps)
  have "set ps = set (descriptor_pairs d)"
  proof safe
    fix f n assume "(f, n) \<in> set ps"
    from mem [OF this] show "(f, n) \<in> set (descriptor_pairs d)" by (auto simp: pairs zero_or_def)
  next
    fix f n assume "(f, n) \<in> set (descriptor_pairs d)"
    then obtain i where i: "i < 6" "f = flags ! i" "n = zero_or (vs ! i)" by (auto simp: pairs)
    then have "f \<in> fst ` set ps" using all distinct_flags(2) by simp
    then obtain m where m: "(f, m) \<in> set ps" by auto
    with mem obtain j where j: "j < 6" "f = flags ! j" "vs ! j = Some m" by blast
    with i have "j = i" using distinct_flags by (simp add: nth_eq_iff_index_eq)
    with i j m show "(f, n) \<in> set ps" by (simp add: zero_or_def)
  qed
  then show ?thesis using ps six mem by fast
qed

lemma ParseDescriptorArgs_backward:
  assumes ps: "args = flag_args ps" "length ps = 6" "set ps = set (descriptor_pairs d)"
    and ds: "distinct (map snd (descriptor_pairs d))"
    and range: "\<forall>(f, n) \<in> set (descriptor_pairs d). 3 \<le> n \<and> n \<le> 255"
  shows "ParseDescriptorArgs args = Inr d"
proof -
  let ?P = "descriptor_pairs d"
  have df: "distinct (map fst ?P)" by (simp only: descriptor_pairs_fst distinct_flags)
  then have "distinct ?P" by (simp add: distinct_map)
  then have "distinct ps" using ps(2,3) by (intro card_distinct) (simp add: distinct_card descriptor_pairs_def)
  then have dps: "distinct (map fst ps)" "distinct (map snd ps)" using df ds ps(3) by (auto simp: distinct_map)
  have "\<exists>i < 6. f = flags ! i \<and> replicate 6 None ! i = (None :: nat option) \<and> 3 \<le> n \<and> n \<le> 255 \<and> n \<notin> {}"
    if "(f, n) \<in> set ps" for f n
  proof -
    from that ps(3) have "f \<in> set (map fst ?P)" by force
    then have "f \<in> set flags" by (simp only: descriptor_pairs_fst)
    then obtain i where "i < 6" "f = flags ! i" using distinct_flags(2) by (metis in_set_conv_nth)
    with range that ps(3) show ?thesis by auto
  qed
  then have "descriptorLoop (replicate 6 None) {} args \<noteq> None"
    unfolding ps(1) by (intro descriptorLoop_complete dps) auto
  then obtain d' where d': "ParseDescriptorArgs args = Inr d'"
    using ps(1,2) by (auto simp: ParseDescriptorArgs_def)
  with ParseDescriptorArgs_forward [OF d'] ps(1,3) have "set (descriptor_pairs d') = set ?P"
    by (auto simp: flag_args_inject)
  then have "map_of (descriptor_pairs d') = map_of ?P"
    by (intro map_of_inject_set [THEN iffD2]) (simp_all only: descriptor_pairs_fst distinct_flags)
  then have "map_of (descriptor_pairs d') f = map_of ?P f" for f by simp
  from this [of "''--request-fd''"] this [of "''--authorization-fd''"] this [of "''--objects-fd''"]
    this [of "''--state-fd''"] this [of "''--response-fd''"] this [of "''--controller-fd''"]
  have "d' = d" by (simp add: descriptor_pairs_def)
  with d' show ?thesis by simp
qed

text \<open>
  C30. Descriptor arguments. The arguments are accepted with six numbers exactly when they list
  each of the six flags once, in some order, each with the canonical decimal of its number, the
  numbers are pairwise different, and each lies between 3 and 255; so a standard stream is never
  taken, no descriptor is given two roles, and no two spellings of a number are confused.
\<close>

theorem descriptor_args:
  "ParseDescriptorArgs args = Inr d \<longleftrightarrow>
     (\<exists>ps. args = flag_args ps \<and> length ps = 6 \<and> set ps = set (descriptor_pairs d)) \<and>
     distinct (map snd (descriptor_pairs d)) \<and> (\<forall>(f, n) \<in> set (descriptor_pairs d). 3 \<le> n \<and> n \<le> 255)"
proof
  assume "ParseDescriptorArgs args = Inr d"
  from ParseDescriptorArgs_forward [OF this] obtain ps where ps: "args = flag_args ps" "length ps = 6"
    "set ps = set (descriptor_pairs d)" "distinct (map snd ps)" "\<forall>(f, n) \<in> set ps. 3 \<le> n \<and> n \<le> 255"
    by blast
  have "card (snd ` set (descriptor_pairs d)) = 6"
    using ps(2-4) by (metis distinct_card length_map set_map)
  then have "distinct (map snd (descriptor_pairs d))"
    by (intro card_distinct) (simp add: descriptor_pairs_def)
  with ps show "(\<exists>ps. args = flag_args ps \<and> length ps = 6 \<and> set ps = set (descriptor_pairs d)) \<and>
     distinct (map snd (descriptor_pairs d)) \<and> (\<forall>(f, n) \<in> set (descriptor_pairs d). 3 \<le> n \<and> n \<le> 255)"
    by metis
next
  assume "(\<exists>ps. args = flag_args ps \<and> length ps = 6 \<and> set ps = set (descriptor_pairs d)) \<and>
     distinct (map snd (descriptor_pairs d)) \<and> (\<forall>(f, n) \<in> set (descriptor_pairs d). 3 \<le> n \<and> n \<le> 255)"
  then show "ParseDescriptorArgs args = Inr d"
    using ParseDescriptorArgs_backward by blast
qed

theorem descriptor_args_witness:
  "\<exists>d. ParseDescriptorArgs [''--state-fd'', ''6'', ''--request-fd'', ''3'', ''--authorization-fd'', ''4'', ''--objects-fd'', ''5'',
      ''--response-fd'', ''7'', ''--controller-fd'', ''255''] = Inr d \<and> distinct (map snd (descriptor_pairs d)) \<and>
      dnController d = 255"
proof -
  let ?args = "[''--state-fd'', ''6'', ''--request-fd'', ''3'', ''--authorization-fd'', ''4'', ''--objects-fd'', ''5'',
      ''--response-fd'', ''7'', ''--controller-fd'', ''255'']"
  let ?d = "\<lparr>dnRequest = 3, dnAuthorization = 4, dnObjects = 5, dnState = 6, dnResponse = 7, dnController = 255\<rparr>"
  have "ParseDescriptorArgs ?args = Inr ?d" by code_simp
  with descriptor_args [of ?args ?d] show ?thesis by (intro exI [of _ ?d]) simp
qed

end
