(* ===== verification/WerkstattCommand.thy ===== *)
theory WerkstattCommand
  imports GoStrings Utf8
begin

text \<open>
  \<open>internal/werkstattcommand/command.go\<close>: the grammar of the \<open>werkstatt\<close> subcommands.
  The loop of \<open>ParseCommand\<close> is a recursion over the remaining arguments with the command
  built so far and the flags seen. A refusal keeps the two strings the code formats: the
  action and, for a \<open>%s\<close> of the format, the flag; the rest of the message is a literal.
\<close>

section \<open>Values\<close>

text \<open>The pattern \<open>^[a-z0-9][a-z0-9-]{0,47}$\<close>.\<close>

definition ValidID :: "string \<Rightarrow> bool" where
  "ValidID s = id_pattern 47 s"

definition dispatch_rune :: "nat \<Rightarrow> bool" where
  "dispatch_rune c \<longleftrightarrow> (97 \<le> c \<and> c \<le> 122) \<or> (65 \<le> c \<and> c \<le> 90) \<or> (48 \<le> c \<and> c \<le> 57)
     \<or> c \<in> set (runes ''._:/@+-'')"

definition dispatchValue :: "string \<Rightarrow> bool" where
  "dispatchValue s \<longleftrightarrow> s \<noteq> [] \<and> length s \<le> 128 \<and> list_all dispatch_rune (runes s)"

section \<open>The command\<close>

record Command =
  Action :: string
  ID :: string
  Attach :: bool
  New :: bool
  Force :: bool
  JSON :: bool
  RebindManager :: bool
  AbandonOperation :: bool
  TaskClass :: string
  Difficulty :: string
  SetTask :: bool
  Task :: "string option"
  QueueDepth :: "int option"

definition newCommand :: "string \<Rightarrow> Command" where
  "newCommand a = \<lparr>Action = a, ID = [], Attach = False, New = False, Force = False, JSON = False,
     RebindManager = False, AbandonOperation = False, TaskClass = [], Difficulty = [],
     SetTask = False, Task = None, QueueDepth = None\<rparr>"

definition actions :: "string list" where
  "actions = [''up'', ''down'', ''recycle'', ''status'', ''update'', ''recover'', ''list'']"

definition knownFlag :: "string \<Rightarrow> bool" where
  "knownFlag f \<longleftrightarrow> f \<in> set [''--attach'', ''--new'', ''--force'', ''--json'', ''--rebind-manager'',
     ''--abandon-operation'', ''--clear-task'', ''--set-task'', ''--queue-depth'', ''--task-class'',
     ''--difficulty'']"

section \<open>Refusals\<close>

text \<open>\<open>Bad action flag text\<close> is the closure \<open>bad\<close> of the source: every format either has no
  verb or starts with one \<open>%s\<close> for the flag.\<close>

datatype refusal = NeedsAction | UnknownAction | Bad string "string option" string

definition Message :: "refusal \<Rightarrow> string" where
  "Message r = (case r of
     NeedsAction \<Rightarrow> ''werkstatt needs an action: up, down, recycle, status, update, recover or list; see: curator run werkstatt --help''
   | UnknownAction \<Rightarrow> ''unknown werkstatt action; expected up, down, recycle, status, update, recover or list; see: curator run werkstatt --help''
   | Bad a f t \<Rightarrow> ''werkstatt '' @ a @ '': '' @ (case f of None \<Rightarrow> [] | Some x \<Rightarrow> x) @ t
       @ ''; see: curator run werkstatt '' @ a @ '' --help'')"

abbreviation bad :: "Command \<Rightarrow> string \<Rightarrow> refusal" where
  "bad c t \<equiv> Bad (Action c) None t"

abbreviation badFlag :: "Command \<Rightarrow> string \<Rightarrow> string \<Rightarrow> refusal" where
  "badFlag c a t \<equiv> Bad (Action c) (Some a) t"

section \<open>The loop\<close>

text \<open>The flags of the inner \<open>switch\<close> that take no value.\<close>

definition plainFlag :: "Command \<Rightarrow> string \<Rightarrow> refusal + Command" where
  "plainFlag c a =
     (if a = ''--attach'' then
        if Action c \<noteq> ''up'' then Inl (badFlag c a '' is valid only with up'')
        else Inr (c\<lparr>Attach := True\<rparr>)
      else if a = ''--new'' then
        if Action c \<noteq> ''up'' then Inl (badFlag c a '' is valid only with up'')
        else Inr (c\<lparr>New := True\<rparr>)
      else if a = ''--force'' then
        if Action c \<noteq> ''down'' then Inl (badFlag c a '' is valid only with down'')
        else Inr (c\<lparr>Force := True\<rparr>)
      else if a = ''--json'' then
        if Action c \<notin> set [''status'', ''list'', ''update'', ''recover'']
        then Inl (badFlag c a '' is valid only with status, update, recover or list'')
        else Inr (c\<lparr>JSON := True\<rparr>)
      else if a = ''--rebind-manager'' then
        if Action c \<notin> set [''status'', ''recover'']
        then Inl (badFlag c a '' is valid only with recover (status is a deprecated alias)'')
        else Inr (c\<lparr>RebindManager := True\<rparr>)
      else if a = ''--abandon-operation'' then
        if Action c \<notin> set [''status'', ''recover'']
        then Inl (badFlag c a '' is valid only with recover (status is a deprecated alias)'')
        else Inr (c\<lparr>AbandonOperation := True\<rparr>)
      else if a = ''--clear-task'' then
        if Action c \<notin> set [''status'', ''update'']
        then Inl (badFlag c a '' is valid only with update (status is a deprecated alias)'')
        else if SetTask c then Inl (bad c ''--clear-task and --set-task are mutually exclusive'')
        else Inr (c\<lparr>SetTask := True\<rparr>)
      else Inl (bad c ''unknown flag''))"

definition valued :: "string \<Rightarrow> bool" where
  "valued a \<longleftrightarrow> a \<in> set [''--set-task'', ''--queue-depth'', ''--task-class'', ''--difficulty'']"

text \<open>The checks of a flag with a value before its value is read, and the use of the value.\<close>

definition valueAllowed :: "Command \<Rightarrow> string \<Rightarrow> refusal + unit" where
  "valueAllowed c a =
     (if a \<in> set [''--set-task'', ''--queue-depth''] \<and> Action c \<notin> set [''status'', ''update'']
      then Inl (badFlag c a '' is valid only with update (status is a deprecated alias)'')
      else if a \<in> set [''--task-class'', ''--difficulty''] \<and> Action c \<noteq> ''up''
      then Inl (badFlag c a '' is valid only with up'')
      else Inr ())"

definition maxQueueDepth :: int where
  "maxQueueDepth = 9007199254740991"

definition valueFlag :: "Command \<Rightarrow> string \<Rightarrow> string \<Rightarrow> refusal + Command" where
  "valueFlag c a v =
     (if a = ''--set-task'' then
        if SetTask c then Inl (bad c ''--clear-task and --set-task are mutually exclusive'')
        else if v = [] then Inl (badFlag c a '' needs a non-empty value'')
        else Inr (c\<lparr>SetTask := True, Task := Some v\<rparr>)
      else if a = ''--queue-depth'' then
        (case ParseInt64 v of
           None \<Rightarrow> Inl (badFlag c a '' needs an integer from 0 to 2^53-1'')
         | Some n \<Rightarrow> if n < 0 \<or> maxQueueDepth < n
             then Inl (badFlag c a '' needs an integer from 0 to 2^53-1'')
             else Inr (c\<lparr>QueueDepth := Some n\<rparr>))
      else if \<not> dispatchValue v
        then Inl (badFlag c a '' needs a dispatch value of [A-Za-z0-9._:/@+-]{1,128}'')
      else if a = ''--task-class'' then Inr (c\<lparr>TaskClass := v\<rparr>)
      else Inr (c\<lparr>Difficulty := v\<rparr>))"

fun loop :: "string list \<Rightarrow> string list \<Rightarrow> Command \<Rightarrow> refusal + Command" where
  "loop [] seen c = Inr c"
| "loop (a # as) seen c =
     (if \<not> HasPrefix a ''--'' then
        if ID c \<noteq> [] then Inl (bad c ''unexpected second operand after the id'')
        else if \<not> ValidID a then Inl (bad c ''invalid id (expected [a-z0-9][a-z0-9-]{0,47})'')
        else loop as seen (c\<lparr>ID := a\<rparr>)
      else if a \<in> set seen then
        if knownFlag a then Inl (badFlag c a '' given twice'') else Inl (bad c ''unknown flag'')
      else if valued a then
        (case valueAllowed c a of Inl e \<Rightarrow> Inl e | Inr _ \<Rightarrow>
         (case as of
            [] \<Rightarrow> Inl (badFlag c a '' needs a value'')
          | v # rest \<Rightarrow>
              if HasPrefix v ''--'' then Inl (badFlag c a '' needs a value'')
              else case valueFlag c a v of Inl e \<Rightarrow> Inl e | Inr c' \<Rightarrow> loop rest (a # seen) c'))
      else (case plainFlag c a of Inl e \<Rightarrow> Inl e | Inr c' \<Rightarrow> loop as (a # seen) c'))"

text \<open>The final \<open>switch\<close>.\<close>

definition finalChecks :: "Command \<Rightarrow> refusal + Command" where
  "finalChecks c =
     (if Action c = ''list'' \<and> ID c \<noteq> [] then Inl (bad c ''list takes no id'')
      else if Action c \<noteq> ''list'' \<and> Action c \<noteq> ''status'' \<and> ID c = [] then Inl (bad c ''an id is required'')
      else if Difficulty c \<noteq> [] \<and> TaskClass c = [] then Inl (bad c ''--difficulty needs --task-class'')
      else if RebindManager c \<and> AbandonOperation c
        then Inl (bad c ''--rebind-manager and --abandon-operation are mutually exclusive'')
      else if Action c = ''update'' \<and> \<not> SetTask c \<and> QueueDepth c = None
        then Inl (bad c ''at least one of --set-task, --clear-task or --queue-depth is required'')
      else if Action c = ''recover'' \<and> \<not> RebindManager c \<and> \<not> AbandonOperation c
        then Inl (bad c ''exactly one of --rebind-manager or --abandon-operation is required'')
      else if ID c = [] \<and> (SetTask c \<or> QueueDepth c \<noteq> None \<or> RebindManager c \<or> AbandonOperation c)
        then Inl (bad c ''dispatch and recovery flags need an id'')
      else Inr c)"

definition ParseCommand :: "string list \<Rightarrow> refusal + Command" where
  "ParseCommand args = (case args of
     [] \<Rightarrow> Inl NeedsAction
   | a # as \<Rightarrow> if a \<notin> set actions then Inl UnknownAction
       else case loop as [] (newCommand a) of Inl e \<Rightarrow> Inl e | Inr c \<Rightarrow> finalChecks c)"

end
