(* ===== verification/SessionCommand.thy ===== *)
theory SessionCommand
  imports GoStrings Utf8
begin

text \<open>
  \<open>parseSessionManager\<close> of \<open>internal/cli/session_manager.go\<close> with \<open>sessionmanager.Command\<close>
  and \<open>sessionmanager.ValidID\<close>: the grammar of the \<open>session-manager\<close> subcommands. Each loop
  of the source is a recursion over the remaining arguments; a refusal keeps the operation and
  the text the closure \<open>fail\<close> formats.
\<close>

section \<open>The command\<close>

record Command =
  Operation :: string
  ID :: string
  Manifest :: string
  Scope :: string
  Session :: string
  JSON :: bool
  Select :: bool
  NoSelect :: bool

definition newCommand :: "string \<Rightarrow> Command" where
  "newCommand op = \<lparr>Operation = op, ID = [], Manifest = [], Scope = [], Session = [],
     JSON = False, Select = False, NoSelect = False\<rparr>"

text \<open>The pattern \<open>^[a-z0-9][a-z0-9-]{0,31}$\<close> and the pattern of a session handle,
  \<open>^SES-[A-Za-z0-9]{1,48}$\<close>.\<close>

definition ValidID :: "string \<Rightarrow> bool" where
  "ValidID s = id_pattern 31 s"

definition observationHandle :: "string \<Rightarrow> bool" where
  "observationHandle s = (case CutPrefix s ''SES-'' of None \<Rightarrow> False
     | Some t \<Rightarrow> 1 \<le> length t \<and> length t \<le> 48 \<and> list_all is_alnum t)"

text \<open>\<open>helpHint\<close> of \<open>help.go\<close>: the smallest help command for a topic and a verb.\<close>

definition helpHint :: "string \<Rightarrow> string \<Rightarrow> string" where
  "helpHint topic verb =
     (let prefix = (if topic = ''session-manager'' then ''curator-run'' else ''curator run'');
          parts = [prefix, topic] @ (if verb \<noteq> [] then [verb] else [])
      in ''; see: '' @ Join (parts @ [''--help'']) '' '')"

datatype refusal = NeedsOperation | UnknownOperation | Fail string string

definition Message :: "refusal \<Rightarrow> string" where
  "Message r = (case r of
     NeedsOperation \<Rightarrow> ''session-manager needs an operation: list, show, observe, register, use or unregister''
       @ helpHint ''session-manager'' []
   | UnknownOperation \<Rightarrow> ''unknown session-manager operation; expected list, show, observe, register, use or unregister''
       @ helpHint ''session-manager'' []
   | Fail op t \<Rightarrow> ''session-manager '' @ op @ '': '' @ t @ helpHint ''session-manager'' op)"

abbreviation fail :: "Command \<Rightarrow> string \<Rightarrow> refusal" where
  "fail c t \<equiv> Fail (Operation c) t"

section \<open>The operations\<close>

definition scopeName :: "string \<Rightarrow> bool" where
  "scopeName s \<longleftrightarrow> s = ''user'' \<or> s = ''system''"

text \<open>The filter that takes \<open>--scope\<close> out of the arguments of \<open>use\<close>, \<open>select\<close> and \<open>unregister\<close>.\<close>

fun scopeLoop :: "string list \<Rightarrow> string list \<Rightarrow> Command \<Rightarrow> refusal + string list \<times> Command" where
  "scopeLoop [] filtered c = Inr (filtered, c)"
| "scopeLoop (a # as) filtered c =
     (if a \<noteq> ''--scope'' then scopeLoop as (filtered @ [a]) c
      else if Scope c \<noteq> [] then Inl (fail c ''--scope given twice'')
      else case as of
             [] \<Rightarrow> Inl (fail c ''--scope needs user or system'')
           | v # rest \<Rightarrow> if \<not> scopeName v then Inl (fail c ''--scope needs user or system'')
               else scopeLoop rest filtered (c\<lparr>Scope := v\<rparr>))"

fun observeLoop :: "string list \<Rightarrow> Command \<Rightarrow> refusal + Command" where
  "observeLoop [] c = Inr c"
| "observeLoop (a # as) c =
     (if a = ''--json'' then
        if JSON c then Inl (fail c ''--json given twice'') else observeLoop as (c\<lparr>JSON := True\<rparr>)
      else if a = ''--session'' then
        if Session c \<noteq> [] then Inl (fail c ''--session given twice'')
        else case as of
               [] \<Rightarrow> Inl (fail c ''--session needs a SES handle'')
             | v # rest \<Rightarrow> if \<not> observationHandle v then Inl (fail c ''--session needs a SES handle'')
                 else observeLoop rest (c\<lparr>Session := v\<rparr>)
      else Inl (fail c ''unexpected argument''))"

definition observe :: "string list \<Rightarrow> Command \<Rightarrow> refusal + Command" where
  "observe args c = (case args of
     [] \<Rightarrow> Inl (fail c ''a valid manager id is required'')
   | a # as \<Rightarrow> if \<not> ValidID a then Inl (fail c ''a valid manager id is required'')
       else case observeLoop as (c\<lparr>ID := a\<rparr>) of
              Inl e \<Rightarrow> Inl e
            | Inr c' \<Rightarrow> if Session c' = [] \<or> \<not> JSON c'
                then Inl (fail c ''--session and --json are required'') else Inr c')"

definition list_op :: "string list \<Rightarrow> Command \<Rightarrow> refusal + Command" where
  "list_op args c =
     (if args = [''--json''] then Inr (c\<lparr>JSON := True\<rparr>)
      else if args \<noteq> [] then Inl (fail c ''unexpected argument'') else Inr c)"

definition id_op :: "string list \<Rightarrow> Command \<Rightarrow> refusal + Command" where
  "id_op args c = (case args of
     [] \<Rightarrow> Inl (fail c ''a manager id is required'')
   | a # as \<Rightarrow>
       if \<not> ValidID a then Inl (fail c ''invalid manager id'')
       else if Operation c = ''show'' \<and> as = [''--json''] then Inr (c\<lparr>ID := a, JSON := True\<rparr>)
       else if as \<noteq> [] then Inl (fail c ''unexpected argument'')
       else Inr (c\<lparr>ID := a\<rparr>))"

definition manifestName :: "string \<Rightarrow> bool" where
  "manifestName v \<longleftrightarrow> \<not> (v = [] \<or> v \<noteq> ''-'' \<and> 1 < length v \<and> take 2 v = ''--'')"

fun registerLoop :: "string list \<Rightarrow> string list \<Rightarrow> Command \<Rightarrow> refusal + Command" where
  "registerLoop [] seen c = Inr c"
| "registerLoop (flag # as) seen c =
     (if flag \<in> set seen then
        if flag \<in> set [''--manifest'', ''--select'', ''--no-select'', ''--scope'']
        then Inl (fail c (flag @ '' given twice'')) else Inl (fail c ''unknown argument'')
      else if flag = ''--manifest'' then
        (case as of
           [] \<Rightarrow> Inl (fail c ''--manifest needs a path or -'')
         | v # rest \<Rightarrow> if \<not> manifestName v then Inl (fail c ''--manifest needs a path or -'')
             else registerLoop rest (flag # seen) (c\<lparr>Manifest := v\<rparr>))
      else if flag = ''--scope'' then
        (case as of
           [] \<Rightarrow> Inl (fail c ''--scope needs user or system'')
         | v # rest \<Rightarrow> if \<not> scopeName v then Inl (fail c ''--scope needs user or system'')
             else registerLoop rest (flag # seen) (c\<lparr>Scope := v\<rparr>))
      else if flag = ''--select'' then registerLoop as (flag # seen) (c\<lparr>Select := True\<rparr>)
      else if flag = ''--no-select'' then registerLoop as (flag # seen) (c\<lparr>NoSelect := True\<rparr>)
      else Inl (fail c ''unknown argument''))"

definition register :: "string list \<Rightarrow> Command \<Rightarrow> refusal + Command" where
  "register args c = (case registerLoop args [] c of
     Inl e \<Rightarrow> Inl e
   | Inr c' \<Rightarrow> if Manifest c' = [] then Inl (fail c ''--manifest is required'')
       else if Select c' \<and> NoSelect c' then Inl (fail c ''--select and --no-select are mutually exclusive'')
       else Inr c')"

definition dispatch :: "string list \<Rightarrow> Command \<Rightarrow> refusal + Command" where
  "dispatch args c =
     (if Operation c = ''observe'' then observe args c
      else if Operation c = ''list'' then list_op args c
      else if Operation c \<in> set [''show'', ''use'', ''select'', ''unregister''] then id_op args c
      else if Operation c = ''register'' then register args c
      else Inl UnknownOperation)"

definition parseSessionManager :: "string list \<Rightarrow> refusal + Command" where
  "parseSessionManager args = (case args of
     [] \<Rightarrow> Inl NeedsOperation
   | op # as \<Rightarrow>
       if op \<in> set [''use'', ''select'', ''unregister''] then
         (case scopeLoop as [] (newCommand op) of Inl e \<Rightarrow> Inl e
          | Inr (filtered, c) \<Rightarrow> dispatch filtered c)
       else dispatch as (newCommand op))"

section \<open>The commands of the grammar\<close>

definition scopeValue :: "string \<Rightarrow> bool" where
  "scopeValue s \<longleftrightarrow> s = [] \<or> scopeName s"

definition session_ok :: "Command \<Rightarrow> bool" where
  "session_ok c \<longleftrightarrow>
     Operation c \<in> {''list'', ''show'', ''observe'', ''register'', ''use'', ''select'', ''unregister''} \<and>
     (if Operation c \<in> {''list'', ''register''} then ID c = [] else ValidID (ID c)) \<and>
     (if Operation c = ''register'' then manifestName (Manifest c) else Manifest c = []) \<and>
     (Scope c \<noteq> [] \<longrightarrow> scopeName (Scope c) \<and> Operation c \<in> {''register'', ''use'', ''select'', ''unregister''}) \<and>
     (if Operation c = ''observe'' then observationHandle (Session c) \<and> JSON c else Session c = []) \<and>
     (JSON c \<longrightarrow> Operation c \<in> {''observe'', ''list'', ''show''}) \<and>
     (Select c \<or> NoSelect c \<longrightarrow> Operation c = ''register'') \<and> \<not> (Select c \<and> NoSelect c)"

definition scopeArg :: "string \<Rightarrow> string list" where
  "scopeArg s = (if s = [] then [] else [''--scope'', s])"

definition session_args :: "Command \<Rightarrow> string list" where
  "session_args c = Operation c #
     (if Operation c = ''observe'' then [ID c, ''--session'', Session c, ''--json'']
      else if Operation c = ''list'' then flagArg ''--json'' (JSON c)
      else if Operation c = ''show'' then ID c # flagArg ''--json'' (JSON c)
      else if Operation c = ''register'' then
        [''--manifest'', Manifest c] @ scopeArg (Scope c) @ flagArg ''--select'' (Select c) @
        flagArg ''--no-select'' (NoSelect c)
      else scopeArg (Scope c) @ [ID c])"

lemma newCommand_Operation [simp]: "Operation (newCommand op) = op"
  by (simp add: newCommand_def)

subsection \<open>Every accepted command is one of them\<close>

text \<open>What the loops leave alone; a member they set has passed its check.\<close>

lemma scopeLoop_sound:
  "scopeLoop as f c = Inr (f', c') \<Longrightarrow>
     c' = c\<lparr>Scope := Scope c'\<rparr> \<and> (Scope c' = Scope c \<or> scopeName (Scope c'))"
  by (induction as f c rule: scopeLoop.induct) (auto split: if_splits list.splits)

lemma observeLoop_sound:
  "observeLoop as c = Inr c' \<Longrightarrow>
     Operation c' = Operation c \<and> ID c' = ID c \<and> Manifest c' = Manifest c \<and> Scope c' = Scope c \<and>
     Select c' = Select c \<and> NoSelect c' = NoSelect c \<and> (Session c' = Session c \<or> observationHandle (Session c'))"
proof (induction as c rule: observeLoop.induct)
  case (2 a as c)
  show ?case
  proof (cases "a = ''--json''")
    case True
    then show ?thesis
      using 2 by (auto split: if_splits)
  next
    case False
    then obtain v rest where "as = v # rest" "observationHandle v" "observeLoop rest (c\<lparr>Session := v\<rparr>) = Inr c'"
      "a = ''--session''" "Session c = []"
      using "2.prems" by (simp split: if_splits list.splits)
    then show ?thesis
      using "2.IH"(2) by auto
  qed
qed simp

lemma registerLoop_sound:
  "registerLoop as seen c = Inr c' \<Longrightarrow>
     Operation c' = Operation c \<and> ID c' = ID c \<and> Session c' = Session c \<and> JSON c' = JSON c \<and>
     (Manifest c' = Manifest c \<or> manifestName (Manifest c')) \<and> (Scope c' = Scope c \<or> scopeName (Scope c'))"
proof (induction as seen c rule: registerLoop.induct)
  case (2 flag as seen c)
  then have fresh: "flag \<notin> set seen"
    by (simp split: if_splits)
  show ?case
  proof (cases "flag = ''--manifest'' \<or> flag = ''--scope''")
    case True
    then show ?thesis
      using 2 fresh by (auto split: list.splits if_splits)
  next
    case False
    then consider "flag = ''--select''" | "flag = ''--no-select''"
      using "2.prems" fresh by (simp split: if_splits)
    then show ?thesis
      by cases (use "2.prems" "2.IH"(3,4) fresh in auto)
  qed
qed simp

lemmas loop_sound = scopeLoop_sound observeLoop_sound registerLoop_sound

lemma Session_not_Nil: "observationHandle s \<Longrightarrow> s \<noteq> []"
  by (auto simp: observationHandle_def CutPrefix_def HasPrefix_def)

lemma dispatch_sound:
  assumes "dispatch args c = Inr c'" and c: "c = newCommand op\<lparr>Scope := s\<rparr>"
    and s: "s = [] \<or> scopeName s \<and> op \<in> {''use'', ''select'', ''unregister''}"
  shows "session_ok c'"
proof -
  have op: "Operation c = op" by (simp add: c)
  note new = newCommand_def
  consider "op = ''observe''" "observe args c = Inr c'" | "op = ''list''" "list_op args c = Inr c'"
    | "op \<in> {''show'', ''use'', ''select'', ''unregister''}" "id_op args c = Inr c'"
    | "op = ''register''" "register args c = Inr c'"
    using assms(1) op by (simp add: dispatch_def split: if_splits)
  then show ?thesis
  proof cases
    case 1
    then obtain a as where a: "args = a # as" "ValidID a" and l: "observeLoop as (c\<lparr>ID := a\<rparr>) = Inr c'"
      and j: "Session c' \<noteq> []" "JSON c'"
      by (auto simp: observe_def split: list.splits if_splits sum.splits)
    show ?thesis
      using loop_sound(2) [OF l] a(2) j 1(1) s by (auto simp: session_ok_def c new)
  next
    case 2
    then have "c' = c \<or> c' = c\<lparr>JSON := True\<rparr>"
      by (auto simp: list_op_def split: if_splits)
    then show ?thesis
      using 2(1) s by (auto simp: session_ok_def c new)
  next
    case 3
    then obtain a as where "ValidID a" "c' = c\<lparr>ID := a\<rparr> \<or> c' = c\<lparr>ID := a, JSON := True\<rparr> \<and> op = ''show''"
      by (auto simp: id_op_def op split: list.splits if_splits)
    then show ?thesis
      using 3(1) s by (auto simp: session_ok_def c new)
  next
    case 4
    then have l: "registerLoop args [] c = Inr c'" and j: "Manifest c' \<noteq> []" "\<not> (Select c' \<and> NoSelect c')"
      by (auto simp: register_def split: if_splits sum.splits)
    show ?thesis
      using loop_sound(3) [OF l] j 4(1) s by (auto simp: session_ok_def c new)
  qed
qed

lemma parse_sound: "parseSessionManager args = Inr c \<Longrightarrow> session_ok c"
proof -
  assume *: "parseSessionManager args = Inr c"
  then obtain op as where args: "args = op # as"
    by (cases args) (simp_all add: parseSessionManager_def)
  show "session_ok c"
  proof (cases "op \<in> {''use'', ''select'', ''unregister''}")
    case True
    then obtain f c1 where "scopeLoop as [] (newCommand op) = Inr (f, c1)" "dispatch f c1 = Inr c"
      using * args by (auto simp: parseSessionManager_def split: sum.splits)
    then show ?thesis
      using loop_sound(1) [of as "[]" "newCommand op" f c1] dispatch_sound [where args = f and c = c1 and c' = c and op = op and s = "Scope c1"] True
      by (simp add: newCommand_def)
  next
    case False
    then have "dispatch as (newCommand op) = Inr c"
      using * args by (simp add: parseSessionManager_def)
    then show ?thesis
      using dispatch_sound [where args = as and c = "newCommand op" and c' = c and op = op and s = "[]"] by (simp add: newCommand_def)
  qed
qed

subsection \<open>Every command has an argument vector\<close>

lemma ValidID_neq:
  assumes "ValidID i"
  shows "i \<noteq> []" and "i \<noteq> ''--scope''"
  using id_pattern_props(1) [of 31 i] id_pattern_props(2) [of 31 i "''--''"] assms
  by (auto simp: ValidID_def HasPrefix_def)

lemma parse_complete:
  assumes "session_ok c"
  shows "parseSessionManager (session_args c) = Inr c"
proof -
  consider "Operation c = ''observe''" | "Operation c = ''list''" | "Operation c = ''show''"
    | "Operation c = ''register''" | "Operation c \<in> {''use'', ''select'', ''unregister''}"
    using assms unfolding session_ok_def by blast
  then show ?thesis
  proof cases
    case 1
    then show ?thesis
      using assms Session_not_Nil [of "Session c"]
      by (cases c) (simp add: session_ok_def session_args_def parseSessionManager_def dispatch_def observe_def newCommand_def)
  next
    case 2
    then show ?thesis
      using assms by (cases c) (simp add: session_ok_def session_args_def parseSessionManager_def dispatch_def
        list_op_def newCommand_def flagArg_def)
  next
    case 3
    then show ?thesis
      using assms by (cases c) (simp add: session_ok_def session_args_def parseSessionManager_def dispatch_def
        id_op_def newCommand_def flagArg_def)
  next
    case 4
    then show ?thesis
      using assms by (cases c) (auto simp: session_ok_def session_args_def parseSessionManager_def dispatch_def
        register_def newCommand_def flagArg_def scopeArg_def manifestName_def)
  next
    case 5
    then have "Operation c \<notin> {''list'', ''register''}" "Operation c \<noteq> ''register''"
      "Operation c \<noteq> ''observe''" "Operation c \<notin> {''observe'', ''list'', ''show''}"
      by fastforce+
    then have fields: "ValidID (ID c)" "Manifest c = []" "scopeValue (Scope c)" "Session c = []"
      "\<not> JSON c" "\<not> Select c" "\<not> NoSelect c"
      using assms unfolding session_ok_def scopeValue_def by argo+
    have "scopeLoop (scopeArg (Scope c) @ [ID c]) [] (newCommand (Operation c)) =
        Inr ([ID c], newCommand (Operation c)\<lparr>Scope := Scope c\<rparr>)"
      using fields(1,3) ValidID_neq [of "ID c"] by (auto simp: scopeArg_def scopeValue_def newCommand_def)
    moreover have "newCommand (Operation c)\<lparr>Scope := Scope c, ID := ID c\<rparr> = c"
      using fields by (cases c) (simp add: newCommand_def)
    moreover have "session_args c = Operation c # scopeArg (Scope c) @ [ID c]"
      using 5 by (elim insertE; simp add: session_args_def)
    moreover have "dispatch [ID c] (newCommand (Operation c)\<lparr>Scope := Scope c\<rparr>) =
        Inr (newCommand (Operation c)\<lparr>Scope := Scope c, ID := ID c\<rparr>)"
      using 5 fields(1) by (elim insertE; simp add: dispatch_def id_op_def)
    ultimately show ?thesis
      using 5 by (simp add: parseSessionManager_def)
  qed
qed

subsection \<open>What a refusal may quote\<close>

definition refusal_texts :: "string list" where
  "refusal_texts =
     [''--scope given twice'', ''--scope needs user or system'', ''a valid manager id is required'',
      ''--json given twice'', ''--session given twice'', ''--session needs a SES handle'',
      ''unexpected argument'', ''--session and --json are required'', ''a manager id is required'',
      ''invalid manager id'', ''--manifest given twice'', ''--select given twice'', ''--no-select given twice'',
      ''unknown argument'', ''--manifest needs a path or -'', ''--manifest is required'',
      ''--select and --no-select are mutually exclusive'']"

definition quotes_grammar :: "string \<Rightarrow> refusal \<Rightarrow> bool" where
  "quotes_grammar op e \<longleftrightarrow> e \<in> Fail op ` set refusal_texts"

lemma quotes_Fail [simp]: "quotes_grammar op (Fail op' t) \<longleftrightarrow> op' = op \<and> t \<in> set refusal_texts"
  by (auto simp: quotes_grammar_def)

lemma scopeLoop_refusal: "scopeLoop as f c = Inl e \<Longrightarrow> quotes_grammar (Operation c) e"
  by (induction as f c rule: scopeLoop.induct) (auto simp: refusal_texts_def split: if_splits list.splits)

lemma observeLoop_refusal: "observeLoop as c = Inl e \<Longrightarrow> quotes_grammar (Operation c) e"
  by (induction as c rule: observeLoop.induct) (auto simp: refusal_texts_def split: if_splits list.splits)

lemma registerLoop_refusal: "registerLoop as seen c = Inl e \<Longrightarrow> quotes_grammar (Operation c) e"
proof (induction as seen c rule: registerLoop.induct)
  case (2 flag as seen c)
  show ?case
  proof (cases "flag \<in> set seen")
    case True
    then show ?thesis
      using "2.prems" by (auto simp: refusal_texts_def split: if_splits)
  next
    case new: False
    show ?thesis
    proof (cases "flag = ''--manifest'' \<or> flag = ''--scope''")
      case True
      then show ?thesis
        using "2.prems" "2.IH"(1,2) new by (auto simp: refusal_texts_def split: list.splits if_splits)
    next
      case False
      then show ?thesis
        using "2.prems" "2.IH"(3,4) new by (auto simp: refusal_texts_def split: if_splits)
    qed
  qed
qed simp

definition operations :: "string list" where
  "operations = [''list'', ''show'', ''observe'', ''register'', ''use'', ''select'', ''unregister'']"

lemma dispatch_refusal:
  assumes "dispatch args c = Inl e"
  shows "if Operation c \<in> set operations then quotes_grammar (Operation c) e else e = UnknownOperation"
proof -
  consider "observe args c = Inl e" "Operation c = ''observe''" | "list_op args c = Inl e" "Operation c = ''list''"
    | "id_op args c = Inl e" "Operation c \<in> set [''show'', ''use'', ''select'', ''unregister'']"
    | "register args c = Inl e" "Operation c = ''register''"
    | "e = UnknownOperation" "Operation c \<notin> set operations"
    using assms by (simp add: dispatch_def operations_def split: if_splits)
  then show ?thesis
  proof cases
    case 1
    then consider "e \<in> fail c ` {''a valid manager id is required'', ''--session and --json are required''}"
      | a as where "observeLoop as (c\<lparr>ID := a\<rparr>) = Inl e"
      by (simp add: observe_def split: list.splits if_splits sum.splits)
    then have "quotes_grammar (Operation c) e"
      by cases (use observeLoop_refusal in \<open>force simp: refusal_texts_def\<close>)+
    then show ?thesis
      using 1(2) by (simp add: operations_def)
  next
    case 2
    then have "quotes_grammar (Operation c) e"
      by (simp add: list_op_def split: if_splits) (auto simp: refusal_texts_def)
    then show ?thesis
      using 2(2) by (simp add: operations_def)
  next
    case 3
    then have "e \<in> fail c ` {''a manager id is required'', ''invalid manager id'', ''unexpected argument''}"
      by (simp add: id_op_def split: list.splits if_splits)
    then have "quotes_grammar (Operation c) e"
      by (auto simp: refusal_texts_def)
    moreover have "Operation c \<in> set operations"
      using 3(2) unfolding operations_def by auto
    ultimately show ?thesis
      by simp
  next
    case 4
    then consider "e \<in> fail c ` {''--manifest is required'', ''--select and --no-select are mutually exclusive''}"
      | "registerLoop args [] c = Inl e"
      by (simp add: register_def split: if_splits sum.splits)
    then have "quotes_grammar (Operation c) e"
      by cases (use registerLoop_refusal in \<open>force simp: refusal_texts_def\<close>)+
    then show ?thesis
      using 4(2) by (simp add: operations_def)
  qed simp
qed

section \<open>Properties\<close>

text \<open>The \<open>session-manager\<close> grammar returns exactly the commands of \<open>session_ok\<close>: the
  members a command carries are those of its operation, an identifier and a session handle
  have passed their patterns, a scope is \<open>user\<close> or \<open>system\<close>, and \<open>--select\<close> excludes
  \<open>--no-select\<close>. Each such command is read back from the vector \<open>session_args\<close> prints.\<close>

lemma session_language:
  "((\<exists>args. parseSessionManager args = Inr c) \<longleftrightarrow> session_ok c)
   \<and> (parseSessionManager (session_args c) = Inr c \<longleftrightarrow> session_ok c)"
  using parse_sound parse_complete by blast

text \<open>A refusal of the \<open>session-manager\<close> grammar quotes its operation, once the operation
  is a known one, and a fixed text: no identifier, path, handle or unknown token.\<close>

theorem session_refusal_quotes:
  assumes "parseSessionManager args = Inl e"
  shows "e = NeedsOperation \<and> args = [] \<or>
    e = UnknownOperation \<and> hd args \<notin> set operations \<or>
    hd args \<in> set operations \<and> quotes_grammar (hd args) e"
proof (cases args)
  case Nil
  then show ?thesis
    using assms by (simp add: parseSessionManager_def)
next
  case (Cons op as)
  then consider "scopeLoop as [] (newCommand op) = Inl e" "op \<in> set operations"
    | f c where "scopeLoop as [] (newCommand op) = Inr (f, c)" "dispatch f c = Inl e"
    | "dispatch as (newCommand op) = Inl e"
    using assms by (auto simp: parseSessionManager_def operations_def split: if_splits sum.splits)
  then show ?thesis
  proof cases
    case 1
    then show ?thesis
      using scopeLoop_refusal Cons by fastforce
  next
    case 2
    then have "Operation c = op"
      using scopeLoop_sound [OF 2(1)] by (metis Command.select_convs(1) Command.surjective Command.update_convs(4) newCommand_Operation)
    then show ?thesis
      using dispatch_refusal [OF 2(2)] Cons by (simp split: if_splits)
  next
    case 3
    then show ?thesis
      using dispatch_refusal [OF 3] Cons by (simp split: if_splits)
  qed
qed

end
