(* ===== verification/Cli.thy ===== *)
theory Cli
  imports WerkstattCommand SessionCommand
begin

text \<open>
  \<open>internal/cli/cli.go\<close>, \<open>gateway_recover.go\<close> and \<open>help.go\<close>: the launcher command line.
  The loop of \<open>Parse\<close> over \<open>args\<close> is a recursion over the tokens that are left, with its
  local variables in a record; \<open>continue\<close> is the recursive call and the index after the loop
  is the list that is left. Every \<open>usageErr\<close> is a constructor of \<open>usageError\<close> with the
  arguments of its format. With an error Go also returns the half-built \<open>Invocation\<close>, which
  no caller reads; here an error carries no invocation.
\<close>

section \<open>The invocation\<close>

definition NormalizeEnvID :: "string \<Rightarrow> string" where
  "NormalizeEnvID i = (if i = ''claude'' then ''claude_code'' else if i = ''codex'' then ''codex_cli'' else i)"

abbreviation HostFlagHosted :: string where "HostFlagHosted \<equiv> ''--hosted''"
abbreviation HostFlagNative :: string where "HostFlagNative \<equiv> ''--native''"
abbreviation HostFlagUntracked :: string where "HostFlagUntracked \<equiv> ''--untracked''"

definition ExplicitNative :: "string \<Rightarrow> bool" where
  "ExplicitNative h \<longleftrightarrow> h = HostFlagNative \<or> h = HostFlagUntracked"

datatype info = InfoNone | InfoHelp | InfoVersion

record Invocation =
  Migrate :: bool
  DryRun :: bool
  SessionManager :: "SessionCommand.Command option"
  Werkstatt :: "WerkstattCommand.Command option"
  GatewayRecovery :: "string option"
  Info :: info
  HostFlag :: string
  A2A :: string
  BoardGoal :: bool
  Detach :: bool
  ResumeRequested :: bool
  ResumeHandle :: string
  ResumeHandleSet :: bool
  ResumeID :: string
  ResumeIDSet :: bool
  EnvID :: string
  SessionLabel :: string
  Profile :: string
  ProfileSet :: bool
  SystemPrompt :: string
  Model :: string
  Effort :: string
  ModelSet :: bool
  EffortSet :: bool
  PermissionMode :: string
  PermissionSet :: bool
  Network :: string
  NetworkSet :: bool
  NetworkMode :: string
  NetworkPin :: string
  NetworkKnownBad :: string
  GatewayRecoveryEnabled :: bool
  Native :: "string list"

text \<open>\<open>Invocation{}\<close>, every member zero; a nil slice is the empty list.\<close>

definition noInvocation :: Invocation where
  "noInvocation = \<lparr>Migrate = False, DryRun = False, SessionManager = None, Werkstatt = None,
     GatewayRecovery = None, Info = InfoNone, HostFlag = [], A2A = [], BoardGoal = False, Detach = False,
     ResumeRequested = False, ResumeHandle = [], ResumeHandleSet = False, ResumeID = [],
     ResumeIDSet = False, EnvID = [], SessionLabel = [], Profile = [], ProfileSet = False,
     SystemPrompt = [], Model = [], Effort = [], ModelSet = False, EffortSet = False,
     PermissionMode = [], PermissionSet = False, Network = [], NetworkSet = False, NetworkMode = [],
     NetworkPin = [], NetworkKnownBad = [], GatewayRecoveryEnabled = False, Native = []\<rparr>"

section \<open>Usage errors\<close>

datatype usageError =
  WerkstattUsage WerkstattCommand.refusal | SessionManagerUsage SessionCommand.refusal
| ExpectedGatewayRecover | ExpectedMigrate
| NoLaunchFlags string
| EmptyOperand | DeprecatedAlias string | StrayOperand string
| GatewayRecoveryOnce | RemovedFlag string | RejectedFlag string
| YoloHasNoValue | OnePermissionRequest | OnceWithoutValue string | HostTakesNoValue string | OneHostRequest
| UnknownFlag string | FlagTwice string | ValueMissing string | ValueRefused string string
| InvalidA2A | PermissionValues string | SystemPromptValues string | NetworkPolicyValues
| MissingEnvID | RecoveryRequiresNative | A2ARequiresHosted

section \<open>Values\<close>

definition a2a_byte :: "char \<Rightarrow> bool" where
  "a2a_byte c \<longleftrightarrow> is_lower c \<or> is_digit c \<or> c \<in> set ''._=-''"

text \<open>The patterns \<open>^[a-z0-9._=-]{1,64}$\<close> and \<open>^[0-9a-f]{64}$\<close>.\<close>

definition a2aIdentityPattern :: "string \<Rightarrow> bool" where
  "a2aIdentityPattern s \<longleftrightarrow> 1 \<le> length s \<and> length s \<le> 64 \<and> list_all a2a_byte s"

definition binaryDigestPattern :: "string \<Rightarrow> bool" where
  "binaryDigestPattern s \<longleftrightarrow> length s = 64 \<and> list_all is_lower_hex s"

definition sha256Pin :: "string \<Rightarrow> string" where
  "sha256Pin digest = ''sha256-'' @ digest"

definition publicAttempt :: "string \<Rightarrow> bool" where
  "publicAttempt s \<longleftrightarrow> length s = 64 \<and>
     list_all (\<lambda>c. (48 \<le> c \<and> c \<le> 57) \<or> (97 \<le> c \<and> c \<le> 102)) (runes s)"

definition valueFlags :: "string \<Rightarrow> bool" where
  "valueFlags f \<longleftrightarrow> f \<in> set [''--profile'', ''--system-prompt'', ''--model'', ''--effort'', ''--permissions'',
     ''--resume'', ''--a2a'', ''--network'', ''--network-policy'', ''--network-known-bad'']"

text \<open>\<open>(*Invocation).set\<close>.\<close>

definition set_flag :: "string \<Rightarrow> string \<Rightarrow> Invocation \<Rightarrow> usageError + Invocation" where
  "set_flag flag v i =
     (if flag = ''--a2a'' then
        if \<not> a2aIdentityPattern v then Inl InvalidA2A else Inr (i\<lparr>A2A := v\<rparr>)
      else if flag = ''--profile'' then Inr (i\<lparr>Profile := v, ProfileSet := True\<rparr>)
      else if flag = ''--model'' then Inr (i\<lparr>Model := v, ModelSet := True\<rparr>)
      else if flag = ''--effort'' then Inr (i\<lparr>Effort := v, EffortSet := True\<rparr>)
      else if flag = ''--permissions'' then
        if v = ''native'' \<or> v = ''yolo'' then Inr (i\<lparr>PermissionMode := v, PermissionSet := True\<rparr>)
        else Inl (PermissionValues v)
      else if flag = ''--system-prompt'' then
        if v = ''append'' \<or> v = ''replace'' then Inr (i\<lparr>SystemPrompt := v\<rparr>)
        else Inl (SystemPromptValues v)
      else if flag = ''--resume'' then Inr (i\<lparr>ResumeID := v, ResumeIDSet := True\<rparr>)
      else if flag = ''--network-policy'' then
        if v = ''optimistic'' then Inr (i\<lparr>NetworkMode := []\<rparr>)
        else if v = ''strict'' then Inr (i\<lparr>NetworkMode := ''strict''\<rparr>)
        else case CutPrefix v ''pinned:'' of
               None \<Rightarrow> Inl NetworkPolicyValues
             | Some digest \<Rightarrow> if binaryDigestPattern digest
                 then Inr (i\<lparr>NetworkMode := ''pinned'', NetworkPin := sha256Pin digest\<rparr>)
                 else Inl NetworkPolicyValues
      else if flag = ''--network-known-bad'' then Inr (i\<lparr>NetworkKnownBad := v\<rparr>)
      else if flag = ''--network'' then Inr (i\<lparr>Network := v, NetworkSet := True\<rparr>)
      else Inl (UnknownFlag flag))"

section \<open>The loop\<close>

record parseState =
  cur :: Invocation
  seen :: "string list"
  envSet :: bool
  permissionSeen :: bool

definition startState :: parseState where
  "startState = \<lparr>cur = noInvocation, seen = [], envSet = False, permissionSeen = False\<rparr>"

text \<open>The administrative words, which \<open>Parse\<close> dispatches on only in the first position.\<close>

definition adminWord :: "string \<Rightarrow> bool" where
  "adminWord t \<longleftrightarrow> t \<in> set [''gateway'', ''session-manager'', ''werkstatt'', ''migrate'']"

text \<open>A token that does not begin with a dash.\<close>

definition operand :: "string \<Rightarrow> parseState \<Rightarrow> usageError + parseState" where
  "operand tok st =
     (if \<not> envSet st then
        if adminWord tok then Inl (NoLaunchFlags tok)
        else if tok = [] then Inl EmptyOperand
        else if tok = ''openai-infra'' \<or> tok = ''anthropic-infra'' then Inl (DeprecatedAlias tok)
        else Inr (st\<lparr>cur := cur st\<lparr>EnvID := NormalizeEnvID tok\<rparr>, envSet := True\<rparr>)
      else if \<not> ResumeRequested (cur st) \<and> tok = ''resume''
        then Inr (st\<lparr>cur := cur st\<lparr>ResumeRequested := True\<rparr>\<rparr>)
      else if ResumeRequested (cur st) \<and> \<not> ResumeHandleSet (cur st)
        then Inr (st\<lparr>cur := cur st\<lparr>ResumeHandle := tok, ResumeHandleSet := True\<rparr>\<rparr>)
      else Inl (StrayOperand tok))"

text \<open>The flags without a value, and the unknown ones.\<close>

definition simpleFlag :: "string \<Rightarrow> string \<Rightarrow> bool \<Rightarrow> parseState \<Rightarrow> usageError + parseState" where
  "simpleFlag tok flag hasEq st =
     (if flag = ''--gateway-recovery'' then
        if hasEq \<or> flag \<in> set (seen st) then Inl GatewayRecoveryOnce
        else Inr (st\<lparr>seen := flag # seen st, cur := cur st\<lparr>GatewayRecoveryEnabled := True\<rparr>\<rparr>)
      else if flag = ''--name'' \<or> flag = ''--ax-profile'' then Inl (RemovedFlag flag)
      else if flag = ''-d'' \<or> flag = ''--danger'' then Inl (RejectedFlag flag)
      else if flag = ''--yolo'' then
        if hasEq then Inl YoloHasNoValue
        else if permissionSeen st then Inl OnePermissionRequest
        else Inr (st\<lparr>permissionSeen := True, cur := cur st\<lparr>PermissionMode := ''yolo'', PermissionSet := True\<rparr>\<rparr>)
      else if flag = ''--board-goal'' \<or> flag = ''--detach'' then
        if hasEq \<or> flag \<in> set (seen st) then Inl (OnceWithoutValue flag)
        else if flag = ''--board-goal''
          then Inr (st\<lparr>seen := flag # seen st, cur := cur st\<lparr>BoardGoal := True\<rparr>\<rparr>)
          else Inr (st\<lparr>seen := flag # seen st, cur := cur st\<lparr>Detach := True\<rparr>\<rparr>)
      else if flag = HostFlagHosted \<or> flag = HostFlagNative \<or> flag = HostFlagUntracked then
        if hasEq then Inl (HostTakesNoValue flag)
        else if HostFlag (cur st) \<noteq> [] then Inl OneHostRequest
        else Inr (st\<lparr>cur := cur st\<lparr>HostFlag := flag\<rparr>\<rparr>)
      else Inl (UnknownFlag tok))"

text \<open>A flag with a value: what precedes the value, and what follows it.\<close>

definition openFlag :: "string \<Rightarrow> parseState \<Rightarrow> usageError + parseState" where
  "openFlag flag st =
     (if flag = ''--permissions'' \<and> permissionSeen st then Inl OnePermissionRequest
      else let st' = (if flag = ''--permissions'' then st\<lparr>permissionSeen := True\<rparr> else st)
           in if flag \<in> set (seen st') then Inl (FlagTwice flag)
              else Inr (st'\<lparr>seen := flag # seen st'\<rparr>))"

definition storeValue :: "string \<Rightarrow> string \<Rightarrow> parseState \<Rightarrow> usageError + parseState" where
  "storeValue flag v st =
     (if v = [] \<or> flag \<noteq> ''--a2a'' \<and> HasPrefix v ''-'' then Inl (ValueRefused flag v)
      else case set_flag flag v (cur st) of Inl e \<Rightarrow> Inl e | Inr i \<Rightarrow> Inr (st\<lparr>cur := i\<rparr>))"

datatype outcome = Asked info | Launch parseState "string list"

fun parseLoop :: "string list \<Rightarrow> parseState \<Rightarrow> usageError + outcome" where
  "parseLoop [] st = Inr (Launch st [])"
| "parseLoop (tok # as) st =
     (if tok = ''--'' then Inr (Launch st as)
      else if tok = ''--help'' \<or> tok = ''-h'' then Inr (Asked InfoHelp)
      else if tok = ''--version'' then Inr (Asked InfoVersion)
      else if \<not> HasPrefix tok ''-'' then
        (case operand tok st of Inl e \<Rightarrow> Inl e | Inr st' \<Rightarrow> parseLoop as st')
      else case Cut tok CHR ''='' of (flag, v, hasEq) \<Rightarrow>
        if \<not> valueFlags flag then
          (case simpleFlag tok flag hasEq st of Inl e \<Rightarrow> Inl e | Inr st' \<Rightarrow> parseLoop as st')
        else (case openFlag flag st of Inl e \<Rightarrow> Inl e | Inr st1 \<Rightarrow>
          if hasEq then
            (case storeValue flag v st1 of Inl e \<Rightarrow> Inl e | Inr st' \<Rightarrow> parseLoop as st')
          else case as of
                 [] \<Rightarrow> Inl (ValueMissing flag)
               | w # rest \<Rightarrow>
                   if w = ''--'' then Inl (ValueMissing flag)
                   else case storeValue flag w st1 of Inl e \<Rightarrow> Inl e | Inr st' \<Rightarrow> parseLoop rest st'))"

definition launchChecks :: "parseState \<Rightarrow> string list \<Rightarrow> usageError + Invocation" where
  "launchChecks st native =
     (if \<not> envSet st then Inl MissingEnvID
      else if GatewayRecoveryEnabled (cur st) \<and> HostFlag (cur st) = HostFlagHosted then Inl RecoveryRequiresNative
      else if A2A (cur st) \<noteq> [] \<and> ExplicitNative (HostFlag (cur st)) then Inl A2ARequiresHosted
      else Inr (cur st\<lparr>Native := native\<rparr>))"

definition parseGatewayRecovery :: "string list \<Rightarrow> usageError + Invocation" where
  "parseGatewayRecovery args =
     (if length args \<noteq> 4 \<or> args ! 0 \<noteq> ''gateway'' \<or> args ! 1 \<noteq> ''recover'' \<or> args ! 2 \<noteq> ''--attempt''
         \<or> \<not> publicAttempt (args ! 3)
      then Inl ExpectedGatewayRecover
      else Inr (noInvocation\<lparr>GatewayRecovery := Some (args ! 3)\<rparr>))"

definition parseLaunch :: "string list \<Rightarrow> usageError + Invocation" where
  "parseLaunch args = (case parseLoop args startState of
     Inl e \<Rightarrow> Inl e
   | Inr (Asked i) \<Rightarrow> Inr (noInvocation\<lparr>Info := i\<rparr>)
   | Inr (Launch st native) \<Rightarrow> launchChecks st native)"

definition Parse :: "string list \<Rightarrow> usageError + Invocation" where
  "Parse args = (case args of
     [] \<Rightarrow> parseLaunch args
   | a # as \<Rightarrow>
       if a = ''gateway'' then parseGatewayRecovery args
       else if a = ''werkstatt'' then
         (case ParseCommand as of Inl e \<Rightarrow> Inl (WerkstattUsage e)
          | Inr c \<Rightarrow> Inr (noInvocation\<lparr>Werkstatt := Some c\<rparr>))
       else if a = ''session-manager'' then
         (case parseSessionManager as of Inl e \<Rightarrow> Inl (SessionManagerUsage e)
          | Inr c \<Rightarrow> Inr (noInvocation\<lparr>SessionManager := Some c\<rparr>))
       else if a = ''migrate'' then
         (if length args = 1 then Inr (noInvocation\<lparr>Migrate := True\<rparr>)
          else if length args = 2 \<and> args ! 1 = ''--dry-run''
            then Inr (noInvocation\<lparr>Migrate := True, DryRun := True\<rparr>)
          else Inl ExpectedMigrate)
       else parseLaunch args)"

section \<open>Help topics\<close>

text \<open>The texts themselves are constants of the source; a topic names one of them.\<close>

datatype helpText = GatewayRecoveryHelp | WerkstattHelp | WerkstattVerbHelp string
  | SessionManagerHelp | SessionManagerVerbHelp string | MigrateHelp

definition werkstattVerbs :: "string list" where
  "werkstattVerbs = [''up'', ''down'', ''recycle'', ''status'', ''update'', ''recover'', ''list'']"

definition sessionManagerVerbs :: "string list" where
  "sessionManagerVerbs = [''list'', ''show'', ''observe'', ''register'', ''use'', ''select'', ''unregister'']"

definition TopicHelp :: "string list \<Rightarrow> helpText option" where
  "TopicHelp args = (case args of
     [] \<Rightarrow> None
   | topic # rest \<Rightarrow>
       if \<not> list_ex (\<lambda>a. a = ''-h'' \<or> a = ''--help'') rest then None
       else let verb = (case rest of v # _ \<Rightarrow> v | [] \<Rightarrow> []) in
         if topic = ''gateway'' then Some GatewayRecoveryHelp
         else if topic = ''werkstatt'' then
           Some (if verb \<in> set werkstattVerbs then WerkstattVerbHelp verb else WerkstattHelp)
         else if topic = ''session-manager'' then
           Some (if verb \<in> set sessionManagerVerbs then SessionManagerVerbHelp verb else SessionManagerHelp)
         else if topic = ''migrate'' then Some MigrateHelp
         else None)"

end
