(* ===== verification/WerkstattGrammar.thy ===== *)
theory WerkstattGrammar
  imports WerkstattCommand
begin

text \<open>
  The language of \<open>werkstattcommand.ParseCommand\<close>: the commands it can return, an argument
  vector for each of them, and what its refusals may quote.
\<close>

section \<open>The commands of the grammar\<close>

text \<open>\<open>station_fields\<close> is what the loop keeps of a command whose action is fixed,
  \<open>station_complete\<close> what the final checks add.\<close>

definition station_fields :: "Command \<Rightarrow> bool" where
  "station_fields c \<longleftrightarrow>
     (ID c = [] \<or> ValidID (ID c)) \<and>
     (Attach c \<or> New c \<or> TaskClass c \<noteq> [] \<or> Difficulty c \<noteq> [] \<longrightarrow> Action c = ''up'') \<and>
     (Force c \<longrightarrow> Action c = ''down'') \<and>
     (JSON c \<longrightarrow> Action c \<in> {''status'', ''list'', ''update'', ''recover''}) \<and>
     (RebindManager c \<or> AbandonOperation c \<longrightarrow> Action c \<in> {''status'', ''recover''}) \<and>
     (SetTask c \<or> QueueDepth c \<noteq> None \<longrightarrow> Action c \<in> {''status'', ''update''}) \<and>
     (\<forall>t. Task c = Some t \<longrightarrow> SetTask c \<and> t \<noteq> [] \<and> \<not> HasPrefix t ''--'') \<and>
     (\<forall>n. QueueDepth c = Some n \<longrightarrow> 0 \<le> n \<and> n \<le> maxQueueDepth) \<and>
     (\<forall>d \<in> {TaskClass c, Difficulty c}. d \<noteq> [] \<longrightarrow> dispatchValue d \<and> \<not> HasPrefix d ''--'')"

definition station_complete :: "Command \<Rightarrow> bool" where
  "station_complete c \<longleftrightarrow>
     Action c \<in> set actions \<and>
     (Action c = ''list'' \<longrightarrow> ID c = []) \<and>
     (ID c = [] \<longrightarrow> Action c \<in> {''list'', ''status''} \<and>
        \<not> SetTask c \<and> QueueDepth c = None \<and> \<not> RebindManager c \<and> \<not> AbandonOperation c) \<and>
     (Difficulty c \<noteq> [] \<longrightarrow> TaskClass c \<noteq> []) \<and>
     \<not> (RebindManager c \<and> AbandonOperation c) \<and>
     (Action c = ''update'' \<longrightarrow> SetTask c \<or> QueueDepth c \<noteq> None) \<and>
     (Action c = ''recover'' \<longrightarrow> RebindManager c \<or> AbandonOperation c)"

definition valueArg :: "string \<Rightarrow> string \<Rightarrow> string list" where
  "valueArg f v = (if v = [] then [] else [f, v])"

definition taskArgs :: "Command \<Rightarrow> string list" where
  "taskArgs c = (case Task c of Some t \<Rightarrow> [''--set-task'', t] | None \<Rightarrow> flagArg ''--clear-task'' (SetTask c))"

definition depthArgs :: "Command \<Rightarrow> string list" where
  "depthArgs c = (case QueueDepth c of Some n \<Rightarrow> [''--queue-depth'', Itoa n] | None \<Rightarrow> [])"

definition command_args :: "Command \<Rightarrow> string list" where
  "command_args c = Action c # (if ID c = [] then [] else [ID c]) @
     flagArg ''--attach'' (Attach c) @ flagArg ''--new'' (New c) @ flagArg ''--force'' (Force c) @
     flagArg ''--json'' (JSON c) @ flagArg ''--rebind-manager'' (RebindManager c) @
     flagArg ''--abandon-operation'' (AbandonOperation c) @ valueArg ''--task-class'' (TaskClass c) @
     valueArg ''--difficulty'' (Difficulty c) @ taskArgs c @ depthArgs c"

section \<open>The loop stays in the grammar\<close>

lemma ValidID_props:
  assumes "ValidID s"
  shows "s \<noteq> []" and "\<not> HasPrefix s ''--''"
  using id_pattern_props(1) [of 47 s] id_pattern_props(2) [of 47 s "''--''"] assms
  by (simp_all add: ValidID_def HasPrefix_def)

lemma plainFlag_fields:
  assumes "plainFlag c a = Inr c'" and "station_fields c"
  shows "station_fields c' \<and> Action c' = Action c"
  using assms unfolding plainFlag_def station_fields_def
  by (clarsimp split: if_splits; fastforce)

lemma valueFlag_fields:
  assumes set: "valueFlag c a v = Inr c'" and "valueAllowed c a = Inr u" and "valued a"
    and v: "\<not> HasPrefix v ''--''" and c: "station_fields c"
  shows "station_fields c' \<and> Action c' = Action c"
proof -
  consider "a = ''--set-task''" "Action c \<in> {''status'', ''update''}"
    | "a = ''--queue-depth''" "Action c \<in> {''status'', ''update''}"
    | "a = ''--task-class''" "Action c = ''up''" | "a = ''--difficulty''" "Action c = ''up''"
    using assms(2,3) by (fastforce simp: valueAllowed_def valued_def split: if_splits)
  then show ?thesis
  proof cases
    case 1
    then have "v \<noteq> []" "c' = c\<lparr>SetTask := True, Task := Some v\<rparr>"
      using set by (simp_all add: valueFlag_def split: if_splits)
    then show ?thesis
      using c v 1(2) by (simp add: station_fields_def)
  next
    case 2
    then obtain n where "0 \<le> n" "n \<le> maxQueueDepth" "c' = c\<lparr>QueueDepth := Some n\<rparr>"
      using set by (fastforce simp: valueFlag_def not_less split: if_splits option.splits)
    then show ?thesis
      using c 2(2) by (simp add: station_fields_def)
  next
    case 3
    then have "dispatchValue v" "c' = c\<lparr>TaskClass := v\<rparr>"
      using set by (simp_all add: valueFlag_def split: if_splits)
    then show ?thesis
      using c v 3(2) by (fastforce simp: station_fields_def)
  next
    case 4
    then have "dispatchValue v" "c' = c\<lparr>Difficulty := v\<rparr>"
      using set by (simp_all add: valueFlag_def split: if_splits)
    then show ?thesis
      using c v 4(2) by (fastforce simp: station_fields_def)
  qed
qed

text \<open>The accepting runs of the loop: an operand, a flag with a value, a flag without one.\<close>

lemma loop_accepts [consumes 1, case_names finish operand valued plain]:
  assumes "loop as seen c = Inr c'"
    and "\<And>seen. P [] seen c'"
    and "\<And>a as seen c. \<lbrakk>\<not> HasPrefix a ''--''; ID c = []; ValidID a; P as seen (c\<lparr>ID := a\<rparr>)\<rbrakk> \<Longrightarrow> P (a # as) seen c"
    and "\<And>a v as seen c c1. \<lbrakk>HasPrefix a ''--''; a \<notin> set seen; valued a; valueAllowed c a = Inr ();
      \<not> HasPrefix v ''--''; valueFlag c a v = Inr c1; P as (a # seen) c1\<rbrakk> \<Longrightarrow> P (a # v # as) seen c"
    and "\<And>a as seen c c1. \<lbrakk>HasPrefix a ''--''; a \<notin> set seen; plainFlag c a = Inr c1; P as (a # seen) c1\<rbrakk>
      \<Longrightarrow> P (a # as) seen c"
  shows "P as seen c"
  using assms(1)
proof (induction as seen c rule: loop.induct)
  case (2 a as seen c)
  show ?case
  proof (cases "HasPrefix a ''--''")
    case False
    then have step: "ID c = []" "ValidID a" "loop as seen (c\<lparr>ID := a\<rparr>) = Inr c'"
      using "2.prems" by (auto split: if_splits)
    show ?thesis
      using assms(3) [OF False step(1,2)] "2.IH"(1) [OF _ _ _ step(3)] False step by simp
  next
    case True
    then have fresh: "a \<notin> set seen"
      using "2.prems" by (auto split: if_splits)
    show ?thesis
    proof (cases "valued a")
      case True
      then obtain v rest c1 where step: "valueAllowed c a = Inr ()" "as = v # rest"
        "\<not> HasPrefix v ''--''" "valueFlag c a v = Inr c1" "loop rest (a # seen) c1 = Inr c'"
        using "2.prems"(1) \<open>HasPrefix a _\<close> fresh
        by (auto split: sum.splits list.splits if_splits)
      have "P rest (a # seen) c1"
        using "2.IH"(2) [OF _ fresh True step(1) step(2,3) step(4)] step \<open>HasPrefix a _\<close> by simp
      then show ?thesis
        using assms(4) \<open>HasPrefix a _\<close> fresh True step by blast
    next
      case False
      then obtain c1 where step: "plainFlag c a = Inr c1" "loop as (a # seen) c1 = Inr c'"
        using "2.prems"(1) \<open>HasPrefix a _\<close> fresh by (auto split: sum.splits)
      have "P as (a # seen) c1"
        using "2.IH"(3) [OF _ fresh False step(1)] step \<open>HasPrefix a _\<close> by simp
      then show ?thesis
        using assms(5) \<open>HasPrefix a _\<close> fresh step by blast
    qed
  qed
qed (use assms(2) in simp)

lemma loop_fields:
  assumes "loop as seen c = Inr c'" and "station_fields c"
  shows "station_fields c' \<and> Action c' = Action c"
  using assms
proof (induction rule: loop_accepts)
  case (operand a as seen c)
  have "station_fields (c\<lparr>ID := a\<rparr>)"
    using operand.hyps(3) operand.prems by (simp add: station_fields_def)
  then show ?case using operand.IH by simp
next
  case (valued a v as seen c c1)
  then show ?case using valueFlag_fields [OF valued.hyps(6,4,3,5)] by simp
next
  case (plain a as seen c c1)
  then show ?case using plainFlag_fields [OF plain.hyps(3)] by simp
qed simp

text \<open>The flags of an accepted argument vector are known, new and different.\<close>

lemma flag_known:
  "valued a \<Longrightarrow> knownFlag a" "plainFlag c a = Inr c1 \<Longrightarrow> knownFlag a"
  by (auto simp: valued_def plainFlag_def knownFlag_def split: if_splits)

lemma loop_distinct:
  assumes "loop as seen c = Inr c'"
  defines "flags \<equiv> filter (\<lambda>a. HasPrefix a ''--'')"
  shows "distinct (flags as) \<and> set (flags as) \<inter> set seen = {} \<and> list_all knownFlag (flags as)"
  using assms(1)
  by (induction rule: loop_accepts) (auto simp: flags_def flag_known)

lemma finalChecks_iff:
  "finalChecks c = Inr c' \<and> Action c \<in> set actions \<longleftrightarrow> c' = c \<and> station_complete c"
  unfolding finalChecks_def station_complete_def actions_def by (auto split: if_splits)

lemma newCommand_Action [simp]: "Action (newCommand a) = a"
  by (simp add: newCommand_def)

lemma newCommand_fields: "station_fields (newCommand a)"
  by (simp add: station_fields_def newCommand_def)

lemma ParseCommand_sound:
  assumes "ParseCommand args = Inr c"
  shows "station_fields c \<and> station_complete c"
proof -
  obtain a as c1 where "args = a # as" "a \<in> set actions" "loop as [] (newCommand a) = Inr c1"
    "finalChecks c1 = Inr c"
    using assms by (auto simp: ParseCommand_def split: list.splits if_splits sum.splits)
  then show ?thesis
    using loop_fields [of as "[]" "newCommand a" c1] newCommand_fields [of a] finalChecks_iff [of c1 c]
    by (auto simp: newCommand_def)
qed

section \<open>Every command has an argument vector\<close>

lemma plainFlag_neq: "plainFlag c a = Inr c' \<Longrightarrow> HasPrefix a ''--'' \<and> \<not> valued a"
  by (auto simp: plainFlag_def valued_def HasPrefix_def split: if_splits)

text \<open>A flag that is printed is read back; one that is not printed leaves the command as it is.\<close>

lemma loop_flagArg:
  assumes "b \<Longrightarrow> plainFlag c f = Inr c'" and "\<not> b \<Longrightarrow> c' = c" and "f \<notin> set seen"
  shows "loop (flagArg f b @ rest) seen c = loop rest (flagArg f b @ seen) c'"
  using assms plainFlag_neq [of c f c'] by (cases b) (simp_all add: flagArg_def)

lemma loop_valueArg:
  assumes "valueAllowed c f = Inr ()" and "\<not> HasPrefix v ''--''" and "valueFlag c f v = Inr c'"
    and "valued f" and "f \<notin> set seen"
  shows "loop (f # v # rest) seen c = loop rest (f # seen) c'"
proof -
  have "HasPrefix f ''--''"
    using \<open>valued f\<close> by (auto simp: valued_def HasPrefix_def)
  then show ?thesis
    using assms by simp
qed

declare loop.simps(2) [simp del]

lemma loop_id:
  assumes "ID c = []" and "v = [] \<or> ValidID v"
  shows "loop ((if v = [] then [] else [v]) @ rest) seen c = loop rest seen (c\<lparr>ID := v\<rparr>)"
  using assms ValidID_props [of v] by (cases c) (auto simp: loop.simps(2))

lemma loop_flags:
  "\<lbrakk>\<not> Attach c; b \<longrightarrow> Action c = ''up''; ''--attach'' \<notin> set seen\<rbrakk> \<Longrightarrow>
     loop (flagArg ''--attach'' b @ rest) seen c = loop rest (flagArg ''--attach'' b @ seen) (c\<lparr>Attach := b\<rparr>)"
  "\<lbrakk>\<not> New c; b \<longrightarrow> Action c = ''up''; ''--new'' \<notin> set seen\<rbrakk> \<Longrightarrow>
     loop (flagArg ''--new'' b @ rest) seen c = loop rest (flagArg ''--new'' b @ seen) (c\<lparr>New := b\<rparr>)"
  "\<lbrakk>\<not> Force c; b \<longrightarrow> Action c = ''down''; ''--force'' \<notin> set seen\<rbrakk> \<Longrightarrow>
     loop (flagArg ''--force'' b @ rest) seen c = loop rest (flagArg ''--force'' b @ seen) (c\<lparr>Force := b\<rparr>)"
  "\<lbrakk>\<not> JSON c; b \<longrightarrow> Action c \<in> {''status'', ''list'', ''update'', ''recover''}; ''--json'' \<notin> set seen\<rbrakk> \<Longrightarrow>
     loop (flagArg ''--json'' b @ rest) seen c = loop rest (flagArg ''--json'' b @ seen) (c\<lparr>JSON := b\<rparr>)"
  "\<lbrakk>\<not> RebindManager c; b \<longrightarrow> Action c \<in> {''status'', ''recover''}; ''--rebind-manager'' \<notin> set seen\<rbrakk> \<Longrightarrow>
     loop (flagArg ''--rebind-manager'' b @ rest) seen c =
     loop rest (flagArg ''--rebind-manager'' b @ seen) (c\<lparr>RebindManager := b\<rparr>)"
  "\<lbrakk>\<not> AbandonOperation c; b \<longrightarrow> Action c \<in> {''status'', ''recover''}; ''--abandon-operation'' \<notin> set seen\<rbrakk> \<Longrightarrow>
     loop (flagArg ''--abandon-operation'' b @ rest) seen c =
     loop rest (flagArg ''--abandon-operation'' b @ seen) (c\<lparr>AbandonOperation := b\<rparr>)"
  by (rule loop_flagArg; (cases c)?; simp add: plainFlag_def)+

lemma loop_dispatch:
  "\<lbrakk>TaskClass c = []; v \<noteq> [] \<longrightarrow> Action c = ''up'' \<and> dispatchValue v \<and> \<not> HasPrefix v ''--'';
    ''--task-class'' \<notin> set seen\<rbrakk> \<Longrightarrow>
     loop (valueArg ''--task-class'' v @ rest) seen c =
     loop rest (flagArg ''--task-class'' (v \<noteq> []) @ seen) (c\<lparr>TaskClass := v\<rparr>)"
  "\<lbrakk>Difficulty c = []; v \<noteq> [] \<longrightarrow> Action c = ''up'' \<and> dispatchValue v \<and> \<not> HasPrefix v ''--'';
    ''--difficulty'' \<notin> set seen\<rbrakk> \<Longrightarrow>
     loop (valueArg ''--difficulty'' v @ rest) seen c =
     loop rest (flagArg ''--difficulty'' (v \<noteq> []) @ seen) (c\<lparr>Difficulty := v\<rparr>)"
  by (cases c; cases "v = []"; simp add: valueArg_def flagArg_def loop_valueArg valueAllowed_def
      valued_def valueFlag_def)+

lemma loop_task:
  assumes "\<not> SetTask c" and "Task c = None" and "b \<longrightarrow> Action c \<in> {''status'', ''update''}"
    and "\<forall>v. t = Some v \<longrightarrow> b \<and> v \<noteq> [] \<and> \<not> HasPrefix v ''--''" and "''--set-task'' \<notin> set seen" "''--clear-task'' \<notin> set seen"
  shows "loop ((case t of Some v \<Rightarrow> [''--set-task'', v] | None \<Rightarrow> flagArg ''--clear-task'' b) @ rest) seen c =
    loop rest (flagArg (if t = None then ''--clear-task'' else ''--set-task'') b @ seen) (c\<lparr>SetTask := b, Task := t\<rparr>)"
proof (cases t)
  case None
  then show ?thesis
    using assms by (simp, intro loop_flagArg; cases c; simp add: plainFlag_def)
next
  case (Some v)
  then show ?thesis
    using assms by (simp add: loop_valueArg valueAllowed_def valued_def valueFlag_def flagArg_def)
qed

lemma loop_depth:
  assumes "QueueDepth c = None" and "d \<noteq> None \<longrightarrow> Action c \<in> {''status'', ''update''}"
    and "\<forall>n. d = Some n \<longrightarrow> 0 \<le> n \<and> n \<le> maxQueueDepth" and "''--queue-depth'' \<notin> set seen"
  shows "loop (case d of Some n \<Rightarrow> [''--queue-depth'', Itoa n] | None \<Rightarrow> []) seen c = Inr (c\<lparr>QueueDepth := d\<rparr>)"
proof (cases d)
  case None
  then show ?thesis
    using assms by (cases c) simp
next
  case (Some n)
  then have "ParseInt64 (Itoa n) = Some n" "\<not> HasPrefix (Itoa n) ''--''"
    using assms(3) by (simp_all add: ParseInt64_Itoa Itoa_not_dashes maxQueueDepth_def)
  then show ?thesis
    using assms Some by (simp add: loop_valueArg valueAllowed_def valued_def valueFlag_def)
qed

lemma loop_command_args:
  assumes "station_fields c"
  shows "loop (tl (command_args c)) [] (newCommand (Action c)) = Inr c"
proof -
  have "loop (tl (command_args c)) [] (newCommand (Action c)) =
      Inr (newCommand (Action c)\<lparr>ID := ID c, Attach := Attach c, New := New c, Force := Force c, JSON := JSON c,
        RebindManager := RebindManager c, AbandonOperation := AbandonOperation c, TaskClass := TaskClass c,
        Difficulty := Difficulty c, SetTask := SetTask c, Task := Task c, QueueDepth := QueueDepth c\<rparr>)"
    using assms unfolding command_args_def taskArgs_def depthArgs_def station_fields_def newCommand_def
    by (simp add: loop_id loop_flags loop_dispatch loop_task loop_depth)
  then show ?thesis
    by (simp add: newCommand_def)
qed

lemma ParseCommand_complete:
  assumes "station_fields c" and "station_complete c"
  shows "ParseCommand (command_args c) = Inr c"
proof -
  obtain as where "command_args c = Action c # as"
    by (simp add: command_args_def)
  moreover have "Action c \<in> set actions" "finalChecks c = Inr c"
    using assms(2) finalChecks_iff [of c c] by simp_all
  ultimately show ?thesis
    using loop_command_args [OF assms(1)] by (simp add: ParseCommand_def)
qed

section \<open>What a refusal may quote\<close>

text \<open>The literal parts of the messages, in the order of the source.\<close>

definition refusal_texts :: "string list" where
  "refusal_texts =
     [''unexpected second operand after the id'', ''invalid id (expected [a-z0-9][a-z0-9-]{0,47})'',
      '' given twice'', ''unknown flag'', '' is valid only with up'', '' is valid only with down'',
      '' is valid only with status, update, recover or list'',
      '' is valid only with recover (status is a deprecated alias)'',
      '' is valid only with update (status is a deprecated alias)'',
      ''--clear-task and --set-task are mutually exclusive'', '' needs a value'',
      '' needs a non-empty value'', '' needs an integer from 0 to 2^53-1'',
      '' needs a dispatch value of [A-Za-z0-9._:/@+-]{1,128}'', ''list takes no id'', ''an id is required'',
      ''--difficulty needs --task-class'', ''--rebind-manager and --abandon-operation are mutually exclusive'',
      ''at least one of --set-task, --clear-task or --queue-depth is required'',
      ''exactly one of --rebind-manager or --abandon-operation is required'',
      ''dispatch and recovery flags need an id'']"

definition quotes_grammar :: "string \<Rightarrow> refusal \<Rightarrow> bool" where
  "quotes_grammar a e \<longleftrightarrow> (\<exists>f t. e = Bad a f t \<and> t \<in> set refusal_texts \<and> (f = None \<or> knownFlag (the f)))"

lemma quotes_grammar_Bad [simp]:
  "quotes_grammar a (Bad b None t) \<longleftrightarrow> b = a \<and> t \<in> set refusal_texts"
  "quotes_grammar a (Bad b (Some f) t) \<longleftrightarrow> b = a \<and> t \<in> set refusal_texts \<and> knownFlag f"
  by (auto simp: quotes_grammar_def)

lemma plainFlag_refusal: "plainFlag c a = Inl e \<Longrightarrow> quotes_grammar (Action c) e"
  unfolding plainFlag_def by (clarsimp split: if_splits; simp add: refusal_texts_def knownFlag_def)

lemma valueFlag_refusal: "valueFlag c a v = Inl e \<Longrightarrow> valued a \<Longrightarrow> quotes_grammar (Action c) e"
  unfolding valueFlag_def by (drule flag_known, clarsimp split: if_splits option.splits; simp add: refusal_texts_def)

lemma valueAllowed_refusal: "valueAllowed c a = Inl e \<Longrightarrow> valued a \<Longrightarrow> quotes_grammar (Action c) e"
  unfolding valueAllowed_def by (drule flag_known, clarsimp split: if_splits; simp add: refusal_texts_def)

lemma finalChecks_refusal: "finalChecks c = Inl e \<Longrightarrow> quotes_grammar (Action c) e"
  unfolding finalChecks_def by (clarsimp split: if_splits; simp add: refusal_texts_def)

lemma plainFlag_Action: "plainFlag c a = Inr c' \<Longrightarrow> Action c' = Action c"
  by (auto simp: plainFlag_def split: if_splits)

lemma valueFlag_Action: "valueFlag c a v = Inr c' \<Longrightarrow> Action c' = Action c"
  by (auto simp: valueFlag_def split: if_splits option.splits)

lemma loop_refusal: "loop as seen c = Inl e \<Longrightarrow> quotes_grammar (Action c) e"
proof (induction as seen c rule: loop.induct)
  case (2 a as seen c)
  have texts: "{''unexpected second operand after the id'', ''invalid id (expected [a-z0-9][a-z0-9-]{0,47})'',
      '' given twice'', ''unknown flag'', '' needs a value''} \<subseteq> set refusal_texts"
    by (simp add: refusal_texts_def)
  show ?case
  proof (cases "HasPrefix a ''--'' \<and> a \<notin> set seen")
    case False
    then show ?thesis
      using 2 texts by (auto simp: loop.simps(2) split: if_splits)
  next
    case new: True
    show ?thesis
    proof (cases "valued a")
      case True
      note a = this flag_known(1) [OF this]
      consider "valueAllowed c a = Inl e" | "e = badFlag c a '' needs a value''"
        | v rest where "as = v # rest" "valueFlag c a v = Inl e"
        | v rest c1 where "valueAllowed c a = Inr ()" "as = v # rest" "\<not> HasPrefix v ''--''"
          "valueFlag c a v = Inr c1" "loop rest (a # seen) c1 = Inl e"
        using "2.prems" new a by (auto simp: loop.simps(2) split: sum.splits list.splits if_splits)
      then show ?thesis
        by cases (use "2.IH"(2) valueAllowed_refusal valueFlag_refusal valueFlag_Action new a texts in fastforce)+
    next
      case False
      then consider "plainFlag c a = Inl e" | c1 where "plainFlag c a = Inr c1" "loop as (a # seen) c1 = Inl e"
        using "2.prems" new by (auto simp: loop.simps(2) split: sum.splits)
      then show ?thesis
        by cases (use "2.IH"(3) plainFlag_refusal plainFlag_Action new False in fastforce)+
    qed
  qed
qed simp

section \<open>Properties\<close>

text \<open>The \<open>werkstatt\<close> grammar returns exactly the commands whose fields agree with their
  action: every command it returns satisfies the two predicates, and every command that does
  is read back, unchanged, from the argument vector \<open>command_args\<close> prints for it. In
  particular a flag is set only under an action that admits it, a queue depth lies between 0
  and \<open>2^53 - 1\<close>, and the exclusive flags exclude each other.\<close>

lemma werkstatt_language:
  "((\<exists>args. ParseCommand args = Inr c) \<longleftrightarrow> station_fields c \<and> station_complete c)
   \<and> (ParseCommand (command_args c) = Inr c \<longleftrightarrow> station_fields c \<and> station_complete c)"
  using ParseCommand_sound ParseCommand_complete by blast

text \<open>An accepted \<open>werkstatt\<close> argument vector starts with its action and repeats no flag:
  its tokens that start with two dashes are different known flags.\<close>

theorem werkstatt_no_repeat:
  assumes "ParseCommand args = Inr c"
  shows "args \<noteq> [] \<and> hd args = Action c \<and> distinct (filter (\<lambda>a. HasPrefix a ''--'') (tl args))
    \<and> list_all knownFlag (filter (\<lambda>a. HasPrefix a ''--'') (tl args))"
proof -
  obtain a as c1 where args: "args = a # as" "loop as [] (newCommand a) = Inr c1" "finalChecks c1 = Inr c"
    using assms by (auto simp: ParseCommand_def split: list.splits if_splits sum.splits)
  moreover have "c1 = c"
    using args(3) by (simp add: finalChecks_def split: if_splits)
  ultimately show ?thesis
    using loop_distinct [OF args(2)] loop_fields [OF args(2) newCommand_fields] by (simp add: newCommand_def)
qed

text \<open>A refused \<open>werkstatt\<close> vector is refused with a message that quotes only the closed
  grammar: the action, at most one known flag, and a fixed text. No operand, value or unknown
  token reaches the message.\<close>

theorem werkstatt_refusal_quotes:
  assumes "ParseCommand args = Inl e"
  shows "e = NeedsAction \<and> args = [] \<or> e = UnknownAction \<and> hd args \<notin> set actions \<or>
    hd args \<in> set actions \<and> quotes_grammar (hd args) e"
proof (cases args)
  case Nil
  then show ?thesis
    using assms by (simp add: ParseCommand_def)
next
  case (Cons a as)
  show ?thesis
  proof (cases "a \<in> set actions")
    case True
    then consider "loop as [] (newCommand a) = Inl e"
      | c where "loop as [] (newCommand a) = Inr c" "finalChecks c = Inl e"
      using assms Cons by (auto simp: ParseCommand_def split: sum.splits)
    then have "quotes_grammar a e"
      by cases (use loop_refusal finalChecks_refusal loop_fields [OF _ newCommand_fields] in fastforce)+
    then show ?thesis
      using True Cons by simp
  qed (use assms Cons in \<open>simp add: ParseCommand_def\<close>)
qed

end
