(* ===== verification/CliGrammar.thy ===== *)
theory CliGrammar
  imports Cli WerkstattGrammar
begin

text \<open>
  The language of \<open>cli.Parse\<close>: the separator \<open>--\<close> and the native tail, the two spellings of
  a flag with a value, and the invocations that can be returned.
\<close>

section \<open>The native tail\<close>

definition native_outcome :: "string list \<Rightarrow> outcome \<Rightarrow> outcome" where
  "native_outcome t r = (case r of Asked i \<Rightarrow> Asked i | Launch st _ \<Rightarrow> Launch st t)"

lemma native_outcome_simps [simp]:
  "native_outcome t (Asked i) = Asked i" "native_outcome t (Launch st n) = Launch st t"
  by (simp_all add: native_outcome_def)

text \<open>One equation per class of token.\<close>

definition stopWord :: "string \<Rightarrow> bool" where
  "stopWord t \<longleftrightarrow> t \<in> {''--'', ''--help'', ''-h'', ''--version''}"

lemma parseLoop_operand:
  "\<not> HasPrefix tok ''-'' \<Longrightarrow> parseLoop (tok # as) st = res_bind (operand tok st) (parseLoop as)"
  by (auto simp: res_bind_def HasPrefix_def split: sum.splits)

lemma parseLoop_simple:
  assumes "HasPrefix tok ''-''" and "\<not> stopWord tok" and "Cut tok CHR ''='' = (f, v, e)" and "\<not> valueFlags f"
  shows "parseLoop (tok # as) st = res_bind (simpleFlag tok f e st) (parseLoop as)"
  using assms by (simp add: res_bind_def stopWord_def)

lemma parseLoop_equals:
  assumes "HasPrefix tok ''-''" and "\<not> stopWord tok" and "Cut tok CHR ''='' = (f, v, True)" and "valueFlags f"
  shows "parseLoop (tok # as) st = res_bind (openFlag f st) (\<lambda>st1. res_bind (storeValue f v st1) (parseLoop as))"
  using assms by (simp add: res_bind_def stopWord_def split: sum.split)

lemma parseLoop_space:
  assumes "HasPrefix tok ''-''" and "\<not> stopWord tok" and "Cut tok CHR ''='' = (f, v, False)" and "valueFlags f"
  shows "parseLoop [tok] st = res_bind (openFlag f st) (\<lambda>st1. Inl (ValueMissing f))"
    "parseLoop (tok # ''--'' # as) st = res_bind (openFlag f st) (\<lambda>st1. Inl (ValueMissing f))"
    "w \<noteq> ''--'' \<Longrightarrow> parseLoop (tok # w # as) st =
      res_bind (openFlag f st) (\<lambda>st1. res_bind (storeValue f w st1) (parseLoop as))"
  using assms by (simp_all add: res_bind_def stopWord_def split: sum.split)

declare parseLoop.simps(2) [simp del]

lemma parseLoop_stop:
  "parseLoop (''--'' # as) st = Inr (Launch st as)"
  "parseLoop (''--help'' # as) st = Inr (Asked InfoHelp)"
  "parseLoop (''-h'' # as) st = Inr (Asked InfoHelp)"
  "parseLoop (''--version'' # as) st = Inr (Asked InfoVersion)"
  by (simp_all add: parseLoop.simps(2))

text \<open>The cases of a run, with the rest of the tokens for the induction.\<close>

lemma parseLoop_tokens [case_names Nil stop operand simple equals missing space]:
  assumes "\<And>st. P [] st"
    and "\<And>tok as st. stopWord tok \<Longrightarrow> P (tok # as) st"
    and "\<And>tok as st. \<lbrakk>\<not> HasPrefix tok ''-''; \<And>st. P as st\<rbrakk> \<Longrightarrow> P (tok # as) st"
    and "\<And>tok f v e as st. \<lbrakk>HasPrefix tok ''-''; \<not> stopWord tok; Cut tok CHR ''='' = (f, v, e); \<not> valueFlags f;
      \<And>st. P as st\<rbrakk> \<Longrightarrow> P (tok # as) st"
    and "\<And>tok f v as st. \<lbrakk>HasPrefix tok ''-''; \<not> stopWord tok; Cut tok CHR ''='' = (f, v, True); valueFlags f;
      \<And>st. P as st\<rbrakk> \<Longrightarrow> P (tok # as) st"
    and "\<And>tok f v as st. \<lbrakk>HasPrefix tok ''-''; \<not> stopWord tok; Cut tok CHR ''='' = (f, v, False); valueFlags f;
      as = [] \<or> hd as = ''--''\<rbrakk> \<Longrightarrow> P (tok # as) st"
    and "\<And>tok f v w as st. \<lbrakk>HasPrefix tok ''-''; \<not> stopWord tok; Cut tok CHR ''='' = (f, v, False); valueFlags f;
      w \<noteq> ''--''; \<And>st. P as st\<rbrakk> \<Longrightarrow> P (tok # w # as) st"
  shows "P as st"
proof (induction as arbitrary: st rule: length_induct)
  case (1 as)
  show ?case
  proof (cases as)
    case Nil
    then show ?thesis using assms(1) by simp
  next
    case (Cons tok ts)
    obtain f v e where c: "Cut tok CHR ''='' = (f, v, e)"
      by (cases "Cut tok CHR ''=''")
    have IH: "P xs st" if "length xs \<le> length ts" for xs st
      using 1 Cons that by simp
    consider "stopWord tok" | "\<not> HasPrefix tok ''-''" | "HasPrefix tok ''-''" "\<not> stopWord tok" "\<not> valueFlags f"
      | "HasPrefix tok ''-''" "\<not> stopWord tok" "valueFlags f" e
      | "HasPrefix tok ''-''" "\<not> stopWord tok" "valueFlags f" "\<not> e" "ts = [] \<or> hd ts = ''--''"
      | w rest where "HasPrefix tok ''-''" "\<not> stopWord tok" "valueFlags f" "\<not> e" "ts = w # rest" "w \<noteq> ''--''"
      by (metis list.sel(1) neq_Nil_conv)
    then show ?thesis
    proof cases
      case 6
      then show ?thesis
        using assms(7) [OF 6(1,2) _ 6(3,6)] c IH [of rest] Cons by simp
    qed (use Cons c IH [of ts] assms(2-6) in auto)
  qed
qed

lemma map_sum_res_bind: "map_sum (\<lambda>e. e) g (res_bind r f) = res_bind r (\<lambda>x. map_sum (\<lambda>e. e) g (f x))"
  by (cases r) simp_all

lemma parseLoop_tail:
  "''--'' \<notin> set pre \<Longrightarrow> parseLoop (pre @ ''--'' # t) st = map_sum (\<lambda>e. e) (native_outcome t) (parseLoop pre st)"
proof (induction pre st rule: parseLoop_tokens)
  case (stop tok as st)
  then show ?case by (auto simp: stopWord_def parseLoop_stop)
next
  case (operand tok as st)
  then show ?case by (simp add: parseLoop_operand map_sum_res_bind cong: res_bind_cong)
next
  case (simple tok f v e as st)
  then show ?case by (simp add: parseLoop_simple map_sum_res_bind cong: res_bind_cong)
next
  case (equals tok f v as st)
  then show ?case by (simp add: parseLoop_equals map_sum_res_bind cong: res_bind_cong)
next
  case (missing tok f v as st)
  then have "as = []" by (cases as) auto
  then show ?case using missing by (simp add: parseLoop_space map_sum_res_bind cong: res_bind_cong)
next
  case (space tok f v w as st)
  then show ?case by (simp add: parseLoop_space map_sum_res_bind cong: res_bind_cong)
qed (simp add: parseLoop_stop)

section \<open>The invocations of the grammar\<close>

definition value_ok :: "string \<Rightarrow> bool" where
  "value_ok v \<longleftrightarrow> v \<noteq> [] \<and> \<not> HasPrefix v ''-''"

text \<open>A value with its presence flag.\<close>

definition optional :: "bool \<Rightarrow> string \<Rightarrow> bool" where
  "optional b v \<longleftrightarrow> (if b then value_ok v else v = [])"

definition host_ok :: "string \<Rightarrow> bool" where
  "host_ok h \<longleftrightarrow> h \<in> {[], HostFlagHosted, HostFlagNative, HostFlagUntracked}"

definition handle_ok :: "bool \<Rightarrow> bool \<Rightarrow> string \<Rightarrow> bool" where
  "handle_ok requested given h \<longleftrightarrow> (if given then requested \<and> \<not> HasPrefix h ''-'' else h = [])"

definition prompt_ok :: "string \<Rightarrow> bool" where
  "prompt_ok p \<longleftrightarrow> p \<in> {[], ''append'', ''replace''}"

definition permission_ok :: "bool \<Rightarrow> string \<Rightarrow> bool" where
  "permission_ok b m \<longleftrightarrow> (if b then m \<in> {''native'', ''yolo''} else m = [])"

definition policy_ok :: "string \<Rightarrow> string \<Rightarrow> bool" where
  "policy_ok m p \<longleftrightarrow> m = [] \<and> p = [] \<or> m = ''strict'' \<and> p = [] \<or>
     m = ''pinned'' \<and> (\<exists>d. binaryDigestPattern d \<and> p = sha256Pin d)"

definition env_ok :: "string \<Rightarrow> bool" where
  "env_ok e \<longleftrightarrow> value_ok e \<and> \<not> adminWord e \<and>
     e \<notin> {''claude'', ''codex'', ''openai-infra'', ''anthropic-infra''}"

text \<open>The members no launch sets, and the members the flags set.\<close>

definition launch_zero :: "Invocation \<Rightarrow> bool" where
  "launch_zero i \<longleftrightarrow> \<not> Migrate i \<and> \<not> DryRun i \<and> SessionManager i = None \<and> Werkstatt i = None \<and>
     GatewayRecovery i = None \<and> Info i = InfoNone \<and> SessionLabel i = []"

definition launch_members :: "Invocation \<Rightarrow> bool" where
  "launch_members i \<longleftrightarrow> launch_zero i \<and>
     host_ok (HostFlag i) \<and> (A2A i = [] \<or> a2aIdentityPattern (A2A i)) \<and>
     handle_ok (ResumeRequested i) (ResumeHandleSet i) (ResumeHandle i) \<and>
     optional (ResumeIDSet i) (ResumeID i) \<and> optional (ProfileSet i) (Profile i) \<and>
     optional (ModelSet i) (Model i) \<and> optional (EffortSet i) (Effort i) \<and>
     optional (NetworkSet i) (Network i) \<and> optional (NetworkKnownBad i \<noteq> []) (NetworkKnownBad i) \<and>
     prompt_ok (SystemPrompt i) \<and> permission_ok (PermissionSet i) (PermissionMode i) \<and>
     policy_ok (NetworkMode i) (NetworkPin i)"

definition launch_ok :: "Invocation \<Rightarrow> bool" where
  "launch_ok i \<longleftrightarrow> launch_members i \<and> env_ok (EnvID i) \<and>
     (GatewayRecoveryEnabled i \<longrightarrow> HostFlag i \<noteq> HostFlagHosted) \<and>
     (A2A i \<noteq> [] \<longrightarrow> \<not> ExplicitNative (HostFlag i))"

subsection \<open>The loop keeps them\<close>

definition state_ok :: "parseState \<Rightarrow> bool" where
  "state_ok st \<longleftrightarrow> launch_members (cur st) \<and> (envSet st \<longrightarrow> env_ok (EnvID (cur st))) \<and>
     (''--network-policy'' \<notin> set (seen st) \<longrightarrow> NetworkMode (cur st) = [] \<and> NetworkPin (cur st) = [])"

lemma value_predicates [simp]:
  "host_ok []" "host_ok HostFlagHosted" "host_ok HostFlagNative" "host_ok HostFlagUntracked"
  "handle_ok r False []" "handle_ok True True h \<longleftrightarrow> \<not> HasPrefix h ''-''"
  "prompt_ok []" "prompt_ok ''append''" "prompt_ok ''replace''"
  "permission_ok True ''native''" "permission_ok True ''yolo''" "permission_ok False []"
  "policy_ok [] []" "policy_ok ''strict'' []" "optional False []" "optional True v = value_ok v"
  "binaryDigestPattern d \<Longrightarrow> policy_ok ''pinned'' (sha256Pin d)"
  "handle_ok False b h \<Longrightarrow> handle_ok True b h"
  by (auto simp: host_ok_def handle_ok_def prompt_ok_def permission_ok_def policy_ok_def optional_def split: if_splits)

lemma optional_value: "optional (v \<noteq> []) v \<longleftrightarrow> v = [] \<or> value_ok v"
  by (simp add: optional_def)

lemma launch_members_noInvocation: "launch_members noInvocation"
  by (simp add: launch_members_def launch_zero_def noInvocation_def)

lemma state_ok_start: "state_ok startState"
  using launch_members_noInvocation by (simp add: state_ok_def startState_def noInvocation_def)

lemma NormalizeEnvID_ok:
  assumes "\<not> HasPrefix e ''-''" and "e \<noteq> []" and "\<not> adminWord e" and "e \<noteq> ''openai-infra''" and "e \<noteq> ''anthropic-infra''"
  shows "env_ok (NormalizeEnvID e)"
  using assms by (simp add: env_ok_def NormalizeEnvID_def value_ok_def adminWord_def HasPrefix_def)

text \<open>The assignments of the loop keep the members well formed.\<close>

lemma launch_members_updates [simp]:
  assumes "launch_members i"
  shows "launch_members (i\<lparr>EnvID := e\<rparr>)"
    and "\<not> ResumeRequested i \<Longrightarrow> launch_members (i\<lparr>ResumeRequested := True\<rparr>)"
    and "ResumeRequested i \<Longrightarrow> \<not> HasPrefix h ''-'' \<Longrightarrow> launch_members (i\<lparr>ResumeHandle := h, ResumeHandleSet := True\<rparr>)"
    and "launch_members (i\<lparr>GatewayRecoveryEnabled := b\<rparr>)"
    and "launch_members (i\<lparr>BoardGoal := b\<rparr>)" and "launch_members (i\<lparr>Detach := b\<rparr>)"
    and "launch_members (i\<lparr>Native := n\<rparr>)"
    and "permission_ok True m \<Longrightarrow> launch_members (i\<lparr>PermissionMode := m, PermissionSet := True\<rparr>)"
    and "host_ok f \<Longrightarrow> launch_members (i\<lparr>HostFlag := f\<rparr>)"
    and "a2aIdentityPattern v \<Longrightarrow> launch_members (i\<lparr>A2A := v\<rparr>)"
    and "value_ok v \<Longrightarrow> launch_members (i\<lparr>Profile := v, ProfileSet := True\<rparr>)"
    and "value_ok v \<Longrightarrow> launch_members (i\<lparr>Model := v, ModelSet := True\<rparr>)"
    and "value_ok v \<Longrightarrow> launch_members (i\<lparr>Effort := v, EffortSet := True\<rparr>)"
    and "value_ok v \<Longrightarrow> launch_members (i\<lparr>Network := v, NetworkSet := True\<rparr>)"
    and "value_ok v \<Longrightarrow> launch_members (i\<lparr>ResumeID := v, ResumeIDSet := True\<rparr>)"
    and "value_ok v \<Longrightarrow> launch_members (i\<lparr>NetworkKnownBad := v\<rparr>)"
    and "prompt_ok v \<Longrightarrow> launch_members (i\<lparr>SystemPrompt := v\<rparr>)"
    and "NetworkPin i = [] \<Longrightarrow> launch_members (i\<lparr>NetworkMode := []\<rparr>)"
    and "NetworkPin i = [] \<Longrightarrow> launch_members (i\<lparr>NetworkMode := ''strict''\<rparr>)"
    and "binaryDigestPattern d \<Longrightarrow> launch_members (i\<lparr>NetworkMode := ''pinned'', NetworkPin := sha256Pin d\<rparr>)"
  using assms by (simp_all add: launch_members_def launch_zero_def optional_value)

lemma operand_ok:
  assumes "operand tok st = Inr st'" and "\<not> HasPrefix tok ''-''" and "state_ok st"
  shows "state_ok st'"
  using assms NormalizeEnvID_ok [of tok] unfolding operand_def state_ok_def
  by (clarsimp split: if_splits; simp; fail)

lemma if_Inr: "(if b then x else y) = Inr z \<longleftrightarrow> b \<and> x = Inr z \<or> \<not> b \<and> y = Inr z"
  by simp

lemma simpleFlag_ok:
  assumes "simpleFlag tok f e st = Inr st'" and "state_ok st"
  shows "state_ok st'"
  using assms unfolding simpleFlag_def if_Inr state_ok_def
  by (elim disjE conjE; clarsimp)

lemma set_flag_ok:
  assumes "set_flag f v i = Inr i'" and "launch_members i" and "f \<noteq> ''--a2a'' \<longrightarrow> value_ok v"
    and "f = ''--network-policy'' \<longrightarrow> NetworkPin i = []"
  shows "launch_members i' \<and> EnvID i' = EnvID i \<and>
    (f \<noteq> ''--network-policy'' \<longrightarrow> NetworkMode i' = NetworkMode i \<and> NetworkPin i' = NetworkPin i)"
  using assms unfolding set_flag_def if_Inr
  by (elim disjE conjE; clarsimp split: option.splits if_splits)

lemma storeValue_ok:
  assumes "openFlag f st = Inr st1" and "storeValue f v st1 = Inr st'" and "state_ok st"
  shows "state_ok st'"
proof -
  have fresh: "f \<notin> set (seen st)" and st1: "cur st1 = cur st" "envSet st1 = envSet st" "seen st1 = f # seen st"
    using assms(1) by (auto simp: openFlag_def Let_def split: if_splits)
  have v: "v \<noteq> []" "f \<noteq> ''--a2a'' \<longrightarrow> value_ok v"
    and i: "set_flag f v (cur st) = Inr (cur st')" "envSet st' = envSet st" "seen st' = f # seen st"
    using assms(2) st1 by (auto simp: storeValue_def value_ok_def split: if_splits sum.splits)
  have "f = ''--network-policy'' \<longrightarrow> NetworkPin (cur st) = []" "launch_members (cur st)"
    using assms(3) fresh by (auto simp: state_ok_def)
  then have "launch_members (cur st') \<and> EnvID (cur st') = EnvID (cur st) \<and> (f \<noteq> ''--network-policy'' \<longrightarrow>
      NetworkMode (cur st') = NetworkMode (cur st) \<and> NetworkPin (cur st') = NetworkPin (cur st))"
    using set_flag_ok [OF i(1)] v(2) by blast
  then show ?thesis
    using assms(3) i(2,3) by (auto simp: state_ok_def)
qed

lemma parseLoop_ok:
  "parseLoop as st = Inr (Launch st' n) \<Longrightarrow> state_ok st \<Longrightarrow> state_ok st'"
proof (induction as st rule: parseLoop_tokens)
  case (stop tok as st)
  then show ?case by (auto simp: stopWord_def parseLoop_stop)
next
  case (operand tok as st)
  then show ?case using operand_ok by (auto simp: parseLoop_operand)
next
  case (simple tok f v e as st)
  then show ?case using simpleFlag_ok by (auto simp: parseLoop_simple)
next
  case (equals tok f v as st)
  then show ?case using storeValue_ok by (auto simp: parseLoop_equals)
next
  case (missing tok f v as st)
  then have "as = [] \<or> (\<exists>bs. as = ''--'' # bs)" by (cases as) auto
  then show ?case using missing by (auto simp: parseLoop_space)
next
  case (space tok f v w as st)
  then show ?case using storeValue_ok by (auto simp: parseLoop_space)
qed simp

subsection \<open>Every such invocation has an argument vector\<close>

definition valArg :: "string \<Rightarrow> bool \<Rightarrow> string \<Rightarrow> string list" where
  "valArg f b v = (if b then [f, v] else [])"

definition policyArg :: "string \<Rightarrow> string \<Rightarrow> string" where
  "policyArg m p = (if m = ''pinned'' then ''pinned:'' @ TrimPrefix p ''sha256-'' else m)"

definition launch_args :: "Invocation \<Rightarrow> string list" where
  "launch_args i = EnvID i # flagArg ''resume'' (ResumeRequested i) @ flagArg (ResumeHandle i) (ResumeHandleSet i) @
     flagArg (HostFlag i) (HostFlag i \<noteq> []) @ flagArg ''--board-goal'' (BoardGoal i) @ flagArg ''--detach'' (Detach i) @
     flagArg ''--gateway-recovery'' (GatewayRecoveryEnabled i) @ flagArg (''--a2a='' @ A2A i) (A2A i \<noteq> []) @
     valArg ''--resume'' (ResumeIDSet i) (ResumeID i) @ valArg ''--profile'' (ProfileSet i) (Profile i) @
     valArg ''--model'' (ModelSet i) (Model i) @ valArg ''--effort'' (EffortSet i) (Effort i) @
     valArg ''--network'' (NetworkSet i) (Network i) @
     valArg ''--network-known-bad'' (NetworkKnownBad i \<noteq> []) (NetworkKnownBad i) @
     valArg ''--system-prompt'' (SystemPrompt i \<noteq> []) (SystemPrompt i) @
     valArg ''--permissions'' (PermissionSet i) (PermissionMode i) @
     valArg ''--network-policy'' (NetworkMode i \<noteq> []) (policyArg (NetworkMode i) (NetworkPin i)) @ ''--'' # Native i"

definition mark :: "string \<Rightarrow> bool \<Rightarrow> string list \<Rightarrow> string list" where
  "mark f b s = (if b then f # s else s)"

lemma mark_mem [simp]: "x \<in> set (mark f b s) \<longleftrightarrow> b \<and> x = f \<or> x \<in> set s"
  by (auto simp: mark_def)

abbreviation launching :: "Invocation \<Rightarrow> string list \<Rightarrow> bool \<Rightarrow> parseState" where
  "launching c s p \<equiv> \<lparr>cur = c, seen = s, envSet = True, permissionSeen = p\<rparr>"

lemma Cut_none: "d \<notin> set f \<Longrightarrow> Cut f d = (f, [], False)"
  by (simp add: Cut_def takeWhile_eq_all_conv [THEN iffD2] dropWhile_eq_Nil_conv [THEN iffD2])

lemma Cut_eq: "d \<notin> set f \<Longrightarrow> Cut (f @ d # v) d = (f, v, True)"
  using Cut_found by metis

lemma step_flag:
  assumes "simpleFlag f f False st = Inr st'" and "HasPrefix f ''-''" and "CHR ''='' \<notin> set f" and "\<not> valueFlags f"
    and "\<not> stopWord f"
  shows "parseLoop (f # rest) st = parseLoop rest st'"
  using assms parseLoop_simple [OF assms(2,5) Cut_none [OF assms(3)] assms(4)] by simp

lemma step_value:
  assumes "set_flag f v c = Inr c'" and "value_ok v" and "valueFlags f" and "f \<notin> set s"
    and "\<not> (f = ''--permissions'' \<and> p)"
  shows "parseLoop (f # v # rest) (launching c s p) = parseLoop rest (launching c' (f # s) (p \<or> f = ''--permissions''))"
proof -
  have f: "HasPrefix f ''-''" "CHR ''='' \<notin> set f" "\<not> stopWord f"
    using assms(3) by (auto simp: valueFlags_def HasPrefix_def stopWord_def)
  have v: "v \<noteq> ''--''"
    using assms(2) by (auto simp: value_ok_def HasPrefix_def)
  show ?thesis
    using parseLoop_space(3) [OF f(1,3) Cut_none [OF f(2)] assms(3) v, of rest "launching c s p"] assms
    by (cases p) (auto simp: openFlag_def storeValue_def value_ok_def Let_def)
qed

lemma step_a2a:
  assumes "a2aIdentityPattern v" and "''--a2a'' \<notin> set s"
  shows "parseLoop ((''--a2a='' @ v) # rest) (launching c s p) = parseLoop rest (launching (c\<lparr>A2A := v\<rparr>) (''--a2a'' # s) p)"
proof -
  have c: "Cut (''--a2a='' @ v) CHR ''='' = (''--a2a'', v, True)"
    using Cut_eq [of "CHR ''=''" "''--a2a''" v] by simp
  have "HasPrefix (''--a2a='' @ v) ''-''" "\<not> stopWord (''--a2a='' @ v)" "valueFlags ''--a2a''" "v \<noteq> []"
    using assms(1) by (auto simp: stopWord_def valueFlags_def HasPrefix_def a2aIdentityPattern_def)
  then show ?thesis
    using parseLoop_equals [OF _ _ c, of rest "launching c s p"] assms
    by (simp add: openFlag_def storeValue_def set_flag_def)
qed

text \<open>A member that already has its value.\<close>

lemma update_same [simp]:
  fixes c :: Invocation
  shows "ResumeRequested c = b \<Longrightarrow> c\<lparr>ResumeRequested := b\<rparr> = c" "ResumeHandle c = v \<Longrightarrow> c\<lparr>ResumeHandle := v\<rparr> = c"
    "ResumeHandleSet c = b \<Longrightarrow> c\<lparr>ResumeHandleSet := b\<rparr> = c" "HostFlag c = v \<Longrightarrow> c\<lparr>HostFlag := v\<rparr> = c"
    "BoardGoal c = b \<Longrightarrow> c\<lparr>BoardGoal := b\<rparr> = c" "Detach c = b \<Longrightarrow> c\<lparr>Detach := b\<rparr> = c"
    "GatewayRecoveryEnabled c = b \<Longrightarrow> c\<lparr>GatewayRecoveryEnabled := b\<rparr> = c" "A2A c = v \<Longrightarrow> c\<lparr>A2A := v\<rparr> = c"
    "ResumeID c = v \<Longrightarrow> c\<lparr>ResumeID := v\<rparr> = c" "ResumeIDSet c = b \<Longrightarrow> c\<lparr>ResumeIDSet := b\<rparr> = c"
    "Profile c = v \<Longrightarrow> c\<lparr>Profile := v\<rparr> = c" "ProfileSet c = b \<Longrightarrow> c\<lparr>ProfileSet := b\<rparr> = c"
    "Model c = v \<Longrightarrow> c\<lparr>Model := v\<rparr> = c" "ModelSet c = b \<Longrightarrow> c\<lparr>ModelSet := b\<rparr> = c"
    "Effort c = v \<Longrightarrow> c\<lparr>Effort := v\<rparr> = c" "EffortSet c = b \<Longrightarrow> c\<lparr>EffortSet := b\<rparr> = c"
    "Network c = v \<Longrightarrow> c\<lparr>Network := v\<rparr> = c" "NetworkSet c = b \<Longrightarrow> c\<lparr>NetworkSet := b\<rparr> = c"
    "NetworkKnownBad c = v \<Longrightarrow> c\<lparr>NetworkKnownBad := v\<rparr> = c" "SystemPrompt c = v \<Longrightarrow> c\<lparr>SystemPrompt := v\<rparr> = c"
    "PermissionMode c = v \<Longrightarrow> c\<lparr>PermissionMode := v\<rparr> = c" "PermissionSet c = b \<Longrightarrow> c\<lparr>PermissionSet := b\<rparr> = c"
    "NetworkMode c = v \<Longrightarrow> c\<lparr>NetworkMode := v\<rparr> = c" "NetworkPin c = v \<Longrightarrow> c\<lparr>NetworkPin := v\<rparr> = c"
    "Native c = n \<Longrightarrow> c\<lparr>Native := n\<rparr> = c"
  by (auto intro: Invocation.equality)

text \<open>Each segment of the vector sets its members and nothing else.\<close>

lemma seg_env: "env_ok e \<Longrightarrow> parseLoop (e # rest) startState = parseLoop rest (launching (noInvocation\<lparr>EnvID := e\<rparr>) [] False)"
  by (simp add: parseLoop_operand env_ok_def value_ok_def operand_def startState_def NormalizeEnvID_def)

lemma seg_resume:
  "\<not> ResumeRequested c \<Longrightarrow> parseLoop (flagArg ''resume'' b @ rest) (launching c s p) =
     parseLoop rest (launching (c\<lparr>ResumeRequested := b\<rparr>) s p)"
  by (cases b) (simp_all add: flagArg_def parseLoop_operand operand_def HasPrefix_def)

lemma seg_handle:
  "\<lbrakk>handle_ok (ResumeRequested c) b h; ResumeHandle c = []; \<not> ResumeHandleSet c\<rbrakk> \<Longrightarrow>
     parseLoop (flagArg h b @ rest) (launching c s p) =
     parseLoop rest (launching (c\<lparr>ResumeHandle := h, ResumeHandleSet := b\<rparr>) s p)"
  by (cases b) (simp_all add: flagArg_def parseLoop_operand operand_def handle_ok_def)

lemma seg_host:
  "\<lbrakk>host_ok h; HostFlag c = []\<rbrakk> \<Longrightarrow> parseLoop (flagArg h (h \<noteq> []) @ rest) (launching c s p) =
     parseLoop rest (launching (c\<lparr>HostFlag := h\<rparr>) s p)"
  by (auto simp: host_ok_def flagArg_def simpleFlag_def HasPrefix_def valueFlags_def stopWord_def intro!: step_flag)

lemma seg_flags:
  "\<lbrakk>\<not> BoardGoal c; ''--board-goal'' \<notin> set s\<rbrakk> \<Longrightarrow>
     parseLoop (flagArg ''--board-goal'' b @ rest) (launching c s p) =
     parseLoop rest (launching (c\<lparr>BoardGoal := b\<rparr>) (mark ''--board-goal'' b s) p)"
  "\<lbrakk>\<not> Detach c; ''--detach'' \<notin> set s\<rbrakk> \<Longrightarrow>
     parseLoop (flagArg ''--detach'' b @ rest) (launching c s p) =
     parseLoop rest (launching (c\<lparr>Detach := b\<rparr>) (mark ''--detach'' b s) p)"
  "\<lbrakk>\<not> GatewayRecoveryEnabled c; ''--gateway-recovery'' \<notin> set s\<rbrakk> \<Longrightarrow>
     parseLoop (flagArg ''--gateway-recovery'' b @ rest) (launching c s p) =
     parseLoop rest (launching (c\<lparr>GatewayRecoveryEnabled := b\<rparr>) (mark ''--gateway-recovery'' b s) p)"
  by (cases b; simp add: flagArg_def mark_def step_flag simpleFlag_def HasPrefix_def valueFlags_def stopWord_def)+

lemma seg_a2a:
  "\<lbrakk>v = [] \<or> a2aIdentityPattern v; A2A c = []; ''--a2a'' \<notin> set s\<rbrakk> \<Longrightarrow>
     parseLoop (flagArg (''--a2a='' @ v) (v \<noteq> []) @ rest) (launching c s p) =
     parseLoop rest (launching (c\<lparr>A2A := v\<rparr>) (mark ''--a2a'' (v \<noteq> []) s) p)"
  using step_a2a [of v s rest c p] by (cases "v = []") (simp_all add: flagArg_def mark_def)

lemma seg_values:
  "\<lbrakk>optional b v; ResumeID c = []; \<not> ResumeIDSet c; ''--resume'' \<notin> set s\<rbrakk> \<Longrightarrow>
     parseLoop (valArg ''--resume'' b v @ rest) (launching c s p) =
     parseLoop rest (launching (c\<lparr>ResumeID := v, ResumeIDSet := b\<rparr>) (mark ''--resume'' b s) p)"
  "\<lbrakk>optional b v; Profile c = []; \<not> ProfileSet c; ''--profile'' \<notin> set s\<rbrakk> \<Longrightarrow>
     parseLoop (valArg ''--profile'' b v @ rest) (launching c s p) =
     parseLoop rest (launching (c\<lparr>Profile := v, ProfileSet := b\<rparr>) (mark ''--profile'' b s) p)"
  "\<lbrakk>optional b v; Model c = []; \<not> ModelSet c; ''--model'' \<notin> set s\<rbrakk> \<Longrightarrow>
     parseLoop (valArg ''--model'' b v @ rest) (launching c s p) =
     parseLoop rest (launching (c\<lparr>Model := v, ModelSet := b\<rparr>) (mark ''--model'' b s) p)"
  "\<lbrakk>optional b v; Effort c = []; \<not> EffortSet c; ''--effort'' \<notin> set s\<rbrakk> \<Longrightarrow>
     parseLoop (valArg ''--effort'' b v @ rest) (launching c s p) =
     parseLoop rest (launching (c\<lparr>Effort := v, EffortSet := b\<rparr>) (mark ''--effort'' b s) p)"
  "\<lbrakk>optional b v; Network c = []; \<not> NetworkSet c; ''--network'' \<notin> set s\<rbrakk> \<Longrightarrow>
     parseLoop (valArg ''--network'' b v @ rest) (launching c s p) =
     parseLoop rest (launching (c\<lparr>Network := v, NetworkSet := b\<rparr>) (mark ''--network'' b s) p)"
  by (cases b; simp add: valArg_def mark_def optional_def step_value set_flag_def valueFlags_def)+

lemma prompt_ok_value: "prompt_ok v \<Longrightarrow> v \<noteq> [] \<Longrightarrow> value_ok v \<and> (v = ''append'' \<or> v = ''replace'')"
  by (auto simp: prompt_ok_def value_ok_def HasPrefix_def)

lemma seg_choices:
  "\<lbrakk>v = [] \<or> value_ok v; NetworkKnownBad c = []; ''--network-known-bad'' \<notin> set s\<rbrakk> \<Longrightarrow>
     parseLoop (valArg ''--network-known-bad'' (v \<noteq> []) v @ rest) (launching c s p) =
     parseLoop rest (launching (c\<lparr>NetworkKnownBad := v\<rparr>) (mark ''--network-known-bad'' (v \<noteq> []) s) p)"
  "\<lbrakk>prompt_ok v; SystemPrompt c = []; ''--system-prompt'' \<notin> set s\<rbrakk> \<Longrightarrow>
     parseLoop (valArg ''--system-prompt'' (v \<noteq> []) v @ rest) (launching c s p) =
     parseLoop rest (launching (c\<lparr>SystemPrompt := v\<rparr>) (mark ''--system-prompt'' (v \<noteq> []) s) p)"
  by (cases "v = []"; simp add: valArg_def mark_def step_value set_flag_def valueFlags_def prompt_ok_value)+

lemma seg_permissions:
  "\<lbrakk>permission_ok b v; PermissionMode c = []; \<not> PermissionSet c; ''--permissions'' \<notin> set s\<rbrakk> \<Longrightarrow>
     parseLoop (valArg ''--permissions'' b v @ rest) (launching c s False) =
     parseLoop rest (launching (c\<lparr>PermissionMode := v, PermissionSet := b\<rparr>) (mark ''--permissions'' b s) b)"
proof (cases b)
  case True
  assume ok: "permission_ok b v" and fresh: "''--permissions'' \<notin> set s"
  have v: "value_ok v" "v = ''native'' \<or> v = ''yolo''"
    using ok True by (auto simp: permission_ok_def value_ok_def HasPrefix_def)
  then have "set_flag ''--permissions'' v c = Inr (c\<lparr>PermissionMode := v, PermissionSet := True\<rparr>)"
    by (simp add: set_flag_def)
  from step_value [OF this v(1) _ fresh, of False rest] show ?thesis
    using True by (simp add: valArg_def mark_def valueFlags_def)
qed (simp add: valArg_def mark_def permission_ok_def)

lemma seg_policy:
  assumes "policy_ok m n" and "NetworkMode c = []" and "NetworkPin c = []" and "''--network-policy'' \<notin> set s"
  shows "parseLoop (valArg ''--network-policy'' (m \<noteq> []) (policyArg m n) @ rest) (launching c s p) =
    parseLoop rest (launching (c\<lparr>NetworkMode := m, NetworkPin := n\<rparr>) (mark ''--network-policy'' (m \<noteq> []) s) p)"
proof -
  consider "m = []" "n = []" | "m = ''strict''" "n = []" | d where "m = ''pinned''" "binaryDigestPattern d" "n = sha256Pin d"
    using assms(1) by (auto simp: policy_ok_def)
  then show ?thesis
  proof cases
    case 3
    have a: "policyArg m n = ''pinned:'' @ d"
      using 3 by (simp add: policyArg_def sha256Pin_def TrimPrefix_def HasPrefix_def)
    have "set_flag ''--network-policy'' (''pinned:'' @ d) c = Inr (c\<lparr>NetworkMode := ''pinned'', NetworkPin := sha256Pin d\<rparr>)"
      using 3(2) CutPrefix_Some [of "''pinned:'' @ d" "''pinned:''" d] by (simp add: set_flag_def)
    from step_value [OF this, of s p rest] show ?thesis
      using assms(4) 3(1,3) a by (simp add: valArg_def mark_def value_ok_def HasPrefix_def valueFlags_def)
  next
    case 2
    have "set_flag ''--network-policy'' ''strict'' c = Inr (c\<lparr>NetworkMode := ''strict''\<rparr>)"
      by (simp add: set_flag_def)
    from step_value [OF this _ _ assms(4), of p rest] show ?thesis
      using assms(3) 2 by (simp add: valArg_def mark_def policyArg_def value_ok_def HasPrefix_def valueFlags_def)
  qed (use assms in \<open>simp add: valArg_def mark_def\<close>)
qed

lemma parseLoop_launch_args:
  assumes "launch_ok i"
  shows "\<exists>s p. parseLoop (launch_args i) startState = Inr (Launch (launching (i\<lparr>Native := []\<rparr>) s p) (Native i))"
proof -
  have zero: "i\<lparr>Native := []\<rparr> = noInvocation\<lparr>EnvID := EnvID i, ResumeRequested := ResumeRequested i,
      ResumeHandle := ResumeHandle i, ResumeHandleSet := ResumeHandleSet i, HostFlag := HostFlag i,
      BoardGoal := BoardGoal i, Detach := Detach i, GatewayRecoveryEnabled := GatewayRecoveryEnabled i,
      A2A := A2A i, ResumeID := ResumeID i, ResumeIDSet := ResumeIDSet i, Profile := Profile i,
      ProfileSet := ProfileSet i, Model := Model i, ModelSet := ModelSet i, Effort := Effort i,
      EffortSet := EffortSet i, Network := Network i, NetworkSet := NetworkSet i,
      NetworkKnownBad := NetworkKnownBad i, SystemPrompt := SystemPrompt i, PermissionMode := PermissionMode i,
      PermissionSet := PermissionSet i, NetworkMode := NetworkMode i, NetworkPin := NetworkPin i\<rparr>"
    using assms by (intro Invocation.equality) (simp_all add: launch_ok_def launch_members_def launch_zero_def noInvocation_def)
  note ok = assms [unfolded launch_ok_def launch_members_def optional_value]
  show ?thesis
    unfolding zero launch_args_def using ok
    by (simp add: seg_env seg_resume seg_handle seg_host seg_flags seg_a2a seg_values seg_choices seg_permissions
        seg_policy parseLoop_stop noInvocation_def del: append.simps)
qed

section \<open>The whole grammar\<close>

definition invocation_ok :: "Invocation \<Rightarrow> bool" where
  "invocation_ok i \<longleftrightarrow> launch_ok i \<or>
     (\<exists>h. h \<noteq> InfoNone \<and> i = noInvocation\<lparr>Info := h\<rparr>) \<or>
     (\<exists>d. i = noInvocation\<lparr>Migrate := True, DryRun := d\<rparr>) \<or>
     (\<exists>c. station_fields c \<and> station_complete c \<and> i = noInvocation\<lparr>Werkstatt := Some c\<rparr>) \<or>
     (\<exists>c. session_ok c \<and> i = noInvocation\<lparr>SessionManager := Some c\<rparr>) \<or>
     (\<exists>a. publicAttempt a \<and> i = noInvocation\<lparr>GatewayRecovery := Some a\<rparr>)"

definition invocation_args :: "Invocation \<Rightarrow> string list" where
  "invocation_args i = (case (Info i, Werkstatt i, SessionManager i, GatewayRecovery i) of
     (InfoHelp, _, _, _) \<Rightarrow> [''--help'']
   | (InfoVersion, _, _, _) \<Rightarrow> [''--version'']
   | (InfoNone, Some c, _, _) \<Rightarrow> ''werkstatt'' # command_args c
   | (InfoNone, None, Some c, _) \<Rightarrow> ''session-manager'' # session_args c
   | (InfoNone, None, None, Some a) \<Rightarrow> [''gateway'', ''recover'', ''--attempt'', a]
   | (InfoNone, None, None, None) \<Rightarrow>
       if Migrate i then ''migrate'' # flagArg ''--dry-run'' (DryRun i) else launch_args i)"

lemma Parse_launch:
  "args = [] \<or> \<not> adminWord (hd args) \<Longrightarrow> Parse args = parseLaunch args"
  by (cases args) (auto simp: Parse_def adminWord_def)

lemma parseLoop_Asked: "parseLoop as st = Inr (Asked h) \<Longrightarrow> h \<noteq> InfoNone"
proof (induction as st rule: parseLoop_tokens)
  case (stop tok as st)
  then show ?case by (auto simp: stopWord_def parseLoop_stop)
next
  case (operand tok as st)
  then show ?case by (auto simp: parseLoop_operand)
next
  case (simple tok f v e as st)
  then show ?case by (auto simp: parseLoop_simple)
next
  case (equals tok f v as st)
  then show ?case by (auto simp: parseLoop_equals)
next
  case (missing tok f v as st)
  then have "as = [] \<or> (\<exists>bs. as = ''--'' # bs)" by (cases as) auto
  then show ?case using missing by (auto simp: parseLoop_space)
next
  case (space tok f v w as st)
  then show ?case by (auto simp: parseLoop_space)
qed simp

lemma launchChecks_ok:
  assumes "launchChecks st n = Inr i" and "state_ok st"
  shows "launch_ok i \<and> i = cur st\<lparr>Native := n\<rparr>"
  using assms by (auto simp: launchChecks_def state_ok_def launch_ok_def split: if_splits)

lemma parseLaunch_sound:
  assumes "parseLaunch args = Inr i"
  shows "launch_ok i \<or> (\<exists>h. h \<noteq> InfoNone \<and> i = noInvocation\<lparr>Info := h\<rparr>)"
proof -
  consider h where "parseLoop args startState = Inr (Asked h)" "i = noInvocation\<lparr>Info := h\<rparr>"
    | st n where "parseLoop args startState = Inr (Launch st n)" "launchChecks st n = Inr i"
    using assms by (auto simp: parseLaunch_def split: sum.splits outcome.splits)
  then show ?thesis
  proof cases
    case 1
    then show ?thesis using parseLoop_Asked by blast
  next
    case 2
    then show ?thesis using launchChecks_ok parseLoop_ok state_ok_start by blast
  qed
qed

lemma Parse_sound:
  assumes "Parse args = Inr i"
  shows "invocation_ok i"
proof (cases "args = [] \<or> \<not> adminWord (hd args)")
  case True
  then show ?thesis
    using assms parseLaunch_sound by (auto simp: Parse_launch invocation_ok_def)
next
  case False
  then obtain a as where args: "args = a # as" "adminWord a"
    by (cases args) auto
  then consider "a = ''gateway''" | "a = ''werkstatt''" | "a = ''session-manager''" | "a = ''migrate''"
    by (auto simp: adminWord_def)
  then show ?thesis
  proof cases
    case 1
    then have "parseGatewayRecovery args = Inr i"
      using assms args by (simp add: Parse_def)
    then show ?thesis
      unfolding parseGatewayRecovery_def invocation_ok_def by (auto split: if_splits)
  next
    case 2
    then obtain c where "ParseCommand as = Inr c" "i = noInvocation\<lparr>Werkstatt := Some c\<rparr>"
      using assms args by (auto simp: Parse_def split: sum.splits)
    then show ?thesis
      using ParseCommand_sound unfolding invocation_ok_def by blast
  next
    case 3
    then obtain c where "parseSessionManager as = Inr c" "i = noInvocation\<lparr>SessionManager := Some c\<rparr>"
      using assms args by (auto simp: Parse_def split: sum.splits)
    then show ?thesis
      using parse_sound unfolding invocation_ok_def by blast
  next
    case 4
    then have "i = noInvocation\<lparr>Migrate := True\<rparr> \<or> i = noInvocation\<lparr>Migrate := True, DryRun := True\<rparr>"
      using assms args by (auto simp: Parse_def split: if_splits)
    moreover have "noInvocation\<lparr>Migrate := True\<rparr> = noInvocation\<lparr>Migrate := True, DryRun := False\<rparr>"
      by (simp add: noInvocation_def)
    ultimately show ?thesis
      unfolding invocation_ok_def by metis
  qed
qed

lemma Parse_complete:
  assumes "invocation_ok i"
  shows "Parse (invocation_args i) = Inr i"
proof -
  have zero: "Info noInvocation = InfoNone" "Werkstatt noInvocation = None" "SessionManager noInvocation = None"
    "GatewayRecovery noInvocation = None" "\<not> Migrate noInvocation" "\<not> DryRun noInvocation"
    by (simp_all add: noInvocation_def)
  consider "launch_ok i" | h where "h \<noteq> InfoNone" "i = noInvocation\<lparr>Info := h\<rparr>"
    | d where "i = noInvocation\<lparr>Migrate := True, DryRun := d\<rparr>"
    | c where "station_fields c \<and> station_complete c" "i = noInvocation\<lparr>Werkstatt := Some c\<rparr>"
    | c where "session_ok c" "i = noInvocation\<lparr>SessionManager := Some c\<rparr>"
    | a where "publicAttempt a" "i = noInvocation\<lparr>GatewayRecovery := Some a\<rparr>"
    using assms unfolding invocation_ok_def by blast
  then show ?thesis
  proof cases
    case 1
    then have a: "invocation_args i = launch_args i"
      by (simp add: invocation_args_def launch_ok_def launch_members_def launch_zero_def)
    obtain s p where l: "parseLoop (launch_args i) startState = Inr (Launch (launching (i\<lparr>Native := []\<rparr>) s p) (Native i))"
      using parseLoop_launch_args [OF 1] by blast
    have "\<not> adminWord (hd (launch_args i))"
      using 1 by (simp add: launch_args_def launch_ok_def env_ok_def)
    then show ?thesis
      using 1 l a by (auto simp: Parse_launch parseLaunch_def launchChecks_def launch_ok_def)
  next
    case 2
    then show ?thesis
      by (cases h) (simp_all add: invocation_args_def Parse_def parseLaunch_def parseLoop_stop)
  next
    case 3
    then show ?thesis
      using zero by (cases d) (simp_all add: invocation_args_def Parse_def flagArg_def noInvocation_def)
  next
    case 4
    then show ?thesis
      using zero ParseCommand_complete [of c] by (simp add: invocation_args_def Parse_def)
  next
    case 5
    then show ?thesis
      using zero parse_complete [of c] by (simp add: invocation_args_def Parse_def)
  next
    case 6
    then show ?thesis
      using zero by (simp add: invocation_args_def Parse_def parseGatewayRecovery_def)
  qed
qed

section \<open>Properties\<close>

text \<open>C2. \<open>Parse\<close> returns exactly the well-formed invocations: an informational outcome alone,
  one administrative command of its own grammar, or a launch whose members have passed their
  checks. In a launch the environment identifier is canonical (never an alias, an
  administrative word or empty), a value is present exactly when its \<open>Set\<close> member says so,
  permissions, prompt and network policy lie in their vocabularies, an \<open>a2a\<close> identity excludes
  explicit native execution and gateway recovery excludes \<open>--hosted\<close>. Each such invocation is
  read back from the vector \<open>invocation_args\<close> prints for it.\<close>

theorem cli_language:
  "((\<exists>args. Parse args = Inr i) \<longleftrightarrow> invocation_ok i) \<and> (Parse (invocation_args i) = Inr i \<longleftrightarrow> invocation_ok i)"
  using Parse_sound Parse_complete by blast

text \<open>Everything after the first \<open>--\<close> is native argv, verbatim and in order, and has no
  other effect: appending a separator and any tokens to a launch command line without one
  changes its outcome in the \<open>Native\<close> member only, and not at all when it is refused or
  informational.\<close>

lemma cli_native_tail:
  assumes "''--'' \<notin> set pre" and "pre = [] \<or> \<not> adminWord (hd pre)"
  shows "Parse (pre @ ''--'' # t) = (case Parse pre of Inl e \<Rightarrow> Inl e
    | Inr i \<Rightarrow> Inr (if Info i = InfoNone then i\<lparr>Native := t\<rparr> else i))"
proof -
  have p: "Parse (pre @ ''--'' # t) = parseLaunch (pre @ ''--'' # t)" "Parse pre = parseLaunch pre"
    using assms(2) by (auto simp: Parse_launch adminWord_def hd_append)
  have tail: "parseLoop (pre @ ''--'' # t) startState = map_sum (\<lambda>e. e) (native_outcome t) (parseLoop pre startState)"
    using parseLoop_tail [OF assms(1)] .
  consider e where "parseLoop pre startState = Inl e" | h where "parseLoop pre startState = Inr (Asked h)"
    | st n where "parseLoop pre startState = Inr (Launch st n)"
    by (metis obj_sumE outcome.exhaust)
  then show ?thesis
  proof cases
    case 2
    then show ?thesis
      using parseLoop_Asked [OF 2] by (simp add: p tail parseLaunch_def)
  next
    case 3
    then have "Info (cur st) = InfoNone"
      using parseLoop_ok state_ok_start by (auto simp: state_ok_def launch_members_def launch_zero_def)
    then show ?thesis
      using 3 by (simp add: p tail parseLaunch_def launchChecks_def)
  qed (simp add: p tail parseLaunch_def)
qed

text \<open>The two spellings of a flag with a value agree: at any point of the line and in any
  state, \<open>--flag value\<close> and \<open>--flag=value\<close> have the same outcome, refusals included, unless the
  value is the separator itself.\<close>

lemma cli_value_spellings:
  assumes "valueFlags f" and "v \<noteq> ''--''"
  shows "parseLoop (f # v # rest) st = parseLoop ((f @ CHR ''='' # v) # rest) st"
proof -
  have f: "HasPrefix f ''-''" "CHR ''='' \<notin> set f" "\<not> stopWord f"
    using assms(1) by (auto simp: valueFlags_def HasPrefix_def stopWord_def)
  have e: "HasPrefix (f @ CHR ''='' # v) ''-''" "\<not> stopWord (f @ CHR ''='' # v)"
    using assms(1) by (auto simp: valueFlags_def HasPrefix_def stopWord_def)
  show ?thesis
    using parseLoop_space(3) [OF f(1,3) Cut_none [OF f(2)] assms(1,2)] parseLoop_equals [OF e Cut_eq [OF f(2)] assms(1)]
    by simp
qed

text \<open>The refusals of the two administrative grammars quote only the closed grammar: the action or
  operation once it is a known one, at most one known flag, and a fixed text. No operand, value,
  identifier, path, handle or unknown token reaches a message.\<close>

lemma command_refusal_quotes:
  "(\<forall>args e. WerkstattCommand.ParseCommand args = Inl e \<longrightarrow>
      e = NeedsAction \<and> args = [] \<or> e = UnknownAction \<and> hd args \<notin> set actions \<or>
      hd args \<in> set actions \<and> WerkstattGrammar.quotes_grammar (hd args) e) \<and>
    (\<forall>args e. parseSessionManager args = Inl e \<longrightarrow>
      e = NeedsOperation \<and> args = [] \<or> e = UnknownOperation \<and> hd args \<notin> set operations \<or>
      hd args \<in> set operations \<and> SessionCommand.quotes_grammar (hd args) e)"
  using werkstatt_refusal_quotes session_refusal_quotes by blast

end
