(* ===== verification/SessionRegistry.thy ===== *)
theory SessionRegistry
  imports SessionCommand FragmentJsonReader "HOL-Library.AList"
begin

text \<open>
  \<open>internal/sessionmanager/registry.go\<close> and the policy of \<open>internal/configfile/locations.go\<close>:
  the closed reader of the session-manager registry, its manifests, the machine-first lookup
  and the selected manager. A Go map from identifiers is an association list with distinct
  keys. Files are read through a parameter that stands for \<open>configfile.Read\<close>.
\<close>

section \<open>Configuration files\<close>

record fileRead =
  data :: string
  present :: bool
  readErr :: "string option"

record Locations =
  System :: string
  User :: string
  LegacySystem :: string
  LegacyUser :: string

datatype layer = SystemLayer | UserLayer

definition Directories :: "Locations \<Rightarrow> layer \<Rightarrow> string \<times> string" where
  "Directories l ly = (case ly of UserLayer \<Rightarrow> (User l, LegacyUser l) | SystemLayer \<Rightarrow> (System l, LegacySystem l))"

text \<open>\<open>filepath.Clean\<close> and \<open>filepath.Join\<close> on a Unix path: empty and \<open>.\<close> elements go, \<open>..\<close>
  removes the element before it, and a rooted path stays rooted. The stack is reversed.\<close>

fun clean_elems :: "bool \<Rightarrow> string list \<Rightarrow> string list \<Rightarrow> string list" where
  "clean_elems rooted [] st = st"
| "clean_elems rooted (e # es) st =
     (if e = [] \<or> e = ''.'' then clean_elems rooted es st
      else if e = ''..'' then
        (case st of
           [] \<Rightarrow> clean_elems rooted es (if rooted then [] else [''..''])
         | d # ds \<Rightarrow> clean_elems rooted es (if d = ''..'' then ''..'' # st else ds))
      else clean_elems rooted es (e # st))"

definition Clean :: "string \<Rightarrow> string" where
  "Clean p =
     (let rooted = HasPrefix p ''/'';
          body = Join (List.rev (clean_elems rooted (Split p CHR ''/'') [])) ''/''
      in if rooted then CHR ''/'' # body else if body = [] then ''.'' else body)"

definition JoinPath :: "string \<Rightarrow> string \<Rightarrow> string" where
  "JoinPath d n = (case filter (\<lambda>e. e \<noteq> []) [d, n] of [] \<Rightarrow> [] | es \<Rightarrow> Clean (Join es ''/''))"

definition ConfigLocations :: "string \<Rightarrow> string \<Rightarrow> Locations" where
  "ConfigLocations xdg home =
     (let x = (if xdg = [] then JoinPath home ''.config'' else xdg)
      in \<lparr>System = ''/etc/swarma/launcher'', User = JoinPath x ''swarma/launcher'',
          LegacySystem = ''/etc/curator-run'', LegacyUser = JoinPath x ''curator-run''\<rparr>)"

text \<open>One line per warning; \<open>linePath\<close> and \<open>oneLine\<close> are the same replacer.\<close>

definition oneLine :: "string \<Rightarrow> string" where
  "oneLine s = concat (map (\<lambda>c. if c = CHR 0x0D then [bslash, CHR ''r''] else if c = CHR 0x0A then [bslash, CHR ''n''] else [c]) s)"

text \<open>\<open>Resolver.Read\<close>. \<open>stderr\<close> is \<open>None\<close> without a writer; a writer maps the warning to the
  error of the write.\<close>

definition ResolverRead ::
  "Locations \<Rightarrow> (string \<Rightarrow> string option) option \<Rightarrow> (string \<Rightarrow> fileRead) \<Rightarrow> layer \<Rightarrow> string \<Rightarrow> fileRead \<times> string" where
  "ResolverRead locs stderr rd ly name =
     (let (current, legacy) = Directories locs ly; path = JoinPath current name; r = rd path
      in if readErr r \<noteq> None \<or> present r \<or> legacy = [] then (r, path)
         else let old = JoinPath legacy name; q = rd old
              in if present q \<or> readErr q \<noteq> None then
                   (case stderr of None \<Rightarrow> (q, old)
                    | Some w \<Rightarrow>
                        let we = w (''curator-run: deprecated config path '' @ oneLine old @ ''; move it to ''
                               @ oneLine path @ '' (curator-run migrate)'' @ [CHR 0x0A])
                        in (if readErr q = None \<and> we \<noteq> None then q\<lparr>readErr := we\<rparr> else q, old))
                 else (q, path))"

section \<open>Errors\<close>

abbreviation CodeInvalid :: string where "CodeInvalid \<equiv> ''session_manager_registry_invalid''"
abbreviation CodeUnwritable :: string where "CodeUnwritable \<equiv> ''session_manager_registry_unwritable''"
abbreviation CodeShadowed :: string where "CodeShadowed \<equiv> ''session_manager_registry_shadowed''"
abbreviation CodeNotRegistered :: string where "CodeNotRegistered \<equiv> ''session_manager_not_registered''"
abbreviation CodeHostMissing :: string where "CodeHostMissing \<equiv> ''session_host_missing''"

text \<open>The wrapped \<open>Err\<close>, which no message prints, is kept as its text.\<close>

record regError =
  Code :: string
  Path :: string
  Reason :: string
  ErrID :: string
  ErrScope :: string
  Err :: string

definition regError_of :: "string \<Rightarrow> regError" where
  "regError_of c = \<lparr>Code = c, Path = [], Reason = [], ErrID = [], ErrScope = [], Err = []\<rparr>"

definition invalid :: "string \<Rightarrow> string \<Rightarrow> string \<Rightarrow> regError" where
  "invalid path reason err = (regError_of CodeInvalid)\<lparr>Path := path, Reason := reason, Err := err\<rparr>"

section \<open>The registry\<close>

record Entry =
  Executable :: string
  ArgvPrefix :: "string list"
  Protocol :: string
  RegisteredAt :: string
  RegisteredBy :: string

record Registry =
  Selected :: string
  Managers :: "(string \<times> Entry) list"

definition EmptyRegistry :: Registry where
  "EmptyRegistry = \<lparr>Selected = [], Managers = []\<rparr>"

abbreviation SchemaName :: string where "SchemaName \<equiv> ''curator-run-session-managers-v1''"
abbreviation ProtocolName :: string where "ProtocolName \<equiv> ''curator-session-manager/1''"

text \<open>\<open>object\<close>: a closed object with its required members.\<close>

definition object :: "jvalue \<Rightarrow> string list \<Rightarrow> string list \<Rightarrow> string + unit" where
  "object v required optional = (case v of
     JObject ms \<Rightarrow>
       if \<not> list_all (\<lambda>(k, _). k \<in> set (required @ optional)) ms then Inl ''unknown member''
       else if \<not> list_all (\<lambda>k. Get v k \<noteq> None) required then Inl ''missing member''
       else Inr ()
   | _ \<Rightarrow> Inl ''expected object'')"

definition stringMember :: "jvalue \<Rightarrow> string \<Rightarrow> string + string" where
  "stringMember v key = (case Get v key of Some (JString s) \<Rightarrow> Inr s | _ \<Rightarrow> Inl ''expected string'')"

text \<open>\<open>registeredByPattern\<close>, \<open>argumentPattern\<close>.\<close>

definition registeredByPattern :: "string \<Rightarrow> bool" where
  "registeredByPattern s \<longleftrightarrow> 1 \<le> length s \<and> length s \<le> 128 \<and> list_all (\<lambda>c. CHR '' '' \<le> c \<and> c \<le> CHR ''~'') s"

definition argumentPattern :: "string \<Rightarrow> bool" where
  "argumentPattern s \<longleftrightarrow> 1 \<le> length s \<and> length s \<le> 32 \<and> list_all (\<lambda>c. id_byte c \<or> c = CHR ''-'') s"

text \<open>A UTC timestamp: \<open>timestampPattern\<close> together with the ranges \<open>time.Parse\<close> checks for
  the \<open>RFC3339Nano\<close> layout. The offsets the pattern admits are all zero.\<close>

definition leap :: "nat \<Rightarrow> bool" where
  "leap y \<longleftrightarrow> y mod 4 = 0 \<and> (y mod 100 \<noteq> 0 \<or> y mod 400 = 0)"

definition days_in :: "nat \<Rightarrow> nat \<Rightarrow> nat" where
  "days_in y m = (if m = 2 then (if leap y then 29 else 28) else if m \<in> {4, 6, 9, 11} then 30 else 31)"

definition digits_at :: "string \<Rightarrow> nat \<Rightarrow> nat \<Rightarrow> bool" where
  "digits_at s i n \<longleftrightarrow> list_all is_digit (take n (drop i s))"

definition num_at :: "string \<Rightarrow> nat \<Rightarrow> nat \<Rightarrow> nat" where
  "num_at s i n = dec_value (take n (drop i s))"

definition zone_suffix :: "string \<Rightarrow> bool" where
  "zone_suffix t \<longleftrightarrow> t = ''Z'' \<or> t = ''+00:00'' \<or> t = ''-00:00''"

definition timestamp :: "string \<Rightarrow> bool" where
  "timestamp s \<longleftrightarrow> 19 \<le> length s \<and>
     digits_at s 0 4 \<and> digits_at s 5 2 \<and> digits_at s 8 2 \<and> digits_at s 11 2 \<and> digits_at s 14 2 \<and> digits_at s 17 2 \<and>
     map (\<lambda>i. s ! i) [4, 7, 10, 13, 16] = ''--T::'' \<and>
     1 \<le> num_at s 5 2 \<and> num_at s 5 2 \<le> 12 \<and>
     1 \<le> num_at s 8 2 \<and> num_at s 8 2 \<le> days_in (num_at s 0 4) (num_at s 5 2) \<and>
     num_at s 11 2 \<le> 23 \<and> num_at s 14 2 \<le> 59 \<and> num_at s 17 2 \<le> 59 \<and>
     (let t = drop 19 s
      in zone_suffix t \<or>
         (case t of c # u \<Rightarrow> c = CHR ''.'' \<and> takeWhile is_digit u \<noteq> [] \<and> zone_suffix (dropWhile is_digit u) | [] \<Rightarrow> False))"

definition IsAbs :: "string \<Rightarrow> bool" where
  "IsAbs p \<longleftrightarrow> HasPrefix p ''/''"

definition executableOf :: "jvalue \<Rightarrow> string + string" where
  "executableOf v = (case stringMember v ''executable'' of
     Inl _ \<Rightarrow> Inl ''executable must be absolute''
   | Inr s \<Rightarrow> if \<not> IsAbs s \<or> CHR 0x00 \<in> set s then Inl ''executable must be absolute'' else Inr s)"

definition protocolOf :: "jvalue \<Rightarrow> string + string" where
  "protocolOf v = (case stringMember v ''protocol'' of
     Inl _ \<Rightarrow> Inl ''unsupported protocol''
   | Inr s \<Rightarrow> if s \<noteq> ProtocolName then Inl ''unsupported protocol'' else Inr s)"

definition registeredByOf :: "jvalue \<Rightarrow> string + string" where
  "registeredByOf v = (case stringMember v ''registered_by'' of
     Inl _ \<Rightarrow> Inl ''invalid registered_by''
   | Inr s \<Rightarrow> if \<not> registeredByPattern s then Inl ''invalid registered_by'' else Inr s)"

fun arguments :: "jvalue list \<Rightarrow> string + string list" where
  "arguments [] = Inr []"
| "arguments (v # vs) = (case v of
     JString s \<Rightarrow> if \<not> argumentPattern s then Inl ''invalid argv_prefix''
       else res_bind (arguments vs) (\<lambda>r. Inr (s # r))
   | _ \<Rightarrow> Inl ''invalid argv_prefix'')"

definition argvPrefixOf :: "jvalue \<Rightarrow> string + string list" where
  "argvPrefixOf v = (case Get v ''argv_prefix'' of
     Some (JArray vs) \<Rightarrow> if 4 < length vs then Inl ''invalid argv_prefix'' else arguments vs
   | _ \<Rightarrow> Inl ''invalid argv_prefix'')"

definition registeredAtOf :: "jvalue \<Rightarrow> string + string" where
  "registeredAtOf v = res_bind (stringMember v ''registered_at'') (\<lambda>s.
     if \<not> timestamp s then Inl ''registered_at must be UTC RFC3339'' else Inr s)"

definition parseEntry :: "jvalue \<Rightarrow> bool \<Rightarrow> string + Entry" where
  "parseEntry v manifest =
     res_bind (object v ([''executable'', ''argv_prefix'', ''protocol'', ''registered_by'']
       @ (if manifest then [''id''] else [''registered_at''])) []) (\<lambda>_.
     res_bind (executableOf v) (\<lambda>e.
     res_bind (protocolOf v) (\<lambda>p.
     res_bind (registeredByOf v) (\<lambda>b.
     res_bind (argvPrefixOf v) (\<lambda>a.
     res_bind (if manifest then Inr [] else registeredAtOf v) (\<lambda>t.
     Inr \<lparr>Executable = e, ArgvPrefix = a, Protocol = p, RegisteredAt = t, RegisteredBy = b\<rparr>))))))"

fun parseManagers :: "(string \<times> jvalue) list \<Rightarrow> (string \<times> Entry) list \<Rightarrow> string + (string \<times> Entry) list" where
  "parseManagers [] ms = Inr ms"
| "parseManagers ((k, v) # rest) ms =
     (if \<not> ValidID k then Inl ''invalid id''
      else case parseEntry v False of Inl e \<Rightarrow> Inl e
           | Inr entry \<Rightarrow> parseManagers rest (AList.update k entry ms))"

definition selectedOf :: "jvalue \<Rightarrow> (string \<times> Entry) list \<Rightarrow> string + string" where
  "selectedOf root ms = (case Get root ''selected'' of
     None \<Rightarrow> Inr []
   | Some _ \<Rightarrow> (case stringMember root ''selected'' of
       Inl _ \<Rightarrow> Inl ''invalid selected''
     | Inr s \<Rightarrow> if \<not> ValidID s then Inl ''invalid selected''
         else if map_of ms s = None then Inl ''selected is not registered'' else Inr s))"

definition registryOf :: "jvalue \<Rightarrow> string + Registry" where
  "registryOf root =
     res_bind (object root [''schema'', ''managers''] [''selected'']) (\<lambda>_.
     if stringMember root ''schema'' \<noteq> Inr SchemaName then Inl ''invalid schema''
     else case Get root ''managers'' of
       Some (JObject ms) \<Rightarrow>
         res_bind (parseManagers ms []) (\<lambda>m.
         res_bind (selectedOf root m) (\<lambda>s. Inr \<lparr>Selected = s, Managers = m\<rparr>))
     | _ \<Rightarrow> Inl ''invalid managers'')"

definition ParseRegistry :: "string \<Rightarrow> regError + Registry" where
  "ParseRegistry s = (case ParseJSON s of
     Inl _ \<Rightarrow> Inl (invalid [] ''parse'' [])
   | Inr root \<Rightarrow> (case registryOf root of Inl e \<Rightarrow> Inl (invalid [] ''schema'' e) | Inr r \<Rightarrow> Inr r))"

definition ParseManifest :: "string \<Rightarrow> regError + string \<times> Entry" where
  "ParseManifest s = (case ParseJSON s of
     Inl _ \<Rightarrow> Inl (invalid [] ''parse'' [])
   | Inr root \<Rightarrow> (case parseEntry root True of
       Inl e \<Rightarrow> Inl (invalid [] ''schema'' e)
     | Inr entry \<Rightarrow> (case stringMember root ''id'' of
         Inl _ \<Rightarrow> Inl (invalid [] ''schema'' ''invalid id'')
       | Inr i \<Rightarrow> if \<not> ValidID i then Inl (invalid [] ''schema'' ''invalid id'') else Inr (i, entry))))"

section \<open>Lookup\<close>

abbreviation Filename :: string where "Filename \<equiv> ''session-managers.json''"

definition Contains :: "string \<Rightarrow> string \<Rightarrow> bool" where
  "Contains s w \<longleftrightarrow> list_ex (\<lambda>i. HasPrefix (drop i s) w) [0..<Suc (length s)]"

definition fileReason :: "string \<Rightarrow> string" where
  "fileReason e =
     (if Contains e ''symlink'' then ''symlink''
      else if Contains e ''different identity'' \<or> Contains e ''owner'' then ''owner''
      else if Contains e ''group/world-writable'' \<or> Contains e ''DACL'' then ''mode''
      else ''unreadable'')"

fun loadLayers :: "(layer \<Rightarrow> fileRead \<times> string) \<Rightarrow> layer list \<Rightarrow> regError + Registry \<times> string" where
  "loadLayers rd [] = Inr (EmptyRegistry, [])"
| "loadLayers rd (ly # rest) = (case rd ly of (r, path) \<Rightarrow>
     (case readErr r of
        Some e \<Rightarrow> Inl (invalid path (fileReason e) e)
      | None \<Rightarrow>
          if \<not> present r then loadLayers rd rest
          else case ParseRegistry (data r) of Inl e \<Rightarrow> Inl (e\<lparr>Path := path\<rparr>) | Inr g \<Rightarrow> Inr (g, path)))"

definition Load :: "(layer \<Rightarrow> fileRead \<times> string) \<Rightarrow> regError + Registry \<times> string" where
  "Load rd = loadLayers rd [SystemLayer, UserLayer]"

datatype state = StateEmpty | StateUnselected | StateSelected string Entry

text \<open>\<open>Resolve\<close>: Go returns the state beside the \<open>session_host_missing\<close> error.\<close>

definition Resolve :: "Registry \<Rightarrow> (string \<Rightarrow> bool) \<Rightarrow> state option \<times> regError option" where
  "Resolve r executableAvailable =
     (if Managers r = [] then (Some StateEmpty, None)
      else if Selected r = [] then (Some StateUnselected, None)
      else case map_of (Managers r) (Selected r) of
        None \<Rightarrow> (None, Some (invalid [] ''schema'' ''unknown selection''))
      | Some e \<Rightarrow>
          (Some (StateSelected (Selected r) e),
           if executableAvailable (Executable e) then None
           else Some ((regError_of CodeHostMissing)\<lparr>Reason := ''registered executable missing''\<rparr>)))"

end
