(* ===== verification/SessionService.thy ===== *)
theory SessionService
  imports SessionRegistry
begin

text \<open>
  \<open>internal/sessionmanager/service.go\<close>: one run of a registry command. What the run observes
  of the machine (files, locks, the terminal, the clock, failing writes) is the record \<open>world\<close>;
  the system layer is read before and again under the lock, so \<open>world\<close> has both reads. A run
  returns an error, and then nothing was written, or its reply: the text printed by \<open>list\<close>
  and \<open>show\<close>, or the registry written by a mutation with its layer, path and notice.
\<close>

section \<open>The machine\<close>

datatype promptAnswer = Answered string | PromptDeadline | PromptFailed string

record world =
  canWriteSystem :: "string \<Rightarrow> bool"
  writableDirectory :: "string \<Rightarrow> bool"
  locations :: Locations
  resolverStderr :: "(string \<Rightarrow> string option) option"
  readBefore :: "string \<Rightarrow> fileRead"
  readLocked :: "string \<Rightarrow> fileRead"
  acquireLock :: "string \<Rightarrow> regError option"
  readManifest :: "string \<Rightarrow> string option"
  evalSymlinks :: "string \<Rightarrow> string option"
  executableAvailable :: "string \<Rightarrow> bool"
  nowUTC :: string
  isTerminal :: bool
  answer :: promptAnswer
  stderrOk :: "string \<Rightarrow> bool"
  stdoutOk :: "string \<Rightarrow> bool"
  writeFails :: "string \<Rightarrow> Registry \<Rightarrow> string option"

datatype reply = Printed string | Committed layer string Registry string

definition usage :: regError where
  "usage = regError_of ''usage''"

definition ioError :: regError where
  "ioError = regError_of []"

section \<open>Layers\<close>

definition destination :: "world \<Rightarrow> string \<Rightarrow> layer \<times> string" where
  "destination w scope =
     (let ly = (if scope = ''system'' \<or> scope = [] \<and> canWriteSystem w (System (locations w)) then SystemLayer else UserLayer)
      in (ly, JoinPath (fst (Directories (locations w) ly)) Filename))"

definition checkMachineAuthority :: "world \<Rightarrow> (string \<Rightarrow> fileRead) \<Rightarrow> regError + unit" where
  "checkMachineAuthority w rd =
     (case ResolverRead (locations w) (resolverStderr w) rd SystemLayer Filename of (r, path) \<Rightarrow>
        if present r then Inl ((regError_of CodeShadowed)\<lparr>Path := path\<rparr>)
        else case readErr r of Some e \<Rightarrow> Inl (invalid path (fileReason e) e) | None \<Rightarrow> Inr ())"

definition readTarget :: "world \<Rightarrow> layer \<Rightarrow> regError + Registry" where
  "readTarget w ly =
     res_bind (if ly = UserLayer then checkMachineAuthority w (readLocked w) else Inr ()) (\<lambda>_.
     case ResolverRead (locations w) (resolverStderr w) (readLocked w) ly Filename of (r, path) \<Rightarrow>
       (case readErr r of
          Some e \<Rightarrow> Inl (invalid path (fileReason e) e)
        | None \<Rightarrow>
            if present r then
              (case ParseRegistry (data r) of Inl e \<Rightarrow> Inl (e\<lparr>Path := path\<rparr>) | Inr g \<Rightarrow> Inr g)
            else Inr EmptyRegistry))"

section \<open>Mutations\<close>

text \<open>\<open>strings.EqualFold\<close> against an ASCII word: the Latin letters fold, and so do the long s
  and the Kelvin sign.\<close>

definition fold_rune :: "nat \<Rightarrow> nat" where
  "fold_rune r = (if 65 \<le> r \<and> r \<le> 90 then r + 32 else if r = 0x17F then 115 else if r = 0x212A then 107 else r)"

definition EqualFoldAscii :: "string \<Rightarrow> string \<Rightarrow> bool" where
  "EqualFoldAscii s word \<longleftrightarrow> map fold_rune (runes s) = map fold_rune (runes word)"

definition affirmative :: "string \<Rightarrow> bool" where
  "affirmative a \<longleftrightarrow> EqualFoldAscii (TrimSpace a) ''y'' \<or> EqualFoldAscii (TrimSpace a) ''yes''"

definition currentName :: "Registry \<Rightarrow> string" where
  "currentName g = (if Selected g = [] then ''none'' else Selected g)"

abbreviation newline :: string where "newline \<equiv> [CHR 0x0A]"

text \<open>The switch that chooses the selection of a registration: the new selection and the line
  added to the notice.\<close>

definition chooseSelection :: "world \<Rightarrow> SessionCommand.Command \<Rightarrow> string \<Rightarrow> string \<Rightarrow> Registry \<Rightarrow> regError + string \<times> string" where
  "chooseSelection w c path i g =
     (if Select c then Inr (i, [])
      else if NoSelect c then Inr (Selected g, [])
      else if map_of (Managers g) i \<noteq> None then Inr (Selected g, [])
      else if Managers g = [] then Inr (i, [])
      else if isTerminal w then
        (if \<not> stderrOk w (''Select session manager '' @ i @ '' instead of '' @ currentName g @ ''? [y/N] '') then Inl ioError
         else case answer w of
             PromptDeadline \<Rightarrow> Inl usage
           | PromptFailed e \<Rightarrow> Inl (invalid path ''unreadable'' e)
           | Answered a \<Rightarrow> Inr (if affirmative a then i else Selected g, []))
      else Inr (Selected g, ''registered '' @ i @ ''; selection unchanged ('' @ currentName g
        @ ''); run: curator-run session-manager use '' @ i @ newline))"

definition changeNotice :: "string \<Rightarrow> Registry \<Rightarrow> Entry \<Rightarrow> string" where
  "changeNotice i g e = (case map_of (Managers g) i of
     None \<Rightarrow> []
   | Some old \<Rightarrow> if Executable old = Executable e then []
       else ''session manager '' @ i @ '': executable changed '' @ oneLine (Executable old) @ '' -> ''
         @ oneLine (Executable e) @ newline)"

definition commit :: "world \<Rightarrow> layer \<Rightarrow> string \<Rightarrow> Registry \<Rightarrow> string \<Rightarrow> regError + reply" where
  "commit w ly path g notice = (case writeFails w path g of
     Some e \<Rightarrow> Inl (invalid path ''unreadable'' e)
   | None \<Rightarrow> Inr (Committed ly path g notice))"

definition registerManager :: "world \<Rightarrow> SessionCommand.Command \<Rightarrow> layer \<Rightarrow> string \<Rightarrow> Registry \<Rightarrow> regError + reply" where
  "registerManager w c ly path g = (case readManifest w (Manifest c) of
     None \<Rightarrow> Inl (invalid (Manifest c) ''unreadable'' [])
   | Some doc \<Rightarrow> (case ParseManifest doc of
       Inl e \<Rightarrow> Inl (e\<lparr>Path := Manifest c\<rparr>)
     | Inr (i, m) \<Rightarrow> (case evalSymlinks w (Executable m) of
         None \<Rightarrow> Inl (invalid (Manifest c) ''schema'' ''manifest executable is not a regular executable file'')
       | Some resolved \<Rightarrow>
           if \<not> executableAvailable w resolved
           then Inl (invalid (Manifest c) ''schema'' ''manifest executable is not a regular executable file'')
           else let e = m\<lparr>Executable := resolved, RegisteredAt := nowUTC w\<rparr>
                in res_bind (chooseSelection w c path i g) (\<lambda>(sel, line).
                   let notice = changeNotice i g e @ line;
                       g' = \<lparr>Selected = sel, Managers = AList.update i e (Managers g)\<rparr>
                   in if \<not> stdoutOk w notice then Inl ioError else commit w ly path g' notice))))"

definition useManager :: "world \<Rightarrow> SessionCommand.Command \<Rightarrow> layer \<Rightarrow> string \<Rightarrow> Registry \<Rightarrow> regError + reply" where
  "useManager w c ly path g =
     (if map_of (Managers g) (ID c) = None then Inl ((regError_of CodeNotRegistered)\<lparr>ErrID := ID c\<rparr>)
      else commit w ly path (g\<lparr>Selected := ID c\<rparr>) [])"

definition unregisterManager :: "world \<Rightarrow> SessionCommand.Command \<Rightarrow> layer \<Rightarrow> string \<Rightarrow> Registry \<Rightarrow> regError + reply" where
  "unregisterManager w c ly path g =
     (if map_of (Managers g) (ID c) = None then Inl ((regError_of CodeNotRegistered)\<lparr>ErrID := ID c\<rparr>)
      else let g' = g\<lparr>Managers := AList.delete (ID c) (Managers g)\<rparr>
           in commit w ly path (if Selected g' = ID c then g'\<lparr>Selected := []\<rparr> else g') [])"

definition deprecation :: string where
  "deprecation = ''curator-run: session-manager select is deprecated in 0.6.0; use curator-run session-manager use instead (removal no earlier than 0.8.0)'' @ newline"

text \<open>The part of \<open>Run\<close> behind the lock, and the path to it.\<close>

definition mutate :: "world \<Rightarrow> SessionCommand.Command \<Rightarrow> layer \<Rightarrow> string \<Rightarrow> Registry \<Rightarrow> regError + reply" where
  "mutate w c ly path g =
     (if Operation c = ''register'' then registerManager w c ly path g
      else if Operation c = ''use'' then useManager w c ly path g
      else if Operation c = ''unregister'' then unregisterManager w c ly path g
      else Inl ((regError_of [])\<lparr>Err := ''unknown session-manager operation''\<rparr>))"

text \<open>\<open>filepath.Dir (path)\<close> of the destination is its cleaned directory.\<close>

definition writeAuthority :: "world \<Rightarrow> string \<Rightarrow> layer \<Rightarrow> string \<Rightarrow> regError + unit" where
  "writeAuthority w scope ly path =
     (let dir = Clean (fst (Directories (locations w) ly))
      in if scope \<noteq> [] \<and> \<not> (if ly = SystemLayer then canWriteSystem w dir else writableDirectory w dir)
         then Inl ((regError_of CodeUnwritable)\<lparr>Path := dir, ErrScope := scope\<rparr>) else Inr ())"

definition runMutation :: "world \<Rightarrow> SessionCommand.Command \<Rightarrow> regError + reply" where
  "runMutation w c = (case destination w (Scope c) of (ly, path) \<Rightarrow>
     res_bind (if ly = UserLayer then checkMachineAuthority w (readBefore w) else Inr ()) (\<lambda>_.
     res_bind (writeAuthority w (Scope c) ly path) (\<lambda>_.
     case acquireLock w path of
       Some e \<Rightarrow> Inl e
     | None \<Rightarrow> res_bind (readTarget w ly) (\<lambda>g. mutate w c ly path g))))"

section \<open>Display\<close>

text \<open>The text form; the JSON form prints the same members through \<open>encoding/json\<close>, given here
  by its two encoders.\<close>

definition displayLayer :: "world \<Rightarrow> string \<Rightarrow> string" where
  "displayLayer w path =
     (if path = [] then ''none''
      else if list_ex (\<lambda>d. d \<noteq> [] \<and> path = JoinPath d Filename) [System (locations w), LegacySystem (locations w)]
        then ''system'' else ''user'')"

definition managerLine :: "Registry \<Rightarrow> string \<Rightarrow> string" where
  "managerLine g i = (if i = Selected g then ''*'' else '' '') @ '' '' @ i @ '' ''
     @ (case map_of (Managers g) i of Some e \<Rightarrow> oneLine (Executable e) | None \<Rightarrow> []) @ newline"

definition display ::
  "world \<Rightarrow> (string \<Rightarrow> string \<Rightarrow> Entry \<Rightarrow> string) \<Rightarrow> (Registry \<Rightarrow> string \<Rightarrow> string) \<Rightarrow> SessionCommand.Command \<Rightarrow> regError + reply" where
  "display w showJSON listJSON c =
     res_bind (Load (\<lambda>ly. ResolverRead (locations w) (resolverStderr w) (readBefore w) ly Filename)) (\<lambda>(g, path).
     let ly = displayLayer w path
     in if Operation c = ''show'' then
          (case map_of (Managers g) (ID c) of
             None \<Rightarrow> Inl ((regError_of CodeNotRegistered)\<lparr>ErrID := ID c\<rparr>)
           | Some e \<Rightarrow> Inr (Printed (if JSON c then showJSON (ID c) ly e
               else ''layer: '' @ ly @ newline @ ID c @ '': '' @ oneLine (Executable e) @ newline
                 @ ''protocol: '' @ Protocol e @ newline @ ''argv_prefix: '' @ Join (ArgvPrefix e) '' '' @ newline
                 @ ''registered_at: '' @ RegisteredAt e @ newline @ ''registered_by: '' @ oneLine (RegisteredBy e) @ newline)))
        else Inr (Printed (if JSON c then listJSON g ly
          else ''layer: '' @ ly @ newline @ concat (map (managerLine g) (sort (map fst (Managers g)))))))"

definition usageChecks :: "SessionCommand.Command \<Rightarrow> bool" where
  "usageChecks c \<longleftrightarrow>
     \<not> (Scope c \<noteq> [] \<and> Scope c \<noteq> ''user'' \<and> Scope c \<noteq> ''system'') \<and>
     \<not> (Scope c \<noteq> [] \<and> (Operation c = ''list'' \<or> Operation c = ''show'')) \<and>
     \<not> (Select c \<and> NoSelect c) \<and>
     \<not> (Operation c \<in> {''use'', ''select'', ''unregister'', ''show''} \<and> \<not> ValidID (ID c))"

definition Run ::
  "world \<Rightarrow> (string \<Rightarrow> string \<Rightarrow> Entry \<Rightarrow> string) \<Rightarrow> (Registry \<Rightarrow> string \<Rightarrow> string) \<Rightarrow> SessionCommand.Command \<Rightarrow> regError + reply" where
  "Run w showJSON listJSON c =
     (if \<not> usageChecks c then Inl usage
      else if Operation c = ''list'' \<or> Operation c = ''show'' then display w showJSON listJSON c
      else if Operation c = ''select'' then
        (if \<not> stderrOk w deprecation then Inl ioError else runMutation w (c\<lparr>Operation := ''use''\<rparr>))
      else runMutation w c)"

section \<open>The registry stays well formed\<close>

definition entry_ok :: "Entry \<Rightarrow> bool" where
  "entry_ok e \<longleftrightarrow> IsAbs (Executable e) \<and> CHR 0x00 \<notin> set (Executable e) \<and> Protocol e = ProtocolName \<and>
     registeredByPattern (RegisteredBy e) \<and> length (ArgvPrefix e) \<le> 4 \<and> list_all argumentPattern (ArgvPrefix e) \<and>
     timestamp (RegisteredAt e)"

definition registry_ok :: "Registry \<Rightarrow> bool" where
  "registry_ok g \<longleftrightarrow> distinct (map fst (Managers g)) \<and>
     (\<forall>i e. map_of (Managers g) i = Some e \<longrightarrow> ValidID i \<and> entry_ok e) \<and>
     (Selected g = [] \<or> map_of (Managers g) (Selected g) \<noteq> None)"

lemma registry_ok_Empty: "registry_ok EmptyRegistry"
  by (simp add: registry_ok_def EmptyRegistry_def)

lemma arguments_ok: "arguments vs = Inr r \<Longrightarrow> list_all argumentPattern r \<and> length r = length vs"
  by (induction vs arbitrary: r) (auto split: jvalue.splits if_splits)

lemma executableOf_ok: "executableOf v = Inr e \<Longrightarrow> IsAbs e \<and> CHR 0x00 \<notin> set e"
  by (auto simp: executableOf_def split: sum.splits if_splits)

lemma protocolOf_ok: "protocolOf v = Inr p \<Longrightarrow> p = ProtocolName"
  by (auto simp: protocolOf_def split: sum.splits if_splits)

lemma registeredByOf_ok: "registeredByOf v = Inr p \<Longrightarrow> registeredByPattern p"
  by (auto simp: registeredByOf_def split: sum.splits if_splits)

lemma argvPrefixOf_ok: "argvPrefixOf v = Inr r \<Longrightarrow> list_all argumentPattern r \<and> length r \<le> 4"
  using arguments_ok by (fastforce simp: argvPrefixOf_def split: option.splits jvalue.splits if_splits)

lemma parseEntry_ok:
  assumes "parseEntry v manifest = Inr e" and "manifest \<Longrightarrow> timestamp t"
  shows "entry_ok (if manifest then e\<lparr>RegisteredAt := t\<rparr> else e)"
proof -
  from assms(1) obtain x p b a t' where f: "executableOf v = Inr x" "protocolOf v = Inr p" "registeredByOf v = Inr b"
      "argvPrefixOf v = Inr a" "(if manifest then Inr [] else registeredAtOf v) = Inr t'"
      "e = \<lparr>Executable = x, ArgvPrefix = a, Protocol = p, RegisteredAt = t', RegisteredBy = b\<rparr>"
    unfolding parseEntry_def by auto
  have "\<not> manifest \<Longrightarrow> timestamp t'"
    using f(5) by (auto simp: registeredAtOf_def split: if_splits)
  then show ?thesis
    using executableOf_ok [OF f(1)] protocolOf_ok [OF f(2)] registeredByOf_ok [OF f(3)] argvPrefixOf_ok [OF f(4)] f(6)
      assms(2) by (simp add: entry_ok_def)
qed

lemma parseManagers_ok:
  "parseManagers vs ms = Inr ms' \<Longrightarrow> registry_ok \<lparr>Selected = [], Managers = ms\<rparr> \<Longrightarrow>
     registry_ok \<lparr>Selected = [], Managers = ms'\<rparr>"
proof (induction vs ms rule: parseManagers.induct)
  case (2 k v rest ms)
  then obtain e where e: "ValidID k" "parseEntry v False = Inr e" "parseManagers rest (AList.update k e ms) = Inr ms'"
    by (auto split: if_splits sum.splits)
  have "entry_ok e"
    using parseEntry_ok [OF e(2)] by simp
  then have "registry_ok \<lparr>Selected = [], Managers = AList.update k e ms\<rparr>"
    using "2.prems"(2) e(1) by (auto simp: registry_ok_def update_conv' distinct_update)
  then show ?case
    using "2.IH" e by simp
qed simp

lemma ParseRegistry_ok:
  assumes "ParseRegistry s = Inr g"
  shows "registry_ok g"
proof -
  obtain root where root: "registryOf root = Inr g"
    using assms by (auto simp: ParseRegistry_def split: sum.splits)
  then obtain vs where "parseManagers vs [] = Inr (Managers g)" "selectedOf root (Managers g) = Inr (Selected g)"
    by (auto simp: registryOf_def split: if_splits option.splits jvalue.splits)
  moreover have "registry_ok \<lparr>Selected = [], Managers = []\<rparr>"
    by (simp add: registry_ok_def)
  ultimately have "registry_ok \<lparr>Selected = [], Managers = Managers g\<rparr>"
      "Selected g = [] \<or> map_of (Managers g) (Selected g) \<noteq> None"
    using parseManagers_ok by (auto simp: selectedOf_def split: option.splits sum.splits if_splits)
  then show ?thesis
    by (auto simp: registry_ok_def)
qed

section \<open>The abstract registry\<close>

text \<open>Named managers and at most one of them selected; \<open>takes\<close> says whether a registration
  takes the selection.\<close>

type_synonym book = "string option \<times> (string \<rightharpoonup> Entry)"

datatype event = Registered string Entry bool | Used string | Unregistered string

inductive book_step :: "book \<Rightarrow> event \<Rightarrow> book \<Rightarrow> bool" where
  registered: "book_step (s, m) (Registered i e takes) (if takes then Some i else s, m(i \<mapsto> e))"
| used: "i \<in> dom m \<Longrightarrow> book_step (s, m) (Used i) (Some i, m)"
| unregistered: "i \<in> dom m \<Longrightarrow> book_step (s, m) (Unregistered i) (if s = Some i then None else s, m(i := None))"

inductive_cases book_stepE: "book_step b ev b'"

definition book_of :: "Registry \<Rightarrow> book" where
  "book_of g = (if Selected g = [] then None else Some (Selected g), map_of (Managers g))"

definition book_ok :: "book \<Rightarrow> bool" where
  "book_ok b \<longleftrightarrow> (\<forall>i. fst b = Some i \<longrightarrow> i \<in> dom (snd b))"

lemma book_step_ok: "book_step b ev b' \<Longrightarrow> book_ok b \<Longrightarrow> book_ok b'"
  by (auto simp: book_ok_def elim!: book_stepE split: if_splits)

section \<open>The commands implement the abstract steps\<close>

text \<open>What the standard library guarantees of the observations: the clock formats a valid UTC
  timestamp, an available executable has an absolute path, and no file has a name with a zero
  byte.\<close>

definition world_ok :: "world \<Rightarrow> bool" where
  "world_ok w \<longleftrightarrow> timestamp (nowUTC w) \<and> (\<forall>p. executableAvailable w p \<longrightarrow> IsAbs p \<and> CHR 0x00 \<notin> set p)"

text \<open>When a registration takes the selection.\<close>

definition takesSelection :: "world \<Rightarrow> SessionCommand.Command \<Rightarrow> string \<Rightarrow> Registry \<Rightarrow> bool" where
  "takesSelection w c i g \<longleftrightarrow> Select c \<or>
     \<not> NoSelect c \<and> map_of (Managers g) i = None \<and>
     (Managers g = [] \<or> isTerminal w \<and> (\<exists>a. answer w = Answered a \<and> affirmative a))"

lemma chooseSelection_Inr:
  assumes "chooseSelection w c path i g = Inr (sel, line)"
  shows "sel = (if takesSelection w c i g then i else Selected g)"
  using assms by (auto simp: chooseSelection_def takesSelection_def split: if_splits promptAnswer.splits)

lemma commit_Inr [simp]:
  "commit w ly path g n = Inr r \<longleftrightarrow> writeFails w path g = None \<and> r = Committed ly path g n"
  by (auto simp: commit_def split: option.splits)

lemma ParseManifest_ok:
  assumes "ParseManifest s = Inr (i, m)" and "timestamp t"
  shows "ValidID i" and "entry_ok (m\<lparr>RegisteredAt := t\<rparr>)"
proof -
  obtain root where "parseEntry root True = Inr m" "ValidID i"
    using assms(1) by (auto simp: ParseManifest_def split: sum.splits if_splits)
  then show "ValidID i" "entry_ok (m\<lparr>RegisteredAt := t\<rparr>)"
    using parseEntry_ok [of root True m t] assms(2) by auto
qed

lemma registerManager_Inr:
  assumes "registerManager w c ly path g = Inr r" and "world_ok w"
  obtains i e n g' where "r = Committed ly path g' n" "ValidID i" "entry_ok e" "Managers g' = AList.update i e (Managers g)"
    "Selected g' = (if takesSelection w c i g then i else Selected g)"
proof -
  obtain doc i m x where m: "ParseManifest doc = Inr (i, m)" "executableAvailable w x"
    and r: "res_bind (chooseSelection w c path i g) (\<lambda>(sel, line).
        let notice = changeNotice i g (m\<lparr>Executable := x, RegisteredAt := nowUTC w\<rparr>) @ line;
            g' = \<lparr>Selected = sel, Managers = AList.update i (m\<lparr>Executable := x, RegisteredAt := nowUTC w\<rparr>) (Managers g)\<rparr>
        in if \<not> stdoutOk w notice then Inl ioError else commit w ly path g' notice) = Inr r"
    using assms(1) unfolding registerManager_def Let_def by (auto split: option.splits sum.splits if_splits)
  have "entry_ok (m\<lparr>Executable := x, RegisteredAt := nowUTC w\<rparr>)" "ValidID i"
    using ParseManifest_ok [OF m(1)] m(2) assms(2) by (auto simp: world_ok_def entry_ok_def)
  moreover obtain sel line where s: "chooseSelection w c path i g = Inr (sel, line)"
    using r by auto
  ultimately show thesis
    using that r chooseSelection_Inr [OF s] by (auto simp: Let_def split: if_splits)
qed

lemma ValidID_not_Nil: "ValidID i \<Longrightarrow> i \<noteq> []"
  using id_pattern_props(1) by (simp add: ValidID_def)

text \<open>The abstract step a command asks for.\<close>

definition event_for :: "world \<Rightarrow> SessionCommand.Command \<Rightarrow> Registry \<Rightarrow> event \<Rightarrow> bool" where
  "event_for w c g ev = (case ev of
     Registered i e b \<Rightarrow> Operation c = ''register'' \<and> b = takesSelection w c i g
   | Used i \<Rightarrow> Operation c = ''use'' \<and> i = ID c
   | Unregistered i \<Rightarrow> Operation c = ''unregister'' \<and> i = ID c)"

text \<open>Every committed mutation is one abstract step and keeps the registry well formed.\<close>

lemma mutate_step:
  assumes "mutate w c ly path g = Inr r" and "registry_ok g" and "world_ok w"
  shows "\<exists>g' n ev. r = Committed ly path g' n \<and> registry_ok g' \<and> book_step (book_of g) ev (book_of g') \<and> event_for w c g ev"
proof -
  have ids: "Selected g = [] \<or> map_of (Managers g) (Selected g) \<noteq> None"
    and named: "\<And>i. map_of (Managers g) i \<noteq> None \<Longrightarrow> ValidID i"
    using assms(2) by (auto simp: registry_ok_def)
  consider "registerManager w c ly path g = Inr r" "Operation c = ''register''"
    | "useManager w c ly path g = Inr r" "Operation c = ''use''"
    | "unregisterManager w c ly path g = Inr r" "Operation c = ''unregister''"
    using assms(1) by (auto simp: mutate_def split: if_splits)
  then show ?thesis
  proof cases
    case 1
    then obtain i e n g' where r: "r = Committed ly path g' n" "ValidID i" "entry_ok e"
        "Managers g' = AList.update i e (Managers g)" "Selected g' = (if takesSelection w c i g then i else Selected g)"
      using registerManager_Inr assms(3) by metis
    have "registry_ok g'"
      using assms(2) r by (auto simp: registry_ok_def update_conv' distinct_update)
    moreover have "book_of g' = (if takesSelection w c i g then Some i else fst (book_of g), (snd (book_of g))(i \<mapsto> e))"
      using r ValidID_not_Nil by (auto simp: book_of_def update_conv')
    moreover have "book_step (book_of g) (Registered i e (takesSelection w c i g))
        (if takesSelection w c i g then Some i else fst (book_of g), (snd (book_of g))(i \<mapsto> e))"
      using book_step.registered [of "fst (book_of g)" "snd (book_of g)"] by simp
    moreover have "event_for w c g (Registered i e (takesSelection w c i g))"
      using 1(2) by (simp add: event_for_def)
    ultimately show ?thesis
      using r(1) by metis
  next
    case 2
    then have known: "map_of (Managers g) (ID c) \<noteq> None" and r: "r = Committed ly path (g\<lparr>Selected := ID c\<rparr>) []"
      by (auto simp: useManager_def split: if_splits)
    have "registry_ok (g\<lparr>Selected := ID c\<rparr>)"
      using assms(2) known by (auto simp: registry_ok_def)
    moreover have "book_of (g\<lparr>Selected := ID c\<rparr>) = (Some (ID c), snd (book_of g))"
      using ValidID_not_Nil [OF named [OF known]] by (simp add: book_of_def)
    moreover have "book_step (book_of g) (Used (ID c)) (Some (ID c), snd (book_of g))"
      using book_step.used [of "ID c" "snd (book_of g)" "fst (book_of g)"] known by (auto simp: book_of_def dom_def)
    moreover have "event_for w c g (Used (ID c))"
      using 2(2) by (simp add: event_for_def)
    ultimately show ?thesis
      using r by metis
  next
    case 3
    define g' where "g' = g\<lparr>Managers := AList.delete (ID c) (Managers g),
      Selected := (if Selected g = ID c then [] else Selected g)\<rparr>"
    have known: "map_of (Managers g) (ID c) \<noteq> None" and r: "r = Committed ly path g' []"
      using 3 by (auto simp: unregisterManager_def Let_def g'_def split: if_splits)
    have "registry_ok g'"
      using assms(2) by (auto simp: registry_ok_def g'_def delete_conv' distinct_delete)
    moreover have "book_of g' = (if fst (book_of g) = Some (ID c) then None else fst (book_of g), (snd (book_of g))(ID c := None))"
      using ValidID_not_Nil [OF named [OF known]] by (auto simp: book_of_def g'_def delete_conv')
    moreover have "book_step (book_of g) (Unregistered (ID c))
        (if fst (book_of g) = Some (ID c) then None else fst (book_of g), (snd (book_of g))(ID c := None))"
      using book_step.unregistered [of "ID c" "snd (book_of g)" "fst (book_of g)"] known by (auto simp: book_of_def dom_def)
    moreover have "event_for w c g (Unregistered (ID c))"
      using 3(2) by (simp add: event_for_def)
    ultimately show ?thesis
      using r by metis
  qed
qed

lemma readTarget_ok: "readTarget w ly = Inr g \<Longrightarrow> registry_ok g"
  using ParseRegistry_ok registry_ok_Empty
  by (auto simp: readTarget_def split: if_splits option.splits sum.splits prod.splits)

lemma runMutation_Inr:
  assumes "runMutation w c = Inr r"
  obtains ly path g where "destination w (Scope c) = (ly, path)" "readTarget w ly = Inr g" "mutate w c ly path g = Inr r"
    "ly = UserLayer \<Longrightarrow> checkMachineAuthority w (readBefore w) = Inr ()"
proof -
  obtain ly path where d: "destination w (Scope c) = (ly, path)"
    by (cases "destination w (Scope c)")
  then show thesis
    using assms that by (auto simp: runMutation_def split: option.splits if_splits)
qed

lemma display_Printed: "display w sj lj c \<noteq> Inr (Committed ly path g n)"
  by (auto simp: display_def Let_def split: option.splits if_splits)

lemma Run_Committed:
  assumes "Run w sj lj c = Inr (Committed ly path g' n)"
  obtains c' where "c' = (if Operation c = ''select'' then c\<lparr>Operation := ''use''\<rparr> else c)"
    "runMutation w c' = Inr (Committed ly path g' n)" "usageChecks c"
  using assms that by (auto simp: Run_def display_Printed split: if_splits)

lemma mutate_target: "mutate w c ly path g = Inr (Committed ly' path' g' n) \<Longrightarrow> ly' = ly \<and> path' = path"
  unfolding mutate_def registerManager_def useManager_def unregisterManager_def Let_def
  by (auto simp: Let_def split: if_splits option.splits sum.splits)

section \<open>Properties\<close>

definition absentFile :: fileRead where
  "absentFile = \<lparr>data = [], present = False, readErr = None\<rparr>"

definition sampleManifest :: string where
  "sampleManifest = ''{\"executable\":\"/m\",\"argv_prefix\":[\"run\"],\"protocol\":\"curator-session-manager/1\",\"registered_by\":\"me\",\"id\":\"m1\"}''"

definition sampleWorld :: world where
  "sampleWorld = \<lparr>canWriteSystem = (\<lambda>_. False), writableDirectory = (\<lambda>_. True),
     locations = \<lparr>System = ''/s'', User = ''/u'', LegacySystem = [], LegacyUser = []\<rparr>, resolverStderr = None,
     readBefore = (\<lambda>_. absentFile), readLocked = (\<lambda>_. absentFile), acquireLock = (\<lambda>_. None),
     readManifest = (\<lambda>_. Some sampleManifest), evalSymlinks = Some, executableAvailable = (\<lambda>p. p = ''/m''),
     nowUTC = ''2026-01-02T03:04:05Z'', isTerminal = False, answer = PromptDeadline, stderrOk = (\<lambda>_. True),
     stdoutOk = (\<lambda>_. True), writeFails = (\<lambda>_ _. None)\<rparr>"

definition sampleRegistry :: Registry where
  "sampleRegistry = \<lparr>Selected = ''m1'', Managers = [(''m1'', \<lparr>Executable = ''/m'', ArgvPrefix = [''run''],
     Protocol = ProtocolName, RegisteredAt = ''2026-01-02T03:04:05Z'', RegisteredBy = ''me''\<rparr>)]\<rparr>"

lemma sample_run:
  "Run sampleWorld (\<lambda>_ _ _. []) (\<lambda>_ _. []) (newCommand ''register''\<lparr>Manifest := ''-''\<rparr>) =
     Inr (Committed UserLayer ''/u/session-managers.json'' sampleRegistry [])"
  by code_simp

lemma sample_ok: "world_ok sampleWorld"
proof -
  have "timestamp (nowUTC sampleWorld)"
    by code_simp
  then show ?thesis
    by (simp add: world_ok_def sampleWorld_def IsAbs_def HasPrefix_def)
qed

text \<open>C14. A registry command that commits implements one step of the abstract registry: it
  registers, selects or unregisters exactly the manager it names, starting from the registry
  its layer held under the lock. A registration takes the selection only with \<open>--select\<close>, as
  the first manager, or on an affirmative terminal answer, and an update never does by itself.
  The committed registry is well formed and its selection is registered.\<close>

theorem registry_refinement:
  assumes "Run w showJSON listJSON c = Inr (Committed ly path g' notice)" and "world_ok w"
  shows "\<exists>g ev. readTarget w ly = Inr g \<and> registry_ok g \<and>
    event_for w (if Operation c = ''select'' then c\<lparr>Operation := ''use''\<rparr> else c) g ev \<and>
    book_step (book_of g) ev (book_of g') \<and> registry_ok g'"
proof -
  define c' where "c' = (if Operation c = ''select'' then c\<lparr>Operation := ''use''\<rparr> else c)"
  have "runMutation w c' = Inr (Committed ly path g' notice)"
    using Run_Committed [OF assms(1)] c'_def by metis
  then obtain ly1 path1 g where g: "readTarget w ly1 = Inr g" "mutate w c' ly1 path1 g = Inr (Committed ly path g' notice)"
    by (rule runMutation_Inr)
  have "registry_ok g" "ly1 = ly"
    using readTarget_ok [OF g(1)] mutate_target [OF g(2)] by simp_all
  then show ?thesis
    using mutate_step [OF g(2) _ assms(2)] g(1) unfolding c'_def by auto
qed

theorem registry_refinement_witness:
  "\<exists>g ev. readTarget sampleWorld UserLayer = Inr g \<and> registry_ok g \<and>
    event_for sampleWorld (newCommand ''register''\<lparr>Manifest := ''-''\<rparr>) g ev \<and>
    book_step (book_of g) ev (book_of sampleRegistry) \<and> registry_ok sampleRegistry"
  using registry_refinement [OF sample_run sample_ok] by simp

text \<open>The registries a sequence of committed commands can produce.\<close>

inductive registry_reach :: "Registry \<Rightarrow> bool" where
  start: "registry_reach EmptyRegistry"
| commits: "\<lbrakk>registry_reach g; mutate w c ly path g = Inr (Committed ly path g' n); world_ok w\<rbrakk> \<Longrightarrow> registry_reach g'"

lemma registry_reach_ok: "registry_reach g \<Longrightarrow> registry_ok g"
proof (induction rule: registry_reach.induct)
  case start
  then show ?case by (rule registry_ok_Empty)
next
  case (commits g w c ly path g' n)
  then show ?case using mutate_step by fastforce
qed

text \<open>C37. From the empty registry, however many commands commit and in whatever order, the
  registry stays well formed, so resolving it reports no manager, no selection, or the selected
  registered manager, and never an unknown selection; the only refusal left is a missing
  executable.\<close>

theorem registry_resolves:
  assumes "registry_reach g"
  shows "registry_ok g \<and> (case Resolve g avail of
     (Some StateEmpty, e) \<Rightarrow> Managers g = [] \<and> e = None
   | (Some StateUnselected, e) \<Rightarrow> Managers g \<noteq> [] \<and> Selected g = [] \<and> e = None
   | (Some (StateSelected i m), e) \<Rightarrow> i = Selected g \<and> map_of (Managers g) i = Some m \<and> entry_ok m \<and>
       (e = None \<longleftrightarrow> avail (Executable m)) \<and> (\<forall>x. e = Some x \<longrightarrow> Code x = CodeHostMissing)
   | (None, _) \<Rightarrow> False)"
proof -
  have ok: "registry_ok g"
    using registry_reach_ok [OF assms] .
  show ?thesis
  proof (cases "Managers g = [] \<or> Selected g = []")
    case True
    then show ?thesis
      using ok by (auto simp: Resolve_def)
  next
    case False
    then obtain m where m: "map_of (Managers g) (Selected g) = Some m"
      using ok by (auto simp: registry_ok_def)
    moreover have "entry_ok m"
      using ok m by (auto simp: registry_ok_def)
    ultimately show ?thesis
      using ok False by (simp add: Resolve_def regError_of_def)
  qed
qed

theorem registry_resolves_witness:
  "registry_ok sampleRegistry \<and> fst (Resolve sampleRegistry (\<lambda>_. False)) = Some (StateSelected ''m1'' (snd (hd (Managers sampleRegistry))))"
proof -
  have step: "mutate sampleWorld (newCommand ''register''\<lparr>Manifest := ''-''\<rparr>) UserLayer ''/u'' EmptyRegistry =
      Inr (Committed UserLayer ''/u'' sampleRegistry [])"
    by code_simp
  have "registry_reach sampleRegistry"
    using registry_reach.commits [OF registry_reach.start step sample_ok] .
  from registry_resolves [OF this, of "\<lambda>_. False"] show ?thesis
    by (simp add: Resolve_def sampleRegistry_def)
qed

text \<open>C29. A system registry shadows the user's: a command that commits to the user layer has
  found no system registry, neither before it touched the user's files nor again under the
  lock, and it was not asked for the system layer.\<close>

theorem registry_authority:
  assumes "Run w showJSON listJSON c = Inr (Committed UserLayer path g' notice)"
  shows "Scope c \<noteq> ''system'' \<and>
    \<not> present (fst (ResolverRead (locations w) (resolverStderr w) (readBefore w) SystemLayer Filename)) \<and>
    \<not> present (fst (ResolverRead (locations w) (resolverStderr w) (readLocked w) SystemLayer Filename))"
proof -
  define c' where "c' = (if Operation c = ''select'' then c\<lparr>Operation := ''use''\<rparr> else c)"
  have run: "runMutation w c' = Inr (Committed UserLayer path g' notice)"
    using Run_Committed [OF assms] c'_def by metis
  obtain ly1 path1 g where g: "destination w (Scope c') = (ly1, path1)" "readTarget w ly1 = Inr g"
      "mutate w c' ly1 path1 g = Inr (Committed UserLayer path g' notice)"
      "ly1 = UserLayer \<Longrightarrow> checkMachineAuthority w (readBefore w) = Inr ()"
    using runMutation_Inr [OF run] by metis
  have ly: "ly1 = UserLayer" "Scope c' = Scope c"
    using mutate_target [OF g(3)] by (simp_all add: c'_def)
  have absent: "checkMachineAuthority w rd = Inr () \<Longrightarrow>
      \<not> present (fst (ResolverRead (locations w) (resolverStderr w) rd SystemLayer Filename))" for rd
    by (auto simp: checkMachineAuthority_def split: prod.splits if_splits)
  have "checkMachineAuthority w (readLocked w) = Inr ()"
    using g(2) ly(1) by (auto simp: readTarget_def)
  moreover have "Scope c \<noteq> ''system''"
    using g(1) ly by (auto simp: destination_def Let_def split: if_splits)
  ultimately show ?thesis
    using absent g(4) [OF ly(1)] by simp
qed

theorem registry_authority_witness:
  "\<not> present (fst (ResolverRead (locations sampleWorld) (resolverStderr sampleWorld) (readLocked sampleWorld) SystemLayer Filename))"
  using registry_authority [OF sample_run] by simp

end
