(* ===== verification/Defaults.thy ===== *)
theory Defaults
  imports Fragment "HOL-Library.AList"
begin

text \<open>
  \<open>internal/mapping/mapping.go\<close> and \<open>internal/defaults\<close>: the system mapping, the reader of
  \<open>defaults.json\<close>, the precedence of flags, operator and machine, and the completion from the
  module lineup. A \<open>Member\<close> is an option: an absent member has no value. The model registry of
  agents-management is the record \<open>registry\<close> of the functions the code calls on it.
\<close>

section \<open>The system mapping\<close>

definition MapSystem :: "string \<Rightarrow> string option" where
  "MapSystem env =
     (if env = EnvClaudeCode then Some ''claude-code''
      else if env = EnvCodexCLI then Some ''codex''
      else if env = EnvMuse then Some ''muse''
      else if env = EnvPi then Some ''pi-native''
      else None)"

section \<open>Files\<close>

type_synonym member = "string option"

record Pair =
  Model :: member
  Effort :: member
  Permissions :: member
  Host :: member

definition emptyPair :: Pair where
  "emptyPair = \<lparr>Model = None, Effort = None, Permissions = None, Host = None\<rparr>"

record defaultsFile =
  locked :: bool
  entries :: "(string \<times> Pair) list"

definition emptyFile :: defaultsFile where
  "emptyFile = \<lparr>locked = False, entries = []\<rparr>"

record Files =
  machine :: defaultsFile
  operator :: defaultsFile

abbreviation SchemaV1 :: string where "SchemaV1 \<equiv> ''curator-run-defaults-v1''"
abbreviation SchemaV2 :: string where "SchemaV2 \<equiv> ''curator-run-defaults-v2''"
abbreviation SchemaV3 :: string where "SchemaV3 \<equiv> ''curator-run-defaults-v3''"

datatype parseError =
  NotJson jerr | RootNotObject | SchemaNotString | InvalidSchema | LockedNotBoolean | DefaultsNotObject
| HostWithdrawn | UnknownEnvironment string | EmptyEntry string | MemberNotString string string
| PermissionsRequireV2 string | PermissionsValue string | HostRequiresV3 string | HostValue string
| UnknownMember string string | UnknownRootMember string | MissingMember string

text \<open>One member of an environment's entry, added to the pair read so far.\<close>

definition parseMember :: "string \<Rightarrow> string \<Rightarrow> string \<times> jvalue \<Rightarrow> Pair \<Rightarrow> parseError + Pair" where
  "parseMember schema env = (\<lambda>(key, v) pair. case v of
     JString s \<Rightarrow>
       if key = ''model'' then Inr (pair\<lparr>Model := Some s\<rparr>)
       else if key = ''effort'' then Inr (pair\<lparr>Effort := Some s\<rparr>)
       else if key = ''permissions'' then
         if schema \<noteq> SchemaV2 \<and> schema \<noteq> SchemaV3 then Inl (PermissionsRequireV2 env)
         else if s \<noteq> ''native'' \<and> s \<noteq> ''yolo'' then Inl (PermissionsValue env)
         else Inr (pair\<lparr>Permissions := Some s\<rparr>)
       else if key = ''host'' then
         if schema \<noteq> SchemaV3 then Inl (HostRequiresV3 env)
         else if s \<noteq> ''native'' \<and> s \<noteq> ''hosted'' then Inl (HostValue env)
         else Inr (pair\<lparr>Host := Some s\<rparr>)
       else Inl (UnknownMember env key)
   | _ \<Rightarrow> Inl (MemberNotString env key))"

fun parseMembers :: "string \<Rightarrow> string \<Rightarrow> (string \<times> jvalue) list \<Rightarrow> Pair \<Rightarrow> parseError + Pair" where
  "parseMembers schema env [] pair = Inr pair"
| "parseMembers schema env (m # ms) pair = res_bind (parseMember schema env m pair) (parseMembers schema env ms)"

fun objectMembers :: "jvalue \<Rightarrow> (string \<times> jvalue) list" where
  "objectMembers (JObject ms) = ms"
| "objectMembers _ = []"

definition parseEntry :: "string \<Rightarrow> string \<Rightarrow> jvalue \<Rightarrow> parseError + Pair" where
  "parseEntry schema env v =
     (if list_ex (\<lambda>(k, _). k = ''host'' \<and> schema = SchemaV3) (objectMembers v) then Inl HostWithdrawn
      else if HomeVariable env = [] then Inl (UnknownEnvironment env)
      else if Kind v \<noteq> KindObject \<or> objectMembers v = [] then Inl (EmptyEntry env)
      else parseMembers schema env (objectMembers v) emptyPair)"

fun parseEntries :: "string \<Rightarrow> (string \<times> jvalue) list \<Rightarrow> (string \<times> Pair) list \<Rightarrow> parseError + (string \<times> Pair) list" where
  "parseEntries schema [] es = Inr es"
| "parseEntries schema ((env, v) # rest) es =
     res_bind (parseEntry schema env v) (\<lambda>p. parseEntries schema rest (AList.update env p es))"

fun parseRoot :: "string \<Rightarrow> (string \<times> jvalue) list \<Rightarrow> defaultsFile \<Rightarrow> parseError + defaultsFile" where
  "parseRoot schema [] f = Inr f"
| "parseRoot schema ((key, v) # rest) f =
     (if key = ''schema'' then
        (if v \<noteq> JString schema then Inl InvalidSchema else parseRoot schema rest f)
      else if key = ''locked'' then
        (case v of JBool b \<Rightarrow> parseRoot schema rest (f\<lparr>locked := b\<rparr>) | _ \<Rightarrow> Inl LockedNotBoolean)
      else if key = ''defaults'' then
        (case v of
           JObject envs \<Rightarrow> res_bind (parseEntries schema envs (entries f)) (\<lambda>es. parseRoot schema rest (f\<lparr>entries := es\<rparr>))
         | _ \<Rightarrow> Inl DefaultsNotObject)
      else Inl (UnknownRootMember key))"

definition parseValue :: "jvalue \<Rightarrow> parseError + defaultsFile" where
  "parseValue root = (case root of
     JObject ms \<Rightarrow>
       (case Get root ''schema'' of
          Some (JString schema) \<Rightarrow>
            if schema \<noteq> SchemaV1 \<and> schema \<noteq> SchemaV2 \<and> schema \<noteq> SchemaV3 then Inl InvalidSchema
            else res_bind (parseRoot schema ms emptyFile) (\<lambda>f.
              if Get root ''defaults'' = None then Inl (MissingMember ''defaults'') else Inr f)
        | _ \<Rightarrow> Inl SchemaNotString)
   | _ \<Rightarrow> Inl RootNotObject)"

definition parse :: "string \<Rightarrow> parseError + defaultsFile" where
  "parse data = (case ParseJSON data of Inl e \<Rightarrow> Inl (NotJson e) | Inr root \<Rightarrow> parseValue root)"

section \<open>Precedence\<close>

datatype origin = OriginFlag | OriginOperator | OriginMachine | OriginLineup | OriginSelector | OriginDefault

datatype defaultsError =
  Invalid parseError | LockedFlag string string | LockedHost string string | UnknownHostFlag string
| NoSystem string | Unresolvable string

type_synonym resolvedMember = "(string \<times> origin) option"

record Partial =
  pModel :: resolvedMember
  pEffort :: resolvedMember
  pPermissions :: resolvedMember

definition origins :: "origin \<Rightarrow> member \<Rightarrow> resolvedMember" where
  "origins o' m = map_option (\<lambda>v. (v, o')) m"

definition firstPresent :: "resolvedMember list \<Rightarrow> resolvedMember" where
  "firstPresent ms = (case filter (\<lambda>m. m \<noteq> None) ms of [] \<Rightarrow> None | m # _ \<Rightarrow> m)"

definition row :: "bool \<Rightarrow> string \<Rightarrow> string \<Rightarrow> member \<Rightarrow> member \<Rightarrow> member \<Rightarrow> defaultsError + resolvedMember" where
  "row lock env name flag op mach =
     (if lock \<and> flag \<noteq> None \<and> mach \<noteq> None then Inl (LockedFlag name env)
      else Inr (firstPresent [origins OriginFlag flag, origins OriginOperator op, origins OriginMachine mach]))"

definition entryOf :: "defaultsFile \<Rightarrow> string \<Rightarrow> Pair" where
  "entryOf f env = (case map_of (entries f) env of Some p \<Rightarrow> p | None \<Rightarrow> emptyPair)"

definition lockedFor :: "Files \<Rightarrow> string \<Rightarrow> bool" where
  "lockedFor f env \<longleftrightarrow> locked (machine f) \<and> map_of (entries (machine f)) env \<noteq> None"

definition Resolve :: "Files \<Rightarrow> string \<Rightarrow> Pair \<Rightarrow> defaultsError + Partial" where
  "Resolve f env flags =
     (if HomeVariable env = [] then Inl (Invalid (UnknownEnvironment env))
      else let mach = entryOf (machine f) env; lock = lockedFor f env;
               op = (if lock then emptyPair else entryOf (operator f) env)
           in res_bind (row lock env ''model'' (Model flags) (Model op) (Model mach)) (\<lambda>m.
              res_bind (row lock env ''effort'' (Effort flags) (Effort op) (Effort mach)) (\<lambda>e.
              res_bind (row lock env ''permissions'' (Permissions flags) (Permissions op) (Permissions mach)) (\<lambda>p.
              Inr \<lparr>pModel = m, pEffort = e, pPermissions = p\<rparr>))))"

definition PermissionDefault :: "Files \<Rightarrow> string \<Rightarrow> defaultsError + member" where
  "PermissionDefault f env =
     (if HomeVariable env = [] then Inl (Invalid (UnknownEnvironment env))
      else if lockedFor f env then Inr (Permissions (entryOf (machine f) env))
      else if Permissions (entryOf (operator f) env) \<noteq> None then Inr (Permissions (entryOf (operator f) env))
      else Inr (Permissions (entryOf (machine f) env)))"

definition hostFlagValue :: "string \<Rightarrow> defaultsError + member" where
  "hostFlagValue h =
     (if h = [] then Inr None else if h = ''--hosted'' then Inr (Some ''hosted'')
      else if h = ''--native'' \<or> h = ''--untracked'' then Inr (Some ''native'') else Inl (UnknownHostFlag h))"

definition ResolveHost :: "Files \<Rightarrow> string \<Rightarrow> string \<Rightarrow> defaultsError + string \<times> origin" where
  "ResolveHost f env h =
     (if HomeVariable env = [] then Inl (Invalid (UnknownEnvironment env))
      else res_bind (hostFlagValue h) (\<lambda>flag.
        let mach = Host (entryOf (machine f) env); op = Host (entryOf (operator f) env)
        in if lockedFor f env then
             (case (flag, mach) of
                (Some _, Some _) \<Rightarrow> Inl (LockedHost h env)
              | (Some v, None) \<Rightarrow> Inr (v, OriginFlag)
              | (None, Some v) \<Rightarrow> Inr (v, OriginMachine)
              | (None, None) \<Rightarrow> Inr (''native'', OriginDefault))
           else (case flag of Some v \<Rightarrow> Inr (v, OriginFlag)
             | None \<Rightarrow> (case op of Some v \<Rightarrow> Inr (v, OriginOperator)
               | None \<Rightarrow> (case mach of Some v \<Rightarrow> Inr (v, OriginMachine) | None \<Rightarrow> Inr (''native'', OriginDefault))))))"

section \<open>Lineup\<close>

datatype effortSupport = EffortSupportNone | EffortSupportRequired | EffortSupportOther

record modelRow =
  RowID :: string
  Support :: effortSupport
  Recommended :: string

record Declaration =
  DeclID :: string
  DeclSystem :: string
  VendorResolved :: bool
  DeclModels :: "modelRow list"

text \<open>What \<open>ResolveRuntime\<close> answers: the rows of the runtime's vendor, the error
  \<open>ErrRuntimeVendorUnresolved\<close>, or another error.\<close>

datatype runtime = Vendor "modelRow list" | VendorUnresolved | RuntimeError string

record registry =
  declarations :: "Declaration list"
  resolveRuntime :: "string \<Rightarrow> runtime"
  drivenBy :: "modelRow \<Rightarrow> string \<Rightarrow> bool"
  lineup :: "modelRow list \<Rightarrow> modelRow list"

type_synonym candidate = "string \<times> modelRow"

definition declModels :: "registry \<Rightarrow> Declaration \<Rightarrow> string + modelRow list" where
  "declModels reg d = (case resolveRuntime reg (DeclID d) of
     Vendor ms \<Rightarrow> Inr ms
   | VendorUnresolved \<Rightarrow> if \<not> VendorResolved d \<and> DeclModels d \<noteq> [] then Inr (DeclModels d) else Inl ''vendor unresolved''
   | RuntimeError e \<Rightarrow> Inl e)"

fun candidatesOf :: "string \<Rightarrow> registry \<Rightarrow> Declaration list \<Rightarrow> string + candidate list" where
  "candidatesOf system reg [] = Inr []"
| "candidatesOf system reg (d # ds) =
     (if DeclSystem d \<noteq> system then candidatesOf system reg ds
      else res_bind (declModels reg d) (\<lambda>ms.
           res_bind (candidatesOf system reg ds) (\<lambda>cs.
           Inr (map (\<lambda>m. (DeclID d, m)) (filter (\<lambda>m. drivenBy reg m system) ms) @ cs))))"

definition systemCandidates :: "string \<Rightarrow> registry \<Rightarrow> string + candidate list" where
  "systemCandidates system reg = res_bind (candidatesOf system reg (declarations reg)) (\<lambda>cs.
     if list_ex (\<lambda>d. DeclSystem d = system) (declarations reg) then Inr cs
     else Inl ''no declared runtime serves the system'')"

definition contributorsFor :: "candidate list \<Rightarrow> string \<Rightarrow> candidate list" where
  "contributorsFor cs i = filter (\<lambda>c. RowID (snd c) = i) cs"

definition effortForRow :: "modelRow \<Rightarrow> member" where
  "effortForRow r = (if Support r \<noteq> EffortSupportRequired then None else Some (Recommended r))"

definition piRuntimePreference :: "string list" where
  "piRuntimePreference = [''pi-anthropic'', ''pi-openai'', ''pi-google'']"

fun preferred :: "string list \<Rightarrow> candidate list \<Rightarrow> candidate list" where
  "preferred [] cs = []"
| "preferred (i # is) cs = (case filter (\<lambda>c. fst c = i) cs of [] \<Rightarrow> preferred is cs | ps \<Rightarrow> ps)"

record Resolved =
  rModel :: resolvedMember
  rEffort :: resolvedMember
  rRuntime :: string
  SelectorDecisionID :: string
  SelectorRuntime :: string

definition unresolvable :: defaultsError where
  "unresolvable = Unresolvable ''defaults_unresolvable''"

definition lineupEffort :: "resolvedMember \<Rightarrow> modelRow \<Rightarrow> resolvedMember" where
  "lineupEffort e r = (case effortForRow r of None \<Rightarrow> e | Some v \<Rightarrow> Some (v, OriginLineup))"

definition usable :: "string \<Rightarrow> Partial \<Rightarrow> candidate list \<Rightarrow> candidate list" where
  "usable system p cs = (if system = ''pi-native'' \<and> pModel p = None then preferred piRuntimePreference cs else cs)"

definition complete :: "string \<Rightarrow> Partial \<Rightarrow> registry option \<Rightarrow> defaultsError + Resolved" where
  "complete system p reg_opt = (case reg_opt of
     None \<Rightarrow> Inl unresolvable
   | Some reg \<Rightarrow> (case systemCandidates system reg of
       Inl _ \<Rightarrow> Inl unresolvable
     | Inr all \<Rightarrow>
       let cs = usable system p all; out = \<lparr>rModel = pModel p, rEffort = pEffort p, rRuntime = [], SelectorDecisionID = [], SelectorRuntime = []\<rparr>
       in if cs = [] then Inl unresolvable
          else case pModel p of
            Some (m, _) \<Rightarrow>
              (case contributorsFor cs m of
                 [c] \<Rightarrow> Inr (if pEffort p \<noteq> None then out\<lparr>rRuntime := fst c\<rparr>
                          else out\<lparr>rRuntime := fst c, rEffort := lineupEffort (pEffort p) (snd c)\<rparr>)
               | [] \<Rightarrow> Inr out
               | _ \<Rightarrow> if pEffort p \<noteq> None then Inr out else Inl unresolvable)
          | None \<Rightarrow>
              let top = hd (lineup reg (map snd cs))
              in case contributorsFor cs (RowID top) of
                   [c] \<Rightarrow> Inr (out\<lparr>rRuntime := fst c, rModel := Some (RowID top, OriginLineup),
                       rEffort := (if pEffort p \<noteq> None then pEffort p else lineupEffort (pEffort p) top)\<rparr>)
                 | _ \<Rightarrow> Inl unresolvable))"

definition Complete :: "Files \<Rightarrow> string \<Rightarrow> Pair \<Rightarrow> registry option \<Rightarrow> defaultsError + Resolved" where
  "Complete f env flags reg = (case MapSystem env of
     None \<Rightarrow> Inl (NoSystem env)
   | Some system \<Rightarrow> res_bind (Resolve f env flags) (\<lambda>p. complete system p reg))"

definition CompleteWithSelection :: "Files \<Rightarrow> string \<Rightarrow> Pair \<Rightarrow> Pair \<Rightarrow> registry option \<Rightarrow> defaultsError + Resolved" where
  "CompleteWithSelection f env flags selected reg = (case MapSystem env of
     None \<Rightarrow> Inl (NoSystem env)
   | Some system \<Rightarrow> res_bind (Resolve f env flags) (\<lambda>p.
       let p1 = (if Model flags = None \<and> Model selected \<noteq> None then p\<lparr>pModel := origins OriginSelector (Model selected)\<rparr> else p);
           p2 = (if Effort flags = None \<and> Effort selected \<noteq> None then p1\<lparr>pEffort := origins OriginSelector (Effort selected)\<rparr> else p1)
       in res_bind (complete system p2 reg) (\<lambda>r.
            Inr (if rEffort r = Some ([], OriginSelector) then r\<lparr>rEffort := None\<rparr> else r))))"

section \<open>The line group\<close>

text \<open>\<open>foldValue\<close>: three replacements, one after the other.\<close>

fun crlf_to_lf :: "string \<Rightarrow> string" where
  "crlf_to_lf (a # b # cs) = (if a = CHR 0x0D \<and> b = CHR 0x0A then CHR 0x0A # crlf_to_lf cs else a # crlf_to_lf (b # cs))"
| "crlf_to_lf s = s"

definition foldValue :: "string \<Rightarrow> string" where
  "foldValue s = concat (map (\<lambda>c. if c = CHR 0x0A then [CHR 0x0A, CHR '' '', CHR '' ''] else [c])
     (map (\<lambda>c. if c = CHR 0x0D then CHR 0x0A else c) (crlf_to_lf s)))"

definition originName :: "origin \<Rightarrow> string" where
  "originName o' = (case o' of OriginFlag \<Rightarrow> ''flag'' | OriginOperator \<Rightarrow> ''operator'' | OriginMachine \<Rightarrow> ''machine''
     | OriginLineup \<Rightarrow> ''lineup'' | OriginSelector \<Rightarrow> ''selector'' | OriginDefault \<Rightarrow> ''default'')"

definition Describe :: "Resolved \<Rightarrow> string" where
  "Describe r = ''model='' @ (case rModel r of None \<Rightarrow> '' ()'' | Some (v, o') \<Rightarrow> foldValue v @ '' ('' @ originName o' @ '')'')
     @ '' '' @ (case rEffort r of None \<Rightarrow> ''effort unset'' | Some (v, o') \<Rightarrow> ''effort='' @ foldValue v @ '' ('' @ originName o' @ '')'')"

definition Line :: "Resolved \<Rightarrow> string" where
  "Line r = ''curator-run: defaults: '' @ Describe r
     @ (if SelectorDecisionID r \<noteq> [] then '' selector='' @ foldValue (SelectorDecisionID r) else [])"

definition ResolveProviderPathWith :: "string option option \<Rightarrow> (string \<Rightarrow> string option) option \<Rightarrow> string" where
  "ResolveProviderPathWith executable evalSymlinks = (case (executable, evalSymlinks) of
     (Some (Some exe), Some eval) \<Rightarrow>
       if exe = [] then ''unavailable''
       else (case eval exe of None \<Rightarrow> ''unavailable''
         | Some p \<Rightarrow> if p = [] \<or> \<not> HasPrefix p ''/'' then ''unavailable'' else p)
   | _ \<Rightarrow> ''unavailable'')"

definition ProviderLine :: "string \<Rightarrow> string" where
  "ProviderLine path = ''curator-run: provider: path='' @ foldValue (if path = [] then ''unavailable'' else path)"

end
