(* ===== verification/DefaultsProps.thy ===== *)
theory DefaultsProps
  imports Defaults
begin

text \<open>
  Properties of the defaults: what a parsed file can hold, the authority of a locked machine
  entry, where the completed pair comes from, and the one-line rendering.
\<close>

section \<open>Parsed files\<close>

definition pair_ok :: "Pair \<Rightarrow> bool" where
  "pair_ok p \<longleftrightarrow> Host p = None \<and> Permissions p \<in> {None, Some ''native'', Some ''yolo''}"

definition entries_ok :: "(string \<times> Pair) list \<Rightarrow> bool" where
  "entries_ok es \<longleftrightarrow> (\<forall>env p. map_of es env = Some p \<longrightarrow> HomeVariable env \<noteq> [] \<and> pair_ok p)"

definition file_ok :: "defaultsFile \<Rightarrow> bool" where
  "file_ok f \<longleftrightarrow> entries_ok (entries f)"

lemma parseMember_ok:
  assumes "parseMember schema env m p = Inr p'" and "pair_ok p" and "fst m = ''host'' \<Longrightarrow> schema \<noteq> SchemaV3"
  shows "pair_ok p'"
  using assms by (cases m) (auto simp: parseMember_def pair_ok_def split: jvalue.splits if_splits)

lemma parseMembers_ok:
  "parseMembers schema env ms p = Inr p' \<Longrightarrow> pair_ok p \<Longrightarrow> \<forall>m \<in> set ms. fst m = ''host'' \<longrightarrow> schema \<noteq> SchemaV3 \<Longrightarrow> pair_ok p'"
proof (induction ms arbitrary: p)
  case (Cons m ms)
  then obtain q where "parseMember schema env m p = Inr q" "parseMembers schema env ms q = Inr p'"
    by auto
  then show ?case
    using Cons parseMember_ok by (metis list.set_intros(1) list.set_intros(2))
qed simp

lemma pairOf_entry_ok:
  assumes "parseEntry schema env v = Inr p"
  shows "HomeVariable env \<noteq> [] \<and> pair_ok p"
proof -
  have "parseMembers schema env (objectMembers v) emptyPair = Inr p" "HomeVariable env \<noteq> []"
    "\<forall>m \<in> set (objectMembers v). fst m = ''host'' \<longrightarrow> schema \<noteq> SchemaV3"
    using assms by (auto simp: parseEntry_def list_ex_iff split: if_splits)
  moreover have "pair_ok emptyPair"
    by (simp add: pair_ok_def emptyPair_def)
  ultimately show ?thesis
    using parseMembers_ok by blast
qed

lemma parseEntries_ok:
  "parseEntries schema vs es = Inr es' \<Longrightarrow> entries_ok es \<Longrightarrow> entries_ok es'"
proof (induction schema vs es rule: parseEntries.induct)
  case (2 schema env v rest es)
  then obtain p where p: "parseEntry schema env v = Inr p" "parseEntries schema rest (AList.update env p es) = Inr es'"
    by auto
  have "entries_ok (AList.update env p es)"
    using "2.prems"(2) pairOf_entry_ok [OF p(1)] by (auto simp: entries_ok_def update_conv')
  then show ?case
    using "2.IH" p by blast
qed simp

lemma parseRoot_ok: "parseRoot schema ms f = Inr f' \<Longrightarrow> file_ok f \<Longrightarrow> file_ok f'"
proof (induction schema ms f rule: parseRoot.induct)
  case (2 schema key v rest f)
  consider "parseRoot schema rest f = Inr f'" "key = ''schema''" "v = JString schema"
    | b where "parseRoot schema rest (f\<lparr>locked := b\<rparr>) = Inr f'" "key = ''locked''" "v = JBool b"
    | envs es where "parseEntries schema envs (entries f) = Inr es" "parseRoot schema rest (f\<lparr>entries := es\<rparr>) = Inr f'"
        "key = ''defaults''" "v = JObject envs"
    using "2.prems"(1) by (auto split: if_splits jvalue.splits)
  then show ?case
  proof cases
    case 1
    then show ?thesis using "2.IH"(1) "2.prems"(2) by simp
  next
    case 2
    moreover have "file_ok (f\<lparr>locked := b\<rparr>)"
      using "2.prems"(2) by (simp add: file_ok_def)
    ultimately show ?thesis using "2.IH"(2) by simp
  next
    case 3
    moreover have "file_ok (f\<lparr>entries := es\<rparr>)"
      using parseEntries_ok [OF 3(1)] "2.prems"(2) by (simp add: file_ok_def)
    ultimately show ?thesis using "2.IH"(3) by simp
  qed
qed simp

lemma parse_ok:
  assumes "parse d = Inr f"
  shows "file_ok f"
proof -
  obtain root where "parseValue root = Inr f"
    using assms by (auto simp: parse_def split: sum.splits)
  then obtain schema ms where "parseRoot schema ms emptyFile = Inr f"
    by (auto simp: parseValue_def split: jvalue.splits option.splits if_splits)
  moreover have "file_ok emptyFile"
    by (simp add: file_ok_def entries_ok_def emptyFile_def)
  ultimately show ?thesis
    using parseRoot_ok by blast
qed

lemma entryOf_ok: "file_ok f \<Longrightarrow> pair_ok (entryOf f env)"
  by (cases "map_of (entries f) env") (auto simp: entryOf_def file_ok_def entries_ok_def pair_ok_def emptyPair_def)

section \<open>The locked rows\<close>

definition lockedMember :: "member \<Rightarrow> member \<Rightarrow> resolvedMember" where
  "lockedMember flag mach = (case mach of Some v \<Rightarrow> Some (v, OriginMachine) | None \<Rightarrow> origins OriginFlag flag)"

lemma row_locked:
  "row True env n flag None mach =
     (if flag \<noteq> None \<and> mach \<noteq> None then Inl (LockedFlag n env) else Inr (lockedMember flag mach))"
  by (cases flag; cases mach) (simp_all add: row_def lockedMember_def firstPresent_def origins_def)

lemma Resolve_locked:
  assumes "lockedFor f env" and "HomeVariable env \<noteq> []"
  shows "Resolve f env flags = (let m = entryOf (machine f) env in
    if Model flags \<noteq> None \<and> Model m \<noteq> None then Inl (LockedFlag ''model'' env)
    else if Effort flags \<noteq> None \<and> Effort m \<noteq> None then Inl (LockedFlag ''effort'' env)
    else if Permissions flags \<noteq> None \<and> Permissions m \<noteq> None then Inl (LockedFlag ''permissions'' env)
    else Inr \<lparr>pModel = lockedMember (Model flags) (Model m), pEffort = lockedMember (Effort flags) (Effort m),
      pPermissions = lockedMember (Permissions flags) (Permissions m)\<rparr>)"
  using assms by (simp add: Resolve_def Let_def emptyPair_def row_locked)

section \<open>Properties\<close>

text \<open>A parsed file holds entries of known environments only, permissions in their
  vocabulary, and no host value: the withdrawn member is refused in every schema. With parsed
  or absent files the host is therefore the flag's, or native by default, and no configured
  host and no locked host is ever reported.\<close>

lemma host_from_flag_only:
  assumes "machine f = emptyFile \<or> parse md = Inr (machine f)" and "operator f = emptyFile \<or> parse od = Inr (operator f)"
  shows "file_ok (machine f) \<and> file_ok (operator f) \<and>
    ResolveHost f env h =
      (if HomeVariable env = [] then Inl (Invalid (UnknownEnvironment env))
       else case hostFlagValue h of Inl e \<Rightarrow> Inl e
         | Inr None \<Rightarrow> Inr (''native'', OriginDefault) | Inr (Some v) \<Rightarrow> Inr (v, OriginFlag))"
proof -
  have "file_ok emptyFile"
    by (simp add: file_ok_def entries_ok_def emptyFile_def)
  then have ok: "file_ok (machine f)" "file_ok (operator f)"
    using assms parse_ok by auto
  then have "Host (entryOf (machine f) env) = None" "Host (entryOf (operator f) env) = None"
    using entryOf_ok by (simp_all add: pair_ok_def)
  then show ?thesis
    using ok by (auto simp: ResolveHost_def res_bind_def split: sum.splits option.splits)
qed

definition sampleFile :: defaultsFile where
  "sampleFile = \<lparr>locked = True, entries = [(''pi'', emptyPair\<lparr>Model := Some ''m'', Permissions := Some ''native''\<rparr>)]\<rparr>"

text \<open>C17. Precedence. A member is the flag's, else the operator's, else the machine's. In an
  environment a locked machine file names, the operator file has no influence on any result,
  a member the machine sets is exactly the machine's, and a flag for such a member is
  refused even when it repeats the value.\<close>

theorem defaults_precedence:
  assumes "HomeVariable env \<noteq> []"
  shows "if lockedFor f env then
      (\<forall>f'. machine f' = machine f \<longrightarrow> Resolve f' env flags = Resolve f env flags \<and>
        PermissionDefault f' env = PermissionDefault f env \<and> ResolveHost f' env h = ResolveHost f env h) \<and>
      ((\<exists>n. Resolve f env flags = Inl (LockedFlag n env)) \<longleftrightarrow>
        (\<exists>m \<in> {Model, Effort, Permissions}. m flags \<noteq> None \<and> m (entryOf (machine f) env) \<noteq> None)) \<and>
      (\<forall>r. Resolve f env flags = Inr r \<longrightarrow>
        (\<forall>(res, m) \<in> {(pModel, Model), (pEffort, Effort), (pPermissions, Permissions)}. \<forall>v.
          m (entryOf (machine f) env) = Some v \<longrightarrow> res r = Some (v, OriginMachine)))
    else Resolve f env flags = Inr
      \<lparr>pModel = firstPresent [origins OriginFlag (Model flags), origins OriginOperator (Model (entryOf (operator f) env)),
         origins OriginMachine (Model (entryOf (machine f) env))],
       pEffort = firstPresent [origins OriginFlag (Effort flags), origins OriginOperator (Effort (entryOf (operator f) env)),
         origins OriginMachine (Effort (entryOf (machine f) env))],
       pPermissions = firstPresent [origins OriginFlag (Permissions flags),
         origins OriginOperator (Permissions (entryOf (operator f) env)),
         origins OriginMachine (Permissions (entryOf (machine f) env))]\<rparr>"
proof (cases "lockedFor f env")
  case True
  have ignored: "Resolve f' env flags = Resolve f env flags \<and> PermissionDefault f' env = PermissionDefault f env \<and>
      ResolveHost f' env h = ResolveHost f env h" if "machine f' = machine f" for f'
  proof -
    have "lockedFor f' env"
      using True that by (simp add: lockedFor_def)
    then show ?thesis
      using True that assms by (simp add: Resolve_locked PermissionDefault_def ResolveHost_def)
  qed
  have refused: "(\<exists>n. Resolve f env flags = Inl (LockedFlag n env)) \<longleftrightarrow>
      (\<exists>m \<in> {Model, Effort, Permissions}. m flags \<noteq> None \<and> m (entryOf (machine f) env) \<noteq> None)"
    unfolding Resolve_locked [OF True assms] Let_def by simp
  have kept: "res r = Some (v, OriginMachine)"
    if "Resolve f env flags = Inr r" "(res, m) \<in> {(pModel, Model), (pEffort, Effort), (pPermissions, Permissions)}"
      "m (entryOf (machine f) env) = Some v" for r res m v
    using that(1) that(2,3) unfolding Resolve_locked [OF True assms] Let_def
    by (auto simp: lockedMember_def split: if_splits)
  show ?thesis
    unfolding if_P [OF True] using ignored refused kept by blast
next
  case False
  then show ?thesis
    using assms by (simp add: Resolve_def row_def Let_def)
qed

theorem defaults_precedence_witness:
  "Resolve \<lparr>machine = sampleFile, operator = emptyFile\<rparr> ''pi'' (emptyPair\<lparr>Model := Some ''m''\<rparr>) = Inl (LockedFlag ''model'' ''pi'')
   \<and> lockedFor \<lparr>machine = sampleFile, operator = emptyFile\<rparr> ''pi''
   \<and> Resolve \<lparr>machine = sampleFile, operator = \<lparr>locked = True, entries = [(''pi'', emptyPair\<lparr>Effort := Some ''low''\<rparr>)]\<rparr>\<rparr> ''pi'' emptyPair = Resolve \<lparr>machine = sampleFile, operator = emptyFile\<rparr> ''pi'' emptyPair"
proof -
  let ?f = "\<lparr>machine = sampleFile, operator = emptyFile\<rparr>"
  have hv: "HomeVariable ''pi'' \<noteq> []" and locked: "lockedFor ?f ''pi''"
    by (simp_all add: HomeVariable_def lookupStr_def homeVariable_def env_defs lockedFor_def sampleFile_def)
  have refused: "Resolve ?f ''pi'' (emptyPair\<lparr>Model := Some ''m''\<rparr>) = Inl (LockedFlag ''model'' ''pi'')"
    by code_simp
  note precedence = defaults_precedence [OF hv, of ?f emptyPair "[]", unfolded if_P [OF locked]]
  have "machine f' = machine ?f \<Longrightarrow> Resolve f' ''pi'' emptyPair = Resolve ?f ''pi'' emptyPair" for f'
    using precedence [THEN conjunct1] by blast
  from this [of "\<lparr>machine = sampleFile, operator = \<lparr>locked = True, entries = [(''pi'', emptyPair\<lparr>Effort := Some ''low''\<rparr>)]\<rparr>\<rparr>"] show ?thesis
    using refused locked unfolding Files.select_convs by blast
qed

section \<open>Completion from the lineup\<close>

lemma preferred_spec:
  assumes "preferred is cs \<noteq> []"
  shows "\<exists>pre i post. is = pre @ i # post \<and> preferred is cs = filter (\<lambda>c. fst c = i) cs \<and> (\<forall>c \<in> set cs. fst c \<notin> set pre)"
  using assms
proof (induction "is")
  case (Cons j js)
  show ?case
  proof (cases "filter (\<lambda>c. fst c = j) cs")
    case Nil
    then have "preferred (j # js) cs = preferred js cs" "\<forall>c \<in> set cs. fst c \<noteq> j"
      by (simp_all add: filter_empty_conv)
    then obtain pre i post where "js = pre @ i # post" "preferred (j # js) cs = filter (\<lambda>c. fst c = i) cs"
        "\<forall>c \<in> set cs. fst c \<notin> set pre"
      using Cons by auto
    then show ?thesis
      using \<open>\<forall>c \<in> set cs. fst c \<noteq> j\<close> by (intro exI [of _ "j # pre"] exI [of _ i] exI [of _ post]) auto
  next
    case (Cons c rest)
    then have "preferred (j # js) cs = filter (\<lambda>c. fst c = j) cs"
      by simp
    then show ?thesis
      by (intro exI [of _ "[]"] exI [of _ j] exI [of _ js]) simp
  qed
qed simp

lemma contributors_mem: "c \<in> set (contributorsFor cs m) \<longleftrightarrow> c \<in> set cs \<and> RowID (snd c) = m"
  by (auto simp: contributorsFor_def)

text \<open>What completion did with the candidates: the model it settled on and the runtime bound.\<close>

definition bound_to :: "candidate list \<Rightarrow> Partial \<Rightarrow> Resolved \<Rightarrow> bool" where
  "bound_to cs p r \<longleftrightarrow> (\<exists>m o'. rModel r = Some (m, o') \<and>
     (case contributorsFor cs m of
        [c] \<Rightarrow> rRuntime r = fst c \<and> (pEffort p = None \<longrightarrow> rEffort r = origins OriginLineup (effortForRow (snd c)))
      | _ \<Rightarrow> rRuntime r = [] \<and> pModel p \<noteq> None \<and> rEffort r = pEffort p))"

lemma complete_bound:
  assumes "complete system p (Some reg) = Inr r" and "systemCandidates system reg = Inr all"
    and lineup: "\<And>ms. set (lineup reg ms) = set ms"
  shows "bound_to (usable system p all) p r \<and> usable system p all \<noteq> [] \<and>
    (pModel p \<noteq> None \<longrightarrow> rModel r = pModel p) \<and> (pEffort p \<noteq> None \<longrightarrow> rEffort r = pEffort p) \<and>
    (pModel p = None \<longrightarrow> (\<exists>c \<in> set (usable system p all). rModel r = Some (RowID (snd c), OriginLineup) \<and> rRuntime r = fst c))"
proof (cases "pModel p")
  case (Some mo)
  obtain m o' where mo: "mo = (m, o')"
    by (cases mo)
  have e: "lineupEffort None (snd c) = origins OriginLineup (effortForRow (snd c))" for c
    by (simp add: lineupEffort_def origins_def split: option.splits)
  show ?thesis
    using assms(1,2) Some mo e unfolding complete_def Let_def bound_to_def
    by (auto split: if_splits list.splits)
next
  case None
  define cs where "cs = usable system p all"
  define top where "top = hd (lineup reg (map snd cs))"
  have cs: "cs \<noteq> []"
    using assms(1,2) None by (auto simp: complete_def Let_def cs_def split: if_splits)
  then have "lineup reg (map snd cs) \<noteq> []"
    using lineup [of "map snd cs"] by auto
  then have "top \<in> snd ` set cs"
    using lineup [of "map snd cs"] hd_in_set [of "lineup reg (map snd cs)"] by (auto simp: top_def)
  then obtain c' where c': "c' \<in> set cs" "snd c' = top"
    by auto
  obtain c where c: "contributorsFor cs (RowID top) = [c]"
    and r: "r = \<lparr>rModel = Some (RowID top, OriginLineup), rEffort = (if pEffort p \<noteq> None then pEffort p else lineupEffort (pEffort p) top),
      rRuntime = fst c, SelectorDecisionID = [], SelectorRuntime = []\<rparr>"
    using assms(1,2) None cs by (auto simp: complete_def Let_def cs_def [symmetric] top_def [symmetric] split: list.splits if_splits)
  have "c' = c"
    using contributors_mem [of c' cs "RowID top"] c' c by simp
  moreover have "lineupEffort None top = origins OriginLineup (effortForRow top)"
    by (simp add: lineupEffort_def origins_def split: option.splits)
  ultimately have "bound_to cs p r" "rModel r = Some (RowID (snd c), OriginLineup)" "rRuntime r = fst c" "c \<in> set cs"
    using c r c' by (auto simp: bound_to_def)
  then show ?thesis
    using None cs r unfolding cs_def by auto
qed

text \<open>C16. Completion never overrides: a model or an effort of a flag or a file is kept. A
  missing model is the row of a driven candidate; a missing effort is the effort that very
  row requires, never another row's; the runtime is bound exactly when one candidate of the
  mapped system has the model. Without a configured model, Pi takes the first runtime of the
  stated preference that has a candidate. The module's lineup is used only as an ordering.\<close>

theorem completion_faithful:
  assumes "Complete f env flags (Some reg) = Inr r" and "\<And>ms. set (lineup reg ms) = set ms"
  shows "\<exists>system p all cs. MapSystem env = Some system \<and> Resolve f env flags = Inr p \<and>
    systemCandidates system reg = Inr all \<and> cs = usable system p all \<and> bound_to cs p r \<and>
    (pModel p \<noteq> None \<longrightarrow> rModel r = pModel p) \<and> (pEffort p \<noteq> None \<longrightarrow> rEffort r = pEffort p) \<and>
    (pModel p = None \<longrightarrow> (\<exists>c \<in> set cs. rModel r = Some (RowID (snd c), OriginLineup) \<and> rRuntime r = fst c)) \<and>
    (system = ''pi-native'' \<and> pModel p = None \<longrightarrow> (\<exists>pre post. piRuntimePreference = pre @ rRuntime r # post \<and>
      (\<forall>c \<in> set all. fst c \<notin> set pre)))"
proof -
  obtain system p where p: "MapSystem env = Some system" "Resolve f env flags = Inr p" "complete system p (Some reg) = Inr r"
    using assms(1) by (auto simp: Complete_def split: option.splits)
  obtain all where all: "systemCandidates system reg = Inr all"
    using p(3) by (auto simp: complete_def split: sum.splits)
  note bound = complete_bound [OF p(3) all assms(2)]
  have pref: "\<exists>pre post. piRuntimePreference = pre @ rRuntime r # post \<and> (\<forall>c \<in> set all. fst c \<notin> set pre)"
    if pi: "system = ''pi-native''" "pModel p = None"
  proof -
    have u: "usable system p all = preferred piRuntimePreference all"
      using pi by (simp add: usable_def)
    obtain c where c: "c \<in> set (preferred piRuntimePreference all)" "rRuntime r = fst c"
      using bound pi(2) u by auto
    have "preferred piRuntimePreference all \<noteq> []"
      using bound u by simp
    then obtain pre i post where "piRuntimePreference = pre @ i # post"
        "preferred piRuntimePreference all = filter (\<lambda>c. fst c = i) all" "\<forall>c \<in> set all. fst c \<notin> set pre"
      using preferred_spec by blast
    then show ?thesis
      using c by auto
  qed
  show ?thesis
    by (intro exI [of _ system] exI [of _ p] exI [of _ all] exI [of _ "usable system p all"] conjI p(1,2) all refl)
      (use bound pref in blast)+
qed

definition sampleModules :: registry where
  "sampleModules = \<lparr>declarations = [\<lparr>DeclID = ''pi-openai'', DeclSystem = ''pi-native'', VendorResolved = True, DeclModels = []\<rparr>],
     resolveRuntime = (\<lambda>_. Vendor [\<lparr>RowID = ''m1'', Support = EffortSupportRequired, Recommended = ''high''\<rparr>]),
     drivenBy = (\<lambda>_ _. True), lineup = List.rev\<rparr>"

lemma sample_complete:
  "Complete \<lparr>machine = emptyFile, operator = emptyFile\<rparr> ''pi'' emptyPair (Some sampleModules) =
     Inr \<lparr>rModel = Some (''m1'', OriginLineup), rEffort = Some (''high'', OriginLineup), rRuntime = ''pi-openai'',
       SelectorDecisionID = [], SelectorRuntime = []\<rparr>"
  by code_simp

theorem completion_faithful_witness:
  "\<exists>p all. Resolve \<lparr>machine = emptyFile, operator = emptyFile\<rparr> ''pi'' emptyPair = Inr p \<and>
    systemCandidates ''pi-native'' sampleModules = Inr all \<and>
    bound_to (usable ''pi-native'' p all) p \<lparr>rModel = Some (''m1'', OriginLineup), rEffort = Some (''high'', OriginLineup),
      rRuntime = ''pi-openai'', SelectorDecisionID = [], SelectorRuntime = []\<rparr>"
proof -
  have "MapSystem ''pi'' = Some ''pi-native''"
    by (simp add: MapSystem_def env_defs)
  moreover have "set (lineup sampleModules ms) = set ms" for ms
    by (simp add: sampleModules_def)
  ultimately show ?thesis
    using completion_faithful [OF sample_complete] by auto
qed

section \<open>One line per value\<close>

text \<open>A rendered line has no carriage return, and each line feed is followed by two spaces.\<close>

fun framed :: "string \<Rightarrow> bool" where
  "framed [] = True"
| "framed (c # cs) = (c \<noteq> CHR 0x0D \<and> (c = CHR 0x0A \<longrightarrow> take 2 cs = ''  '') \<and> framed cs)"

lemma framed_append: "framed s \<Longrightarrow> framed t \<Longrightarrow> framed (s @ t)"
proof (induction s)
  case (Cons c cs)
  moreover have "take 2 (cs @ t) = ''  ''" if "take 2 cs = ''  ''"
    using that by (cases cs; cases "tl cs") simp_all
  ultimately show ?case by auto
qed simp

lemma framed_foldValue: "framed (foldValue s)"
proof -
  have "framed (concat (map (\<lambda>c. if c = CHR 0x0A then [CHR 0x0A, CHR '' '', CHR '' ''] else [c])
      (map (\<lambda>c. if c = CHR 0x0D then CHR 0x0A else c) t)))" for t
    by (induction t) auto
  then show ?thesis
    by (simp add: foldValue_def)
qed

text \<open>The lines of the defaults group are single logical lines: whatever bytes a model, an
  effort, a selector id or a provider path holds, the rendered line has no carriage return
  and every line feed in it is followed by two spaces, so no value starts a new line.\<close>

theorem default_lines_framed: "framed (Line r) \<and> framed (ProviderLine path)"
proof -
  have origin: "framed (originName o')" for o'
    by (cases o') (simp_all add: originName_def)
  have lits: "framed ''curator-run: defaults: ''" "framed ''model=''" "framed '' ()''" "framed '' (''" "framed '')''"
    "framed '' ''" "framed ''effort unset''" "framed ''effort=''" "framed '' selector=''"
    "framed ''curator-run: provider: path=''" "framed []"
    by simp_all
  have "framed (Describe r)"
    unfolding Describe_def
    by (cases "rModel r"; cases "rEffort r";
        simp only: option.case prod.case_eq_if; intro framed_append lits framed_foldValue origin)
  then have "framed (Line r)"
    unfolding Line_def
    by (cases "SelectorDecisionID r = []"; simp only: if_True if_False simp_thms;
        intro framed_append lits framed_foldValue)
  moreover have "framed (ProviderLine path)"
    unfolding ProviderLine_def by (intro framed_append lits framed_foldValue)
  ultimately show ?thesis
    by simp
qed

end
