(* ===== verification/NetControl.thy ===== *)
theory NetControl
  imports GoStrings
begin

text \<open>
  \<open>internal/netproxy/control.go\<close>: the launcher's client of the network gateway's control API.
  An answer of the transport is a failed connection or a reply with its status, its version
  headers and its body. A body that was read is its length together with what the JSON scanner
  of the standard library makes of the bytes; how \<open>encoding/json\<close> stores that tree into the
  structs of the code is modelled here. \<open>Register\<close> is in \<open>NetRegister\<close>.
\<close>

section \<open>JSON trees and struct decoding\<close>

datatype json =
  JsNull | JsBool bool | JsNumber string | JsString string | JsArray "json list" | JsObject "(string \<times> json) list"

definition lowerByte :: "char \<Rightarrow> char" where
  "lowerByte c = (if is_upper c then char_of (byte c + 32) else c)"

text \<open>The decoder matches a member to a field without regard to case, the Kelvin sign and the long s
  included, whose simple folds are letters; later members win, null clears a pointer, and a value of
  another type is an error.\<close>

fun foldKey :: "string \<Rightarrow> string" where
  "foldKey [] = []"
| "foldKey (c # s) =
     (case s of
        a # b # s' \<Rightarrow> if c = CHR 0xE2 \<and> a = CHR 0x84 \<and> b = CHR 0xAA then CHR ''k'' # foldKey s'
          else if c = CHR 0xC5 \<and> a = CHR 0xBF then CHR ''s'' # foldKey (b # s')
          else lowerByte c # foldKey s
      | [a] \<Rightarrow> if c = CHR 0xC5 \<and> a = CHR 0xBF then ''s'' else lowerByte c # foldKey s
      | [] \<Rightarrow> [lowerByte c])"

declare foldKey.simps [simp del]

lemma foldKey_step: "c \<noteq> CHR 0xE2 \<Longrightarrow> c \<noteq> CHR 0xC5 \<Longrightarrow> foldKey (c # s) = lowerByte c # foldKey s"
  by (subst foldKey.simps(2)) (simp add: foldKey.simps(1) split: list.split)

lemma foldKey_ascii: "CHR 0xE2 \<notin> set s \<Longrightarrow> CHR 0xC5 \<notin> set s \<Longrightarrow> foldKey s = map lowerByte s"
  by (induction s) (auto simp: foldKey.simps(1) foldKey_step)

definition fieldNamed :: "string \<Rightarrow> string \<Rightarrow> bool" where
  "fieldNamed field key \<longleftrightarrow> foldKey key = field"

fun pointerField :: "(json \<Rightarrow> 'a option) \<Rightarrow> string \<Rightarrow> (string \<times> json) list \<Rightarrow> 'a option \<Rightarrow> 'a option option" where
  "pointerField read field [] p = Some p"
| "pointerField read field ((k, v) # ms) p =
     (if \<not> fieldNamed field k then pointerField read field ms p
      else if v = JsNull then pointerField read field ms None
      else case read v of Some x \<Rightarrow> pointerField read field ms (Some x) | None \<Rightarrow> None)"

definition readString :: "json \<Rightarrow> string option" where
  "readString v = (case v of JsString s \<Rightarrow> Some s | _ \<Rightarrow> None)"

definition readBool :: "json \<Rightarrow> bool option" where
  "readBool v = (case v of JsBool b \<Rightarrow> Some b | _ \<Rightarrow> None)"

text \<open>\<open>json.Unmarshal\<close> into a struct of one pointer: \<open>None\<close> is its error.\<close>

definition unmarshalPointer :: "(json \<Rightarrow> 'a option) \<Rightarrow> string \<Rightarrow> json option \<Rightarrow> 'a option option" where
  "unmarshalPointer read field j = (case j of
     Some (JsObject ms) \<Rightarrow> pointerField read field ms None
   | Some JsNull \<Rightarrow> Some None
   | _ \<Rightarrow> None)"

text \<open>Into a struct of one plain string, with the error ignored: null and a value of another
  type leave the field as it is.\<close>

fun stringField :: "string \<Rightarrow> (string \<times> json) list \<Rightarrow> string \<Rightarrow> string" where
  "stringField field [] s = s"
| "stringField field ((k, v) # ms) s =
     stringField field ms (case readString v of Some t \<Rightarrow> if fieldNamed field k then t else s | None \<Rightarrow> s)"

definition errorMember :: "json option \<Rightarrow> string" where
  "errorMember j = (case j of Some (JsObject ms) \<Rightarrow> stringField ''error'' ms [] | _ \<Rightarrow> [])"

section \<open>Errors\<close>

abbreviation APIVersion :: string where "APIVersion \<equiv> ''netproxy-control/1''"

definition MaxReply :: nat where "MaxReply = 4096"

datatype errorKind = Unreachable | Refused

record Error =
  Op :: string
  ErrKind :: errorKind
  ErrStatus :: nat
  Code :: string
  Cause :: "string option"

definition errorText :: "Error \<Rightarrow> string" where
  "errorText e = (case ErrKind e of
     Refused \<Rightarrow> ''netproxy '' @ Op e @ '' refused: status='' @ dec (ErrStatus e) @ '' error='' @ Code e
   | Unreachable \<Rightarrow> (case Cause e of
       Some c \<Rightarrow> ''netproxy '' @ Op e @ '': service unreachable: '' @ c
     | None \<Rightarrow> ''netproxy '' @ Op e @ '': service unreachable''))"

definition IsCode :: "Error \<Rightarrow> nat \<Rightarrow> string \<Rightarrow> bool" where
  "IsCode e status code \<longleftrightarrow> ErrKind e = Refused \<and> ErrStatus e = status \<and> Code e = code"

definition validToken :: "string \<Rightarrow> bool" where
  "validToken s \<longleftrightarrow> length s = 64 \<and> list_all is_lower_hex s"

definition validCode :: "string \<Rightarrow> bool" where
  "validCode s \<longleftrightarrow> s \<noteq> [] \<and> length s \<le> 32 \<and> list_all (\<lambda>c. is_lower c \<or> c = CHR ''_'') s"

definition protocol :: "string \<Rightarrow> string \<Rightarrow> Error" where
  "protocol op detail = \<lparr>Op = op, ErrKind = Unreachable, ErrStatus = 0, Code = [], Cause = Some detail\<rparr>"

definition refused :: "string \<Rightarrow> nat \<Rightarrow> json option \<Rightarrow> Error" where
  "refused op status j =
     (let code = errorMember j
      in \<lparr>Op = op, ErrKind = Refused, ErrStatus = status, Code = (if validCode code then code else ''unknown''), Cause = None\<rparr>)"

section \<open>One bounded call\<close>

record httpReply =
  Status :: nat
  Versions :: "string list"
  Body :: "(nat \<times> json option) option"

datatype transport = ConnectionError bool | Reply httpReply

definition scrub :: "bool \<Rightarrow> string" where
  "scrub timeout = (if timeout then ''timeout'' else ''connection failed'')"

definition call :: "string \<Rightarrow> transport \<Rightarrow> Error + nat \<times> nat \<times> json option" where
  "call op t = (case t of
     ConnectionError timeout \<Rightarrow> Inl (protocol op (scrub timeout))
   | Reply r \<Rightarrow>
       if Versions r \<noteq> [APIVersion] then Inl (protocol op ''missing or unsupported control API version'')
       else (case Body r of
         None \<Rightarrow> Inl (protocol op ''reply not read'')
       | Some (n, j) \<Rightarrow>
           if MaxReply < n then Inl (protocol op ''reply exceeds bound'')
           else if 0 < n \<and> unmarshalPointer readString ''api'' j \<noteq> Some (Some APIVersion)
             then Inl (protocol op ''reply body lacks the control API version'')
           else Inr (Status r, n, if n = 0 then None else j)))"

definition Health :: "transport \<Rightarrow> Error + unit" where
  "Health t = res_bind (call ''health'' t) (\<lambda>(status, n, j).
     if status \<noteq> 200 then Inl (refused ''health'' status j)
     else (case unmarshalPointer readBool ''ready'' j of
       Some (Some True) \<Rightarrow> Inr ()
     | Some (Some False) \<Rightarrow> Inl (protocol ''health'' ''service not ready'')
     | _ \<Rightarrow> Inl (protocol ''health'' ''malformed health reply'')))"

definition tokenCall :: "string \<Rightarrow> string \<Rightarrow> nat \<Rightarrow> transport \<Rightarrow> Error + unit" where
  "tokenCall op token want t =
     (if \<not> validToken token then Inl (protocol op ''request not sent: malformed token'')
      else res_bind (call op t) (\<lambda>(status, n, j).
        if status \<noteq> want then Inl (refused op status j)
        else if want = 204 then (if n \<noteq> 0 then Inl (protocol op ''non-empty 204 reply'') else Inr ())
        else if unmarshalPointer readBool ''active'' j = Some (Some True) then Inr ()
        else Inl (protocol op ''reply is not {\"active\": true}'')))"

definition Activate :: "string \<Rightarrow> transport \<Rightarrow> Error + unit" where
  "Activate token t = tokenCall ''activate'' token 200 t"

definition Renew :: "string \<Rightarrow> transport \<Rightarrow> Error + unit" where
  "Renew token t = tokenCall ''renew'' token 200 t"

definition Unregister :: "string \<Rightarrow> transport \<Rightarrow> Error + unit" where
  "Unregister token t = (case tokenCall ''unregister'' token 204 t of
     Inl e \<Rightarrow> if IsCode e 404 ''unknown_token'' then Inr () else Inl e
   | Inr u \<Rightarrow> Inr u)"

section \<open>The register request\<close>

record RegisterRequest =
  Root :: string
  Session :: string
  Runtime :: string

definition validRoot :: "string \<Rightarrow> string option" where
  "validRoot root =
     (if \<not> HasPrefix root ''/'' then Some ''project root must be absolute''
      else if 200 < length root then Some ''project root exceeds 200 bytes''
      else if CHR 0x00 \<in> set root then Some ''project root contains NUL''
      else if root \<noteq> ''/'' \<and> HasSuffix root ''/'' then Some ''project root has a trailing slash''
      else if root \<noteq> ''/'' \<and> list_ex (\<lambda>p. p = [] \<or> p = ''.'' \<or> p = ''..'') (Split (tl root) CHR ''/'')
        then Some ''project root is not clean''
      else None)"

definition validRuntime :: "string \<Rightarrow> bool" where
  "validRuntime s \<longleftrightarrow> 1 \<le> length s \<and> length s \<le> 32 \<and> id_byte (hd s) \<and> list_all (\<lambda>c. id_byte c \<or> c = CHR ''-'') (tl s)"

definition Validate :: "RegisterRequest \<Rightarrow> string option" where
  "Validate r = (case validRoot (Root r) of
     Some e \<Rightarrow> Some e
   | None \<Rightarrow>
       if \<not> (1 \<le> length (Session r) \<and> length (Session r) \<le> 128) then Some ''session id must be 1 to 128 characters''
       else if \<not> list_all (\<lambda>c. CHR '' '' < c \<and> c \<le> CHR ''~'') (Session r)
         then Some ''session id must be printable ASCII without spaces''
       else if \<not> validRuntime (Runtime r) then Some ''runtime name must match [a-z0-9][a-z0-9-]{0,31}''
       else None)"

end
