(* ===== verification/NetRecovery.thy ===== *)
theory NetRecovery
  imports NetControl Utf8 "HOL-Library.Word"
begin

text \<open>
  \<open>internal/netproxy/control2.go\<close>: the closed recovery protocol. The envelope's clock values are
  64-bit words; a reply is read through \<open>recoveryObject\<close>, which keeps exactly the named members.
\<close>

abbreviation RecoveryAPI :: string where "RecoveryAPI \<equiv> ''netproxy-control/2''"
abbreviation RecoveryProtocol :: string where "RecoveryProtocol \<equiv> ''member-recovery/1''"

definition RecoveryMaxBody :: nat where "RecoveryMaxBody = 16384"

definition IssuanceWindowNS :: "64 word" where "IssuanceWindowNS = 120000000000"

section \<open>The envelope\<close>

record RecoveryEnvelope =
  envRoot :: string
  envSession :: string
  envRuntime :: string
  AttemptID :: string
  RecoveryProof :: string
  RegistryID :: string
  Boot :: string
  IssuedNS :: string
  ExpiresNS :: string

text \<open>\<open>strconv.ParseUint (s, 10, 64)\<close>, and the text is the canonical one.\<close>

definition canonicalNS :: "string \<Rightarrow> 64 word option" where
  "canonicalNS s =
     (if s \<noteq> [] \<and> list_all is_digit s \<and> dec_value s < 2 ^ 64 \<and> dec (dec_value s) = s
      then Some (of_nat (dec_value s)) else None)"

definition envelopeValid :: "RecoveryEnvelope \<Rightarrow> bool" where
  "envelopeValid e \<longleftrightarrow>
     Validate \<lparr>Root = envRoot e, Session = envSession e, Runtime = envRuntime e\<rparr> = None
     \<and> validToken (AttemptID e) \<and> validToken (RecoveryProof e) \<and> validToken (RegistryID e)
     \<and> AttemptID e \<noteq> RecoveryProof e \<and> Boot e \<noteq> []
     \<and> (case (canonicalNS (IssuedNS e), canonicalNS (ExpiresNS e)) of
          (Some issued, Some expires) \<Rightarrow> \<not> (- 1 - IssuanceWindowNS < issued) \<and> expires = issued + IssuanceWindowNS
        | _ \<Rightarrow> False)"

text \<open>\<open>json.Marshal\<close> of a string and of the envelope.\<close>

definition hex2 :: "nat \<Rightarrow> string" where
  "hex2 n = [hexDigit (n div 16), hexDigit (n mod 16)]"

definition quoteRune :: "nat \<times> string \<Rightarrow> string" where
  "quoteRune = (\<lambda>(r, bytes).
     if r = 0xFFFD \<and> length bytes = 1 then bslash # ''ufffd''
     else if r = 0x22 \<or> r = 0x5C then bslash # bytes
     else if r = 0x08 then bslash # ''b'' else if r = 0x0C then bslash # ''f''
     else if r = 0x0A then bslash # ''n'' else if r = 0x0D then bslash # ''r'' else if r = 0x09 then bslash # ''t''
     else if r < 0x20 \<or> r = 0x3C \<or> r = 0x3E \<or> r = 0x26 then bslash # ''u00'' @ hex2 r
     else if r = 0x2028 then bslash # ''u2028'' else if r = 0x2029 then bslash # ''u2029''
     else bytes)"

definition quoteString :: "string \<Rightarrow> string" where
  "quoteString s = dquote # concat (map quoteRune (rune_chunks s)) @ [dquote]"

definition marshalObject :: "(string \<times> string) list \<Rightarrow> string" where
  "marshalObject ms = CHR ''{'' # Join (map (\<lambda>(k, v). quoteString k @ CHR '':'' # quoteString v) ms) '','' @ ''}''"

definition marshalEnvelope :: "RecoveryEnvelope \<Rightarrow> string" where
  "marshalEnvelope e = marshalObject
     [(''root'', envRoot e), (''session'', envSession e), (''runtime'', envRuntime e),
      (''attempt_id'', AttemptID e), (''recovery_proof'', RecoveryProof e), (''registry_id'', RegistryID e),
      (''boot'', Boot e), (''issued_ns'', IssuedNS e), (''expires_ns'', ExpiresNS e)]"

section \<open>Failures\<close>

record RecoveryError =
  recOp :: string
  recKind :: string
  recStatus :: nat
  recCode :: string

definition recoveryText :: "RecoveryError \<Rightarrow> string" where
  "recoveryText e = ''netproxy recovery '' @ recOp e @ '': '' @ recKind e @ '' status='' @ dec (recStatus e) @ '' code='' @ recCode e"

definition recoveryFailure :: "string \<Rightarrow> string \<Rightarrow> nat \<Rightarrow> string \<Rightarrow> RecoveryError" where
  "recoveryFailure op kind status code = \<lparr>recOp = op, recKind = kind, recStatus = status, recCode = code\<rparr>"

definition IsRecoveryCode :: "RecoveryError \<Rightarrow> nat \<Rightarrow> string \<Rightarrow> bool" where
  "IsRecoveryCode e status code \<longleftrightarrow> recKind e = ''refused'' \<and> recStatus e = status \<and> recCode e = code"

definition outcomeUnknown :: "string \<Rightarrow> RecoveryError" where
  "outcomeUnknown op = recoveryFailure op ''outcome_unknown'' 0 []"

section \<open>Closed replies\<close>

text \<open>A reply body is its length and the tree of its bytes; \<open>None\<close> when they are not JSON.\<close>

definition recoveryObject :: "nat \<times> json option \<Rightarrow> string list \<Rightarrow> (string \<times> json) list option" where
  "recoveryObject raw keys = (case raw of (n, j) \<Rightarrow>
     if n = 0 \<or> RecoveryMaxBody < n then None
     else (case j of
       Some (JsObject ms) \<Rightarrow>
         if list_all (\<lambda>m. fst m \<in> set keys) ms \<and> distinct (map fst ms) \<and> length ms = length keys
         then Some ms else None
     | _ \<Rightarrow> None))"

definition recoveryString :: "(string \<times> json) list \<Rightarrow> string \<Rightarrow> string option" where
  "recoveryString f key = (case map_of f key of Some (JsString s) \<Rightarrow> Some s | _ \<Rightarrow> None)"

fun recoveryStrings :: "(string \<times> json) list \<Rightarrow> string list \<Rightarrow> (string \<Rightarrow> string) option" where
  "recoveryStrings f [] = Some (\<lambda>_. [])"
| "recoveryStrings f (k # ks) = (case recoveryString f k of
     None \<Rightarrow> None
   | Some s \<Rightarrow> map_option (\<lambda>out. out(k := s)) (recoveryStrings f ks))"

definition rawTrue :: "json option \<Rightarrow> bool" where
  "rawTrue j \<longleftrightarrow> j = Some (JsBool True)"

definition recoveryVersion :: "(string \<times> json) list \<Rightarrow> bool" where
  "recoveryVersion f \<longleftrightarrow> recoveryString f ''api'' = Some RecoveryAPI"

definition allowedCodes :: "(nat \<times> string list) list" where
  "allowedCodes =
     [(400, [''bad_request'', ''bad_root'', ''bad_issuance_window'']), (403, [''recovery_refused'']),
      (409, [''service_mismatch'', ''attempt_mismatch'', ''issuance_recorded'']), (410, [''recovery_expired'']),
      (422, [''config_invalid'']), (429, [''recovery_capacity'']),
      (503, [''store_unavailable'', ''persist_failed'', ''clock_unavailable'']), (404, [''not_found'']),
      (405, [''method_not_allowed''])]"

definition recoveryRefusal :: "string \<Rightarrow> nat \<Rightarrow> nat \<times> json option \<Rightarrow> RecoveryError" where
  "recoveryRefusal op status raw = (case recoveryObject raw [''api'', ''error''] of
     None \<Rightarrow> outcomeUnknown op
   | Some f \<Rightarrow>
       if \<not> recoveryVersion f then outcomeUnknown op
       else (case recoveryString f ''error'' of
         None \<Rightarrow> outcomeUnknown op
       | Some code \<Rightarrow>
           (case map_of allowedCodes status of
              Some known \<Rightarrow> if code \<in> set known then recoveryFailure op ''refused'' status code else outcomeUnknown op
            | None \<Rightarrow> outcomeUnknown op)))"

section \<open>Calls\<close>

definition recoveryCall :: "string \<Rightarrow> transport \<Rightarrow> RecoveryError + nat \<times> nat \<times> json option" where
  "recoveryCall op t = (case t of
     ConnectionError _ \<Rightarrow> Inl (outcomeUnknown op)
   | Reply r \<Rightarrow> (case Body r of
       None \<Rightarrow> Inl (outcomeUnknown op)
     | Some (n, j) \<Rightarrow>
         if RecoveryMaxBody < n \<or> Versions r \<noteq> [RecoveryAPI] then Inl (outcomeUnknown op)
         else Inr (Status r, n, j)))"

definition envelopeCall :: "string \<Rightarrow> RecoveryEnvelope \<Rightarrow> transport \<Rightarrow> RecoveryError + nat \<times> nat \<times> json option" where
  "envelopeCall op e t =
     (if \<not> envelopeValid e \<or> RecoveryMaxBody < length (marshalEnvelope e)
      then Inl (recoveryFailure op ''request_not_sent'' 0 []) else recoveryCall op t)"

record RecoveryHealth =
  hRegistryID :: string
  hBoot :: string
  hNowNS :: string
  hRuleSet :: string
  hKeyMode :: string
  hReady :: bool

definition recoveryHealth :: "transport \<Rightarrow> RecoveryError + RecoveryHealth" where
  "recoveryHealth t = res_bind (recoveryCall ''health'' t) (\<lambda>(status, raw).
     if status \<noteq> 200 then Inl (recoveryRefusal ''health'' status raw)
     else (case recoveryObject raw [''api'', ''ready'', ''rule_set'', ''key_mode'', ''registry_id'', ''boot'', ''now_ns'', ''recovery''] of
       None \<Rightarrow> Inl (outcomeUnknown ''health'')
     | Some f \<Rightarrow>
         if \<not> recoveryVersion f \<or> readBool (the (map_of f ''ready'')) = None then Inl (outcomeUnknown ''health'')
         else (case recoveryStrings f [''rule_set'', ''key_mode'', ''registry_id'', ''boot'', ''now_ns'', ''recovery''] of
           None \<Rightarrow> Inl (outcomeUnknown ''health'')
         | Some s \<Rightarrow>
             if \<not> validToken (s ''registry_id'') \<or> s ''boot'' = [] \<or> canonicalNS (s ''now_ns'') = None
                \<or> s ''recovery'' \<noteq> RecoveryProtocol then Inl (outcomeUnknown ''health'')
             else Inr \<lparr>hRegistryID = s ''registry_id'', hBoot = s ''boot'', hNowNS = s ''now_ns'', hRuleSet = s ''rule_set'',
                    hKeyMode = s ''key_mode'', hReady = rawTrue (map_of f ''ready'')\<rparr>)))"

text \<open>A result: the attempt, the launch when there is one, and the outcome.\<close>

record RecoveryResult =
  resAttempt :: string
  resLaunch :: string
  resOutcome :: string

definition LaunchID :: "RecoveryResult \<Rightarrow> string \<times> bool" where
  "LaunchID r = (resLaunch r, resLaunch r \<noteq> [])"

text \<open>The switch on the outcome of a reply that names the attempt.\<close>

definition recoverOutcome :: "RecoveryEnvelope \<Rightarrow> (string \<times> json) list \<Rightarrow> string \<Rightarrow> RecoveryResult option" where
  "recoverOutcome e f outcome =
     (if outcome = ''revoked'' then
        (case recoveryString f ''launch_id'' of
           None \<Rightarrow> None
         | Some v \<Rightarrow>
             if \<not> validToken v \<or> v = RecoveryProof e then None
             else Some \<lparr>resAttempt = AttemptID e, resLaunch = v, resOutcome = outcome\<rparr>)
      else if outcome = ''cancelled_before_issue'' then
        (if map_of f ''launch_id'' \<noteq> Some JsNull then None
         else Some \<lparr>resAttempt = AttemptID e, resLaunch = [], resOutcome = outcome\<rparr>)
      else None)"

definition recoverReply :: "RecoveryEnvelope \<Rightarrow> nat \<times> json option \<Rightarrow> RecoveryResult option" where
  "recoverReply e raw =
     (case recoveryObject raw [''api'', ''attempt_id'', ''launch_id'', ''outcome'', ''durable''] of
        None \<Rightarrow> None
      | Some f \<Rightarrow>
          if \<not> recoveryVersion f \<or> \<not> rawTrue (map_of f ''durable'') then None
          else (case recoveryStrings f [''attempt_id'', ''outcome''] of
            None \<Rightarrow> None
          | Some s \<Rightarrow> if s ''attempt_id'' \<noteq> AttemptID e then None else recoverOutcome e f (s ''outcome'')))"

definition Recover :: "RecoveryEnvelope \<Rightarrow> transport \<Rightarrow> RecoveryError + RecoveryResult" where
  "Recover e t = res_bind (envelopeCall ''recover'' e t) (\<lambda>(status, raw).
     if status \<noteq> 200 then Inl (recoveryRefusal ''recover'' status raw)
     else (case recoverReply e raw of None \<Rightarrow> Inl (outcomeUnknown ''recover'') | Some r \<Rightarrow> Inr r))"

end
