(* ===== verification/NetRegister.thy ===== *)
theory NetRegister
  imports SessionRegistry NetRecovery "HOL-Library.Sublist"
begin

text \<open>
  The two registrations of \<open>internal/netproxy\<close>: \<open>Client.Register\<close> of \<open>control.go\<close>, whose reply carries
  the launch token, and \<open>NewRecovery\<close> and \<open>RecoveryClient.Register\<close> of \<open>control2.go\<close>. What \<open>url.Parse\<close> and
  \<open>net.ParseIP\<close> of the standard library say of a base URL is a parameter.
\<close>

section \<open>Base URLs\<close>

lemma Contains_sublist: "Contains s t \<longleftrightarrow> sublist t s"
proof
  assume "Contains s t"
  then obtain i where "HasPrefix (drop i s) t"
    unfolding Contains_def list_ex_iff by blast
  then have "prefix t (drop i s)"
    unfolding HasPrefix_def by (metis take_is_prefix)
  then show "sublist t s"
    by (meson prefix_imp_sublist sublist_drop sublist_order.order_trans)
next
  assume "sublist t s"
  then obtain u v where s: "s = u @ t @ v"
    by (auto simp: sublist_def)
  then have "HasPrefix (drop (length u) s) t" "length u < Suc (length s)"
    by (simp_all add: HasPrefix_def)
  then show "Contains s t"
    unfolding Contains_def list_ex_iff by (intro bexI [of _ "length u"]) auto
qed

record parsedURL =
  urlScheme :: string
  urlUser :: bool
  urlRawQuery :: string
  urlFragment :: string
  urlOpaque :: string
  urlHostname :: string
  urlPort :: string

text \<open>\<open>parseIP\<close> says of a host that is an IP address whether it is a loopback one.\<close>

record urlLib =
  parseURL :: "string \<Rightarrow> parsedURL option"
  parseIP :: "string \<Rightarrow> bool option"

definition validBase :: "urlLib \<Rightarrow> string \<Rightarrow> string \<Rightarrow> string option" where
  "validBase lib base token =
     (if Contains base token then Some ''register base URL carries the token''
      else case parseURL lib base of
        None \<Rightarrow> Some ''register base URL is not a plain http URL''
      | Some u \<Rightarrow>
          if urlScheme u \<noteq> ''http'' \<or> urlUser u \<or> urlRawQuery u \<noteq> [] \<or> urlFragment u \<noteq> [] \<or> urlOpaque u \<noteq> []
          then Some ''register base URL is not a plain http URL''
          else if parseIP lib (urlHostname u) \<noteq> Some True \<or> urlPort u = []
          then Some ''register base URL is not a loopback IP with a port''
          else None)"

text \<open>The first base that is refused, in the order of the reply.\<close>

fun firstBase :: "(string \<Rightarrow> string option) \<Rightarrow> string list \<Rightarrow> string option" where
  "firstBase refusal [] = None"
| "firstBase refusal (b # bs) = (case refusal b of Some e \<Rightarrow> Some e | None \<Rightarrow> firstBase refusal bs)"

definition validHeaderName :: "string \<Rightarrow> bool" where
  "validHeaderName s \<longleftrightarrow> s \<noteq> [] \<and> length s \<le> 64 \<and>
     list_all (\<lambda>c. is_lower c \<or> is_upper c \<or> is_digit c \<or> c \<in> set (''!#$%&*+-.^_|~'' @ [CHR 0x27, CHR 0x60])) s \<and>
     map lowerByte s \<notin> {''authorization'', ''proxy-authorization'', ''cookie'', ''host'', ''content-length'', ''transfer-encoding'',
       ''connection'', ''x-api-key''}"

section \<open>Registration\<close>

record Registration =
  Token :: string
  TokenHeader :: string
  AnthropicBase :: string
  OpenAIBase :: string
  ChatGPTBase :: string
  ActivationSeconds :: int

text \<open>\<open>Registration.String\<close>.\<close>

definition registrationText :: "Registration \<Rightarrow> string" where
  "registrationText r = ''netproxy registration (header '' @ TokenHeader r @ '', activation '' @ Itoa (ActivationSeconds r) @ ''s)''"

text \<open>\<open>encoding/json\<close> stores a number into an \<open>int\<close> by \<open>strconv.ParseInt\<close>.\<close>

definition readInt :: "json \<Rightarrow> int option" where
  "readInt v = (case v of JsNumber s \<Rightarrow> ParseInt64 s | _ \<Rightarrow> None)"

definition checkRegistration :: "urlLib \<Rightarrow> Registration \<Rightarrow> string option" where
  "checkRegistration lib r =
     (if \<not> validToken (Token r) then Some ''register token is not 64 lowercase hex characters''
      else if \<not> validHeaderName (TokenHeader r) then Some ''register token_header is not a usable header name''
      else case firstBase (\<lambda>b. validBase lib b (Token r)) [AnthropicBase r, OpenAIBase r, ChatGPTBase r] of
        Some e \<Rightarrow> Some e
      | None \<Rightarrow> if ActivationSeconds r < 1 then Some ''register activation_seconds is not positive'' else None)"

text \<open>The six members of the reply: \<open>None\<close> when a member has another type, an empty member when it is
  missing or null.\<close>

definition registerStrings :: "json option \<Rightarrow> string option option list" where
  "registerStrings j = map (\<lambda>k. unmarshalPointer readString k j) [''token'', ''token_header'', ''anthropic_base'', ''openai_base'', ''chatgpt_base'']"

definition registerReply :: "urlLib \<Rightarrow> json option \<Rightarrow> string + Registration" where
  "registerReply lib j =
     (let strs = registerStrings j; seconds = unmarshalPointer readInt ''activation_seconds'' j
      in if None \<in> set strs \<or> seconds = None then Inl ''malformed register reply''
         else if Some None \<in> set strs \<or> seconds = Some None then Inl ''register reply misses a required field''
         else
           (let s = (\<lambda>i. the (the (strs ! i)));
                r = \<lparr>Token = s 0, TokenHeader = s 1, AnthropicBase = s 2, OpenAIBase = s 3, ChatGPTBase = s 4,
                  ActivationSeconds = the (the seconds)\<rparr>
            in case checkRegistration lib r of Some e \<Rightarrow> Inl e | None \<Rightarrow> Inr r))"

definition Register :: "urlLib \<Rightarrow> RegisterRequest \<Rightarrow> transport \<Rightarrow> Error + Registration" where
  "Register lib req t = (case Validate req of
     Some e \<Rightarrow> Inl (protocol ''register'' (''request not sent: '' @ e))
   | None \<Rightarrow> res_bind (call ''register'' t) (\<lambda>(status, n, j).
       if status \<noteq> 200 then Inl (refused ''register'' status j)
       else (case registerReply lib j of Inl e \<Rightarrow> Inl (protocol ''register'' e) | Inr r \<Rightarrow> Inr r)))"

section \<open>Registration with recovery\<close>

definition NewRecovery :: "string \<Rightarrow> RecoveryError + string" where
  "NewRecovery socket =
     (if \<not> HasPrefix socket ''/'' \<or> Clean socket \<noteq> socket \<or> socket = ''/'' \<or> CHR 0x00 \<in> set socket
      then Inl (recoveryFailure ''client'' ''request_not_sent'' 0 []) else Inr socket)"

record RecoveryRegistration =
  rregAttempt :: string
  rregLaunch :: string
  rregRegistration :: Registration

text \<open>\<open>json.Unmarshal\<close> of one member into an \<open>int\<close>; null leaves the zero.\<close>

definition memberInt :: "json option \<Rightarrow> int option" where
  "memberInt j = (case j of Some JsNull \<Rightarrow> Some 0 | Some v \<Rightarrow> readInt v | None \<Rightarrow> None)"

definition recoveryBase :: "urlLib \<Rightarrow> string \<Rightarrow> string \<Rightarrow> string \<Rightarrow> bool" where
  "recoveryBase lib token proof_text base \<longleftrightarrow> validBase lib base token = None \<and> \<not> Contains base proof_text"

definition recoveryRegistration :: "urlLib \<Rightarrow> RecoveryEnvelope \<Rightarrow> (string \<times> json) list \<Rightarrow> RecoveryRegistration option" where
  "recoveryRegistration lib e f =
     (case recoveryStrings f [''attempt_id'', ''launch_id'', ''token'', ''token_header'', ''anthropic_base'', ''openai_base'', ''chatgpt_base''] of
        None \<Rightarrow> None
      | Some s \<Rightarrow> (case memberInt (map_of f ''activation_seconds'') of
          None \<Rightarrow> None
        | Some n \<Rightarrow>
            if n < 1 \<or> s ''attempt_id'' \<noteq> AttemptID e \<or> \<not> validToken (s ''launch_id'') \<or> \<not> validToken (s ''token'')
               \<or> s ''token'' = RecoveryProof e \<or> s ''launch_id'' = RecoveryProof e \<or> s ''launch_id'' = s ''token''
               \<or> s ''token_header'' \<noteq> ''X-Netproxy-Token'' then None
            else if \<not> list_all (recoveryBase lib (s ''token'') (RecoveryProof e)) [s ''anthropic_base'', s ''openai_base'', s ''chatgpt_base'']
              then None
            else Some \<lparr>rregAttempt = AttemptID e, rregLaunch = s ''launch_id'',
              rregRegistration = \<lparr>Token = s ''token'', TokenHeader = s ''token_header'', AnthropicBase = s ''anthropic_base'',
                OpenAIBase = s ''openai_base'', ChatGPTBase = s ''chatgpt_base'', ActivationSeconds = n\<rparr>\<rparr>))"

definition RecoveryRegister :: "urlLib \<Rightarrow> RecoveryEnvelope \<Rightarrow> transport \<Rightarrow> RecoveryError + RecoveryRegistration" where
  "RecoveryRegister lib e t = res_bind (envelopeCall ''register'' e t) (\<lambda>(status, raw).
     if status \<noteq> 200 then Inl (recoveryRefusal ''register'' status raw)
     else (case recoveryObject raw [''api'', ''attempt_id'', ''launch_id'', ''token'', ''token_header'', ''anthropic_base'', ''openai_base'',
         ''chatgpt_base'', ''activation_seconds''] of
       None \<Rightarrow> Inl (outcomeUnknown ''register'')
     | Some f \<Rightarrow>
         if \<not> recoveryVersion f then Inl (outcomeUnknown ''register'')
         else (case recoveryRegistration lib e f of None \<Rightarrow> Inl (outcomeUnknown ''register'') | Some r \<Rightarrow> Inr r)))"

end
