(* ===== verification/NetLease.thy ===== *)
theory NetLease
  imports NetControl "HOL-Library.Sublist"
begin

text \<open>
  \<open>internal/netproxy/lease.go\<close>: the post-spawn duties of one registered launch. Time and the
  gateway are the inputs of a run: each attempt of a loop says what the clock, the transport and
  the pause did. A run is the list of the calls it made and the lines it wrote, and a result
  when the loop has ended on the attempts it was given; \<open>None\<close> is a loop still running.
\<close>

section \<open>Attempts and events\<close>

datatype event = Called string | Alert string | Completed

type_synonym 'a run = "event list \<times> 'a option"

definition emit :: "event list \<Rightarrow> 'a run \<Rightarrow> 'a run" where
  "emit es r = (es @ fst r, snd r)"

definition alertf :: "string \<Rightarrow> event" where
  "alertf s = Alert (''curator-run: network gateway: '' @ s @ [CHR 0x0A])"

definition errClass :: "Error \<Rightarrow> string" where
  "errClass e = (if ErrKind e = Refused then ''status '' @ dec (ErrStatus e) @ '' '' @ Code e else ''service unreachable'')"

text \<open>The observations of one turn: whether the window had passed before the attempt, the
  answer, whether time remained after it, and whether the pause ran to its end.\<close>

record attempt =
  late :: bool
  answer :: transport
  expired :: bool
  paused :: bool

section \<open>Activation\<close>

fun activate :: "string \<Rightarrow> string \<Rightarrow> attempt list \<Rightarrow> bool run" where
  "activate token last_err [] = ([], None)"
| "activate token last_err (a # as) =
     (if late a then
        ([alertf (''activate did not succeed within the activation window ('' @ last_err
            @ ''); requests will fail until the runtime exits'')], Some False)
      else case Activate token (answer a) of
        Inr _ \<Rightarrow> ([Called ''activate''], Some True)
      | Inl e \<Rightarrow>
          if IsCode e 404 ''unknown_token'' then
            ([Called ''activate'', alertf ''activate refused: the session ended before activation; requests will fail until the runtime exits''],
             Some False)
          else if \<not> expired a \<and> \<not> paused a then ([Called ''activate''], Some False)
          else emit [Called ''activate''] (activate token (errClass e) as))"

section \<open>Ending a session in the background\<close>

text \<open>\<open>end\<close>: unregisters until it answers or the pause is cut short.\<close>

fun end_session :: "string \<Rightarrow> attempt list \<Rightarrow> unit run" where
  "end_session token [] = ([], None)"
| "end_session token (a # as) = (case Unregister token (answer a) of
     Inr _ \<Rightarrow> ([Called ''unregister''], Some ())
   | Inl e \<Rightarrow> emit [Called ''unregister'',
         alertf (''unregister after a failed activation failed ('' @ errClass e @ ''); retrying'')]
       (if paused a then end_session token as else ([], Some ())))"

section \<open>Renewal\<close>

text \<open>One turn: the pause before it, the answer to renew, and the answer to the activation that a
  pending session asks for.\<close>

record renewal =
  elapsed :: bool
  renewed :: transport
  activated :: transport

fun renew :: "string \<Rightarrow> renewal list \<Rightarrow> attempt list \<Rightarrow> unit run" where
  "renew token [] ends = ([], None)"
| "renew token (p # ps) ends =
     (if \<not> elapsed p then ([], Some ())
      else case Renew token (renewed p) of
        Inr _ \<Rightarrow> emit [Called ''renew''] (renew token ps ends)
      | Inl e \<Rightarrow>
          if IsCode e 404 ''unknown_token'' then
            ([Called ''renew'', alertf ''renew refused: the session has ended; requests will fail until the runtime exits''], Some ())
          else if IsCode e 409 ''not_active'' then
            (case Activate token (activated p) of
               Inr _ \<Rightarrow> emit [Called ''renew'', Called ''activate''] (renew token ps ends)
             | Inl f \<Rightarrow>
                 if IsCode f 404 ''unknown_token'' then
                   emit [Called ''renew'', Called ''activate'',
                       alertf ''renew found the session pending and activate was refused; the session has ended'']
                     (end_session token ends)
                 else emit [Called ''renew'', Called ''activate'',
                     alertf (''renew found the session pending and activate failed ('' @ errClass f @ ''); retrying at the next renewal'')]
                   (renew token ps ends))
          else emit [Called ''renew'', alertf (''renew failed ('' @ errClass e @ ''); retrying at the next renewal'')]
                 (renew token ps ends))"

text \<open>The goroutine of \<open>Started\<close>.\<close>

definition background :: "string \<Rightarrow> attempt list \<Rightarrow> renewal list \<Rightarrow> attempt list \<Rightarrow> unit run" where
  "background token acts renews ends = (case activate token ''no attempt'' acts of
     (es, None) \<Rightarrow> (es, None)
   | (es, Some active) \<Rightarrow> emit es (if active then renew token renews ends else end_session token ends))"

section \<open>Finish\<close>

fun unregisterLoop :: "nat \<Rightarrow> string \<Rightarrow> attempt list \<Rightarrow> string option run" where
  "unregisterLoop n token [] = ([], None)"
| "unregisterLoop n token (a # as) = (case Unregister token (answer a) of
     Inr _ \<Rightarrow> ([Called ''unregister''], Some None)
   | Inl e \<Rightarrow> emit [Called ''unregister'',
         alertf (''unregister attempt '' @ dec n @ '' failed ('' @ errClass e @ ''); the session may still be active; retrying'')]
       (if paused a then unregisterLoop (n + 1) token as
        else ([alertf ''unregister abandoned; the session ends at the gateway's idle bound at the latest''],
              Some (Some ''netproxy unregister abandoned''))))"

text \<open>A lease: its token, whether the duties were started, whether it was finished, and, for a
  recovery lease, its completion with the verdict retained by the first \<open>Finish\<close>.\<close>

record Lease =
  token :: string
  started :: bool
  finished :: bool
  completion :: "(unit \<Rightarrow> string option) option"
  completeErr :: "string option option"

definition NewLease :: "string \<Rightarrow> Lease" where
  "NewLease tok = \<lparr>token = tok, started = False, finished = False, completion = None, completeErr = None\<rparr>"

definition NewRecoveryLease :: "string \<Rightarrow> (unit \<Rightarrow> string option) option \<Rightarrow> string + Lease" where
  "NewRecoveryLease tok c = (case c of
     None \<Rightarrow> Inl ''netproxy recovery: completion unavailable''
   | Some f \<Rightarrow> Inr ((NewLease tok)\<lparr>completion := Some f\<rparr>))"

text \<open>\<open>Started\<close> takes effect once, and not after \<open>Finish\<close>.\<close>

definition Started :: "Lease \<Rightarrow> Lease" where
  "Started l = (if started l \<or> finished l then l else l\<lparr>started := True\<rparr>)"

text \<open>\<open>Finish\<close>: \<open>bg\<close> is the run of the background duties, cut short by the closed channel; it is
  awaited when the duties were started, and empty when an earlier \<open>Finish\<close> has awaited it.\<close>

definition Finish :: "Lease \<Rightarrow> unit run \<Rightarrow> attempt list \<Rightarrow> Lease \<times> string option run" where
  "Finish l bg attempts =
     (let l1 = l\<lparr>finished := True\<rparr>
      in if started l \<and> snd bg = None then (l1, (fst bg, None))
         else let before = (if started l then fst bg else [])
              in case completion l of
                   Some f \<Rightarrow>
                     (case completeErr l of
                        Some verdict \<Rightarrow> (l1, (before, Some verdict))
                      | None \<Rightarrow> (l1\<lparr>completeErr := Some (f ())\<rparr>, (before @ [Completed], Some (f ()))))
                 | None \<Rightarrow> (l1, emit before (unregisterLoop 1 (token l) attempts)))"

end
