(* ===== verification/NetLeaseProps.thy ===== *)
theory NetLeaseProps
  imports NetRegister NetLease
begin

text \<open>
  Properties of the lease: \<open>Finish\<close> returns once the gateway answers or the caller gives up, and
  no line or error of the client holds a launch token, whatever the gateway replies.
\<close>

section \<open>Tokens\<close>

text \<open>No 64 consecutive hexadecimal characters, with \<open>r\<close> of them just read.\<close>

fun hexfree :: "nat \<Rightarrow> string \<Rightarrow> bool" where
  "hexfree r [] = True"
| "hexfree r (c # cs) = (if is_lower_hex c then r + 1 < 64 \<and> hexfree (r + 1) cs else hexfree 0 cs)"

lemma hexfree_suffix: "hexfree r (u @ s) \<Longrightarrow> \<exists>r'. hexfree r' s"
  by (induction u arbitrary: r) (auto split: if_splits)

lemma hexfree_run: "list_all is_lower_hex t \<Longrightarrow> hexfree r (t @ v) \<Longrightarrow> t \<noteq> [] \<Longrightarrow> r + length t < 64"
proof (induction t arbitrary: r)
  case (Cons c t)
  then show ?case by (cases "t = []") fastforce+
qed simp

lemma hexfree_token: "hexfree r s \<Longrightarrow> validToken t \<Longrightarrow> \<not> Contains s t"
proof
  assume "hexfree r s" "validToken t" "Contains s t"
  then obtain u v where "s = u @ t @ v" and t: "length t = 64" "list_all is_lower_hex t"
    by (auto simp: Contains_sublist sublist_def validToken_def)
  then obtain r' where "hexfree r' (t @ v)"
    using hexfree_suffix \<open>hexfree r s\<close> by blast
  with t show False
    using hexfree_run by fastforce
qed

lemma hexfree_append_stop: "\<not> is_lower_hex c \<Longrightarrow> hexfree r (s @ c # t) \<longleftrightarrow> hexfree r s \<and> hexfree 0 t"
  by (induction s arbitrary: r) auto

lemma hexfree_short: "r + length s < 64 \<Longrightarrow> hexfree r s"
  by (induction s arbitrary: r) auto

lemma hexfree_dec: "n < 10 ^ k \<Longrightarrow> 0 < k \<Longrightarrow> k < 64 \<Longrightarrow> hexfree 0 (dec n)"
  using dec_length [of n k] by (intro hexfree_short) simp

lemmas literals = is_lower_hex_def less_eq_char_def

text \<open>The texts an error is built from: an operation, a status, a refusal code, a cause.\<close>

definition quiet :: "Error \<Rightarrow> bool" where
  "quiet e \<longleftrightarrow> hexfree 0 (Op e) \<and> ErrStatus e < 1000 \<and> hexfree 0 (Code e) \<and> (\<forall>c. Cause e = Some c \<longrightarrow> hexfree 0 c)"

lemma quiet_texts: "quiet e \<Longrightarrow> hexfree 0 (errClass e) \<and> hexfree 0 (errorText e)"
  using hexfree_dec [of "ErrStatus e" 3]
  by (cases "ErrKind e"; cases "Cause e") (auto simp: quiet_def errClass_def errorText_def hexfree_append_stop literals)

text \<open>The transport parses a status line with three digits.\<close>

definition status_ok :: "transport \<Rightarrow> bool" where
  "status_ok t \<longleftrightarrow> (case t of ConnectionError _ \<Rightarrow> True | Reply r \<Rightarrow> Status r < 1000)"

lemma quiet_protocol [simp]: "quiet (protocol op d) \<longleftrightarrow> hexfree 0 op \<and> hexfree 0 d"
  by (auto simp: quiet_def protocol_def)

lemma quiet_refused [simp]: "quiet (refused op status j) \<longleftrightarrow> hexfree 0 op \<and> status < 1000"
proof -
  have "validCode c \<Longrightarrow> hexfree 0 c" for c
    by (rule hexfree_short) (simp add: validCode_def)
  then show ?thesis
    by (auto simp: quiet_def refused_def Let_def literals)
qed

lemma call_quiet:
  assumes "call op t = Inl e" "status_ok t" "hexfree 0 op"
  shows "quiet e"
  using assms by (auto simp: call_def scrub_def literals split: transport.splits option.splits if_splits)

lemma call_status: "call op t = Inr (status, n, j) \<Longrightarrow> status_ok t \<Longrightarrow> status < 1000"
  by (auto simp: call_def status_ok_def split: transport.splits option.splits if_splits)

lemma tokenCall_quiet:
  assumes "tokenCall op tok want t = Inl e" "status_ok t" "hexfree 0 op"
  shows "quiet e"
  using assms call_quiet [OF _ assms(2,3)] call_status [OF _ assms(2)]
  by (auto simp: tokenCall_def res_bind_Inl literals split: if_splits)

lemma client_quiet:
  assumes "status_ok t"
  shows "Activate tok t = Inl e \<Longrightarrow> quiet e" "Renew tok t = Inl e \<Longrightarrow> quiet e"
    "Unregister tok t = Inl e \<Longrightarrow> quiet e" "Health t = Inl e \<Longrightarrow> quiet e"
proof -
  show "Activate tok t = Inl e \<Longrightarrow> quiet e" "Renew tok t = Inl e \<Longrightarrow> quiet e"
    unfolding Activate_def Renew_def using tokenCall_quiet assms by (simp_all add: literals)
  show "Unregister tok t = Inl e \<Longrightarrow> quiet e"
    unfolding Unregister_def using tokenCall_quiet [of "''unregister''" tok 204 t] assms
    by (auto simp: literals split: sum.splits if_splits)
  show "Health t = Inl e \<Longrightarrow> quiet e"
    unfolding Health_def using call_quiet [of "''health''" t] call_status [of "''health''" t] assms
    by (auto simp: res_bind_Inl literals split: if_splits option.splits bool.splits)
qed

text \<open>The lines of a run.\<close>

definition lines_quiet :: "event list \<Rightarrow> bool" where
  "lines_quiet es \<longleftrightarrow> (\<forall>s. Alert s \<in> set es \<longrightarrow> hexfree 0 s)"

lemma lines_quiet_simps [simp]:
  "lines_quiet []" "lines_quiet (es @ fs) \<longleftrightarrow> lines_quiet es \<and> lines_quiet fs"
  "lines_quiet (Called c # es) = lines_quiet es" "lines_quiet (Completed # es) = lines_quiet es"
  "lines_quiet (alertf s # es) \<longleftrightarrow> hexfree 0 (s @ [CHR 0x0A]) \<and> lines_quiet es"
  by (auto simp: lines_quiet_def alertf_def literals)

lemma lines_quiet_emit [simp]: "lines_quiet (fst (emit es r)) \<longleftrightarrow> lines_quiet es \<and> lines_quiet (fst r)"
  by (simp add: emit_def)

definition answers_ok :: "attempt list \<Rightarrow> bool" where
  "answers_ok as \<longleftrightarrow> (\<forall>a \<in> set as. status_ok (answer a))"

lemma quiet_class: "quiet e \<Longrightarrow> hexfree 0 (errClass e)"
  using quiet_texts by blast

lemma activate_quiet: "answers_ok as \<Longrightarrow> hexfree 0 l \<Longrightarrow> lines_quiet (fst (activate tok l as))"
proof (induction as arbitrary: l)
  case (Cons a as)
  then show ?case
    using client_quiet(1) [of "answer a" tok, THEN quiet_class]
    by (auto simp: answers_ok_def hexfree_append_stop literals split: sum.splits)
qed simp

lemma end_quiet: "answers_ok as \<Longrightarrow> lines_quiet (fst (end_session tok as))"
proof (induction as)
  case (Cons a as)
  then show ?case
    using client_quiet(3) [of "answer a" tok, THEN quiet_class]
    by (auto simp: answers_ok_def hexfree_append_stop literals split: sum.splits)
qed simp

lemma renew_quiet:
  "\<forall>p \<in> set ps. status_ok (renewed p) \<and> status_ok (activated p) \<Longrightarrow> answers_ok as \<Longrightarrow> lines_quiet (fst (renew tok ps as))"
proof (induction ps)
  case (Cons p ps)
  then show ?case
    using client_quiet(2) [of "renewed p" tok, THEN quiet_class] client_quiet(1) [of "activated p" tok, THEN quiet_class]
      end_quiet [of as tok]
    by (auto simp: hexfree_append_stop literals split: sum.splits)
qed simp

lemma unregister_quiet:
  "answers_ok as \<Longrightarrow> n + length as < 10 ^ 20 \<Longrightarrow> lines_quiet (fst (unregisterLoop n tok as))"
proof (induction as arbitrary: n)
  case (Cons a as)
  then have "hexfree 0 (dec n)"
    using hexfree_dec [of n 20] by simp
  with Cons show ?case
    using client_quiet(3) [of "answer a" tok, THEN quiet_class]
    by (auto simp: answers_ok_def hexfree_append_stop literals split: sum.splits)
qed simp

section \<open>Registrations\<close>

lemma quiet_literals:
  "hexfree 0 ''register''" "hexfree 0 ''recover''" "hexfree 0 ''health''" "hexfree 0 ''client''" "hexfree 0 ''request_not_sent''"
  "hexfree 0 ''outcome_unknown''" "hexfree 0 ''refused''" "hexfree 0 []"
  by (simp_all add: literals)

lemma base_texts:
  "hexfree 0 ''register base URL carries the token''" "hexfree 0 ''register base URL is not a plain http URL''"
  "hexfree 0 ''register base URL is not a loopback IP with a port''"
  by (simp_all add: literals)

lemma validBase_quiet: "validBase lib b tok = Some e \<Longrightarrow> hexfree 0 e"
  by (auto simp: validBase_def base_texts simp del: hexfree.simps split: if_split_asm option.split_asm)

lemma firstBase_quiet: "firstBase f bs = Some e \<Longrightarrow> (\<And>b e. f b = Some e \<Longrightarrow> hexfree 0 e) \<Longrightarrow> hexfree 0 e"
  by (induction bs) (auto split: option.split_asm)

lemma checkRegistration_quiet:
  assumes "checkRegistration lib r = Some e"
  shows "hexfree 0 e"
proof (cases "firstBase (\<lambda>b. validBase lib b (Token r)) [AnthropicBase r, OpenAIBase r, ChatGPTBase r]")
  case None
  then show ?thesis
    using assms unfolding checkRegistration_def None option.case by (auto simp: literals split: if_split_asm)
next
  case (Some x)
  then have "hexfree 0 x"
    by (rule firstBase_quiet) (rule validBase_quiet)
  then show ?thesis
    using assms unfolding checkRegistration_def Some option.case by (auto simp: literals split: if_split_asm)
qed

lemma registerReply_quiet: "registerReply lib j = Inl e \<Longrightarrow> hexfree 0 e"
  using checkRegistration_quiet by (auto simp: registerReply_def Let_def literals split: if_split_asm option.split_asm)

lemma request_texts:
  "list_all (hexfree 0) [''project root must be absolute'', ''project root exceeds 200 bytes'', ''project root contains NUL'',
     ''project root has a trailing slash'', ''project root is not clean'', ''session id must be 1 to 128 characters'',
     ''session id must be printable ASCII without spaces'', ''runtime name must match [a-z0-9][a-z0-9-]{0,31}'']"
  by (simp add: literals)

lemma Validate_quiet:
  assumes "Validate req = Some e"
  shows "hexfree 0 (''request not sent: '' @ e)"
proof -
  have "e \<in> {''project root must be absolute'', ''project root exceeds 200 bytes'', ''project root contains NUL'',
     ''project root has a trailing slash'', ''project root is not clean'', ''session id must be 1 to 128 characters'',
     ''session id must be printable ASCII without spaces'', ''runtime name must match [a-z0-9][a-z0-9-]{0,31}''}"
    using assms unfolding Validate_def validRoot_def by (simp split: if_split_asm option.split_asm)
  then have "hexfree 0 e"
    using request_texts unfolding list.pred_inject by (elim insertE emptyE) (simp_all only: simp_thms)
  then have "hexfree 0 (''request not sent:'' @ CHR '' '' # e)"
    by (subst hexfree_append_stop) (simp_all add: literals)
  then show ?thesis by simp
qed

lemma Register_quiet:
  assumes "Register lib req t = Inl e" "status_ok t"
  shows "quiet e"
proof (cases "Validate req")
  case (Some x)
  then have "e = protocol ''register'' (''request not sent: '' @ x)"
    using assms(1) by (simp add: Register_def)
  then show ?thesis
    using Validate_quiet [OF Some] quiet_literals(1) by (simp only: quiet_protocol simp_thms)
next
  case None
  then show ?thesis
    using assms call_quiet [of "''register''" t] call_status [of "''register''" t] registerReply_quiet
    by (auto simp: Register_def res_bind_Inl quiet_literals split: if_split_asm sum.split_asm)
qed

lemma ParseInt64_less: "ParseInt64 s = Some n \<Longrightarrow> n < 2 ^ 63"
  by (auto simp: ParseInt64_def Let_def split: if_split_asm)

lemma pointerField_range: "pointerField read field ms p = Some (Some x) \<Longrightarrow> p = Some x \<or> (\<exists>v. read v = Some x)"
  by (induction ms arbitrary: p) (fastforce split: if_split_asm option.split_asm)+

lemma seconds_less: "unmarshalPointer readInt field j = Some (Some n) \<Longrightarrow> n < 2 ^ 63"
  using ParseInt64_less by (auto simp: unmarshalPointer_def readInt_def dest!: pointerField_range split: option.split_asm json.split_asm)

lemma checkRegistration_None:
  assumes "checkRegistration lib r = None"
  shows "validToken (Token r) \<and> validHeaderName (TokenHeader r) \<and> 1 \<le> ActivationSeconds r"
  using assms unfolding checkRegistration_def by (auto split: if_split_asm option.split_asm)

lemma registerReply_Inr:
  assumes "registerReply lib j = Inr r"
  shows "checkRegistration lib r = None \<and> ActivationSeconds r < 2 ^ 63"
proof -
  obtain n where n: "unmarshalPointer readInt ''activation_seconds'' j = Some (Some n)"
    using assms by (cases "unmarshalPointer readInt ''activation_seconds'' j"; cases "the (unmarshalPointer readInt ''activation_seconds'' j)")
      (auto simp: registerReply_def Let_def split: if_split_asm)
  then have "checkRegistration lib r = None \<and> ActivationSeconds r = n"
    using assms by (auto simp: registerReply_def Let_def split: if_split_asm option.split_asm)
  then show ?thesis
    using seconds_less [OF n] by simp
qed

lemma Register_Inr:
  assumes "Register lib req t = Inr r"
  shows "validToken (Token r) \<and> validHeaderName (TokenHeader r) \<and> 1 \<le> ActivationSeconds r \<and> ActivationSeconds r < 2 ^ 63"
proof -
  obtain j where "registerReply lib j = Inr r"
    using assms by (auto simp: Register_def res_bind_Inr split: option.split_asm if_split_asm sum.split_asm)
  then show ?thesis
    using registerReply_Inr checkRegistration_None by blast
qed

text \<open>A separator outside the token splits the search.\<close>

lemma Contains_stop: "c \<notin> set t \<Longrightarrow> Contains (u @ c # v) t \<longleftrightarrow> Contains u t \<or> Contains v t"
proof
  assume c: "c \<notin> set t" "Contains (u @ c # v) t"
  then consider "sublist t u" | "sublist t (c # v)" | t1 t2 where "t = t1 @ t2" "suffix t1 u" "prefix t2 (c # v)"
    unfolding Contains_sublist sublist_append by blast
  then show "Contains u t \<or> Contains v t"
  proof cases
    case 2
    then show ?thesis
      using c(1) unfolding Contains_sublist sublist_Cons_right by (auto simp: prefix_Cons)
  next
    case 3
    then have "t2 = []"
      using c(1) by (cases t2) auto
    then show ?thesis
      using 3 unfolding Contains_sublist by auto
  qed (simp add: Contains_sublist)
next
  assume "Contains u t \<or> Contains v t"
  then show "Contains (u @ c # v) t"
    unfolding Contains_sublist sublist_append sublist_Cons_right by blast
qed

lemma registrationText_token:
  assumes "validToken t" "validHeaderName (TokenHeader r)" "1 \<le> ActivationSeconds r" "ActivationSeconds r < 2 ^ 63"
  shows "Contains (registrationText r) t \<longleftrightarrow> TokenHeader r = t"
proof -
  have hex: "c \<notin> set t" if "\<not> is_lower_hex c" for c
    using assms(1) that by (auto simp: validToken_def list_all_iff)
  have n: "nat (ActivationSeconds r) < 10 ^ 20"
    using assms(4) by simp
  have "hexfree 0 (''activation '' @ Itoa (ActivationSeconds r) @ ''s)'')"
    using assms(3) hexfree_dec [OF n] by (simp add: Itoa_def hexfree_append_stop literals)
  then have tail: "\<not> Contains (''activation '' @ Itoa (ActivationSeconds r) @ ''s)'') t"
    using hexfree_token assms(1) by blast
  have head: "\<not> Contains ''netproxy registration (header'' t"
    using hexfree_token [OF _ assms(1)] by (simp add: literals)
  have "Contains (registrationText r) t \<longleftrightarrow> Contains (''netproxy registration (header'' @ CHR '' '' # (TokenHeader r @ CHR '','' #
      ([] @ CHR '' '' # (''activation '' @ Itoa (ActivationSeconds r) @ ''s)'')))) t"
    by (simp add: registrationText_def)
  also have "\<dots> \<longleftrightarrow> Contains (TokenHeader r) t"
    using head tail hex assms(1)
    by (subst Contains_stop, simp add: literals, subst Contains_stop, simp add: literals, subst Contains_stop, simp add: literals)
      (auto simp: Contains_sublist validToken_def)
  also have "\<dots> \<longleftrightarrow> TokenHeader r = t"
  proof
    assume "Contains (TokenHeader r) t"
    then obtain u v where h: "TokenHeader r = u @ t @ v"
      by (auto simp: Contains_sublist sublist_def)
    have "length (TokenHeader r) \<le> length t"
      using assms(1,2) by (simp add: validToken_def validHeaderName_def)
    then show "TokenHeader r = t"
      using h by simp
  qed (simp add: Contains_sublist)
  finally show ?thesis .
qed

section \<open>The recovery client\<close>

definition recoveryQuiet :: "RecoveryError \<Rightarrow> bool" where
  "recoveryQuiet e \<longleftrightarrow> hexfree 0 (recOp e) \<and> hexfree 0 (recKind e) \<and> recStatus e < 1000 \<and> hexfree 0 (recCode e)"

lemma recoveryQuiet_text: "recoveryQuiet e \<Longrightarrow> hexfree 0 (recoveryText e)"
  using hexfree_dec [of "recStatus e" 3] by (simp add: recoveryQuiet_def recoveryText_def hexfree_append_stop literals)

lemma outcomeUnknown_quiet: "hexfree 0 op \<Longrightarrow> recoveryQuiet (outcomeUnknown op)"
  by (simp add: recoveryQuiet_def outcomeUnknown_def recoveryFailure_def quiet_literals)

lemma allowedCodes_quiet: "map_of allowedCodes status = Some known \<Longrightarrow> code \<in> set known \<Longrightarrow> status < 1000 \<and> hexfree 0 code"
proof -
  assume "map_of allowedCodes status = Some known" "code \<in> set known"
  moreover have "list_all (\<lambda>(s, codes). s < 1000 \<and> list_all (hexfree 0) codes) allowedCodes"
    by (simp add: allowedCodes_def literals)
  ultimately show "status < 1000 \<and> hexfree 0 code"
    by (auto simp: list_all_iff dest!: map_of_SomeD)
qed

lemma recoveryRefusal_quiet: "hexfree 0 op \<Longrightarrow> recoveryQuiet (recoveryRefusal op status raw)"
  using outcomeUnknown_quiet allowedCodes_quiet
  by (auto simp: recoveryRefusal_def recoveryQuiet_def recoveryFailure_def quiet_literals split: option.split)

lemma recoveryCall_quiet: "recoveryCall op r = Inl e \<Longrightarrow> hexfree 0 op \<Longrightarrow> recoveryQuiet e"
  using outcomeUnknown_quiet by (auto simp: recoveryCall_def split: transport.split_asm option.split_asm if_split_asm)

lemma envelopeCall_quiet: "envelopeCall op env r = Inl e \<Longrightarrow> hexfree 0 op \<Longrightarrow> recoveryQuiet e"
  using recoveryCall_quiet [of op r e]
  by (auto simp: envelopeCall_def recoveryQuiet_def recoveryFailure_def quiet_literals split: if_split_asm)

lemma recovery_client_quiet:
  shows "NewRecovery socket = Inl e \<Longrightarrow> recoveryQuiet e" "recoveryHealth r = Inl e \<Longrightarrow> recoveryQuiet e"
    "RecoveryRegister lib env r = Inl e \<Longrightarrow> recoveryQuiet e" "Recover env r = Inl e \<Longrightarrow> recoveryQuiet e"
proof -
  note unknown = outcomeUnknown_quiet [of "''health''"] outcomeUnknown_quiet [of "''register''"] outcomeUnknown_quiet [of "''recover''"]
  show "NewRecovery socket = Inl e \<Longrightarrow> recoveryQuiet e"
    by (auto simp: NewRecovery_def recoveryQuiet_def recoveryFailure_def quiet_literals split: if_split_asm)
  show "recoveryQuiet e" if "recoveryHealth r = Inl e"
  proof -
    have "recoveryCall ''health'' r = Inl e \<or> e = outcomeUnknown ''health'' \<or> (\<exists>status raw. e = recoveryRefusal ''health'' status raw)"
      using that unfolding recoveryHealth_def res_bind_Inl by (auto simp del: hexfree.simps split: if_split_asm option.split_asm)
    then show ?thesis
      using recoveryCall_quiet [OF _ quiet_literals(3)] recoveryRefusal_quiet [OF quiet_literals(3)] unknown(1) [OF quiet_literals(3)] by blast
  qed
  show "RecoveryRegister lib env r = Inl e \<Longrightarrow> recoveryQuiet e"
    using envelopeCall_quiet [of "''register''" env r e] recoveryRefusal_quiet [of "''register''"] unknown(2)
    by (auto simp: RecoveryRegister_def res_bind_Inl quiet_literals split: if_split_asm option.split_asm)
  show "Recover env r = Inl e \<Longrightarrow> recoveryQuiet e"
    using envelopeCall_quiet [of "''recover''" env r e] recoveryRefusal_quiet [of "''recover''"] unknown(3)
    by (auto simp: Recover_def res_bind_Inl quiet_literals split: if_split_asm option.split_asm)
qed

section \<open>No token in a text\<close>

text \<open>C19. No line of a run, of the background duties or of \<open>Finish\<close>, and no error text of the two clients
  contains a launch token: not the lease's and not any other the gateway might reflect into its
  replies, whatever its statuses, bodies and member values are and whatever the URL parser says of a
  base. That covers health, register, activate, renew and unregister, and of the recovery client its
  construction, health, register and recover. The text of a registration contains a token in one
  case only: when the gateway names the header after it, which the check of the header name admits
  although the method promises that it never renders the token.\<close>

theorem token_never_rendered:
  assumes "validToken t"
    and "answers_ok acts" "answers_ok ends" "answers_ok attempts"
    and "\<forall>p \<in> set renews. status_ok (renewed p) \<and> status_ok (activated p)" and "length attempts < 2 ^ 63"
  shows "(\<forall>s. Alert s \<in> set (fst (snd (Finish l (background tok acts renews ends) attempts))) \<longrightarrow> \<not> Contains s t) \<and>
    (\<forall>r e. status_ok r \<and> Inl e \<in> {Activate tok r, Renew tok r, Unregister tok r, Health r} \<longrightarrow>
      \<not> Contains (errorText e) t \<and> \<not> Contains (errClass e) t) \<and>
    (\<forall>lib req r e. status_ok r \<and> Register lib req r = Inl e \<longrightarrow> \<not> Contains (errorText e) t \<and> \<not> Contains (errClass e) t) \<and>
    (\<forall>lib req r reg. Register lib req r = Inr reg \<longrightarrow>
      validToken (Token reg) \<and> (Contains (registrationText reg) t \<longleftrightarrow> TokenHeader reg = t)) \<and>
    (\<forall>lib env socket r e. NewRecovery socket = Inl e \<or> recoveryHealth r = Inl e \<or> RecoveryRegister lib env r = Inl e \<or> Recover env r = Inl e \<longrightarrow>
      \<not> Contains (recoveryText e) t)"
proof (intro conjI allI impI)
  show "\<not> Contains (errorText e) t" "\<not> Contains (errClass e) t"
    if "status_ok r \<and> Inl e \<in> {Activate tok r, Renew tok r, Unregister tok r, Health r}" for r e
    using that client_quiet [THEN quiet_texts] hexfree_token assms(1) by (metis insertE empty_iff)+
  show "\<not> Contains (errorText e) t" "\<not> Contains (errClass e) t" if "status_ok r \<and> Register lib req r = Inl e" for lib req r e
    using that Register_quiet [THEN quiet_texts] hexfree_token assms(1) by blast+
  show "validToken (Token reg)" "Contains (registrationText reg) t \<longleftrightarrow> TokenHeader reg = t" if "Register lib req r = Inr reg" for lib req r reg
    using Register_Inr [OF that] registrationText_token [OF assms(1)] by blast+
  show "\<not> Contains (recoveryText e) t"
    if "NewRecovery socket = Inl e \<or> recoveryHealth r = Inl e \<or> RecoveryRegister lib env r = Inl e \<or> Recover env r = Inl e"
    for lib env socket r e
    using that recovery_client_quiet [THEN recoveryQuiet_text] hexfree_token assms(1) by blast
  obtain es act where act: "activate tok ''no attempt'' acts = (es, act)"
    by fastforce
  have "lines_quiet (fst (activate tok ''no attempt'' acts))"
    using activate_quiet [OF assms(2)] by (simp add: literals)
  then have "lines_quiet (fst (background tok acts renews ends))"
    using renew_quiet [OF assms(5,3), of tok] end_quiet [OF assms(3), of tok]
    by (cases act) (simp_all add: background_def act)
  moreover have "lines_quiet (fst (unregisterLoop 1 (token l) attempts))"
    using unregister_quiet [OF assms(4), of 1] assms(6) by simp
  ultimately have "lines_quiet (fst (snd (Finish l (background tok acts renews ends) attempts)))"
    by (simp add: Finish_def Let_def split: option.splits)
  then show "\<not> Contains s t" if "Alert s \<in> set (fst (snd (Finish l (background tok acts renews ends) attempts)))" for s
    using that hexfree_token assms(1) unfolding lines_quiet_def by blast
qed

definition sampleToken :: string where
  "sampleToken = replicate 64 CHR ''a''"

lemma sampleToken_facts: "validToken sampleToken" "length sampleToken = 64"
  by (simp_all add: validToken_def sampleToken_def list_all_length literals)

lemma sampleToken_header: "validHeaderName sampleToken"
proof -
  have "lowerByte CHR ''a'' = CHR ''a''" "is_lower CHR ''a''"
    by code_simp+
  then have "map lowerByte sampleToken = sampleToken" "list_all is_lower sampleToken"
    by (simp_all add: sampleToken_def map_replicate list_all_length)
  moreover have "sampleToken \<notin> {''authorization'', ''proxy-authorization'', ''cookie'', ''host'', ''content-length'', ''transfer-encoding'',
       ''connection'', ''x-api-key''}"
  proof -
    have "\<forall>s \<in> {''authorization'', ''proxy-authorization'', ''cookie'', ''host'', ''content-length'', ''transfer-encoding'',
       ''connection'', ''x-api-key''}. length s < 64"
      by simp
    then show ?thesis
      using sampleToken_facts(2) by (metis less_irrefl)
  qed
  ultimately show ?thesis
    using sampleToken_facts(2) by (cases "sampleToken = []") (simp_all add: validHeaderName_def list_all_iff del: insert_iff)
qed

lemma foldKey_samples:
  "foldKey ''api'' = ''api''" "foldKey ''token'' = ''token''" "foldKey ''token_header'' = ''token_header''"
  "foldKey ''anthropic_base'' = ''anthropic_base''" "foldKey ''openai_base'' = ''openai_base''"
  "foldKey ''chatgpt_base'' = ''chatgpt_base''" "foldKey ''activation_seconds'' = ''activation_seconds''"
proof -
  have "map lowerByte s = s" if "list_all (\<lambda>c. \<not> is_upper c) s" for s
    using that by (induction s) (simp_all add: lowerByte_def)
  then have "foldKey s = s" if "list_all (\<lambda>c. \<not> is_upper c \<and> c \<noteq> CHR 0xE2 \<and> c \<noteq> CHR 0xC5) s" for s
    using that by (subst foldKey_ascii) (auto simp: list_all_iff)
  then show "foldKey ''api'' = ''api''" "foldKey ''token'' = ''token''" "foldKey ''token_header'' = ''token_header''"
    "foldKey ''anthropic_base'' = ''anthropic_base''" "foldKey ''openai_base'' = ''openai_base''"
    "foldKey ''chatgpt_base'' = ''chatgpt_base''" "foldKey ''activation_seconds'' = ''activation_seconds''"
    by (simp_all add: is_upper_def less_eq_char_def)
qed

text \<open>A reply that reflects the token as its error code, and a registration that names its header after
  the token.\<close>

definition reflecting :: transport where
  "reflecting = Reply \<lparr>Status = 409, Versions = [APIVersion],
     Body = Some (120, Some (JsObject [(''api'', JsString APIVersion), (''error'', JsString sampleToken)]))\<rparr>"

definition sampleLib :: urlLib where
  "sampleLib = \<lparr>parseURL = (\<lambda>b. Some \<lparr>urlScheme = ''http'', urlUser = False, urlRawQuery = [], urlFragment = [], urlOpaque = [],
     urlHostname = ''127.0.0.1'', urlPort = ''80''\<rparr>), parseIP = (\<lambda>h. if h = ''127.0.0.1'' then Some True else None)\<rparr>"

definition sampleRequest :: RegisterRequest where
  "sampleRequest = \<lparr>Root = ''/w'', Session = ''s'', Runtime = ''muse''\<rparr>"

definition namingHeader :: transport where
  "namingHeader = (let base = JsString ''http://127.0.0.1:80'' in Reply \<lparr>Status = 200, Versions = [APIVersion],
     Body = Some (400, Some (JsObject [(''api'', JsString APIVersion), (''token'', JsString sampleToken), (''token_header'', JsString sampleToken),
       (''anthropic_base'', base), (''openai_base'', base), (''chatgpt_base'', base), (''activation_seconds'', JsNumber ''60'')]))\<rparr>)"

theorem token_never_rendered_witness:
  "\<exists>e reg. Unregister sampleToken reflecting = Inl e \<and> \<not> Contains (errorText e) sampleToken \<and>
    Register sampleLib sampleRequest namingHeader = Inr reg \<and> Contains (registrationText reg) sampleToken"
proof -
  let ?reg = "\<lparr>Token = sampleToken, TokenHeader = sampleToken, AnthropicBase = ''http://127.0.0.1:80'', OpenAIBase = ''http://127.0.0.1:80'',
    ChatGPTBase = ''http://127.0.0.1:80'', ActivationSeconds = 60\<rparr>"
  have ok: "validToken sampleToken" "status_ok reflecting"
    by (simp_all add: sampleToken_facts status_ok_def reflecting_def)
  have "isl (Unregister sampleToken reflecting)"
    by code_simp
  then obtain e where e: "Unregister sampleToken reflecting = Inl e"
    by (auto simp: isl_def)
  have reg: "Register sampleLib sampleRequest namingHeader = Inr ?reg"
  proof -
    let ?j = "Some (JsObject [(''api'', JsString APIVersion), (''token'', JsString sampleToken), (''token_header'', JsString sampleToken),
       (''anthropic_base'', JsString ''http://127.0.0.1:80''), (''openai_base'', JsString ''http://127.0.0.1:80''),
       (''chatgpt_base'', JsString ''http://127.0.0.1:80''), (''activation_seconds'', JsNumber ''60'')])"
    have "call ''register'' namingHeader = Inr (200, 400, ?j)"
      by (simp add: call_def namingHeader_def MaxReply_def unmarshalPointer_def fieldNamed_def foldKey_samples readString_def Let_def)
    moreover have "registerStrings ?j = map (\<lambda>s. Some (Some s)) [sampleToken, sampleToken, ''http://127.0.0.1:80'', ''http://127.0.0.1:80'', ''http://127.0.0.1:80'']"
      by (simp add: registerStrings_def unmarshalPointer_def fieldNamed_def foldKey_samples readString_def)
    moreover have "ParseInt64 ''60'' = Some 60"
      by code_simp
    then have "unmarshalPointer readInt ''activation_seconds'' ?j = Some (Some 60)"
      by (simp add: unmarshalPointer_def fieldNamed_def foldKey_samples readInt_def)
    moreover have "\<not> Contains ''http://127.0.0.1:80'' sampleToken"
      using sampleToken_facts(2) sublist_length_le [of sampleToken "''http://127.0.0.1:80''"] by (auto simp: Contains_sublist)
    then have "checkRegistration sampleLib ?reg = None"
      by (simp add: checkRegistration_def validBase_def sampleLib_def sampleToken_facts sampleToken_header)
    moreover have "Validate sampleRequest = None"
      by code_simp
    ultimately show ?thesis
      by (simp add: Register_def registerReply_def Let_def)
  qed
  have none: "answers_ok []" "\<forall>p \<in> set ([] :: renewal list). status_ok (renewed p) \<and> status_ok (activated p)"
    "length ([] :: attempt list) < 2 ^ 63"
    by (simp_all add: answers_ok_def)
  note claim = token_never_rendered [of sampleToken "[]" "[]" "[]" "[]" "NewLease sampleToken" sampleToken, OF ok(1) none(1,1,1,2,3)]
  have "\<not> Contains (errorText e) sampleToken"
    using claim [THEN conjunct2, THEN conjunct1] ok(2) e by (metis insertI1 insertI2)
  moreover have "Contains (registrationText ?reg) sampleToken"
    using claim [THEN conjunct2, THEN conjunct2, THEN conjunct2, THEN conjunct1, rule_format, OF reg] by simp
  ultimately show ?thesis
    using e reg by blast
qed

section \<open>Finish returns\<close>

definition closes :: "string \<Rightarrow> attempt \<Rightarrow> bool" where
  "closes tok a \<longleftrightarrow> Unregister tok (answer a) = Inr ()"

definition stops :: "string \<Rightarrow> attempt \<Rightarrow> bool" where
  "stops tok a \<longleftrightarrow> closes tok a \<or> \<not> paused a"

fun calls :: "event list \<Rightarrow> string list" where
  "calls [] = []"
| "calls (Called c # es) = c # calls es"
| "calls (_ # es) = calls es"

lemma calls_append [simp]: "calls (es @ fs) = calls es @ calls fs"
  by (induction es rule: calls.induct) simp_all

lemma calls_emit [simp]: "calls (fst (emit es r)) = calls es @ calls (fst r)"
  by (simp add: emit_def)

lemma snd_emit [simp]: "snd (emit es r) = snd r"
  by (simp add: emit_def)

lemma calls_alertf [simp]: "calls (alertf s # es) = calls es"
  by (simp add: alertf_def)

lemma unregister_until:
  assumes "stops tok (s k)" "\<And>i. i < k \<Longrightarrow> \<not> stops tok (s i)" "k < n"
  shows "snd (unregisterLoop m tok (map s [0..<n])) =
      Some (if closes tok (s k) then None else Some ''netproxy unregister abandoned'') \<and>
    calls (fst (unregisterLoop m tok (map s [0..<n]))) = replicate (Suc k) ''unregister''"
  using assms
proof (induction k arbitrary: s n m)
  case 0
  then obtain n' where "n = Suc n'" by (cases n) auto
  with 0 show ?case
    by (auto simp: map_upt_Suc stops_def closes_def simp del: upt_Suc split: sum.splits)
next
  case (Suc k)
  then obtain n' where n: "n = Suc n'" by (cases n) auto
  have "\<not> closes tok (s 0)" "paused (s 0)"
    using Suc.prems(2) [of 0] by (simp_all add: stops_def)
  moreover note Suc.IH [of "\<lambda>i. s (Suc i)" n' "m + 1"]
  ultimately show ?case
    using Suc.prems n
    by (auto simp: map_upt_Suc closes_def simp del: upt_Suc split: sum.splits)
qed

text \<open>More attempts than a run needed change nothing.\<close>

lemma activate_more: "snd (activate tok l as) \<noteq> None \<Longrightarrow> activate tok l (as @ bs) = activate tok l as"
  by (induction as arbitrary: l) (auto split: sum.splits)

lemma end_more: "snd (end_session tok as) \<noteq> None \<Longrightarrow> end_session tok (as @ bs) = end_session tok as"
  by (induction as) (auto split: sum.splits)

lemma renew_more:
  "snd (renew tok ps as) \<noteq> None \<Longrightarrow> renew tok (ps @ qs) (as @ bs) = renew tok ps as"
  by (induction ps) (auto simp: end_more split: sum.splits if_splits)

lemma background_more:
  "snd (background tok as ps es) \<noteq> None \<Longrightarrow> background tok (as @ as') (ps @ ps') (es @ es') = background tok as ps es"
  using activate_more [of tok "''no attempt''" as as'] renew_more [of tok ps es ps' es'] end_more [of tok es es']
  by (auto simp: background_def split: prod.splits option.splits if_splits)

lemma activate_returns:
  assumes "\<And>i. expired (acts i) \<Longrightarrow> late (acts (Suc i))" "\<not> paused (acts i)"
  shows "\<exists>n. snd (activate tok l (map acts [0..<n])) \<noteq> None"
  using assms
proof (induction i arbitrary: acts l)
  case 0
  have "snd (activate tok l (map acts [0..<2])) \<noteq> None"
    using 0 by (auto simp: numeral_2_eq_2 split: sum.splits)
  then show ?case by blast
next
  case (Suc i)
  have "\<exists>n. snd (activate tok l' (map (\<lambda>i. acts (Suc i)) [0..<n])) \<noteq> None" for l'
    using Suc.prems by (intro Suc.IH) auto
  then obtain n where "snd (activate tok (case Activate tok (answer (acts 0)) of Inl e \<Rightarrow> errClass e | _ \<Rightarrow> [])
      (map (\<lambda>i. acts (Suc i)) [0..<n])) \<noteq> None" by blast
  then have "snd (activate tok l (map acts [0..<Suc n])) \<noteq> None"
    unfolding map_upt_Suc by (auto split: sum.splits)
  then show ?case by blast
qed

lemma end_returns: "\<not> paused (s i) \<Longrightarrow> \<exists>n. snd (end_session tok (map s [0..<n])) \<noteq> None"
proof (induction i arbitrary: s)
  case 0
  have "snd (end_session tok (map s [0..<1])) \<noteq> None"
    using 0 by (auto split: sum.splits)
  then show ?case by blast
next
  case (Suc i)
  then obtain n where "snd (end_session tok (map (\<lambda>i. s (Suc i)) [0..<n])) \<noteq> None"
    using Suc.IH [of "\<lambda>i. s (Suc i)"] by blast
  then have "snd (end_session tok (map s [0..<Suc n])) \<noteq> None"
    unfolding map_upt_Suc by (auto split: sum.splits)
  then show ?case by blast
qed

lemma renew_returns:
  assumes "\<not> elapsed (ps i)" "snd (end_session tok as) \<noteq> None"
  shows "\<exists>n. snd (renew tok (map ps [0..<n]) as) \<noteq> None"
  using assms(1)
proof (induction i arbitrary: ps)
  case 0
  have "snd (renew tok (map ps [0..<1]) as) \<noteq> None"
    using 0 by simp
  then show ?case by blast
next
  case (Suc i)
  then obtain n where "snd (renew tok (map (\<lambda>i. ps (Suc i)) [0..<n]) as) \<noteq> None"
    using Suc.IH [of "\<lambda>i. ps (Suc i)"] by blast
  then have "snd (renew tok (map ps [0..<Suc n]) as) \<noteq> None"
    unfolding map_upt_Suc using assms(2) by (auto split: sum.splits)
  then show ?case by blast
qed

text \<open>The background duties return once the closed channel is seen in every pause they may be in.\<close>

lemma background_returns:
  assumes "\<And>i. expired (acts i) \<Longrightarrow> late (acts (Suc i))" "\<not> paused (acts i)" "\<not> elapsed (renews j)" "\<not> paused (ends k)"
  shows "\<exists>n0 r. \<forall>n \<ge> n0. background tok (map acts [0..<n]) (map renews [0..<n]) (map ends [0..<n]) = r \<and> snd r = Some ()"
proof -
  have split: "map f [0..<a + b] = map f [0..<a] @ map f [a..<a + b]" for f :: "nat \<Rightarrow> 'x" and a b
    by (metis le_add1 le_add_same_cancel1 map_append upt_add_eq_append zero_le)
  obtain a where a: "snd (activate tok ''no attempt'' (map acts [0..<a])) \<noteq> None"
    using activate_returns [of acts i tok "''no attempt''"] assms(1,2) by blast
  obtain c where c: "snd (end_session tok (map ends [0..<c])) \<noteq> None"
    using end_returns [of ends k tok, OF assms(4)] by blast
  obtain b where b: "snd (renew tok (map renews [0..<b]) (map ends [0..<c])) \<noteq> None"
    using renew_returns [of renews j tok, OF assms(3) c] by blast
  let ?n = "a + b + c"
  let ?r = "background tok (map acts [0..<?n]) (map renews [0..<?n]) (map ends [0..<?n])"
  have "background tok (map acts [0..<a]) (map renews [0..<b]) (map ends [0..<c]) = r \<Longrightarrow> snd r \<noteq> None" for r
    using a b c by (auto simp: background_def split: prod.splits option.splits)
  then have r: "snd (background tok (map acts [0..<a]) (map renews [0..<b]) (map ends [0..<c])) \<noteq> None"
    by blast
  have more: "background tok (map acts [0..<n]) (map renews [0..<n]) (map ends [0..<n]) =
      background tok (map acts [0..<a]) (map renews [0..<b]) (map ends [0..<c])" if "?n \<le> n" for n
  proof -
    have "n = a + (n - a)" "n = b + (n - b)" "n = c + (n - c)" using that by simp_all
    then show ?thesis
      using background_more [OF r] split [of acts a "n - a"] split [of renews b "n - b"] split [of ends c "n - c"]
      by metis
  qed
  have "snd (background tok (map acts [0..<a]) (map renews [0..<b]) (map ends [0..<c])) = Some ()"
    using r by (cases "snd (background tok (map acts [0..<a]) (map renews [0..<b]) (map ends [0..<c]))") auto
  then show ?thesis using more by blast
qed

text \<open>What \<open>Finish\<close> leaves when attempt \<open>k\<close> with the observations \<open>a\<close> is the deciding one.\<close>

definition finish_outcome :: "Lease \<Rightarrow> nat \<Rightarrow> attempt \<Rightarrow> Lease \<times> string option run \<Rightarrow> bool" where
  "finish_outcome l k a = (\<lambda>(l', es, r). finished l' \<and>
     (case completion l of
        None \<Rightarrow> r = Some (if closes (token l) a then None else Some ''netproxy unregister abandoned'') \<and>
          (\<exists>pre. calls es = pre @ replicate (Suc k) ''unregister'' \<and> (started l \<or> pre = []))
      | Some f \<Rightarrow> (completeErr l = None \<longrightarrow> r = Some (f ()) \<and>
          (\<forall>as. Finish l' ([], Some ()) as = (l', [], Some (f ()))))))"

lemma Finish_outcome:
  assumes "stops (token l) (s k)" "\<And>i. i < k \<Longrightarrow> \<not> stops (token l) (s i)" "k < n" "snd bg = Some ()"
  shows "finish_outcome l k (s k) (Finish l bg (map s [0..<n]))"
  using unregister_until [of "token l" s k n 1, OF assms(1-3)] assms(4)
  by (cases "completion l") (auto simp: finish_outcome_def Finish_def Let_def emit_def split: option.splits)

text \<open>C18. \<open>Finish\<close> returns. Let the clock be monotone, let every duty see the closed channel in some
  pause, and let the gateway answer an unregister (204, or 404 for an ended session) at attempt
  \<open>k\<close>, or the caller's context end there. Then \<open>Finish\<close> returns, with success exactly when the
  gateway answered, after exactly \<open>k + 1\<close> unregister calls that nothing follows. A recovery lease that has
  no verdict yet finishes with the one of its completion, and a later \<open>Finish\<close> gives it again and
  does nothing.\<close>

theorem finish_returns:
  assumes "\<And>i. expired (acts i) \<Longrightarrow> late (acts (Suc i))" "\<not> paused (acts i)" "\<not> elapsed (renews j)" "\<not> paused (ends m)"
    and "stops (token l) (s k)" "\<And>i. i < k \<Longrightarrow> \<not> stops (token l) (s i)"
  shows "\<exists>n0. \<forall>n \<ge> n0. finish_outcome l k (s k)
    (Finish l (background (token l) (map acts [0..<n]) (map renews [0..<n]) (map ends [0..<n])) (map s [0..<n]))"
proof -
  obtain n0 r where "\<And>n. n0 \<le> n \<Longrightarrow> background (token l) (map acts [0..<n]) (map renews [0..<n]) (map ends [0..<n]) = r"
    "snd r = Some ()"
    using background_returns [of acts i renews j ends m "token l", OF assms(1-4)] by (metis order_refl)
  then show ?thesis
    using Finish_outcome [of l s k, OF assms(5,6)] by (intro exI [of _ "max n0 (Suc k)"]) simp
qed

text \<open>Two lost connections, then the gateway has forgotten the session.\<close>

definition sampleAttempt :: "transport \<Rightarrow> bool \<Rightarrow> attempt" where
  "sampleAttempt t p = \<lparr>late = False, answer = t, expired = False, paused = p\<rparr>"

definition unknownToken :: transport where
  "unknownToken = Reply \<lparr>Status = 404, Versions = [APIVersion],
     Body = Some (60, Some (JsObject [(''api'', JsString APIVersion), (''error'', JsString ''unknown_token'')]))\<rparr>"

theorem finish_returns_witness:
  "\<exists>n es l'. Finish (Started (NewLease sampleToken))
      (background sampleToken (map (\<lambda>_. sampleAttempt (ConnectionError True) False) [0..<n])
        (map (\<lambda>_. \<lparr>elapsed = False, renewed = unknownToken, activated = unknownToken\<rparr>) [0..<n])
        (map (\<lambda>_. sampleAttempt (ConnectionError False) False) [0..<n]))
      (map (\<lambda>i. sampleAttempt (if i < 2 then ConnectionError True else unknownToken) True) [0..<n]) = (l', es, Some None)"
proof -
  let ?s = "\<lambda>i::nat. sampleAttempt (if i < 2 then ConnectionError True else unknownToken) True"
  have closes: "closes sampleToken (sampleAttempt unknownToken True)" "\<not> closes sampleToken (sampleAttempt (ConnectionError True) True)"
    by code_simp+
  let ?l = "Started (NewLease sampleToken)"
  have l: "token ?l = sampleToken" "completion ?l = None"
    by (simp_all add: Started_def NewLease_def)
  obtain n where "finish_outcome ?l 2 (?s 2) (Finish ?l
      (background sampleToken (map (\<lambda>_. sampleAttempt (ConnectionError True) False) [0..<n])
        (map (\<lambda>_. \<lparr>elapsed = False, renewed = unknownToken, activated = unknownToken\<rparr>) [0..<n])
        (map (\<lambda>_. sampleAttempt (ConnectionError False) False) [0..<n])) (map ?s [0..<n]))"
    using finish_returns [of "\<lambda>_. sampleAttempt (ConnectionError True) False" 0
        "\<lambda>_. \<lparr>elapsed = False, renewed = unknownToken, activated = unknownToken\<rparr>" 0
        "\<lambda>_. sampleAttempt (ConnectionError False) False" 0 ?l ?s 2]
    using closes l by (fastforce simp: sampleAttempt_def stops_def)
  then show ?thesis
    using closes(1) l by (intro exI [of _ n]) (auto simp: finish_outcome_def split: prod.splits)
qed

end
