(* ===== verification/ClosedMembers.thy ===== *)
theory ClosedMembers
  imports FragmentRoundtrip "HOL-Library.Multiset"
begin

text \<open>
  Closed objects: member lists up to order, and documents that are equal up to the order of their
  members, from their members.
\<close>

section \<open>Member lists\<close>

text \<open>A list with the members of a closed object, in any order.\<close>

lemma members_perm:
  assumes "distinct (map fst ms)" "distinct (map fst ks)" "length ms = length ks" "\<And>k v. (k, v) \<in> set ks \<Longrightarrow> map_of ms k = Some v"
  shows "mset ms = mset ks"
proof -
  have "set ks \<subseteq> set ms"
    using assms(4) map_of_SomeD by force
  moreover have d: "distinct ms" "distinct ks"
    using assms(1,2) by (simp_all add: distinct_map)
  ultimately have "set ks = set ms"
    using assms(3) by (intro card_subset_eq) (simp_all add: distinct_card)
  then show ?thesis
    using d by (simp add: set_eq_iff_mset_eq_distinct)
qed

lemma perm_map_of:
  assumes "mset ms = mset ks" "distinct (map fst ks)"
  shows "distinct (map fst ms)" "length ms = length ks" "set (map fst ms) = set (map fst ks)" "map_of ms = map_of ks"
proof -
  have fst: "mset (map fst ms) = mset (map fst ks)"
    using assms(1) by simp
  show d: "distinct (map fst ms)"
    using mset_eq_imp_distinct_iff [OF fst] assms(2) by blast
  show "set (map fst ms) = set (map fst ks)"
    by (rule mset_eq_setD [OF fst])
  show "length ms = length ks"
    using assms(1) by (rule mset_eq_length)
  show "map_of ms = map_of ks"
    using map_of_inject_set [OF d assms(2)] mset_eq_setD [OF assms(1)] by blast
qed

section \<open>Documents up to member order\<close>

abbreviation wf_json :: "jvalue \<Rightarrow> bool" where
  "wf_json v \<equiv> \<exists>k. jwf k v"

lemma wf_json_Get: "wf_json v \<Longrightarrow> Get v key = Some u \<Longrightarrow> wf_json u"
proof (cases v)
  case (JObject ms)
  assume "wf_json v" "Get v key = Some u"
  with JObject obtain k where "jwf (Suc k) (JObject ms)" "(key, u) \<in> set ms"
    by (auto elim: jwf.elims dest: map_of_SomeD)
  then have "jwf k u" by auto
  then show ?thesis by blast
qed auto

lemma wf_json_distinct: "wf_json (JObject ms) \<Longrightarrow> distinct (map fst ms)"
  by (auto elim: jwf.elims)

lemma norm_members_eq:
  assumes "distinct (map fst ms)" "distinct (map fst ks)"
  shows "norm (JObject ms) = norm (JObject ks) \<longleftrightarrow> mset (map (map_prod id norm) ms) = mset (map (map_prod id norm) ks)"
proof -
  have inj: "inj_on fst (set (map (map_prod id norm) xs))" if "distinct (map fst xs)" for xs :: "(string \<times> jvalue) list"
    using that distinct_map [of fst "map (map_prod id norm) xs"] by simp
  show ?thesis
  proof
    assume "norm (JObject ms) = norm (JObject ks)"
    then have "mset (sort_key fst (map (map_prod id norm) ms)) = mset (sort_key fst (map (map_prod id norm) ks))"
      by simp
    then show "mset (map (map_prod id norm) ms) = mset (map (map_prod id norm) ks)" by simp
  next
    assume eq: "mset (map (map_prod id norm) ms) = mset (map (map_prod id norm) ks)"
    have "sort_key fst (map (map_prod id norm) ms) = sort_key fst (map (map_prod id norm) ks)"
    proof (rule sort_key_inj_key_eq)
      show "mset (map (map_prod id norm) ms) = mset (sort_key fst (map (map_prod id norm) ks))"
        using eq by simp
      show "inj_on fst (set (map (map_prod id norm) ms))" using assms(1) by (rule inj)
    qed simp
    then show "norm (JObject ms) = norm (JObject ks)" by simp
  qed
qed

text \<open>A document is a closed object, up to order, when it has as many members and each of them.\<close>

lemma norm_object_iff:
  assumes "wf_json v" "distinct (map fst ks)"
  shows "norm v = norm (JObject ks) \<longleftrightarrow>
    (\<exists>ms. v = JObject ms \<and> length ms = length ks) \<and> list_all (\<lambda>(n, w). map_option norm (Get v n) = Some (norm w)) ks"
proof (cases v)
  case (JObject ms)
  let ?n = "map (map_prod id norm)"
  have d: "distinct (map fst ms)" using assms(1) JObject by (auto intro: wf_json_distinct)
  have get: "map_of (?n xs) key = map_option norm (map_of xs key)" for xs :: "(string \<times> jvalue) list" and key
    by (induction xs) auto
  have fst: "map fst (?n xs) = map fst xs" for xs :: "(string \<times> jvalue) list"
    by simp
  have "mset (?n ms) = mset (?n ks) \<longleftrightarrow> length ms = length ks \<and> (\<forall>(n, w) \<in> set ks. map_option norm (map_of ms n) = Some (norm w))"
    (is "?L \<longleftrightarrow> ?R")
  proof
    assume L: ?L
    note perm = perm_map_of [OF L, unfolded fst, OF assms(2)]
    have "map_option norm (map_of ms n) = Some (norm w)" if "(n, w) \<in> set ks" for n w
    proof -
      have "map_of ks n = Some w" using that assms(2) by simp
      then show ?thesis using get perm(4) by (metis option.simps(9))
    qed
    with perm(2) show ?R by auto
  next
    assume R: ?R
    show ?L
    proof (rule members_perm)
      show "map_of (?n ms) k = Some w" if "(k, w) \<in> set (?n ks)" for k w
        using that R unfolding get by auto
    qed (use d assms(2) R in simp_all)
  qed
  then show ?thesis
    unfolding JObject norm_members_eq [OF d assms(2)] by (simp add: list_all_iff)
qed auto

lemma norm_scalar [simp]:
  "norm v = JString s \<longleftrightarrow> v = JString s" "norm v = JInt i \<longleftrightarrow> v = JInt i" "norm v = JBool b \<longleftrightarrow> v = JBool b"
  by (cases v; simp)+

end
