(* ===== verification/NetRecoveryProps.thy ===== *)
theory NetRecoveryProps
  imports NetRecovery ClosedMembers
begin

text \<open>
  The recovery result exists only after one exact closed reply to a valid envelope, whose window
  does not wrap.
\<close>

section \<open>The issuance window\<close>

definition envelope_ok :: "RecoveryEnvelope \<Rightarrow> bool" where
  "envelope_ok e \<longleftrightarrow>
     Validate \<lparr>Root = envRoot e, Session = envSession e, Runtime = envRuntime e\<rparr> = None \<and>
     validToken (AttemptID e) \<and> validToken (RecoveryProof e) \<and> validToken (RegistryID e) \<and>
     AttemptID e \<noteq> RecoveryProof e \<and> Boot e \<noteq> [] \<and>
     (\<exists>n. IssuedNS e = dec n \<and> ExpiresNS e = dec (n + 120000000000) \<and> n + 120000000000 < 2 ^ 64)"

lemma canonicalNS_iff: "canonicalNS s = Some w \<longleftrightarrow> s = dec (unat w)"
proof
  assume "canonicalNS s = Some w"
  then have "w = of_nat (dec_value s)" "dec_value s < 2 ^ 64" "dec (dec_value s) = s"
    by (auto simp: canonicalNS_def split: if_splits)
  then show "s = dec (unat w)"
    by (simp add: unat_of_nat take_bit_nat_eq_self)
next
  assume "s = dec (unat w)"
  moreover have "unat w < 2 ^ 64"
    using unsigned_less [of w] by simp
  ultimately show "canonicalNS s = Some w"
    using dec_digits [of "unat w"] by (simp add: canonicalNS_def list_all_iff)
qed

lemma window_word:
  fixes issued :: "64 word"
  shows "\<not> (- 1 - IssuanceWindowNS < issued) \<longleftrightarrow> unat issued + 120000000000 < 2 ^ 64"
proof -
  have "unat (- 1 - IssuanceWindowNS) = 2 ^ 64 - 120000000001"
    by (simp add: IssuanceWindowNS_def)
  then show ?thesis
    by (auto simp: word_less_nat_alt)
qed

lemma envelopeValid_iff: "envelopeValid e \<longleftrightarrow> envelope_ok e"
proof -
  have "(case (canonicalNS a, canonicalNS b) of
      (Some issued, Some expires) \<Rightarrow> \<not> (- 1 - IssuanceWindowNS < issued) \<and> expires = issued + IssuanceWindowNS | _ \<Rightarrow> False) \<longleftrightarrow>
    (\<exists>n. a = dec n \<and> b = dec (n + 120000000000) \<and> n + 120000000000 < 2 ^ 64)" (is "?L \<longleftrightarrow> ?R")
    for a b
  proof
    assume ?L
    then obtain w where w: "canonicalNS a = Some w" "canonicalNS b = Some (w + IssuanceWindowNS)"
      "unat w + 120000000000 < 2 ^ 64"
      by (auto simp: window_word split: option.splits)
    then have "unat (w + IssuanceWindowNS) = unat w + 120000000000"
      by (subst unat_add_lem [THEN iffD1]) (simp_all add: IssuanceWindowNS_def)
    with w show ?R
      by (auto simp: canonicalNS_iff)
  next
    assume ?R
    then obtain n where n: "a = dec n" "b = dec (n + 120000000000)" "n + 120000000000 < 2 ^ 64" by blast
    define w :: "64 word" where "w = of_nat n"
    have w: "unat w = n"
      using n(3) by (simp add: w_def unat_of_nat take_bit_nat_eq_self)
    then have "unat (w + IssuanceWindowNS) = n + 120000000000"
      using n(3) by (subst unat_add_lem [THEN iffD1]) (simp_all add: IssuanceWindowNS_def)
    with w n have "canonicalNS a = Some w" "canonicalNS b = Some (w + IssuanceWindowNS)"
      by (simp_all add: canonicalNS_iff)
    with w n(3) show ?L
      by (simp add: window_word)
  qed
  then show ?thesis
    by (auto simp: envelopeValid_def envelope_ok_def)
qed

section \<open>The closed reply\<close>

definition replyMembers :: "RecoveryResult \<Rightarrow> (string \<times> json) list" where
  "replyMembers r =
     [(''api'', JsString RecoveryAPI), (''attempt_id'', JsString (resAttempt r)),
      (''launch_id'', if resLaunch r = [] then JsNull else JsString (resLaunch r)),
      (''outcome'', JsString (resOutcome r)), (''durable'', JsBool True)]"

definition result_ok :: "RecoveryEnvelope \<Rightarrow> RecoveryResult \<Rightarrow> bool" where
  "result_ok e r \<longleftrightarrow> resAttempt r = AttemptID e \<and>
     (resOutcome r = ''revoked'' \<and> validToken (resLaunch r) \<and> resLaunch r \<noteq> RecoveryProof e \<or>
      resOutcome r = ''cancelled_before_issue'' \<and> resLaunch r = [])"

lemma recoveryString_Some: "recoveryString f k = Some s \<longleftrightarrow> map_of f k = Some (JsString s)"
  by (auto simp: recoveryString_def split: option.splits json.splits)

lemma recoveryObject_Some:
  "recoveryObject raw keys = Some ms \<longleftrightarrow>
     (\<exists>n. raw = (n, Some (JsObject ms)) \<and> 0 < n \<and> n \<le> RecoveryMaxBody) \<and>
     set (map fst ms) \<subseteq> set keys \<and> distinct (map fst ms) \<and> length ms = length keys"
  by (cases raw) (auto simp: recoveryObject_def list_all_iff split: option.splits json.splits if_splits)

lemma recoverOutcome_Some:
  assumes "map_of f ''launch_id'' = Some l"
  shows "recoverOutcome e f o' = Some r \<longleftrightarrow>
    result_ok e r \<and> resOutcome r = o' \<and> l = (if resLaunch r = [] then JsNull else JsString (resLaunch r))"
  using assms
  by (cases r; cases l) (auto simp: recoverOutcome_def recoveryString_def result_ok_def validToken_def)

lemma recoverReply_Some:
  "recoverReply e raw = Some r \<longleftrightarrow> result_ok e r \<and>
     (\<exists>n ms. raw = (n, Some (JsObject ms)) \<and> 0 < n \<and> n \<le> RecoveryMaxBody \<and> mset ms = mset (replyMembers r))"
  (is "?L \<longleftrightarrow> ?R")
proof -
  have keys: "map fst (replyMembers r) = [''api'', ''attempt_id'', ''launch_id'', ''outcome'', ''durable'']"
    and len: "length (replyMembers r) = 5"
    by (simp_all add: replyMembers_def)
  show ?thesis
  proof
    assume ?L
    then obtain f s where f: "recoveryObject raw (map fst (replyMembers r)) = Some f" "recoveryVersion f" "rawTrue (map_of f ''durable'')"
      and s: "recoveryStrings f [''attempt_id'', ''outcome''] = Some s" "s ''attempt_id'' = AttemptID e"
      and out: "recoverOutcome e f (s ''outcome'') = Some r"
      unfolding recoverReply_def keys by (auto split: option.split_asm if_split_asm)
    obtain n where n: "raw = (n, Some (JsObject f))" "0 < n" "n \<le> RecoveryMaxBody" "set (map fst f) \<subseteq> set (map fst (replyMembers r))"
      "distinct (map fst f)" "length f = length (replyMembers r)"
      using f(1) unfolding recoveryObject_Some by auto
    have "set (map fst f) = set (map fst (replyMembers r))"
      using n(4-6) distinct_card [OF n(5)] distinct_card [of "map fst (replyMembers r)"]
      by (intro card_subset_eq) (simp_all add: keys len)
    then have "''launch_id'' \<in> fst ` set f"
      unfolding keys by simp
    then obtain l where l: "map_of f ''launch_id'' = Some l"
      using map_of_eq_None_iff [of f "''launch_id''"] by (cases "map_of f ''launch_id''") simp_all
    note r = recoverOutcome_Some [OF l, THEN iffD1, OF out]
    have "mset f = mset (replyMembers r)"
    proof (rule members_perm)
      show "map_of f k = Some v" if "(k, v) \<in> set (replyMembers r)" for k v
        using that f(2,3) s l r
        by (auto simp: replyMembers_def recoveryVersion_def recoveryString_Some rawTrue_def result_ok_def split: option.split_asm)
    qed (use n keys in simp_all)
    then show ?R
      using n r by blast
  next
    assume ?R
    then obtain n ms where r: "result_ok e r" and raw: "raw = (n, Some (JsObject ms))"
      and n: "0 < n" "n \<le> RecoveryMaxBody" and ms: "mset ms = mset (replyMembers r)"
      by blast
    have "distinct (map fst (replyMembers r))"
      by (simp add: keys)
    note perm = perm_map_of [OF ms this]
    have "recoveryObject raw [''api'', ''attempt_id'', ''launch_id'', ''outcome'', ''durable''] = Some ms"
      using perm(1-3) n raw unfolding recoveryObject_Some keys [symmetric] by simp
    moreover have "recoveryVersion ms" "rawTrue (map_of ms ''durable'')"
      "recoveryString ms ''attempt_id'' = Some (resAttempt r)" "recoveryString ms ''outcome'' = Some (resOutcome r)"
      "map_of ms ''launch_id'' = Some (if resLaunch r = [] then JsNull else JsString (resLaunch r))"
      by (simp_all add: recoveryVersion_def recoveryString_def rawTrue_def perm(4) replyMembers_def)
    ultimately show ?L
      using r recoverOutcome_Some [of ms _ e "resOutcome r" r] by (simp add: recoverReply_def result_ok_def)
  qed
qed

text \<open>C20. A recovery result means exactly one thing. \<open>Recover\<close> succeeds iff the envelope is valid, with
  a 120-second issuance window in canonical decimals whose end does not wrap a 64-bit clock, its
  encoding fits the body bound, and the gateway sent one 200 reply of the recovery API with the
  five members of the closed durable answer, in any order and nothing else: this attempt, and
  either a revoked launch whose id is a token other than the proof, or no launch at all.\<close>

theorem recovery_exact:
  "Recover e t = Inr r \<longleftrightarrow> envelope_ok e \<and> length (marshalEnvelope e) \<le> RecoveryMaxBody \<and> result_ok e r \<and>
     (\<exists>n ms. t = Reply \<lparr>Status = 200, Versions = [RecoveryAPI], Body = Some (n, Some (JsObject ms))\<rparr> \<and>
       0 < n \<and> n \<le> RecoveryMaxBody \<and> mset ms = mset (replyMembers r))"
proof -
  have call: "envelopeCall ''recover'' e t = Inr (status, raw) \<longleftrightarrow> envelope_ok e \<and> length (marshalEnvelope e) \<le> RecoveryMaxBody \<and>
      fst raw \<le> RecoveryMaxBody \<and> t = Reply \<lparr>Status = status, Versions = [RecoveryAPI], Body = Some raw\<rparr>" for status raw
    by (cases raw; cases t)
      (auto simp: envelopeCall_def recoveryCall_def envelopeValid_iff split: option.splits if_splits)
  have "Recover e t = Inr r \<longleftrightarrow> (\<exists>raw. envelopeCall ''recover'' e t = Inr (200, raw) \<and> recoverReply e raw = Some r)"
    by (auto simp: Recover_def split: option.splits if_splits) (metis option.inject)
  then show ?thesis
    unfolding call recoverReply_Some by auto
qed

end
