(* ===== verification/Composition.thy ===== *)
theory Composition
  imports Fragment "HOL-Library.AList"
begin

text \<open>
  \<open>internal/composition\<close>: the value a launch executes, built from an admitted plan, the owned
  environment, the fragment, the prompt channel and the network patch; with \<open>CheckOverlays\<close> of
  \<open>internal/network/network.go\<close>. A Go map of strings is an association list with distinct keys.
  The patch library (\<open>envpatch\<close> of curator-network-profiles) is the record \<open>patchLib\<close> of the
  functions the code calls; a plan is the record of agents-management the code reads.
\<close>

section \<open>Inputs\<close>

type_synonym strmap = "(string \<times> string) list"

record plan =
  planBinary :: string
  planWorkDir :: string
  planArgv :: "string list"
  planEnv :: "string list"
  planStdin :: "bool \<times> string"

record PromptApplication =
  promptArgv :: "string list"
  promptEnv :: strmap

record patch =
  Unset :: "string list"
  Sets :: "(string \<times> string) list"

record patchLib =
  UnsetNames :: "string list"
  Unmanaged :: patch
  EmptyPatch :: "patch \<Rightarrow> bool"
  Apply :: "patch \<Rightarrow> string list \<Rightarrow> string list"

text \<open>\<open>strings.EqualFold\<close> where one side is ASCII: the Kelvin sign folds to k and the long s to s.\<close>

definition foldRune :: "nat \<Rightarrow> nat" where
  "foldRune r = (if 0x41 \<le> r \<and> r \<le> 0x5A then r + 32 else if r = 0x212A then 0x6B else if r = 0x17F then 0x73 else r)"

definition EqualFold :: "string \<Rightarrow> string \<Rightarrow> bool" where
  "EqualFold s t \<longleftrightarrow> map foldRune (runes s) = map foldRune (runes t)"

datatype composeError =
  SuffixMismatch | ProxyOverlay string string | MuseBackendRequired | MuseBackendOverride
| PatchUnsetsBackend | PatchOverridesBackend | PatchRelocatesRoot

section \<open>Overlays of a managed launch\<close>

definition IsProxyFamily :: "patchLib \<Rightarrow> string \<Rightarrow> bool" where
  "IsProxyFamily lib name \<longleftrightarrow> list_ex (EqualFold name) (UnsetNames lib)"

definition sortedKeys :: "strmap \<Rightarrow> string list" where
  "sortedKeys m = sort (map fst m)"

definition CheckOverlays :: "patchLib \<Rightarrow> strmap \<Rightarrow> strmap \<Rightarrow> string list \<Rightarrow> composeError + unit" where
  "CheckOverlays lib fragEnv prEnv mcpNames =
     (case find (IsProxyFamily lib) (sortedKeys fragEnv) of
        Some n \<Rightarrow> Inl (ProxyOverlay n ''the fragment names a proxy variable while a network profile is managed'')
      | None \<Rightarrow> (case find (IsProxyFamily lib) (sortedKeys prEnv) of
          Some n \<Rightarrow> Inl (ProxyOverlay n ''the prompt channel names a proxy variable while a network profile is managed'')
        | None \<Rightarrow> (case find (IsProxyFamily lib) mcpNames of
            Some n \<Rightarrow> Inl (ProxyOverlay n ''mcp env_names names a proxy variable while a network profile is managed'')
          | None \<Rightarrow> Inr ())))"

definition mcpNamesOf :: "fragment \<Rightarrow> string list" where
  "mcpNamesOf f = (case MCP f of Some m \<Rightarrow> mcpEnvNames m | None \<Rightarrow> [])"

definition refuseProxyOverlays :: "patchLib \<Rightarrow> fragment \<Rightarrow> PromptApplication \<Rightarrow> composeError + unit" where
  "refuseProxyOverlays lib f prompt = CheckOverlays lib (Env f) (promptEnv prompt) (mcpNamesOf f)"

section \<open>Environment maps\<close>

definition putEntry :: "strmap \<Rightarrow> string \<Rightarrow> strmap" where
  "putEntry m entry = (case Cut entry CHR ''='' of (name, value, ok) \<Rightarrow> if ok then AList.update name value m else m)"

definition envMap :: "string list \<Rightarrow> strmap" where
  "envMap es = foldl putEntry [] es"

definition entry :: "string \<times> string \<Rightarrow> string" where
  "entry p = fst p @ CHR ''='' # snd p"

definition applyToMap :: "patchLib \<Rightarrow> patch \<Rightarrow> strmap \<Rightarrow> strmap" where
  "applyToMap lib p m = foldl putEntry [] (Apply lib p (map entry m))"

section \<open>Muse\<close>

definition backend :: string where
  "backend = ''TBH_CREDENTIAL_BACKEND''"

definition contradicts :: "string \<times> string \<Rightarrow> string \<times> string \<Rightarrow> bool" where
  "contradicts pair kv \<longleftrightarrow> EqualFold (fst pair) (fst kv) \<and> (fst pair \<noteq> fst kv \<or> snd pair \<noteq> snd kv)"

definition musePolicy :: "string list \<Rightarrow> fragment \<Rightarrow> PromptApplication \<Rightarrow> patch \<Rightarrow> composeError + unit" where
  "musePolicy ownEnv f prompt p =
     (if Environment f \<noteq> EnvMuse \<or> Revision f \<noteq> IdentityV4 then Inr ()
      else if map_of (Env f) backend \<noteq> Some ''file'' \<or>
        (case CredentialStore f of None \<Rightarrow> True | Some c \<Rightarrow> csSelection c \<noteq> ''file'') then Inl MuseBackendRequired
      else if list_ex (\<lambda>layer. case map_of layer backend of Some v \<Rightarrow> v \<noteq> ''file'' | None \<Rightarrow> False)
        [envMap ownEnv, promptEnv prompt] then Inl MuseBackendOverride
      else if list_ex (\<lambda>n. EqualFold n backend) (Unset p) then Inl PatchUnsetsBackend
      else if list_ex (\<lambda>pair. contradicts pair (backend, ''file'')) (Sets p) then Inl PatchOverridesBackend
      else if RootContext f \<noteq> None \<and>
        (list_ex (\<lambda>n. list_ex (\<lambda>kv. EqualFold n (fst kv)) (Env f)) (Unset p) \<or>
         list_ex (\<lambda>pair. list_ex (contradicts pair) (Env f)) (Sets p)) then Inl PatchRelocatesRoot
      else Inr ())"

section \<open>Composition\<close>

record composeState =
  env :: strmap
  literals :: strmap
  warnings :: "string list"
  warned :: "string list"

definition overrideWarning :: "string \<Rightarrow> string" where
  "overrideWarning n = ''environment override: '' @ n"

definition lookupWarning :: "string \<Rightarrow> string" where
  "lookupWarning n = ''environment literal replaces lookup: '' @ n"

text \<open>One name of a layer.\<close>

definition overlayName :: "strmap \<Rightarrow> strmap \<Rightarrow> composeState \<Rightarrow> string \<Rightarrow> composeState" where
  "overlayName own layer st n =
     (let v = the (map_of layer n);
          st1 = (if map_of own n \<noteq> None \<and> n \<notin> set (warned st)
                 then st\<lparr>warnings := warnings st @ [overrideWarning n], warned := n # warned st\<rparr> else st)
      in st1\<lparr>env := AList.update n v (env st1), literals := AList.update n v (literals st1)\<rparr>)"

definition overlay :: "strmap \<Rightarrow> strmap \<Rightarrow> composeState \<Rightarrow> composeState" where
  "overlay own layer st = foldl (overlayName own layer) st (sortedKeys layer)"

text \<open>The names to look up: those without a literal, the others with a warning.\<close>

fun lookups :: "strmap \<Rightarrow> string list \<Rightarrow> string list \<Rightarrow> string list \<times> string list" where
  "lookups lits seen [] = ([], [])"
| "lookups lits seen (n # ns) =
     (if n \<in> set seen then lookups lits seen ns
      else case lookups lits (n # seen) ns of (names, ws) \<Rightarrow>
        if map_of lits n \<noteq> None then (names, lookupWarning n # ws) else (n # names, ws))"

definition recheck :: "strmap \<Rightarrow> string list \<Rightarrow> string list \<times> string list" where
  "recheck lits ns = (filter (\<lambda>n. map_of lits n = None) ns, map lookupWarning (filter (\<lambda>n. map_of lits n \<noteq> None) ns))"

record composed =
  cBinary :: string
  cWorkDir :: string
  cArgv :: "string list"
  cEnv :: "string list"
  cRawStdin :: "bool \<times> string"
  EnvLiterals :: strmap
  EnvNames :: "string list"
  Warnings :: "string list"
  mcpLayer :: string

definition materialise :: "strmap \<Rightarrow> string list" where
  "materialise m = map (\<lambda>n. entry (n, the (map_of m n))) (sortedKeys m)"

definition mcpLayerOf :: "fragment \<Rightarrow> string" where
  "mcpLayerOf f = (case MCP f of Some m \<Rightarrow> if Environment f = EnvCodexCLI then mcpPath m else [] | None \<Rightarrow> [])"

definition overlays :: "plan \<Rightarrow> string list \<Rightarrow> fragment \<Rightarrow> PromptApplication \<Rightarrow> composeState" where
  "overlays p ownEnv f prompt =
     (let own = envMap ownEnv
      in overlay own (promptEnv prompt) (overlay own (Env f)
           \<lparr>env = envMap (planEnv p), literals = own, warnings = [], warned = []\<rparr>))"

definition ComposeWithNetwork ::
  "patchLib \<Rightarrow> plan \<Rightarrow> string list \<Rightarrow> fragment \<Rightarrow> PromptApplication \<Rightarrow> string list \<Rightarrow> patch \<Rightarrow> composeError + composed" where
  "ComposeWithNetwork lib p ownEnv f prompt native net =
     (let managed = \<not> EmptyPatch lib net
      in res_bind (if managed then refuseProxyOverlays lib f prompt else Inr ()) (\<lambda>_.
         res_bind (musePolicy ownEnv f prompt net) (\<lambda>_.
         let st = overlays p ownEnv f prompt;
             (names, lookup_ws) = lookups (literals st) [] (mcpNamesOf f);
             e = (if managed then applyToMap lib net (env st) else env st);
             lits = (if managed then applyToMap lib net (literals st) else literals st);
             (kept, kept_ws) = (if managed then recheck lits (sort names) else (sort names, []))
         in Inr \<lparr>cBinary = planBinary p, cWorkDir = planWorkDir p, cArgv = planArgv p @ promptArgv prompt @ native,
                 cEnv = materialise e, cRawStdin = planStdin p, EnvLiterals = lits, EnvNames = kept,
                 Warnings = warnings st @ lookup_ws @ kept_ws, mcpLayer = mcpLayerOf f\<rparr>)))"

definition ComposeAdmittedPlanWithNetwork ::
  "patchLib \<Rightarrow> plan \<Rightarrow> string list \<Rightarrow> fragment \<Rightarrow> PromptApplication \<Rightarrow> string list \<Rightarrow> patch \<Rightarrow> composeError + composed" where
  "ComposeAdmittedPlanWithNetwork lib p ownEnv f prompt native net =
     (if length (planArgv p) < length native then Inl SuffixMismatch
      else let cut = length (planArgv p) - length native
           in if drop cut (planArgv p) \<noteq> native then Inl SuffixMismatch
              else ComposeWithNetwork lib (p\<lparr>planArgv := take cut (planArgv p)\<rparr>) ownEnv f prompt native net)"

definition Compose ::
  "patchLib \<Rightarrow> plan \<Rightarrow> string list \<Rightarrow> fragment \<Rightarrow> PromptApplication \<Rightarrow> string list \<Rightarrow> composeError + composed" where
  "Compose lib p ownEnv f prompt native = ComposeWithNetwork lib p ownEnv f prompt native (Unmanaged lib)"

definition ComposeAdmittedPlan ::
  "patchLib \<Rightarrow> plan \<Rightarrow> string list \<Rightarrow> fragment \<Rightarrow> PromptApplication \<Rightarrow> string list \<Rightarrow> composeError + composed" where
  "ComposeAdmittedPlan lib p ownEnv f prompt native =
     (if length (planArgv p) < length native then Inl SuffixMismatch
      else let cut = length (planArgv p) - length native
           in if drop cut (planArgv p) \<noteq> native then Inl SuffixMismatch
              else Compose lib (p\<lparr>planArgv := take cut (planArgv p)\<rparr>) ownEnv f prompt native)"

section \<open>The launch boundary of the MCP layer\<close>

datatype probeError = NotExist string | OtherError string

text \<open>What the file system answers: \<open>Lstat\<close>, \<open>Stat\<close> and the regularity it reports, \<open>Open\<close>,
  and \<open>Stat\<close> of the open file.\<close>

record probe =
  lstat :: "probeError option"
  statted :: "string + bool"
  opened :: "string option"
  fstat :: "string + bool"

definition CheckLaunchBoundary :: "composed \<Rightarrow> probe \<Rightarrow> (string \<times> string \<times> string) option" where
  "CheckLaunchBoundary v pr =
     (let path = mcpLayer v; unreadable = (\<lambda>e. Some (''mcp_layer_unreadable'', path, e))
      in if path = [] then None
         else case lstat pr of
           Some (NotExist e) \<Rightarrow> Some (''mcp_layer_missing'', path, e)
         | Some (OtherError e) \<Rightarrow> unreadable e
         | None \<Rightarrow> (case statted pr of
             Inl e \<Rightarrow> unreadable e
           | Inr False \<Rightarrow> unreadable ''not a regular file''
           | Inr True \<Rightarrow> (case opened pr of
               Some e \<Rightarrow> unreadable e
             | None \<Rightarrow> (case fstat pr of
                 Inl e \<Rightarrow> unreadable e
               | Inr False \<Rightarrow> unreadable ''opened file is not regular''
               | Inr True \<Rightarrow> None))))"

end
