(* ===== verification/CompositionProps.thy ===== *)
theory CompositionProps
  imports Composition
begin

text \<open>
  Properties of the composition: the layers of the environment, the arguments around the native
  suffix, and what the network patch may touch.
\<close>

section \<open>Maps\<close>

definition plain :: "string \<Rightarrow> bool" where
  "plain n \<longleftrightarrow> CHR ''='' \<notin> set n"

definition clean_map :: "strmap \<Rightarrow> bool" where
  "clean_map m \<longleftrightarrow> distinct (map fst m) \<and> (\<forall>n \<in> fst ` set m. plain n)"

lemma Cut_entry [simp]: "plain n \<Longrightarrow> Cut (entry (n, v)) CHR ''='' = (n, v, True)"
  by (simp add: Cut_found plain_def entry_def)

lemma putEntry_entry [simp]: "plain n \<Longrightarrow> putEntry m (entry (n, v)) = AList.update n v m"
  by (simp add: putEntry_def)

lemma clean_update: "clean_map m \<Longrightarrow> plain n \<Longrightarrow> clean_map (AList.update n v m)"
  by (auto simp: clean_map_def distinct_update dom_update)

lemma clean_putEntry: "clean_map m \<Longrightarrow> clean_map (putEntry m e)"
proof -
  assume m: "clean_map m"
  obtain n v ok where cut: "Cut e CHR ''='' = (n, v, ok)" by (cases "Cut e CHR ''=''")
  show ?thesis
  proof (cases ok)
    case True
    then have "plain n"
      using cut by (auto simp: Cut_found plain_def)
    then show ?thesis
      using m cut True by (simp add: putEntry_def clean_update)
  qed (use m cut in \<open>simp add: putEntry_def\<close>)
qed

lemma clean_foldl: "clean_map m \<Longrightarrow> clean_map (foldl putEntry m es)"
  by (induction es arbitrary: m) (simp_all add: clean_putEntry)

lemma clean_Nil [simp]: "clean_map []"
  by (simp add: clean_map_def)

lemma clean_envMap [simp]: "clean_map (envMap es)"
  by (simp add: envMap_def clean_foldl)

lemma entry_inject:
  assumes "plain n" "plain k"
  shows "entry (n, v) = entry (k, x) \<longleftrightarrow> n = k \<and> v = x"
proof
  assume "entry (n, v) = entry (k, x)"
  then have "Cut (entry (n, v)) CHR ''='' = Cut (entry (k, x)) CHR ''=''" by simp
  then show "n = k \<and> v = x" by (simp add: assms)
qed simp

lemma entry_image:
  assumes "\<And>q. q \<in> S \<Longrightarrow> plain (fst q)" "plain n"
  shows "entry (n, v) \<in> entry ` S \<longleftrightarrow> (n, v) \<in> S"
proof
  assume "entry (n, v) \<in> entry ` S"
  then obtain k x where "entry (n, v) = entry (k, x)" "(k, x) \<in> S" by auto
  then show "(n, v) \<in> S"
    using entry_inject [OF assms(2), of k v x] assms(1) [of "(k, x)"] by simp
qed simp

text \<open>Reading back entries that name each variable once.\<close>

lemma foldl_putEntry:
  assumes "\<And>e. e \<in> set es \<Longrightarrow> \<exists>n v. e = entry (n, v) \<and> plain n"
    and "\<And>n v w. entry (n, v) \<in> set es \<Longrightarrow> entry (n, w) \<in> set es \<Longrightarrow> plain n \<Longrightarrow> v = w"
  shows "map_of (foldl putEntry [] es) n = Some v \<longleftrightarrow> plain n \<and> entry (n, v) \<in> set es"
  using assms
proof (induction es arbitrary: n v rule: rev_induct)
  case (snoc e es)
  obtain k x where e: "e = entry (k, x)" "plain k"
    using snoc.prems(1) [of e] by auto
  have IH: "map_of (foldl putEntry [] es) n = Some v \<longleftrightarrow> plain n \<and> entry (n, v) \<in> set es"
  proof (rule snoc.IH)
    show "\<exists>n v. e' = entry (n, v) \<and> plain n" if "e' \<in> set es" for e'
      using snoc.prems(1) that by simp
    show "v = w" if "entry (n, v) \<in> set es" "entry (n, w) \<in> set es" "plain n" for n v w
      using snoc.prems(2) [of n v w] that by simp
  qed
  have step: "map_of (foldl putEntry [] (es @ [e])) = (map_of (foldl putEntry [] es))(k \<mapsto> x)"
    using e by (simp add: update_conv')
  show ?case
  proof (cases "n = k")
    case True
    have "entry (k, v) \<in> set (es @ [e]) \<longleftrightarrow> v = x"
      using snoc.prems(2) [of k v x] e by auto
    then show ?thesis
      unfolding step using True e(2) by auto
  next
    case False
    then have "plain n \<Longrightarrow> entry (n, v) \<noteq> e"
      using entry_inject [of n k v x] e by simp
    then show ?thesis
      unfolding step using False IH by auto
  qed
qed simp

section \<open>The documented patch\<close>

text \<open>What the library documents of \<open>Apply\<close>: entries whose name matches an unset name in any
  letter case, or a set name exactly, are removed; then the set pairs are added.\<close>

definition matched :: "patch \<Rightarrow> string \<Rightarrow> bool" where
  "matched p n \<longleftrightarrow> list_ex (EqualFold n) (Unset p) \<or> n \<in> fst ` set (Sets p)"

definition documented :: "patchLib \<Rightarrow> patch \<Rightarrow> bool" where
  "documented lib p \<longleftrightarrow> clean_map (Sets p) \<and>
     (\<forall>es. set (Apply lib p es) = {e \<in> set es. \<not> matched p (fst (Cut e CHR ''=''))} \<union> entry ` set (Sets p))"

definition patched :: "patch \<Rightarrow> (string \<Rightarrow> string option) \<Rightarrow> string \<Rightarrow> string option" where
  "patched p m n = (case map_of (Sets p) n of Some v \<Rightarrow> Some v | None \<Rightarrow> if matched p n then None else m n)"

lemma map_of_mem: "clean_map m \<Longrightarrow> map_of m n = Some v \<longleftrightarrow> (n, v) \<in> set m"
  by (simp add: clean_map_def)

lemma applyToMap_patched:
  assumes "documented lib p" and "clean_map m"
  shows "map_of (applyToMap lib p m) = patched p (map_of m)" and "clean_map (applyToMap lib p m)"
proof -
  let ?out = "Apply lib p (map entry m)"
  have sets: "clean_map (Sets p)" using assms(1) by (simp add: documented_def)
  have plains: "plain n" if "(n, v) \<in> set m \<or> (n, v) \<in> set (Sets p)" for n v
    using that assms(2) sets by (force simp: clean_map_def)
  have "fst (Cut (entry q) CHR ''='') = fst q" if "q \<in> set m" for q
    using plains [of "fst q" "snd q"] that Cut_entry [of "fst q" "snd q"] by simp
  then have "{e \<in> entry ` set m. \<not> matched p (fst (Cut e CHR ''=''))} = entry ` {q \<in> set m. \<not> matched p (fst q)}"
    by auto
  then have out: "set ?out = entry ` ({q \<in> set m. \<not> matched p (fst q)} \<union> set (Sets p))"
    using assms(1) unfolding documented_def image_Un set_map by simp
  have entry_out: "entry (n, v) \<in> set ?out \<longleftrightarrow> (n, v) \<in> set (Sets p) \<or> (n, v) \<in> set m \<and> \<not> matched p n" if "plain n" for n v
    unfolding out using entry_image [of "{q \<in> set m. \<not> matched p (fst q)} \<union> set (Sets p)" n v] plains that by fastforce
  have matched: "matched p n" if "(n, v) \<in> set (Sets p)" for n v
    using that by (force simp: matched_def)
  have "map_of (applyToMap lib p m) n = Some v \<longleftrightarrow> plain n \<and> entry (n, v) \<in> set ?out" for n v
    unfolding applyToMap_def
  proof (rule foldl_putEntry)
    show "\<exists>n v. e = entry (n, v) \<and> plain n" if "e \<in> set ?out" for e
    proof -
      obtain q where "e = entry q" "q \<in> set m \<or> q \<in> set (Sets p)"
        using \<open>e \<in> set ?out\<close> unfolding out by auto
      then show ?thesis
        using plains [of "fst q" "snd q"] by (metis prod.collapse)
    qed
    show "v = w" if "entry (n, v) \<in> set ?out" "entry (n, w) \<in> set ?out" "plain n" for n v w
      using that entry_out matched map_of_mem [OF sets] map_of_mem [OF assms(2)] by (metis option.inject)
  qed
  note out_map = this
  have "patched p (map_of m) n = Some v \<longleftrightarrow> (n, v) \<in> set (Sets p) \<or> (n, v) \<in> set m \<and> \<not> matched p n" for n v
  proof (cases "map_of (Sets p) n")
    case None
    then have "(n, v) \<notin> set (Sets p)"
      using map_of_mem [OF sets, of n v] by simp
    then show ?thesis
      using map_of_mem [OF assms(2), of n v] by (simp add: patched_def None)
  next
    case (Some w)
    then have "matched p n"
      using map_of_mem [OF sets, of n w] matched [of n w] by simp
    then show ?thesis
      using map_of_mem [OF sets, of n v] by (simp add: patched_def Some)
  qed
  then have "map_of (applyToMap lib p m) n = Some v \<longleftrightarrow> patched p (map_of m) n = Some v" for n v
    using out_map [of n v] entry_out [of n v] plains [of n v] by blast
  then show "map_of (applyToMap lib p m) = patched p (map_of m)"
    by (intro ext) (metis not_None_eq)
  show "clean_map (applyToMap lib p m)"
    by (simp add: applyToMap_def clean_foldl)
qed

section \<open>Layers\<close>

lemma overlayName_maps:
  "map_of (env (overlayName own layer st n)) = (map_of (env st))(n \<mapsto> the (map_of layer n))"
  "map_of (literals (overlayName own layer st n)) = (map_of (literals st))(n \<mapsto> the (map_of layer n))"
  by (simp_all add: overlayName_def Let_def update_conv')

lemma overlayName_clean:
  "plain n \<Longrightarrow> clean_map (env st) \<and> clean_map (literals st) \<Longrightarrow>
   clean_map (env (overlayName own layer st n)) \<and> clean_map (literals (overlayName own layer st n))"
  by (simp add: overlayName_def Let_def clean_update)

lemma foldl_overlay:
  assumes "set ns \<subseteq> fst ` set layer"
  shows "map_of (env (foldl (overlayName own layer) st ns)) = map_of (env st) ++ (map_of layer |` set ns) \<and>
    map_of (literals (foldl (overlayName own layer) st ns)) = map_of (literals st) ++ (map_of layer |` set ns)"
  using assms
proof (induction ns arbitrary: st)
  case (Cons n ns)
  have "map_of layer n \<noteq> None"
    using Cons.prems by (simp add: map_of_eq_None_iff)
  then have step: "m(n \<mapsto> the (map_of layer n)) ++ (map_of layer |` set ns) = m ++ (map_of layer |` set (n # ns))" for m
    by (intro ext) (auto simp: map_add_def restrict_map_def split: option.splits)
  show ?case
    using Cons.IH [of "overlayName own layer st n"] Cons.prems unfolding overlayName_maps step by simp
qed (simp add: restrict_map_def)

lemma foldl_overlay_clean:
  "\<forall>n \<in> set ns. plain n \<Longrightarrow> clean_map (env st) \<and> clean_map (literals st) \<Longrightarrow>
   clean_map (env (foldl (overlayName own layer) st ns)) \<and> clean_map (literals (foldl (overlayName own layer) st ns))"
  by (induction ns arbitrary: st) (simp_all add: overlayName_clean)

lemma sortedKeys_set [simp]: "set (sortedKeys m) = fst ` set m"
  by (simp add: sortedKeys_def)

lemma map_of_restrict_keys [simp]: "map_of m |` (fst ` set m) = map_of m"
  by (intro ext) (simp add: restrict_map_def, metis map_of_eq_None_iff)

lemma overlay_maps [simp]:
  "map_of (env (overlay own layer st)) = map_of (env st) ++ map_of layer"
  "map_of (literals (overlay own layer st)) = map_of (literals st) ++ map_of layer"
  by (simp_all add: overlay_def foldl_overlay)

definition layered :: "string list \<Rightarrow> fragment \<Rightarrow> PromptApplication \<Rightarrow> string \<Rightarrow> string option" where
  "layered base f prompt = map_of (envMap base) ++ map_of (Env f) ++ map_of (promptEnv prompt)"

lemma overlays_layered:
  "map_of (env (overlays p ownEnv f prompt)) = layered (planEnv p) f prompt"
  "map_of (literals (overlays p ownEnv f prompt)) = layered ownEnv f prompt"
  by (simp_all add: overlays_def layered_def Let_def)

lemma overlays_clean:
  assumes "\<forall>n \<in> fst ` set (Env f) \<union> fst ` set (promptEnv prompt). plain n"
  shows "clean_map (env (overlays p ownEnv f prompt))" "clean_map (literals (overlays p ownEnv f prompt))"
  using assms by (simp_all add: overlays_def overlay_def Let_def foldl_overlay_clean)

lemma lookups_spec:
  "lookups lits seen ns = (names, ws) \<Longrightarrow>
   distinct names \<and> set names = {n \<in> set ns. n \<notin> set seen \<and> map_of lits n = None}"
proof (induction ns arbitrary: seen names ws)
  case (Cons n ns)
  show ?case
  proof (cases "n \<in> set seen")
    case True
    with Cons.prems have "lookups lits seen ns = (names, ws)" by simp
    from Cons.IH [OF this] True show ?thesis by auto
  next
    case False
    obtain ns' ws' where rest: "lookups lits (n # seen) ns = (ns', ws')" by fastforce
    have names: "names = (if map_of lits n = None then n # ns' else ns')"
      using Cons.prems False rest by (auto split: if_splits)
    note IH = Cons.IH [OF rest, THEN conjunct1] Cons.IH [OF rest, THEN conjunct2]
    show ?thesis
    proof (cases "map_of lits n = None")
      case True
      then show ?thesis
        using IH(1) False unfolding names by (simp only: if_True simp_thms distinct.simps list.set IH(2)) blast
    next
      case False
      then show ?thesis
        using IH(1) unfolding names by (simp only: if_False simp_thms list.set IH(2)) blast
    qed
  qed
qed simp

section \<open>The composed launch\<close>

definition final :: "patchLib \<Rightarrow> patch \<Rightarrow> (string \<Rightarrow> string option) \<Rightarrow> string \<Rightarrow> string option" where
  "final lib net m = (if EmptyPatch lib net then m else patched net m)"

lemma EqualFold_refl [simp]: "EqualFold s s"
  by (simp add: EqualFold_def)

lemma EqualFold_sym: "EqualFold s t \<longleftrightarrow> EqualFold t s"
  by (auto simp: EqualFold_def)

text \<open>A name the patch neither unsets nor sets to another value keeps its value.\<close>

lemma patched_keeps:
  assumes "m n = Some v" "\<not> list_ex (\<lambda>u. EqualFold u n) (Unset p)" "\<not> list_ex (\<lambda>pair. contradicts pair (n, v)) (Sets p)"
  shows "patched p m n = Some v"
proof (cases "map_of (Sets p) n")
  case None
  then have "\<not> matched p n"
    using assms(2) EqualFold_sym unfolding matched_def list_ex_iff map_of_eq_None_iff by blast
  then show ?thesis
    using assms(1) None by (simp add: patched_def)
next
  case (Some w)
  then have "(n, w) \<in> set (Sets p)" by (rule map_of_SomeD)
  then show ?thesis
    using assms(3) Some by (auto simp: patched_def contradicts_def list_ex_iff)
qed

lemma muse_kept:
  assumes "musePolicy ownEnv f prompt net = Inr u" "Environment f = EnvMuse" "Revision f = IdentityV4"
  shows "final lib net (layered base f prompt) backend = Some ''file''"
    and "RootContext f \<noteq> None \<Longrightarrow> map_of (Env f) k = Some x \<Longrightarrow> map_of (promptEnv prompt) k = None \<Longrightarrow>
      final lib net (layered base f prompt) k = Some x"
proof -
  have fileBackend: "map_of (Env f) backend = Some ''file''"
    and prompt: "case map_of (promptEnv prompt) backend of Some v \<Rightarrow> v = ''file'' | None \<Rightarrow> True"
    and unset: "\<not> list_ex (\<lambda>n. EqualFold n backend) (Unset net)"
    and sets: "\<not> list_ex (\<lambda>pair. contradicts pair (backend, ''file'')) (Sets net)"
    and root: "RootContext f \<noteq> None \<longrightarrow> \<not> list_ex (\<lambda>n. list_ex (\<lambda>kv. EqualFold n (fst kv)) (Env f)) (Unset net) \<and>
      \<not> list_ex (\<lambda>pair. list_ex (contradicts pair) (Env f)) (Sets net)"
    using assms unfolding musePolicy_def by (auto split: if_split_asm option.splits)
  have "layered base f prompt backend = Some ''file''"
    using fileBackend prompt by (auto simp: layered_def map_add_def split: option.splits)
  then show "final lib net (layered base f prompt) backend = Some ''file''"
    using patched_keeps [OF _ unset sets] by (simp add: final_def)
  assume k: "RootContext f \<noteq> None" "map_of (Env f) k = Some x" "map_of (promptEnv prompt) k = None"
  then have "layered base f prompt k = Some x" and "(k, x) \<in> set (Env f)"
    by (auto simp: layered_def map_add_def dest: map_of_SomeD)
  moreover have "\<not> list_ex (\<lambda>u. EqualFold u k) (Unset net)" "\<not> list_ex (\<lambda>pair. contradicts pair (k, x)) (Sets net)"
    using root k(1) \<open>(k, x) \<in> set (Env f)\<close> by (force simp: list_ex_iff)+
  ultimately show "final lib net (layered base f prompt) k = Some x"
    using patched_keeps by (simp add: final_def)
qed

lemma find_mem: "find P xs = Some x \<Longrightarrow> x \<in> set xs \<and> P x"
  by (induction xs) (auto split: if_splits)

lemma CheckOverlays_Inr:
  "CheckOverlays lib a b c = Inr u \<longleftrightarrow> (\<forall>n \<in> fst ` set a \<union> fst ` set b \<union> set c. \<not> IsProxyFamily lib n)"
  by (auto simp: CheckOverlays_def find_None_iff ball_Un dest!: find_mem split: option.splits)

text \<open>The fields of a composed value.\<close>

lemma ComposeWithNetwork_fields:
  assumes "ComposeWithNetwork lib p ownEnv f prompt native net = Inr v"
    and "\<forall>n \<in> fst ` set (Env f) \<union> fst ` set (promptEnv prompt). plain n"
    and "\<not> EmptyPatch lib net \<Longrightarrow> documented lib net"
  shows "musePolicy ownEnv f prompt net = Inr ()" "cArgv v = planArgv p @ promptArgv prompt @ native"
    and "\<exists>e. cEnv v = materialise e \<and> clean_map e \<and> map_of e = final lib net (layered (planEnv p) f prompt)"
    and "map_of (EnvLiterals v) = final lib net (layered ownEnv f prompt)"
    and "sorted (EnvNames v) \<and> distinct (EnvNames v) \<and> set (EnvNames v) =
      {n \<in> set (mcpNamesOf f). layered ownEnv f prompt n = None \<and> map_of (EnvLiterals v) n = None}"
    and "\<not> EmptyPatch lib net \<Longrightarrow>
      \<forall>n \<in> fst ` set (Env f) \<union> fst ` set (promptEnv prompt) \<union> set (mcpNamesOf f). \<not> IsProxyFamily lib n"
proof -
  let ?st = "overlays p ownEnv f prompt"
  obtain names ws where look: "lookups (literals ?st) [] (mcpNamesOf f) = (names, ws)" by fastforce
  note spec = lookups_spec [OF look, THEN conjunct1] lookups_spec [OF look, THEN conjunct2]
  note clean = overlays_clean [OF assms(2), of p ownEnv]
  show "musePolicy ownEnv f prompt net = Inr ()" "cArgv v = planArgv p @ promptArgv prompt @ native"
    using assms(1) by (auto simp: ComposeWithNetwork_def Let_def split: prod.splits)
  show "\<exists>e. cEnv v = materialise e \<and> clean_map e \<and> map_of e = final lib net (layered (planEnv p) f prompt)"
    using assms(1,3) clean(1) applyToMap_patched [of lib net, OF _ clean(1)]
    by (auto simp: ComposeWithNetwork_def Let_def final_def overlays_layered split: prod.splits if_splits)
  show lits: "map_of (EnvLiterals v) = final lib net (layered ownEnv f prompt)"
    using assms(1,3) applyToMap_patched [of lib net, OF _ clean(2)]
    by (auto simp: ComposeWithNetwork_def Let_def final_def overlays_layered split: prod.splits if_splits)
  have "EnvNames v = filter (\<lambda>n. map_of (EnvLiterals v) n = None) (sort names)"
  proof (cases "EmptyPatch lib net")
    case True
    then have "EnvNames v = sort names" "\<forall>n \<in> set names. map_of (EnvLiterals v) n = None"
      using assms(1) look spec(2) by (auto simp: ComposeWithNetwork_def Let_def split: prod.splits)
    then show ?thesis by simp
  next
    case False
    then show ?thesis
      using assms(1) look by (auto simp: ComposeWithNetwork_def Let_def recheck_def split: prod.splits)
  qed
  then show "sorted (EnvNames v) \<and> distinct (EnvNames v) \<and> set (EnvNames v) =
      {n \<in> set (mcpNamesOf f). layered ownEnv f prompt n = None \<and> map_of (EnvLiterals v) n = None}"
    using spec by (auto simp: overlays_layered sorted_filter [where f = id, simplified])
  show "\<forall>n \<in> fst ` set (Env f) \<union> fst ` set (promptEnv prompt) \<union> set (mcpNamesOf f). \<not> IsProxyFamily lib n"
    if "\<not> EmptyPatch lib net"
    using assms(1) that
    by (auto simp: ComposeWithNetwork_def Let_def refuseProxyOverlays_def CheckOverlays_Inr split: prod.splits)
qed

text \<open>C3. The composed launch. The arguments are the plan's own, the prompt's, and then exactly the
  native suffix that was admitted. The environment is the plan's, overlaid by the fragment's and
  then the prompt's variables, with the network patch last and, by its documented effect, over
  exactly the names it names; the literals are the same layers over the owned environment. The
  names to look up are the fragment's MCP names without a literal, sorted and without
  repetition. A managed launch has no proxy variable in any layer. A Muse launch of the
  fourth revision keeps the file credential backend, and with a root context every fragment
  variable that the prompt does not set, whatever the patch and the ambient environment say.\<close>

theorem launch_composed:
  assumes "ComposeAdmittedPlanWithNetwork lib p ownEnv f prompt native net = Inr v"
    and "\<forall>n \<in> fst ` set (Env f) \<union> fst ` set (promptEnv prompt). plain n"
    and "\<not> EmptyPatch lib net \<Longrightarrow> documented lib net"
  shows "(\<exists>pre. planArgv p = pre @ native \<and> cArgv v = pre @ promptArgv prompt @ native) \<and>
    (\<exists>e. cEnv v = materialise e \<and> clean_map e \<and> map_of e = final lib net (layered (planEnv p) f prompt) \<and>
      (Environment f = EnvMuse \<and> Revision f = IdentityV4 \<longrightarrow> map_of e backend = Some ''file'' \<and>
        (RootContext f \<noteq> None \<longrightarrow> (\<forall>k x. map_of (Env f) k = Some x \<and> map_of (promptEnv prompt) k = None \<longrightarrow> map_of e k = Some x)))) \<and>
    map_of (EnvLiterals v) = final lib net (layered ownEnv f prompt) \<and>
    sorted (EnvNames v) \<and> distinct (EnvNames v) \<and>
    set (EnvNames v) = {n \<in> set (mcpNamesOf f). layered ownEnv f prompt n = None \<and> map_of (EnvLiterals v) n = None} \<and>
    (\<not> EmptyPatch lib net \<longrightarrow>
      (\<forall>n \<in> fst ` set (Env f) \<union> fst ` set (promptEnv prompt) \<union> set (mcpNamesOf f). \<not> IsProxyFamily lib n))"
proof -
  let ?pre = "take (length (planArgv p) - length native) (planArgv p)"
  have comp: "ComposeWithNetwork lib (p\<lparr>planArgv := ?pre\<rparr>) ownEnv f prompt native net = Inr v"
    and suffix: "drop (length (planArgv p) - length native) (planArgv p) = native"
    using assms(1) by (auto simp: ComposeAdmittedPlanWithNetwork_def Let_def split: if_split_asm)
  note fields = ComposeWithNetwork_fields [OF comp assms(2,3)]
  have argv: "planArgv p = ?pre @ native \<and> cArgv v = ?pre @ promptArgv prompt @ native"
    using append_take_drop_id [of "length (planArgv p) - length native" "planArgv p"] fields(2) unfolding suffix by simp
  obtain e where e: "cEnv v = materialise e" "clean_map e" "map_of e = final lib net (layered (planEnv p) f prompt)"
    using fields(3) by auto
  have muse: "Environment f = EnvMuse \<and> Revision f = IdentityV4 \<longrightarrow> map_of e backend = Some ''file'' \<and>
      (RootContext f \<noteq> None \<longrightarrow> (\<forall>k x. map_of (Env f) k = Some x \<and> map_of (promptEnv prompt) k = None \<longrightarrow> map_of e k = Some x))"
    unfolding e(3) using muse_kept [OF fields(1), where lib = lib and base = "planEnv p"] by simp
  show ?thesis
    by (intro conjI exI [of _ ?pre] exI [of _ e] argv [THEN conjunct1] argv [THEN conjunct2] e muse fields(4)
        fields(5) [THEN conjunct1] fields(5) [THEN conjunct2, THEN conjunct1] fields(5) [THEN conjunct2, THEN conjunct2]
        impI fields(6))
qed

text \<open>A managed launch on a small fragment; the library's patch as documented.\<close>

definition sampleApply :: "patch \<Rightarrow> string list \<Rightarrow> string list" where
  "sampleApply p es = filter (\<lambda>e. \<not> matched p (fst (Cut e CHR ''=''))) es @ map entry (Sets p)"

definition sampleLib :: patchLib where
  "sampleLib = \<lparr>UnsetNames = [''HTTP_PROXY'', ''NO_PROXY''], Unmanaged = \<lparr>Unset = [], Sets = []\<rparr>,
     EmptyPatch = (\<lambda>p. Unset p = [] \<and> Sets p = []), Apply = sampleApply\<rparr>"

definition samplePatch :: patch where
  "samplePatch = \<lparr>Unset = [''HTTP_PROXY'', ''NO_PROXY''], Sets = [(''HTTP_PROXY'', ''http://127.0.0.1:18080'')]\<rparr>"

definition samplePlan :: plan where
  "samplePlan = \<lparr>planBinary = ''/bin/codex'', planWorkDir = ''/w'', planArgv = [''--plan'', ''resume''],
     planEnv = [''PATH=/bin'', ''Http_Proxy=http://ambient''], planStdin = (False, [])\<rparr>"

definition sampleFragment :: fragment where
  "sampleFragment = \<lparr>Revision = IdentityV4, Environment = EnvCodexCLI,
     Profile = \<lparr>profName = ''default'', profLockSHA256 = []\<rparr>,
     Precedence = \<lparr>precWinner = ''managed'', precPlacement = ''append''\<rparr>, Permissions = None, RootContext = None,
     CredentialStore = None, Env = [(''CODEX_HOME'', ''/m/codex'')], SystemPrompt = None,
     MCP = Some \<lparr>mcpPath = ''/m/layer.toml'', mcpEnvNames = [''KEY'', ''PATH_KEY''], mcpChannels = []\<rparr>,
     PathPrepend = [], fCanonical = [], fDigest = []\<rparr>"

lemma sample_documented: "documented sampleLib samplePatch"
  by (auto simp: documented_def sampleLib_def sampleApply_def clean_map_def samplePatch_def plain_def)

theorem launch_composed_witness:
  "\<exists>v. ComposeAdmittedPlanWithNetwork sampleLib samplePlan [''KEY=owned''] sampleFragment \<lparr>promptArgv = [''-c''], promptEnv = []\<rparr>
      [''resume''] samplePatch = Inr v \<and> cArgv v = [''--plan'', ''-c'', ''resume''] \<and>
    map_of (EnvLiterals v) ''HTTP_PROXY'' = Some ''http://127.0.0.1:18080'' \<and> set (EnvNames v) = {''PATH_KEY''}"
proof -
  let ?c = "ComposeAdmittedPlanWithNetwork sampleLib samplePlan [''KEY=owned''] sampleFragment \<lparr>promptArgv = [''-c''], promptEnv = []\<rparr>
      [''resume''] samplePatch"
  have "\<not> isl ?c" by code_simp
  then obtain v where v: "?c = Inr v" by (cases ?c) simp_all
  have names: "\<forall>n \<in> fst ` set (Env sampleFragment) \<union> fst ` set (promptEnv \<lparr>promptArgv = [''-c''], promptEnv = []\<rparr>). plain n"
    by (simp add: sampleFragment_def plain_def)
  note composed = launch_composed [OF v names sample_documented]
  have "final sampleLib samplePatch (layered [''KEY=owned''] sampleFragment \<lparr>promptArgv = [''-c''], promptEnv = []\<rparr>) ''HTTP_PROXY'' =
      Some ''http://127.0.0.1:18080''"
    "layered [''KEY=owned''] sampleFragment \<lparr>promptArgv = [''-c''], promptEnv = []\<rparr> ''KEY'' = Some ''owned''"
    "layered [''KEY=owned''] sampleFragment \<lparr>promptArgv = [''-c''], promptEnv = []\<rparr> ''PATH_KEY'' = None"
    "final sampleLib samplePatch (layered [''KEY=owned''] sampleFragment \<lparr>promptArgv = [''-c''], promptEnv = []\<rparr>) ''PATH_KEY'' = None"
    "mcpNamesOf sampleFragment = [''KEY'', ''PATH_KEY'']" "planArgv samplePlan = [''--plan''] @ [''resume'']"
    by code_simp+
  note sample = this
  have "map_of (EnvLiterals v) ''HTTP_PROXY'' = Some ''http://127.0.0.1:18080''" "map_of (EnvLiterals v) ''PATH_KEY'' = None"
    using composed [THEN conjunct2, THEN conjunct2, THEN conjunct1] sample(1,4) by simp_all
  moreover have "set (EnvNames v) = {''PATH_KEY''}"
    unfolding composed [THEN conjunct2, THEN conjunct2, THEN conjunct2, THEN conjunct2, THEN conjunct2, THEN conjunct1] sample(5)
    using sample(2,3) calculation(2) by auto
  moreover have "cArgv v = [''--plan'', ''-c'', ''resume'']"
    using composed [THEN conjunct1] sample(6) by auto
  ultimately show ?thesis
    using v by blast
qed

end
