(* ===== verification/Diagnostics.thy ===== *)
theory Diagnostics
  imports Defaults
begin

text \<open>
  \<open>internal/diagnostics\<close>: the closed set of codes with their exit statuses, the classification of
  wrapped errors, and the framing of the diagnostic line.
\<close>

section \<open>Codes\<close>

record PluginDiagnostic =
  Exit :: nat
  Message :: string

definition pluginDiagnostics :: "(string \<times> PluginDiagnostic) list" where
  "pluginDiagnostics =
     map (\<lambda>(code, exit, msg). (code, \<lparr>Exit = exit, Message = msg\<rparr>))
       [(''session_home_lease_unavailable'', 1, ''Hosted home lease unavailable.''),
        (''ax_tracking_removed'', 2, ''Ax tracking was removed; delete this file.''),
        (''credential_binding_mismatch'', 2, ''Credential binding mismatch.''),
        (''credential_injection_unavailable'', 2, ''Credential injection unavailable.''),
        (''credential_node_missing'', 2, ''Credential node missing.''),
        (''credential_reserved_name'', 2, ''Credential reserved name.''),
        (''credential_source_conflict'', 2, ''Credential source conflict.''),
        (''credential_source_expired'', 2, ''Credential source expired.''),
        (''credential_source_revoked'', 2, ''Credential source revoked.''),
        (''credential_source_stale'', 2, ''Credential source stale.''),
        (''credential_store_unreadable'', 2, ''Credential store unreadable.''),
        (''doorbell_setup_failed'', 1, ''Doorbell setup failed.''),
        (''environment_credential_store_unsupported'', 2, ''Environment credential store unsupported.''),
        (''fragment_version_unsupported'', 2, ''Fragment version unsupported.''),
        (''session_board_goal_unavailable'', 1, ''Session board goal unavailable.''),
        (''session_curator_identity_stale'', 1, ''Session Curator identity is stale.''),
        (''session_generation_mismatch'', 1, ''Session generation mismatch.''),
        (''session_host_capability_missing'', 6, ''Required host capability is missing.''),
        (''session_host_delegated_unauthorized'', 16, ''Delegated session hosting is not authorised.''),
        (''session_host_protocol_error'', 6, ''Invalid session host response.''),
        (''session_liveness_unknown'', 1, ''Session liveness is unknown.''),
        (''session_operation_conflict'', 1, ''Session operation conflict.''),
        (''session_operation_expired'', 1, ''Session operation expired.''),
        (''session_resume_ambiguous'', 1, ''Session resume refused.''),
        (''session_resume_identity_mismatch'', 1, ''Session resume refused.''),
        (''session_resume_location_mismatch'', 1, ''Session resume refused.''),
        (''session_resume_not_found'', 1, ''Session resume refused.''),
        (''session_resume_unreadable'', 1, ''Session resume refused.''),
        (''werkstatt_already_up'', 1, ''Werkstatt already up.''),
        (''werkstatt_busy'', 1, ''Werkstatt busy.''),
        (''werkstatt_clone_missing'', 1, ''Werkstatt clone missing.''),
        (''werkstatt_context_check_failed'', 2, ''Werkstatt context check failed.''),
        (''werkstatt_context_leak'', 2, ''Werkstatt context leak.''),
        (''werkstatt_git_layout_invalid'', 2, ''Werkstatt git layout invalid.''),
        (''werkstatt_identity_missing'', 1, ''Werkstatt identity missing.''),
        (''werkstatt_liveness_write_failed'', 1, ''Werkstatt liveness write failed.''),
        (''werkstatt_not_up'', 1, ''Werkstatt has no liveness record.''),
        (''werkstatt_not_found'', 1, ''Werkstatt not found.''),
        (''werkstatt_operation_unresolved'', 1, ''Werkstatt operation unresolved.''),
        (''werkstatt_profile_changed'', 1, ''Werkstatt profile changed.''),
        (''werkstatt_profile_lock_mismatch'', 1, ''Werkstatt profile lock mismatch.''),
        (''werkstatt_record_invalid'', 2, ''Werkstatt record invalid.''),
        (''werkstatt_session_manager_required'', 1, ''Werkstatt session manager required.'')]"

definition PluginDiagnosticFor :: "string \<Rightarrow> PluginDiagnostic option" where
  "PluginDiagnosticFor code = map_of pluginDiagnostics code"

definition pluginCodes :: "string list" where
  "pluginCodes = sort (map fst pluginDiagnostics)"

definition ownCodes :: "string list" where
  "ownCodes =
     [''usage'', ''resolve_invocation_failed'', ''resolve_environment_unknown'', ''resolve_profile_unknown'',
      ''resolve_repair_failed'', ''resolve_lock_unavailable'', ''resolve_fragment_invalid'',
      ''defaults_config_invalid'', ''defaults_unresolvable'', ''selector_unavailable'', ''selector_abstained'',
      ''session_manager_registry_invalid'', ''session_manager_registry_unwritable'',
      ''session_manager_registry_shadowed'', ''session_manager_not_registered'',
      ''session_manager_registry_busy'', ''host_member_withdrawn'', ''migrate_destination_exists'',
      ''plan_refused'', ''plan_provider_limited'', ''env_unsupported'', ''permission_policy_unsupported'',
      ''permission_mode_unsupported'', ''exec_provider_missing'', ''mcp_layer_missing'',
      ''mcp_layer_unreadable'', ''sysprompt_channel_unavailable'', ''sysprompt_file_unreadable'',
      ''network_profile_unknown'', ''network_profile_denied'', ''network_scope_unsupported'',
      ''network_configuration_conflict'', ''network_proxy_unreachable'', ''network_proxy_auth_failed'',
      ''network_profile_invalid'', ''network_file_unreadable'', ''session_host_missing'',
      ''session_host_unavailable'', ''session_host_provider_unsupported'',
      ''session_host_protocol_unsupported'', ''session_host_scope_unsupported'',
      ''session_host_execution_profile_unsupported'', ''session_host_terminal_required'',
      ''session_host_stdin_unsupported'', ''session_host_default_not_ready'', ''session_resume_invalid'',
      ''launch_plan_invalid'', ''secret_policy_violation'', ''policy_refused'']"

definition Codes :: "string list" where
  "Codes = ownCodes @ pluginCodes"

definition Valid :: "string \<Rightarrow> bool" where
  "Valid code \<longleftrightarrow> code \<in> set Codes"

definition ExitUsage :: nat where "ExitUsage = 2"
definition ExitOperational :: nat where "ExitOperational = 1"
definition ExitProtocol :: nat where "ExitProtocol = 6"
definition ExitPolicy :: nat where "ExitPolicy = 16"

definition ExitForCode :: "string \<Rightarrow> nat" where
  "ExitForCode code = (case PluginDiagnosticFor code of
     Some r \<Rightarrow> Exit r
   | None \<Rightarrow>
       if code \<in> set
         [''usage'', ''session_resume_invalid'', ''launch_plan_invalid'', ''host_member_withdrawn'',
          ''migrate_destination_exists'', ''session_manager_registry_invalid'',
          ''session_manager_registry_unwritable'', ''session_manager_registry_shadowed'',
          ''session_manager_not_registered''] then ExitUsage
       else if code \<in> set
         [''session_host_protocol_unsupported'', ''session_host_provider_unsupported'',
          ''session_host_scope_unsupported'', ''session_host_execution_profile_unsupported'',
          ''session_host_terminal_required'', ''session_host_stdin_unsupported''] then ExitProtocol
       else if code \<in> set
         [''secret_policy_violation'', ''policy_refused'', ''session_host_default_not_ready''] then ExitPolicy
       else ExitOperational)"

section \<open>Wrapped errors\<close>

text \<open>An error is what its concrete type says to this package, and the errors it wraps; a nil link,
  typed or not, is left out of the list.\<close>

datatype concrete =
  UsageErr string | ResolveErr string | LayerErr string | PromptRefusal string | OtherErr

datatype goError = GoError concrete "goError list"

definition resolveFamily :: "string list" where
  "resolveFamily = [''resolve_invocation_failed'', ''resolve_environment_unknown'', ''resolve_profile_unknown'',
     ''resolve_repair_failed'', ''resolve_lock_unavailable'', ''resolve_fragment_invalid'']"

definition layerFamily :: "string list" where
  "layerFamily = [''mcp_layer_missing'', ''mcp_layer_unreadable'']"

definition refusalFamily :: "string list" where
  "refusalFamily = [''sysprompt_channel_unavailable'', ''sysprompt_file_unreadable'']"

definition ownedCode :: "concrete \<Rightarrow> string option" where
  "ownedCode c = (case c of
     UsageErr code \<Rightarrow> if code = ''usage'' then Some ''usage'' else None
   | ResolveErr code \<Rightarrow> if code \<in> set resolveFamily then Some code else None
   | LayerErr code \<Rightarrow> if code \<in> set layerFamily then Some code else None
   | PromptRefusal code \<Rightarrow> if code \<in> set refusalFamily then Some code else None
   | OtherErr \<Rightarrow> None)"

text \<open>The breadth-first walk; every turn removes one error of the queue.\<close>

fun errors :: "goError \<Rightarrow> nat" where
  "errors (GoError c es) = Suc (sum_list (map errors es))"

function chain :: "goError list \<Rightarrow> string option" where
  "chain [] = None"
| "chain (GoError c es # queue) = (case ownedCode c of Some code \<Rightarrow> Some code | None \<Rightarrow> chain (queue @ es))"
  by pat_completeness auto
termination by (relation "measure (\<lambda>q. sum_list (map errors q))") auto

text \<open>\<open>None\<close> as the argument is the nil error.\<close>

definition CodeOf :: "goError option \<Rightarrow> string option" where
  "CodeOf e = (case e of None \<Rightarrow> None | Some e \<Rightarrow> chain [e])"

section \<open>Lines\<close>

definition DiagnosticLine :: "string \<Rightarrow> string \<Rightarrow> string" where
  "DiagnosticLine code detail = ''curator-run: '' @ code @ '': '' @ foldValue detail @ [CHR 0x0A]"

definition IsDiagnosticLine :: "string \<Rightarrow> bool" where
  "IsDiagnosticLine l \<longleftrightarrow> CHR 0x0A \<notin> set l \<and>
     (case CutPrefix l ''curator-run: '' of
        None \<Rightarrow> False
      | Some rest \<Rightarrow> (case Cut rest CHR '':'' of (code, _, found) \<Rightarrow>
          found \<and> TrimSuffix code '' '' \<noteq> [] \<and> Valid (TrimSuffix code '' '')))"

end
