(* ===== verification/DiagnosticsProps.thy ===== *)
theory DiagnosticsProps
  imports Diagnostics DefaultsProps
begin

text \<open>
  The diagnostic contract: one code line per diagnostic, no code line from any other text the
  launcher writes, exit statuses that are never success, and no invented code.
\<close>

section \<open>Physical lines\<close>

abbreviation physical :: "string \<Rightarrow> string list" where
  "physical s \<equiv> Split s (CHR 0x0A)"

lemma physical_indented: "framed s \<Longrightarrow> \<forall>l \<in> set (tl (physical s)). take 2 l = ''  ''"
proof (induction s)
  case (Cons c cs)
  show ?case
  proof (cases "c = CHR 0x0A")
    case True
    with Cons.prems have "take 2 cs = ''  ''" by simp
    then obtain rest where "cs = CHR '' '' # CHR '' '' # rest"
      by (cases cs; cases "tl cs") auto
    then have "take 2 (hd (physical cs)) = ''  ''"
      by (auto split: list.splits)
    then show ?thesis
      using Cons True by (cases "physical cs") auto
  next
    case False
    then show ?thesis
      using Cons by (cases "physical cs") auto
  qed
qed simp

lemma physical_snoc: "physical (s @ [CHR 0x0A]) = physical s @ [[]]"
  by (induction s) (auto split: list.splits)

lemma physical_prefix: "CHR 0x0A \<notin> set p \<Longrightarrow> physical (p @ s) = (p @ hd (physical s)) # tl (physical s)"
  by (simp add: Split_append_no_sep split: list.splits)

lemma indented_not_diagnostic: "take 2 l = ''  '' \<Longrightarrow> \<not> IsDiagnosticLine l"
  by (cases l) (auto simp: IsDiagnosticLine_def CutPrefix_def HasPrefix_def)

lemma blank_not_diagnostic: "\<not> IsDiagnosticLine []"
  by (simp add: IsDiagnosticLine_def CutPrefix_def HasPrefix_def)

lemma code_line:
  assumes "CHR '':'' \<notin> set code" "CHR 0x0A \<notin> set code" "code \<noteq> []" "last code \<noteq> CHR '' ''" "CHR 0x0A \<notin> set rest"
  shows "IsDiagnosticLine (''curator-run: '' @ code @ '':'' @ rest) \<longleftrightarrow> Valid code"
proof -
  have "CutPrefix (''curator-run: '' @ code @ '':'' @ rest) ''curator-run: '' = Some (code @ '':'' @ rest)"
    by (simp add: CutPrefix_Some)
  moreover have "Cut (code @ '':'' @ rest) CHR '':'' = (code, rest, True)"
    using assms(1) by (simp add: Cut_found)
  moreover have "TrimSuffix code '' '' = code"
    using assms(4) by (auto simp: TrimSuffix_def HasSuffix_iff)
  ultimately show ?thesis
    using assms by (simp add: IsDiagnosticLine_def)
qed

lemma codes_words: "Valid code \<Longrightarrow> code \<noteq> [] \<and> (\<forall>c \<in> set code. is_lower c \<or> c = CHR ''_'')"
proof -
  have "list_all (\<lambda>code. code \<noteq> [] \<and> list_all (\<lambda>c. is_lower c \<or> c = CHR ''_'') code) Codes"
    by code_simp
  then show "Valid code \<Longrightarrow> code \<noteq> [] \<and> (\<forall>c \<in> set code. is_lower c \<or> c = CHR ''_'')"
    by (simp add: Valid_def list_all_iff)
qed

lemma code_props:
  assumes "Valid code"
  shows "CHR '':'' \<notin> set code" "CHR 0x0A \<notin> set code" "code \<noteq> []" "last code \<noteq> CHR '' ''"
proof -
  have "code \<noteq> []" and word: "\<And>c. c \<in> set code \<Longrightarrow> is_lower c \<or> c = CHR ''_''"
    using codes_words [OF assms] by blast+
  have blank: "CHR '' '' \<notin> set code"
    using word [of "CHR '' ''"] by (auto simp: is_lower_def less_eq_char_def)
  show "code \<noteq> []" "CHR '':'' \<notin> set code" "CHR 0x0A \<notin> set code"
    using \<open>code \<noteq> []\<close> word [of "CHR '':''"] word [of "CHR 0x0A"] by (auto simp: is_lower_def less_eq_char_def)
  show "last code \<noteq> CHR '' ''"
    using blank last_in_set [OF \<open>code \<noteq> []\<close>] by metis
qed

lemma diagnostic_physical:
  assumes "Valid code"
  shows "\<exists>l ls. physical (DiagnosticLine code detail) = l # ls \<and> IsDiagnosticLine l \<and> (\<forall>m \<in> set ls. \<not> IsDiagnosticLine m)"
proof -
  let ?p = "''curator-run: '' @ code @ '': ''"
  have "CHR 0x0A \<notin> set ?p"
    using code_props(2) [OF assms] by simp
  then have "physical (?p @ foldValue detail) = (?p @ hd (physical (foldValue detail))) # tl (physical (foldValue detail))"
    by (rule physical_prefix)
  then have phys: "physical (DiagnosticLine code detail) =
      (?p @ hd (physical (foldValue detail))) # tl (physical (foldValue detail)) @ [[]]"
    using physical_snoc [of "?p @ foldValue detail"] by (simp add: DiagnosticLine_def)
  have "CHR 0x0A \<notin> set (hd (physical (foldValue detail)))"
    using Split_no_sep [of _ "foldValue detail"] list.set_sel(1) [of "physical (foldValue detail)"] by simp
  then have "IsDiagnosticLine (?p @ hd (physical (foldValue detail)))"
    using code_line [OF code_props [OF assms], of "'' '' @ hd (physical (foldValue detail))"] assms by simp
  then show ?thesis
    unfolding phys
    using physical_indented [OF framed_foldValue, of detail] indented_not_diagnostic blank_not_diagnostic by auto
qed

lemma group_physical:
  assumes "framed s" "\<not> Valid code" "CHR '':'' \<notin> set code" "CHR 0x0A \<notin> set code" "code \<noteq> []" "last code \<noteq> CHR '' ''"
    and "s = (''curator-run: '' @ code @ '':'') @ rest" "m \<in> set (physical s)"
  shows "\<not> IsDiagnosticLine m"
proof -
  let ?p = "''curator-run: '' @ code @ '':''"
  have phys: "physical s = (?p @ hd (physical rest)) # tl (physical rest)"
    using physical_prefix [of ?p rest] assms(4) unfolding assms(7) by simp
  have "CHR 0x0A \<notin> set (hd (physical rest))"
    using Split_no_sep [of _ rest] list.set_sel(1) [of "physical rest"] by simp
  then have "\<not> IsDiagnosticLine (?p @ hd (physical rest))"
    using code_line [OF assms(3-6)] assms(2) by simp
  then show ?thesis
    using assms(8) physical_indented [OF assms(1)] indented_not_diagnostic unfolding phys by auto
qed

section \<open>Wrapped errors\<close>

fun concretes :: "goError \<Rightarrow> concrete set" where
  "concretes (GoError c es) = insert c (\<Union>e \<in> set es. concretes e)"

lemma ownedCode_Valid: "ownedCode c = Some code \<Longrightarrow> Valid code"
proof -
  have "list_all Valid (''usage'' # resolveFamily @ layerFamily @ refusalFamily)"
    by code_simp
  then show "ownedCode c = Some code \<Longrightarrow> Valid code"
    by (auto simp: ownedCode_def list_all_iff split: concrete.splits if_splits)
qed

lemma chain_spec:
  "case chain q of
     Some code \<Rightarrow> \<exists>e \<in> set q. \<exists>c \<in> concretes e. ownedCode c = Some code
   | None \<Rightarrow> \<forall>e \<in> set q. \<forall>c \<in> concretes e. ownedCode c = None"
proof (induction q rule: chain.induct)
  case (2 c es queue)
  show ?case
  proof (cases "ownedCode c")
    case None
    with 2 show ?thesis by (auto split: option.splits)
  qed auto
qed simp

section \<open>The contract\<close>

lemma either_in: "x \<in> A \<Longrightarrow> y \<in> A \<Longrightarrow> (if b then x else y) \<in> A"
  by simp

lemma exits: "ExitForCode code \<in> {1, 2, 6, 16}"
proof (cases "PluginDiagnosticFor code")
  case None
  have "ExitUsage \<in> {1, 2, 6, 16}" "ExitOperational \<in> {1, 2, 6, 16}" "ExitProtocol \<in> {1, 2, 6, 16}" "ExitPolicy \<in> {1, 2, 6, 16}"
    by (simp_all add: ExitUsage_def ExitOperational_def ExitProtocol_def ExitPolicy_def)
  then show ?thesis
    unfolding ExitForCode_def None option.case by (intro either_in)
next
  case (Some r)
  have "list_all (\<lambda>(c, r). Exit r \<in> {1, 2, 6, 16}) pluginDiagnostics"
    by code_simp
  moreover have "(code, r) \<in> set pluginDiagnostics"
    using Some by (auto simp: PluginDiagnosticFor_def dest: map_of_SomeD)
  ultimately have "Exit r \<in> {1, 2, 6, 16}"
    unfolding list_all_iff by blast
  then show ?thesis
    unfolding ExitForCode_def Some option.case .
qed

text \<open>C23. The diagnostic contract. A diagnostic with a code of the closed set is one code line, whatever
  bytes its detail has; every further physical line is no code line. The lines of the defaults
  group are never code lines, whatever the values. No code, of the set or not, exits with
  success. An error is classified by a code of the set that an error it wraps owns, and is
  left unclassified exactly when none of them owns one.\<close>

theorem diagnostic_contract:
  "(\<forall>code detail. Valid code \<longrightarrow>
      (\<exists>l ls. physical (DiagnosticLine code detail) = l # ls \<and> IsDiagnosticLine l \<and> (\<forall>m \<in> set ls. \<not> IsDiagnosticLine m))) \<and>
    (\<forall>r path. \<forall>m \<in> set (physical (Line r)) \<union> set (physical (ProviderLine path)). \<not> IsDiagnosticLine m) \<and>
    (\<forall>code. ExitForCode code \<in> {1, 2, 6, 16}) \<and>
    (\<forall>e. case CodeOf (Some e) of
       Some code \<Rightarrow> Valid code \<and> (\<exists>c \<in> concretes e. ownedCode c = Some code)
     | None \<Rightarrow> \<forall>c \<in> concretes e. ownedCode c = None)"
proof (intro conjI allI impI ballI)
  show "\<exists>l ls. physical (DiagnosticLine code detail) = l # ls \<and> IsDiagnosticLine l \<and> (\<forall>m \<in> set ls. \<not> IsDiagnosticLine m)"
    if "Valid code" for code detail
    using that by (rule diagnostic_physical)
  show "ExitForCode code \<in> {1, 2, 6, 16}" for code
    by (rule exits)
  show "case CodeOf (Some e) of Some code \<Rightarrow> Valid code \<and> (\<exists>c \<in> concretes e. ownedCode c = Some code)
     | None \<Rightarrow> \<forall>c \<in> concretes e. ownedCode c = None" for e
    using chain_spec [of "[e]"] ownedCode_Valid by (auto simp: CodeOf_def split: option.splits)
  fix r path m
  assume m: "m \<in> set (physical (Line r)) \<union> set (physical (ProviderLine path))"
  have invalid: "\<not> Valid ''defaults''" "\<not> Valid ''provider''"
    by code_simp+
  from m show "\<not> IsDiagnosticLine m"
  proof
    assume "m \<in> set (physical (Line r))"
    then show ?thesis
      using default_lines_framed [THEN conjunct1] invalid(1)
      by (intro group_physical [of "Line r" "''defaults''" "'' '' @ drop 23 (Line r)"]) (simp_all add: Line_def)
  next
    assume "m \<in> set (physical (ProviderLine path))"
    then show ?thesis
      using default_lines_framed [THEN conjunct2] invalid(2)
      by (intro group_physical [of "ProviderLine path" "''provider''" "'' '' @ drop 23 (ProviderLine path)"])
        (simp_all add: ProviderLine_def)
  qed
qed

theorem diagnostic_contract_witness:
  "\<exists>l ls. physical (DiagnosticLine ''usage'' [CHR ''a'', CHR 0x0A, CHR ''b'']) = l # ls \<and> IsDiagnosticLine l \<and>
    (\<exists>c. ExitForCode ''no_such_code'' = c \<and> c \<noteq> 0)"
proof -
  have "Valid ''usage''" by code_simp
  moreover have "ExitForCode ''no_such_code'' \<noteq> 0"
    using diagnostic_contract [THEN conjunct2, THEN conjunct2, THEN conjunct1, THEN spec [of _ "''no_such_code''"]] by auto
  ultimately show ?thesis
    using diagnostic_contract [THEN conjunct1, THEN spec, THEN spec, THEN mp, of "''usage''" "[CHR ''a'', CHR 0x0A, CHR ''b'']"]
    by blast
qed

end
