(* ===== verification/NativeArgs.thy ===== *)
theory NativeArgs
  imports GoStrings
begin

text \<open>
  \<open>internal/network/native_args.go\<close>: the guard of a native argument tail under a filtering gateway.
\<close>

datatype argShape = ArgNone | ArgRequired | ArgOptional | ArgVariadic

definition gatewayNativeOptions :: "(string \<times> argShape) list" where
  "gatewayNativeOptions =
     [(''--print'', ArgNone), (''--verbose'', ArgNone), (''--debug'', ArgOptional),
      (''--debug-file'', ArgRequired), (''--output-format'', ArgRequired), (''--input-format'', ArgRequired),
      (''--json-schema'', ArgRequired), (''--include-hook-events'', ArgNone),
      (''--include-partial-messages'', ArgNone), (''--replay-user-messages'', ArgNone),
      (''--dangerously-skip-permissions'', ArgNone), (''--allow-dangerously-skip-permissions'', ArgNone),
      (''--permission-mode'', ArgRequired), (''--permission-prompt-tool'', ArgRequired),
      (''--thinking'', ArgRequired), (''--thinking-display'', ArgRequired),
      (''--max-thinking-tokens'', ArgRequired), (''--max-turns'', ArgRequired),
      (''--max-budget-usd'', ArgRequired), (''--allowedTools'', ArgVariadic),
      (''--allowed-tools'', ArgVariadic), (''--disallowedTools'', ArgVariadic),
      (''--disallowed-tools'', ArgVariadic), (''--tools'', ArgVariadic), (''--mcp-config'', ArgVariadic),
      (''--strict-mcp-config'', ArgNone), (''--system-prompt'', ArgRequired),
      (''--system-prompt-file'', ArgRequired), (''--append-system-prompt'', ArgRequired),
      (''--append-system-prompt-file'', ArgRequired), (''--exclude-dynamic-system-prompt-sections'', ArgNone),
      (''--model'', ArgRequired), (''--fallback-model'', ArgRequired), (''--effort'', ArgRequired),
      (''--agent'', ArgRequired), (''--betas'', ArgVariadic), (''--session-id'', ArgRequired),
      (''--name'', ArgRequired), (''--no-session-persistence'', ArgNone),
      (''--disable-slash-commands'', ArgNone)]"

definition gatewayNativeShortOptions :: "(string \<times> argShape) list" where
  "gatewayNativeShortOptions = [(''-p'', ArgNone), (''-d'', ArgOptional), (''-n'', ArgRequired)]"

definition claudeReservedArgs :: "string list" where
  "claudeReservedArgs =
     [''help'', ''attach'', ''logs'', ''stop'', ''kill'', ''respawn'', ''rm'', ''edit-permission-rules'',
      ''edit-memory-settings'', ''edit-skill-overrides'', ''edit-sandbox-settings'', ''design-login'',
      ''edit-chrome-settings'', ''drop-worktree-registrations'', ''edit-hook'', ''project'', ''purge'',
      ''gateway'', ''auth'', ''login'', ''status'', ''logout'', ''setup-token'', ''agents'', ''ultrareview'',
      ''auto-mode'', ''defaults'', ''config'', ''reset'', ''critique'', ''remote-control'', ''rc'', ''doctor'',
      ''sandbox'', ''install'', ''uninstall'', ''update'', ''upgrade'', ''import'', ''import-conversations'',
      ''plugin'', ''plugins'', ''init'', ''validate'', ''tag'', ''list'', ''eval'', ''test'', ''details'',
      ''marketplace'', ''add'', ''remove'', ''prune'', ''enable'', ''disable'', ''configure'', ''xaa'',
      ''setup'', ''show'', ''clear'', ''mcp'', ''serve'', ''get'', ''add-json'', ''add-from-claude-desktop'',
      ''reset-project-choices'', ''i'', ''autoremove'', ''remote'', ''sync'', ''bridge'', ''daemon'',
      ''self-hosted-runner'', ''forward-home-settings'', ''--handle-uri'', ''--session-tunnel'',
      ''--runner-declares'', ''--eval-mock-server'', ''--claude-in-chrome-mcp'', ''--chrome-native-host'',
      ''--computer-use-mcp'', ''--daemon-worker'', ''--bg-pty-host'', ''--bg-spare'', ''--preload'',
      ''--update'', ''--upgrade'', ''--bg'', ''--background'', ''--tmux'', ''--worktree'', ''-w'',
      ''--agent-teams'', ''--hard-fail'', ''-c'', ''--continue'', ''-r'', ''--resume'', ''--from-pr'',
      ''--gh-standin'', ''--version'', ''-v'', ''-V'']"

definition claudeReservedBeforeTerminator :: "string list" where
  "claudeReservedBeforeTerminator = [''--safe-mode'', ''--bare'']"

definition claudeReservedPrefixes :: "string list" where
  "claudeReservedPrefixes =
     [''--handle-uri='', ''--worktree='', ''--tmux='', ''--runner-declares='', ''--session-tunnel='',
      ''--resume='', ''-r='', ''--from-pr='']"

definition reservedArg :: "string \<Rightarrow> bool" where
  "reservedArg arg \<longleftrightarrow> arg \<in> set claudeReservedArgs \<or> list_ex (HasPrefix arg) claudeReservedPrefixes"

definition looksLikeOption :: "string \<Rightarrow> bool" where
  "looksLikeOption arg \<longleftrightarrow> 1 < length arg \<and> hd arg = CHR ''-''"

definition refuse :: "string \<Rightarrow> nat \<Rightarrow> string \<Rightarrow> string \<times> string \<times> string" where
  "refuse name i detail = (''network_configuration_conflict'', name,
     ''native argument '' @ dec (i + 1) @ '' '' @ detail @ '', which the filtering gateway refuses'')"

text \<open>The first loop, from position \<open>i\<close>; a result is the position it refuses.\<close>

fun dispatchWord :: "bool \<Rightarrow> nat \<Rightarrow> string list \<Rightarrow> nat option" where
  "dispatchWord terminated i [] = None"
| "dispatchWord terminated i (arg # args) =
     (if arg = ''--'' \<and> \<not> terminated then dispatchWord True (i + 1) args
      else if reservedArg arg \<or> \<not> terminated \<and> arg \<in> set claudeReservedBeforeTerminator then Some i
      else dispatchWord terminated (i + 1) args)"

text \<open>The option an argument names: its name, whether it carries a value, and its shape.\<close>

definition optionOf :: "string \<Rightarrow> string \<times> bool \<times> argShape option" where
  "optionOf arg =
     (if HasPrefix arg ''--'' then
        (case Cut arg CHR ''='' of (flag, _, inline) \<Rightarrow> (flag, inline, map_of gatewayNativeOptions flag))
      else (arg, False, map_of gatewayNativeShortOptions arg))"

text \<open>The second loop: the position it refuses and why.\<close>

fun admitOptions :: "nat \<Rightarrow> string list \<Rightarrow> (nat \<times> string) option" where
  "admitOptions i [] = None"
| "admitOptions i (arg # args) =
     (if arg = ''--'' then None
      else if \<not> looksLikeOption arg then admitOptions (i + 1) args
      else case optionOf arg of
        (_, _, None) \<Rightarrow> Some (i, ''is not an admitted option'')
      | (_, inline, Some ArgNone) \<Rightarrow> if inline then Some (i, ''gives a value to a switch'') else admitOptions (i + 1) args
      | (_, inline, Some ArgOptional) \<Rightarrow> admitOptions (i + 1) args
      | (_, inline, Some _) \<Rightarrow>
          if inline then admitOptions (i + 1) args
          else (case args of [] \<Rightarrow> Some (i, ''has no value'') | _ # rest \<Rightarrow> admitOptions (i + 2) rest))"

definition nativeArgsConflict :: "string \<Rightarrow> string list \<Rightarrow> (string \<times> string \<times> string) option" where
  "nativeArgsConflict name args = (case dispatchWord False 0 args of
     Some i \<Rightarrow> Some (refuse name i ''is a word Claude Code dispatches on outside its option parser'')
   | None \<Rightarrow> (case admitOptions 0 args of Some (i, detail) \<Rightarrow> Some (refuse name i detail) | None \<Rightarrow> None))"

end
