(* ===== verification/NativeArgsProps.thy ===== *)
theory NativeArgsProps
  imports NativeArgs
begin

text \<open>
  The guard accepts exactly the tails made of admitted options with their values and of operands,
  without a word the runtime dispatches on.
\<close>

section \<open>Tails\<close>

datatype item = Operand string | Bare string | Inline string string | Valued string string

fun render :: "item \<Rightarrow> string list" where
  "render (Operand a) = [a]"
| "render (Bare f) = [f]"
| "render (Inline f v) = [f @ ''='' @ v]"
| "render (Valued f v) = [f, v]"

definition shape :: "string \<Rightarrow> argShape option" where
  "shape f = (case map_of gatewayNativeOptions f of Some s \<Rightarrow> Some s | None \<Rightarrow> map_of gatewayNativeShortOptions f)"

fun item_ok :: "item \<Rightarrow> bool" where
  "item_ok (Operand a) \<longleftrightarrow> \<not> looksLikeOption a"
| "item_ok (Bare f) \<longleftrightarrow> shape f \<in> {Some ArgNone, Some ArgOptional}"
| "item_ok (Inline f v) \<longleftrightarrow> map_of gatewayNativeOptions f \<in> {Some ArgRequired, Some ArgVariadic, Some ArgOptional}"
| "item_ok (Valued f v) \<longleftrightarrow> shape f \<in> {Some ArgRequired, Some ArgVariadic}"

definition tail_ok :: "string list \<Rightarrow> bool" where
  "tail_ok args \<longleftrightarrow> (\<exists>items rest. args = concat (map render items) @ rest \<and> list_all item_ok items \<and> (rest = [] \<or> hd rest = ''--''))"

section \<open>Option names\<close>

lemma long_names:
  assumes "map_of gatewayNativeOptions f = Some s"
  shows "HasPrefix f ''--''" "CHR ''='' \<notin> set f" "looksLikeOption f" "f \<noteq> ''--''"
proof -
  have "list_all (\<lambda>(f, s). HasPrefix f ''--'' \<and> CHR ''='' \<notin> set f \<and> looksLikeOption f \<and> f \<noteq> ''--'') gatewayNativeOptions"
    by code_simp
  then show "HasPrefix f ''--''" "CHR ''='' \<notin> set f" "looksLikeOption f" "f \<noteq> ''--''"
    using map_of_SomeD [OF assms] by (auto simp: list_all_iff)
qed

lemma short_names:
  assumes "map_of gatewayNativeShortOptions f = Some s"
  shows "\<not> HasPrefix f ''--''" "looksLikeOption f" "f \<noteq> ''--''" "map_of gatewayNativeOptions f = None"
proof -
  have "list_all (\<lambda>(f, s). \<not> HasPrefix f ''--'' \<and> looksLikeOption f \<and> f \<noteq> ''--'' \<and> map_of gatewayNativeOptions f = None)
    gatewayNativeShortOptions"
    by code_simp
  then show "\<not> HasPrefix f ''--''" "looksLikeOption f" "f \<noteq> ''--''" "map_of gatewayNativeOptions f = None"
    using map_of_SomeD [OF assms] by (auto simp: list_all_iff)
qed

lemma shape_option:
  assumes "shape f = Some s"
  shows "optionOf f = (f, False, Some s)" "looksLikeOption f" "f \<noteq> ''--''"
proof -
  have "map_of gatewayNativeOptions f = Some s \<or> map_of gatewayNativeShortOptions f = Some s"
    using assms by (auto simp: shape_def split: option.splits)
  then show "optionOf f = (f, False, Some s)" "looksLikeOption f" "f \<noteq> ''--''"
    using long_names [of f s] short_names [of f s] by (auto simp: optionOf_def Cut_def)
qed

lemma inline_option:
  assumes "map_of gatewayNativeOptions f = Some s"
  shows "optionOf (f @ ''='' @ v) = (f, True, Some s)" "looksLikeOption (f @ ''='' @ v)" "f @ ''='' @ v \<noteq> ''--''"
proof -
  have "HasPrefix (f @ ''='' @ v) ''--''"
    using long_names(1) [OF assms] by (auto simp: HasPrefix_iff)
  moreover have "Cut (f @ ''='' @ v) CHR ''='' = (f, v, True)"
    using long_names(2) [OF assms] by (simp add: Cut_found)
  ultimately show "optionOf (f @ ''='' @ v) = (f, True, Some s)"
    using assms by (simp add: optionOf_def)
  show "looksLikeOption (f @ ''='' @ v)" "f @ ''='' @ v \<noteq> ''--''"
    using long_names(3) [OF assms] by (auto simp: looksLikeOption_def hd_append dest: arg_cong [where f = length])
qed

text \<open>The other direction: what \<open>optionOf\<close> found.\<close>

lemma optionOf_found:
  assumes "optionOf arg = (flag, inline, Some s)" "looksLikeOption arg"
  shows "if inline then map_of gatewayNativeOptions flag = Some s \<and> (\<exists>v. arg = flag @ ''='' @ v) else shape arg = Some s"
proof (cases "HasPrefix arg ''--''")
  case True
  then obtain v where cut: "Cut arg CHR ''='' = (flag, v, inline)" and s: "map_of gatewayNativeOptions flag = Some s"
    using assms(1) by (auto simp: optionOf_def split: prod.splits)
  show ?thesis
  proof (cases inline)
    case True
    with cut s show ?thesis by (auto simp: Cut_found)
  next
    case False
    with cut have "flag = arg" by (auto simp: Cut_def split: if_splits)
    with s False show ?thesis by (simp add: shape_def)
  qed
next
  case False
  with assms(1) have s: "map_of gatewayNativeShortOptions arg = Some s" "\<not> inline" by (auto simp: optionOf_def)
  then show ?thesis
    using short_names(4) [OF s(1)] by (simp add: shape_def)
qed

section \<open>The second loop\<close>

lemma tail_ok_Nil: "tail_ok []"
  unfolding tail_ok_def by (intro exI [of _ "[]"]) simp

lemma tail_ok_stop: "tail_ok (''--'' # args)"
  unfolding tail_ok_def by (intro exI [of _ "[]"] exI [of _ "''--'' # args"]) simp

lemma tail_ok_item: "item_ok x \<Longrightarrow> tail_ok args \<Longrightarrow> tail_ok (render x @ args)"
  unfolding tail_ok_def
proof (elim exE conjE)
  fix items rest
  assume "item_ok x" "args = concat (map render items) @ rest" "list_all item_ok items" "rest = [] \<or> hd rest = ''--''"
  then show "\<exists>items rest. render x @ args = concat (map render items) @ rest \<and> list_all item_ok items \<and> (rest = [] \<or> hd rest = ''--'')"
    by (intro exI [of _ "x # items"] exI [of _ rest]) simp
qed

lemma admitOptions_item:
  assumes "admitOptions i (arg # args) = None" "arg \<noteq> ''--''"
  shows "\<exists>x j ys. arg # args = render x @ ys \<and> item_ok x \<and> admitOptions j ys = None"
proof (cases "looksLikeOption arg")
  case False
  then show ?thesis
    using assms by (intro exI [of _ "Operand arg"] exI [of _ "i + 1"] exI [of _ args]) simp
next
  case True
  obtain flag inline sh where o: "optionOf arg = (flag, inline, sh)" by (cases "optionOf arg")
  then obtain s where s: "sh = Some s"
    using assms True by (cases sh) simp_all
  note found = optionOf_found [OF o [unfolded s] True]
  have next_one: "inline \<or> s \<in> {ArgNone, ArgOptional} \<Longrightarrow> admitOptions (i + 1) args = None"
    and switch: "inline \<Longrightarrow> s \<noteq> ArgNone"
    and next_two: "\<not> inline \<Longrightarrow> s \<in> {ArgRequired, ArgVariadic} \<Longrightarrow> \<exists>v rest. args = v # rest \<and> admitOptions (i + 2) rest = None"
    using assms True o s by (cases s; cases args; simp split: if_split_asm)+
  consider (inline) inline | (bare) "\<not> inline" "s \<in> {ArgNone, ArgOptional}" | (valued) "\<not> inline" "s \<in> {ArgRequired, ArgVariadic}"
    by (cases s) auto
  then show ?thesis
  proof cases
    case inline
    then obtain v where v: "arg = flag @ ''='' @ v" "map_of gatewayNativeOptions flag = Some s" using found by auto
    have "item_ok (Inline flag v)"
      using v(2) switch [OF inline] by (cases s) simp_all
    then show ?thesis
      using v(1) next_one inline by (intro exI [of _ "Inline flag v"] exI [of _ "i + 1"] exI [of _ args]) simp
  next
    case bare
    then have "item_ok (Bare arg)" using found by auto
    then show ?thesis
      using next_one bare by (intro exI [of _ "Bare arg"] exI [of _ "i + 1"] exI [of _ args]) simp
  next
    case valued
    then obtain v rest where "args = v # rest" "admitOptions (i + 2) rest = None" using next_two by blast
    moreover have "item_ok (Valued arg v)" using valued found by auto
    ultimately show ?thesis
      by (intro exI [of _ "Valued arg v"] exI [of _ "i + 2"] exI [of _ rest]) simp
  qed
qed

lemma admitOptions_sound: "admitOptions i args = None \<Longrightarrow> tail_ok args"
proof (induction args arbitrary: i rule: length_induct)
  case (1 args)
  show ?case
  proof (cases args)
    case (Cons arg rest)
    show ?thesis
    proof (cases "arg = ''--''")
      case False
      then obtain x j ys where x: "args = render x @ ys" "item_ok x" "admitOptions j ys = None"
        using admitOptions_item 1(2) Cons by blast
      then have "length ys < length args" by (cases x) simp_all
      then have "tail_ok ys" using 1(1) x(3) by blast
      then show ?thesis using tail_ok_item x(1,2) by simp
    qed (use tail_ok_stop Cons in simp)
  qed (simp add: tail_ok_Nil)
qed

lemma admitOptions_complete:
  assumes "list_all item_ok items" "rest = [] \<or> hd rest = ''--''"
  shows "admitOptions i (concat (map render items) @ rest) = None"
  using assms(1)
proof (induction items arbitrary: i)
  case Nil
  then show ?case using assms(2) by (cases rest) auto
next
  case (Cons x items)
  have dashes: "looksLikeOption ''--''" by (simp add: looksLikeOption_def)
  show ?case
  proof (cases x)
    case (Operand a)
    then show ?thesis using Cons dashes by auto
  next
    case (Bare f)
    then obtain s where "shape f = Some s" "s \<in> {ArgNone, ArgOptional}" using Cons by auto
    then show ?thesis using Bare Cons shape_option [of f s] by auto
  next
    case (Inline f v)
    then obtain s where "map_of gatewayNativeOptions f = Some s" "s \<noteq> ArgNone" using Cons by auto
    then show ?thesis using Inline Cons inline_option [of f s v] by (cases s) auto
  next
    case (Valued f v)
    then obtain s where "shape f = Some s" "s \<in> {ArgRequired, ArgVariadic}" using Cons by auto
    then show ?thesis using Valued Cons shape_option [of f s] by auto
  qed
qed

lemma admitOptions_iff: "admitOptions i args = None \<longleftrightarrow> tail_ok args"
  using admitOptions_sound admitOptions_complete unfolding tail_ok_def by metis

lemma admitOptions_step:
  assumes "admitOptions i (arg # args) = Some (k, d)"
  shows "k = i \<and> d \<in> {''is not an admitted option'', ''gives a value to a switch'', ''has no value''} \<or>
    admitOptions (i + 1) args = Some (k, d) \<or> (\<exists>v rest. args = v # rest \<and> admitOptions (i + 2) rest = Some (k, d))"
proof (cases "arg = ''--'' \<or> \<not> looksLikeOption arg")
  case True
  then show ?thesis using assms by (cases "arg = ''--''") simp_all
next
  case False
  obtain flag inline sh where o: "optionOf arg = (flag, inline, sh)" by (cases "optionOf arg")
  show ?thesis
  proof (cases sh)
    case None
    then show ?thesis using assms False o by simp
  next
    case (Some s)
    then show ?thesis
      using assms False o by (cases s; cases args; cases inline) simp_all
  qed
qed

lemma admitOptions_refusal:
  "admitOptions i args = Some (k, d) \<Longrightarrow> i \<le> k \<and> k < i + length args \<and>
    d \<in> {''is not an admitted option'', ''gives a value to a switch'', ''has no value''}"
proof (induction args arbitrary: i rule: length_induct)
  case (1 args)
  note IH = 1(1) [THEN spec, THEN mp, THEN spec, THEN mp]
  show ?case
  proof (cases args)
    case Nil
    then show ?thesis using 1(2) by simp
  next
    case (Cons arg rest)
    consider "k = i" "d \<in> {''is not an admitted option'', ''gives a value to a switch'', ''has no value''}"
      | "admitOptions (i + 1) rest = Some (k, d)"
      | v rest' where "rest = v # rest'" "admitOptions (i + 2) rest' = Some (k, d)"
      using admitOptions_step 1(2) Cons by blast
    then show ?thesis
    proof cases
      case 1
      then show ?thesis using Cons by simp
    next
      case 2
      from IH [OF _ this] show ?thesis using Cons by simp
    next
      case 3
      from IH [OF _ 3(2)] show ?thesis using Cons 3(1) by simp
    qed
  qed
qed

section \<open>The first loop\<close>

lemma dispatchWord_iff:
  "dispatchWord t i args = None \<longleftrightarrow> (\<forall>a \<in> set args. \<not> reservedArg a) \<and>
    (t \<or> (\<forall>a \<in> set (takeWhile (\<lambda>a. a \<noteq> ''--'') args). a \<notin> set claudeReservedBeforeTerminator))"
proof (induction t i args rule: dispatchWord.induct)
  case (2 t i arg args)
  have "\<not> reservedArg ''--''" by code_simp
  with 2 show ?case by (cases "arg = ''--''"; cases t) auto
qed simp

lemma dispatchWord_refusal: "dispatchWord t i args = Some k \<Longrightarrow> i \<le> k \<and> k < i + length args"
  by (induction t i args rule: dispatchWord.induct) (fastforce split: if_split_asm)+

definition details :: "string set" where
  "details = {''is a word Claude Code dispatches on outside its option parser'', ''is not an admitted option'',
     ''gives a value to a switch'', ''has no value''}"

text \<open>C21. The native guard. A tail passes exactly when it is a sequence of operands and of admitted
  options, each with the value its shape takes, up to an optional \<open>--\<close>, no argument anywhere,
  values included, is a word the runtime dispatches on, and none before the first \<open>--\<close> is one
  of the mode tokens. A refusal names a position of the tail and a fixed reason, so it never
  depends on the refused text.\<close>

theorem native_guard:
  "(nativeArgsConflict name args = None \<longleftrightarrow> tail_ok args \<and> (\<forall>a \<in> set args. \<not> reservedArg a) \<and>
     (\<forall>a \<in> set (takeWhile (\<lambda>a. a \<noteq> ''--'') args). a \<notin> set claudeReservedBeforeTerminator)) \<and>
   (case nativeArgsConflict name args of
      Some r \<Rightarrow> \<exists>i < length args. \<exists>d \<in> details. r = refuse name i d
    | None \<Rightarrow> True)"
proof
  show "nativeArgsConflict name args = None \<longleftrightarrow> tail_ok args \<and> (\<forall>a \<in> set args. \<not> reservedArg a) \<and>
     (\<forall>a \<in> set (takeWhile (\<lambda>a. a \<noteq> ''--'') args). a \<notin> set claudeReservedBeforeTerminator)"
    using admitOptions_iff [of 0 args] dispatchWord_iff [of False 0 args]
    by (auto simp: nativeArgsConflict_def split: option.splits)
  show "case nativeArgsConflict name args of
      Some r \<Rightarrow> \<exists>i < length args. \<exists>d \<in> details. r = refuse name i d
    | None \<Rightarrow> True"
    using dispatchWord_refusal [of False 0 args] admitOptions_refusal [of 0 args]
    by (fastforce simp: nativeArgsConflict_def details_def split: option.splits)
qed

text \<open>A prompt after a print option, and an option that names settings.\<close>

theorem native_guard_witness:
  "tail_ok [''--model'', ''opus'', ''-p'', ''hello''] \<and>
   (\<exists>i < 3. \<exists>d \<in> details. nativeArgsConflict ''gw'' [''-p'', ''--settings'', ''x''] = Some (refuse ''gw'' i d))"
proof
  have "nativeArgsConflict ''gw'' [''--model'', ''opus'', ''-p'', ''hello''] = None" by code_simp
  then show "tail_ok [''--model'', ''opus'', ''-p'', ''hello'']"
    using native_guard [of "''gw''" "[''--model'', ''opus'', ''-p'', ''hello'']", THEN conjunct1] by blast
  obtain r where "nativeArgsConflict ''gw'' [''-p'', ''--settings'', ''x''] = Some r"
  proof -
    have "(case nativeArgsConflict ''gw'' [''-p'', ''--settings'', ''x''] of None \<Rightarrow> False | Some r \<Rightarrow> True)" by code_simp
    then show thesis using that by (cases "nativeArgsConflict ''gw'' [''-p'', ''--settings'', ''x'']") simp_all
  qed
  then show "\<exists>i < 3. \<exists>d \<in> details. nativeArgsConflict ''gw'' [''-p'', ''--settings'', ''x''] = Some (refuse ''gw'' i d)"
    using native_guard [of "''gw''" "[''-p'', ''--settings'', ''x'']", THEN conjunct2] by (simp add: numeral_3_eq_3)
qed

end
