(* ===== verification/LauncherConfig.thy ===== *)
theory LauncherConfig
  imports SessionRegistry FragmentRoundtrip
begin

text \<open>
  \<open>internal/launcherconfig\<close>: the machine policy of \<open>launcher.json\<close>, loaded from both layers, and the
  selection that Core projects for this machine. The encoders are not modelled.
\<close>

section \<open>Host policy\<close>

record Mode =
  ModeValue :: string
  ModeSource :: string

record Config =
  HostMode :: Mode
  DelegatedTrial :: bool
  DelegatedTrialSet :: bool

definition defaultConfig :: Config where
  "defaultConfig = \<lparr>HostMode = \<lparr>ModeValue = ''auto'', ModeSource = ''default''\<rparr>, DelegatedTrial = False, DelegatedTrialSet = False\<rparr>"

abbreviation LauncherSchema :: string where "LauncherSchema \<equiv> ''curator-run-launcher-v1''"

datatype configError =
  InvalidJSON | RootNotObject | MachineOnly string string | InvalidSchema | HostModeValue
| TrialNotBoolean | CoreSelection | UnknownMember

definition machineOnly :: "string list" where
  "machineOnly = [''host_mode'', ''delegated_trial'', ''proxy'', ''claude_auth'']"

fun parseConfigMembers :: "(string \<times> jvalue) list \<Rightarrow> Config \<Rightarrow> configError + Config" where
  "parseConfigMembers [] c = Inr c"
| "parseConfigMembers ((k, v) # ms) c =
     (if k = ''schema'' then parseConfigMembers ms c
      else if k = ''host_mode'' then
        (case v of
           JString s \<Rightarrow>
             if s \<in> {''hosted'', ''native'', ''auto''} then
               parseConfigMembers ms (c\<lparr>HostMode := \<lparr>ModeValue = s, ModeSource = ''machine''\<rparr>\<rparr>)
             else Inl HostModeValue
         | _ \<Rightarrow> Inl HostModeValue)
      else if k = ''delegated_trial'' then
        (case v of JBool b \<Rightarrow> parseConfigMembers ms (c\<lparr>DelegatedTrial := b, DelegatedTrialSet := True\<rparr>) | _ \<Rightarrow> Inl TrialNotBoolean)
      else if k = ''proxy'' \<or> k = ''claude_auth'' then Inl CoreSelection
      else Inl UnknownMember)"

definition parseConfig :: "string \<Rightarrow> string \<Rightarrow> configError + Config" where
  "parseConfig input userSystemPath = (case ParseJSON input of
     Inl _ \<Rightarrow> Inl InvalidJSON
   | Inr root \<Rightarrow>
       (case root of
          JObject ms \<Rightarrow>
            (case (if userSystemPath = [] then None else find (\<lambda>n. Get root n \<noteq> None) machineOnly) of
               Some n \<Rightarrow> Inl (MachineOnly n userSystemPath)
             | None \<Rightarrow>
                 if Get root ''schema'' \<noteq> Some (JString LauncherSchema) then Inl InvalidSchema
                 else parseConfigMembers ms defaultConfig)
        | _ \<Rightarrow> Inl RootNotObject))"

definition ParseConfig :: "string \<Rightarrow> configError + Config" where
  "ParseConfig input = parseConfig input []"

text \<open>\<open>Load\<close>: both layers are validated, the system layer alone decides. The error is the path with
  the read error's text or the parse error.\<close>

definition loadLayer :: "Locations \<Rightarrow> (layer \<Rightarrow> fileRead \<times> string) \<Rightarrow> layer \<Rightarrow> Config \<Rightarrow> string \<times> (string + configError) + Config" where
  "loadLayer locs rd ly result = (case rd ly of (r, path) \<Rightarrow>
     (case readErr r of
        Some e \<Rightarrow> Inl (path, Inl e)
      | None \<Rightarrow>
          if \<not> present r then Inr result
          else (case parseConfig (data r) (if ly = UserLayer then JoinPath (System locs) ''launcher.json'' else []) of
            Inl e \<Rightarrow> Inl (path, Inr e)
          | Inr parsed \<Rightarrow> Inr (if ly = SystemLayer then parsed else result))))"

definition LoadConfig :: "Locations \<Rightarrow> (layer \<Rightarrow> fileRead \<times> string) \<Rightarrow> string \<times> (string + configError) + Config" where
  "LoadConfig locs rd = res_bind (loadLayer locs rd SystemLayer defaultConfig) (loadLayer locs rd UserLayer)"

text \<open>The reads of \<open>LoadConfig\<close>.\<close>

definition launcherRead :: "Locations \<Rightarrow> (string \<Rightarrow> string option) option \<Rightarrow> (string \<Rightarrow> fileRead) \<Rightarrow> layer \<Rightarrow> fileRead \<times> string" where
  "launcherRead locs stderr rd ly = ResolverRead locs stderr rd ly ''launcher.json''"

section \<open>Core's selection\<close>

record AuthStore =
  StoreType :: string
  StorePath :: string
  StoreService :: string
  StoreAccount :: string

record Selected =
  ConfigSchema :: int
  ConfigPath :: string
  Proxy :: "string option"
  ClaudeAuth :: "AuthStore option"

definition IsControl :: "nat \<Rightarrow> bool" where
  "IsControl r \<longleftrightarrow> r < 0x20 \<or> 0x7F \<le> r \<and> r < 0xA0"

definition reference :: "string \<Rightarrow> bool" where
  "reference s \<longleftrightarrow> s \<noteq> [] \<and> length s \<le> 4096 \<and> utf8_valid s \<and> TrimSpace s = s \<and> \<not> list_ex IsControl (runes s)"

definition exactMembers :: "jvalue \<Rightarrow> string list \<Rightarrow> bool" where
  "exactMembers v names = (case v of
     JObject ms \<Rightarrow> length ms = length names \<and> list_all (\<lambda>n. Get v n \<noteq> None) names
   | _ \<Rightarrow> False)"

definition strMember :: "jvalue \<Rightarrow> string \<Rightarrow> string" where
  "strMember v key = (case Get v key of Some (JString s) \<Rightarrow> s | _ \<Rightarrow> [])"

text \<open>\<open>None\<close> is the error, which says nothing of the input.\<close>

definition parseProxy :: "jvalue \<Rightarrow> string option" where
  "parseProxy v =
     (let profile = strMember v ''profile''
      in if \<not> exactMembers v [''profile''] \<or> \<not> reference profile then None else Some profile)"

definition parseStore :: "jvalue \<Rightarrow> AuthStore option" where
  "parseStore store =
     (let t = strMember store ''type''
      in if t = ''file'' then
           (let p = strMember store ''path''
            in if \<not> exactMembers store [''type'', ''path''] \<or> \<not> reference p \<or> \<not> HasPrefix p ''/'' \<or> Clean p \<noteq> p then None
               else Some \<lparr>StoreType = t, StorePath = p, StoreService = [], StoreAccount = []\<rparr>)
         else if t = ''keychain'' then
           (let s = strMember store ''service''; a = strMember store ''account''
            in if \<not> exactMembers store [''type'', ''service'', ''account''] \<or> \<not> reference s \<or> \<not> reference a then None
               else Some \<lparr>StoreType = t, StorePath = [], StoreService = s, StoreAccount = a\<rparr>)
         else None)"

definition parseClaudeAuth :: "jvalue \<Rightarrow> AuthStore option" where
  "parseClaudeAuth v =
     (if \<not> exactMembers v [''type'', ''store''] \<or> strMember v ''type'' \<noteq> ''oauth'' then None
      else case Get v ''store'' of Some store \<Rightarrow> parseStore store | None \<Rightarrow> None)"

fun parseExtensions :: "(string \<times> jvalue) list \<Rightarrow> Selected \<Rightarrow> Selected option" where
  "parseExtensions [] s = Some s"
| "parseExtensions ((k, v) # ms) s =
     (if k = ''proxy'' then
        (case parseProxy v of None \<Rightarrow> None | Some p \<Rightarrow> parseExtensions ms (s\<lparr>Proxy := Some p\<rparr>))
      else if k = ''claude_auth'' then
        (case parseClaudeAuth v of None \<Rightarrow> None | Some a \<Rightarrow> parseExtensions ms (s\<lparr>ClaudeAuth := Some a\<rparr>))
      else None)"

definition selectedRoot :: "jvalue \<Rightarrow> Selected option" where
  "selectedRoot root =
     (if \<not> exactMembers root [''schema'', ''config_schema'', ''config_path'', ''extensions'']
         \<or> strMember root ''schema'' \<noteq> ''curator.launcher-config/1'' then None
      else case Get root ''config_schema'' of
        Some (JInt version) \<Rightarrow>
          if version \<notin> {1, 2, 3, 5, 7} then None
          else (let path = strMember root ''config_path''
                in if \<not> reference path then None
                   else case Get root ''extensions'' of
                     Some (JObject ms) \<Rightarrow>
                       if version \<noteq> 7 \<and> ms \<noteq> [] then None
                       else parseExtensions ms \<lparr>ConfigSchema = version, ConfigPath = path, Proxy = None, ClaudeAuth = None\<rparr>
                   | _ \<Rightarrow> None)
      | _ \<Rightarrow> None)"

definition ParseSelected :: "string \<Rightarrow> Selected option" where
  "ParseSelected input = (case ParseJSON input of Inl _ \<Rightarrow> None | Inr root \<Rightarrow> selectedRoot root)"

text \<open>The bounded output of the \<open>curator config launcher\<close> command, write by write.\<close>

definition selectedOutputLimit :: nat where "selectedOutputLimit = 64 * 1024"

definition writeOutput :: "string \<Rightarrow> string \<Rightarrow> string option" where
  "writeOutput buffer chunk = (if selectedOutputLimit - length buffer < length chunk then None else Some (buffer @ chunk))"

fun writeAll :: "string \<Rightarrow> string list \<Rightarrow> string option" where
  "writeAll buffer [] = Some buffer"
| "writeAll buffer (d # ds) = (case writeOutput buffer d of None \<Rightarrow> None | Some b \<Rightarrow> writeAll b ds)"

text \<open>A refused write makes the command's run fail, as does its own failure.\<close>

definition readSelectedCommand :: "string list \<Rightarrow> bool \<Rightarrow> Selected option" where
  "readSelectedCommand writes ok = (case writeAll [] writes of
     Some out \<Rightarrow> if ok then ParseSelected out else None
   | None \<Rightarrow> None)"

end
