(* ===== verification/LauncherConfigProps.thy ===== *)
theory LauncherConfigProps
  imports LauncherConfig ClosedMembers
begin

text \<open>
  The host policy has one authority, and the selection is read from exactly the projections of
  well-formed selections.
\<close>

section \<open>Exact members\<close>

lemma exactMembers_iff:
  assumes "wf_json v" "distinct names"
  shows "exactMembers v names \<longleftrightarrow> (\<exists>ms. v = JObject ms \<and> length ms = length names) \<and> (\<forall>n \<in> set names. Get v n \<noteq> None)"
  by (cases v) (auto simp: exactMembers_def list_all_iff)

lemma strMember_iff: "s \<noteq> [] \<Longrightarrow> strMember v key = s \<longleftrightarrow> Get v key = Some (JString s)"
  by (auto simp: strMember_def split: option.splits jvalue.splits)

lemma reference_nonempty [simp]: "\<not> reference []"
  by (simp add: reference_def)

lemma map_norm_scalar [simp]: "map_option norm x = Some (JString s) \<longleftrightarrow> x = Some (JString s)"
  "map_option norm x = Some (JInt i) \<longleftrightarrow> x = Some (JInt i)"
  by (cases x; simp)+

section \<open>Stores and proxies\<close>

definition proxyValue :: "string \<Rightarrow> jvalue" where
  "proxyValue p = JObject [(''profile'', JString p)]"

definition storeValue :: "AuthStore \<Rightarrow> jvalue" where
  "storeValue a = JObject ((''type'', JString (StoreType a)) #
     (if StoreType a = ''file'' then [(''path'', JString (StorePath a))]
      else [(''service'', JString (StoreService a)), (''account'', JString (StoreAccount a))]))"

definition authValue :: "AuthStore \<Rightarrow> jvalue" where
  "authValue a = JObject [(''type'', JString ''oauth''), (''store'', storeValue a)]"

definition store_ok :: "AuthStore \<Rightarrow> bool" where
  "store_ok a \<longleftrightarrow>
     StoreType a = ''file'' \<and> reference (StorePath a) \<and> HasPrefix (StorePath a) ''/'' \<and> Clean (StorePath a) = StorePath a
       \<and> StoreService a = [] \<and> StoreAccount a = []
   \<or> StoreType a = ''keychain'' \<and> reference (StoreService a) \<and> reference (StoreAccount a) \<and> StorePath a = []"

lemma parseProxy_iff:
  assumes "wf_json v"
  shows "parseProxy v = Some p \<longleftrightarrow> reference p \<and> norm v = norm (proxyValue p)"
proof -
  have "norm v = norm (proxyValue p) \<longleftrightarrow> (\<exists>ms. v = JObject ms \<and> length ms = 1) \<and> Get v ''profile'' = Some (JString p)"
    unfolding proxyValue_def by (subst norm_object_iff [OF assms]) simp_all
  moreover have "parseProxy v = Some p \<longleftrightarrow> reference p \<and> exactMembers v [''profile''] \<and> strMember v ''profile'' = p"
    by (auto simp: parseProxy_def Let_def)
  moreover have "reference p \<Longrightarrow> strMember v ''profile'' = p \<longleftrightarrow> Get v ''profile'' = Some (JString p)"
    by (rule strMember_iff) auto
  ultimately show ?thesis
    by (auto simp: exactMembers_iff [OF assms])
qed

lemma parseStore_iff:
  assumes "wf_json v"
  shows "parseStore v = Some a \<longleftrightarrow> store_ok a \<and> norm v = norm (storeValue a)"
proof -
  have t: "strMember v ''type'' = ''file'' \<longleftrightarrow> Get v ''type'' = Some (JString ''file'')"
    "strMember v ''type'' = ''keychain'' \<longleftrightarrow> Get v ''type'' = Some (JString ''keychain'')"
    by (simp_all add: strMember_iff)
  have m: "reference s \<Longrightarrow> strMember v key = s \<longleftrightarrow> Get v key = Some (JString s)" for s key
    by (rule strMember_iff) auto
  consider (path) "Get v ''type'' = Some (JString ''file'')" | (chain) "Get v ''type'' = Some (JString ''keychain'')"
    | (other) "Get v ''type'' \<noteq> Some (JString ''file'')" "Get v ''type'' \<noteq> Some (JString ''keychain'')"
    by blast
  then show ?thesis
  proof cases
    case path
    have "norm v = norm (storeValue a) \<longleftrightarrow>
      StoreType a = ''file'' \<and> (\<exists>ms. v = JObject ms \<and> length ms = 2) \<and> Get v ''path'' = Some (JString (StorePath a))"
      if "store_ok a"
      using path that unfolding storeValue_def
      by (subst norm_object_iff [OF assms]) (auto simp: store_ok_def numeral_2_eq_2 numeral_3_eq_3)
    moreover have "parseStore v = Some a \<longleftrightarrow> store_ok a \<and> StoreType a = ''file'' \<and>
       exactMembers v [''type'', ''path''] \<and> strMember v ''path'' = StorePath a"
      using path t by (auto simp: parseStore_def Let_def store_ok_def strMember_def)
    ultimately show ?thesis
      using path m by (auto simp: exactMembers_iff [OF assms] store_ok_def)
  next
    case chain
    have "norm v = norm (storeValue a) \<longleftrightarrow>
      StoreType a = ''keychain'' \<and> (\<exists>ms. v = JObject ms \<and> length ms = 3)
        \<and> Get v ''service'' = Some (JString (StoreService a)) \<and> Get v ''account'' = Some (JString (StoreAccount a))"
      if "store_ok a"
      using chain that unfolding storeValue_def
      by (subst norm_object_iff [OF assms]) (auto simp: store_ok_def numeral_2_eq_2 numeral_3_eq_3)
    moreover have "parseStore v = Some a \<longleftrightarrow> store_ok a \<and> StoreType a = ''keychain'' \<and>
       exactMembers v [''type'', ''service'', ''account''] \<and> strMember v ''service'' = StoreService a
       \<and> strMember v ''account'' = StoreAccount a"
      using chain t by (auto simp: parseStore_def Let_def store_ok_def strMember_def)
    ultimately show ?thesis
      using chain m by (auto simp: exactMembers_iff [OF assms] store_ok_def)
  next
    case other
    have "norm v \<noteq> norm (storeValue a)" if "store_ok a"
      using other that unfolding storeValue_def
      by (subst norm_object_iff [OF assms]) (auto simp: store_ok_def)
    then show ?thesis
      using other t by (auto simp: parseStore_def Let_def)
  qed
qed

lemma parseClaudeAuth_iff:
  assumes "wf_json v"
  shows "parseClaudeAuth v = Some a \<longleftrightarrow> store_ok a \<and> norm v = norm (authValue a)"
proof -
  have "norm v = norm (authValue a) \<longleftrightarrow> (\<exists>ms. v = JObject ms \<and> length ms = 2) \<and> Get v ''type'' = Some (JString ''oauth'')
      \<and> map_option norm (Get v ''store'') = Some (norm (storeValue a))"
    unfolding authValue_def by (subst norm_object_iff [OF assms]) (simp_all add: numeral_2_eq_2)
  moreover have "parseClaudeAuth v = Some a \<longleftrightarrow> exactMembers v [''type'', ''store''] \<and> strMember v ''type'' = ''oauth''
      \<and> (\<exists>store. Get v ''store'' = Some store \<and> store_ok a \<and> norm store = norm (storeValue a))"
    using wf_json_Get [OF assms] by (auto simp: parseClaudeAuth_def parseStore_iff split: option.splits)
  ultimately show ?thesis
    by (auto simp: exactMembers_iff [OF assms] strMember_iff)
qed

section \<open>Extensions\<close>

definition extensionMembers :: "string option \<Rightarrow> AuthStore option \<Rightarrow> (string \<times> jvalue) list" where
  "extensionMembers p a =
     (case p of None \<Rightarrow> [] | Some p \<Rightarrow> [(''proxy'', proxyValue p)]) @
     (case a of None \<Rightarrow> [] | Some a \<Rightarrow> [(''claude_auth'', authValue a)])"

definition picked :: "(jvalue \<Rightarrow> 'a option) \<Rightarrow> jvalue option \<Rightarrow> 'a option \<Rightarrow> 'a option \<Rightarrow> bool" where
  "picked f m d r \<longleftrightarrow> (case m of None \<Rightarrow> r = d | Some v \<Rightarrow> r = f v \<and> r \<noteq> None)"

lemma parseExtensions_picked:
  assumes "distinct (map fst ms)"
  shows "parseExtensions ms s0 = Some s \<longleftrightarrow> set (map fst ms) \<subseteq> {''proxy'', ''claude_auth''} \<and>
    picked parseProxy (map_of ms ''proxy'') (Proxy s0) (Proxy s) \<and>
    picked parseClaudeAuth (map_of ms ''claude_auth'') (ClaudeAuth s0) (ClaudeAuth s) \<and>
    s = s0\<lparr>Proxy := Proxy s, ClaudeAuth := ClaudeAuth s\<rparr>"
  using assms
proof (induction ms arbitrary: s0)
  case Nil
  show ?case by (cases s; cases s0) (auto simp: picked_def)
next
  case (Cons m ms)
  obtain k v where m: "m = (k, v)" by (cases m)
  have d: "distinct (map fst ms)" "k \<notin> fst ` set ms" using Cons.prems m by auto
  then have k: "map_of ms k = None" by (simp add: map_of_eq_None_iff)
  show ?case
  proof (cases "k = ''proxy''")
    case True
    then show ?thesis
      using Cons.IH [OF d(1)] k d(2) m by (auto simp: picked_def split: option.split)
  next
    case False
    show ?thesis
    proof (cases "k = ''claude_auth''")
      case True
      then show ?thesis
        using Cons.IH [OF d(1)] k d(2) m by (auto simp: picked_def split: option.split)
    next
      case other: False
      then show ?thesis using False m by simp
    qed
  qed
qed

lemma picked_iff:
  assumes "\<And>v p. m = Some v \<Longrightarrow> f v = Some p \<longleftrightarrow> ok p \<and> norm v = norm (val p)"
  shows "picked f m None r \<longleftrightarrow> pred_option ok r \<and> map_option norm m = map_option (norm \<circ> val) r"
proof (cases m)
  case (Some v)
  show ?thesis
    using assms [OF Some] Some by (cases r) (auto simp: picked_def eq_commute [of "Some _" "f v"])
qed (cases r; auto simp: picked_def)

lemma keys_of_members:
  assumes "distinct (map fst ms)" "set (map fst ms) \<subseteq> {''proxy'', ''claude_auth''}"
  shows "length ms = (if map_of ms ''proxy'' = None then 0 else 1) + (if map_of ms ''claude_auth'' = None then 0 else 1)"
proof -
  have len: "length ms = card (set (map fst ms))"
    using distinct_card [OF assms(1)] by simp
  have none: "map_of ms k = None \<longleftrightarrow> k \<notin> set (map fst ms)" for k
    by (simp add: map_of_eq_None_iff)
  have "set (map fst ms) = (if ''proxy'' \<in> set (map fst ms) then {''proxy''} else {}) \<union> (if ''claude_auth'' \<in> set (map fst ms) then {''claude_auth''} else {})"
    using assms(2) by (simp only: set_eq_iff Un_iff subset_iff insert_iff empty_iff split: if_split) blast
  then have "card (set (map fst ms)) = card ((if ''proxy'' \<in> set (map fst ms) then {''proxy''} else {}) \<union> (if ''claude_auth'' \<in> set (map fst ms) then {''claude_auth''} else {}))"
    by (rule arg_cong)
  then show ?thesis
    unfolding len none by (simp only: if_not_P split: if_split) simp
qed

lemma parseExtensions_iff:
  assumes "wf_json (JObject ms)" "Proxy s0 = None" "ClaudeAuth s0 = None"
  shows "parseExtensions ms s0 = Some s \<longleftrightarrow>
    pred_option reference (Proxy s) \<and> pred_option store_ok (ClaudeAuth s) \<and> s = s0\<lparr>Proxy := Proxy s, ClaudeAuth := ClaudeAuth s\<rparr> \<and>
    norm (JObject ms) = norm (JObject (extensionMembers (Proxy s) (ClaudeAuth s)))"
proof -
  have d: "distinct (map fst ms)" using assms(1) by (rule wf_json_distinct)
  have wf: "wf_json v" if "map_of ms k = Some v" for k v
    using wf_json_Get [OF assms(1), of k v] that by simp
  have p: "picked parseProxy (map_of ms ''proxy'') None p \<longleftrightarrow>
      pred_option reference p \<and> map_option norm (map_of ms ''proxy'') = map_option (norm \<circ> proxyValue) p" for p
    by (rule picked_iff, rule parseProxy_iff, rule wf)
  have a: "picked parseClaudeAuth (map_of ms ''claude_auth'') None p \<longleftrightarrow>
      pred_option store_ok p \<and> map_option norm (map_of ms ''claude_auth'') = map_option (norm \<circ> authValue) p" for p
    by (rule picked_iff, rule parseClaudeAuth_iff, rule wf)
  let ?ks = "extensionMembers (Proxy s) (ClaudeAuth s)"
  have "distinct (map fst ?ks)"
    by (auto simp: extensionMembers_def split: option.split)
  note iff = norm_object_iff [OF assms(1) this]
  have "norm (JObject ms) = norm (JObject ?ks) \<longleftrightarrow> set (map fst ms) \<subseteq> {''proxy'', ''claude_auth''} \<and>
      map_option norm (map_of ms ''proxy'') = map_option (norm \<circ> proxyValue) (Proxy s) \<and>
      map_option norm (map_of ms ''claude_auth'') = map_option (norm \<circ> authValue) (ClaudeAuth s)" (is "?L \<longleftrightarrow> ?R")
  proof
    assume ?R
    then have "length ms = length ?ks"
      using keys_of_members [OF d] by (auto simp: extensionMembers_def split: option.split)
    with \<open>?R\<close> show ?L
      unfolding iff by (auto simp: extensionMembers_def split: option.split)
  next
    assume L: ?L
    have "mset (map (map_prod id norm) ms) = mset (map (map_prod id norm) ?ks)"
      using L by (simp only: norm_members_eq [OF d \<open>distinct (map fst ?ks)\<close>])
    moreover have "distinct (map fst (map (map_prod id norm) ?ks))"
      using \<open>distinct (map fst ?ks)\<close> by simp
    moreover have get: "map_of (map (map_prod id norm) xs) key = map_option norm (map_of xs key)" for xs :: "(string \<times> jvalue) list" and key
      by (induction xs) auto
    ultimately have keys: "set (map fst ms) = set (map fst ?ks)" and vals: "\<And>k. map_option norm (map_of ms k) = map_option norm (map_of ?ks k)"
      using perm_map_of(3,4) [of "map (map_prod id norm) ms" "map (map_prod id norm) ?ks"] by (simp_all flip: get)
    show ?R
      unfolding keys vals by (auto simp: extensionMembers_def split: option.split)
  qed
  then show ?thesis
    unfolding parseExtensions_picked [OF d] assms(2,3) p a by blast
qed

section \<open>The selection\<close>

definition projection :: "Selected \<Rightarrow> jvalue" where
  "projection s = JObject
     [(''schema'', JString ''curator.launcher-config/1''), (''config_schema'', JInt (ConfigSchema s)),
      (''config_path'', JString (ConfigPath s)), (''extensions'', JObject (extensionMembers (Proxy s) (ClaudeAuth s)))]"

definition selected_ok :: "Selected \<Rightarrow> bool" where
  "selected_ok s \<longleftrightarrow> ConfigSchema s \<in> {1, 2, 3, 5, 7} \<and> reference (ConfigPath s) \<and>
     (ConfigSchema s = 7 \<or> Proxy s = None \<and> ClaudeAuth s = None) \<and>
     pred_option reference (Proxy s) \<and> pred_option store_ok (ClaudeAuth s)"

lemma norm_object_kind: "norm x = norm (JObject ks) \<Longrightarrow> \<exists>ms. x = JObject ms"
  by (cases x) auto

lemma extensionMembers_Nil: "norm (JObject ms) = norm (JObject (extensionMembers p a)) \<Longrightarrow> ms = [] \<longleftrightarrow> p = None \<and> a = None"
proof -
  assume "norm (JObject ms) = norm (JObject (extensionMembers p a))"
  then have "length (sort_key fst (map (map_prod id norm) ms)) = length (sort_key fst (map (map_prod id norm) (extensionMembers p a)))"
    by simp
  then have "length ms = length (extensionMembers p a)" by simp
  then show ?thesis by (auto simp: extensionMembers_def split: option.splits)
qed

lemma selectedRoot_iff:
  assumes "wf_json v"
  shows "selectedRoot v = Some s \<longleftrightarrow> selected_ok s \<and> norm v = norm (projection s)"
proof -
  let ?names = "[''schema'', ''config_schema'', ''config_path'', ''extensions'']"
  let ?s0 = "\<lparr>ConfigSchema = ConfigSchema s, ConfigPath = ConfigPath s, Proxy = None, ClaudeAuth = None\<rparr>"
  have m: "reference p \<Longrightarrow> strMember v key = p \<longleftrightarrow> Get v key = Some (JString p)" for p key
    by (rule strMember_iff) auto
  have parse: "selectedRoot v = Some s \<longleftrightarrow> exactMembers v ?names \<and> strMember v ''schema'' = ''curator.launcher-config/1'' \<and>
      Get v ''config_schema'' = Some (JInt (ConfigSchema s)) \<and> ConfigSchema s \<in> {1, 2, 3, 5, 7} \<and>
      strMember v ''config_path'' = ConfigPath s \<and> reference (ConfigPath s) \<and>
      (\<exists>ms. Get v ''extensions'' = Some (JObject ms) \<and> (ConfigSchema s = 7 \<or> ms = []) \<and> parseExtensions ms ?s0 = Some s)"
    (is "_ \<longleftrightarrow> ?P")
  proof
    assume "selectedRoot v = Some s"
    then obtain version ms where *: "exactMembers v ?names" "strMember v ''schema'' = ''curator.launcher-config/1''"
      "Get v ''config_schema'' = Some (JInt version)" "version \<in> {1, 2, 3, 5, 7}" "reference (strMember v ''config_path'')"
      "Get v ''extensions'' = Some (JObject ms)" "version = 7 \<or> ms = []"
      "parseExtensions ms \<lparr>ConfigSchema = version, ConfigPath = strMember v ''config_path'', Proxy = None, ClaudeAuth = None\<rparr> = Some s"
      unfolding selectedRoot_def Let_def by (auto split: if_split_asm option.split_asm jvalue.split_asm)
    then have "wf_json (JObject ms)"
      using wf_json_Get [OF assms] by blast
    then have "s = \<lparr>ConfigSchema = version, ConfigPath = strMember v ''config_path'', Proxy = Proxy s, ClaudeAuth = ClaudeAuth s\<rparr>"
      using parseExtensions_iff [of ms "\<lparr>ConfigSchema = version, ConfigPath = strMember v ''config_path'', Proxy = None, ClaudeAuth = None\<rparr>" s] *(8)
      by simp
    then have "ConfigSchema s = version" "ConfigPath s = strMember v ''config_path''"
      by (metis Selected.select_convs(1), metis Selected.select_convs(2))
    with * show ?P by simp
  next
    assume ?P
    then show "selectedRoot v = Some s"
      unfolding selectedRoot_def Let_def by auto
  qed
  have ext: "parseExtensions ms ?s0 = Some s \<longleftrightarrow> pred_option reference (Proxy s) \<and> pred_option store_ok (ClaudeAuth s) \<and>
      norm (JObject ms) = norm (JObject (extensionMembers (Proxy s) (ClaudeAuth s)))" if "wf_json (JObject ms)" for ms
    using parseExtensions_iff [OF that, of ?s0 s] by simp
  have "norm v = norm (projection s) \<longleftrightarrow> (\<exists>ms. v = JObject ms \<and> length ms = 4) \<and>
      Get v ''schema'' = Some (JString ''curator.launcher-config/1'') \<and> Get v ''config_schema'' = Some (JInt (ConfigSchema s)) \<and>
      Get v ''config_path'' = Some (JString (ConfigPath s)) \<and>
      (\<exists>x. Get v ''extensions'' = Some x \<and> norm x = norm (JObject (extensionMembers (Proxy s) (ClaudeAuth s))))"
    unfolding projection_def by (subst norm_object_iff [OF assms]) (simp_all del: norm.simps(6) add: eval_nat_numeral)
  note norm = this
  have E: "(\<exists>ms. Get v ''extensions'' = Some (JObject ms) \<and> (ConfigSchema s = 7 \<or> ms = []) \<and> parseExtensions ms ?s0 = Some s) \<longleftrightarrow>
      (ConfigSchema s = 7 \<or> Proxy s = None \<and> ClaudeAuth s = None) \<and> pred_option reference (Proxy s) \<and> pred_option store_ok (ClaudeAuth s) \<and>
      (\<exists>x. Get v ''extensions'' = Some x \<and> norm x = norm (JObject (extensionMembers (Proxy s) (ClaudeAuth s))))" (is "?E \<longleftrightarrow> ?F")
  proof
    assume ?E
    then obtain ms where ms: "Get v ''extensions'' = Some (JObject ms)" "ConfigSchema s = 7 \<or> ms = []" "parseExtensions ms ?s0 = Some s"
      by blast
    with ext [OF wf_json_Get [OF assms]] extensionMembers_Nil show ?F by blast
  next
    assume F: ?F
    then obtain ms where ms: "Get v ''extensions'' = Some (JObject ms)"
      and n: "norm (JObject ms) = norm (JObject (extensionMembers (Proxy s) (ClaudeAuth s)))"
      using norm_object_kind by blast
    with F ext [OF wf_json_Get [OF assms ms]] extensionMembers_Nil [OF n] show ?E by blast
  qed
  have X: "exactMembers v ?names \<longleftrightarrow> (\<exists>ms. v = JObject ms \<and> length ms = 4) \<and> Get v ''schema'' \<noteq> None \<and>
      Get v ''config_schema'' \<noteq> None \<and> Get v ''config_path'' \<noteq> None \<and> Get v ''extensions'' \<noteq> None"
    by (subst exactMembers_iff [OF assms]) (simp_all add: eval_nat_numeral)
  have S: "strMember v ''schema'' = ''curator.launcher-config/1'' \<longleftrightarrow> Get v ''schema'' = Some (JString ''curator.launcher-config/1'')"
    by (rule strMember_iff) simp
  show ?thesis
  proof (cases "reference (ConfigPath s)")
    case True
    show ?thesis
      unfolding parse selected_ok_def norm E X S m [OF True] by (blast intro: option.discI)
  qed (simp add: parse selected_ok_def)
qed

section \<open>The host policy\<close>

lemma Clean_nonempty: "Clean p \<noteq> []"
  by (simp add: Clean_def Let_def)

lemma JoinPath_nonempty: "n \<noteq> [] \<Longrightarrow> JoinPath d n \<noteq> []"
  by (simp add: JoinPath_def Clean_nonempty)

lemma parseConfigMembers_keys:
  "parseConfigMembers ms c = Inr c' \<Longrightarrow> set (map fst ms) \<subseteq> {''schema'', ''host_mode'', ''delegated_trial''}"
proof (induction ms c rule: parseConfigMembers.induct)
  case (2 k v ms c)
  then show ?case by (cases v) (auto split: if_split_asm)
qed simp

lemma user_policy:
  assumes "parseConfig input path = Inr c" "path \<noteq> []"
  shows "ParseJSON input = Inr (JObject [(''schema'', JString LauncherSchema)])"
proof -
  obtain ms where root: "ParseJSON input = Inr (JObject ms)" and none: "find (\<lambda>n. Get (JObject ms) n \<noteq> None) machineOnly = None"
    and schema: "map_of ms ''schema'' = Some (JString LauncherSchema)" and keys: "parseConfigMembers ms defaultConfig = Inr c"
    using assms unfolding parseConfig_def by (auto split: sum.split_asm jvalue.split_asm option.split_asm if_split_asm)
  have "map_of ms ''host_mode'' = None" "map_of ms ''delegated_trial'' = None"
    using none [unfolded find_None_iff] by (auto simp: machineOnly_def)
  then have only: "set (map fst ms) \<subseteq> {''schema''}"
    using parseConfigMembers_keys [OF keys] unfolding map_of_eq_None_iff set_map [symmetric] by blast
  have d: "distinct (map fst ms)"
    using ParseJSON_jwf [OF root] by (blast intro: wf_json_distinct)
  have "length ms = card (set (map fst ms))"
    using distinct_card [OF d] by simp
  also have "\<dots> \<le> card {''schema''}"
    using only by (intro card_mono) simp_all
  finally have "length ms \<le> 1" by simp
  then have "ms = [(''schema'', JString LauncherSchema)]"
    using map_of_SomeD [OF schema] by (cases ms) auto
  then show ?thesis using root by simp
qed

definition layer_ok :: "fileRead \<Rightarrow> (string \<Rightarrow> bool) \<Rightarrow> bool" where
  "layer_ok r ok \<longleftrightarrow> readErr r = None \<and> (present r \<longrightarrow> ok (data r))"

lemma loadLayer_Inr:
  "loadLayer locs rd ly c = Inr c' \<longleftrightarrow>
     readErr (fst (rd ly)) = None \<and>
     (if present (fst (rd ly)) then
        \<exists>p. parseConfig (data (fst (rd ly))) (if ly = UserLayer then JoinPath (System locs) ''launcher.json'' else []) = Inr p \<and>
          c' = (if ly = SystemLayer then p else c)
      else c' = c)"
  by (cases "rd ly") (auto simp: loadLayer_def split: option.split sum.split)

lemma LoadConfig_authority:
  assumes "LoadConfig locs rd = Inr c"
  shows "readErr (fst (rd SystemLayer)) = None \<and> readErr (fst (rd UserLayer)) = None \<and>
    (if present (fst (rd SystemLayer)) then ParseConfig (data (fst (rd SystemLayer))) = Inr c else c = defaultConfig) \<and>
    (present (fst (rd UserLayer)) \<longrightarrow>
      ParseJSON (data (fst (rd UserLayer))) = Inr (JObject [(''schema'', JString LauncherSchema)]))"
proof -
  obtain c0 where 0: "loadLayer locs rd SystemLayer defaultConfig = Inr c0" and 1: "loadLayer locs rd UserLayer c0 = Inr c"
    using assms by (auto simp: LoadConfig_def)
  have "c = c0"
    using 1 unfolding loadLayer_Inr by (auto split: if_split_asm)
  moreover have "present (fst (rd UserLayer)) \<Longrightarrow>
      ParseJSON (data (fst (rd UserLayer))) = Inr (JObject [(''schema'', JString LauncherSchema)])"
    using 1 JoinPath_nonempty [of "''launcher.json''" "System locs"] unfolding loadLayer_Inr by (auto dest: user_policy)
  ultimately show ?thesis
    using 0 1 unfolding loadLayer_Inr by (simp add: ParseConfig_def split: if_split_asm)
qed

section \<open>The machine configuration\<close>

text \<open>C22. The machine configuration has one authority and one form. A loaded host policy is the one of
  the system file, or the default without one, and an accepted user file is nothing but its
  schema member. A selection is accepted exactly when it is well formed (a known schema
  version, references within their bounds, one store with an absolute clean path or a keychain
  pair, extensions under schema 7 only) and the document is its projection, up to the order of
  the members; so no other member, and no other value, is ever accepted.\<close>

theorem machine_configuration:
  "(\<forall>locs rd c. LoadConfig locs rd = Inr c \<longrightarrow>
      readErr (fst (rd SystemLayer)) = None \<and> readErr (fst (rd UserLayer)) = None \<and>
      (if present (fst (rd SystemLayer)) then ParseConfig (data (fst (rd SystemLayer))) = Inr c else c = defaultConfig) \<and>
      (present (fst (rd UserLayer)) \<longrightarrow>
        ParseJSON (data (fst (rd UserLayer))) = Inr (JObject [(''schema'', JString LauncherSchema)]))) \<and>
    (\<forall>input s. ParseSelected input = Some s \<longleftrightarrow> selected_ok s \<and> (\<exists>v. ParseJSON input = Inr v \<and> norm v = norm (projection s)))"
proof (intro conjI allI impI)
  fix input s
  show "ParseSelected input = Some s \<longleftrightarrow> selected_ok s \<and> (\<exists>v. ParseJSON input = Inr v \<and> norm v = norm (projection s))"
  proof (cases "ParseJSON input")
    case (Inr v)
    then have "wf_json v" using ParseJSON_jwf by blast
    then show ?thesis
      using Inr selectedRoot_iff [of v s] by (simp add: ParseSelected_def)
  qed (simp add: ParseSelected_def)
qed (use LoadConfig_authority in blast)+

theorem machine_configuration_witness:
  "ParseSelected (appendCanonical (projection \<lparr>ConfigSchema = 7, ConfigPath = ''c'', Proxy = Some ''p'',
      ClaudeAuth = Some \<lparr>StoreType = ''file'', StorePath = ''/t'', StoreService = [], StoreAccount = []\<rparr>\<rparr>)) =
    Some \<lparr>ConfigSchema = 7, ConfigPath = ''c'', Proxy = Some ''p'',
      ClaudeAuth = Some \<lparr>StoreType = ''file'', StorePath = ''/t'', StoreService = [], StoreAccount = []\<rparr>\<rparr>" (is "_ = Some ?s")
proof -
  have "reference ''c''" "reference ''p''" "store_ok \<lparr>StoreType = ''file'', StorePath = ''/t'', StoreService = [], StoreAccount = []\<rparr>"
    by code_simp+
  then have "selected_ok ?s" by (simp add: selected_ok_def)
  moreover have "jwf maxDepth (projection ?s)" by code_simp
  then have "ParseJSON (appendCanonical (projection ?s)) = Inr (norm (projection ?s))"
    by (rule ParseJSON_appendCanonical)
  moreover have "norm (norm (projection ?s)) = norm (projection ?s)" by code_simp
  ultimately show ?thesis
    using machine_configuration [THEN conjunct2] by blast
qed

end
