(* ===== verification/Permission.thy ===== *)
theory Permission
  imports Defaults Cli Diagnostics
begin

text \<open>
  \<open>internal/execution/permission.go\<close> and \<open>resolvePermission\<close> of \<open>cmd/curator-run/main.go\<close>: the mode a
  launch runs in, and the reported stored policy. agents-management provides the spelling of the
  modes (\<open>permissionModes\<close>), the probe of the tool release and the mapping of a mode to a flag.
\<close>

section \<open>The ladder\<close>

record permissionModes =
  ModeNative :: string
  ModeYolo :: string

record PermissionRequest =
  Flag :: string
  FlagPresent :: bool
  ProfilePermissions :: "permissions option"
  GlobalMember :: member
  Headless :: bool
  Transport :: bool

record PermissionDecision =
  DecidedMode :: string
  DecidedSource :: string

text \<open>A refusal is a code and its detail.\<close>

definition ladder :: "permissionModes \<Rightarrow> PermissionRequest \<Rightarrow> PermissionDecision" where
  "ladder am req =
     (if FlagPresent req then \<lparr>DecidedMode = Flag req, DecidedSource = ''flag''\<rparr>
      else case ProfilePermissions req of
        Some p \<Rightarrow>
          if permSource p = ''profile'' then \<lparr>DecidedMode = permMode p, DecidedSource = ''profile''\<rparr>
          else (case GlobalMember req of
            Some v \<Rightarrow> \<lparr>DecidedMode = v, DecidedSource = ''global''\<rparr>
          | None \<Rightarrow> \<lparr>DecidedMode = ModeYolo am, DecidedSource = ''default-interactive''\<rparr>)
      | None \<Rightarrow> (case GlobalMember req of
            Some v \<Rightarrow> \<lparr>DecidedMode = v, DecidedSource = ''global''\<rparr>
          | None \<Rightarrow> \<lparr>DecidedMode = ModeYolo am, DecidedSource = ''default-interactive''\<rparr>))"

definition lockedProfile :: "PermissionRequest \<Rightarrow> bool" where
  "lockedProfile req \<longleftrightarrow> (case ProfilePermissions req of Some p \<Rightarrow> permLocked p | None \<Rightarrow> False)"

definition ResolvePermission :: "permissionModes \<Rightarrow> PermissionRequest \<Rightarrow> (string \<times> string) + PermissionDecision" where
  "ResolvePermission am req =
     (if lockedProfile req then
        (if FlagPresent req \<and> Flag req = ''yolo'' \<or> GlobalMember req = Some (ModeYolo am) then
           Inl (''usage'', ''yolo conflicts with Curator's force-native permission lock'')
         else if FlagPresent req then Inr \<lparr>DecidedMode = ModeNative am, DecidedSource = ''flag''\<rparr>
         else if GlobalMember req \<noteq> None then Inr \<lparr>DecidedMode = ModeNative am, DecidedSource = ''global''\<rparr>
         else Inr \<lparr>DecidedMode = ModeNative am, DecidedSource = ''default-headless''\<rparr>)
      else let decision = ladder am req
           in if DecidedMode decision = ModeYolo am \<and> \<not> Transport req then
                Inl (''permission_policy_unsupported'', ''the fragment does not establish permission-mode transport'')
              else Inr decision)"

definition HasNonInteractiveMarker :: "string list \<Rightarrow> bool" where
  "HasNonInteractiveMarker env \<longleftrightarrow>
     list_ex (\<lambda>entry. fst (Cut entry CHR ''='') = ''CI'' \<or> fst (Cut entry CHR ''='') = ''GITHUB_ACTIONS'') env"

section \<open>The launch's permission\<close>

text \<open>What the sentinels of agents-management say of a mapping error.\<close>

record mappingFailure =
  helpEvidenceRequired :: bool
  modeUnsupported :: bool
  unverifiedRelease :: bool
  failureText :: string

datatype permissionFailure =
  DefaultsRefusal defaultsError
| SystemNotRegistered string
| PermissionRefusal string string
| MappingNotEstablished string
| ReleaseNotEstablished string

text \<open>The line on standard error, for a native launch whose mapping was not deferred.\<close>

definition permissionLine :: "PermissionDecision \<Rightarrow> string \<Rightarrow> string" where
  "permissionLine d mapped =
     ''curator-run: permissions='' @ DecidedMode d @ '' source='' @ DecidedSource d @ '' mapped='' @
       (if mapped = [] then ''none'' else mapped) @ [CHR 0x0A]"

definition carriesPermissions :: "fragment \<Rightarrow> bool" where
  "carriesPermissions f \<longleftrightarrow> Revision f \<in> {IdentityV2, IdentityV3, IdentityV4}"

definition permissionRequest :: "Invocation \<Rightarrow> fragment \<Rightarrow> member \<Rightarrow> bool \<Rightarrow> PermissionRequest" where
  "permissionRequest i f global headless =
     \<lparr>Flag = Cli.PermissionMode i, FlagPresent = PermissionSet i, ProfilePermissions = Fragment.Permissions f,
      GlobalMember = global, Headless = headless, Transport = carriesPermissions f\<rparr>"

text \<open>\<open>registered\<close> is the lookup of the system, \<open>probe\<close> the release and the error of its probe,
  \<open>mapping\<close> the flag and the error for a release and a mode.\<close>

definition resolvePermission ::
  "permissionModes \<Rightarrow> Invocation \<Rightarrow> fragment \<Rightarrow> string \<Rightarrow> Files \<Rightarrow> bool \<Rightarrow> bool \<Rightarrow> string \<times> string option \<Rightarrow>
   (string \<Rightarrow> string \<Rightarrow> string \<times> mappingFailure option) \<Rightarrow> bool \<Rightarrow>
   permissionFailure + PermissionDecision \<times> string \<times> string option" where
  "resolvePermission am i f system files registered headless probe mapping hosted =
     (case PermissionDefault files (EnvID i) of
        Inl e \<Rightarrow> Inl (DefaultsRefusal e)
      | Inr global \<Rightarrow>
          if \<not> registered then Inl (SystemNotRegistered system)
          else (case ResolvePermission am (permissionRequest i f global headless) of
            Inl (code, detail) \<Rightarrow> Inl (PermissionRefusal code detail)
          | Inr d \<Rightarrow>
              (let (release, probeErr) = probe;
                   (flag, mappingErr) = mapping release (DecidedMode d);
                   deferred = (case mappingErr of Some e \<Rightarrow> helpEvidenceRequired e | None \<Rightarrow> False);
                   failure = (if deferred then None else mappingErr)
               in case (case failure of
                    None \<Rightarrow> Inr flag
                  | Some e \<Rightarrow>
                      if modeUnsupported e then Inl (PermissionRefusal ''permission_mode_unsupported'' (failureText e))
                      else if DecidedMode d \<noteq> ModeNative am \<or> \<not> unverifiedRelease e then Inl (MappingNotEstablished (failureText e))
                      else Inr []) of
                    Inl e \<Rightarrow> Inl e
                  | Inr mapped \<Rightarrow>
                      (case probeErr of
                         Some e \<Rightarrow>
                           if DecidedMode d = ModeYolo am then Inl (ReleaseNotEstablished e)
                           else Inr (d, release, if \<not> hosted \<and> \<not> deferred then Some (permissionLine d mapped) else None)
                       | None \<Rightarrow> Inr (d, release, if \<not> hosted \<and> \<not> deferred then Some (permissionLine d mapped) else None)))))"

text \<open>\<open>emitPermissionFailure\<close>: the code of the diagnostic and whether the usage text follows. Every
  plain error of \<open>resolvePermission\<close> starts with a code and a colon; a defaults error does too.\<close>

fun failureCode :: "permissionFailure \<Rightarrow> string" where
  "failureCode (DefaultsRefusal e) = (case e of Invalid _ \<Rightarrow> ''defaults_config_invalid'' | _ \<Rightarrow> ''defaults_unresolvable'')"
| "failureCode (SystemNotRegistered s) = ''plan_refused''"
| "failureCode (PermissionRefusal code detail) = code"
| "failureCode (MappingNotEstablished e) = ''plan_refused''"
| "failureCode (ReleaseNotEstablished e) = ''plan_refused''"

definition permissionExit :: "permissionFailure \<Rightarrow> nat \<times> bool" where
  "permissionExit e = (ExitForCode (failureCode e), failureCode e = ''usage'')"

section \<open>The stored policy\<close>

text \<open>A relaxation is a source path and a selector; the inspection names the sources that were read
  and those that were not.\<close>

record policyInspection =
  Relaxations :: "(string \<times> string) list"
  SourcesInspected :: "string list"
  SourcesNotInspected :: "string list"

definition reportable :: "policyInspection \<Rightarrow> string \<times> string \<Rightarrow> bool" where
  "reportable p r \<longleftrightarrow> fst r \<noteq> [] \<and> snd r \<noteq> [] \<and> fst r \<in> set (SourcesInspected p) \<and> fst r \<notin> set (SourcesNotInspected p)"

definition selectorLabel :: "(string \<times> string) list \<Rightarrow> string \<Rightarrow> string \<Rightarrow> string" where
  "selectorLabel rs source selector =
     (let count = count_list rs (source, selector)
      in if selector = ''permissions.allow'' \<and> 5 < count then ''permissions.allow ('' @ dec count @ '' rules)'' else selector)"

definition policyLine :: "(string \<times> string) list \<Rightarrow> string \<Rightarrow> string" where
  "policyLine rs source =
     (let selectors = remdups (map snd (filter (\<lambda>r. fst r = source) rs))
      in ''curator-run: effective-native-policy: relaxation='' @ Join (sort (map (selectorLabel rs source) selectors)) '',''
           @ '' source='' @ foldValue source @ [CHR 0x0A])"

definition ReportEffectiveNativePolicy :: "policyInspection \<Rightarrow> string list" where
  "ReportEffectiveNativePolicy p =
     (let rs = filter (reportable p) (Relaxations p)
      in map (policyLine rs) (sort (remdups (map fst rs))))"

end
