(* ===== verification/PermissionProps.thy ===== *)
theory PermissionProps
  imports Permission CliGrammar DefaultsProps FragmentGuarantees
begin

text \<open>
  The mode of a launch, from the command line, the fragment and the defaults files that were read.
\<close>

section \<open>What the inputs can hold\<close>

lemma invocation_permission:
  assumes "Cli.Parse args = Inr i"
  shows "permission_ok (PermissionSet i) (PermissionMode i)"
proof -
  have "invocation_ok i" using Parse_sound assms by blast
  then show ?thesis
    by (auto simp: invocation_ok_def launch_ok_def launch_members_def noInvocation_def)
qed

definition loaded :: "defaultsFile \<Rightarrow> bool" where
  "loaded f \<longleftrightarrow> f = emptyFile \<or> (\<exists>d. Defaults.parse d = Inr f)"

lemma loaded_permissions:
  assumes "loaded (machine files)" "loaded (operator files)" "PermissionDefault files env = Inr g"
  shows "g \<in> {None, Some ''native'', Some ''yolo''}"
proof -
  have "file_ok f" if "loaded f" for f
    using that parse_ok by (auto simp: loaded_def file_ok_def entries_ok_def emptyFile_def)
  then have "pair_ok (entryOf (machine files) env)" "pair_ok (entryOf (operator files) env)"
    using assms(1,2) entryOf_ok by blast+
  then show ?thesis
    using assms(3) by (auto simp: PermissionDefault_def pair_ok_def split: if_splits)
qed

section \<open>The ladder\<close>

text \<open>The mode that the present sources ask for, first match first.\<close>

definition wanted :: "Invocation \<Rightarrow> fragment \<Rightarrow> member \<Rightarrow> string" where
  "wanted i f g =
     (if PermissionSet i then PermissionMode i
      else case filter (\<lambda>p. permSource p = ''profile'') (case Fragment.Permissions f of None \<Rightarrow> [] | Some p \<Rightarrow> [p]) of
        p # _ \<Rightarrow> permMode p
      | [] \<Rightarrow> (case g of Some v \<Rightarrow> v | None \<Rightarrow> ''yolo''))"

lemma ResolvePermission_mode:
  assumes "ModeNative am = ''native''" "ModeYolo am = ''yolo''"
    and "ResolvePermission am (permissionRequest i f g h) = Inr d"
  shows "if (\<exists>p. Fragment.Permissions f = Some p \<and> permLocked p)
    then DecidedMode d = ''native'' \<and> \<not> (PermissionSet i \<and> PermissionMode i = ''yolo'') \<and> g \<noteq> Some ''yolo''
    else DecidedMode d = wanted i f g \<and> (wanted i f g = ''yolo'' \<longrightarrow> carriesPermissions f)"
  using assms
  by (auto simp: ResolvePermission_def permissionRequest_def lockedProfile_def ladder_def wanted_def Let_def
      split: option.splits if_splits)

lemma ResolvePermission_headless: "ResolvePermission am (permissionRequest i f g h) = ResolvePermission am (permissionRequest i f g h')"
  by (simp add: ResolvePermission_def permissionRequest_def lockedProfile_def ladder_def Let_def cong: option.case_cong if_cong)

lemma resolvePermission_Inr:
  assumes "resolvePermission am i f system files registered headless probe mapping hosted = Inr (d, release, line)"
  shows "\<exists>g. PermissionDefault files (Invocation.EnvID i) = Inr g \<and> ResolvePermission am (permissionRequest i f g headless) = Inr d \<and>
    registered \<and> release = fst probe \<and> (DecidedMode d = ModeYolo am \<longrightarrow> snd probe = None)"
  using assms
  by (auto simp: resolvePermission_def Let_def split: sum.split_asm option.split_asm if_split_asm prod.split_asm)

lemma resolvePermission_headless:
  "resolvePermission am i f system files registered headless probe mapping hosted = r \<Longrightarrow>
   resolvePermission am i f system files registered h probe mapping hosted = r"
  by (simp only: resolvePermission_def ResolvePermission_headless [of _ _ _ _ h headless])

section \<open>The mode of a launch\<close>

text \<open>C5. The permission mode of a launch. For a parsed command line, an accepted fragment and the
  defaults files that were read, a resolved mode is native or yolo. It is yolo only when the
  fragment carries permissions that are not locked, the first source that speaks (flag, profile,
  defaults, silence) asks for it, and the tool release was established; a locked fragment always
  resolves to native, and never over a flag or a default that asks for yolo; a first-revision
  fragment only to a native that was asked for. The headless signal never changes the outcome.\<close>

theorem permission_resolution:
  assumes "ModeNative am = ''native''" "ModeYolo am = ''yolo''"
    and "Cli.Parse args = Inr i" "Fragment.Parse data = Inr f" "loaded (machine files)" "loaded (operator files)"
    and "resolvePermission am i f system files registered headless probe mapping hosted = Inr (d, release, line)"
  shows "DecidedMode d \<in> {''native'', ''yolo''} \<and> registered \<and> release = fst probe \<and>
    (\<exists>g. PermissionDefault files (Invocation.EnvID i) = Inr g \<and>
      (DecidedMode d = ''yolo'' \<longrightarrow> snd probe = None \<and> wanted i f g = ''yolo'' \<and>
        (\<exists>p. Fragment.Permissions f = Some p \<and> \<not> permLocked p)) \<and>
      (DecidedMode d = ''native'' \<longrightarrow> wanted i f g = ''native'' \<or> (\<exists>p. Fragment.Permissions f = Some p \<and> permLocked p)) \<and>
      ((\<exists>p. Fragment.Permissions f = Some p \<and> permLocked p) \<longrightarrow>
        DecidedMode d = ''native'' \<and> \<not> (PermissionSet i \<and> PermissionMode i = ''yolo'') \<and> g \<noteq> Some ''yolo'') \<and>
      (Revision f = Identity \<longrightarrow> DecidedMode d = ''native'' \<and>
        (PermissionSet i \<and> PermissionMode i = ''native'' \<or> \<not> PermissionSet i \<and> g = Some ''native''))) \<and>
    (\<forall>h. resolvePermission am i f system files registered h probe mapping hosted = Inr (d, release, line))"
proof -
  obtain g where g: "PermissionDefault files (Invocation.EnvID i) = Inr g"
    and d: "ResolvePermission am (permissionRequest i f g headless) = Inr d" "registered" "release = fst probe"
    and probe: "DecidedMode d = ''yolo'' \<Longrightarrow> snd probe = None"
    using resolvePermission_Inr [OF assms(7)] assms(2) by auto
  have flag: "permission_ok (PermissionSet i) (PermissionMode i)"
    using assms(3) by (rule invocation_permission)
  have global: "g \<in> {None, Some ''native'', Some ''yolo''}"
    using assms(5,6) g by (rule loaded_permissions)
  have perms: "Fragment.Permissions f = None \<longleftrightarrow> Revision f = Identity"
    and mode: "\<And>p. Fragment.Permissions f = Some p \<Longrightarrow> permMode p \<in> {''native'', ''yolo''}"
    using Parse_permissions [OF assms(4)] by blast+
  have wanted: "wanted i f g \<in> {''native'', ''yolo''}"
    using flag global mode by (auto simp: wanted_def permission_ok_def split: option.splits if_splits)
  note m = ResolvePermission_mode [OF assms(1,2) d(1)]
  have carries: "carriesPermissions f \<Longrightarrow> Fragment.Permissions f \<noteq> None"
    using perms by (auto simp: carriesPermissions_def identity_defs)
  have first: "Revision f = Identity \<Longrightarrow> wanted i f g = (if PermissionSet i then PermissionMode i else case g of Some v \<Rightarrow> v | None \<Rightarrow> ''yolo'')"
    using perms by (simp add: wanted_def)
  have same: "resolvePermission am i f system files registered h probe mapping hosted = Inr (d, release, line)" for h
    using assms(7) by (rule resolvePermission_headless)
  show ?thesis
  proof (cases "\<exists>p. Fragment.Permissions f = Some p \<and> permLocked p")
    case True
    then have l: "DecidedMode d = ''native''" "\<not> (PermissionSet i \<and> PermissionMode i = ''yolo'')" "g \<noteq> Some ''yolo''"
      using m by simp_all
    have "Revision f \<noteq> Identity" using True perms by auto
    then show ?thesis
      using l True g d(2,3) same by auto
  next
    case False
    then have l: "DecidedMode d = wanted i f g" "wanted i f g = ''yolo'' \<Longrightarrow> carriesPermissions f"
      using m by simp_all
    have identity: "DecidedMode d = ''native'' \<and>
        (PermissionSet i \<and> PermissionMode i = ''native'' \<or> \<not> PermissionSet i \<and> g = Some ''native'')" if "Revision f = Identity"
    proof -
      have "wanted i f g = ''native''"
        using wanted l(2) carries perms that by auto
      then show ?thesis
        using l(1) first [OF that] by (auto split: if_splits option.splits)
    qed
    have yolo: "snd probe = None \<and> (\<exists>p. Fragment.Permissions f = Some p \<and> \<not> permLocked p)" if "DecidedMode d = ''yolo''"
      using that l carries probe False by auto
    have "DecidedMode d \<in> {''native'', ''yolo''}"
      using wanted l(1) by simp
    then show ?thesis
      using l(1) identity yolo False g d(2,3) same by auto
  qed
qed

text \<open>A locked fragment, a command line that asks for native, no defaults files.\<close>

theorem permission_resolution_witness:
  "\<exists>f i d release line. Fragment.Parse claude_document = Inr f \<and> Cli.Parse [''claude'', ''--permissions'', ''native''] = Inr i \<and>
    resolvePermission \<lparr>ModeNative = ''native'', ModeYolo = ''yolo''\<rparr> i f ''claude'' \<lparr>machine = emptyFile, operator = emptyFile\<rparr>
      True False (''2.0'', None) (\<lambda>release mode. ([], None)) False = Inr (d, release, line) \<and>
    DecidedMode d = ''native'' \<and> release = ''2.0''"
proof -
  let ?am = "\<lparr>ModeNative = ''native'', ModeYolo = ''yolo''\<rparr>"
  let ?files = "\<lparr>machine = emptyFile, operator = emptyFile\<rparr>"
  let ?f = "claude_fragment\<lparr>fCanonical := Canonical claude_root, fDigest := Digest claude_root\<rparr>"
  define i where "i = noInvocation\<lparr>Invocation.EnvID := ''claude_code'', PermissionMode := ''native'', PermissionSet := True\<rparr>"
  have i: "Cli.Parse [''claude'', ''--permissions'', ''native''] = Inr i"
    unfolding i_def by code_simp
  have loaded: "loaded (machine ?files)" "loaded (operator ?files)"
    by (simp_all add: loaded_def)
  have perms: "Fragment.Permissions claude_fragment = Some \<lparr>permMode = ''native'', permLocked = True, permSource = ''global''\<rparr>"
    by code_simp
  have "PermissionDefault ?files ''claude_code'' = Inr None"
    by code_simp
  then obtain line where r: "resolvePermission ?am i ?f ''claude'' ?files True False (''2.0'', None) (\<lambda>release mode. ([], None)) False =
      Inr (\<lparr>DecidedMode = ''native'', DecidedSource = ''flag''\<rparr>, ''2.0'', line)"
    by (simp add: resolvePermission_def i_def noInvocation_def permissionRequest_def ResolvePermission_def lockedProfile_def perms)
  from permission_resolution [OF _ _ i claude_parses loaded r] r i claude_parses
  show ?thesis by auto
qed

end
