(* ===== verification/LaunchPlan.thy ===== *)
theory LaunchPlan
  imports Composition
begin

text \<open>
  \<open>internal/plan\<close>: the curator context of a fragment, the spawn request, and the admission of an
  interactive plan. \<open>BuildLaunch\<close> and \<open>AvailabilityFor\<close> of agents-management are parameters; a
  build is modelled with the calls it makes of them, in order.
\<close>

section \<open>The curator context\<close>

record curatorContext =
  ctxRevision :: string
  ctxEnvironment :: string
  ctxProfile :: profile
  ctxPrecedence :: precedence
  ctxEnv :: strmap
  ctxPermissions :: "permissions option"
  ctxRootContext :: "rootContext option"
  ctxCredentialStore :: "credentialStore option"
  ctxSystemPrompt :: "(string \<times> string \<times> channel list) option"
  ctxMCP :: "(string \<times> channel list \<times> string list) option"

text \<open>\<open>carrier1\<close> and \<open>carrier4\<close> are the revision names of agents-management.\<close>

definition ContextOf :: "string \<Rightarrow> string \<Rightarrow> fragment \<Rightarrow> string \<Rightarrow> curatorContext option" where
  "ContextOf carrier1 carrier4 f intent =
     (if Revision f \<noteq> IdentityV4 \<and> Environment f \<noteq> EnvClaudeCode \<and> Environment f \<noteq> EnvCodexCLI then None
      else let v4 = (Revision f = IdentityV4)
           in Some \<lparr>ctxRevision = (if v4 then carrier4 else carrier1), ctxEnvironment = Environment f,
                ctxProfile = fragment.Profile f, ctxPrecedence = Precedence f, ctxEnv = Env f,
                ctxPermissions = (if v4 then Permissions f else None),
                ctxRootContext = (if v4 then RootContext f else None),
                ctxCredentialStore = (if v4 then CredentialStore f else None),
                ctxSystemPrompt = (case SystemPrompt f of
                   Some sp \<Rightarrow> if intent = [] then None else Some (spPath sp, intent, spChannels sp)
                 | None \<Rightarrow> None),
                ctxMCP = (case MCP f of Some m \<Rightarrow> Some (mcpPath m, mcpChannels m, mcpEnvNames m) | None \<Rightarrow> None)\<rparr>)"

section \<open>Requests and refusals\<close>

record planRequest =
  reqRuntime :: string
  reqModel :: string
  reqEffort :: string
  reqMode :: string
  reqToolRelease :: string
  reqNative :: "string list"
  reqContext :: "curatorContext option"
  reqHome :: string
  reqWorkDir :: string
  reqEnv :: "string list"

text \<open>The spawn request has the members of the request; composition, run, goal, budget, service tier
  and assignment stay unset.\<close>

record spawnRequest =
  spawnRuntime :: string
  spawnModel :: string
  spawnEffort :: string
  spawnMode :: string
  spawnToolRelease :: string
  spawnNative :: "string list"
  spawnContext :: "curatorContext option"
  spawnHome :: string
  spawnWorkDir :: string
  spawnEnv :: "string list"

definition SpawnRequest :: "planRequest \<Rightarrow> spawnRequest" where
  "SpawnRequest r =
     \<lparr>spawnRuntime = reqRuntime r, spawnModel = reqModel r, spawnEffort = reqEffort r, spawnMode = reqMode r,
      spawnToolRelease = reqToolRelease r, spawnNative = reqNative r, spawnContext = reqContext r,
      spawnHome = reqHome r, spawnWorkDir = reqWorkDir r, spawnEnv = reqEnv r\<rparr>"

text \<open>A module error: its text, and whether it is a missing effort. Times are rendered.\<close>

record moduleError =
  moduleText :: string
  effortMissing :: bool

record verdict =
  serviceable :: bool
  verdictState :: string
  verdictUntil :: "string option"
  verdictChecked :: "string list"
  verdictObserved :: "(string \<times> string \<times> string option) list"
  verdictFailures :: "(string \<times> string) list"

datatype planError = Refused string "moduleError option" | Limited verdict

fun refusedText :: "string \<Rightarrow> moduleError option \<Rightarrow> string" where
  "refusedText detail None = ''plan_refused: '' @ detail"
| "refusedText detail (Some c) = ''plan_refused: '' @ detail @ '': '' @ moduleText c @
     (if effortMissing c then ''; supply the required effort with --effort <effort>'' else [])"

definition limitedText :: "verdict \<Rightarrow> string" where
  "limitedText v =
     ''plan_provider_limited: provider limits do not admit this launch (state '' @ verdictState v @ '')'' @
     (case verdictUntil v of None \<Rightarrow> [] | Some t \<Rightarrow> '' until '' @ t) @
     (if verdictChecked v = [] then [] else ''; checked '' @ Join (verdictChecked v) '', '') @
     concat (map (\<lambda>(source, detail, at). ''; observed '' @ source @ '': '' @ detail @
       (case at of None \<Rightarrow> [] | Some t \<Rightarrow> '' at '' @ t)) (verdictObserved v)) @
     concat (map (\<lambda>(source, reason). ''; '' @ source @ '' unreadable: '' @ reason) (verdictFailures v))"

fun planErrorText :: "planError \<Rightarrow> string" where
  "planErrorText (Refused detail cause) = refusedText detail cause"
| "planErrorText (Limited v) = limitedText v"

fun planErrorCode :: "planError \<Rightarrow> string" where
  "planErrorCode (Refused detail cause) = ''plan_refused''"
| "planErrorCode (Limited v) = ''plan_provider_limited''"

section \<open>Muse\<close>

definition museVersionAdmitted :: "string \<Rightarrow> bool" where
  "museVersionAdmitted version = (case Split (TrimPrefix version ''v'') CHR ''.'' of
     [a, b, c] \<Rightarrow> \<not> ContainsAny c ''-+'' \<and>
       (case (ParseInt64 a, ParseInt64 b, ParseInt64 c) of
          (Some major, Some minor, Some patch) \<Rightarrow>
            0 < major \<or> major = 0 \<and> (5 < minor \<or> minor = 5 \<and> 66 \<le> patch)
        | _ \<Rightarrow> False)
   | _ \<Rightarrow> False)"

definition checkMuseModuleVersion :: "string \<Rightarrow> planError option" where
  "checkMuseModuleVersion version =
     (if museVersionAdmitted version then None
      else Some (Refused (''agents-management module version='' @ version @ '' required=v0.5.66-or-later for managed Muse'') None))"

definition museValueFlags :: "string list" where
  "museValueFlags = [''-c'', ''--config'', ''--model'', ''--reasoning-effort'', ''--workspace'', ''--provider'']"

fun museForm :: "string list \<Rightarrow> string option" where
  "museForm [] = None"
| "museForm (arg # args) =
     (if arg = ''--'' then None
      else if arg \<in> set museValueFlags then (case args of [] \<Rightarrow> None | _ # rest \<Rightarrow> museForm rest)
      else if arg = ''exec'' \<or> arg = ''serve'' then Some arg
      else museForm args)"

definition formError :: "string \<Rightarrow> moduleError" where
  "formError form = \<lparr>moduleText = ''Muse root_context requires an admitted interactive form; form='' @ form, effortMissing = False\<rparr>"

definition checkMuseInteractiveForm :: "curatorContext \<Rightarrow> string list \<Rightarrow> planError option" where
  "checkMuseInteractiveForm c native =
     (if ctxRootContext c = None then None
      else (case museForm native of
        Some form \<Rightarrow> Some (Refused ''selected Muse form cannot apply the required exclusion'' (Some (formError form)))
      | None \<Rightarrow> None))"

section \<open>Admission\<close>

text \<open>\<open>ModuleVersion\<close> is the injected version, \<open>linked\<close> the one of the build information, empty when it
  is not there.\<close>

record planDeps =
  BuildLaunch :: "(spawnRequest \<Rightarrow> moduleError + plan) option"
  Availability :: "(string \<times> string \<times> string \<Rightarrow> moduleError + verdict) option"
  ModuleVersion :: "string option"
  linked :: string

datatype moduleCall = CallBuild spawnRequest | CallAvailability "string \<times> string \<times> string"

definition museChecks :: "planDeps \<Rightarrow> planRequest \<Rightarrow> planError option" where
  "museChecks d req = (case reqContext req of
     Some c \<Rightarrow>
       if ctxEnvironment c = ''muse'' then
         (let version = (case ModuleVersion d of Some v \<Rightarrow> v | None \<Rightarrow> linked d);
              version = (if version = [] then ''unknown'' else version)
          in case checkMuseModuleVersion version of Some e \<Rightarrow> Some e
           | None \<Rightarrow> checkMuseInteractiveForm c (reqNative req))
       else None
   | None \<Rightarrow> None)"

definition Build :: "planDeps \<Rightarrow> planRequest \<Rightarrow> moduleCall list \<times> (planError + plan)" where
  "Build d req =
     (if TrimSpace (reqHome req) = [] then
        ([], Inl (Refused ''managed home is required; an empty home must not fall back to a native default'' None))
      else if TrimSpace (reqWorkDir req) = [] then ([], Inl (Refused ''working directory is required'' None))
      else case BuildLaunch d of
        None \<Rightarrow> ([], Inl (Refused ''no BuildLaunch implementation wired'' None))
      | Some build \<Rightarrow> (case Availability d of
          None \<Rightarrow> ([], Inl (Refused ''no provider-limits read wired'' None))
        | Some availability \<Rightarrow> (case museChecks d req of
            Some e \<Rightarrow> ([], Inl e)
          | None \<Rightarrow>
              (let spawn = SpawnRequest req; query = (reqRuntime req, reqModel req, reqHome req)
               in case build spawn of
                    Inl e \<Rightarrow> ([CallBuild spawn], Inl (Refused ''spawn plane refused the launch'' (Some e)))
                  | Inr built \<Rightarrow>
                      ([CallBuild spawn, CallAvailability query],
                       case availability query of
                         Inl e \<Rightarrow> Inl (Refused ''provider-limits read produced no verdict'' (Some e))
                       | Inr v \<Rightarrow> if \<not> serviceable v then Inl (Limited v) else Inr built)))))"

end
