(* ===== verification/LaunchPlanProps.thy ===== *)
theory LaunchPlanProps
  imports LaunchPlan FragmentGuarantees
begin

text \<open>
  A plan is admitted by one build and one limits read, in that order, and a managed Muse only
  with a module that is new enough and a tail that stays interactive.
\<close>

section \<open>Interactive tails\<close>

datatype museItem = Word string | Option string string

fun museWords :: "museItem \<Rightarrow> string list" where
  "museWords (Word w) = [w]"
| "museWords (Option f v) = [f, v]"

fun museItem_ok :: "museItem \<Rightarrow> bool" where
  "museItem_ok (Word w) \<longleftrightarrow> w \<notin> set museValueFlags \<union> {''exec'', ''serve'', ''--''}"
| "museItem_ok (Option f v) \<longleftrightarrow> f \<in> set museValueFlags"

definition interactive :: "string list \<Rightarrow> bool" where
  "interactive args \<longleftrightarrow> (\<exists>items rest. args = concat (map museWords items) @ rest \<and> list_all museItem_ok items \<and>
     (rest = [] \<or> hd rest = ''--'' \<or> (\<exists>f \<in> set museValueFlags. rest = [f])))"

lemma museFlags_plain: "f \<in> set museValueFlags \<Longrightarrow> f \<noteq> ''--''"
  by (auto simp: museValueFlags_def)

lemma interactive_end: "interactive []" "interactive (''--'' # args)" "f \<in> set museValueFlags \<Longrightarrow> interactive [f]"
  unfolding interactive_def by (rule exI [of _ "[]"], simp)+

lemma interactive_step:
  assumes "museItem_ok it" "interactive args"
  shows "interactive (museWords it @ args)"
proof -
  obtain items rest where "args = concat (map museWords items) @ rest" "list_all museItem_ok items"
    "rest = [] \<or> hd rest = ''--'' \<or> (\<exists>f \<in> set museValueFlags. rest = [f])"
    using assms(2) unfolding interactive_def by blast
  then show ?thesis
    unfolding interactive_def using assms(1) by (intro exI [of _ "it # items"] exI [of _ rest]) simp
qed

lemma museForm_sound: "museForm args = None \<Longrightarrow> interactive args"
proof (induction args rule: museForm.induct)
  case (2 arg args)
  consider "arg = ''--''" | "arg \<noteq> ''--''" "arg \<in> set museValueFlags" | "arg \<noteq> ''--''" "arg \<notin> set museValueFlags"
    by blast
  then show ?case
  proof cases
    case 1
    then show ?thesis using interactive_end(2) by simp
  next
    case 2
    show ?thesis
    proof (cases args)
      case Nil
      then show ?thesis using interactive_end(3) 2 by simp
    next
      case (Cons v rest)
      then have "interactive rest" using "2.IH"(1) "2.prems" 2 by simp
      then show ?thesis using interactive_step [of "Option arg v" rest] 2 Cons by simp
    qed
  next
    case 3
    then have "interactive args" "arg \<noteq> ''exec''" "arg \<noteq> ''serve''"
      using "2.IH"(2) "2.prems" by (auto split: if_split_asm)
    then show ?thesis using interactive_step [of "Word arg" args] 3 by simp
  qed
qed (rule interactive_end)

lemma museForm_complete: "list_all museItem_ok items \<Longrightarrow> museForm rest = None \<Longrightarrow> museForm (concat (map museWords items) @ rest) = None"
proof (induction items)
  case (Cons it items)
  then show ?case by (cases it) (auto dest: museFlags_plain)
qed simp

lemma museForm_iff: "museForm args = None \<longleftrightarrow> interactive args"
proof
  assume "interactive args"
  then obtain items rest where a: "args = concat (map museWords items) @ rest" "list_all museItem_ok items"
    and r: "rest = [] \<or> hd rest = ''--'' \<or> (\<exists>f \<in> set museValueFlags. rest = [f])"
    unfolding interactive_def by blast
  have "museForm rest = None"
    using r by (cases rest) (auto dest: museFlags_plain)
  then show "museForm args = None"
    using a museForm_complete by simp
qed (rule museForm_sound)

section \<open>Versions\<close>

lemma dec_plain: "c \<in> set (dec n) \<Longrightarrow> c \<notin> set ''.-+v''"
  using dec_digits [of n] by (auto simp: is_digit_byte)

lemma Split_version:
  "Split (dec a @ ''.'' @ dec b @ ''.'' @ dec c @ s) CHR ''.'' = dec a # dec b # (dec c @ hd (Split s CHR ''.'')) # tl (Split s CHR ''.'')"
proof -
  have "CHR ''.'' \<notin> set (dec n)" for n
    using dec_plain [of "CHR ''.''" n] by auto
  then show ?thesis
    by (simp add: Split_append_no_sep split: list.split)
qed

lemma museVersion_exact:
  assumes "a < 2 ^ 63" "b < 2 ^ 63" "c < 2 ^ 63"
  shows "museVersionAdmitted (''v'' @ dec a @ ''.'' @ dec b @ ''.'' @ dec c) \<longleftrightarrow> 0 < a \<or> 5 < b \<or> b = 5 \<and> 66 \<le> c"
proof -
  have p: "ParseInt64 (dec n) = Some (int n)" if "n < 2 ^ 63" for n
  proof -
    have "int n < 2 ^ 63" using that by simp
    then show ?thesis using ParseInt64_Itoa [of "int n"] by (simp add: Itoa_def)
  qed
  have plain: "\<not> ContainsAny (dec c) ''-+''"
    using dec_plain [of _ c] by (auto simp: ContainsAny_def)
  have "TrimPrefix (''v'' @ s) ''v'' = s" for s
    by (simp add: TrimPrefix_def HasPrefix_def)
  then show ?thesis
    using Split_version [of a b c "[]"] p assms plain by (auto simp: museVersionAdmitted_def)
qed

lemma museVersion_prerelease: "\<not> museVersionAdmitted (''v'' @ dec a @ ''.'' @ dec b @ ''.'' @ dec c @ CHR ''-'' # s)"
proof -
  obtain w ws where "Split s CHR ''.'' = w # ws" by (cases "Split s CHR ''.''") simp_all
  then show ?thesis
    using Split_version [of a b c "CHR ''-'' # s"]
    by (auto simp: museVersionAdmitted_def TrimPrefix_def HasPrefix_def ContainsAny_def split: list.split)
qed

text \<open>A numeral as \<open>strconv.Atoi\<close> reads it: an optional sign and digits, in the 64-bit range.\<close>

definition numeral_of :: "string \<Rightarrow> int \<Rightarrow> bool" where
  "numeral_of s n \<longleftrightarrow> (\<exists>sign ds. s = sign @ ds \<and> ds \<noteq> [] \<and> list_all is_digit ds \<and>
     (sign \<in> {[], ''+''} \<and> n = int (dec_value ds) \<and> n < 2 ^ 63 \<or> sign = ''-'' \<and> n = - int (dec_value ds) \<and> - (2 ^ 63) \<le> n))"

lemma digit_no_sign: "is_digit c \<Longrightarrow> c \<notin> set ''+-.v''"
  by (auto simp: is_digit_byte)

lemma ParseInt64_numeral: "ParseInt64 s = Some n \<longleftrightarrow> numeral_of s n"
proof
  assume parse: "ParseInt64 s = Some n"
  then obtain c cs where s: "s = c # cs"
    by (cases s) (simp_all add: ParseInt64_def)
  consider "c = CHR ''-''" | "c = CHR ''+''" | "c \<noteq> CHR ''-''" "c \<noteq> CHR ''+''"
    by blast
  then show "numeral_of s n"
  proof cases
    case 1
    then show ?thesis
      using parse s unfolding numeral_of_def
      by - (rule exI [of _ "''-''"], rule exI [of _ cs], auto simp: ParseInt64_def Let_def split: if_split_asm)
  next
    case 2
    then show ?thesis
      using parse s unfolding numeral_of_def
      by - (rule exI [of _ "''+''"], rule exI [of _ cs], auto simp: ParseInt64_def Let_def split: if_split_asm)
  next
    case 3
    then show ?thesis
      using parse s unfolding numeral_of_def
      by - (rule exI [of _ "[]"], rule exI [of _ s], auto simp: ParseInt64_def Let_def split: if_split_asm)
  qed
next
  assume "numeral_of s n"
  then obtain sign ds where s: "s = sign @ ds" "ds \<noteq> []" "list_all is_digit ds"
    and v: "sign \<in> {[], ''+''} \<and> n = int (dec_value ds) \<and> n < 2 ^ 63 \<or> sign = ''-'' \<and> n = - int (dec_value ds) \<and> - (2 ^ 63) \<le> n"
    unfolding numeral_of_def by blast
  obtain c cs where ds: "ds = c # cs"
    using s(2) by (cases ds) simp_all
  have "c \<noteq> CHR ''-''" "c \<noteq> CHR ''+''"
    using s(3) digit_no_sign [of c] by (auto simp: ds)
  then show "ParseInt64 s = Some n"
    using s v by (auto simp: ParseInt64_def Let_def ds)
qed

lemma numeral_chars: "numeral_of s n \<Longrightarrow> c \<in> set s \<Longrightarrow> is_digit c \<or> c = CHR ''+'' \<or> c = CHR ''-''"
  by (auto simp: numeral_of_def list_all_iff)

definition newEnough :: "int \<Rightarrow> int \<Rightarrow> int \<Rightarrow> bool" where
  "newEnough x y z \<longleftrightarrow> 0 < x \<or> x = 0 \<and> (5 < y \<or> y = 5 \<and> 66 \<le> z)"

lemma Split_three: "Split s CHR ''.'' = [a, b, c] \<longleftrightarrow> s = a @ ''.'' @ b @ ''.'' @ c \<and> CHR ''.'' \<notin> set a \<union> set b \<union> set c"
proof
  assume "Split s CHR ''.'' = [a, b, c]"
  then show "s = a @ ''.'' @ b @ ''.'' @ c \<and> CHR ''.'' \<notin> set a \<union> set b \<union> set c"
    using Join_Split [of s "CHR ''.''"] Split_no_sep [of _ s "CHR ''.''"] by auto
next
  assume "s = a @ ''.'' @ b @ ''.'' @ c \<and> CHR ''.'' \<notin> set a \<union> set b \<union> set c"
  then show "Split s CHR ''.'' = [a, b, c]"
    using Split_Join [of "[a, b, c]" "CHR ''.''"] by simp
qed

lemma museVersion_stripped:
  "museVersionAdmitted version \<longleftrightarrow> (\<exists>a b c x y z. TrimPrefix version ''v'' = a @ ''.'' @ b @ ''.'' @ c \<and>
     numeral_of a x \<and> numeral_of b y \<and> numeral_of c z \<and> list_all is_digit c \<and> newEnough x y z)" (is "?L \<longleftrightarrow> ?R")
proof
  assume ?L
  then obtain a b c x y z where v: "Split (TrimPrefix version ''v'') CHR ''.'' = [a, b, c]" "\<not> ContainsAny c ''-+''"
    "ParseInt64 a = Some x" "ParseInt64 b = Some y" "ParseInt64 c = Some z" "newEnough x y z"
    unfolding museVersionAdmitted_def newEnough_def by (auto split: list.split_asm option.split_asm)
  moreover have "list_all is_digit c"
    using v(2) numeral_chars [of c z] v(5) unfolding ParseInt64_numeral by (auto simp: ContainsAny_def list_all_iff)
  ultimately show ?R
    unfolding Split_three ParseInt64_numeral by blast
next
  assume ?R
  then obtain a b c x y z where v: "TrimPrefix version ''v'' = a @ ''.'' @ b @ ''.'' @ c"
    "numeral_of a x" "numeral_of b y" "numeral_of c z" "list_all is_digit c" "newEnough x y z"
    by blast
  have dot: "CHR ''.'' \<notin> set w" if "numeral_of w n" for w n
    using numeral_chars [OF that, of "CHR ''.''"] digit_no_sign by auto
  have "Split (TrimPrefix version ''v'') CHR ''.'' = [a, b, c]"
    unfolding Split_three using v(1) dot [OF v(2)] dot [OF v(3)] dot [OF v(4)] by simp
  moreover have "\<not> ContainsAny c ''-+''"
    using v(5) digit_no_sign by (auto simp: ContainsAny_def list_all_iff)
  ultimately show ?L
    using v(2-4,6) unfolding museVersionAdmitted_def newEnough_def by (simp add: ParseInt64_numeral [symmetric])
qed

lemma museVersion_iff:
  "museVersionAdmitted version \<longleftrightarrow> (\<exists>prefix a b c x y z. version = prefix @ a @ ''.'' @ b @ ''.'' @ c \<and> prefix \<in> {[], ''v''} \<and>
     numeral_of a x \<and> numeral_of b y \<and> numeral_of c z \<and> list_all is_digit c \<and> newEnough x y z)" (is "_ \<longleftrightarrow> ?R")
proof -
  have plain: "TrimPrefix (a @ s) ''v'' = a @ s" if "numeral_of a n" for a n s
  proof -
    have "a \<noteq> []"
      using that by (auto simp: numeral_of_def)
    then obtain d ds where a: "a = d # ds"
      by (cases a) simp_all
    then have "d \<noteq> CHR ''v''"
      using numeral_chars [OF that, of d] digit_no_sign [of d] by auto
    then show ?thesis
      by (simp add: TrimPrefix_def HasPrefix_def a)
  qed
  have strip: "TrimPrefix (''v'' @ s) ''v'' = s" for s
    by (simp add: TrimPrefix_def HasPrefix_def)
  have cases: "version = [] @ TrimPrefix version ''v'' \<or> version = ''v'' @ TrimPrefix version ''v''"
    by (cases version) (auto simp: TrimPrefix_def HasPrefix_def)
  show ?thesis
    unfolding museVersion_stripped
  proof
    assume "\<exists>a b c x y z. TrimPrefix version ''v'' = a @ ''.'' @ b @ ''.'' @ c \<and>
      numeral_of a x \<and> numeral_of b y \<and> numeral_of c z \<and> list_all is_digit c \<and> newEnough x y z"
    then show ?R
      using cases by (metis insertI1 insertI2)
  next
    assume ?R
    then obtain prefix a b c x y z where v: "version = prefix @ a @ ''.'' @ b @ ''.'' @ c" "prefix \<in> {[], ''v''}"
      "numeral_of a x" "numeral_of b y" "numeral_of c z" "list_all is_digit c" "newEnough x y z"
      by blast
    then have "TrimPrefix version ''v'' = a @ ''.'' @ b @ ''.'' @ c"
      using plain [OF v(3)] strip by auto
    then show "\<exists>a b c x y z. TrimPrefix version ''v'' = a @ ''.'' @ b @ ''.'' @ c \<and>
      numeral_of a x \<and> numeral_of b y \<and> numeral_of c z \<and> list_all is_digit c \<and> newEnough x y z"
      using v by blast
  qed
qed

section \<open>Admission\<close>

definition moduleVersion :: "planDeps \<Rightarrow> string" where
  "moduleVersion d = (let version = (case ModuleVersion d of Some v \<Rightarrow> v | None \<Rightarrow> linked d)
     in if version = [] then ''unknown'' else version)"

lemma museChecks_iff:
  "museChecks d req = None \<longleftrightarrow>
    (\<forall>c. reqContext req = Some c \<and> ctxEnvironment c = ''muse'' \<longrightarrow> museVersionAdmitted (moduleVersion d) \<and>
      (ctxRootContext c = None \<or> interactive (reqNative req)))"
  by (auto simp: museChecks_def checkMuseModuleVersion_def checkMuseInteractiveForm_def moduleVersion_def Let_def museForm_iff [symmetric]
      split: option.split)

lemma unknown_version: "\<not> museVersionAdmitted ''unknown''"
  by code_simp

definition planQuery :: "planRequest \<Rightarrow> string \<times> string \<times> string" where
  "planQuery req = (reqRuntime req, reqModel req, reqHome req)"

lemma Build_Inr:
  "snd (Build d req) = Inr p \<longleftrightarrow>
    TrimSpace (reqHome req) \<noteq> [] \<and> TrimSpace (reqWorkDir req) \<noteq> [] \<and> museChecks d req = None \<and>
    (\<exists>build availability v. BuildLaunch d = Some build \<and> Availability d = Some availability \<and> build (SpawnRequest req) = Inr p \<and>
      availability (planQuery req) = Inr v \<and> serviceable v)"
  by (auto simp: Build_def planQuery_def Let_def split: option.split sum.split)

lemma Build_calls:
  "fst (Build d req) = [] \<or> fst (Build d req) = [CallBuild (SpawnRequest req)] \<and> isl (snd (Build d req)) \<or>
   fst (Build d req) = [CallBuild (SpawnRequest req), CallAvailability (planQuery req)]"
  by (auto simp: Build_def planQuery_def Let_def split: option.split sum.split)

lemma unknown_module:
  assumes "reqContext req = Some c" "ctxEnvironment c = ''muse''" "moduleVersion d = ''unknown''"
  shows "museChecks d req = Some (Refused (''agents-management module version=unknown required=v0.5.66-or-later for managed Muse'') None)"
  using assms unknown_version by (simp add: museChecks_def moduleVersion_def checkMuseModuleVersion_def Let_def)

lemma Build_refused:
  assumes "museChecks d req = Some e"
  shows "fst (Build d req) = [] \<and> isl (snd (Build d req))"
  using assms by (auto simp: Build_def split: option.split)

text \<open>C6. Admission of a plan. Whatever the outcome, the module is asked at most once for a build with
  exactly the request's members, and then at most once for the limits of the same runtime, model
  and managed home. A plan results exactly when home and working directory are not blank, both
  boundaries are wired, the Muse checks pass, the build succeeds and its verdict is
  serviceable; so an unreadable verdict never admits. For the context of an accepted Muse
  fragment of revision 4 the checks mean an admitted module version and, when the fragment carries
  a root context, a tail without \<open>exec\<close> or \<open>serve\<close> in command position before \<open>--\<close>. A version is
  admitted exactly when it is three numerals, with an optional \<open>v\<close> before them and nothing but
  digits in the last, that are 0.5.66 or later; a version that neither the injected nor the build
  information names is refused by name, and nothing is asked of the module.\<close>

theorem plan_admission:
  "(\<exists>n. fst (Build d req) = take n [CallBuild (SpawnRequest req), CallAvailability (planQuery req)]) \<and>
    (\<forall>p. snd (Build d req) = Inr p \<longleftrightarrow>
      TrimSpace (reqHome req) \<noteq> [] \<and> TrimSpace (reqWorkDir req) \<noteq> [] \<and> museChecks d req = None \<and>
      (\<exists>build availability v. BuildLaunch d = Some build \<and> Availability d = Some availability \<and>
        build (SpawnRequest req) = Inr p \<and> availability (planQuery req) = Inr v \<and> serviceable v)) \<and>
    (\<forall>data f c1 c4 intent. Fragment.Parse data = Inr f \<and> Environment f = EnvMuse \<and> Revision f = IdentityV4 \<and>
        reqContext req = ContextOf c1 c4 f intent \<longrightarrow>
      (museChecks d req = None \<longleftrightarrow> museVersionAdmitted (moduleVersion d) \<and> (RootContext f = None \<or> interactive (reqNative req))) \<and>
      ((case ModuleVersion d of Some v \<Rightarrow> v | None \<Rightarrow> linked d) \<in> {[], ''unknown''} \<longrightarrow>
        museChecks d req = Some (Refused (''agents-management module version=unknown required=v0.5.66-or-later for managed Muse'') None) \<and>
        fst (Build d req) = [] \<and> isl (snd (Build d req)))) \<and>
    (\<forall>version. museVersionAdmitted version \<longleftrightarrow>
      (\<exists>prefix a b c x y z. version = prefix @ a @ ''.'' @ b @ ''.'' @ c \<and> prefix \<in> {[], ''v''} \<and>
        numeral_of a x \<and> numeral_of b y \<and> numeral_of c z \<and> list_all is_digit c \<and> newEnough x y z)) \<and>
    (\<forall>a b c. a < 2 ^ 63 \<and> b < 2 ^ 63 \<and> c < 2 ^ 63 \<longrightarrow>
      (museVersionAdmitted (''v'' @ dec a @ ''.'' @ dec b @ ''.'' @ dec c) \<longleftrightarrow> 0 < a \<or> 5 < b \<or> b = 5 \<and> 66 \<le> c)) \<and>
    (\<forall>a b c s. \<not> museVersionAdmitted (''v'' @ dec a @ ''.'' @ dec b @ ''.'' @ dec c @ CHR ''-'' # s))"
proof (intro conjI allI impI)
  have "fst (Build d req) = take 0 [CallBuild (SpawnRequest req), CallAvailability (planQuery req)] \<or>
      fst (Build d req) = take 1 [CallBuild (SpawnRequest req), CallAvailability (planQuery req)] \<or>
      fst (Build d req) = take 2 [CallBuild (SpawnRequest req), CallAvailability (planQuery req)]"
    using Build_calls [of d req] by auto
  then show "\<exists>n. fst (Build d req) = take n [CallBuild (SpawnRequest req), CallAvailability (planQuery req)]"
    by blast
  show "snd (Build d req) = Inr p \<longleftrightarrow>
      TrimSpace (reqHome req) \<noteq> [] \<and> TrimSpace (reqWorkDir req) \<noteq> [] \<and> museChecks d req = None \<and>
      (\<exists>build availability v. BuildLaunch d = Some build \<and> Availability d = Some availability \<and>
        build (SpawnRequest req) = Inr p \<and> availability (planQuery req) = Inr v \<and> serviceable v)" for p
    by (rule Build_Inr)
  fix data f c1 c4 intent
  assume "Fragment.Parse data = Inr f \<and> Environment f = EnvMuse \<and> Revision f = IdentityV4 \<and> reqContext req = ContextOf c1 c4 f intent"
  then have muse: "reqContext req = ContextOf c1 c4 f intent" "ContextOf c1 c4 f intent \<noteq> None"
    "ctxEnvironment (the (ContextOf c1 c4 f intent)) = ''muse''" "ctxRootContext (the (ContextOf c1 c4 f intent)) = RootContext f"
    by (simp_all add: ContextOf_def Let_def EnvMuse_def)
  then show "museChecks d req = None \<longleftrightarrow> museVersionAdmitted (moduleVersion d) \<and> (RootContext f = None \<or> interactive (reqNative req))"
    by (auto simp: museChecks_iff)
  assume none: "(case ModuleVersion d of Some v \<Rightarrow> v | None \<Rightarrow> linked d) \<in> {[], ''unknown''}"
  then have "moduleVersion d = ''unknown''"
    by (auto simp: moduleVersion_def Let_def)
  then show refusal: "museChecks d req = Some (Refused (''agents-management module version=unknown required=v0.5.66-or-later for managed Muse'') None)"
    using muse by (intro unknown_module [of req "the (ContextOf c1 c4 f intent)"]) simp_all
  show "fst (Build d req) = []" "isl (snd (Build d req))"
    using Build_refused [OF refusal] by blast+
next
  show "museVersionAdmitted (''v'' @ dec a @ ''.'' @ dec b @ ''.'' @ dec c) \<longleftrightarrow> 0 < a \<or> 5 < b \<or> b = 5 \<and> 66 \<le> c"
    if "a < 2 ^ 63 \<and> b < 2 ^ 63 \<and> c < 2 ^ 63" for a b c
    using that by (intro museVersion_exact) blast+
qed (rule museVersion_iff, rule museVersion_prerelease)

text \<open>A managed Muse request on module version 0.6.0 with an interactive tail, and the last version that
  is too old.\<close>

theorem plan_admission_witness:
  "\<exists>d req p f. Fragment.Parse muse_document = Inr f \<and> reqContext req = ContextOf ''c1'' ''c4'' f [] \<and>
    reqNative req = [''--model'', ''exec''] \<and> ModuleVersion d = Some ''v0.6.0'' \<and> snd (Build d req) = Inr p \<and>
    \<not> museVersionAdmitted ''v0.5.65''"
proof -
  define f where "f = muse_fragment\<lparr>fCanonical := Canonical muse_root, fDigest := Digest muse_root\<rparr>"
  define req where "req = \<lparr>reqRuntime = ''r'', reqModel = ''m'', reqEffort = [], reqMode = ''native'', reqToolRelease = [],
    reqNative = [''--model'', ''exec''], reqContext = ContextOf ''c1'' ''c4'' f [], reqHome = ''/h'', reqWorkDir = ''/w'', reqEnv = []\<rparr>"
  define p where "p = \<lparr>planBinary = ''muse'', planWorkDir = ''/w'', planArgv = [], planEnv = [], planStdin = (False, [])\<rparr>"
  define d where "d = \<lparr>BuildLaunch = Some (\<lambda>r. Inr p),
    Availability = Some (\<lambda>q. Inr \<lparr>serviceable = True, verdictState = ''healthy'', verdictUntil = None, verdictChecked = [],
      verdictObserved = [], verdictFailures = []\<rparr>), ModuleVersion = Some ''v0.6.0'', linked = []\<rparr>"
  have parse: "Fragment.Parse muse_document = Inr f"
    unfolding f_def by (rule muse_parses)
  have "museForm [''--model'', ''exec''] = None" "museVersionAdmitted ''v0.6.0''"
    by code_simp+
  then have "interactive (reqNative req)" "museVersionAdmitted (moduleVersion d)"
    by (simp_all add: museForm_sound req_def d_def moduleVersion_def del: museForm.simps)
  moreover have "Environment f = EnvMuse" "Revision f = IdentityV4" "reqContext req = ContextOf ''c1'' ''c4'' f []"
    by (simp_all add: f_def examples_facts req_def)
  ultimately have "museChecks d req = None"
    using plan_admission [THEN conjunct2, THEN conjunct2, THEN conjunct1, rule_format, of muse_document f req "''c1''" "''c4''" "[]" d,
        THEN conjunct1] parse
    by simp
  moreover have "TrimSpace ''/h'' \<noteq> []" "TrimSpace ''/w'' \<noteq> []"
    by code_simp+
  ultimately have "snd (Build d req) = Inr p"
    using plan_admission [THEN conjunct2, THEN conjunct1, rule_format, of d req p] by (simp add: req_def d_def)
  moreover have "''v'' @ dec 0 @ ''.'' @ dec 5 @ ''.'' @ dec 65 = ''v0.5.65''"
    by code_simp
  moreover have "\<not> museVersionAdmitted (''v'' @ dec 0 @ ''.'' @ dec 5 @ ''.'' @ dec 65)"
    by (subst plan_admission [THEN conjunct2, THEN conjunct2, THEN conjunct2, THEN conjunct2, THEN conjunct1, rule_format]) simp_all
  ultimately have "snd (Build d req) = Inr p \<and> \<not> museVersionAdmitted ''v0.5.65''"
    by (simp only: simp_thms)
  then show ?thesis
    using parse \<open>reqContext req = ContextOf ''c1'' ''c4'' f []\<close> by (intro exI [of _ d] exI [of _ req] exI [of _ p] exI [of _ f]) (simp add: req_def d_def)
qed

end
