(* ===== verification/Execution.thy ===== *)
theory Execution
  imports Composition SessionRegistry Diagnostics
begin

text \<open>
  \<open>internal/execution/execution.go\<close> and the wait of \<open>process.go\<close>: the search for the binary, the
  checks before the child, and its exit status. The file system and the process are parameters;
  a run is the list of what it writes and does, in order, with the exit status of the launcher.
\<close>

section \<open>The binary\<close>

record fileInfo =
  regularFile :: bool
  anyExecuteBit :: bool

text \<open>\<open>AbsRel\<close> is \<open>filepath.Abs\<close> of a relative path, against the working directory of the process.\<close>

record fileSystem =
  AbsRel :: "string \<Rightarrow> string + string"
  StatFile :: "string \<Rightarrow> string + fileInfo"

abbreviation IsAbs :: "string \<Rightarrow> bool" where
  "IsAbs p \<equiv> HasPrefix p ''/''"

definition Abs :: "fileSystem \<Rightarrow> string \<Rightarrow> string + string" where
  "Abs fs p = (if IsAbs p then Inr (Clean p) else AbsRel fs p)"

definition checkExecutable :: "fileSystem \<Rightarrow> string \<Rightarrow> string \<Rightarrow> string + string" where
  "checkExecutable fs workdir path =
     res_bind (Abs fs (if IsAbs path then path else JoinPath workdir path)) (\<lambda>p.
     res_bind (StatFile fs p) (\<lambda>info.
       if \<not> regularFile info \<or> \<not> anyExecuteBit info then Inl ''permission denied'' else Inr p))"

definition SplitList :: "string \<Rightarrow> string list" where
  "SplitList path = (if path = [] then [] else Split path CHR '':'')"

fun searchDirs :: "fileSystem \<Rightarrow> string \<Rightarrow> string \<Rightarrow> string list \<Rightarrow> string option" where
  "searchDirs fs workdir binary [] = None"
| "searchDirs fs workdir binary (dir # dirs) = (case checkExecutable fs workdir (JoinPath dir binary) of
     Inr p \<Rightarrow> Some p
   | Inl _ \<Rightarrow> searchDirs fs workdir binary dirs)"

fun searchPath :: "fileSystem \<Rightarrow> string \<Rightarrow> string \<Rightarrow> string list \<Rightarrow> string option" where
  "searchPath fs workdir binary [] = None"
| "searchPath fs workdir binary (item # es) = (case CutPrefix item ''PATH='' of
     Some path \<Rightarrow> (case searchDirs fs workdir binary (SplitList path) of
       Some p \<Rightarrow> Some p
     | None \<Rightarrow> searchPath fs workdir binary es)
   | None \<Rightarrow> searchPath fs workdir binary es)"

definition executable :: "fileSystem \<Rightarrow> string \<Rightarrow> string \<Rightarrow> string list \<Rightarrow> string + string" where
  "executable fs binary workdir envs =
     (if CHR ''/'' \<in> set binary then checkExecutable fs workdir binary
      else case searchPath fs workdir binary envs of
        Some p \<Rightarrow> Inr p
      | None \<Rightarrow> Inl ''executable file not found in $PATH'')"

section \<open>The child\<close>

text \<open>One answer of \<open>wait4\<close>, and how the child's run ended.\<close>

datatype waitStep = Interrupted | Stopped | WaitFailed string | ExitedWith int | SignaledWith nat

datatype childEnd = ChildOk | ChildExit int | ChildSignal nat | ChildError string

datatype terminalAct = RestoreTerminal | StopSelf | GiveTerminal | SignalGroup nat

text \<open>The wait loop: what it does at a stop, and its result; \<open>None\<close> while no answer ends it.\<close>

fun waitLoop :: "bool \<Rightarrow> waitStep list \<Rightarrow> terminalAct list \<times> childEnd option" where
  "waitLoop tty [] = ([], None)"
| "waitLoop tty (Interrupted # ws) = waitLoop tty ws"
| "waitLoop tty (Stopped # ws) =
     (case waitLoop tty ws of (acts, r) \<Rightarrow> ((if tty then [RestoreTerminal] else []) @ StopSelf # acts, r))"
| "waitLoop tty (WaitFailed e # ws) = ([], Some (ChildError e))"
| "waitLoop tty (ExitedWith n # ws) = ([], Some (if n = 0 then ChildOk else ChildExit n))"
| "waitLoop tty (SignaledWith s # ws) = ([], Some (ChildSignal s))"

text \<open>A signal of the launcher, forwarded; 18 is \<open>SIGCONT\<close>.\<close>

definition forwardSignal :: "nat \<Rightarrow> bool \<Rightarrow> nat \<Rightarrow> terminalAct list" where
  "forwardSignal sigcont tty s = (if s = sigcont \<and> tty then [GiveTerminal] else []) @ [SignalGroup s]"

section \<open>A run\<close>

record processSpec =
  procPath :: string
  procArgs :: "string list"
  procEnv :: "string list"
  procDir :: string
  procStdin :: "string option"

datatype event =
  WarningLine string | DiagnosticEvent string string | Spawn processSpec | StartedHook | TerminalActs "terminalAct list"

text \<open>What the launch meets: the boundary callback (\<open>None\<close> when it is not bound) with its error, the
  probe of the MCP layer, the resolver of the child's environment (\<open>None\<close> for an error or a nil
  environment), whether a terminal is owned, the error of the start and the answers of the wait.\<close>

record runWorld =
  files :: fileSystem
  layerProbe :: probe
  boundaryResult :: "string option option"
  childEnvironment :: "(string list \<Rightarrow> string list option) option"
  ownsTerminal :: bool
  startError :: "string option"
  waits :: "waitStep list"

text \<open>\<open>strings.Cut\<close> at \<open>: \<close>.\<close>

fun cutColon :: "string \<Rightarrow> (string \<times> string) option" where
  "cutColon (c # d # s) = (if c = CHR '':'' \<and> d = CHR '' '' then Some ([], s)
     else map_option (\<lambda>(a, b). (c # a, b)) (cutColon (d # s)))"
| "cutColon _ = None"

definition failWith :: "string \<Rightarrow> event list \<times> nat" where
  "failWith text = (case cutColon text of
     Some (code, detail) \<Rightarrow> ([DiagnosticEvent code detail], ExitForCode code)
   | None \<Rightarrow> ([DiagnosticEvent ''plan_refused'' text], ExitForCode ''plan_refused''))"

definition missingText :: "string \<Rightarrow> string \<Rightarrow> string" where
  "missingText binary e = ''exec_provider_missing: '' @ binary @ '': install the provider executable and make it available on the launch PATH: '' @ e"

definition cannotText :: "string \<Rightarrow> string \<Rightarrow> string" where
  "cannotText binary e = ''exec_provider_missing: '' @ binary @ '': cannot execute provider: '' @ e"

definition layerText :: "string \<times> string \<times> string \<Rightarrow> string" where
  "layerText t = (case t of (code, path, e) \<Rightarrow> code @ '': '' @ path @ '': '' @ e)"

text \<open>The checks before the child, in order: the path of the binary and the environment.\<close>

definition preflight :: "composed \<Rightarrow> runWorld \<Rightarrow> string + string \<times> string list" where
  "preflight v w = (case boundaryResult w of
     None \<Rightarrow> Inl (''launch_boundary_required: '' @ [CHR 0xC2, CHR 0xA7] @ ''5 boundary callback is required'')
   | Some boundary \<Rightarrow>
       (case executable (files w) (cBinary v) (cWorkDir v) (cEnv v) of
          Inl e \<Rightarrow> Inl (missingText (cBinary v) e)
        | Inr p \<Rightarrow> (case CheckLaunchBoundary v (layerProbe w) of
            Some t \<Rightarrow> Inl (layerText t)
          | None \<Rightarrow> (case boundary of
              Some e \<Rightarrow> Inl e
            | None \<Rightarrow> (case childEnvironment w of
                None \<Rightarrow> Inr (p, cEnv v)
              | Some resolve \<Rightarrow> (case resolve (cEnv v) of
                  Some es \<Rightarrow> Inr (p, es)
                | None \<Rightarrow> Inl ''plan_refused: final child environment was refused''))))))"

definition spec :: "composed \<Rightarrow> string \<Rightarrow> string list \<Rightarrow> processSpec" where
  "spec v p es = \<lparr>procPath = p, procArgs = cBinary v # cArgv v, procEnv = es, procDir = cWorkDir v,
     procStdin = (if fst (cRawStdin v) then Some (snd (cRawStdin v)) else None)\<rparr>"

text \<open>The exit status; \<open>None\<close> while the child runs.\<close>

fun childStatus :: "string \<Rightarrow> childEnd option \<Rightarrow> event list \<times> int option" where
  "childStatus binary None = ([], None)"
| "childStatus binary (Some ChildOk) = ([], Some 0)"
| "childStatus binary (Some (ChildExit n)) = ([], Some n)"
| "childStatus binary (Some (ChildSignal s)) = ([], Some (128 + int s))"
| "childStatus binary (Some (ChildError e)) =
     (case failWith (cannotText binary e) of (evs, code) \<Rightarrow> (evs, Some (int code)))"

definition RunChild :: "composed \<Rightarrow> runWorld \<Rightarrow> processSpec \<Rightarrow> event list \<times> int option" where
  "RunChild v w ps = (case startError w of
     Some e \<Rightarrow> childStatus (cBinary v) (Some (ChildError e))
   | None \<Rightarrow>
       (let (acts, r) = waitLoop (ownsTerminal w) (waits w);
            (evs, status) = childStatus (cBinary v) r
        in (Spawn ps # StartedHook # (if acts = [] then [] else [TerminalActs acts]) @ evs, status)))"

definition RunLaunch :: "composed \<Rightarrow> runWorld \<Rightarrow> event list \<times> int option" where
  "RunLaunch v w =
     (let warnings = map WarningLine (Warnings v)
      in case preflight v w of
           Inl text \<Rightarrow> (case failWith text of (evs, code) \<Rightarrow> (warnings @ evs, Some (int code)))
         | Inr (p, es) \<Rightarrow> (case RunChild v w (spec v p es) of (evs, status) \<Rightarrow> (warnings @ evs, status)))"

end
