(* ===== verification/ExecutionProps.thy ===== *)
theory ExecutionProps
  imports Execution DiagnosticsProps
begin

text \<open>
  A run starts the child once and only after every check, with exactly the composed values, and
  keeps its exit status.
\<close>

section \<open>The search\<close>

definition candidates :: "string \<Rightarrow> string list \<Rightarrow> string list" where
  "candidates binary es = concat (map (\<lambda>item. case CutPrefix item ''PATH='' of
     None \<Rightarrow> []
   | Some path \<Rightarrow> map (\<lambda>dir. JoinPath dir binary) (SplitList path)) es)"

definition firstMatch :: "('a \<Rightarrow> 'e + 'b) \<Rightarrow> 'a list \<Rightarrow> 'b option" where
  "firstMatch f xs = (case dropWhile (\<lambda>x. isl (f x)) xs of [] \<Rightarrow> None | x # _ \<Rightarrow> Some (projr (f x)))"

lemma firstMatch_simps:
  "firstMatch f [] = None"
  "firstMatch f (x # xs) = (case f x of Inr y \<Rightarrow> Some y | Inl _ \<Rightarrow> firstMatch f xs)"
  by (auto simp: firstMatch_def split: sum.split)

lemma firstMatch_append: "firstMatch f (xs @ ys) = (case firstMatch f xs of Some y \<Rightarrow> Some y | None \<Rightarrow> firstMatch f ys)"
  by (induction xs) (auto simp: firstMatch_simps split: sum.split)

lemma firstMatch_Some:
  "firstMatch f xs = Some y \<longleftrightarrow> (\<exists>pre x post. xs = pre @ x # post \<and> f x = Inr y \<and> (\<forall>z \<in> set pre. isl (f z)))"
proof (induction xs)
  case (Cons a xs)
  show ?case
  proof (cases "f a")
    case (Inl e)
    then have "firstMatch f (a # xs) = firstMatch f xs" by (simp add: firstMatch_simps)
    moreover have "(\<exists>pre x post. a # xs = pre @ x # post \<and> f x = Inr y \<and> (\<forall>z \<in> set pre. isl (f z))) \<longleftrightarrow>
        (\<exists>pre x post. xs = pre @ x # post \<and> f x = Inr y \<and> (\<forall>z \<in> set pre. isl (f z)))" (is "?A \<longleftrightarrow> ?B")
    proof
      assume ?A
      then obtain pre x post where *: "a # xs = pre @ x # post" "f x = Inr y" "\<forall>z \<in> set pre. isl (f z)" by blast
      with Inl show ?B by (cases pre) auto
    next
      assume ?B
      then obtain pre x post where "xs = pre @ x # post" "f x = Inr y" "\<forall>z \<in> set pre. isl (f z)" by blast
      with Inl show ?A by (intro exI [of _ "a # pre"] exI [of _ x] exI [of _ post]) simp
    qed
    ultimately show ?thesis using Cons.IH by simp
  next
    case (Inr z)
    then have "firstMatch f (a # xs) = Some z" by (simp add: firstMatch_simps)
    moreover have "pre = []" if "a # xs = pre @ x # post" "\<forall>z \<in> set pre. isl (f z)" for pre x post
      using that Inr by (cases pre) auto
    moreover have "z = y" if "a # xs = pre @ x # post" "\<forall>z \<in> set pre. isl (f z)" "f x = Inr y" for pre x post
      using that Inr by (cases pre) auto
    ultimately show ?thesis
      using Inr by (auto intro: exI [of _ "[]"])
  qed
qed (simp add: firstMatch_simps)

lemma searchDirs_first: "searchDirs fs wd b dirs = firstMatch (checkExecutable fs wd) (map (\<lambda>dir. JoinPath dir b) dirs)"
  by (induction dirs) (simp_all add: firstMatch_simps split: sum.split)

lemma searchPath_first: "searchPath fs wd b es = firstMatch (checkExecutable fs wd) (candidates b es)"
proof (induction es)
  case (Cons item es)
  then show ?case
    by (cases "CutPrefix item ''PATH=''") (simp_all add: candidates_def searchDirs_first firstMatch_append split: option.split)
qed (simp add: candidates_def firstMatch_simps)

lemma executable_Inr:
  "executable fs b wd es = Inr p \<longleftrightarrow>
    (if CHR ''/'' \<in> set b then checkExecutable fs wd b = Inr p
     else \<exists>pre c post. candidates b es = pre @ c # post \<and> checkExecutable fs wd c = Inr p \<and> (\<forall>x \<in> set pre. isl (checkExecutable fs wd x)))"
  unfolding executable_def searchPath_first firstMatch_Some [symmetric] by (auto split: option.split)

lemma Clean_rooted: "HasPrefix p ''/'' \<Longrightarrow> HasPrefix (Clean p) ''/''"
  by (simp add: Clean_def Let_def HasPrefix_def)

lemma checkExecutable_spec:
  assumes "checkExecutable fs wd path = Inr p" "\<And>q r. AbsRel fs q = Inr r \<Longrightarrow> IsAbs r"
  shows "IsAbs p \<and> (\<exists>info. StatFile fs p = Inr info \<and> regularFile info \<and> anyExecuteBit info)"
proof -
  obtain info where "Abs fs (if IsAbs path then path else JoinPath wd path) = Inr p" "StatFile fs p = Inr info"
    "regularFile info" "anyExecuteBit info"
    using assms(1) by (auto simp: checkExecutable_def split: if_splits)
  moreover have "IsAbs p" if "Abs fs q = Inr p" for q
    using that assms(2) Clean_rooted by (auto simp: Abs_def split: if_splits)
  ultimately show ?thesis by blast
qed

section \<open>The wait\<close>

definition continues :: "waitStep \<Rightarrow> bool" where
  "continues s \<longleftrightarrow> s \<in> {Interrupted, Stopped}"

fun ending :: "waitStep \<Rightarrow> childEnd" where
  "ending (WaitFailed e) = ChildError e"
| "ending (ExitedWith n) = (if n = 0 then ChildOk else ChildExit n)"
| "ending (SignaledWith s) = ChildSignal s"
| "ending _ = ChildOk"

definition stopActs :: "bool \<Rightarrow> terminalAct list" where
  "stopActs tty = (if tty then [RestoreTerminal] else []) @ [StopSelf]"

lemma waitLoop_spec:
  "waitLoop tty ws = (concat (map (\<lambda>_. stopActs tty) (filter (\<lambda>s. s = Stopped) (takeWhile continues ws))),
     case dropWhile continues ws of [] \<Rightarrow> None | s # _ \<Rightarrow> Some (ending s))"
  by (induction tty ws rule: waitLoop.induct) (auto simp: continues_def stopActs_def)

section \<open>A run\<close>

fun isSpawn :: "event \<Rightarrow> bool" where
  "isSpawn (Spawn ps) \<longleftrightarrow> True" | "isSpawn _ \<longleftrightarrow> False"

fun isDiagnostic :: "event \<Rightarrow> bool" where
  "isDiagnostic (DiagnosticEvent c d) \<longleftrightarrow> True" | "isDiagnostic _ \<longleftrightarrow> False"

lemma preflight_Inr:
  "preflight v w = Inr (p, es) \<longleftrightarrow>
    boundaryResult w = Some None \<and> executable (files w) (cBinary v) (cWorkDir v) (cEnv v) = Inr p \<and>
    CheckLaunchBoundary v (layerProbe w) = None \<and>
    (case childEnvironment w of None \<Rightarrow> es = cEnv v | Some resolve \<Rightarrow> resolve (cEnv v) = Some es)"
  by (auto simp: preflight_def split: option.splits sum.splits)

text \<open>The checks before the child, in the order they are made: each with the text it refuses with, if it
  does.\<close>

definition checksOf :: "composed \<Rightarrow> runWorld \<Rightarrow> string option list" where
  "checksOf v w =
     [if boundaryResult w = None then Some (''launch_boundary_required: '' @ [CHR 0xC2, CHR 0xA7] @ ''5 boundary callback is required'') else None,
      case executable (files w) (cBinary v) (cWorkDir v) (cEnv v) of Inl e \<Rightarrow> Some (missingText (cBinary v) e) | Inr _ \<Rightarrow> None,
      map_option layerText (CheckLaunchBoundary v (layerProbe w)),
      (case boundaryResult w of Some r \<Rightarrow> r | None \<Rightarrow> None),
      (case childEnvironment w of
         Some resolve \<Rightarrow> if resolve (cEnv v) = None then Some ''plan_refused: final child environment was refused'' else None
       | None \<Rightarrow> None)]"

definition firstRefusal :: "string option list \<Rightarrow> string \<Rightarrow> bool" where
  "firstRefusal cs t \<longleftrightarrow> (\<exists>pre post. cs = pre @ Some t # post \<and> (\<forall>c \<in> set pre. c = None))"

lemma firstRefusal_simps:
  "\<not> firstRefusal [] t" "firstRefusal (None # cs) t \<longleftrightarrow> firstRefusal cs t" "firstRefusal (Some s # cs) t \<longleftrightarrow> s = t"
proof -
  show "\<not> firstRefusal [] t"
    by (simp add: firstRefusal_def)
  show "firstRefusal (None # cs) t \<longleftrightarrow> firstRefusal cs t"
  proof
    assume "firstRefusal (None # cs) t"
    then obtain pre post where "None # cs = pre @ Some t # post" "\<forall>c \<in> set pre. c = None"
      unfolding firstRefusal_def by blast
    then show "firstRefusal cs t"
      unfolding firstRefusal_def by (cases pre) auto
  next
    assume "firstRefusal cs t"
    then obtain pre post where "cs = pre @ Some t # post" "\<forall>c \<in> set pre. c = None"
      unfolding firstRefusal_def by blast
    then have "None # cs = (None # pre) @ Some t # post \<and> (\<forall>c \<in> set (None # pre). c = None)"
      by simp
    then show "firstRefusal (None # cs) t"
      unfolding firstRefusal_def by blast
  qed
  show "firstRefusal (Some s # cs) t \<longleftrightarrow> s = t"
  proof
    assume "firstRefusal (Some s # cs) t"
    then obtain pre post where "Some s # cs = pre @ Some t # post" "\<forall>c \<in> set pre. c = None"
      unfolding firstRefusal_def by blast
    then show "s = t"
      by (cases pre) auto
  next
    assume "s = t"
    then have "Some s # cs = [] @ Some t # cs" by simp
    then show "firstRefusal (Some s # cs) t"
      unfolding firstRefusal_def by (metis empty_iff empty_set)
  qed
qed

lemma preflight_Inl: "preflight v w = Inl t \<longleftrightarrow> firstRefusal (checksOf v w) t"
  by (cases "boundaryResult w"; cases "executable (files w) (cBinary v) (cWorkDir v) (cEnv v)";
      cases "CheckLaunchBoundary v (layerProbe w)"; cases "the (boundaryResult w)"; cases "childEnvironment w")
    (simp_all add: preflight_def checksOf_def firstRefusal_simps split: option.split)

lemma failWith_one: "\<exists>c d. failWith t = ([DiagnosticEvent c d], ExitForCode c)"
  by (auto simp: failWith_def split: option.split)

lemma childStatus_events:
  "(\<exists>b. r = Some (ChildError b)) \<or> fst (childStatus binary r) = []"
  by (cases r; cases "the r") auto

lemma failWith_events: "filter isSpawn (fst (failWith t)) = []" "snd (failWith t) \<noteq> 0"
  "length (filter isDiagnostic (fst (failWith t))) = 1"
proof -
  have "ExitForCode c \<noteq> 0" for c
    using exits [of c] by auto
  then show "filter isSpawn (fst (failWith t)) = []" "snd (failWith t) \<noteq> 0"
    "length (filter isDiagnostic (fst (failWith t))) = 1"
    using failWith_one [of t] by auto
qed

lemma childStatus_spawn: "filter isSpawn (fst (childStatus binary r)) = []"
  using failWith_events(1) by (cases r; cases "the r") (auto split: prod.split, metis fst_conv)+

lemma cannot_status: "ExitForCode (case cutColon (cannotText b e) of Some (c, d) \<Rightarrow> c | None \<Rightarrow> ''plan_refused'') = 1"
proof -
  have "\<exists>d. cutColon (cannotText b e) = Some (''exec_provider_missing'', d)"
    by (simp add: cannotText_def)
  moreover have "ExitForCode ''exec_provider_missing'' = 1"
    by code_simp
  ultimately show ?thesis by auto
qed

lemma cannot_exit: "snd (failWith (cannotText b e)) = 1"
  using cannot_status [of b e] by (auto simp: failWith_def split: option.splits prod.splits)

text \<open>The status of the launcher for the answer that ends the wait.\<close>

fun waitStatus :: "waitStep \<Rightarrow> int" where
  "waitStatus (ExitedWith n) = n"
| "waitStatus (SignaledWith s) = 128 + int s"
| "waitStatus _ = 1"

lemma childStatus_ending: "\<not> continues s \<Longrightarrow> snd (childStatus b (Some (ending s))) = Some (waitStatus s)"
  using cannot_exit by (cases s) (auto simp: continues_def case_prod_beta)

lemma RunChild_started:
  assumes "startError w = None"
  shows "RunChild v w ps = (let r = waitLoop (ownsTerminal w) (waits w); c = childStatus (cBinary v) (snd r)
    in (Spawn ps # StartedHook # (if fst r = [] then [] else [TerminalActs (fst r)]) @ fst c, snd c))"
  using assms by (simp add: RunChild_def case_prod_beta Let_def)

lemma RunChild_refused:
  "startError w = Some e \<Longrightarrow> RunChild v w ps = (fst (failWith (cannotText (cBinary v) e)), Some (int (snd (failWith (cannotText (cBinary v) e)))))"
  by (simp add: RunChild_def case_prod_beta)

lemma RunChild_spawn: "filter isSpawn (fst (RunChild v w ps)) = (if startError w = None then [Spawn ps] else [])"
  using childStatus_spawn failWith_events(1)
  by (cases "startError w") (simp_all add: RunChild_started RunChild_refused Let_def)

lemma RunChild_status:
  assumes "startError w = None"
  shows "snd (RunChild v w ps) = (case dropWhile continues (waits w) of [] \<Rightarrow> None | s # _ \<Rightarrow> Some (waitStatus s))"
proof (cases "dropWhile continues (waits w)")
  case Nil
  show ?thesis
    by (simp only: RunChild_started [OF assms] waitLoop_spec Let_def snd_conv Nil list.case childStatus.simps)
next
  case (Cons s rest)
  then have "\<not> continues s"
    using hd_dropWhile [of continues "waits w"] by simp
  from childStatus_ending [OF this] show ?thesis
    by (simp only: RunChild_started [OF assms] waitLoop_spec Let_def snd_conv Cons list.case)
qed

lemma RunLaunch_eq:
  "RunLaunch v w = (case preflight v w of
     Inl t \<Rightarrow> (map WarningLine (Warnings v) @ fst (failWith t), Some (int (snd (failWith t))))
   | Inr (p, es) \<Rightarrow> (map WarningLine (Warnings v) @ fst (RunChild v w (spec v p es)), snd (RunChild v w (spec v p es))))"
  by (simp add: RunLaunch_def case_prod_beta Let_def split: sum.split)

section \<open>The contract\<close>

text \<open>C7. A run of the child. The child is started exactly when the boundary is bound and passes, the
  binary is found, the MCP layer is there and the child's environment resolves; it is started
  once, with the found path, the composed argv behind the binary's name, the composed (or
  resolved) environment, the work directory and the attached bytes or the inherited input. The
  checks are made in one order, the bound callback, the binary, the MCP layer, the boundary, the
  environment: a run is refused exactly when one of them fails, and what it reports is the text of
  the first that fails, so no later check has a say. A bare name is found as the first candidate of
  the PATH entries, in order, that is a regular executable file, and what is found is an absolute
  path. Every refusal before the child, a failed start included, is one diagnostic after the
  warnings, and its exit status is the one of its code and never success. The launcher returns once
  an answer other than an interruption or a stop arrives, with the exit status of the child or 128
  plus its signal.\<close>

theorem run_contract:
  "filter isSpawn (fst (RunLaunch v w)) =
      (case preflight v w of Inr (p, es) \<Rightarrow> if startError w = None then [Spawn (spec v p es)] else [] | Inl _ \<Rightarrow> []) \<and>
    (\<forall>p es. preflight v w = Inr (p, es) \<longleftrightarrow>
      boundaryResult w = Some None \<and> executable (files w) (cBinary v) (cWorkDir v) (cEnv v) = Inr p \<and>
      CheckLaunchBoundary v (layerProbe w) = None \<and>
      (case childEnvironment w of None \<Rightarrow> es = cEnv v | Some resolve \<Rightarrow> resolve (cEnv v) = Some es)) \<and>
    (\<forall>t. preflight v w = Inl t \<longleftrightarrow> firstRefusal (checksOf v w) t) \<and>
    (\<forall>t. firstRefusal (checksOf v w) t \<longrightarrow>
      RunLaunch v w = (map WarningLine (Warnings v) @ fst (failWith t), Some (int (snd (failWith t))))) \<and>
    (\<forall>p es e. preflight v w = Inr (p, es) \<and> startError w = Some e \<longrightarrow>
      RunLaunch v w = (map WarningLine (Warnings v) @ fst (failWith (cannotText (cBinary v) e)), Some 1)) \<and>
    (\<forall>fs b wd es p. executable fs b wd es = Inr p \<longrightarrow>
      (CHR ''/'' \<notin> set b \<longrightarrow> (\<exists>pre c post. candidates b es = pre @ c # post \<and> checkExecutable fs wd c = Inr p \<and>
         (\<forall>x \<in> set pre. isl (checkExecutable fs wd x)))) \<and>
      ((\<forall>q r. AbsRel fs q = Inr r \<longrightarrow> IsAbs r) \<longrightarrow>
         IsAbs p \<and> (\<exists>info. StatFile fs p = Inr info \<and> regularFile info \<and> anyExecuteBit info))) \<and>
    (filter isSpawn (fst (RunLaunch v w)) = [] \<longrightarrow>
      (\<exists>c d. RunLaunch v w = (map WarningLine (Warnings v) @ [DiagnosticEvent c d], Some (int (ExitForCode c))) \<and> ExitForCode c \<noteq> 0)) \<and>
    (filter isSpawn (fst (RunLaunch v w)) \<noteq> [] \<longrightarrow>
      snd (RunLaunch v w) = (case dropWhile continues (waits w) of [] \<Rightarrow> None | s # _ \<Rightarrow> Some (waitStatus s)))"
proof -
  have warnings: "filter isSpawn (map WarningLine ws) = []" for ws
    by (induction ws) simp_all
  have spawn: "filter isSpawn (fst (RunLaunch v w)) =
      (case preflight v w of Inr (p, es) \<Rightarrow> if startError w = None then [Spawn (spec v p es)] else [] | Inl _ \<Rightarrow> [])"
  proof (cases "preflight v w")
    case (Inl t)
    then show ?thesis
      using failWith_events(1) [of t] by (simp add: RunLaunch_eq warnings)
  next
    case (Inr q)
    then show ?thesis
      by (simp add: RunLaunch_eq warnings RunChild_spawn split: prod.split)
  qed
  have refused: "\<exists>c d. RunLaunch v w = (map WarningLine (Warnings v) @ [DiagnosticEvent c d], Some (int (ExitForCode c))) \<and> ExitForCode c \<noteq> 0"
    if none: "filter isSpawn (fst (RunLaunch v w)) = []"
  proof -
    have "\<exists>t. RunLaunch v w = (map WarningLine (Warnings v) @ fst (failWith t), Some (int (snd (failWith t))))"
    proof (cases "preflight v w")
      case (Inl t)
      then show ?thesis by (intro exI [of _ t]) (simp add: RunLaunch_eq)
    next
      case (Inr q)
      then obtain e where "startError w = Some e"
        using none unfolding spawn by (cases "startError w") (simp_all split: prod.splits)
      then show ?thesis
        using Inr by (intro exI [of _ "cannotText (cBinary v) e"]) (simp add: RunLaunch_eq RunChild_refused split: prod.split)
    qed
    then obtain t where t: "RunLaunch v w = (map WarningLine (Warnings v) @ fst (failWith t), Some (int (snd (failWith t))))" ..
    obtain c d where "failWith t = ([DiagnosticEvent c d], ExitForCode c)"
      using failWith_one by blast
    then show ?thesis
      using t failWith_events(2) [of t] by auto
  qed
  have status: "snd (RunLaunch v w) = (case dropWhile continues (waits w) of [] \<Rightarrow> None | s # _ \<Rightarrow> Some (waitStatus s))"
    if some: "filter isSpawn (fst (RunLaunch v w)) \<noteq> []"
  proof -
    obtain p es where "preflight v w = Inr (p, es)" "startError w = None"
      using some unfolding spawn by (auto split: sum.splits prod.splits if_split_asm)
    then show ?thesis
      using RunChild_status [of w v "spec v p es"] by (simp add: RunLaunch_eq)
  qed
  have path: "IsAbs p \<and> (\<exists>info. StatFile fs p = Inr info \<and> regularFile info \<and> anyExecuteBit info)"
    if "executable fs b wd es = Inr p" "\<forall>q r. AbsRel fs q = Inr r \<longrightarrow> IsAbs r" for fs b wd es p
    using that checkExecutable_spec [of fs wd _ p] unfolding executable_Inr by (metis (no_types, lifting))
  have search: "\<exists>pre c post. candidates b es = pre @ c # post \<and> checkExecutable fs wd c = Inr p \<and> (\<forall>x \<in> set pre. isl (checkExecutable fs wd x))"
    if "executable fs b wd es = Inr p" "CHR ''/'' \<notin> set b" for fs b wd es p
    using that unfolding executable_Inr by simp
  have first: "RunLaunch v w = (map WarningLine (Warnings v) @ fst (failWith t), Some (int (snd (failWith t))))"
    if "firstRefusal (checksOf v w) t" for t
    using that unfolding preflight_Inl [symmetric] by (simp add: RunLaunch_eq)
  have start: "RunLaunch v w = (map WarningLine (Warnings v) @ fst (failWith (cannotText (cBinary v) e)), Some 1)"
    if "preflight v w = Inr (p, es) \<and> startError w = Some e" for p es e
    using that cannot_exit [of "cBinary v" e] by (simp add: RunLaunch_eq RunChild_refused)
  show ?thesis
    by (intro conjI allI impI; (fact spawn | rule preflight_Inr | rule preflight_Inl | erule first | erule start | erule (1) search | erule (1) path [THEN conjunct1]
      | erule (1) path [THEN conjunct2] | erule refused | erule status))
qed

definition sampleValue :: composed where
  "sampleValue = \<lparr>cBinary = ''tool'', cWorkDir = ''/w'', cArgv = [''-x''], cEnv = [''A=1'', ''PATH=rel:/bin''], cRawStdin = (False, []),
     EnvLiterals = [], EnvNames = [], Warnings = [''environment override: A''], mcpLayer = []\<rparr>"

definition sampleWorld :: runWorld where
  "sampleWorld = \<lparr>files = \<lparr>AbsRel = Inr, StatFile = (\<lambda>p. if p = ''/bin/tool'' then Inr \<lparr>regularFile = True, anyExecuteBit = True\<rparr> else Inl ''no such file'')\<rparr>,
     layerProbe = \<lparr>lstat = None, statted = Inr True, opened = None, fstat = Inr True\<rparr>, boundaryResult = Some None, childEnvironment = None,
     ownsTerminal = True, startError = None, waits = [Interrupted, Stopped, SignaledWith 15]\<rparr>"

text \<open>A child that is stopped once and then dies of a signal.\<close>

theorem run_contract_witness:
  "filter isSpawn (fst (RunLaunch sampleValue sampleWorld)) = [Spawn \<lparr>procPath = ''/bin/tool'', procArgs = [''tool'', ''-x''],
      procEnv = [''A=1'', ''PATH=rel:/bin''], procDir = ''/w'', procStdin = None\<rparr>] \<and>
    snd (RunLaunch sampleValue sampleWorld) = Some 143"
proof -
  have "executable (files sampleWorld) ''tool'' ''/w'' [''A=1'', ''PATH=rel:/bin''] = Inr ''/bin/tool''"
    by code_simp
  then have "preflight sampleValue sampleWorld = Inr (''/bin/tool'', [''A=1'', ''PATH=rel:/bin''])"
    using run_contract [of sampleValue sampleWorld, THEN conjunct2, THEN conjunct1]
    by (simp add: sampleValue_def sampleWorld_def CheckLaunchBoundary_def)
  moreover have "startError sampleWorld = None" "dropWhile continues (waits sampleWorld) = [SignaledWith 15]"
    by (simp_all add: sampleWorld_def continues_def)
  ultimately show ?thesis
    using run_contract [of sampleValue sampleWorld] by (simp add: spec_def sampleValue_def)
qed

end
