(* ===== verification/SystemPrompt.thy ===== *)
theory SystemPrompt
  imports Composition SessionRegistry
begin

text \<open>
  \<open>internal/systemprompt\<close>: the launcher-applied prompt channel, the probe of the managed-home files and
  the warnings. The file system is a probe per path; \<open>quote\<close> is \<open>strconv.Quote\<close>, the \<open>%q\<close> of the texts.
\<close>

section \<open>Selection\<close>

record Selection =
  selChannel :: channel
  selPath :: string
  selArgv :: "string list"

definition noSelection :: Selection where
  "noSelection = \<lparr>selChannel = emptyChannel, selPath = [], selArgv = []\<rparr>"

text \<open>A refusal: code, path and cause.\<close>

datatype promptError = PromptError string string string

text \<open>One channel of the loop; \<open>None\<close> continues it.\<close>

definition selectChannel :: "fragment \<Rightarrow> string \<Rightarrow> string \<Rightarrow> channel \<Rightarrow> Selection option" where
  "selectChannel f opt path c =
     (if chSemantics c \<noteq> opt \<or> chKind c = ''file'' then None
      else let s = \<lparr>selChannel = c, selPath = path, selArgv = []\<rparr>
           in if chKind c = ''flag'' then
                (if chArgument c \<noteq> ''path'' then None
                 else if Environment f = EnvPi then Some (s\<lparr>selArgv := chFlag c # path # chWith c\<rparr>)
                 else Some s)
              else if chKind c = ''config-key'' then (if Environment f \<noteq> EnvCodexCLI then None else Some s)
              else None)"

fun selectLoop :: "fragment \<Rightarrow> string \<Rightarrow> string \<Rightarrow> channel list \<Rightarrow> Selection option" where
  "selectLoop f opt path [] = None"
| "selectLoop f opt path (c # cs) = (case selectChannel f opt path c of Some s \<Rightarrow> Some s | None \<Rightarrow> selectLoop f opt path cs)"

definition SelectPrompt :: "(string \<Rightarrow> string) \<Rightarrow> fragment \<Rightarrow> string \<Rightarrow> promptError + Selection" where
  "SelectPrompt quote f opt =
     (if opt = [] then Inr noSelection
      else case (case fragment.SystemPrompt f of
          Some sp \<Rightarrow> if opt = ''append'' \<or> opt = ''replace'' then selectLoop f opt (spPath sp) (spChannels sp) else None
        | None \<Rightarrow> None) of
        Some s \<Rightarrow> Inr s
      | None \<Rightarrow> Inl (PromptError ''sysprompt_channel_unavailable'' [] (''no non-file system-prompt channel for '' @ quote opt)))"

section \<open>Files\<close>

definition readableFile :: "(string \<Rightarrow> probe) \<Rightarrow> string \<Rightarrow> bool \<Rightarrow> promptError + bool" where
  "readableFile probes path allowAbsent =
     (let fail = (\<lambda>e. Inl (PromptError ''sysprompt_file_unreadable'' path e)); pr = probes path
      in case lstat pr of
           Some (NotExist e) \<Rightarrow> if allowAbsent then Inr False else fail e
         | Some (OtherError e) \<Rightarrow> fail e
         | None \<Rightarrow> (case statted pr of
             Inl e \<Rightarrow> fail e
           | Inr False \<Rightarrow> fail ''not a regular file''
           | Inr True \<Rightarrow> (case opened pr of
               Some e \<Rightarrow> fail e
             | None \<Rightarrow> (case fstat pr of
                 Inl e \<Rightarrow> fail e
               | Inr False \<Rightarrow> fail ''opened object is not a regular file''
               | Inr True \<Rightarrow> Inr True))))"

text \<open>An observation: file name and semantics.\<close>

type_synonym observation = "string \<times> string"

definition homeFiles :: "observation list" where
  "homeFiles = [(''APPEND_SYSTEM.md'', ''append''), (''SYSTEM.md'', ''replace'')]"

fun probeLoop :: "(string \<Rightarrow> probe) \<Rightarrow> string \<Rightarrow> observation list \<Rightarrow> promptError + observation list" where
  "probeLoop probes home [] = Inr []"
| "probeLoop probes home (o1 # os) =
     res_bind (readableFile probes (JoinPath home (fst o1)) True) (\<lambda>here.
     res_bind (probeLoop probes home os) (\<lambda>rest. Inr (if here then o1 # rest else rest)))"

definition ProbeFiles :: "(string \<Rightarrow> probe) \<Rightarrow> fragment \<Rightarrow> promptError + observation list" where
  "ProbeFiles probes f = (if Environment f \<noteq> EnvPi then Inr [] else probeLoop probes (Home f) homeFiles)"

section \<open>Warnings\<close>

definition cacheWarning :: string where
  "cacheWarning = '' A custom system prefix can change request caching and billing: the default may use shared prompt caching; a custom prefix forms its own cache prefix.''"

definition appliedWarning :: "(string \<Rightarrow> string) \<Rightarrow> string \<Rightarrow> channel \<Rightarrow> string" where
  "appliedWarning quote profile c =
     ''warning: profile '' @ quote profile @ '': applied '' @ chKind c @ ''/'' @ chSemantics c @ '' system-prompt channel'' @
     (if chKind c = ''flag'' then '' '' @ quote (chFlag c) else []) @ ''.'' @
     (if chSemantics c = ''replace'' then '' Replacement discards the tool's built-in system behavior entirely.'' else []) @ cacheWarning"

definition observedWarning :: "(string \<Rightarrow> string) \<Rightarrow> string \<Rightarrow> channel \<Rightarrow> observation \<Rightarrow> string" where
  "observedWarning quote profile c ob =
     ''warning: profile '' @ quote profile @ '': observed file/'' @ snd ob @ '' '' @ quote (fst ob) @ '' in managed home; '' @
     (if chKind c = ''flag'' \<and> chSemantics c = snd ob then
        ''discovery suppressed by applied launcher flag '' @ quote (chFlag c) @ ''.''
      else ''conditional native-discovery candidate, subject to native flags and trusted-project precedence.'' @
        (if snd ob = ''replace'' then '' If selected, replacement discards the tool's built-in system behavior entirely.'' else [])) @
     cacheWarning"

definition FormatWarnings :: "(string \<Rightarrow> string) \<Rightarrow> string \<Rightarrow> Selection \<Rightarrow> observation list \<Rightarrow> string list" where
  "FormatWarnings quote profile s obs =
     (if chKind (selChannel s) \<noteq> [] then [appliedWarning quote profile (selChannel s)] else []) @
     map (observedWarning quote profile (selChannel s)) obs"

definition PrepareLaunch :: "(string \<Rightarrow> string) \<Rightarrow> (string \<Rightarrow> probe) \<Rightarrow> fragment \<Rightarrow> string \<Rightarrow> promptError + Selection \<times> string list" where
  "PrepareLaunch quote probes f opt =
     res_bind (SelectPrompt quote f opt) (\<lambda>s.
     res_bind (if Environment f = EnvPi \<and> chKind (selChannel s) = ''flag'' then readableFile probes (selPath s) False else Inr True) (\<lambda>_.
     res_bind (ProbeFiles probes f) (\<lambda>obs. Inr (s, FormatWarnings quote (profName (Profile f)) s obs))))"

end
