(* ===== verification/SystemPromptProps.thy ===== *)
theory SystemPromptProps
  imports SystemPrompt FragmentGuarantees
begin

text \<open>
  Which prompts an accepted fragment can apply, what is applied, and what is reported.
\<close>

section \<open>Files\<close>

definition readable :: "probe \<Rightarrow> bool" where
  "readable pr \<longleftrightarrow> lstat pr = None \<and> statted pr = Inr True \<and> opened pr = None \<and> fstat pr = Inr True"

definition absent :: "probe \<Rightarrow> bool" where
  "absent pr \<longleftrightarrow> (\<exists>e. lstat pr = Some (NotExist e))"

lemma readableFile_Inr:
  "readableFile probes path allow = Inr b \<longleftrightarrow> (if b then readable (probes path) else allow \<and> absent (probes path))"
  by (auto simp: readableFile_def Let_def readable_def absent_def split: option.splits probeError.splits sum.splits bool.splits)

lemma probeLoop_Inr:
  "probeLoop probes home os = Inr r \<longleftrightarrow>
    (\<forall>ob \<in> set os. readable (probes (JoinPath home (fst ob))) \<or> absent (probes (JoinPath home (fst ob)))) \<and>
    r = filter (\<lambda>ob. readable (probes (JoinPath home (fst ob)))) os"
proof (induction os arbitrary: r)
  case (Cons ob os)
  have excl: "absent pr \<Longrightarrow> \<not> readable pr" for pr
    by (auto simp: absent_def readable_def)
  show ?case
    unfolding probeLoop.simps res_bind_Inr Cons.IH readableFile_Inr using excl by (auto split: if_split_asm)
qed auto

section \<open>Selection\<close>

definition supported :: "(string \<times> string) set" where
  "supported = {(EnvClaudeCode, ''append''), (EnvClaudeCode, ''replace''), (EnvCodexCLI, ''replace''), (EnvPi, ''append'')}"

lemma Parse_prompt:
  assumes "Fragment.Parse doc = Inr f" "fragment.SystemPrompt f = Some sp"
  shows "spChannels sp = systemPromptRegistry (Environment f)"
proof (rule Parse_factsE [OF assms(1)])
  fix root g
  assume s: "fromSections root (Revision f) (Environment f) = Inr g" "Environment f \<in> fst ` set homeVariable"
    and f: "f = g\<lparr>fCanonical := Canonical root, fDigest := Digest root\<rparr>"
  show ?thesis
    using systemPromptOf_ok fromSections_facts(11) [OF s] f assms(2) by simp
qed

text \<open>The selection from the registered channels.\<close>

definition chosen :: "string \<Rightarrow> string \<Rightarrow> channel" where
  "chosen hn opt = (case filter (\<lambda>c. chSemantics c = opt \<and> chKind c \<noteq> ''file'') (systemPromptRegistry hn) of
     c # _ \<Rightarrow> c | [] \<Rightarrow> emptyChannel)"

lemma selectLoop_registry:
  "selectLoop f opt path (systemPromptRegistry (Environment f)) =
    (if (Environment f, opt) \<in> supported then
       Some \<lparr>selChannel = chosen (Environment f) opt, selPath = path,
             selArgv = (if Environment f = EnvPi then [''--append-system-prompt'', path] else [])\<rparr>
     else None)"
  by (auto simp: systemPromptRegistry_def selectChannel_def emptyChannel_def supported_def chosen_def Let_def env_defs)

lemma chosen_props:
  assumes "(hn, opt) \<in> supported"
  shows "chosen hn opt \<in> set (systemPromptRegistry hn)" "chSemantics (chosen hn opt) = opt"
    "chKind (chosen hn opt) = (if hn = EnvCodexCLI then ''config-key'' else ''flag'')"
  using assms by (auto simp: systemPromptRegistry_def emptyChannel_def supported_def chosen_def env_defs)

lemma SelectPrompt_Inr:
  assumes "Fragment.Parse doc = Inr f"
  shows "SelectPrompt quote f opt = Inr s \<longleftrightarrow>
    (if opt = [] then s = noSelection
     else (Environment f, opt) \<in> supported \<and> (\<exists>sp. fragment.SystemPrompt f = Some sp \<and>
       s = \<lparr>selChannel = chosen (Environment f) opt, selPath = spPath sp,
            selArgv = (if Environment f = EnvPi then [''--append-system-prompt'', spPath sp] else [])\<rparr>))"
proof (cases "fragment.SystemPrompt f")
  case (Some sp)
  have "(Environment f, opt) \<in> supported \<Longrightarrow> opt \<in> {''append'', ''replace''}"
    by (auto simp: supported_def)
  then show ?thesis
    using Some Parse_prompt [OF assms Some] by (auto simp: SelectPrompt_def selectLoop_registry)
qed (auto simp: SelectPrompt_def)

section \<open>The prompt of a launch\<close>

text \<open>C8. The prompt of a launch. For an accepted fragment a prompt can be applied exactly when the
  fragment carries one and its adapter has a channel that is not a file: append and replace for
  Claude Code, replace for Codex, append for Pi. What is applied is that registered channel
  alone, and only Pi gets launcher arguments, its flag and the path, after the file at that path
  was found readable. The observed files are Pi's home files that are readable regular files,
  and an unreadable one refuses the launch. There is one warning for the applied channel and one
  for each observed file, in that order.\<close>

theorem prompt_launch:
  assumes "Fragment.Parse doc = Inr f"
  shows "((\<exists>s. SelectPrompt quote f opt = Inr s) \<longleftrightarrow> opt = [] \<or> fragment.SystemPrompt f \<noteq> None \<and> (Environment f, opt) \<in> supported) \<and>
    (\<forall>s ws. PrepareLaunch quote probes f opt = Inr (s, ws) \<longrightarrow>
      (if opt = [] then s = noSelection
       else \<exists>sp. fragment.SystemPrompt f = Some sp \<and> selPath s = spPath sp \<and>
         selChannel s \<in> set (systemPromptRegistry (Environment f)) \<and> chSemantics (selChannel s) = opt \<and> chKind (selChannel s) \<noteq> ''file'' \<and>
         (if Environment f = EnvPi then readable (probes (spPath sp)) \<and> selArgv s = [''--append-system-prompt'', spPath sp]
          else selArgv s = [])) \<and>
      (Environment f = EnvPi \<longrightarrow> (\<forall>ob \<in> set homeFiles.
         readable (probes (JoinPath (Home f) (fst ob))) \<or> absent (probes (JoinPath (Home f) (fst ob))))) \<and>
      ws = (if opt = [] then [] else [appliedWarning quote (profName (Profile f)) (selChannel s)]) @
        map (observedWarning quote (profName (Profile f)) (selChannel s))
          (if Environment f = EnvPi then filter (\<lambda>ob. readable (probes (JoinPath (Home f) (fst ob)))) homeFiles else []))"
proof (intro conjI allI impI)
  show "(\<exists>s. SelectPrompt quote f opt = Inr s) \<longleftrightarrow> opt = [] \<or> fragment.SystemPrompt f \<noteq> None \<and> (Environment f, opt) \<in> supported"
    unfolding SelectPrompt_Inr [OF assms] by auto
next
  fix s ws
  assume "PrepareLaunch quote probes f opt = Inr (s, ws)"
  then obtain b obs where s: "SelectPrompt quote f opt = Inr s"
    and b: "(if Environment f = EnvPi \<and> chKind (selChannel s) = ''flag'' then readableFile probes (selPath s) False else Inr True) = Inr b"
    and obs: "ProbeFiles probes f = Inr obs" and ws: "ws = FormatWarnings quote (profName (Profile f)) s obs"
    by (auto simp: PrepareLaunch_def)
  have kind: "chKind (selChannel s) = [] \<longleftrightarrow> opt = []"
    using s chosen_props(3) [of "Environment f" opt] by (auto simp: SelectPrompt_Inr [OF assms] noSelection_def emptyChannel_def split: if_splits)
  have obs': "obs = (if Environment f = EnvPi then filter (\<lambda>ob. readable (probes (JoinPath (Home f) (fst ob)))) homeFiles else [])"
    "Environment f = EnvPi \<longrightarrow> (\<forall>ob \<in> set homeFiles. readable (probes (JoinPath (Home f) (fst ob))) \<or> absent (probes (JoinPath (Home f) (fst ob))))"
    using obs by (auto simp: ProbeFiles_def probeLoop_Inr split: if_splits)
  then show "\<forall>ob \<in> set homeFiles. readable (probes (JoinPath (Home f) (fst ob))) \<or> absent (probes (JoinPath (Home f) (fst ob)))"
    if "Environment f = EnvPi"
    using that by blast
  show "ws = (if opt = [] then [] else [appliedWarning quote (profName (Profile f)) (selChannel s)]) @
        map (observedWarning quote (profName (Profile f)) (selChannel s))
          (if Environment f = EnvPi then filter (\<lambda>ob. readable (probes (JoinPath (Home f) (fst ob)))) homeFiles else [])"
    unfolding ws FormatWarnings_def kind obs'(1) by simp
  have pi: "EnvPi \<noteq> EnvCodexCLI" by (simp add: env_defs)
  show "if opt = [] then s = noSelection
       else \<exists>sp. fragment.SystemPrompt f = Some sp \<and> selPath s = spPath sp \<and>
         selChannel s \<in> set (systemPromptRegistry (Environment f)) \<and> chSemantics (selChannel s) = opt \<and> chKind (selChannel s) \<noteq> ''file'' \<and>
         (if Environment f = EnvPi then readable (probes (spPath sp)) \<and> selArgv s = [''--append-system-prompt'', spPath sp]
          else selArgv s = [])"
    using s b chosen_props [of "Environment f" opt] pi
    by (auto simp: SelectPrompt_Inr [OF assms] readableFile_Inr split: if_split_asm)
qed

definition pi_document :: string where
  "pi_document = ''{\"fragment\":\"launch-env-fragment-v1\",\"environment\":\"pi\",\"profile\":{\"name\":\"dev\",\"lock_sha256\":\"aaaaaaaaaaaaaaaaaaaaaaaaaaaaaaaaaaaaaaaaaaaaaaaaaaaaaaaaaaaaaaaa\"},\"precedence\":{\"winner\":\"higher-weight\",\"placement\":\"winner-last\"},\"env\":{\"PI_CODING_AGENT_DIR\":\"/r/e\"},\"system_prompt\":{\"path\":\"/r/p.md\",\"channels\":[{\"kind\":\"flag\",\"semantics\":\"append\",\"flag\":\"--append-system-prompt\",\"argument\":\"path\"},{\"kind\":\"file\",\"semantics\":\"append\",\"filename\":\"APPEND_SYSTEM.md\"},{\"kind\":\"file\",\"semantics\":\"replace\",\"filename\":\"SYSTEM.md\"}]}}''"

definition pi_root :: jvalue where
  "pi_root = JObject [(''fragment'', JString ''launch-env-fragment-v1''), (''environment'', JString ''pi''), (''profile'', JObject [(''name'', JString ''dev''), (''lock_sha256'', JString ''aaaaaaaaaaaaaaaaaaaaaaaaaaaaaaaaaaaaaaaaaaaaaaaaaaaaaaaaaaaaaaaa'')]), (''precedence'', JObject [(''winner'', JString ''higher-weight''), (''placement'', JString ''winner-last'')]), (''env'', JObject [(''PI_CODING_AGENT_DIR'', JString ''/r/e'')]), (''system_prompt'', JObject [(''path'', JString ''/r/p.md''), (''channels'', JArray [JObject [(''kind'', JString ''flag''), (''semantics'', JString ''append''), (''flag'', JString ''--append-system-prompt''), (''argument'', JString ''path'')], JObject [(''kind'', JString ''file''), (''semantics'', JString ''append''), (''filename'', JString ''APPEND_SYSTEM.md'')], JObject [(''kind'', JString ''file''), (''semantics'', JString ''replace''), (''filename'', JString ''SYSTEM.md'')]])])]"

definition pi_fragment :: fragment where
  "pi_fragment = projr (fromValue pi_root)"

lemma pi_parses:
  "Fragment.Parse pi_document = Inr (pi_fragment\<lparr>fCanonical := Canonical pi_root, fDigest := Digest pi_root\<rparr>)"
proof -
  have "ParseJSON pi_document = Inr pi_root" by code_simp
  moreover have "\<not> isl (fromValue pi_root)" by code_simp
  then have "fromValue pi_root = Inr pi_fragment" by (simp add: pi_fragment_def)
  ultimately show ?thesis by (simp add: Fragment.Parse_def)
qed

lemma pi_facts:
  "Environment pi_fragment = EnvPi" "map_option spPath (fragment.SystemPrompt pi_fragment) = Some ''/r/p.md''"
  by code_simp+

text \<open>Append is available for Pi and replace is not.\<close>

theorem prompt_launch_witness:
  "\<exists>f. Fragment.Parse pi_document = Inr f \<and> (\<exists>s. SelectPrompt (\<lambda>s. s) f ''append'' = Inr s) \<and> (\<nexists>s. SelectPrompt (\<lambda>s. s) f ''replace'' = Inr s)"
proof -
  let ?f = "pi_fragment\<lparr>fCanonical := Canonical pi_root, fDigest := Digest pi_root\<rparr>"
  have "fragment.SystemPrompt ?f \<noteq> None" "Environment ?f = EnvPi"
    using pi_facts by auto
  moreover have "(EnvPi, ''append'') \<in> supported" "(EnvPi, ''replace'') \<notin> supported"
    by (simp_all add: supported_def env_defs)
  ultimately show ?thesis
    using prompt_launch [OF pi_parses, THEN conjunct1, of "\<lambda>s. s" "''append''"]
      prompt_launch [OF pi_parses, THEN conjunct1, of "\<lambda>s. s" "''replace''"] pi_parses by auto
qed

end
