(* ===== verification/Selector.thy ===== *)
theory Selector
  imports Defaults SessionRegistry ClosedMembers
begin

text \<open>
  \<open>internal/selector\<close>: the machine configuration of the selector, the request and the response of one
  exchange, the classification of a child's run, and the observation records. The candidates come
  from the lineup. \<open>Encode\<close> writes the request with the standard encoder and reads it back at once;
  the value of that text is modelled.
\<close>

section \<open>Configuration\<close>

abbreviation SelectorSchema :: string where "SelectorSchema \<equiv> ''curator-run-selector-v1''"

definition Limit :: nat where "Limit = 65536"

record selectorConfig =
  scMode :: string
  scExecutable :: string
  scArgvPrefix :: "string list"
  scTimeout :: int

definition emptyConfig :: selectorConfig where
  "emptyConfig = \<lparr>scMode = [], scExecutable = [], scArgvPrefix = [], scTimeout = 0\<rparr>"

definition selectorArgument :: "string \<Rightarrow> bool" where
  "selectorArgument s \<longleftrightarrow> 1 \<le> length s \<and> length s \<le> 32 \<and> list_all (\<lambda>c. is_lower c \<or> is_digit c \<or> c = CHR ''-'') s"

definition closedValue :: "jvalue \<Rightarrow> string list \<Rightarrow> string list \<Rightarrow> bool" where
  "closedValue v required optional = (case v of
     JObject ms \<Rightarrow> list_all (\<lambda>k. Get v k \<noteq> None) required \<and> list_all (\<lambda>(k, _). k \<in> set (required @ optional)) ms
   | _ \<Rightarrow> False)"

text \<open>The error says which check failed.\<close>

datatype selectorError = BadObject | BadConfiguration | BadPrefix | BadTimeout | MachineOnlyFile string

fun prefixArguments :: "jvalue list \<Rightarrow> string list option" where
  "prefixArguments [] = Some []"
| "prefixArguments (a # as) = (case a of
     JString s \<Rightarrow> if selectorArgument s then map_option (Cons s) (prefixArguments as) else None
   | _ \<Rightarrow> None)"

definition selectorTimeout :: "jvalue \<Rightarrow> selectorError + int" where
  "selectorTimeout v = (case Get v ''timeout_seconds'' of
     None \<Rightarrow> Inr 5
   | Some (JInt n) \<Rightarrow> if n < 1 \<or> 60 < n then Inl BadTimeout else Inr n
   | Some _ \<Rightarrow> Inl BadTimeout)"

definition selectorMembers :: "jvalue \<Rightarrow> selectorError + selectorConfig" where
  "selectorMembers v = (case (Get v ''schema'', Get v ''mode'', Get v ''executable'', Get v ''argv_prefix'') of
     (Some (JString schema), Some (JString mode), Some (JString exe), Some (JArray prefix)) \<Rightarrow>
       if schema \<noteq> SelectorSchema \<or> (mode \<noteq> ''shadow'' \<and> mode \<noteq> ''enforce'') \<or> \<not> HasPrefix exe ''/'' \<or> CHR 0x00 \<in> set exe \<or> 4 < length prefix
       then Inl BadConfiguration
       else (case prefixArguments prefix of
         None \<Rightarrow> Inl BadPrefix
       | Some argv \<Rightarrow> res_bind (selectorTimeout v) (\<lambda>t.
           Inr \<lparr>scMode = mode, scExecutable = exe, scArgvPrefix = argv, scTimeout = t\<rparr>))
   | _ \<Rightarrow> Inl BadConfiguration)"

definition ParseSelectorConfig :: "string \<Rightarrow> selectorError + selectorConfig" where
  "ParseSelectorConfig doc = (case ParseJSON doc of
     Inl _ \<Rightarrow> Inl BadObject
   | Inr v \<Rightarrow>
       if \<not> closedValue v [''schema'', ''mode'', ''executable'', ''argv_prefix''] [''timeout_seconds''] then Inl BadObject
       else selectorMembers v)"

text \<open>One layer of \<open>Load\<close>: the read error's text or the parse error, with the path.\<close>

definition selectorLayer :: "Locations \<Rightarrow> (layer \<Rightarrow> fileRead \<times> string) \<Rightarrow> layer \<Rightarrow> selectorConfig \<Rightarrow> string \<times> (string + selectorError) + selectorConfig" where
  "selectorLayer locs rd ly c = (case rd ly of (r, path) \<Rightarrow>
     (case readErr r of
        Some e \<Rightarrow> Inl (path, Inl e)
      | None \<Rightarrow>
          if \<not> present r then Inr c
          else if ly = UserLayer then Inl (path, Inr (MachineOnlyFile (JoinPath (System locs) ''selector.json'')))
          else (case ParseSelectorConfig (data r) of Inl e \<Rightarrow> Inl (path, Inr e) | Inr c' \<Rightarrow> Inr c')))"

definition LoadSelector :: "Locations \<Rightarrow> (layer \<Rightarrow> fileRead \<times> string) \<Rightarrow> string \<times> (string + selectorError) + selectorConfig" where
  "LoadSelector locs rd = res_bind (selectorLayer locs rd SystemLayer emptyConfig) (selectorLayer locs rd UserLayer)"

section \<open>The request\<close>

type_synonym selectionCandidate = "string \<times> string \<times> string option"

record selectorTask =
  taskID :: "string option"
  taskClass :: string
  taskDifficulty :: "string option"
  taskSensitivity :: "string option"
  taskLanguage :: "string option"
  taskPlatform :: "string option"

record selectorRequest =
  srEnvID :: string
  srProfile :: string
  srCWD :: string
  srRole :: "string option"
  srProject :: "string option"
  srWerkstatt :: "string option"
  srTask :: "selectorTask option"
  srFlagModel :: "string option"
  srFlagEffort :: "string option"
  srCandidates :: "selectionCandidate list"
  srAdmission :: string

definition nullable :: "string option \<Rightarrow> jvalue" where
  "nullable x = (case x of None \<Rightarrow> JNull | Some s \<Rightarrow> JString s)"

definition candidateValue :: "selectionCandidate \<Rightarrow> jvalue" where
  "candidateValue c = (case c of (runtime, model, effort) \<Rightarrow>
     JObject [(''runtime'', JString runtime), (''model'', JString model), (''effort'', nullable effort)])"

definition taskValue :: "selectorTask \<Rightarrow> jvalue" where
  "taskValue t = JObject
     [(''id'', nullable (taskID t)), (''class'', JString (taskClass t)), (''difficulty'', nullable (taskDifficulty t)),
      (''sensitivity'', nullable (taskSensitivity t)), (''language'', nullable (taskLanguage t)), (''platform'', nullable (taskPlatform t))]"

definition requestValue :: "selectorRequest \<Rightarrow> jvalue" where
  "requestValue r = JObject
     [(''env_id'', JString (srEnvID r)), (''profile'', JString (srProfile r)), (''cwd'', JString (srCWD r)),
      (''role'', nullable (srRole r)), (''project'', nullable (srProject r)), (''werkstatt'', nullable (srWerkstatt r)),
      (''task'', case srTask r of None \<Rightarrow> JNull | Some t \<Rightarrow> taskValue t),
      (''flags'', JObject [(''model'', nullable (srFlagModel r)), (''effort'', nullable (srFlagEffort r))]),
      (''candidates'', JArray (map candidateValue (srCandidates r))), (''admission_source'', JString (srAdmission r))]"

text \<open>The strings of a request, a nil pointer left out.\<close>

definition pointers :: "string option list \<Rightarrow> string list" where
  "pointers ps = List.map_filter id ps"

definition requestStrings :: "selectorRequest \<Rightarrow> string list" where
  "requestStrings r =
     [srEnvID r, srProfile r, srCWD r, srAdmission r] @
     (case srTask r of None \<Rightarrow> [] | Some t \<Rightarrow> [taskClass t]) @
     concat (map (\<lambda>(runtime, model, effort). [runtime, model]) (srCandidates r)) @
     pointers ([srRole r, srProject r, srWerkstatt r, srFlagModel r, srFlagEffort r] @
       (case srTask r of None \<Rightarrow> [] | Some t \<Rightarrow> [taskID t, taskDifficulty t, taskSensitivity t, taskLanguage t, taskPlatform t]) @
       map (snd \<circ> snd) (srCandidates r))"

definition validRequestUTF8 :: "selectorRequest \<Rightarrow> bool" where
  "validRequestUTF8 r \<longleftrightarrow> list_all utf8_valid (requestStrings r)"

text \<open>\<open>None\<close> is the unavailable failure.\<close>

definition Encode :: "selectorRequest \<Rightarrow> (string \<times> string) option" where
  "Encode r =
     (if \<not> HasPrefix (srCWD r) ''/'' \<or> \<not> validRequestUTF8 r then None
      else let v = requestValue r; d = Canonical v
           in if Limit < length d then None else Some (d, Digest v))"

section \<open>The response\<close>

record Decision =
  DecisionID :: string
  dRuntime :: string
  dModel :: string
  dEffort :: "string option"
  WeightsID :: "string option"

datatype failure = Unavailable string | Abstained string

fun failureText :: "failure \<Rightarrow> string" where
  "failureText (Unavailable reason) = ''selector unavailable reason='' @ reason"
| "failureText (Abstained code) = ''selector abstained code='' @ code"

definition valuePattern :: "string \<Rightarrow> bool" where
  "valuePattern s \<longleftrightarrow> 1 \<le> length s \<and> length s \<le> 128 \<and> list_all (\<lambda>c. is_alnum c \<or> c \<in> set ''._:/@+-'') s"

definition weightsPattern :: "string \<Rightarrow> bool" where
  "weightsPattern s \<longleftrightarrow> HasPrefix s ''gguf-sha256:'' \<and> length s = 76 \<and> list_all is_lower_hex (drop 12 s)"

definition refusalPattern :: "string \<Rightarrow> bool" where
  "refusalPattern s \<longleftrightarrow> 1 \<le> length s \<and> length s \<le> 64 \<and> list_all (\<lambda>c. is_lower c \<or> is_digit c \<or> c = CHR ''_'') s"

text \<open>One of the first three members; the result is the string, empty for a skipped null.\<close>

definition choiceMember :: "bool \<Rightarrow> jvalue option \<Rightarrow> string option" where
  "choiceMember refused m = (case m of
     Some JNull \<Rightarrow> if refused then Some [] else None
   | Some (JString s) \<Rightarrow> if valuePattern s then Some s else None
   | _ \<Rightarrow> None)"

definition optionalMember :: "(string \<Rightarrow> bool) \<Rightarrow> jvalue option \<Rightarrow> string option option" where
  "optionalMember ok m = (case m of
     Some JNull \<Rightarrow> Some None
   | Some (JString s) \<Rightarrow> if ok s then Some (Some s) else None
   | _ \<Rightarrow> None)"

definition refusalCode :: "jvalue \<Rightarrow> string option" where
  "refusalCode x =
     (if \<not> closedValue x [''code''] [] then None
      else case Get x ''code'' of Some (JString s) \<Rightarrow> if refusalPattern s then Some s else None | _ \<Rightarrow> None)"

definition responseOf :: "jvalue \<Rightarrow> selectionCandidate list \<Rightarrow> failure + Decision" where
  "responseOf v candidates =
     (let bad = Inl (Unavailable ''invalid'');
          refusal = (case Get v ''refusal'' of Some x \<Rightarrow> x | None \<Rightarrow> JNull);
          refused = (refusal \<noteq> JNull)
      in if refused \<and> \<not> list_all (\<lambda>n. Get v n = Some JNull) [''runtime'', ''model'', ''effort'', ''weights_id''] then bad
         else case (choiceMember refused (Get v ''decision_id''), choiceMember refused (Get v ''runtime''), choiceMember refused (Get v ''model''),
                    optionalMember valuePattern (Get v ''effort''), optionalMember weightsPattern (Get v ''weights_id'')) of
           (Some i, Some r, Some m, Some e, Some w) \<Rightarrow>
             if refused then (case refusalCode refusal of Some code \<Rightarrow> Inl (Abstained code) | None \<Rightarrow> bad)
             else if (r, m, e) \<notin> set candidates then bad
             else Inr \<lparr>DecisionID = i, dRuntime = r, dModel = m, dEffort = e, WeightsID = w\<rparr>
         | _ \<Rightarrow> bad)"

definition ParseResponse :: "string \<Rightarrow> selectionCandidate list \<Rightarrow> failure + Decision" where
  "ParseResponse doc candidates =
     (if Limit < length doc then Inl (Unavailable ''invalid'')
      else case ParseJSON doc of
        Inl _ \<Rightarrow> Inl (Unavailable ''invalid'')
      | Inr v \<Rightarrow>
          if \<not> closedValue v [''decision_id'', ''runtime'', ''model'', ''effort'', ''weights_id'', ''refusal''] [] then Inl (Unavailable ''invalid'')
          else responseOf v candidates)"

section \<open>The exchange\<close>

text \<open>The bounded output: what is kept and whether it overflowed, write by write.\<close>

definition boundedWrite :: "string \<times> bool \<Rightarrow> string \<Rightarrow> string \<times> bool" where
  "boundedWrite b p = (let remaining = Limit - length (fst b)
     in if remaining < length p then (fst b @ take remaining p, True) else (fst b @ p, snd b))"

definition boundedOutput :: "string list \<Rightarrow> string \<times> bool" where
  "boundedOutput ps = foldl boundedWrite ([], False) ps"

text \<open>\<open>Enforce\<close>: the child's writes, whether the deadline passed, whether its run failed.\<close>

definition Enforce :: "selectorRequest \<Rightarrow> string list \<Rightarrow> bool \<Rightarrow> bool \<Rightarrow> failure + Decision" where
  "Enforce r ps deadline failed = (case Encode r of
     None \<Rightarrow> Inl (Unavailable ''invalid'')
   | Some _ \<Rightarrow>
       if snd (boundedOutput ps) then Inl (Unavailable ''invalid'')
       else if deadline then Inl (Unavailable ''timeout'')
       else if failed then Inl (Unavailable ''exit'')
       else ParseResponse (fst (boundedOutput ps)) (srCandidates r))"

text \<open>The record of a shadow run; \<open>RunWorker\<close> takes the request its job file carried. The kind is a constant.\<close>

record Observation =
  obDigest :: string
  obOutcome :: string
  obDecision :: "Decision option"
  obError :: string

definition shadowRecord :: "selectorRequest \<Rightarrow> string \<Rightarrow> string list \<Rightarrow> bool \<Rightarrow> Observation" where
  "shadowRecord r digest ps failed =
     (let ob = \<lparr>obDigest = digest, obOutcome = [], obDecision = None, obError = []\<rparr>
      in if snd (boundedOutput ps) then ob\<lparr>obError := ''invalid''\<rparr>
         else if failed then ob\<lparr>obError := ''exit''\<rparr>
         else case ParseResponse (fst (boundedOutput ps)) (srCandidates r) of
           Inl (Abstained code) \<Rightarrow> ob\<lparr>obOutcome := ''refused:'' @ code\<rparr>
         | Inl (Unavailable _) \<Rightarrow> ob\<lparr>obError := ''invalid''\<rparr>
         | Inr d \<Rightarrow> ob\<lparr>obDecision := Some d\<rparr>)"

definition RunWorker :: "selectorRequest \<Rightarrow> string list \<Rightarrow> bool \<Rightarrow> Observation option" where
  "RunWorker r ps failed = (case Encode r of None \<Rightarrow> None | Some (_, digest) \<Rightarrow> Some (shadowRecord r digest ps failed))"

definition StatePath :: "string \<Rightarrow> string \<Rightarrow> string" where
  "StatePath xdg home =
     (let x = (if xdg = [] then JoinPath home ''.local/state'' else xdg) in JoinPath x ''swarma/launcher/selector/observations.ndjson'')"

text \<open>The counter of dropped lines: the text it is replaced with, \<open>None\<close> for no change.\<close>

definition droppedNext :: "string \<Rightarrow> string option" where
  "droppedNext content =
     (if content = [] then Some (''1'' @ [CHR 0x0A])
      else let ds = TrimSpace (take 32 content); n = dec_value ds
           in if ds = [] \<or> \<not> list_all is_digit ds \<or> 2 ^ 64 - 1 \<le> n then None else Some (dec (n + 1) @ [CHR 0x0A]))"

end
