(* ===== verification/SelectorProps.thy ===== *)
theory SelectorProps
  imports Selector
begin

text \<open>
  The selector can only choose one of the offered candidates or abstain with a code, and nothing of
  its output beyond that reaches the launcher.
\<close>

section \<open>Closed objects\<close>

lemma closedValue_iff:
  assumes "wf_json v" "distinct names"
  shows "closedValue v names [] \<longleftrightarrow> (\<exists>ms. v = JObject ms \<and> length ms = length names) \<and> (\<forall>n \<in> set names. Get v n \<noteq> None)"
proof (cases v)
  case (JObject ms)
  have d: "distinct (map fst ms)" using assms(1) JObject by (auto intro: wf_json_distinct)
  have "(\<forall>n \<in> set names. map_of ms n \<noteq> None) \<longleftrightarrow> set names \<subseteq> set (map fst ms)"
    by (auto simp: map_of_eq_None_iff)
  moreover have "list_all (\<lambda>(k, _). k \<in> set names) ms \<longleftrightarrow> set (map fst ms) \<subseteq> set names"
    by (auto simp: list_all_iff)
  moreover have "set names \<subseteq> set (map fst ms) \<Longrightarrow> set (map fst ms) \<subseteq> set names \<longleftrightarrow> length ms = length names"
  proof
    assume "set names \<subseteq> set (map fst ms)" "set (map fst ms) \<subseteq> set names"
    then have "set (map fst ms) = set names" by blast
    then show "length ms = length names"
      using distinct_card [OF d] distinct_card [OF assms(2)] by simp
  next
    assume sub: "set names \<subseteq> set (map fst ms)" and "length ms = length names"
    then have "card (set (map fst ms)) = card (set names)"
      using distinct_card [OF d] distinct_card [OF assms(2)] by simp
    with sub show "set (map fst ms) \<subseteq> set names"
      using card_subset_eq [of "set (map fst ms)" "set names"] by simp
  qed
  ultimately show ?thesis
    using JObject by (auto simp: closedValue_def list_all_iff)
qed (auto simp: closedValue_def)

section \<open>Responses\<close>

definition decisionValue :: "string option \<Rightarrow> string option \<Rightarrow> string option \<Rightarrow> string option \<Rightarrow> string option \<Rightarrow> jvalue \<Rightarrow> jvalue" where
  "decisionValue i r m e w x = JObject
     [(''decision_id'', nullable i), (''runtime'', nullable r), (''model'', nullable m), (''effort'', nullable e),
      (''weights_id'', nullable w), (''refusal'', x)]"

definition chosenValue :: "Decision \<Rightarrow> jvalue" where
  "chosenValue d = decisionValue (Some (DecisionID d)) (Some (dRuntime d)) (Some (dModel d)) (dEffort d) (WeightsID d) JNull"

definition abstention :: "string option \<Rightarrow> string \<Rightarrow> jvalue" where
  "abstention i code = decisionValue i None None None None (JObject [(''code'', JString code)])"

definition decision_ok :: "Decision \<Rightarrow> bool" where
  "decision_ok d \<longleftrightarrow> valuePattern (DecisionID d) \<and> valuePattern (dRuntime d) \<and> valuePattern (dModel d) \<and>
     pred_option valuePattern (dEffort d) \<and> pred_option weightsPattern (WeightsID d)"

lemma norm_null [simp]: "norm v = JNull \<longleftrightarrow> v = JNull"
  by (cases v) simp_all

lemma norm_nullable: "norm v = norm (nullable x) \<longleftrightarrow> v = nullable x"
  by (cases x) (simp_all add: nullable_def)

lemma norm_decision:
  assumes "wf_json v"
  shows "norm v = norm (decisionValue i r m e w x) \<longleftrightarrow>
    closedValue v [''decision_id'', ''runtime'', ''model'', ''effort'', ''weights_id'', ''refusal''] [] \<and>
    Get v ''decision_id'' = Some (nullable i) \<and> Get v ''runtime'' = Some (nullable r) \<and> Get v ''model'' = Some (nullable m) \<and>
    Get v ''effort'' = Some (nullable e) \<and> Get v ''weights_id'' = Some (nullable w) \<and>
    (\<exists>y. Get v ''refusal'' = Some y \<and> norm y = norm x)"
proof -
  have "norm v = norm (decisionValue i r m e w x) \<longleftrightarrow> (\<exists>ms. v = JObject ms \<and> length ms = 6) \<and>
    Get v ''decision_id'' = Some (nullable i) \<and> Get v ''runtime'' = Some (nullable r) \<and> Get v ''model'' = Some (nullable m) \<and>
    Get v ''effort'' = Some (nullable e) \<and> Get v ''weights_id'' = Some (nullable w) \<and>
    (\<exists>y. Get v ''refusal'' = Some y \<and> norm y = norm x)"
    unfolding decisionValue_def by (subst norm_object_iff [OF assms]) (simp_all add: norm_nullable eval_nat_numeral)
  moreover have "closedValue v [''decision_id'', ''runtime'', ''model'', ''effort'', ''weights_id'', ''refusal''] [] \<longleftrightarrow>
      (\<exists>ms. v = JObject ms \<and> length ms = 6) \<and> Get v ''decision_id'' \<noteq> None \<and> Get v ''runtime'' \<noteq> None \<and> Get v ''model'' \<noteq> None \<and>
      Get v ''effort'' \<noteq> None \<and> Get v ''weights_id'' \<noteq> None \<and> Get v ''refusal'' \<noteq> None"
    by (subst closedValue_iff [OF assms]) (simp_all add: eval_nat_numeral)
  ultimately show ?thesis
    by (blast intro: option.discI)
qed

lemma choiceMember_Some: "choiceMember False m = Some s \<longleftrightarrow> m = Some (nullable (Some s)) \<and> valuePattern s"
  by (auto simp: choiceMember_def nullable_def split: option.splits jvalue.splits)

lemma optionalMember_Some: "optionalMember ok m = Some x \<longleftrightarrow> m = Some (nullable x) \<and> pred_option ok x"
  by (cases x) (auto simp: optionalMember_def nullable_def split: option.splits jvalue.splits)

lemma choiceMember_refused:
  "choiceMember True m \<noteq> None \<longleftrightarrow> (\<exists>i. m = Some (nullable i) \<and> pred_option valuePattern i)"
proof -
  have "(\<exists>i. m = Some (nullable i) \<and> pred_option valuePattern i) \<longleftrightarrow> m = Some JNull \<or> (\<exists>s. m = Some (JString s) \<and> valuePattern s)"
    by (auto simp: nullable_def intro: exI [of _ None] exI [of _ "Some _"] split: option.splits)
  then show ?thesis
    by (auto simp: choiceMember_def split: option.splits jvalue.splits)
qed

lemma refusalCode_Some:
  assumes "wf_json x"
  shows "refusalCode x = Some code \<longleftrightarrow> refusalPattern code \<and> norm x = norm (JObject [(''code'', JString code)])"
proof -
  have "norm x = norm (JObject [(''code'', JString code)]) \<longleftrightarrow>
      (\<exists>ms. x = JObject ms \<and> length ms = 1) \<and> map_option norm (Get x ''code'') = Some (JString code)"
    by (subst norm_object_iff [OF assms]) simp_all
  moreover have "map_option norm m = Some (JString code) \<longleftrightarrow> m = Some (JString code)" for m
    by (cases m) simp_all
  moreover have "closedValue x [''code''] [] \<longleftrightarrow> (\<exists>ms. x = JObject ms \<and> length ms = 1) \<and> Get x ''code'' \<noteq> None"
    by (subst closedValue_iff [OF assms]) simp_all
  ultimately show ?thesis
    by (auto simp: refusalCode_def split: option.splits jvalue.splits)
qed

lemma Get_present: "closedValue v names [] \<Longrightarrow> n \<in> set names \<Longrightarrow> \<exists>x. Get v n = Some x"
  by (auto simp: closedValue_def list_all_iff split: jvalue.splits)

lemma responseOf_decision:
  assumes "wf_json v" "closedValue v [''decision_id'', ''runtime'', ''model'', ''effort'', ''weights_id'', ''refusal''] []"
  shows "responseOf v cs = Inr d \<longleftrightarrow> decision_ok d \<and> (dRuntime d, dModel d, dEffort d) \<in> set cs \<and> norm v = norm (chosenValue d)"
proof -
  obtain x where x: "Get v ''refusal'' = Some x"
    using Get_present [OF assms(2), of "''refusal''"] by auto
  have "responseOf v cs = Inr d \<longleftrightarrow> x = JNull \<and> choiceMember False (Get v ''decision_id'') = Some (DecisionID d) \<and>
      choiceMember False (Get v ''runtime'') = Some (dRuntime d) \<and> choiceMember False (Get v ''model'') = Some (dModel d) \<and>
      optionalMember valuePattern (Get v ''effort'') = Some (dEffort d) \<and> optionalMember weightsPattern (Get v ''weights_id'') = Some (WeightsID d) \<and>
      (dRuntime d, dModel d, dEffort d) \<in> set cs"
    by (cases d) (auto simp: responseOf_def x Let_def split: option.splits if_splits)
  then show ?thesis
    unfolding chosenValue_def norm_decision [OF assms(1)] choiceMember_Some optionalMember_Some decision_ok_def
    using x assms(2) by auto
qed

lemma responseOf_abstained:
  assumes "wf_json v" "closedValue v [''decision_id'', ''runtime'', ''model'', ''effort'', ''weights_id'', ''refusal''] []"
  shows "responseOf v cs = Inl (Abstained code) \<longleftrightarrow>
    refusalPattern code \<and> (\<exists>i. pred_option valuePattern i \<and> norm v = norm (abstention i code))"
proof -
  obtain x where x: "Get v ''refusal'' = Some x"
    using Get_present [OF assms(2), of "''refusal''"] by auto
  have wf: "wf_json x" using wf_json_Get [OF assms(1) x] .
  have null: "choiceMember True (Some JNull) = Some []" "optionalMember ok (Some JNull) = Some None" for ok
    by (simp_all add: choiceMember_def optionalMember_def)
  have "responseOf v cs = Inl (Abstained code) \<longleftrightarrow> x \<noteq> JNull \<and> Get v ''runtime'' = Some JNull \<and> Get v ''model'' = Some JNull \<and>
      Get v ''effort'' = Some JNull \<and> Get v ''weights_id'' = Some JNull \<and> choiceMember True (Get v ''decision_id'') \<noteq> None \<and>
      refusalCode x = Some code"
    by (auto simp: responseOf_def x Let_def null split: option.splits if_splits)
  moreover have "refusalCode x = Some code \<Longrightarrow> x \<noteq> JNull"
    by (auto simp: refusalCode_def closedValue_def)
  moreover have "nullable None = JNull" by (simp add: nullable_def)
  ultimately show ?thesis
    unfolding abstention_def norm_decision [OF assms(1)] choiceMember_refused refusalCode_Some [OF wf]
    using x assms(2) by auto
qed

lemma ParseResponse_closed:
  assumes "\<And>v. wf_json v \<Longrightarrow> closedValue v [''decision_id'', ''runtime'', ''model'', ''effort'', ''weights_id'', ''refusal''] [] \<Longrightarrow>
      responseOf v cs = r \<longleftrightarrow> P v"
    and "\<And>v. wf_json v \<Longrightarrow> P v \<Longrightarrow> closedValue v [''decision_id'', ''runtime'', ''model'', ''effort'', ''weights_id'', ''refusal''] []"
    and "r \<noteq> Inl (Unavailable ''invalid'')"
  shows "ParseResponse doc cs = r \<longleftrightarrow> length doc \<le> Limit \<and> (\<exists>v. ParseJSON doc = Inr v \<and> P v)"
proof (cases "ParseJSON doc")
  case (Inl e)
  then show ?thesis using assms(3) by (auto simp: ParseResponse_def)
next
  case (Inr v)
  then have "wf_json v" using ParseJSON_jwf by blast
  with assms Inr show ?thesis by (auto simp: ParseResponse_def)
qed

lemma ParseResponse_decision:
  "ParseResponse doc cs = Inr d \<longleftrightarrow> length doc \<le> Limit \<and> (\<exists>v. ParseJSON doc = Inr v \<and>
     decision_ok d \<and> (dRuntime d, dModel d, dEffort d) \<in> set cs \<and> norm v = norm (chosenValue d))"
  by (rule ParseResponse_closed) (simp_all add: responseOf_decision chosenValue_def norm_decision)

lemma ParseResponse_abstained:
  "ParseResponse doc cs = Inl (Abstained code) \<longleftrightarrow> length doc \<le> Limit \<and> (\<exists>v. ParseJSON doc = Inr v \<and>
     refusalPattern code \<and> (\<exists>i. pred_option valuePattern i \<and> norm v = norm (abstention i code)))"
  by (rule ParseResponse_closed) (auto simp: responseOf_abstained abstention_def norm_decision)

section \<open>Requests\<close>

lemma jwf_nullable: "jwf (Suc k) (nullable x) \<longleftrightarrow> pred_option utf8_valid x"
  by (cases x) (simp_all add: nullable_def)

lemma member_names:
  "list_all utf8_valid [''env_id'', ''profile'', ''cwd'', ''role'', ''project'', ''werkstatt'', ''task'', ''flags'', ''candidates'',
     ''admission_source'', ''model'', ''effort'', ''runtime'', ''id'', ''class'', ''difficulty'', ''sensitivity'', ''language'', ''platform'']"
  by code_simp

lemma pointers_iff: "(\<forall>s \<in> set (pointers ps). P s) \<longleftrightarrow> (\<forall>p \<in> set ps. pred_option P p)"
  by (induction ps) (auto simp: pointers_def List.map_filter_def split: option.splits)

lemma pred_option_iff: "pred_option P x \<longleftrightarrow> (\<forall>s. x = Some s \<longrightarrow> P s)"
  by (cases x) simp_all

lemma requestValue_wf:
  assumes "validRequestUTF8 r"
  shows "jwf (Suc (Suc (Suc (Suc k)))) (requestValue r)"
proof -
  have valid: "\<forall>s \<in> set (requestStrings r). utf8_valid s"
    using assms by (simp add: validRequestUTF8_def list_all_iff)
  have names: "utf8_valid n" if "n \<in> {''env_id'', ''profile'', ''cwd'', ''role'', ''project'', ''werkstatt'', ''task'', ''flags'', ''candidates'',
     ''admission_source'', ''model'', ''effort'', ''runtime'', ''id'', ''class'', ''difficulty'', ''sensitivity'', ''language'', ''platform''}" for n
    using member_names that by auto
  have plain: "utf8_valid (srEnvID r)" "utf8_valid (srProfile r)" "utf8_valid (srCWD r)" "utf8_valid (srAdmission r)"
    using valid by (simp_all add: requestStrings_def)
  have ptr: "pred_option utf8_valid p" if "p \<in> set ([srRole r, srProject r, srWerkstatt r, srFlagModel r, srFlagEffort r] @
       (case srTask r of None \<Rightarrow> [] | Some t \<Rightarrow> [taskID t, taskDifficulty t, taskSensitivity t, taskLanguage t, taskPlatform t]) @
       map (snd \<circ> snd) (srCandidates r))" for p
    using valid that unfolding requestStrings_def set_append ball_Un pointers_iff by blast
  have task: "jwf (Suc (Suc (Suc k))) (taskValue t)" if "srTask r = Some t" for t
  proof -
    have "utf8_valid (taskClass t)"
      using valid that by (simp add: requestStrings_def)
    then show ?thesis
      using ptr that names by (simp add: taskValue_def jwf_nullable)
  qed
  have cand: "jwf (Suc (Suc k)) (candidateValue c)" if "c \<in> set (srCandidates r)" for c
  proof -
    obtain a b e where c: "c = (a, b, e)" by (cases c)
    have "utf8_valid a" "utf8_valid b"
      using valid that c by (force simp: requestStrings_def)+
    moreover have "pred_option utf8_valid e"
      using ptr [of e] that c by force
    ultimately show ?thesis
      using names by (simp add: candidateValue_def c jwf_nullable)
  qed
  have ptrs: "pred_option utf8_valid (srRole r)" "pred_option utf8_valid (srProject r)" "pred_option utf8_valid (srWerkstatt r)"
    "pred_option utf8_valid (srFlagModel r)" "pred_option utf8_valid (srFlagEffort r)"
    by (rule ptr, simp)+
  have t: "jwf (Suc (Suc (Suc k))) (case srTask r of None \<Rightarrow> JNull | Some t \<Rightarrow> taskValue t)"
    using task by (cases "srTask r") simp_all
  have cs: "jwf (Suc (Suc (Suc k))) (JArray (map candidateValue (srCandidates r)))"
    using cand by (simp add: list_all_iff)
  show ?thesis
    unfolding requestValue_def using member_names plain ptrs t cs by (simp add: jwf_nullable)
qed

lemma Encode_stable:
  assumes "Encode r = Some (d, g)"
  shows "length d \<le> Limit \<and> (\<exists>w. ParseJSON d = Inr w \<and> Canonical w = d \<and> Digest w = g)"
proof -
  have v: "validRequestUTF8 r" and d: "d = Canonical (requestValue r)" "g = Digest (requestValue r)" "length d \<le> Limit"
    using assms by (auto simp: Encode_def Let_def split: if_split_asm)
  have "maxDepth = Suc (Suc (Suc (Suc (maxDepth - 4))))" by (simp add: maxDepth_def)
  then have wf: "jwf maxDepth (requestValue r)"
    using requestValue_wf [OF v, of "maxDepth - 4"] by simp
  then have "ParseJSON d = Inr (norm (stripSig (requestValue r)))"
    by (simp add: d Canonical_def ParseJSON_appendCanonical jwf_stripSig)
  with Canonical_norm [OF wf] d show ?thesis
    by (auto simp: Digest_def)
qed

section \<open>The exchange\<close>

lemma boundedOutput_eq: "boundedOutput ps = (take Limit (concat ps), Limit < length (concat ps))"
proof -
  have "foldl boundedWrite b ps = (take Limit (fst b @ concat ps), snd b \<or> Limit < length (fst b @ concat ps))"
    if "length (fst b) \<le> Limit" "snd b \<longrightarrow> length (fst b) = Limit" for b
    using that
  proof (induction ps arbitrary: b)
    case (Cons p ps)
    have "length (fst (boundedWrite b p)) \<le> Limit" "snd (boundedWrite b p) \<longrightarrow> length (fst (boundedWrite b p)) = Limit"
      using Cons.prems by (auto simp: boundedWrite_def Let_def)
    then show ?case
      using Cons.IH Cons.prems by (auto simp: boundedWrite_def Let_def)
  qed (cases b, auto)
  from this [of "([], False)"] show ?thesis
    by (simp add: boundedOutput_def)
qed

lemma ParseResponse_unavailable: "ParseResponse doc cs = Inl (Unavailable reason) \<Longrightarrow> reason = ''invalid''"
  by (auto simp: ParseResponse_def responseOf_def Let_def split: if_splits sum.splits option.splits)

lemma Enforce_iff:
  assumes "\<And>reason. res \<noteq> Inl (Unavailable reason)"
  shows "Enforce r ps deadline failed = res \<longleftrightarrow> Encode r \<noteq> None \<and> length (concat ps) \<le> Limit \<and> \<not> deadline \<and> \<not> failed \<and>
    ParseResponse (concat ps) (srCandidates r) = res"
  using assms by (auto simp: Enforce_def boundedOutput_eq split: option.split)

text \<open>C9. One exchange with the selector. The request is canonical, within the limit, and read back to
  its own bytes and digest. Enforcing yields a decision exactly when the child wrote at most the
  limit, ended in time with success, and its whole output is one closed object with well-formed
  values, no refusal and a runtime, model and effort that were offered; it abstains exactly on the
  closed refusal object with a code; everything else is one of three fixed reasons, so no other
  byte of the child passes. A shadow run records a decision exactly when enforcing without a
  deadline would take it.\<close>

theorem selector_exchange:
  "(\<forall>d g. Encode r = Some (d, g) \<longrightarrow> length d \<le> Limit \<and> (\<exists>w. ParseJSON d = Inr w \<and> Canonical w = d \<and> Digest w = g)) \<and>
    (\<forall>d. Enforce r ps deadline failed = Inr d \<longleftrightarrow>
      Encode r \<noteq> None \<and> length (concat ps) \<le> Limit \<and> \<not> deadline \<and> \<not> failed \<and> decision_ok d \<and>
      (dRuntime d, dModel d, dEffort d) \<in> set (srCandidates r) \<and>
      (\<exists>v. ParseJSON (concat ps) = Inr v \<and> norm v = norm (chosenValue d))) \<and>
    (\<forall>code. Enforce r ps deadline failed = Inl (Abstained code) \<longleftrightarrow>
      Encode r \<noteq> None \<and> length (concat ps) \<le> Limit \<and> \<not> deadline \<and> \<not> failed \<and> refusalPattern code \<and>
      (\<exists>v i. ParseJSON (concat ps) = Inr v \<and> pred_option valuePattern i \<and> norm v = norm (abstention i code))) \<and>
    (\<forall>reason. Enforce r ps deadline failed = Inl (Unavailable reason) \<longrightarrow> reason \<in> {''invalid'', ''timeout'', ''exit''}) \<and>
    (\<forall>ob d. RunWorker r ps failed = Some ob \<longrightarrow> (obDecision ob = Some d \<longleftrightarrow> Enforce r ps False failed = Inr d))"
proof (intro conjI allI impI)
  show "length d \<le> Limit" "\<exists>w. ParseJSON d = Inr w \<and> Canonical w = d \<and> Digest w = g" if "Encode r = Some (d, g)" for d g
    using Encode_stable [OF that] by blast+
  show "Enforce r ps deadline failed = Inr d \<longleftrightarrow>
      Encode r \<noteq> None \<and> length (concat ps) \<le> Limit \<and> \<not> deadline \<and> \<not> failed \<and> decision_ok d \<and>
      (dRuntime d, dModel d, dEffort d) \<in> set (srCandidates r) \<and>
      (\<exists>v. ParseJSON (concat ps) = Inr v \<and> norm v = norm (chosenValue d))" for d
    by (subst Enforce_iff) (auto simp: ParseResponse_decision)
  show "Enforce r ps deadline failed = Inl (Abstained code) \<longleftrightarrow>
      Encode r \<noteq> None \<and> length (concat ps) \<le> Limit \<and> \<not> deadline \<and> \<not> failed \<and> refusalPattern code \<and>
      (\<exists>v i. ParseJSON (concat ps) = Inr v \<and> pred_option valuePattern i \<and> norm v = norm (abstention i code))" for code
    by (subst Enforce_iff) (auto simp: ParseResponse_abstained)
  show "reason \<in> {''invalid'', ''timeout'', ''exit''}" if "Enforce r ps deadline failed = Inl (Unavailable reason)" for reason
    using that ParseResponse_unavailable by (auto simp: Enforce_def split: option.split_asm if_split_asm)
  show "obDecision ob = Some d \<longleftrightarrow> Enforce r ps False failed = Inr d" if "RunWorker r ps failed = Some ob" for ob d
    using that by (auto simp: RunWorker_def shadowRecord_def Enforce_def Let_def split: option.splits prod.splits sum.splits failure.splits if_splits)
qed

definition exchangeRequest :: selectorRequest where
  "exchangeRequest = \<lparr>srEnvID = ''env-1'', srProfile = ''default'', srCWD = ''/work'', srRole = Some ''coder'', srProject = None, srWerkstatt = None,
     srTask = Some \<lparr>taskID = Some ''T-1'', taskClass = ''code'', taskDifficulty = None, taskSensitivity = None, taskLanguage = None, taskPlatform = None\<rparr>,
     srFlagModel = None, srFlagEffort = None, srCandidates = [(''claude'', ''opus'', Some ''high''), (''codex'', ''gpt-5'', None)], srAdmission = ''lineup''\<rparr>"

definition exchangeDecision :: Decision where
  "exchangeDecision = \<lparr>DecisionID = ''d-1'', dRuntime = ''codex'', dModel = ''gpt-5'', dEffort = None, WeightsID = None\<rparr>"

lemma exchange_wf: "jwf maxDepth (chosenValue exchangeDecision)"
  unfolding chosenValue_def decisionValue_def exchangeDecision_def maxDepth_def by code_simp

lemma exchange_norm: "norm (norm (chosenValue exchangeDecision)) = norm (chosenValue exchangeDecision)"
  by code_simp

lemma exchange_canonical: "HasPrefix (srCWD exchangeRequest) ''/'' \<and> validRequestUTF8 exchangeRequest \<and> length (Canonical (requestValue exchangeRequest)) \<le> Limit"
  by code_simp

lemma exchange_encoded: "Encode exchangeRequest \<noteq> None"
  using exchange_canonical by (simp add: Encode_def Let_def)

theorem selector_exchange_witness:
  "Enforce exchangeRequest [appendCanonical (chosenValue exchangeDecision), []] False False = Inr exchangeDecision"
proof -
  have "ParseJSON (concat [appendCanonical (chosenValue exchangeDecision), []]) = Inr (norm (chosenValue exchangeDecision))"
    by (simp add: ParseJSON_appendCanonical exchange_wf)
  moreover have "length (concat [appendCanonical (chosenValue exchangeDecision), []]) \<le> Limit"
    by code_simp
  moreover have "valuePattern ''d-1''" "valuePattern ''codex''" "valuePattern ''gpt-5''"
    by code_simp+
  then have "decision_ok exchangeDecision"
    by (simp add: decision_ok_def exchangeDecision_def)
  moreover have "(dRuntime exchangeDecision, dModel exchangeDecision, dEffort exchangeDecision) \<in> set (srCandidates exchangeRequest)"
    by code_simp
  ultimately show ?thesis
    using exchange_encoded exchange_norm selector_exchange [of exchangeRequest "[appendCanonical (chosenValue exchangeDecision), []]" False False]
    by blast
qed

end
