(* ===== verification/HostStatus.thy ===== *)
theory HostStatus
  imports Diagnostics ClosedMembers
begin

text \<open>
  \<open>internal/hosted/status.go\<close> and the status channel of \<open>transport.go\<close>: the registry of the codes a
  receiver may report, the normalizer of one refusal record, the length-prefixed framing, and the
  exit status of a hosted run. A malformed record and a lost transport carry no text.
\<close>

section \<open>The registry\<close>

datatype statusDetails = StatusD0 | StatusD1 | StatusD2

definition statusD1Fields :: "string list" where
  "statusD1Fields = [''producer'', ''fragment'', ''policy'', ''process'', ''resume'', ''reservation'', ''auxiliary'']"

definition statusD1Reasons :: "string list" where
  "statusD1Reasons = [''shape_invalid'', ''source_mismatch'', ''credential_metadata'', ''required_env_missing'', ''reservation_invalid'']"

definition statusD2Fields :: "string list" where
  "statusD2Fields = [''fragment'', ''policy'', ''managed_home'']"

definition statusD2Reasons :: "string list" where
  "statusD2Reasons = [''environment_drift'', ''selector_drift'', ''literal_drift'']"

type_synonym statusEntry = "nat \<times> string \<times> statusDetails"

definition statusRows :: "(string list \<times> statusEntry) list" where
  "statusRows =
     [([''usage''], 2, ''Invalid invocation.'', StatusD0),
      ([''launch_plan_invalid''], 2, ''Invalid launch plan.'', StatusD1),
      ([''session_resume_invalid''], 2, ''Invalid resume selector.'', StatusD0),
      ([''session_host_missing''], 1, ''Session host is missing.'', StatusD0),
      ([''session_host_unavailable''], 1, ''Session host is unavailable.'', StatusD0),
      ([''session_host_protocol_error''], 6, ''Invalid session host response.'', StatusD0),
      ([''session_host_protocol_unsupported''], 6, ''Session host protocol is unsupported.'', StatusD0),
      ([''session_host_capability_missing''], 6, ''Required host capability is missing.'', StatusD0),
      ([''session_host_provider_unsupported'', ''session_host_scope_unsupported'',
        ''session_host_execution_profile_unsupported'', ''session_host_terminal_required'',
        ''session_host_stdin_unsupported''], 6, ''Hosted launch requirement is unsupported.'', StatusD0),
      ([''secret_policy_violation''], 16, ''Secret policy violation.'', StatusD1),
      ([''policy_refused''], 16, ''Policy refused.'', StatusD2),
      ([''network_scope_unsupported'', ''network_profile_drift''], 16, ''Network policy refused.'', StatusD0),
      ([''session_host_default_not_ready''], 16, ''Hosted default is not ready.'', StatusD0),
      ([''session_resume_not_found'', ''session_resume_ambiguous'', ''session_resume_unreadable'',
        ''session_resume_location_mismatch'', ''session_resume_identity_mismatch''], 1, ''Session resume refused.'', StatusD0),
      ([''session_provider_conflict'', ''session_adoption_conflict''], 1, ''Session ownership conflict.'', StatusD0),
      ([''session_liveness_unknown''], 1, ''Session liveness is unknown.'', StatusD0),
      ([''session_live_detached''], 1, ''Live session is detached.'', StatusD0),
      ([''resolve_invocation_failed'', ''resolve_environment_unknown'', ''resolve_profile_unknown'',
        ''resolve_repair_failed'', ''resolve_lock_unavailable'', ''resolve_fragment_invalid'',
        ''defaults_config_invalid'', ''defaults_unresolvable''], 1, ''Profile resolution refused.'', StatusD0),
      ([''plan_refused'', ''plan_provider_limited'', ''env_unsupported'', ''permission_policy_unsupported'',
        ''permission_mode_unsupported'', ''exec_provider_missing'', ''mcp_layer_missing'', ''mcp_layer_unreadable'',
        ''sysprompt_channel_unavailable'', ''sysprompt_file_unreadable''], 1, ''Provider launch refused.'', StatusD0),
      ([''claude_goal_unavailable'', ''claude_goal_unsupported_version'', ''claude_goal_workspace_untrusted'',
        ''claude_goal_preflight_failed'', ''claude_session_resume_failed'', ''claude_launch_args_unsupported'',
        ''claude_session_adoption_invalid''], 1, ''Claude capability refused.'', StatusD0),
      ([''claude_context_base_not_forkable'', ''claude_context_cwd_slug_unverified'',
        ''claude_context_fork_plan_invalid'', ''claude_context_fork_source_mutated'',
        ''claude_context_fork_unverified'', ''claude_context_materialization_failed'',
        ''claude_context_transcript_format_drift'', ''claude_context_writer_lease_unavailable''], 1, ''Claude context refused.'', StatusD0),
      ([''context_fork_preflight_failed'', ''context_run_handle_unavailable'', ''context_run_transcript_unavailable''], 1, ''Context preparation refused.'', StatusD0),
      ([''owner_activation_in_progress''], 1, ''Owner activation is in progress.'', StatusD0),
      ([''session_reservation_stale'', ''session_generation_stale''], 1, ''Session observation is stale.'', StatusD0),
      ([''session_takeover_not_applicable'', ''session_takeover_observation_changed''], 1, ''Session takeover refused.'', StatusD0),
      ([''goal_reflection_skew''], 1, ''Goal reflection is incompatible.'', StatusD0),
      ([''codex_context_base_not_forkable'', ''codex_context_capability_unavailable'',
        ''codex_context_fork_plan_invalid''], 1, ''Codex context refused.'', StatusD0),
      ([''codex_thread_adoption_invalid'', ''codex_thread_not_found'', ''codex_thread_resume_failed'',
        ''codex_goal_budget_required''], 1, ''Codex capability refused.'', StatusD0),
      ([''context_contract_invalid'', ''context_binding_invalid'', ''context_lineage_invalid'',
        ''context_not_found'', ''context_already_exists'', ''context_revision_conflict'', ''context_state_invalid'',
        ''context_not_ready'', ''context_stale'', ''context_publication_denied'', ''context_secret_class_denied'',
        ''context_provider_mismatch'', ''context_payload_capability_required'',
        ''context_materialization_divergent'', ''context_registry_unsupported'', ''context_persistence_failed'',
        ''context_compacted'', ''context_integrity_unverified'', ''context_classification_failed'',
        ''context_builder_allowlist_denied'', ''context_builder_confinement_unavailable'',
        ''context_builder_trace_unavailable'', ''context_builder_tool_isolation_unavailable'',
        ''context_assay_isolation_unavailable'', ''context_assay_tool_use_detected'', ''context_payload_vanished'',
        ''context_payload_unverified'', ''context_provider_incompatible'', ''context_not_materialized'',
        ''context_pointer_invalid'', ''context_assertion_unverified'', ''context_correctness_failed'',
        ''context_contaminated'', ''context_secret_detected'', ''context_validation_unavailable'',
        ''context_validation_budget_exceeded''], 1, ''Context authorization refused.'', StatusD0),
      ([''goal_producer_clause_unsupported'', ''goal_contract_invalid'', ''goal_role_incompatible'',
        ''goal_scope_invalid'', ''goal_scope_empty'', ''goal_scope_blocked_only'',
        ''goal_dependency_closure_invalid'', ''goal_objective_too_long'', ''goal_provider_condition_too_long'',
        ''goal_revision_required'', ''goal_revision_conflict'', ''goal_mutation_restricted'',
        ''goal_actor_unauthorized'', ''goal_activation_failed'', ''goal_budget_invalid'',
        ''goal_manager_protocol_skew'', ''spawned_run_goal_plane_disabled'', ''goal_owner_invalid'',
        ''goal_not_found'', ''goal_persistence_failed'', ''goal_native_reflection_required''], 1, ''Goal operation refused.'', StatusD0)]"

text \<open>A code listed again replaces the earlier entry.\<close>

definition statusRegistry :: "(string \<times> statusEntry) list" where
  "statusRegistry = List.rev (concat (map (\<lambda>(codes, entry). map (\<lambda>c. (c, entry)) codes) statusRows))"

definition statusEntryOf :: "string \<Rightarrow> statusEntry option" where
  "statusEntryOf code = map_of statusRegistry code"

definition StatusExitForCode :: "string \<Rightarrow> nat option" where
  "StatusExitForCode code = map_option fst (statusEntryOf code)"

definition StatusRegistryRow :: "string \<Rightarrow> (nat \<times> string) option" where
  "StatusRegistryRow code = map_option (\<lambda>(exit, message, _). (exit, message)) (statusEntryOf code)"

abbreviation StatusProtocolErrorCode :: string where
  "StatusProtocolErrorCode \<equiv> ''session_host_protocol_error''"

definition ProtocolErrorExit :: nat where
  "ProtocolErrorExit = (case statusEntryOf StatusProtocolErrorCode of None \<Rightarrow> ExitProtocol | Some (exit, _, _) \<Rightarrow> exit)"

definition ProtocolErrorMessage :: string where
  "ProtocolErrorMessage = (case statusEntryOf StatusProtocolErrorCode of
     None \<Rightarrow> ''Invalid session host response.'' | Some (_, message, _) \<Rightarrow> message)"

section \<open>One record\<close>

record StatusRefusal =
  refCode :: string
  refMessage :: string
  refField :: string
  refReason :: string

definition refusalDetail :: "StatusRefusal \<Rightarrow> string" where
  "refusalDetail r = refMessage r @ (if refField r \<noteq> [] then '' field='' @ refField r else []) @
     (if refReason r \<noteq> [] then '' reason='' @ refReason r else [])"

text \<open>The members of the details object: field and reason, \<open>None\<close> for a malformed one.\<close>

fun detailTokens :: "(string \<times> jvalue) list \<Rightarrow> string option \<times> string option \<Rightarrow> (string option \<times> string option) option" where
  "detailTokens [] t = Some t"
| "detailTokens ((k, v) # ms) t = (case v of
     JString s \<Rightarrow>
       if k = ''field'' then detailTokens ms (Some s, snd t)
       else if k = ''reason'' then detailTokens ms (fst t, Some s)
       else None
   | _ \<Rightarrow> None)"

fun detailAllowed :: "statusDetails \<Rightarrow> string option \<times> string option \<Rightarrow> bool" where
  "detailAllowed StatusD0 (f, r) \<longleftrightarrow> f = None \<and> r = None"
| "detailAllowed StatusD1 (f, r) \<longleftrightarrow> pred_option (\<lambda>s. s \<in> set statusD1Fields) f \<and> pred_option (\<lambda>s. s \<in> set statusD1Reasons) r"
| "detailAllowed StatusD2 (f, r) \<longleftrightarrow> pred_option (\<lambda>s. s \<in> set statusD2Fields) f \<and> pred_option (\<lambda>s. s \<in> set statusD2Reasons) r"

definition orEmpty :: "string option \<Rightarrow> string" where
  "orEmpty x = (case x of None \<Rightarrow> [] | Some s \<Rightarrow> s)"

definition checkStatusDetails :: "statusDetails \<Rightarrow> jvalue \<Rightarrow> (string \<times> string) option" where
  "checkStatusDetails cls v = (case v of
     JObject ms \<Rightarrow>
       if 2 < length ms then None
       else (case detailTokens ms (None, None) of
         None \<Rightarrow> None
       | Some t \<Rightarrow> if detailAllowed cls t then Some (orEmpty (fst t), orEmpty (snd t)) else None)
   | _ \<Rightarrow> None)"

abbreviation StatusSchema :: string where "StatusSchema \<equiv> ''urn:relux:task-board:session-launch-status''"
abbreviation StatusSchemaVer :: string where "StatusSchemaVer \<equiv> ''1.0.0''"

definition statusStr :: "jvalue \<Rightarrow> string \<Rightarrow> string option" where
  "statusStr v key = (case Get v key of Some (JString s) \<Rightarrow> Some s | _ \<Rightarrow> None)"

definition envelopeKeys :: "string list" where
  "envelopeKeys = [''schema'', ''schema_version'', ''type'', ''code'', ''message'', ''details'']"

definition envelopeOk :: "jvalue \<Rightarrow> (string \<times> jvalue) list \<Rightarrow> bool" where
  "envelopeOk v ms \<longleftrightarrow> length ms = 6 \<and> statusStr v ''schema'' = Some StatusSchema \<and>
     statusStr v ''schema_version'' = Some StatusSchemaVer \<and> statusStr v ''type'' = Some ''refusal'' \<and>
     list_all (\<lambda>(k, _). k \<in> set envelopeKeys) ms"

definition NormalizeValue :: "jvalue \<Rightarrow> StatusRefusal option" where
  "NormalizeValue v = (case v of
     JObject ms \<Rightarrow>
       if \<not> envelopeOk v ms then None
       else (case statusStr v ''code'' of
         None \<Rightarrow> None
       | Some code \<Rightarrow> (case statusEntryOf code of
           None \<Rightarrow> None
         | Some (_, message, cls) \<Rightarrow>
             if statusStr v ''message'' \<noteq> Some message then None
             else (case Get v ''details'' of
               None \<Rightarrow> None
             | Some d \<Rightarrow> (case checkStatusDetails cls d of
                 None \<Rightarrow> None
               | Some (f, r) \<Rightarrow> Some \<lparr>refCode = code, refMessage = message, refField = f, refReason = r\<rparr>))))
   | _ \<Rightarrow> None)"

definition NormalizeStatusRecord :: "string \<Rightarrow> StatusRefusal option" where
  "NormalizeStatusRecord body = (case ParseJSON body of Inl _ \<Rightarrow> None | Inr v \<Rightarrow> NormalizeValue v)"

section \<open>The channel\<close>

definition statusRecordMax :: nat where "statusRecordMax = 65536"

datatype statusError = ProtocolViolation | TransportLoss

definition bigEndian32 :: "string \<Rightarrow> nat" where
  "bigEndian32 hdr = foldl (\<lambda>n c. 256 * n + of_char c) 0 hdr"

text \<open>\<open>DrainStatusRecords\<close> over the bytes of the channel: the accepted refusals, and the final error.
  A stream that ends inside a header or a body is a transport loss unless it is poisoned.\<close>

function drain :: "bool \<Rightarrow> string \<Rightarrow> StatusRefusal list \<times> statusError option" where
  "drain poisoned s =
     (let lost = ([], Some (if poisoned then ProtocolViolation else TransportLoss))
      in if s = [] then ([], if poisoned then Some ProtocolViolation else None)
         else if length s < 4 then lost
         else let size = bigEndian32 (take 4 s); rest = drop 4 s
              in if size = 0 \<or> statusRecordMax < size then ([], Some ProtocolViolation)
                 else if length rest < size then lost
                 else case NormalizeStatusRecord (take size rest) of
                   None \<Rightarrow> drain True (drop size rest)
                 | Some r \<Rightarrow> (case drain poisoned (drop size rest) of (rs, e) \<Rightarrow> (r # rs, e)))"
  by pat_completeness auto
termination by (relation "measure (\<lambda>(_, s). length s)") auto

declare drain.simps [simp del]

definition readStatusRecords :: "string \<Rightarrow> statusError + StatusRefusal list" where
  "readStatusRecords s = (case drain False s of (rs, None) \<Rightarrow> Inr rs | (rs, Some e) \<Rightarrow> Inl e)"

section \<open>The hosted run\<close>

text \<open>How the receiver ended: its status, the signal that killed it, or an error of the wait.\<close>

datatype receiverEnd = ReceiverExit int | ReceiverSignal nat | ReceiverLost

fun exitOf :: "receiverEnd \<Rightarrow> int" where
  "exitOf (ReceiverExit n) = n"
| "exitOf (ReceiverSignal s) = 128 + int s"
| "exitOf ReceiverLost = int (ExitForCode ''session_host_unavailable'')"

record receiverWorld =
  receiverPath :: "string option"
  terminalOpens :: bool
  pipeOpens :: bool
  terminalValid :: bool
  pipeValid :: bool
  receiverStarts :: bool
  statusBytes :: string
  receiverEnd :: receiverEnd

text \<open>The diagnostic of a run, code and detail, and its exit status. \<open>preopened\<close> is the terminal the
  caller opened.\<close>

definition hostedRefusal :: "string \<Rightarrow> string \<Rightarrow> (string \<times> string) option \<times> int" where
  "hostedRefusal code detail = (Some (code, detail), int (ExitForCode code))"

definition RunHosted :: "receiverWorld \<Rightarrow> bool \<Rightarrow> (string \<times> string) option \<times> int" where
  "RunHosted w preopened =
     (if receiverPath w = None \<or> receiverPath w = Some [] then
        hostedRefusal ''session_host_missing'' ''the task-board receiver is not available on PATH''
      else if \<not> preopened \<and> \<not> terminalOpens w then
        hostedRefusal ''session_host_terminal_required'' ''a hosted launch requires a controlling terminal''
      else if \<not> pipeOpens w then hostedRefusal ''session_host_unavailable'' ''cannot open the receiver status channel''
      else if \<not> terminalValid w then
        hostedRefusal ''session_host_terminal_required'' ''a hosted launch requires a controlling terminal''
      else if \<not> pipeValid w then hostedRefusal ''session_host_unavailable'' ''cannot open the receiver status channel''
      else if \<not> receiverStarts w then hostedRefusal ''session_host_missing'' ''the task-board receiver could not start''
      else case readStatusRecords (statusBytes w) of
        Inl ProtocolViolation \<Rightarrow> (Some (StatusProtocolErrorCode, ProtocolErrorMessage), int ProtocolErrorExit)
      | Inl TransportLoss \<Rightarrow> hostedRefusal ''session_host_unavailable'' ''the receiver status channel is corrupt''
      | Inr [] \<Rightarrow> (None, exitOf (receiverEnd w))
      | Inr rs \<Rightarrow>
          (Some (refCode (last rs), refusalDetail (last rs)),
           case StatusExitForCode (refCode (last rs)) of Some n \<Rightarrow> int n | None \<Rightarrow> exitOf (receiverEnd w)))"

end
