(* ===== verification/HostStatusProps.thy ===== *)
theory HostStatusProps
  imports HostStatus
begin

text \<open>
  The status channel accepts exactly the frames of closed refusal records, and what a hosted run
  prints comes from the registry.
\<close>

section \<open>One record\<close>

definition detailMembers :: "string option \<Rightarrow> string option \<Rightarrow> (string \<times> jvalue) list" where
  "detailMembers f r = (case f of None \<Rightarrow> [] | Some s \<Rightarrow> [(''field'', JString s)]) @ (case r of None \<Rightarrow> [] | Some s \<Rightarrow> [(''reason'', JString s)])"

definition refusalValue :: "string \<Rightarrow> string \<Rightarrow> string option \<Rightarrow> string option \<Rightarrow> jvalue" where
  "refusalValue code message f r = JObject
     [(''schema'', JString StatusSchema), (''schema_version'', JString StatusSchemaVer), (''type'', JString ''refusal''),
      (''code'', JString code), (''message'', JString message), (''details'', JObject (detailMembers f r))]"

lemma statusStr_Some: "statusStr v k = Some s \<longleftrightarrow> Get v k = Some (JString s)"
  by (auto simp: statusStr_def split: option.splits jvalue.splits)

lemma record_closed_keys:
  assumes "distinct (map fst ms)" "distinct names" "length ms = length names" "\<And>n. n \<in> set names \<Longrightarrow> map_of ms n \<noteq> None"
  shows "set (map fst ms) = set names"
proof -
  have sub: "set names \<subseteq> set (map fst ms)"
    using assms(4) by (force simp: map_of_eq_None_iff)
  have "card (set names) = card (set (map fst ms))"
    using distinct_card [OF assms(1)] distinct_card [OF assms(2)] assms(3) by simp
  with sub show ?thesis
    using card_subset_eq [of "set (map fst ms)" "set names"] by simp
qed

lemma detailMembers_distinct: "distinct (map fst (detailMembers f r))"
  by (cases f; cases r) (simp_all add: detailMembers_def)

lemma detailMembers_length: "length (detailMembers f r) \<le> 2"
  by (cases f; cases r) (simp_all add: detailMembers_def)

lemma detailTokens_iff:
  assumes "wf_json (JObject ms)" "length ms \<le> 2"
  shows "detailTokens ms (None, None) = Some (f, r) \<longleftrightarrow> norm (JObject ms) = norm (JObject (detailMembers f r))"
proof -
  have d: "distinct (map fst ms)" using assms(1) by (auto intro: wf_json_distinct)
  have iff: "norm (JObject ms) = norm (JObject (detailMembers f r)) \<longleftrightarrow>
      length ms = length (detailMembers f r) \<and> list_all (\<lambda>(n, w). map_option norm (map_of ms n) = Some (norm w)) (detailMembers f r)"
    using norm_object_iff [OF assms(1) detailMembers_distinct [of f r]] by simp
  consider "ms = []" | k v where "ms = [(k, v)]" | k v k' v' where "ms = [(k, v), (k', v')]"
    using assms(2) by (cases ms; cases "tl ms") auto
  then show ?thesis
  proof cases
    case 1
    then show ?thesis by (cases f; cases r) (auto simp: iff detailMembers_def)
  next
    case (2 k v)
    then show ?thesis by (cases f; cases r; cases v) (auto simp: iff detailMembers_def)
  next
    case (3 k v k' v')
    then show ?thesis using d by (cases f; cases r; cases v; cases v') (auto simp: iff detailMembers_def)
  qed
qed

lemma checkStatusDetails_iff:
  assumes "wf_json d"
  shows "checkStatusDetails cls d = Some (a, b) \<longleftrightarrow>
    (\<exists>f r. detailAllowed cls (f, r) \<and> a = orEmpty f \<and> b = orEmpty r \<and> norm d = norm (JObject (detailMembers f r)))"
proof (cases d)
  case (JObject ms)
  have len: "norm (JObject ms) = norm (JObject (detailMembers f r)) \<Longrightarrow> length ms \<le> 2" for f r
    using norm_object_iff [of "JObject ms" "detailMembers f r"] assms JObject detailMembers_distinct detailMembers_length by auto
  show ?thesis
  proof (cases "length ms \<le> 2")
    case True
    then have "checkStatusDetails cls d = Some (a, b) \<longleftrightarrow>
        (\<exists>f r. detailTokens ms (None, None) = Some (f, r) \<and> detailAllowed cls (f, r) \<and> a = orEmpty f \<and> b = orEmpty r)"
      by (auto simp: checkStatusDetails_def JObject split: option.split)
    then show ?thesis
      unfolding detailTokens_iff [OF assms [unfolded JObject] True] unfolding JObject by blast
  next
    case False
    then show ?thesis using len JObject by (auto simp: checkStatusDetails_def)
  qed
qed (auto simp: checkStatusDetails_def)

lemma refusalValue_iff:
  assumes "wf_json v"
  shows "norm v = norm (refusalValue code message f r) \<longleftrightarrow> (\<exists>ms. v = JObject ms \<and> length ms = 6) \<and>
    Get v ''schema'' = Some (JString StatusSchema) \<and> Get v ''schema_version'' = Some (JString StatusSchemaVer) \<and>
    Get v ''type'' = Some (JString ''refusal'') \<and> Get v ''code'' = Some (JString code) \<and> Get v ''message'' = Some (JString message) \<and>
    (\<exists>d. Get v ''details'' = Some d \<and> norm d = norm (JObject (detailMembers f r)))"
proof -
  have str: "map_option norm m = Some (JString s) \<longleftrightarrow> m = Some (JString s)" for m s
    by (cases m) simp_all
  show ?thesis
    unfolding refusalValue_def
    by (subst norm_object_iff [OF assms]) (simp_all add: str eval_nat_numeral)
qed

lemma NormalizeValue_iff:
  assumes "wf_json v"
  shows "NormalizeValue v = Some ref \<longleftrightarrow> (\<exists>exit cls f r. statusEntryOf (refCode ref) = Some (exit, refMessage ref, cls) \<and>
    detailAllowed cls (f, r) \<and> refField ref = orEmpty f \<and> refReason ref = orEmpty r \<and>
    norm v = norm (refusalValue (refCode ref) (refMessage ref) f r))" (is "_ \<longleftrightarrow> ?R")
proof (cases v)
  case (JObject ms)
  have d: "distinct (map fst ms)" using assms JObject by (auto intro: wf_json_distinct)
  have keys: "set (map fst ms) = set envelopeKeys" if "length ms = 6" "\<forall>n \<in> set envelopeKeys. Get v n \<noteq> None"
  proof (rule record_closed_keys [OF d])
    show "distinct envelopeKeys" "length ms = length envelopeKeys"
      using that(1) by (simp_all add: envelopeKeys_def)
    show "map_of ms n \<noteq> None" if "n \<in> set envelopeKeys" for n
      using \<open>\<forall>n \<in> set envelopeKeys. Get v n \<noteq> None\<close> that JObject by auto
  qed
  have all: "list_all (\<lambda>(k, _). k \<in> set envelopeKeys) ms"
    if "length ms = 6" "\<forall>n \<in> set envelopeKeys. Get v n \<noteq> None"
    using keys [OF that] unfolding list_all_iff by (simp add: case_prod_beta) blast
  have unf: "NormalizeValue v = (if \<not> envelopeOk v ms then None
      else (case statusStr v ''code'' of None \<Rightarrow> None
       | Some code \<Rightarrow> (case statusEntryOf code of None \<Rightarrow> None
         | Some (_, message, cls) \<Rightarrow>
             if statusStr v ''message'' \<noteq> Some message then None
             else (case Get v ''details'' of None \<Rightarrow> None
             | Some d \<Rightarrow> (case checkStatusDetails cls d of None \<Rightarrow> None
               | Some (f, r) \<Rightarrow> Some \<lparr>refCode = code, refMessage = message, refField = f, refReason = r\<rparr>)))))"
    unfolding NormalizeValue_def by (subst (1) JObject) simp
  show ?thesis
  proof
    assume L: "NormalizeValue v = Some ref"
    then obtain exit cls dv where *: "length ms = 6" "Get v ''schema'' = Some (JString StatusSchema)" "Get v ''schema_version'' = Some (JString StatusSchemaVer)"
      "Get v ''type'' = Some (JString ''refusal'')" "Get v ''code'' = Some (JString (refCode ref))" "Get v ''message'' = Some (JString (refMessage ref))"
      "statusEntryOf (refCode ref) = Some (exit, refMessage ref, cls)" "Get v ''details'' = Some dv" "checkStatusDetails cls dv = Some (refField ref, refReason ref)"
      unfolding unf envelopeOk_def
      by (auto simp: statusStr_Some simp del: Get.simps split: if_split_asm option.split_asm prod.split_asm)
    obtain f r where d: "detailAllowed cls (f, r)" "refField ref = orEmpty f" "refReason ref = orEmpty r" "norm dv = norm (JObject (detailMembers f r))"
      using *(9) unfolding checkStatusDetails_iff [OF wf_json_Get [OF assms *(8)]] by blast
    then have "norm v = norm (refusalValue (refCode ref) (refMessage ref) f r)"
      unfolding refusalValue_iff [OF assms] using *(1-6,8) JObject by blast
    with d *(7) show ?R by blast
  next
    assume ?R
    then obtain exit cls f r where e: "statusEntryOf (refCode ref) = Some (exit, refMessage ref, cls)" "detailAllowed cls (f, r)"
      "refField ref = orEmpty f" "refReason ref = orEmpty r" "norm v = norm (refusalValue (refCode ref) (refMessage ref) f r)"
      by blast
    obtain dv where *: "length ms = 6" "Get v ''schema'' = Some (JString StatusSchema)" "Get v ''schema_version'' = Some (JString StatusSchemaVer)"
      "Get v ''type'' = Some (JString ''refusal'')" "Get v ''code'' = Some (JString (refCode ref))" "Get v ''message'' = Some (JString (refMessage ref))"
      "Get v ''details'' = Some dv" "norm dv = norm (JObject (detailMembers f r))"
      using e(5) JObject unfolding refusalValue_iff [OF assms] by blast
    have "checkStatusDetails cls dv = Some (refField ref, refReason ref)"
      using checkStatusDetails_iff [OF wf_json_Get [OF assms *(7)]] e(2-4) *(8) by blast
    moreover have "\<forall>n \<in> set envelopeKeys. Get v n \<noteq> None"
      unfolding envelopeKeys_def using * by simp
    moreover have "statusStr v ''code'' = Some (refCode ref)" "statusStr v ''message'' = Some (refMessage ref)"
      "statusStr v ''schema'' = Some StatusSchema" "statusStr v ''schema_version'' = Some StatusSchemaVer" "statusStr v ''type'' = Some ''refusal''"
      using * by (simp_all only: statusStr_Some)
    ultimately show "NormalizeValue v = Some ref"
      using * e(1) all unfolding unf envelopeOk_def
      by (simp del: Get.simps)
  qed
qed (auto simp: NormalizeValue_def refusalValue_def)

lemma NormalizeStatusRecord_iff:
  "NormalizeStatusRecord body = Some ref \<longleftrightarrow> (\<exists>v exit cls f r. ParseJSON body = Inr v \<and> statusEntryOf (refCode ref) = Some (exit, refMessage ref, cls) \<and>
    detailAllowed cls (f, r) \<and> refField ref = orEmpty f \<and> refReason ref = orEmpty r \<and>
    norm v = norm (refusalValue (refCode ref) (refMessage ref) f r))"
proof (cases "ParseJSON body")
  case (Inr v)
  then have "wf_json v" using ParseJSON_jwf by blast
  with Inr show ?thesis by (auto simp: NormalizeStatusRecord_def NormalizeValue_iff)
qed (simp add: NormalizeStatusRecord_def)

section \<open>The channel\<close>

definition be32 :: "nat \<Rightarrow> string" where
  "be32 n = map char_of [n div 2 ^ 24, n div 2 ^ 16 mod 256, n div 2 ^ 8 mod 256, n mod 256]"

definition frame :: "string \<Rightarrow> string" where
  "frame body = be32 (length body) @ body"

definition frameBody :: "string \<Rightarrow> bool" where
  "frameBody body \<longleftrightarrow> 1 \<le> length body \<and> length body \<le> statusRecordMax"

lemma be32_length [simp]: "length (be32 n) = 4"
  by (simp add: be32_def)

lemma bigEndian_be32: "n < 2 ^ 32 \<Longrightarrow> bigEndian32 (be32 n) = n"
proof -
  assume n: "n < 2 ^ 32"
  then have "n div 2 ^ 24 < 256" by (simp add: less_mult_imp_div_less)
  then have "bigEndian32 (be32 n) = 256 * (256 * (256 * (n div 2 ^ 24) + n div 2 ^ 16 mod 256) + n div 2 ^ 8 mod 256) + n mod 256"
    by (simp add: bigEndian32_def be32_def)
  moreover have "n div 2 ^ 24 = n div 2 ^ 16 div 256" "n div 2 ^ 16 = n div 2 ^ 8 div 256" "n div 2 ^ 8 = n div 256"
    by (simp_all add: div_mult2_eq [symmetric])
  ultimately show ?thesis by (simp only: mult_div_mod_eq)
qed

lemma bytes_div:
  assumes "a < 256" "b < 256" "c < 256" "d < (256 :: nat)"
  shows "(256 * (256 * (256 * a + b) + c) + d) div 2 ^ 24 = a"
    "(256 * (256 * (256 * a + b) + c) + d) div 2 ^ 16 mod 256 = b"
    "(256 * (256 * (256 * a + b) + c) + d) div 2 ^ 8 mod 256 = c"
    "(256 * (256 * (256 * a + b) + c) + d) mod 256 = d"
proof -
  let ?x = "256 * (256 * (256 * a + b) + c) + d"
  have low: "(256 * k + e) mod 256 = e" if "e < 256" for k e :: nat
    using that by (subst add.commute) (simp only: mod_mult_self2 mod_less)
  have "?x div 2 ^ 16 = 256 * a + b" "?x div 2 ^ 8 = 256 * (256 * a + b) + c"
    using assms by (auto intro!: div_nat_eqI)
  then show "?x div 2 ^ 16 mod 256 = b" "?x div 2 ^ 8 mod 256 = c" "?x mod 256 = d"
    using assms low by (simp_all only:)
  show "?x div 2 ^ 24 = a"
    using assms by (auto intro!: div_nat_eqI)
qed

lemma be32_bigEndian:
  assumes "length h = 4"
  shows "be32 (bigEndian32 h) = h"
proof -
  obtain a b c d where h: "h = [a, b, c, d]"
    using assms by (auto simp: eval_nat_numeral length_Suc_conv)
  have lt: "of_char x < (256 :: nat)" for x
    using of_char_mod_256 [of x, where 'a = nat] mod_less_divisor [of 256 "of_char x"] by simp
  have "bigEndian32 h = 256 * (256 * (256 * of_char a + of_char b) + of_char c) + of_char d"
    by (simp add: h bigEndian32_def)
  then show ?thesis
    unfolding be32_def by (simp only: bytes_div [OF lt [of a] lt [of b] lt [of c] lt [of d]]) (simp add: h)
qed

text \<open>What is left when a stream stops inside a frame.\<close>

definition partialFrame :: "string \<Rightarrow> bool" where
  "partialFrame s \<longleftrightarrow> s \<noteq> [] \<and> (length s < 4 \<or>
     1 \<le> bigEndian32 (take 4 s) \<and> bigEndian32 (take 4 s) \<le> statusRecordMax \<and> length s < 4 + bigEndian32 (take 4 s))"

lemma drain_nil: "drain p [] = ([], if p then Some ProtocolViolation else None)"
  by (simp add: drain.simps)

lemma drain_frame:
  assumes "frameBody b"
  shows "drain p (frame b @ s) = (case NormalizeStatusRecord b of None \<Rightarrow> drain True s
    | Some r \<Rightarrow> (case drain p s of (rs, e) \<Rightarrow> (r # rs, e)))"
proof -
  have n: "bigEndian32 (be32 (length b)) = length b"
    using assms by (intro bigEndian_be32) (simp add: frameBody_def statusRecordMax_def)
  have "frame b @ s \<noteq> []" "\<not> length (frame b @ s) < 4" "take 4 (frame b @ s) = be32 (length b)" "drop 4 (frame b @ s) = b @ s"
    by (auto simp: frame_def be32_def)
  then show ?thesis
    using assms n by (subst drain.simps) (auto simp: Let_def frameBody_def cong: option.case_cong)
qed

lemma stream_cases [case_names Empty Partial Bad Frame]:
  assumes "s = [] \<Longrightarrow> P" "partialFrame s \<Longrightarrow> P"
    "4 \<le> length s \<Longrightarrow> bigEndian32 (take 4 s) = 0 \<or> statusRecordMax < bigEndian32 (take 4 s) \<Longrightarrow> P"
    "\<And>b t. s = frame b @ t \<Longrightarrow> frameBody b \<Longrightarrow> P"
  shows P
proof -
  let ?n = "bigEndian32 (take 4 s)"
  consider "s = []" | "partialFrame s" | "4 \<le> length s" "?n = 0 \<or> statusRecordMax < ?n"
    | "4 + ?n \<le> length s" "1 \<le> ?n" "?n \<le> statusRecordMax"
    unfolding partialFrame_def by linarith
  then show P
  proof cases
    case 4
    have "s = be32 ?n @ take ?n (drop 4 s) @ drop ?n (drop 4 s)"
      using 4(1) by (simp only: be32_bigEndian append_take_drop_id length_take min_absorb2 add_leD1)
    moreover have "length (take ?n (drop 4 s)) = ?n" using 4(1) by simp
    ultimately show P
      using 4 assms(4) [of "take ?n (drop 4 s)" "drop ?n (drop 4 s)"] by (simp add: frame_def frameBody_def)
  qed (use assms in blast)+
qed

lemma drain_partial: "partialFrame s \<Longrightarrow> drain p s = ([], Some (if p then ProtocolViolation else TransportLoss))"
  by (subst drain.simps) (auto simp: Let_def partialFrame_def)

lemma drain_bad: "4 \<le> length s \<Longrightarrow> bigEndian32 (take 4 s) = 0 \<or> statusRecordMax < bigEndian32 (take 4 s) \<Longrightarrow> drain p s = ([], Some ProtocolViolation)"
  by (subst drain.simps) (auto simp: Let_def)

definition oversize :: "string \<Rightarrow> bool" where
  "oversize s \<longleftrightarrow> 4 \<le> length s \<and> (bigEndian32 (take 4 s) = 0 \<or> statusRecordMax < bigEndian32 (take 4 s))"

text \<open>A channel is the frames it starts with and what follows the last one.\<close>

lemma stream_split:
  "\<exists>bs t. s = concat (map frame bs) @ t \<and> list_all frameBody bs \<and> (t = [] \<or> partialFrame t \<or> oversize t)"
proof (induction "length s" arbitrary: s rule: less_induct)
  case less
  show ?case
  proof (cases s rule: stream_cases)
    case (Frame b t)
    then have "length t < length s" by (simp add: frame_def)
    then obtain bs t' where "t = concat (map frame bs) @ t'" "list_all frameBody bs" "t' = [] \<or> partialFrame t' \<or> oversize t'"
      using less by blast
    then show ?thesis
      using Frame by (intro exI [of _ "b # bs"] exI [of _ t']) simp
  qed (intro exI [of _ "[]"] exI [of _ s]; simp add: oversize_def)+
qed

lemma drain_frames:
  "list_all frameBody bs \<Longrightarrow> drain p (concat (map frame bs) @ t) =
    (List.map_filter NormalizeStatusRecord bs @ fst (drain (p \<or> (\<exists>b \<in> set bs. NormalizeStatusRecord b = None)) t),
     snd (drain (p \<or> (\<exists>b \<in> set bs. NormalizeStatusRecord b = None)) t))"
proof (induction bs arbitrary: p)
  case (Cons b bs)
  then show ?case
    by (cases "NormalizeStatusRecord b") (simp_all add: drain_frame List.map_filter_def case_prod_beta)
qed (simp add: List.map_filter_def)

lemma read_frames:
  assumes "list_all frameBody bs" "t = [] \<or> partialFrame t \<or> oversize t"
  shows "readStatusRecords (concat (map frame bs) @ t) =
    (if oversize t \<or> (\<exists>b \<in> set bs. NormalizeStatusRecord b = None) then Inl ProtocolViolation
     else if t \<noteq> [] then Inl TransportLoss else Inr (map (the \<circ> NormalizeStatusRecord) bs))"
proof -
  have all: "List.map_filter NormalizeStatusRecord bs = map (the \<circ> NormalizeStatusRecord) bs"
    if "\<not> (\<exists>b \<in> set bs. NormalizeStatusRecord b = None)"
    using that by (induction bs) (auto simp: List.map_filter_def)
  have "\<not> oversize []" "partialFrame t \<Longrightarrow> \<not> oversize t" "partialFrame t \<Longrightarrow> t \<noteq> []"
    by (auto simp: oversize_def partialFrame_def)
  moreover have "snd (drain p t) = (if t = [] then if p then Some ProtocolViolation else None
      else if oversize t \<or> p then Some ProtocolViolation else Some TransportLoss)" "fst (drain p t) = []" for p
    using assms(2) calculation drain_nil drain_partial [of t] drain_bad [of t] by (auto simp: oversize_def)
  ultimately show ?thesis
    unfolding readStatusRecords_def drain_frames [OF assms(1)] using assms(2) all
    by (cases "\<exists>b \<in> set bs. NormalizeStatusRecord b = None") auto
qed

section \<open>Exit statuses\<close>

lemma StatusExitForCode_registered:
  "NormalizeStatusRecord b = Some r \<Longrightarrow> \<exists>n. StatusExitForCode (refCode r) = Some n \<and> StatusRegistryRow (refCode r) = Some (n, refMessage r)"
  unfolding NormalizeStatusRecord_iff by (auto simp: StatusExitForCode_def StatusRegistryRow_def)

definition receiverReady :: "receiverWorld \<Rightarrow> bool \<Rightarrow> bool" where
  "receiverReady w preopened \<longleftrightarrow> (\<exists>p. receiverPath w = Some p \<and> p \<noteq> []) \<and> (preopened \<or> terminalOpens w) \<and> pipeOpens w \<and>
     terminalValid w \<and> pipeValid w \<and> receiverStarts w"

lemma RunHosted_ready:
  "receiverReady w preopened \<Longrightarrow> RunHosted w preopened = (case readStatusRecords (statusBytes w) of
      Inl ProtocolViolation \<Rightarrow> (Some (StatusProtocolErrorCode, ProtocolErrorMessage), int ProtocolErrorExit)
    | Inl TransportLoss \<Rightarrow> hostedRefusal ''session_host_unavailable'' ''the receiver status channel is corrupt''
    | Inr [] \<Rightarrow> (None, exitOf (receiverEnd w))
    | Inr rs \<Rightarrow> (Some (refCode (last rs), refusalDetail (last rs)),
        case StatusExitForCode (refCode (last rs)) of Some n \<Rightarrow> int n | None \<Rightarrow> exitOf (receiverEnd w)))"
  by (auto simp: RunHosted_def receiverReady_def)

lemma RunHosted_refused:
  assumes "\<not> receiverReady w preopened"
  shows "\<exists>code detail. code \<in> {''session_host_missing'', ''session_host_terminal_required'', ''session_host_unavailable''} \<and>
    RunHosted w preopened = (Some (code, detail), int (ExitForCode code))"
proof (cases "receiverPath w")
  case (Some p)
  then show ?thesis
    using assms by (cases p) (auto simp: RunHosted_def receiverReady_def hostedRefusal_def)
qed (simp add: RunHosted_def hostedRefusal_def)

lemma RunHosted_last:
  assumes "receiverReady w preopened" "readStatusRecords (statusBytes w) = Inr rs" "rs \<noteq> []" "NormalizeStatusRecord b = Some (last rs)"
  shows "\<exists>n. StatusRegistryRow (refCode (last rs)) = Some (n, refMessage (last rs)) \<and>
    RunHosted w preopened = (Some (refCode (last rs), refusalDetail (last rs)), int n)"
proof -
  obtain n where "StatusExitForCode (refCode (last rs)) = Some n" "StatusRegistryRow (refCode (last rs)) = Some (n, refMessage (last rs))"
    using StatusExitForCode_registered [OF assms(4)] by blast
  then show ?thesis
    using assms(2,3) RunHosted_ready [OF assms(1)] by (cases rs) simp_all
qed

text \<open>C12. The receiving boundary of a hosted run. A record is accepted exactly when it is the closed
  refusal envelope of a registered code with the literal message of its row and allowed tokens, so
  the refusal holds registry text only. Every channel is a sequence of frames and a rest: it yields
  the refusals of all frames when nothing follows and all are accepted; a malformed frame or length
  is a protocol violation whatever comes later, a stream cut inside a frame a lost transport. When
  the receiver ran, the last refusal is printed with the exit status of its row, and without one
  the receiver's status is passed on; otherwise a launcher code is printed.\<close>

theorem status_channel:
  "(\<forall>body ref. NormalizeStatusRecord body = Some ref \<longleftrightarrow> (\<exists>v exit cls f r. ParseJSON body = Inr v \<and>
      statusEntryOf (refCode ref) = Some (exit, refMessage ref, cls) \<and> detailAllowed cls (f, r) \<and> refField ref = orEmpty f \<and>
      refReason ref = orEmpty r \<and> norm v = norm (refusalValue (refCode ref) (refMessage ref) f r))) \<and>
   (\<exists>bs t. s = concat (map frame bs) @ t \<and> list_all frameBody bs \<and> (t = [] \<or> partialFrame t \<or> oversize t) \<and>
      readStatusRecords s =
        (if oversize t \<or> (\<exists>b \<in> set bs. NormalizeStatusRecord b = None) then Inl ProtocolViolation
         else if t \<noteq> [] then Inl TransportLoss else Inr (map (the \<circ> NormalizeStatusRecord) bs))) \<and>
   (\<not> receiverReady w preopened \<longrightarrow> (\<exists>code detail. code \<in> {''session_host_missing'', ''session_host_terminal_required'', ''session_host_unavailable''} \<and>
      RunHosted w preopened = (Some (code, detail), int (ExitForCode code)))) \<and>
   (\<forall>bs. receiverReady w preopened \<and> statusBytes w = concat (map frame bs) \<and> list_all frameBody bs \<and>
      (\<forall>b \<in> set bs. NormalizeStatusRecord b \<noteq> None) \<longrightarrow>
      (if bs = [] then RunHosted w preopened = (None, exitOf (receiverEnd w))
       else \<exists>ref n. NormalizeStatusRecord (last bs) = Some ref \<and> StatusRegistryRow (refCode ref) = Some (n, refMessage ref) \<and>
         RunHosted w preopened = (Some (refCode ref, refusalDetail ref), int n)))"
proof (intro conjI allI impI)
  show "NormalizeStatusRecord body = Some ref \<longleftrightarrow> (\<exists>v exit cls f r. ParseJSON body = Inr v \<and>
      statusEntryOf (refCode ref) = Some (exit, refMessage ref, cls) \<and> detailAllowed cls (f, r) \<and> refField ref = orEmpty f \<and>
      refReason ref = orEmpty r \<and> norm v = norm (refusalValue (refCode ref) (refMessage ref) f r))" for body ref
    by (rule NormalizeStatusRecord_iff)
  show "\<exists>bs t. s = concat (map frame bs) @ t \<and> list_all frameBody bs \<and> (t = [] \<or> partialFrame t \<or> oversize t) \<and>
      readStatusRecords s =
        (if oversize t \<or> (\<exists>b \<in> set bs. NormalizeStatusRecord b = None) then Inl ProtocolViolation
         else if t \<noteq> [] then Inl TransportLoss else Inr (map (the \<circ> NormalizeStatusRecord) bs))"
  proof -
    obtain bs t where split: "s = concat (map frame bs) @ t" "list_all frameBody bs" "t = [] \<or> partialFrame t \<or> oversize t"
      using stream_split [of s] by blast
    then show ?thesis
      using read_frames [OF split(2,3)] by (intro exI [of _ bs] exI [of _ t]) blast
  qed
  show "\<exists>code detail. code \<in> {''session_host_missing'', ''session_host_terminal_required'', ''session_host_unavailable''} \<and>
      RunHosted w preopened = (Some (code, detail), int (ExitForCode code))" if "\<not> receiverReady w preopened"
    using RunHosted_refused [OF that] .
  fix bs
  assume A: "receiverReady w preopened \<and> statusBytes w = concat (map frame bs) \<and> list_all frameBody bs \<and>
      (\<forall>b \<in> set bs. NormalizeStatusRecord b \<noteq> None)"
  then have read: "readStatusRecords (statusBytes w) = Inr (map (the \<circ> NormalizeStatusRecord) bs)"
    using read_frames [of bs "[]"] by (auto simp: oversize_def)
  show "if bs = [] then RunHosted w preopened = (None, exitOf (receiverEnd w))
       else \<exists>ref n. NormalizeStatusRecord (last bs) = Some ref \<and> StatusRegistryRow (refCode ref) = Some (n, refMessage ref) \<and>
         RunHosted w preopened = (Some (refCode ref, refusalDetail ref), int n)"
  proof (cases "bs = []")
    case True
    then show ?thesis using A read RunHosted_ready [of w preopened] by simp
  next
    case False
    then obtain ref where ref: "NormalizeStatusRecord (last bs) = Some ref"
      using A last_in_set by blast
    then have "last (map (the \<circ> NormalizeStatusRecord) bs) = ref"
      using False by (simp add: last_map)
    then show ?thesis
      using RunHosted_last [of w preopened _ "last bs", OF _ read] A False ref by auto
  qed
qed

definition usageRecord :: string where
  "usageRecord = appendCanonical (refusalValue ''usage'' ''Invalid invocation.'' None None)"

lemma usageRecord_accepted:
  "NormalizeStatusRecord usageRecord = Some \<lparr>refCode = ''usage'', refMessage = ''Invalid invocation.'', refField = [], refReason = []\<rparr>"
  unfolding usageRecord_def by code_simp

text \<open>One frame, then the receiver exits with 0: the refusal wins.\<close>

theorem status_channel_witness:
  "RunHosted \<lparr>receiverPath = Some ''/bin/r'', terminalOpens = True, pipeOpens = True, terminalValid = True, pipeValid = True,
      receiverStarts = True, statusBytes = frame usageRecord, receiverEnd = ReceiverExit 0\<rparr> False =
    (Some (''usage'', ''Invalid invocation.''), 2)"
proof -
  let ?w = "\<lparr>receiverPath = Some ''/bin/r'', terminalOpens = True, pipeOpens = True, terminalValid = True, pipeValid = True,
      receiverStarts = True, statusBytes = frame usageRecord, receiverEnd = ReceiverExit 0\<rparr>"
  have "receiverReady ?w False" "frameBody usageRecord"
    by (simp_all add: receiverReady_def) code_simp
  moreover have "StatusRegistryRow ''usage'' = Some (2, ''Invalid invocation.'')"
    by code_simp
  ultimately show ?thesis
    using status_channel [of "[]" ?w False, THEN conjunct2, THEN conjunct2, THEN conjunct2, THEN spec, of "[usageRecord]"] usageRecord_accepted
    by (simp add: refusalDetail_def)
qed

end
