(* ===== verification/HostPayload.thy ===== *)
theory HostPayload
  imports Composition Permission Sha256
begin

text \<open>
  \<open>internal/hosted\<close>: the session launch plan (\<open>payload.go\<close>, \<open>wire.go\<close>, \<open>digest.go\<close>) and the wrapper
  selector of \<open>resume.go\<close>. The seal and the restart template of agents-management are their JSON
  value and the fields the code reads; the schema names are parameters. \<open>json.Marshal\<close> followed
  by \<open>ParseJSON\<close> is \<open>ParseJSON\<close> of the canonical text: the encoder's own text differs from it in the
  order of members and in escapes only, which reading removes. Composition never returns a nil
  slice, so the refusals of nil slices of the composed value do not arise.
\<close>

section \<open>Inputs\<close>

text \<open>A refusal: the field and the reason; the code is always \<open>launch_plan_invalid\<close>.\<close>

type_synonym planRefusal = "string \<times> string"

record restartTemplate =
  rtSchema :: string
  rtVersion :: string
  rtArgv :: "string list option"
  rtSlotFlag :: string
  rtSlotIndex :: int
  rtValue :: jvalue

record sealValue =
  HostedAdmissible :: bool
  sealJson :: jvalue

record resumeIntent =
  intentKind :: string
  intentIdentity :: "string option"

record SessionProjection =
  NativeName :: "string option"
  RCEnabled :: bool
  RCIndices :: "int list"

text \<open>Names that agents-management defines.\<close>

record agenticNames =
  anModes :: permissionModes
  anNew :: string
  anLatest :: string
  anHandle :: string
  anClaudeUUID :: string
  anRestartSchema :: string
  anRestartVersion :: string
  anPolicySchema :: string
  anHostedVersion :: string

record PayloadInputs =
  piEnvID :: string
  piValue :: composed
  piFragment :: fragment
  piCallerEnv :: "string list"
  piMode :: string
  piSource :: string
  piHostName :: string
  piResume :: resumeIntent
  piRestart :: restartTemplate
  piSeal :: sealValue
  piInspection :: policyInspection
  piSession :: "SessionProjection option"

section \<open>Checks\<close>

definition isAbsolutePath :: "string \<Rightarrow> bool" where
  "isAbsolutePath p \<longleftrightarrow> HasPrefix p ''/'' \<and> CHR 0x00 \<notin> set p"

definition validEnvName :: "string \<Rightarrow> bool" where
  "validEnvName n \<longleftrightarrow> n \<noteq> [] \<and> length n \<le> 128 \<and> \<not> is_digit (hd n) \<and> list_all (\<lambda>c. c = CHR ''_'' \<or> is_alnum c) n"

definition validSessionName :: "string \<Rightarrow> bool" where
  "validSessionName n \<longleftrightarrow> n \<noteq> [] \<and> length n \<le> 64 \<and> is_alnum (hd n) \<and>
     list_all (\<lambda>c. is_alnum c \<or> c = CHR ''.'' \<or> c = CHR ''_'' \<or> c = CHR ''-'') (tl n)"

definition indexed :: "string \<Rightarrow> nat \<Rightarrow> string" where
  "indexed field i = field @ ''['' @ dec i @ '']''"

fun argvFault :: "nat \<Rightarrow> string list \<Rightarrow> planRefusal option" where
  "argvFault i [] = None"
| "argvFault i (a # as) =
     (if CHR 0x00 \<in> set a then Some (indexed ''process.argv'' i, ''entry carries NUL'')
      else if 65536 < length a then Some (indexed ''process.argv'' i, ''exceeds 65536 bytes'')
      else argvFault (i + 1) as)"

definition checkProcess :: "composed \<Rightarrow> planRefusal option" where
  "checkProcess v =
     (if cBinary v = [] \<or> CHR 0x00 \<in> set (cBinary v) then Some (''process.binary'', ''must be a non-empty NUL-free path'')
      else if \<not> isAbsolutePath (cBinary v) then Some (''process.binary'', ''must be absolute'')
      else if 65536 < length (cBinary v) then Some (''process.binary'', ''exceeds 65536 bytes'')
      else if 128 < 1 + length (cArgv v) then
        Some (''process.argv'', dec (1 + length (cArgv v)) @ '' elements including the binary exceed 128'')
      else case argvFault 0 (cArgv v) of Some e \<Rightarrow> Some e
      | None \<Rightarrow>
          if cWorkDir v = [] \<or> CHR 0x00 \<in> set (cWorkDir v) then Some (''process.cwd'', ''must be a non-empty NUL-free path'')
          else if \<not> isAbsolutePath (cWorkDir v) then Some (''process.cwd'', ''must be absolute'')
          else None)"

text \<open>The loop of \<open>envMap\<close> carries the map read so far; the sizes are summed at the end.\<close>

fun envLoop :: "string \<Rightarrow> nat \<Rightarrow> strmap \<Rightarrow> string list \<Rightarrow> planRefusal + strmap" where
  "envLoop field i out [] = Inr out"
| "envLoop field i out (e # es) = (case Cut e CHR ''='' of (name, val, ok) \<Rightarrow>
     if \<not> ok \<or> \<not> validEnvName name \<or> CHR 0x00 \<in> set val then
       Inl (indexed field i, ''entry must be NAME=value with a valid name and no NUL'')
     else if 16384 < length e then Inl (indexed field i, ''entry exceeds 16384 bytes'')
     else if map_of out name \<noteq> None then Inl (indexed field i, ''duplicate environment name'')
     else envLoop field (i + 1) (out @ [(name, val)]) es)"

definition payloadEnv :: "string list \<Rightarrow> string \<Rightarrow> planRefusal + strmap" where
  "payloadEnv es field =
     (if 512 < length es then Inl (field, dec (length es) @ '' entries exceed 512'')
      else res_bind (envLoop field 0 [] es) (\<lambda>out.
        if 262144 < sum_list (map length es) then Inl (field, ''env exceeds 262144 bytes'') else Inr out))"

fun ownedFault :: "strmap \<Rightarrow> strmap \<Rightarrow> string list \<Rightarrow> string list \<Rightarrow> planRefusal option" where
  "ownedFault lits final lookupNames [] = None"
| "ownedFault lits final lookupNames (n # ns) = (let val = (case map_of lits n of Some x \<Rightarrow> x | None \<Rightarrow> []) in
     if \<not> validEnvName n \<or> CHR 0x00 \<in> set val then Some (''owned_literals'', ''names must be valid and values NUL-free'')
     else if 4096 < length val then Some (''owned_literals'', ''value for '' @ n @ '' exceeds 4096 bytes'')
     else if n \<in> set lookupNames then Some (''owned_literals'', n @ '' is both a literal and a lookup name'')
     else if map_of final n \<noteq> Some val then Some (''owned_literals'', ''value for '' @ n @ '' must equal the final env entry'')
     else ownedFault lits final lookupNames ns)"

definition checkOwned :: "strmap \<Rightarrow> strmap \<Rightarrow> string list \<Rightarrow> planRefusal option" where
  "checkOwned lits final lookupNames =
     (if 64 < length lits then Some (''owned_literals'', dec (length lits) @ '' entries exceed 64'')
      else ownedFault lits final lookupNames (sortedKeys lits))"

definition callerNames :: "string list \<Rightarrow> string list" where
  "callerNames caller = map (\<lambda>e. fst (Cut e CHR ''='')) (filter (\<lambda>e. snd (snd (Cut e CHR ''=''))) caller)"

fun namesFault :: "string list \<Rightarrow> nat \<Rightarrow> string option \<Rightarrow> string list \<Rightarrow> planRefusal option" where
  "namesFault here i prev [] = None"
| "namesFault here i prev (n # ns) =
     (if \<not> validEnvName n then Some (indexed ''env_names'' i, ''name must match [A-Za-z_][A-Za-z0-9_]{0,127}'')
      else if (case prev of Some p \<Rightarrow> n \<le> p | None \<Rightarrow> False) then Some (''env_names'', ''names must be sorted unique'')
      else if n \<notin> set here then Some (''env_names'', ''required_env_missing '' @ n)
      else namesFault here (i + 1) (Some n) ns)"

definition checkEnvNames :: "string list \<Rightarrow> string list \<Rightarrow> planRefusal option" where
  "checkEnvNames names caller =
     (if 64 < length names then Some (''env_names'', ''more than 64 lookup names cannot be projected'')
      else namesFault (callerNames caller) 0 None names)"

definition checkRestart :: "agenticNames \<Rightarrow> restartTemplate \<Rightarrow> string list \<Rightarrow> planRefusal option" where
  "checkRestart an r argv =
     (if rtSchema r \<noteq> anRestartSchema an \<or> rtVersion r \<noteq> anRestartVersion an then Some (''restart'', ''unsupported restart schema'')
      else case rtArgv r of
        None \<Rightarrow> Some (''restart.data.argv'', ''must be an array'')
      | Some as \<Rightarrow>
          if rtSlotFlag r \<noteq> ''--resume'' \<or> rtSlotIndex r < 0 \<or> int (length as) < rtSlotIndex r then
            Some (''restart.data.identity_slot'', ''slot must be --resume at an index within the argv'')
          else if as \<noteq> argv then Some (''restart.data.argv'', ''new-process argv must equal the restart argv'')
          else None)"

fun indicesFault :: "nat \<Rightarrow> int set \<Rightarrow> int list \<Rightarrow> planRefusal option" where
  "indicesFault n used [] = None"
| "indicesFault n used (i # is) =
     (if i < 0 \<or> int n \<le> i then Some (''remote_control.argv_indices'', ''index falls outside the final argv'')
      else if i \<in> used then Some (''remote_control.argv_indices'', ''indices must be unique'')
      else indicesFault n (insert i used) is)"

definition projectSession :: "SessionProjection option \<Rightarrow> string list \<Rightarrow> planRefusal + string option \<times> bool \<times> int list" where
  "projectSession s argv = (case s of
     None \<Rightarrow> Inr (None, False, [])
   | Some p \<Rightarrow>
       if \<not> RCEnabled p \<and> RCIndices p \<noteq> [] then Inl (''remote_control.argv_indices'', ''disabled remote control carries no indices'')
       else (case indicesFault (length argv) {} (RCIndices p) of
         Some e \<Rightarrow> Inl e
       | None \<Rightarrow> Inr (NativeName p, RCEnabled p, RCIndices p)))"

definition projectResume :: "agenticNames \<Rightarrow> resumeIntent \<Rightarrow> planRefusal + string \<times> string option" where
  "projectResume an r =
     (if intentKind r = anNew an \<or> intentKind r = anLatest an then
        (if intentIdentity r \<noteq> None then Inl (''resume.identity'', ''new and latest carry no identity'') else Inr (intentKind r, None))
      else if intentKind r = anHandle an \<or> intentKind r = anClaudeUUID an then
        (case intentIdentity r of
           Some i \<Rightarrow> if i = [] then Inl (''resume.identity'', ''handle and provider identities require an identity'') else Inr (intentKind r, Some i)
         | None \<Rightarrow> Inl (''resume.identity'', ''handle and provider identities require an identity''))
      else Inl (''resume.kind'', ''kind is not admitted in Phase 1''))"

text \<open>The filter is the one of the native report.\<close>

definition projectEffectivePolicy :: "policyInspection \<Rightarrow> planRefusal + (string list \<times> string list) option" where
  "projectEffectivePolicy p =
     (let rs = filter (reportable p) (Relaxations p);
          paths = sort (remdups (map fst rs)); selectors = sort (remdups (map snd rs))
      in if rs = [] then Inr None
         else if \<not> list_all (\<lambda>s. s \<in> {''permissions.defaultMode'', ''permissions.allow'', ''permissions.additionalDirectories''}) selectors then
           Inl (''policy.effective_native_policy.data.relaxations'', ''selector is outside the closed vocabulary'')
         else case find (\<lambda>q. \<not> isAbsolutePath q \<or> 4096 < length q) paths of
           Some q \<Rightarrow> Inl (''policy.effective_native_policy.data.source_paths'',
             if \<not> isAbsolutePath q then ''source paths must be absolute'' else ''source paths must not exceed 4096 bytes'')
         | None \<Rightarrow>
             if 64 < length paths then
               Inl (''policy.effective_native_policy.data.source_paths'', ''more than 64 source paths cannot be projected'')
             else Inr (Some (selectors, paths)))"

section \<open>The wire object\<close>

text \<open>A string as the standard encoder writes it: a byte that decodes to no rune becomes U+FFFD.\<close>

definition jsonText :: "string \<Rightarrow> string" where
  "jsonText s = concat (map (\<lambda>(r, bs). if r = 0xFFFD \<and> length bs = 1 then [CHR 0xEF, CHR 0xBF, CHR 0xBD] else bs) (rune_chunks s))"

abbreviation jstr :: "string \<Rightarrow> jvalue" where
  "jstr s \<equiv> JString (jsonText s)"

definition jopt :: "string option \<Rightarrow> jvalue" where
  "jopt x = (case x of None \<Rightarrow> JNull | Some s \<Rightarrow> jstr s)"

definition effectiveValue :: "agenticNames \<Rightarrow> (string list \<times> string list) option \<Rightarrow> jvalue" where
  "effectiveValue an e = (case e of
     None \<Rightarrow> JNull
   | Some (selectors, paths) \<Rightarrow> JObject
       [(''schema'', jstr (anPolicySchema an)), (''schema_version'', jstr (anHostedVersion an)),
        (''data'', JObject [(''relaxations'', JArray (map jstr selectors)), (''source_paths'', JArray (map jstr paths))])])"

record projected =
  pjProfile :: string
  pjHome :: string
  pjResume :: "string \<times> string option"
  pjSession :: "string option \<times> bool \<times> int list"
  pjEffective :: "(string list \<times> string list) option"

definition producerValue :: jvalue where
  "producerValue = JObject [(''module_version'', JString ''0.5.74''), (''module_commit'', JString ''2941b4bbfb6d8aa2ca4e3ed7bafd335d493f773f'')]"

definition processValue :: "composed \<Rightarrow> jvalue \<Rightarrow> jvalue" where
  "processValue v guard = JObject
     [(''binary'', jstr (cBinary v)), (''argv'', JArray (map jstr (cArgv v))), (''env'', JArray (map jstr (cEnv v))),
      (''cwd'', jstr (cWorkDir v)), (''stdin'', JNull), (''exec_guard'', guard)]"

definition ownedValue :: "strmap \<Rightarrow> jvalue" where
  "ownedValue lits = JObject (map (\<lambda>(k, x). (jsonText k, jstr x)) lits)"

definition homeValue :: "string \<Rightarrow> jvalue" where
  "homeValue p = JObject [(''variable'', JString ''CLAUDE_CONFIG_DIR''), (''path'', jstr p)]"

definition fragmentValue :: "fragment \<Rightarrow> jvalue" where
  "fragmentValue f = JObject
     [(''profile_name'', jstr (profName (fragment.Profile f))), (''pin'', jstr (''sha256:'' @ profLockSHA256 (fragment.Profile f))),
      (''fragment_digest'', jstr (fDigest f)), (''system_modules'', JBool (fragment.SystemPrompt f \<noteq> None))]"

definition policyValue :: "agenticNames \<Rightarrow> string \<Rightarrow> string \<Rightarrow> (string list \<times> string list) option \<Rightarrow> jvalue" where
  "policyValue an source prof e = JObject
     [(''permission_mode'', jstr (ModeNative (anModes an))), (''permission_source'', jstr source),
      (''execution_profile'', JString prof), (''effective_native_policy'', effectiveValue an e)]"

definition sessionNameValue :: "string \<Rightarrow> string option \<Rightarrow> jvalue" where
  "sessionNameValue host native = JObject [(''host'', jstr host), (''native'', jopt native)]"

definition remoteControlValue :: "bool \<Rightarrow> int list \<Rightarrow> jvalue" where
  "remoteControlValue enabled is = JObject [(''enabled'', JBool enabled), (''argv_indices'', JArray (map JInt is))]"

definition resumeValue :: "string \<times> string option \<Rightarrow> jvalue" where
  "resumeValue r = JObject [(''kind'', jstr (fst r)), (''identity'', jopt (snd r))]"

definition payloadValue :: "agenticNames \<Rightarrow> PayloadInputs \<Rightarrow> projected \<Rightarrow> string \<Rightarrow> jvalue" where
  "payloadValue an i pj digest = JObject
     [(''schema'', JString ''urn:relux:task-board:session-launch-plan''), (''schema_version'', JString ''1.0.0''),
      (''content_digest'', JString digest), (''producer'', producerValue), (''environment'', JString ''claude_code''),
      (''process'', processValue (piValue i) (sealJson (piSeal i))), (''owned_literals'', ownedValue (EnvLiterals (piValue i))),
      (''env_names'', JArray (map jstr (EnvNames (piValue i)))), (''managed_home'', homeValue (pjHome pj)),
      (''fragment'', fragmentValue (piFragment i)), (''policy'', policyValue an (piSource i) (pjProfile pj) (pjEffective pj)),
      (''session_name'', sessionNameValue (piHostName i) (fst (pjSession pj))),
      (''remote_control'', remoteControlValue (fst (snd (pjSession pj))) (snd (snd (pjSession pj)))),
      (''resume'', resumeValue (pjResume pj)), (''restart'', rtValue (piRestart i)), (''host_bundle'', JNull), (''network'', JNull)]"

definition ContentDigest :: "string \<Rightarrow> planRefusal + string" where
  "ContentDigest doc = (case ParseJSON doc of
     Inl _ \<Rightarrow> Inl (''payload'', ''payload is not CCJ-1 JSON'')
   | Inr (JObject ms) \<Rightarrow>
       Inr (''sha256:'' @ hex_EncodeToString (Sum256 (Canonical (JObject (filter (\<lambda>(k, _). k \<noteq> ''content_digest'') ms)))))
   | Inr _ \<Rightarrow> Inl (''payload'', ''payload must be an object''))"

fun valueDepth :: "jvalue \<Rightarrow> nat \<Rightarrow> nat" where
  "valueDepth (JArray vs) d = foldl max d (map (\<lambda>v. valueDepth v (d + 1)) vs)"
| "valueDepth (JObject ms) d = foldl max d (map (\<lambda>m. valueDepth (snd m) (d + 1)) ms)"
| "valueDepth v d = d"

definition encodedData :: "string \<Rightarrow> string \<Rightarrow> string \<Rightarrow> jvalue \<Rightarrow> planRefusal option" where
  "encodedData field missing big v = (case Get v ''data'' of
     None \<Rightarrow> Some (field, missing)
   | Some d \<Rightarrow> if 65536 < length (Canonical d) then Some (field, big) else None)"

definition checkEncodedLimits :: "jvalue \<Rightarrow> planRefusal option" where
  "checkEncodedLimits w = (let big = ''versioned data exceeds 65536 bytes'' in
     case Get w ''process'' of None \<Rightarrow> Some (''process'', ''payload carries no process'')
   | Some p \<Rightarrow> (case Get p ''argv'' of
       Some (JArray as) \<Rightarrow>
         if 262144 < length (Canonical (JArray as)) then Some (''process.argv'', ''encoded argv exceeds 262144 bytes'')
         else (case Get p ''exec_guard'' of None \<Rightarrow> Some (''process.exec_guard'', ''payload carries no exec guard'')
         | Some g \<Rightarrow> (case encodedData ''process.exec_guard.data'' ''guard carries no data'' big g of Some e \<Rightarrow> Some e
         | None \<Rightarrow> (case Get w ''restart'' of None \<Rightarrow> Some (''restart'', ''payload carries no restart template'')
         | Some r \<Rightarrow> (case encodedData ''restart.data'' ''restart template carries no data'' big r of Some e \<Rightarrow> Some e
         | None \<Rightarrow> (case Get w ''policy'' of None \<Rightarrow> Some (''policy'', ''payload carries no policy'')
         | Some q \<Rightarrow> (case Get q ''effective_native_policy'' of
             Some e \<Rightarrow> if e = JNull then None
               else encodedData ''policy.effective_native_policy.data'' ''effective policy carries no data'' big e
           | None \<Rightarrow> None))))))
     | _ \<Rightarrow> Some (''process.argv'', ''payload carries no argv array'')))"

definition sealPayload :: "agenticNames \<Rightarrow> PayloadInputs \<Rightarrow> projected \<Rightarrow> planRefusal + string" where
  "sealPayload an i pj =
     res_bind (ContentDigest (appendCanonical (payloadValue an i pj []))) (\<lambda>digest.
     case ParseJSON (appendCanonical (payloadValue an i pj digest)) of
       Inl _ \<Rightarrow> Inl (''payload'', ''encoded payload is not CCJ-1 JSON'')
     | Inr w \<Rightarrow>
         if 1048576 < length (Canonical w) then Inl (''payload'', ''wire object exceeds 1048576 bytes'')
         else if 16 < valueDepth w 0 then Inl (''payload'', ''object depth '' @ dec (valueDepth w 0) @ '' exceeds 16'')
         else case checkEncodedLimits w of Some e \<Rightarrow> Inl e | None \<Rightarrow> Inr (Canonical w))"

definition executionProfile :: "permissionModes \<Rightarrow> string \<Rightarrow> string option" where
  "executionProfile am m = (if m = ModeNative am then Some ''standard'' else if m = ModeYolo am then Some ''yolo'' else None)"

definition sources :: "string list" where
  "sources = [''flag'', ''profile'', ''global'', ''default-headless'', ''default-interactive'']"

definition require :: "planRefusal option \<Rightarrow> planRefusal + unit" where
  "require c = (case c of Some e \<Rightarrow> Inl e | None \<Rightarrow> Inr ())"

definition demand :: "bool \<Rightarrow> string \<Rightarrow> string \<Rightarrow> planRefusal + unit" where
  "demand b field reason = (if b then Inr () else Inl (field, reason))"

definition managedHome :: "fragment \<Rightarrow> strmap \<Rightarrow> planRefusal + string" where
  "managedHome f final = (case map_of (Env f) ''CLAUDE_CONFIG_DIR'' of
     None \<Rightarrow> Inl (''managed_home.path'', ''admitted fragment carries no managed home'')
   | Some p \<Rightarrow>
       if p = [] then Inl (''managed_home.path'', ''admitted fragment carries no managed home'')
       else if \<not> isAbsolutePath p then Inl (''managed_home.path'', ''must be absolute'')
       else if map_of final ''CLAUDE_CONFIG_DIR'' \<noteq> Some p then Inl (''managed_home.path'', ''must equal the final env entry'')
       else Inr p)"

definition projectInputs :: "agenticNames \<Rightarrow> PayloadInputs \<Rightarrow> planRefusal + projected" where
  "projectInputs an i = (let v = piValue i; f = piFragment i in
     res_bind (demand (piEnvID i = ''claude_code'') ''environment'' ''must be claude_code in Phase 1'') (\<lambda>_.
     res_bind (demand (Environment f = ''claude_code'') ''fragment'' ''fragment environment must match the payload environment'') (\<lambda>_.
     res_bind (case executionProfile (anModes an) (piMode i) of
         Some p \<Rightarrow> Inr p | None \<Rightarrow> Inl (''policy.permission_mode'', ''must be native or yolo'')) (\<lambda>prof.
     res_bind (demand (piSource i \<in> set sources) ''policy.permission_source'' ''unknown permission source'') (\<lambda>_.
     res_bind (demand (validSessionName (piHostName i)) ''session_name.host'' ''must match [A-Za-z0-9][A-Za-z0-9._-]{0,63}'') (\<lambda>_.
     res_bind (require (checkProcess v)) (\<lambda>_.
     res_bind (payloadEnv (cEnv v) ''process.env'') (\<lambda>final.
     res_bind (managedHome f final) (\<lambda>home.
     res_bind (require (checkOwned (EnvLiterals v) final (EnvNames v))) (\<lambda>_.
     res_bind (require (checkEnvNames (EnvNames v) (piCallerEnv i))) (\<lambda>_.
     res_bind (demand (HostedAdmissible (piSeal i)) ''process.exec_guard'' ''only the closed unsealed guard is admissible in Phase 1'') (\<lambda>_.
     res_bind (require (checkRestart an (piRestart i) (cArgv v))) (\<lambda>_.
     res_bind (projectResume an (piResume i)) (\<lambda>resume.
     res_bind (projectSession (piSession i) (cArgv v)) (\<lambda>session.
     res_bind (projectEffectivePolicy (piInspection i)) (\<lambda>effective.
     res_bind (demand (profName (fragment.Profile f) \<noteq> []) ''fragment.profile_name'' ''admitted fragment carries no profile name'') (\<lambda>_.
     Inr \<lparr>pjProfile = prof, pjHome = home, pjResume = resume, pjSession = session, pjEffective = effective\<rparr>)))))))))))))))))"

definition BuildPayload :: "agenticNames \<Rightarrow> PayloadInputs \<Rightarrow> planRefusal + string" where
  "BuildPayload an i = res_bind (projectInputs an i) (sealPayload an i)"

section \<open>The session of a plan and the wrapper selector\<close>

definition SessionFromPlan :: "SessionProjection option \<Rightarrow> string list \<Rightarrow> string list \<Rightarrow> planRefusal + SessionProjection option" where
  "SessionFromPlan s fromPlan composedArgv = (case s of
     None \<Rightarrow> Inr None
   | Some p \<Rightarrow>
       if fromPlan \<noteq> composedArgv then
         Inl (''remote_control.argv_indices'', ''composed argv differs from the plan argv the session indices describe'')
       else if list_ex (\<lambda>i. i < 0 \<or> int (length fromPlan) \<le> i) (RCIndices p) then
         Inl (''remote_control.argv_indices'', ''index falls outside the plan argv'')
       else Inr (Some p))"

text \<open>\<open>Inl\<close> is the reason of a resume refusal.\<close>

definition WrapperArgs :: "bool \<Rightarrow> string \<Rightarrow> bool \<Rightarrow> string \<Rightarrow> bool \<Rightarrow> string + string list" where
  "WrapperArgs requested handle handleSet resumeID idSet =
     (if requested \<and> idSet then Inl ''conflicting selectors''
      else if \<not> requested \<and> \<not> idSet then Inr []
      else if idSet then Inr [''--resume'', resumeID]
      else if \<not> handleSet then Inr [''resume'']
      else Inr [''resume'', handle])"

end
