(* ===== verification/HostPayloadProps.thy ===== *)
theory HostPayloadProps
  imports HostPayload ClosedMembers FragmentGuarantees
begin

text \<open>
  What a hosted launch plan carries: the composed process within the wire limits, under a digest the
  receiver can recompute.
\<close>

section \<open>Strings on the wire\<close>

lemma decode_rune_size: "decode_rune c cs = (r, w) \<Longrightarrow> 1 \<le> w \<and> w - 1 \<le> length cs"
  by (auto simp: decode_rune_def Let_def split: if_splits list.splits)

lemma decode_rune_good:
  assumes "decode_rune c cs = (r, w)" "\<not> (r = 0xFFFD \<and> w = 1)"
  shows "utf8_valid (c # take (w - 1) cs)"
proof -
  consider "byte c < 0x80" | "between 0xC2 0xDF (byte c)" | "between 0xE0 0xEF (byte c)" | "between 0xF0 0xF4 (byte c)"
    | "\<not> byte c < 0x80" "\<not> between 0xC2 0xDF (byte c)" "\<not> between 0xE0 0xEF (byte c)" "\<not> between 0xF0 0xF4 (byte c)"
    by blast
  then show ?thesis
  proof cases
    case 1
    then show ?thesis using assms by (simp add: decode_rune_ascii utf8_valid_ascii_Cons)
  next
    case 2
    then show ?thesis using assms
      by (auto simp: decode_rune_def Let_def utf8_valid_def cont_def between_def split: if_splits list.splits)
  next
    case 3
    then show ?thesis using assms
      by (auto simp: decode_rune_def Let_def utf8_valid_def cont_def between_def split: if_splits list.splits)
  next
    case 4
    then show ?thesis using assms
      by (auto simp: decode_rune_def Let_def utf8_valid_def cont_def between_def split: if_splits list.splits)
  next
    case 5
    then show ?thesis using assms by (auto simp: decode_rune_def Let_def)
  qed
qed

lemma decode_rune_bad:
  assumes "decode_rune c cs = (0xFFFD, 1)"
  shows "\<not> utf8_valid (c # cs)"
proof -
  consider "byte c < 0x80" | "between 0xC2 0xDF (byte c)" | "between 0xE0 0xEF (byte c)" | "between 0xF0 0xF4 (byte c)"
    | "\<not> byte c < 0x80" "\<not> between 0xC2 0xDF (byte c)" "\<not> between 0xE0 0xEF (byte c)" "\<not> between 0xF0 0xF4 (byte c)"
    by blast
  then show ?thesis
  proof cases
    case 1
    then show ?thesis using assms by (simp add: decode_rune_ascii)
  next
    case 2
    then show ?thesis using assms
      by (auto simp: decode_rune_def Let_def utf8_valid_def cont_def between_def split: if_splits list.splits)
  next
    case 3
    then show ?thesis using assms
      by (auto simp: decode_rune_def Let_def utf8_valid_def cont_def between_def split: if_splits list.splits option.splits)
  next
    case 4
    then show ?thesis using assms
      by (auto simp: decode_rune_def Let_def utf8_valid_def cont_def between_def split: if_splits list.splits option.splits)
  next
    case 5
    then show ?thesis
      by (auto simp: utf8_valid_def between_def)
  qed
qed

lemma jsonText_Cons:
  assumes "decode_rune c cs = (r, w)"
  shows "jsonText (c # cs) = (if r = 0xFFFD \<and> w = 1 then [CHR 0xEF, CHR 0xBF, CHR 0xBD] else c # take (w - 1) cs) @ jsonText (drop (w - 1) cs)"
  using assms decode_rune_size [OF assms] by (auto simp: jsonText_def)

lemma jsonText_Nil [simp]: "jsonText [] = []"
  by (simp add: jsonText_def)

lemma utf8_jsonText: "utf8_valid (jsonText s)"
proof (induction "length s" arbitrary: s rule: less_induct)
  case less
  show ?case
  proof (cases s)
    case (Cons c cs)
    obtain r w where d: "decode_rune c cs = (r, w)" by fastforce
    have "utf8_valid [CHR 0xEF, CHR 0xBF, CHR 0xBD]" by code_simp
    then have "utf8_valid (if r = 0xFFFD \<and> w = 1 then [CHR 0xEF, CHR 0xBF, CHR 0xBD] else c # take (w - 1) cs)"
      using decode_rune_good [OF d] by simp
    moreover have "utf8_valid (jsonText (drop (w - 1) cs))"
      using less [of "drop (w - 1) cs"] Cons by simp
    ultimately show ?thesis
      unfolding Cons jsonText_Cons [OF d] by (rule utf8_valid_append)
  qed simp
qed

lemma jsonText_valid: "utf8_valid s \<Longrightarrow> jsonText s = s"
proof (induction "length s" arbitrary: s rule: less_induct)
  case less
  show ?case
  proof (cases s)
    case (Cons c cs)
    obtain r w where d: "decode_rune c cs = (r, w)" by fastforce
    have good: "\<not> (r = 0xFFFD \<and> w = 1)"
      using decode_rune_bad [of c cs] d less.prems Cons by auto
    have split: "s = (c # take (w - 1) cs) @ drop (w - 1) cs"
      by (simp add: Cons)
    have "utf8_valid (drop (w - 1) cs)"
      using less.prems utf8_run_valid_append [OF decode_rune_good [OF d good], of "drop (w - 1) cs"] split
      by (simp add: utf8_valid_def)
    then have "jsonText (drop (w - 1) cs) = drop (w - 1) cs"
      using less.hyps [of "drop (w - 1) cs"] Cons by simp
    then show ?thesis
      using good unfolding Cons jsonText_Cons [OF d] by simp
  qed simp
qed

lemma is_alnum_ascii: "is_alnum c \<Longrightarrow> byte c < 0x80"
  by (auto simp: byte_defs less_eq_char_def)

lemma validEnvName_valid:
  assumes "validEnvName n"
  shows "utf8_valid n"
proof (rule utf8_valid_ascii, rule ballI)
  fix c assume "c \<in> set n"
  then have "c = CHR ''_'' \<or> is_alnum c"
    using assms by (simp add: validEnvName_def list_all_iff)
  then show "byte c < 0x80"
    using is_alnum_ascii by auto
qed

section \<open>The wire object\<close>

lemma jwf_jstr [simp]: "jwf (Suc k) (jstr s)"
  by (simp add: utf8_jsonText)

lemma jwf_jstrs [simp]: "jwf (Suc (Suc k)) (JArray (map jstr ss))"
  by (simp add: utf8_jsonText)

lemma jwf_jopt [simp]: "jwf (Suc k) (jopt x)"
  by (cases x) (simp_all add: jopt_def utf8_jsonText)

lemma jwf_object:
  "jwf (Suc k) (JObject ms) \<longleftrightarrow> distinct (map fst ms) \<and> list_all utf8_valid (map fst ms) \<and> list_all (jwf k) (map snd ms)"
  by (auto simp: list_all_iff)

definition wireKeys :: "string list" where
  "wireKeys = [''schema'', ''schema_version'', ''content_digest'', ''producer'', ''environment'', ''process'', ''owned_literals'', ''env_names'',
     ''managed_home'', ''fragment'', ''policy'', ''session_name'', ''remote_control'', ''resume'', ''restart'', ''host_bundle'', ''network'']"

lemma wire_keys: "distinct wireKeys \<and> list_all utf8_valid wireKeys"
  by code_simp

lemma section_keys:
  "distinct [''module_version'', ''module_commit''] \<and> list_all utf8_valid [''module_version'', ''module_commit'']"
  "distinct [''binary'', ''argv'', ''env'', ''cwd'', ''stdin'', ''exec_guard''] \<and> list_all utf8_valid [''binary'', ''argv'', ''env'', ''cwd'', ''stdin'', ''exec_guard'']"
  "distinct [''variable'', ''path''] \<and> list_all utf8_valid [''variable'', ''path'']"
  "distinct [''profile_name'', ''pin'', ''fragment_digest'', ''system_modules''] \<and>
     list_all utf8_valid [''profile_name'', ''pin'', ''fragment_digest'', ''system_modules'']"
  "distinct [''permission_mode'', ''permission_source'', ''execution_profile'', ''effective_native_policy''] \<and>
     list_all utf8_valid [''permission_mode'', ''permission_source'', ''execution_profile'', ''effective_native_policy'']"
  "distinct [''host'', ''native''] \<and> list_all utf8_valid [''host'', ''native'']"
  "distinct [''enabled'', ''argv_indices''] \<and> list_all utf8_valid [''enabled'', ''argv_indices'']"
  "distinct [''kind'', ''identity''] \<and> list_all utf8_valid [''kind'', ''identity'']"
  "distinct [''schema'', ''schema_version'', ''data''] \<and> list_all utf8_valid [''schema'', ''schema_version'', ''data'']"
  "distinct [''relaxations'', ''source_paths''] \<and> list_all utf8_valid [''relaxations'', ''source_paths'']"
  "list_all utf8_valid [''0.5.74'', ''2941b4bbfb6d8aa2ca4e3ed7bafd335d493f773f'', ''CLAUDE_CONFIG_DIR'', ''standard'', ''yolo'',
     ''urn:relux:task-board:session-launch-plan'', ''1.0.0'', ''claude_code'']"
  by code_simp+

lemma jwf_sections:
  "jwf (Suc (Suc k)) producerValue"
  "jwf (Suc (Suc k)) guard \<Longrightarrow> jwf (Suc (Suc (Suc k))) (processValue v guard)"
  "jwf (Suc (Suc k)) (homeValue p)"
  "jwf (Suc (Suc k)) (fragmentValue f)"
  "jwf (Suc (Suc (Suc (Suc (Suc k))))) (effectiveValue an e)"
  "utf8_valid prof \<Longrightarrow> jwf (Suc (Suc (Suc (Suc (Suc (Suc k)))))) (policyValue an source prof e)"
  "jwf (Suc (Suc k)) (sessionNameValue h n)"
  "\<forall>j \<in> set is. \<bar>j\<bar> \<le> maxSafeInt \<Longrightarrow> jwf (Suc (Suc (Suc k))) (remoteControlValue b is)"
  "jwf (Suc (Suc k)) (resumeValue r)"
proof -
  note keys = section_keys
  show "jwf (Suc (Suc k)) producerValue"
    unfolding producerValue_def jwf_object using keys(1,11) by simp
  show "jwf (Suc (Suc k)) guard \<Longrightarrow> jwf (Suc (Suc (Suc k))) (processValue v guard)"
    unfolding processValue_def jwf_object using keys(2) by (simp del: jwf.simps(6) jwf.simps(5) add: utf8_jsonText)
  show "jwf (Suc (Suc k)) (homeValue p)"
    unfolding homeValue_def jwf_object using keys(3,11) by (simp add: utf8_jsonText)
  show "jwf (Suc (Suc k)) (fragmentValue f)"
    unfolding fragmentValue_def jwf_object using keys(4) by (simp add: utf8_jsonText)
  show e: "jwf (Suc (Suc (Suc (Suc (Suc k))))) (effectiveValue an e)" for k
    using keys(9,10) by (auto simp: effectiveValue_def jwf_object utf8_jsonText simp del: jwf.simps(7) split: option.split)
  show "utf8_valid prof \<Longrightarrow> jwf (Suc (Suc (Suc (Suc (Suc (Suc k)))))) (policyValue an source prof e)"
    unfolding policyValue_def jwf_object using keys(5) e by (simp add: utf8_jsonText)
  show "jwf (Suc (Suc k)) (sessionNameValue h n)"
    unfolding sessionNameValue_def jwf_object using keys(6) by (simp add: utf8_jsonText)
  show "\<forall>j \<in> set is. \<bar>j\<bar> \<le> maxSafeInt \<Longrightarrow> jwf (Suc (Suc (Suc k))) (remoteControlValue b is)"
    unfolding remoteControlValue_def jwf_object using keys(7) by simp
  show "jwf (Suc (Suc k)) (resumeValue r)"
    unfolding resumeValue_def jwf_object using keys(8) by (simp add: utf8_jsonText)
qed

lemma jwf_owned:
  assumes "distinct (map fst lits)" "\<forall>n \<in> set (map fst lits). validEnvName n"
  shows "jwf (Suc (Suc k)) (ownedValue lits)"
proof -
  have "map fst (map (\<lambda>(k, x). (jsonText k, jstr x)) lits) = map fst lits"
    using assms(2) by (induction lits) (auto simp: jsonText_valid validEnvName_valid)
  moreover have "list_all (jwf (Suc k)) (map snd (map (\<lambda>(k, x). (jsonText k, jstr x)) lits))"
    by (auto simp: list_all_iff utf8_jsonText)
  ultimately show ?thesis
    unfolding ownedValue_def jwf_object using assms
    by (simp add: list_all_iff validEnvName_valid del: map_map)
qed

lemma payload_jwf:
  assumes "distinct (map fst (EnvLiterals (piValue i)))" "\<forall>n \<in> set (map fst (EnvLiterals (piValue i))). validEnvName n"
    "\<forall>j \<in> set (snd (snd (pjSession pj))). \<bar>j\<bar> \<le> maxSafeInt" "utf8_valid (pjProfile pj)"
    "jwf (Suc (Suc (Suc (Suc (Suc k))))) (sealJson (piSeal i))" "jwf (Suc (Suc (Suc (Suc (Suc (Suc k)))))) (rtValue (piRestart i))" "utf8_valid digest"
  shows "jwf (Suc (Suc (Suc (Suc (Suc (Suc (Suc k))))))) (payloadValue an i pj digest)"
  unfolding payloadValue_def
  by (subst jwf_object) (use wire_keys section_keys(11) jwf_sections(1,3,4,7,9) jwf_sections(2) [OF assms(5)] jwf_sections(6) [OF assms(4)]
      jwf_sections(8) [OF assms(3)] jwf_owned [OF assms(1,2)] jwf_jstrs assms(6,7) in \<open>simp add: wireKeys_def del: jwf.simps(6,7)\<close>)

lemma depth_Suc: "maxDepth = Suc (Suc (Suc (Suc (Suc (Suc (Suc 57))))))" "(62 :: nat) = Suc (Suc (Suc (Suc (Suc 57))))"
  "(63 :: nat) = Suc (Suc (Suc (Suc (Suc (Suc 57)))))"
  by (simp_all add: maxDepth_def)

lemmas payload_wf = payload_jwf [where k = 57, folded depth_Suc]

lemma jsonText_id: "jsonText s = s \<longleftrightarrow> utf8_valid s"
  using utf8_jsonText [of s] jsonText_valid [of s] by auto

section \<open>The digest\<close>

definition payloadMembers :: "agenticNames \<Rightarrow> PayloadInputs \<Rightarrow> projected \<Rightarrow> string \<Rightarrow> (string \<times> jvalue) list" where
  "payloadMembers an i pj digest = (case payloadValue an i pj digest of JObject ms \<Rightarrow> ms | _ \<Rightarrow> [])"

lemma payloadValue_object: "payloadValue an i pj digest = JObject (payloadMembers an i pj digest)"
  by (simp add: payloadMembers_def payloadValue_def)

lemma payloadMembers_keys: "map fst (payloadMembers an i pj digest) = wireKeys"
  by (simp add: payloadMembers_def payloadValue_def wireKeys_def)

lemma payloadMembers_digest:
  "filter (\<lambda>(k, _). k \<noteq> ''content_digest'') (payloadMembers an i pj d) = filter (\<lambda>(k, _). k \<noteq> ''content_digest'') (payloadMembers an i pj d')"
  by (simp add: payloadMembers_def payloadValue_def)

lemma filter_norm_members:
  "filter (\<lambda>(k, _). k \<noteq> c) (sort_key fst (map (map_prod id norm) ms)) = sort_key fst (map (map_prod id norm) (filter (\<lambda>(k, _). k \<noteq> c) ms))"
proof -
  have eq: "filter (\<lambda>(k, _ :: jvalue). k \<noteq> c) xs = filter (\<lambda>x. fst x \<noteq> c) xs" for xs
    by (induction xs) auto
  show ?thesis
    unfolding eq by (simp add: filter_sort filter_map comp_def)
qed

lemma hexDigit_ascii: "byte (hexDigit (n mod 16)) < 0x80"
proof -
  have "list_all (\<lambda>n. byte (hexDigit n) < 0x80) [0..<16]" by code_simp
  then show ?thesis by (simp add: list_all_iff)
qed

lemma hex_ascii: "c \<in> set (hex_EncodeToString s) \<Longrightarrow> byte c < 0x80"
proof -
  assume "c \<in> set (hex_EncodeToString s)"
  then obtain b where "c = hexDigit (byte b div 16) \<or> c = hexDigit (byte b mod 16)"
    by (auto simp: hex_EncodeToString_def)
  moreover have "byte b div 16 < (16 :: nat)"
    by (rule less_mult_imp_div_less) simp
  then have "byte b div 16 = byte b div 16 mod (16 :: nat)" by simp
  ultimately show "byte c < 0x80"
    using hexDigit_ascii [of "byte b div 16"] hexDigit_ascii [of "byte b"] by metis
qed

definition digestOf :: "(string \<times> jvalue) list \<Rightarrow> string" where
  "digestOf ms = ''sha256:'' @ hex_EncodeToString (Sum256 (Canonical (JObject (sort_key fst (map (map_prod id norm) (filter (\<lambda>(k, _). k \<noteq> ''content_digest'') ms))))))"

lemma ContentDigest_printed:
  "jwf maxDepth (JObject ms) \<Longrightarrow> ContentDigest (appendCanonical (JObject ms)) = Inr (digestOf ms)"
  by (simp only: ContentDigest_def ParseJSON_appendCanonical norm.simps sum.case jvalue.case filter_norm_members digestOf_def)

lemma Canonical_payload:
  assumes "jwf maxDepth (payloadValue an i pj d)"
  shows "Canonical (norm (payloadValue an i pj d)) = appendCanonical (payloadValue an i pj d)"
proof -
  have nosig: "stripSig (norm (payloadValue an i pj d)) = norm (payloadValue an i pj d)"
  proof -
    have "''sig'' \<notin> set wireKeys" by code_simp
    moreover have "set (map fst (payloadMembers an i pj d)) = set wireKeys"
      by (simp only: payloadMembers_keys)
    ultimately have "(''sig'', b) \<notin> set (payloadMembers an i pj d)" for b
      by (metis image_eqI fst_conv set_map)
    then have "\<forall>x \<in> set (sort_key fst (map (map_prod id norm) (payloadMembers an i pj d))). fst x \<noteq> ''sig''"
      by auto
    then show ?thesis
      unfolding payloadValue_object by (simp add: filter_id_conv case_prod_beta)
  qed
  show ?thesis
    unfolding Canonical_def nosig by (rule appendCanonical_norm [OF assms])
qed

lemma sealPayload_Inr:
  assumes wf: "\<And>d. utf8_valid d \<Longrightarrow> jwf maxDepth (payloadValue an i pj d)" and ok: "sealPayload an i pj = Inr wire"
  shows "\<exists>digest. wire = appendCanonical (payloadValue an i pj digest) \<and> ParseJSON wire = Inr (norm (payloadValue an i pj digest)) \<and>
    ContentDigest wire = Inr digest \<and> length wire \<le> 1048576 \<and> valueDepth (norm (payloadValue an i pj digest)) 0 \<le> 16"
proof -
  let ?d = "digestOf (payloadMembers an i pj [])"
  let ?v = "payloadValue an i pj ?d"
  have d: "utf8_valid ?d"
    using hex_ascii by (intro utf8_valid_ascii) (auto simp: digestOf_def)
  have dg: "ContentDigest (appendCanonical (payloadValue an i pj [])) = Inr ?d"
    using wf [of "[]"] unfolding payloadValue_object by (intro ContentDigest_printed) simp_all
  have same: "digestOf (payloadMembers an i pj d') = digestOf (payloadMembers an i pj d'')" for d' d''
    unfolding digestOf_def payloadMembers_digest [of an i pj d' d''] ..
  have canon: "Canonical (norm ?v) = appendCanonical ?v"
    by (rule Canonical_payload [OF wf [OF d]])
  have "wire = appendCanonical ?v" "length wire \<le> 1048576" "valueDepth (norm ?v) 0 \<le> 16"
    using ok unfolding sealPayload_def dg
    by (auto simp: ParseJSON_appendCanonical [OF wf [OF d]] canon split: if_split_asm option.split_asm)
  moreover have "ContentDigest (appendCanonical ?v) = Inr ?d"
    using ContentDigest_printed [of "payloadMembers an i pj ?d"] wf [OF d] same [of ?d "[]"] unfolding payloadValue_object by (simp only:)
  ultimately show ?thesis
    using ParseJSON_appendCanonical [OF wf [OF d]] by blast
qed

section \<open>Checks\<close>

lemma envLoop_Inr:
  "envLoop field i out es = Inr r \<Longrightarrow> \<exists>new. r = out @ new \<and> es = map entry new \<and>
    (\<forall>(n, x) \<in> set new. validEnvName n \<and> CHR 0x00 \<notin> set x \<and> length (entry (n, x)) \<le> 16384) \<and> (distinct (map fst out) \<longrightarrow> distinct (map fst r))"
proof (induction field i out es arbitrary: r rule: envLoop.induct)
  case (2 field i out e es)
  obtain n x ok where cut: "Cut e CHR ''='' = (n, x, ok)" by (cases "Cut e CHR ''=''")
  from "2.prems" have c: "ok" "validEnvName n" "CHR 0x00 \<notin> set x" "length e \<le> 16384" "map_of out n = None"
    and rest: "envLoop field (i + 1) (out @ [(n, x)]) es = Inr r"
    by (auto simp: cut split: if_split_asm)
  then have e: "e = entry (n, x)"
    using cut by (simp add: Cut_found entry_def)
  obtain new where new: "r = (out @ [(n, x)]) @ new" "es = map entry new"
      "\<forall>(n, x) \<in> set new. validEnvName n \<and> CHR 0x00 \<notin> set x \<and> length (entry (n, x)) \<le> 16384"
      "distinct (map fst (out @ [(n, x)])) \<longrightarrow> distinct (map fst r)"
    using "2.IH" [OF cut [symmetric] refl _ _ _ rest] c by auto
  have "n \<notin> set (map fst out)"
    using c(5) by (simp add: map_of_eq_None_iff)
  then show ?case
    using new e c by (intro exI [of _ "(n, x) # new"]) auto
qed simp

lemma payloadEnv_Inr:
  assumes "payloadEnv es field = Inr final"
  shows "es = map entry final \<and> distinct (map fst final) \<and> length es \<le> 512 \<and> sum_list (map length es) \<le> 262144"
  using assms envLoop_Inr [of field 0 "[]" es] by (auto simp: payloadEnv_def split: if_split_asm)

lemma argvFault_None: "argvFault i as = None \<longleftrightarrow> (\<forall>a \<in> set as. CHR 0x00 \<notin> set a \<and> length a \<le> 65536)"
  by (induction i as rule: argvFault.induct) auto

definition processFits :: "composed \<Rightarrow> bool" where
  "processFits v \<longleftrightarrow> isAbsolutePath (cBinary v) \<and> isAbsolutePath (cWorkDir v) \<and> length (cArgv v) < 128 \<and>
     (\<forall>a \<in> set (cBinary v # cArgv v). CHR 0x00 \<notin> set a \<and> length a \<le> 65536)"

lemma checkProcess_None: "checkProcess v = None \<longleftrightarrow> processFits v"
  using argvFault_None [of 0 "cArgv v"]
  by (cases "argvFault 0 (cArgv v)") (auto simp: checkProcess_def processFits_def isAbsolutePath_def HasPrefix_iff split: if_split_asm)

lemma ownedFault_None:
  "ownedFault lits final names ns = None \<Longrightarrow> n \<in> set ns \<Longrightarrow> map_of lits n = Some x \<Longrightarrow> validEnvName n \<and> map_of final n = Some x \<and> n \<notin> set names"
  by (induction lits final names ns rule: ownedFault.induct) (auto simp: Let_def split: if_split_asm)

lemma checkOwned_None:
  assumes "checkOwned lits final names = None" "distinct (map fst lits)" "(n, x) \<in> set lits"
  shows "validEnvName n \<and> map_of final n = Some x \<and> n \<notin> set names"
proof (rule ownedFault_None)
  show "ownedFault lits final names (sortedKeys lits) = None"
    using assms(1) by (simp add: checkOwned_def split: if_split_asm)
  show "n \<in> set (sortedKeys lits)"
    using assms(3) by (force simp: sortedKeys_def)
  show "map_of lits n = Some x"
    using assms(2,3) by simp
qed

lemma namesFault_None:
  "namesFault here i prev ns = None \<Longrightarrow> sorted_wrt (<) ns \<and> (\<forall>p. prev = Some p \<longrightarrow> (\<forall>n \<in> set ns. p < n)) \<and> set ns \<subseteq> set here"
proof (induction here i prev ns rule: namesFault.induct)
  case (2 here i prev n ns)
  then have IH: "sorted_wrt (<) ns" "\<forall>m \<in> set ns. n < m" "set ns \<subseteq> set here"
    by (auto split: if_split_asm)
  have "\<forall>p. prev = Some p \<longrightarrow> p < n" "n \<in> set here"
    using "2.prems" by (auto simp: not_le split: if_split_asm)
  with IH show ?case by force
qed simp

lemma checkRestart_None: "checkRestart an r argv = None \<Longrightarrow> rtArgv r = Some argv \<and> 0 \<le> rtSlotIndex r \<and> rtSlotIndex r \<le> int (length argv)"
  by (auto simp: checkRestart_def split: if_split_asm option.split_asm)

lemma indicesFault_None: "indicesFault n u is = None \<Longrightarrow> (\<forall>i \<in> set is. 0 \<le> i \<and> i < int n) \<and> distinct is \<and> u \<inter> set is = {}"
  by (induction n u "is" rule: indicesFault.induct) (auto split: if_split_asm)

lemma projectSession_Inr: "projectSession s argv = Inr (m, b, is) \<Longrightarrow> (\<forall>i \<in> set is. 0 \<le> i \<and> i < int (length argv)) \<and> distinct is"
  by (auto simp: projectSession_def dest!: indicesFault_None split: option.split_asm if_split_asm)

lemma sort_Nil: "sort xs = [] \<longleftrightarrow> xs = []"
  by (metis length_0_conv length_sort)

lemma projectEffectivePolicy_None:
  "projectEffectivePolicy p = Inr e \<Longrightarrow> e = None \<longleftrightarrow> ReportEffectiveNativePolicy p = []"
  by (auto simp: sort_Nil projectEffectivePolicy_def ReportEffectiveNativePolicy_def Let_def split: if_split_asm option.split_asm)

lemma managedHome_Inr:
  "managedHome f final = Inr p \<Longrightarrow> map_of (Env f) ''CLAUDE_CONFIG_DIR'' = Some p \<and> isAbsolutePath p \<and> map_of final ''CLAUDE_CONFIG_DIR'' = Some p"
  by (auto simp: managedHome_def split: option.split_asm if_split_asm)

lemma require_Inr [simp]: "require c = Inr u \<longleftrightarrow> c = None"
  by (simp add: require_def split: option.split)

lemma demand_Inr [simp]: "demand b x y = Inr u \<longleftrightarrow> b"
  by (simp add: demand_def)

lemma projectInputs_Inr:
  "projectInputs an i = Inr pj \<Longrightarrow> \<exists>final. piEnvID i = ''claude_code'' \<and> Environment (piFragment i) = ''claude_code'' \<and>
    executionProfile (anModes an) (piMode i) = Some (pjProfile pj) \<and> piSource i \<in> set sources \<and> validSessionName (piHostName i) \<and>
    checkProcess (piValue i) = None \<and> payloadEnv (cEnv (piValue i)) ''process.env'' = Inr final \<and>
    managedHome (piFragment i) final = Inr (pjHome pj) \<and> checkOwned (EnvLiterals (piValue i)) final (EnvNames (piValue i)) = None \<and>
    checkEnvNames (EnvNames (piValue i)) (piCallerEnv i) = None \<and> HostedAdmissible (piSeal i) \<and>
    checkRestart an (piRestart i) (cArgv (piValue i)) = None \<and> projectResume an (piResume i) = Inr (pjResume pj) \<and>
    projectSession (piSession i) (cArgv (piValue i)) = Inr (pjSession pj) \<and> projectEffectivePolicy (piInspection i) = Inr (pjEffective pj)"
  unfolding projectInputs_def Let_def by (auto split: option.split_asm)

lemma executionProfile_Some: "executionProfile am m = Some p \<Longrightarrow> p \<in> {''standard'', ''yolo''} \<and> utf8_valid p"
  using section_keys(11) by (auto simp: executionProfile_def split: if_split_asm)

lemma Get_norm:
  assumes "distinct (map fst ms)"
  shows "Get (norm (JObject ms)) n = map_option norm (map_of ms n)"
proof -
  have "map_of (sort_key fst (map (map_prod id norm) ms)) = map_of (map (map_prod id norm) ms)"
    by (rule perm_map_of(4)) (use assms in simp_all)
  moreover have "map_of (map (map_prod id norm) ms) n = map_option norm (map_of ms n)"
    by (induction ms) auto
  ultimately show ?thesis by simp
qed

lemma process_argv:
  "\<exists>p. Get (norm (payloadValue an i pj d)) ''process'' = Some p \<and> Get p ''argv'' = Some (JArray (map jstr (cArgv (piValue i)))) \<and>
     Get p ''env'' = Some (JArray (map jstr (cEnv (piValue i)))) \<and> Get p ''cwd'' = Some (jstr (cWorkDir (piValue i))) \<and>
     Get p ''binary'' = Some (jstr (cBinary (piValue i)))"
proof -
  obtain ms where ms: "processValue (piValue i) (sealJson (piSeal i)) = JObject ms"
    by (simp add: processValue_def)
  have "distinct (map fst ms)" using ms section_keys(2) by (auto simp: processValue_def)
  then have "Get (norm (JObject ms)) n = map_option norm (map_of ms n)" for n by (rule Get_norm)
  moreover have "map_of ms ''argv'' = Some (JArray (map jstr (cArgv (piValue i))))" "map_of ms ''env'' = Some (JArray (map jstr (cEnv (piValue i))))"
    "map_of ms ''cwd'' = Some (jstr (cWorkDir (piValue i)))" "map_of ms ''binary'' = Some (jstr (cBinary (piValue i)))"
    using ms by (auto simp: processValue_def)
  moreover have "Get (norm (payloadValue an i pj d)) ''process'' = Some (norm (JObject ms))"
  proof -
    have "distinct (map fst (payloadMembers an i pj d))"
      using wire_keys by (simp only: payloadMembers_keys)
    moreover have "map_of (payloadMembers an i pj d) ''process'' = Some (processValue (piValue i) (sealJson (piSeal i)))"
      by (simp add: payloadMembers_def payloadValue_def)
    ultimately show ?thesis
      unfolding payloadValue_object by (simp only: Get_norm ms option.map)
  qed
  ultimately show ?thesis
    by (intro exI [of _ "norm (JObject ms)"]) (simp add: comp_def)
qed

text \<open>C11. The hosted launch plan. A payload that is built is canonical text within the wire limits,
  and the digest it carries is the one a receiver recomputes from it. The process it carries was
  checked: absolute paths, no NUL, bounded arguments and entries with unique names, the managed home
  equal in fragment and environment, every owned literal equal to its entry and no lookup, every
  lookup ascending and set by the caller, the restart vector equal to the process vector, session
  indices distinct and inside it, an admissible guard. The effective policy is absent exactly when
  the native launch would report none. Arguments arrive unchanged exactly when they are valid
  UTF-8.\<close>

theorem payload_faithful:
  assumes lits: "distinct (map fst (EnvLiterals (piValue i)))" and guard: "jwf 62 (sealJson (piSeal i))" and restart: "jwf 63 (rtValue (piRestart i))"
    and ok: "BuildPayload an i = Inr wire"
  shows "\<exists>pj digest final. ParseJSON wire = Inr (norm (payloadValue an i pj digest)) \<and> wire = appendCanonical (payloadValue an i pj digest) \<and>
    ContentDigest wire = Inr digest \<and> length wire \<le> 1048576 \<and> valueDepth (norm (payloadValue an i pj digest)) 0 \<le> 16 \<and>
    executionProfile (anModes an) (piMode i) = Some (pjProfile pj) \<and>
    processFits (piValue i) \<and> cEnv (piValue i) = map entry final \<and> distinct (map fst final) \<and>
    length final \<le> 512 \<and> sum_list (map length (cEnv (piValue i))) \<le> 262144 \<and>
    map_of (Env (piFragment i)) ''CLAUDE_CONFIG_DIR'' = Some (pjHome pj) \<and> map_of final ''CLAUDE_CONFIG_DIR'' = Some (pjHome pj) \<and>
    (\<forall>(n, x) \<in> set (EnvLiterals (piValue i)). map_of final n = Some x \<and> n \<notin> set (EnvNames (piValue i))) \<and>
    sorted_wrt (<) (EnvNames (piValue i)) \<and> set (EnvNames (piValue i)) \<subseteq> set (callerNames (piCallerEnv i)) \<and>
    rtArgv (piRestart i) = Some (cArgv (piValue i)) \<and> HostedAdmissible (piSeal i) \<and>
    distinct (snd (snd (pjSession pj))) \<and> (\<forall>j \<in> set (snd (snd (pjSession pj))). 0 \<le> j \<and> j < int (length (cArgv (piValue i)))) \<and>
    (pjEffective pj = None \<longleftrightarrow> ReportEffectiveNativePolicy (piInspection i) = []) \<and>
    (\<exists>p. Get (norm (payloadValue an i pj digest)) ''process'' = Some p \<and>
      (Get p ''argv'' = Some (JArray (map JString (cArgv (piValue i)))) \<longleftrightarrow> (\<forall>a \<in> set (cArgv (piValue i)). utf8_valid a)))"
proof -
  obtain pj where pj: "projectInputs an i = Inr pj" and seal: "sealPayload an i pj = Inr wire"
    using ok by (auto simp: BuildPayload_def)
  obtain final where facts: "executionProfile (anModes an) (piMode i) = Some (pjProfile pj)" "checkProcess (piValue i) = None"
    "payloadEnv (cEnv (piValue i)) ''process.env'' = Inr final" "managedHome (piFragment i) final = Inr (pjHome pj)"
    "checkOwned (EnvLiterals (piValue i)) final (EnvNames (piValue i)) = None"
    "checkEnvNames (EnvNames (piValue i)) (piCallerEnv i) = None" "HostedAdmissible (piSeal i)"
    "checkRestart an (piRestart i) (cArgv (piValue i)) = None"
    "projectSession (piSession i) (cArgv (piValue i)) = Inr (pjSession pj)" "projectEffectivePolicy (piInspection i) = Inr (pjEffective pj)"
    using projectInputs_Inr [OF pj] by blast
  note env = payloadEnv_Inr [OF facts(3)]
  have owned: "validEnvName n \<and> map_of final n = Some x \<and> n \<notin> set (EnvNames (piValue i))" if "(n, x) \<in> set (EnvLiterals (piValue i))" for n x
    using checkOwned_None [OF facts(5) lits that] .
  have names: "sorted_wrt (<) (EnvNames (piValue i)) \<and> set (EnvNames (piValue i)) \<subseteq> set (callerNames (piCallerEnv i))"
    using facts(6) namesFault_None by (auto simp: checkEnvNames_def split: if_split_asm)
  have fits: "processFits (piValue i)" using facts(2) checkProcess_None by blast
  have session: "distinct (snd (snd (pjSession pj))) \<and> (\<forall>j \<in> set (snd (snd (pjSession pj))). 0 \<le> j \<and> j < int (length (cArgv (piValue i))))"
    using projectSession_Inr [of "piSession i" "cArgv (piValue i)" "fst (pjSession pj)" "fst (snd (pjSession pj))" "snd (snd (pjSession pj))"] facts(9)
    by simp
  have wf: "jwf maxDepth (payloadValue an i pj d)" if "utf8_valid d" for d
  proof (rule payload_wf [OF lits _ _ _ guard restart that])
    show "\<forall>n \<in> set (map fst (EnvLiterals (piValue i))). validEnvName n" using owned by auto
    show "\<forall>j \<in> set (snd (snd (pjSession pj))). \<bar>j\<bar> \<le> maxSafeInt"
      using session fits by (force simp: processFits_def maxSafeInt_def)
    show "utf8_valid (pjProfile pj)" using executionProfile_Some [OF facts(1)] by blast
  qed
  obtain digest where digest: "wire = appendCanonical (payloadValue an i pj digest)" "ParseJSON wire = Inr (norm (payloadValue an i pj digest))"
    "ContentDigest wire = Inr digest" "length wire \<le> 1048576" "valueDepth (norm (payloadValue an i pj digest)) 0 \<le> 16"
    using sealPayload_Inr [OF wf seal] by blast
  have "map jstr as = map JString as \<longleftrightarrow> (\<forall>a \<in> set as. utf8_valid a)" for as
    using jsonText_id by auto
  then have argv: "\<exists>p. Get (norm (payloadValue an i pj digest)) ''process'' = Some p \<and>
      (Get p ''argv'' = Some (JArray (map JString (cArgv (piValue i)))) \<longleftrightarrow> (\<forall>a \<in> set (cArgv (piValue i)). utf8_valid a))"
    using process_argv [of an i pj digest] by (metis jvalue.inject(4) option.inject)
  show ?thesis
    using digest facts(1,7) fits env managedHome_Inr [OF facts(4)] owned names checkRestart_None [OF facts(8)] session
      projectEffectivePolicy_None [OF facts(10)] argv
    by (intro exI [of _ pj] exI [of _ digest] exI [of _ final]) auto
qed

section \<open>An example\<close>

lemma length_Join: "length (Join ws [c]) \<le> sum_list (map (\<lambda>w. length w + 1) ws)"
  by (induction ws "[c]" rule: Join.induct) auto

lemma sum_list_sort: "sum_list (map h (sort ks)) = sum_list (map (h :: _ \<Rightarrow> nat) ks)"
  by (metis mset_map mset_sort sum_mset_sum_list)

lemma length_object:
  assumes "distinct (map fst ms)"
  shows "length (appendCanonical (JObject ms)) \<le> 2 + sum_list (map (\<lambda>(k, v). length (appendString k) + length (appendCanonical v) + 2) ms)"
proof -
  let ?b = "map (map_prod id appendCanonical) ms"
  let ?w = "\<lambda>k. appendString k @ '':'' @ the (map_of (List.rev ?b) k)"
  have val: "map_of (List.rev ?b) k = Some (appendCanonical v)" if "(k, v) \<in> set ms" for k v
    by (rule map_of_is_SomeI) (use assms that in \<open>force simp: rev_map [symmetric]\<close>)+
  have "sum_list (map (\<lambda>k. length (?w k) + 1) (sort (map fst ?b))) = sum_list (map (\<lambda>m. length (?w (fst m)) + 1) ms)"
    by (simp add: sum_list_sort comp_def)
  also have "\<dots> = sum_list (map (\<lambda>(k, v). length (appendString k) + length (appendCanonical v) + 2) ms)"
    by (rule arg_cong [of _ _ sum_list], rule map_cong [OF refl]) (auto simp: val)
  finally have "sum_list (map (\<lambda>k. length (?w k) + 1) (sort (map fst ?b))) =
      sum_list (map (\<lambda>(k, v). length (appendString k) + length (appendCanonical v) + 2) ms)" .
  then show ?thesis
    using length_Join [of "map ?w (sort (map fst ?b))" "CHR '',''"] by (simp add: Let_def comp_def)
qed

definition sampleNames :: agenticNames where
  "sampleNames = \<lparr>anModes = \<lparr>ModeNative = ''native'', ModeYolo = ''yolo''\<rparr>, anNew = ''new'', anLatest = ''latest'', anHandle = ''handle'',
     anClaudeUUID = ''claude-uuid'', anRestartSchema = ''claude-restart'', anRestartVersion = ''1.0.0'', anPolicySchema = ''policy'', anHostedVersion = ''1.0.0''\<rparr>"

definition sampleInputs :: PayloadInputs where
  "sampleInputs = \<lparr>piEnvID = ''claude_code'',
     piValue = \<lparr>cBinary = ''/bin/claude'', cWorkDir = ''/w'', cArgv = [''-p'', [CHR 0xFF]], cEnv = [''CLAUDE_CONFIG_DIR=/r/environments/p/e''],
       cRawStdin = (False, []), EnvLiterals = [(''CLAUDE_CONFIG_DIR'', ''/r/environments/p/e'')], EnvNames = [''A_KEY'', ''B_KEY''], Warnings = [], mcpLayer = []\<rparr>,
     piFragment = claude_fragment, piCallerEnv = [''B_KEY='', ''A_KEY=1''], piMode = ''yolo'', piSource = ''flag'', piHostName = ''s-1'',
     piResume = \<lparr>intentKind = ''new'', intentIdentity = None\<rparr>,
     piRestart = \<lparr>rtSchema = ''claude-restart'', rtVersion = ''1.0.0'', rtArgv = Some [''-p'', [CHR 0xFF]], rtSlotFlag = ''--resume'', rtSlotIndex = 1,
       rtValue = JObject [(''data'', JObject [])]\<rparr>,
     piSeal = \<lparr>HostedAdmissible = True, sealJson = JObject [(''data'', JObject [])]\<rparr>,
     piInspection = \<lparr>Relaxations = [], SourcesInspected = [], SourcesNotInspected = []\<rparr>,
     piSession = Some \<lparr>NativeName = None, RCEnabled = False, RCIndices = []\<rparr>\<rparr>"

definition sampleProjected :: projected where
  "sampleProjected = projr (projectInputs sampleNames sampleInputs)"

lemma sample_projected: "projectInputs sampleNames sampleInputs = Inr sampleProjected"
proof -
  have "\<not> isl (projectInputs sampleNames sampleInputs)" by code_simp
  then show ?thesis by (simp add: sampleProjected_def)
qed

lemma sample_limits:
  "list_all (\<lambda>(k, v). k = ''content_digest'' \<or> length (appendString k) + length (appendCanonical v) + 2 \<le> 1000)
     (payloadMembers sampleNames sampleInputs sampleProjected d)"
  by code_simp

lemma sample_depth: "valueDepth (norm (payloadValue sampleNames sampleInputs sampleProjected d)) 0 \<le> 16"
  by code_simp

lemma sample_encoded: "checkEncodedLimits (norm (payloadValue sampleNames sampleInputs sampleProjected d)) = None"
  by code_simp

lemma length_appendString: "length (appendString s) \<le> 6 * length s + 2"
proof -
  have "length (escape_byte c) \<le> 6" for c
    by (simp add: escape_byte_def)
  then have "length (concat (map escape_byte s)) \<le> 6 * length s"
    by (induction s) (auto intro: order_trans [OF add_mono])
  then show ?thesis by (simp add: appendString_def)
qed

lemma sum_list_bound: "\<forall>x \<in> set xs. f x \<le> c \<Longrightarrow> sum_list (map f xs) \<le> length xs * (c :: nat)"
  by (induction xs) auto

lemma sample_wf: "utf8_valid d \<Longrightarrow> jwf maxDepth (payloadValue sampleNames sampleInputs sampleProjected d)"
proof (rule payload_wf)
  show "distinct (map fst (EnvLiterals (piValue sampleInputs)))" "jwf 62 (sealJson (piSeal sampleInputs))" "jwf 63 (rtValue (piRestart sampleInputs))"
    "utf8_valid (pjProfile sampleProjected)"
    by code_simp+
  have "list_all validEnvName (map fst (EnvLiterals (piValue sampleInputs)))" "snd (snd (pjSession sampleProjected)) = []"
    by code_simp+
  then show "\<forall>n \<in> set (map fst (EnvLiterals (piValue sampleInputs))). validEnvName n" "\<forall>j \<in> set (snd (snd (pjSession sampleProjected))). \<bar>j\<bar> \<le> maxSafeInt"
    by (simp_all add: list_all_iff)
qed

lemma sample_built: "\<exists>wire. BuildPayload sampleNames sampleInputs = Inr wire"
proof -
  let ?P = "payloadValue sampleNames sampleInputs sampleProjected"
  let ?d = "digestOf (payloadMembers sampleNames sampleInputs sampleProjected [])"
  have asc: "\<forall>c \<in> set ?d. byte c < 0x80"
    using hex_ascii by (auto simp: digestOf_def)
  have d: "utf8_valid ?d" using asc by (rule utf8_valid_ascii)
  have dg: "ContentDigest (appendCanonical (?P [])) = Inr ?d"
    using sample_wf [of "[]"] unfolding payloadValue_object by (intro ContentDigest_printed) simp_all
  have small: "length (appendString ''content_digest'') + length (appendCanonical (JString ?d)) + 2 \<le> 1000"
    using length_appendString [of "''content_digest''"] length_appendString [of ?d] by (simp add: digestOf_def)
  have "list_all (\<lambda>(k, v). length (appendString k) + length (appendCanonical v) + 2 \<le> 1000) (payloadMembers sampleNames sampleInputs sampleProjected ?d)"
    unfolding list_all_iff
  proof (intro ballI, clarify)
    fix k v assume m: "(k, v) \<in> set (payloadMembers sampleNames sampleInputs sampleProjected ?d)"
    show "length (appendString k) + length (appendCanonical v) + 2 \<le> 1000"
    proof (cases "k = ''content_digest''")
      case True
      then have "v = JString ?d"
        using m unfolding payloadMembers_def payloadValue_def by simp
      then show ?thesis using small True by simp
    next
      case False
      then show ?thesis using sample_limits [of ?d] m by (auto simp: list_all_iff)
    qed
  qed
  then have "sum_list (map (\<lambda>(k, v). length (appendString k) + length (appendCanonical v) + 2) (payloadMembers sampleNames sampleInputs sampleProjected ?d)) \<le> 17 * 1000"
    using sum_list_bound [of "payloadMembers sampleNames sampleInputs sampleProjected ?d"
        "\<lambda>(k, v). length (appendString k) + length (appendCanonical v) + 2" 1000]
      arg_cong [OF payloadMembers_keys [of sampleNames sampleInputs sampleProjected ?d], of length]
    by (simp add: list_all_iff wireKeys_def case_prod_beta)
  moreover have "distinct (map fst (payloadMembers sampleNames sampleInputs sampleProjected ?d))"
    using wire_keys by (simp only: payloadMembers_keys)
  ultimately have len: "length (appendCanonical (?P ?d)) \<le> 1048576"
    unfolding payloadValue_object using length_object [of "payloadMembers sampleNames sampleInputs sampleProjected ?d"] by linarith
  have "sealPayload sampleNames sampleInputs sampleProjected = Inr (appendCanonical (?P ?d))"
    unfolding sealPayload_def dg
    using len sample_depth [of ?d] sample_encoded [of ?d]
    by (simp add: ParseJSON_appendCanonical [OF sample_wf [OF d]] Canonical_payload [OF sample_wf [OF d]] del: norm.simps appendCanonical.simps valueDepth.simps)
  then show ?thesis
    by (simp add: BuildPayload_def sample_projected)
qed

text \<open>A plan with an argument that is not UTF-8 is built, and its argument vector is not the one of the process.\<close>

theorem payload_faithful_witness:
  "\<exists>wire w p. BuildPayload sampleNames sampleInputs = Inr wire \<and> ParseJSON wire = Inr w \<and> Get w ''process'' = Some p \<and>
    Get p ''argv'' \<noteq> Some (JArray (map JString (cArgv (piValue sampleInputs))))"
proof -
  obtain wire where wire: "BuildPayload sampleNames sampleInputs = Inr wire"
    using sample_built by blast
  have "distinct (map fst (EnvLiterals (piValue sampleInputs)))" "jwf 62 (sealJson (piSeal sampleInputs))" "jwf 63 (rtValue (piRestart sampleInputs))"
    by code_simp+
  note f = payload_faithful [OF this wire]
  moreover have "\<not> (\<forall>a \<in> set (cArgv (piValue sampleInputs)). utf8_valid a)"
  proof -
    have "\<not> list_all utf8_valid (cArgv (piValue sampleInputs))" by code_simp
    then show ?thesis by (simp add: list_all_iff)
  qed
  ultimately show ?thesis using wire by blast
qed

end

