(* ===== verification/HostRoute.thy ===== *)
theory HostRoute
  imports HostPayload HostStatus SessionRegistry
begin

text \<open>
  \<open>internal/sessionmanager/client/capabilities.go\<close>, the client error of \<open>protocol.go\<close>, and
  \<open>resolveHost\<close> of \<open>cmd/curator-run/host_selection.go\<close>: what a manager must advertise, and who
  hosts a launch. The terminal, the registry files, the calls to the manager and the resume
  elevation of agents-management are inputs; a resolution is the list of the contacts it makes, in
  order, with its result. A map of operations is an association list.
\<close>

section \<open>The client error\<close>

datatype hostFailure =
  HostErr string "(string \<times> string) list" | RegistryErr string string | ResumeErr string | VersionErr string string | PlainErr string

definition clientMessage :: "string \<Rightarrow> string" where
  "clientMessage code = (case PluginDiagnosticFor code of Some d \<Rightarrow> Message d
     | None \<Rightarrow> (case StatusRegistryRow code of Some (_, m) \<Rightarrow> m | None \<Rightarrow> ''Launch refused.''))"

definition clientExit :: "string \<Rightarrow> nat" where
  "clientExit code = (case PluginDiagnosticFor code of Some d \<Rightarrow> Exit d
     | None \<Rightarrow> (case StatusExitForCode code of Some n \<Rightarrow> n | None \<Rightarrow> ExitForCode code))"

text \<open>\<open>quote\<close> is \<open>strconv.Quote\<close>.\<close>

definition clientDiagnostic :: "(string \<Rightarrow> string) \<Rightarrow> string \<Rightarrow> (string \<times> string) list \<Rightarrow> string" where
  "clientDiagnostic quote code details =
     code @ '': '' @ clientMessage code @
     concat (map (\<lambda>k. let v = (case map_of details k of Some x \<Rightarrow> x | None \<Rightarrow> [])
       in '' '' @ k @ ''='' @ (if k = ''path'' then quote v else v)) (sort (map fst details)))"

text \<open>\<open>emitFailure\<close> and \<open>emitHostFailure\<close>: the line and the exit status.\<close>

definition emitFailure :: "string \<Rightarrow> string \<Rightarrow> string \<times> nat" where
  "emitFailure code err = (DiagnosticLine code (TrimPrefix err (code @ '': '')), ExitForCode code)"

definition hostErrorLine :: "(string \<Rightarrow> string) \<Rightarrow> string \<Rightarrow> (string \<times> string) list \<Rightarrow> string \<times> nat" where
  "hostErrorLine quote code details =
     (if code = ''network_scope_unsupported'' then
        (DiagnosticLine code ''managed network selections are not supported by hosted execution'', ExitPolicy)
      else (''curator-run: '' @ clientDiagnostic quote code details @ [CHR 0x0A], clientExit code))"

fun emitHostFailure :: "(string \<Rightarrow> string) \<Rightarrow> hostFailure \<Rightarrow> string \<times> nat" where
  "emitHostFailure quote (VersionErr envID required) =
     hostErrorLine quote ''fragment_version_unsupported'' [(''environment'', envID), (''required'', required)]"
| "emitHostFailure quote (HostErr code details) = hostErrorLine quote code details"
| "emitHostFailure quote (RegistryErr code msg) = emitFailure code msg"
| "emitHostFailure quote (ResumeErr reason) = emitFailure ''session_resume_invalid'' (''session_resume_invalid: '' @ reason)"
| "emitHostFailure quote (PlainErr msg) = emitFailure ''plan_refused'' msg"

section \<open>Capabilities\<close>

record Describe =
  Capabilities :: "string list"
  Runtimes :: "(string \<times> string list) list"

record Needs =
  needRuntime :: string
  needHostMode :: string
  needNative :: bool
  needExplicitHosted :: bool
  needWerkstatt :: bool
  needDetached :: bool
  needResume :: bool
  needBoardGoal :: bool
  needCredentialNode :: bool
  needDoorbell :: bool
  needAttachAfter :: bool
  needTrial :: bool
  needSignedOff :: bool

record Route =
  routeKind :: string
  routeNotice :: string
  routeCaps :: "string list"

definition Q1SignedOff :: bool where "Q1SignedOff = True"

definition routeOf :: "string \<Rightarrow> Route" where
  "routeOf kind = \<lparr>routeKind = kind, routeNotice = [], routeCaps = []\<rparr>"

definition museQualified :: "Describe \<Rightarrow> string list \<Rightarrow> bool" where
  "museQualified d ops \<longleftrightarrow>
     (''launch'' \<in> set ops \<or> ''launch-exact'' \<in> set ops) \<and> ''attach'' \<in> set ops \<and> ''attach/1'' \<in> set (Capabilities d) \<and>
     (''launch'' \<in> set ops \<and> ''launch-delegated/1'' \<in> set (Capabilities d) \<or>
      ''launch-exact'' \<in> set ops \<and> ''launch-exact/2'' \<in> set (Capabilities d))"

text \<open>The route with its capability and operation.\<close>

definition launchRoute :: "Needs \<Rightarrow> string list \<Rightarrow> string \<times> string \<times> string" where
  "launchRoute n ops =
     (if needResume n then (''delegated'', ''resume/1'', ''resume'')
      else if \<not> needDetached n \<and> \<not> needDoorbell n \<and> ''launch-exact'' \<in> set ops then (''exact'', ''launch-exact/2'', ''launch-exact'')
      else (''delegated'', ''launch-delegated/1'', ''launch''))"

definition leaseCapable :: "Describe \<Rightarrow> string list \<Rightarrow> string \<times> string \<times> string \<Rightarrow> bool" where
  "leaseCapable d ops r = (case r of (route, cap, oper) \<Rightarrow>
     route \<noteq> ''exact'' \<and> oper \<in> set ops \<and> cap \<in> set (Capabilities d) \<and> ''status'' \<in> set ops \<and> ''cancel'' \<in> set ops \<and>
     ''status/1'' \<in> set (Capabilities d) \<and> ''admission/1'' \<in> set (Capabilities d))"

type_synonym neededCaps = "string list \<times> (string \<times> string) list"

definition need :: "string \<Rightarrow> string \<Rightarrow> neededCaps \<Rightarrow> neededCaps" where
  "need cap oper s = ((if cap \<in> set (fst s) then fst s else fst s @ [cap]), if oper \<noteq> [] then AList.update cap oper (snd s) else snd s)"

definition doorbellCapability :: "string \<Rightarrow> string option" where
  "doorbellCapability runtime =
     (if runtime = ''claude_code'' then Some ''doorbell-claude/1'' else if runtime = ''codex_cli'' then Some ''doorbell-codex/1'' else None)"

text \<open>\<open>None\<close> refuses the runtime.\<close>

definition requirements :: "Needs \<Rightarrow> string \<Rightarrow> string \<Rightarrow> neededCaps option" where
  "requirements n cap oper =
     (let s = ([cap, ''admission/1'', ''status/1''], [(cap, oper), (''admission/1'', ''cancel''), (''status/1'', ''status'')]);
          s = (if \<not> needDetached n \<or> needAttachAfter n then need ''attach/1'' ''attach'' s else s);
          s = (if needResume n then need ''resume/1'' ''resume'' s else s);
          s = (if needBoardGoal n then need ''board-goal/1'' [] s else s);
          s = (if needCredentialNode n then need ''credential-node/1'' [] s else s);
          werkstatt = (\<lambda>s. if needWerkstatt n then
            need ''stop/1'' ''stop'' (need ''status/1'' ''status'' (need ''list/1'' ''list'' (need ''labels/1'' [] (need ''admission/1'' ''cancel'' s)))) else s)
      in if needDoorbell n then (case doorbellCapability (needRuntime n) of None \<Rightarrow> None | Some c \<Rightarrow> Some (werkstatt (need c [] s)))
         else Some (werkstatt s))"

definition missingCap :: "Describe \<Rightarrow> string list \<Rightarrow> neededCaps \<Rightarrow> string option" where
  "missingCap d ops s = find (\<lambda>c. c \<notin> set (Capabilities d) \<or>
     (case map_of (snd s) c of Some oper \<Rightarrow> oper \<noteq> [] \<and> oper \<notin> set ops | None \<Rightarrow> False)) (fst s)"

definition activation :: "Needs \<Rightarrow> string \<Rightarrow> string list \<Rightarrow> hostFailure + Route" where
  "activation n route caps =
     (if route = ''delegated'' \<and> \<not> needSignedOff n then
        (if needExplicitHosted n \<or> needWerkstatt n then
           (if \<not> needTrial n then Inl (HostErr ''session_host_delegated_unauthorized'' [])
            else Inr \<lparr>routeKind = route, routeNotice = [], routeCaps = caps\<rparr>)
         else if needHostMode n = ''hosted'' then Inl (HostErr ''session_host_missing'' [(''reason'', ''no manager selected'')])
         else Inr \<lparr>routeKind = ''native'', routeNotice = ''notice-unselected'', routeCaps = caps\<rparr>)
      else Inr \<lparr>routeKind = route, routeNotice = [], routeCaps = caps\<rparr>)"

definition unsupported :: "string \<Rightarrow> hostFailure" where
  "unsupported runtime = HostErr ''session_host_provider_unsupported'' [(''environment'', runtime)]"

definition capabilityMissing :: "string \<Rightarrow> hostFailure" where
  "capabilityMissing cap = HostErr ''session_host_capability_missing'' [(''capability'', cap)]"

definition Required :: "Describe \<Rightarrow> Needs \<Rightarrow> hostFailure + Route" where
  "Required d n =
     (if needNative n \<or> (\<not> needExplicitHosted n \<and> \<not> needWerkstatt n \<and> needHostMode n = ''native'') then Inr (routeOf ''native'')
      else case map_of (Runtimes d) (needRuntime n) of
        None \<Rightarrow> Inl (unsupported (needRuntime n))
      | Some ops \<Rightarrow>
          if needRuntime n = ''muse'' \<and> \<not> museQualified d ops then Inl (unsupported (needRuntime n))
          else (case launchRoute n ops of (route, cap, oper) \<Rightarrow>
            if \<not> leaseCapable d ops (route, cap, oper) then Inl (HostErr ''session_home_lease_unavailable'' [(''reason'', ''route_not_lease_capable'')])
            else if \<not> needResume n \<and> needDoorbell n \<and> ''launch'' \<notin> set ops \<and> ''launch-exact'' \<in> set ops then
              Inl (capabilityMissing ''launch-exact-doorbell'')
            else if \<not> needResume n \<and> needDetached n \<and> ''launch'' \<notin> set ops \<and> ''launch-exact'' \<in> set ops then
              Inl (capabilityMissing ''launch-exact-detached'')
            else (case requirements n cap oper of
              None \<Rightarrow> Inl (unsupported (needRuntime n))
            | Some s \<Rightarrow> (case missingCap d ops s of
                Some c \<Rightarrow> Inl (capabilityMissing c)
              | None \<Rightarrow> activation n route (sort (fst s))))))"

section \<open>Who hosts the launch\<close>

datatype contact = OpenTerminal | CloseTerminal | ReadRegistry | Recover | CallDescribe | HostNotice string

type_synonym 'a traced = "contact list \<times> (hostFailure + 'a)"

definition tbind :: "'a traced \<Rightarrow> ('a \<Rightarrow> 'b traced) \<Rightarrow> 'b traced" where
  "tbind m f = (case snd m of Inl e \<Rightarrow> (fst m, Inl e) | Inr x \<Rightarrow> (fst m @ fst (f x), snd (f x)))"

record hostWorld =
  hwMode :: string
  hwTrial :: bool
  hwClaudeAuth :: bool
  hwProxy :: bool
  hwGatewayDefault :: bool
  hwTerminalOpens :: bool
  hwTerminalValid :: bool
  hwStdinTerminal :: bool
  hwRegistry :: "layer \<Rightarrow> fileRead \<times> string"
  hwExecutable :: "string \<Rightarrow> bool"
  hwErrorText :: "regError \<Rightarrow> string"
  hwElevate :: "string \<Rightarrow> string list \<Rightarrow> string list \<Rightarrow> string + string list \<times> resumeIntent"
  hwWorkdir :: "string + string"
  hwPhysical :: "string \<Rightarrow> string option"
  hwRecover :: "hostFailure + bool"
  hwDescribe :: "hostFailure + Describe"
  hwResumeNew :: string

record hostSelection =
  selKind :: string
  selTerminal :: bool
  selTail :: "string list"
  selIntent :: "resumeIntent option"
  selRecovered :: bool

definition nativeSelection :: hostSelection where
  "nativeSelection = \<lparr>selKind = ''native'', selTerminal = False, selTail = [], selIntent = None, selRecovered = False\<rparr>"

definition hostNotice :: "nat \<Rightarrow> string" where
  "hostNotice registered =
     (if registered = 0 then ''curator-run: no session manager registered; launching natively (curator-run session-manager list)'' @ [CHR 0x0A]
      else ''curator-run: no session manager selected ('' @ dec registered @ '' registered); launching natively (curator-run session-manager use <id>)'' @ [CHR 0x0A])"

definition hostChecks :: "hostWorld \<Rightarrow> Invocation \<Rightarrow> fragment \<Rightarrow> bool traced" where
  "hostChecks w i f =
     (if Environment f = EnvClaudeCode \<and> hwClaudeAuth w then ([], Inl (PlainErr ''selected Claude OAuth source requires native execution''))
      else if NetworkSet i \<or> GatewayRecoveryEnabled i \<or> hwProxy w \<or> hwGatewayDefault w then ([], Inl (HostErr ''network_scope_unsupported'' []))
      else if Detach i then ([], Inr False)
      else ([OpenTerminal],
        if \<not> hwTerminalOpens w \<or> \<not> hwTerminalValid w then Inl (HostErr ''session_host_terminal_required'' [])
        else if \<not> hwStdinTerminal w then Inl (HostErr ''session_host_stdin_unsupported'' [])
        else Inr True))"

definition hostNeeds :: "hostWorld \<Rightarrow> Invocation \<Rightarrow> fragment \<Rightarrow> string \<Rightarrow> resumeIntent \<Rightarrow> Needs" where
  "hostNeeds w i f mode intent =
     \<lparr>needRuntime = Environment f, needHostMode = mode, needNative = False, needExplicitHosted = (HostFlag i = HostFlagHosted),
      needWerkstatt = False, needDetached = Detach i, needResume = (intentKind intent \<noteq> hwResumeNew w), needBoardGoal = BoardGoal i,
      needCredentialNode = False, needDoorbell = (A2A i \<noteq> []), needAttachAfter = False, needTrial = hwTrial w, needSignedOff = Q1SignedOff\<rparr>"

text \<open>From the selected manager on.\<close>

definition upgradeNotice :: "string \<Rightarrow> Describe \<Rightarrow> contact list" where
  "upgradeNotice manager d =
     (if ''survives-upgrade'' \<in> set (Capabilities d) \<or> ''drains-on-upgrade'' \<in> set (Capabilities d) then []
      else [HostNotice (''curator-run: session manager '' @ manager @ '' ends hosted sessions when it is upgraded'' @ [CHR 0x0A])])"

definition negotiate :: "hostWorld \<Rightarrow> Invocation \<Rightarrow> fragment \<Rightarrow> string \<Rightarrow> nat \<Rightarrow> string \<Rightarrow> hostSelection \<Rightarrow> resumeIntent \<Rightarrow> hostSelection traced" where
  "negotiate w i f mode registered manager sel intent =
     tbind ([Recover], hwRecover w) (\<lambda>matched.
       if matched then ([], Inr (sel\<lparr>selRecovered := True\<rparr>))
       else tbind ([CallDescribe], hwDescribe w) (\<lambda>d.
         tbind ([], Required d (hostNeeds w i f mode intent)) (\<lambda>route.
           if routeKind route = ''native'' then ([HostNotice (hostNotice registered)], Inr sel)
           else (upgradeNotice manager d, Inr (sel\<lparr>selKind := routeKind route\<rparr>)))))"

definition hostedLaunch :: "hostWorld \<Rightarrow> Invocation \<Rightarrow> fragment \<Rightarrow> string \<Rightarrow> nat \<Rightarrow> string \<Rightarrow> bool \<Rightarrow> hostSelection traced" where
  "hostedLaunch w i f mode registered manager terminal =
     (let e0 = Environment f
      in if e0 \<noteq> EnvClaudeCode \<and> e0 \<noteq> EnvCodexCLI \<and> e0 \<noteq> EnvMuse then ([], Inl (unsupported e0))
         else case WrapperArgs (ResumeRequested i) (ResumeHandle i) (ResumeHandleSet i) (ResumeID i) (ResumeIDSet i) of
           Inl reason \<Rightarrow> ([], Inl (ResumeErr reason))
         | Inr wrapper \<Rightarrow> (case MapSystem e0 of
             None \<Rightarrow> ([], Inl (PlainErr (''environment '' @ [CHR 0x22] @ e0 @ [CHR 0x22] @ '' has no supported system mapping'')))
           | Some system \<Rightarrow> (case hwElevate w system wrapper (Native i) of
               Inl reason \<Rightarrow> ([], Inl (ResumeErr reason))
             | Inr (tail, intent) \<Rightarrow> (case hwWorkdir w of
                 Inl e \<Rightarrow> ([], Inl (PlainErr e))
               | Inr wd \<Rightarrow> (case hwPhysical w wd of
                   None \<Rightarrow> ([], Inl (HostErr ''launch_plan_invalid'' []))
                 | Some cwd \<Rightarrow> negotiate w i f mode registered manager
                     (nativeSelection\<lparr>selTerminal := terminal, selTail := tail, selIntent := Some intent\<rparr>) intent)))))"

definition nativeAuthority :: "hostWorld \<Rightarrow> Invocation \<Rightarrow> bool" where
  "nativeAuthority w i \<longleftrightarrow> ExplicitNative (HostFlag i) \<or> (HostFlag i = [] \<and> hwMode w = ''native'')"

definition explicitHost :: "hostWorld \<Rightarrow> Invocation \<Rightarrow> bool" where
  "explicitHost w i \<longleftrightarrow> HostFlag i = HostFlagHosted \<or> hwMode w = ''hosted''"

definition resolveBody :: "hostWorld \<Rightarrow> Invocation \<Rightarrow> fragment \<Rightarrow> hostSelection traced" where
  "resolveBody w i f =
     (let mode = (if hwMode w = [] then ''auto'' else hwMode w)
      in if nativeAuthority w i then ([], Inr nativeSelection)
         else tbind (if explicitHost w i then hostChecks w i f else ([], Inr False)) (\<lambda>opened.
           tbind ([ReadRegistry], case Load (hwRegistry w) of
               Inl e \<Rightarrow> Inl (RegistryErr (Code e) (hwErrorText w e)) | Inr (reg, _) \<Rightarrow> Inr reg) (\<lambda>reg.
             case SessionRegistry.Resolve reg (hwExecutable w) of
               (_, Some e) \<Rightarrow> ([], Inl (RegistryErr (Code e) (hwErrorText w e)))
             | (Some (StateSelected manager en), None) \<Rightarrow>
                 tbind (if explicitHost w i then ([], Inr opened) else hostChecks w i f) (\<lambda>terminal.
                   hostedLaunch w i f mode (length (Managers reg)) manager terminal)
             | (st, None) \<Rightarrow>
                 if explicitHost w i then
                   ([], Inl (HostErr ''session_host_missing'' [(''reason'', if st = Some StateEmpty then ''no manager registered'' else ''no manager selected'')]))
                 else ([HostNotice (hostNotice (length (Managers reg)))], Inr nativeSelection))))"

text \<open>The deferred function: a refusal closes the terminal the checks opened.\<close>

definition resolveHost :: "hostWorld \<Rightarrow> Invocation \<Rightarrow> fragment \<Rightarrow> hostSelection traced" where
  "resolveHost w i f = (case resolveBody w i f of
     (cs, Inl e) \<Rightarrow> (cs @ (if OpenTerminal \<in> set cs \<and> hwTerminalOpens w then [CloseTerminal] else []), Inl e)
   | (cs, Inr sel) \<Rightarrow> (cs, Inr sel))"

end
