(* ===== verification/HostRouteProps.thy ===== *)
theory HostRouteProps
  imports HostRoute
begin

text \<open>
  A manager hosts a launch only when it advertises everything the launch needs for its runtime,
  and a launch that is bound to a host never falls back to a native one.
\<close>

section \<open>What a launch needs\<close>

definition capabilityOp :: "string \<Rightarrow> string option" where
  "capabilityOp = map_of [(''launch-delegated/1'', ''launch''), (''resume/1'', ''resume''), (''admission/1'', ''cancel''),
     (''status/1'', ''status''), (''attach/1'', ''attach''), (''list/1'', ''list''), (''stop/1'', ''stop'')]"

definition wantedCaps :: "Needs \<Rightarrow> string set" where
  "wantedCaps n = {if needResume n then ''resume/1'' else ''launch-delegated/1'', ''admission/1'', ''status/1''} \<union>
     (if \<not> needDetached n \<or> needAttachAfter n then {''attach/1''} else {}) \<union>
     (if needBoardGoal n then {''board-goal/1''} else {}) \<union>
     (if needCredentialNode n then {''credential-node/1''} else {}) \<union>
     (if needDoorbell n then set_option (doorbellCapability (needRuntime n)) else {}) \<union>
     (if needWerkstatt n then {''labels/1'', ''list/1'', ''stop/1''} else {})"

text \<open>The interactive route that no manager can take.\<close>

definition exactChosen :: "Needs \<Rightarrow> string list \<Rightarrow> bool" where
  "exactChosen n ops \<longleftrightarrow> \<not> needResume n \<and> \<not> needDetached n \<and> \<not> needDoorbell n \<and> ''launch-exact'' \<in> set ops"

definition serves :: "Describe \<Rightarrow> string list \<Rightarrow> Needs \<Rightarrow> bool" where
  "serves d ops n \<longleftrightarrow> \<not> exactChosen n ops \<and> (needRuntime n = ''muse'' \<longrightarrow> museQualified d ops) \<and>
     (needDoorbell n \<longrightarrow> doorbellCapability (needRuntime n) \<noteq> None) \<and>
     (\<forall>c \<in> wantedCaps n. c \<in> set (Capabilities d) \<and> set_option (capabilityOp c) \<subseteq> set ops)"

definition nativeNeed :: "Needs \<Rightarrow> bool" where
  "nativeNeed n \<longleftrightarrow> needNative n \<or> (\<not> needExplicitHosted n \<and> \<not> needWerkstatt n \<and> needHostMode n = ''native'')"

definition tracks :: "neededCaps \<Rightarrow> bool" where
  "tracks s \<longleftrightarrow> distinct (fst s) \<and> (\<forall>c. map_of (snd s) c = (if c \<in> set (fst s) then capabilityOp c else None))"

lemma need_set [simp]: "set (fst (need c oper s)) = insert c (set (fst s))"
  by (auto simp: need_def)

lemma need_tracks:
  assumes "tracks s" "capabilityOp c = (if oper = [] then None else Some oper)"
  shows "tracks (need c oper s)"
  using assms by (auto simp: tracks_def need_def update_conv')

lemma capabilityOp_simps:
  "capabilityOp ''launch-delegated/1'' = Some ''launch''" "capabilityOp ''resume/1'' = Some ''resume''"
  "capabilityOp ''admission/1'' = Some ''cancel''" "capabilityOp ''status/1'' = Some ''status''"
  "capabilityOp ''attach/1'' = Some ''attach''" "capabilityOp ''list/1'' = Some ''list''"
  "capabilityOp ''stop/1'' = Some ''stop''" "capabilityOp ''labels/1'' = None" "capabilityOp ''board-goal/1'' = None"
  "capabilityOp ''credential-node/1'' = None" "capabilityOp ''doorbell-claude/1'' = None" "capabilityOp ''doorbell-codex/1'' = None"
  by (simp_all add: capabilityOp_def)

lemma need_steps:
  assumes "tracks s"
  shows "tracks (need ''attach/1'' ''attach'' s)" "tracks (need ''resume/1'' ''resume'' s)" "tracks (need ''board-goal/1'' [] s)"
    "tracks (need ''credential-node/1'' [] s)" "tracks (need ''admission/1'' ''cancel'' s)" "tracks (need ''labels/1'' [] s)"
    "tracks (need ''list/1'' ''list'' s)" "tracks (need ''status/1'' ''status'' s)" "tracks (need ''stop/1'' ''stop'' s)"
    "doorbellCapability r = Some c \<Longrightarrow> tracks (need c [] s)"
  using assms by (auto intro!: need_tracks simp: capabilityOp_simps doorbellCapability_def split: if_split_asm)

definition launchPair :: "Needs \<Rightarrow> string \<times> string" where
  "launchPair n = (if needResume n then (''resume/1'', ''resume'') else (''launch-delegated/1'', ''launch''))"

definition baseCaps :: "string \<times> string \<Rightarrow> neededCaps" where
  "baseCaps p = ([fst p, ''admission/1'', ''status/1''], [p, (''admission/1'', ''cancel''), (''status/1'', ''status'')])"

lemma baseCaps_tracks: "tracks (baseCaps (launchPair n))"
  by (auto simp: tracks_def baseCaps_def launchPair_def capabilityOp_simps)

lemma requirements_None: "requirements n cap oper = None \<longleftrightarrow> needDoorbell n \<and> doorbellCapability (needRuntime n) = None"
  by (simp add: requirements_def Let_def split: option.split)

lemma requirements_tracks:
  assumes "requirements n (fst (launchPair n)) (snd (launchPair n)) = Some s"
  shows "tracks s"
proof -
  have r: "requirements n (fst (launchPair n)) (snd (launchPair n)) =
    (let s = baseCaps (launchPair n);
         s = (if \<not> needDetached n \<or> needAttachAfter n then need ''attach/1'' ''attach'' s else s);
         s = (if needResume n then need ''resume/1'' ''resume'' s else s);
         s = (if needBoardGoal n then need ''board-goal/1'' [] s else s);
         s = (if needCredentialNode n then need ''credential-node/1'' [] s else s);
         werkstatt = (\<lambda>s. if needWerkstatt n then
            need ''stop/1'' ''stop'' (need ''status/1'' ''status'' (need ''list/1'' ''list'' (need ''labels/1'' [] (need ''admission/1'' ''cancel'' s)))) else s)
     in if needDoorbell n then map_option (\<lambda>c. werkstatt (need c [] s)) (doorbellCapability (needRuntime n)) else Some (werkstatt s))"
    by (simp add: requirements_def baseCaps_def Let_def map_option_case)
  show ?thesis
    using assms baseCaps_tracks [of n] unfolding r Let_def
    by (auto intro!: need_steps split: if_split_asm)
qed

lemma need_if_set: "set (fst (if b then need c oper s else s)) = set (fst s) \<union> (if b then {c} else {})"
  by simp

lemma werkstatt_set:
  assumes "a \<in> set (fst s)" "t \<in> set (fst s)"
  shows "set (fst (if b then need p p' (need t t' (need l l' (need m m' (need a a' s)))) else s)) = set (fst s) \<union> (if b then {m, l, p} else {})"
  using assms by auto

lemma requirements_set:
  assumes "requirements n (fst (launchPair n)) (snd (launchPair n)) = Some s"
  shows "set (fst s) = wantedCaps n"
proof -
  define q where "q = (let s = baseCaps (launchPair n);
         s = (if \<not> needDetached n \<or> needAttachAfter n then need ''attach/1'' ''attach'' s else s);
         s = (if needResume n then need ''resume/1'' ''resume'' s else s);
         s = (if needBoardGoal n then need ''board-goal/1'' [] s else s)
      in (if needCredentialNode n then need ''credential-node/1'' [] s else s))"
  define bell where "bell = (if needDoorbell n then set_option (doorbellCapability (needRuntime n)) else {})"
  define b where "b = (if needDoorbell n then need (the (doorbellCapability (needRuntime n))) [] q else q)"
  have q: "set (fst q) = {if needResume n then ''resume/1'' else ''launch-delegated/1'', ''admission/1'', ''status/1''} \<union>
     (if \<not> needDetached n \<or> needAttachAfter n then {''attach/1''} else {}) \<union>
     (if needBoardGoal n then {''board-goal/1''} else {}) \<union> (if needCredentialNode n then {''credential-node/1''} else {})"
    unfolding q_def Let_def need_if_set baseCaps_def launchPair_def by (cases "needResume n") simp_all
  have members: "''admission/1'' \<in> set (fst b)" "''status/1'' \<in> set (fst b)"
    unfolding b_def by (simp_all add: q)
  have some: "needDoorbell n \<Longrightarrow> \<exists>c. doorbellCapability (needRuntime n) = Some c"
    using assms requirements_None [of n "fst (launchPair n)" "snd (launchPair n)"] by auto
  have s: "s = (if needWerkstatt n then
            need ''stop/1'' ''stop'' (need ''status/1'' ''status'' (need ''list/1'' ''list'' (need ''labels/1'' [] (need ''admission/1'' ''cancel'' b)))) else b)"
    using assms some unfolding requirements_def b_def q_def baseCaps_def Let_def prod.collapse
    by (cases "needDoorbell n") auto
  have b: "set (fst b) = set (fst q) \<union> bell"
    unfolding b_def bell_def using some by auto
  show ?thesis
    unfolding s werkstatt_set [OF members] b q wantedCaps_def bell_def by (simp only: Un_assoc)
qed

lemma missingCap_None:
  assumes "requirements n (fst (launchPair n)) (snd (launchPair n)) = Some s"
  shows "missingCap d ops s = None \<longleftrightarrow> (\<forall>c \<in> wantedCaps n. c \<in> set (Capabilities d) \<and> set_option (capabilityOp c) \<subseteq> set ops)"
proof -
  have "map_of (snd s) c = capabilityOp c" if "c \<in> wantedCaps n" for c
    using requirements_tracks [OF assms] requirements_set [OF assms] that by (simp add: tracks_def)
  moreover have "capabilityOp c \<noteq> Some []" for c
    by (auto simp: capabilityOp_def dest!: map_of_SomeD)
  ultimately show ?thesis
    unfolding missingCap_def find_None_iff requirements_set [OF assms, symmetric]
    by (auto split: option.split_asm) (metis option.inject)
qed

lemma launchRoute_cases:
  "launchRoute n ops = (if exactChosen n ops then (''exact'', ''launch-exact/2'', ''launch-exact'') else (''delegated'', launchPair n))"
  by (simp add: launchRoute_def exactChosen_def launchPair_def)

lemma serves_lease:
  assumes "serves d ops n"
  shows "leaseCapable d ops (''delegated'', launchPair n)"
proof -
  have w: "fst (launchPair n) \<in> wantedCaps n" "''admission/1'' \<in> wantedCaps n" "''status/1'' \<in> wantedCaps n"
    by (simp_all add: wantedCaps_def launchPair_def)
  have "capabilityOp (fst (launchPair n)) = Some (snd (launchPair n))"
    by (simp add: launchPair_def capabilityOp_simps)
  then show ?thesis
    using assms w unfolding serves_def leaseCapable_def
    by (cases "launchPair n") (auto simp: capabilityOp_simps)
qed

text \<open>The two refusals of an exact route the lease check leaves unreachable.\<close>

lemma leaseCapable_launch:
  assumes "leaseCapable d ops (route, launchPair n)" "\<not> needResume n"
  shows "''launch'' \<in> set ops"
  using assms by (simp add: leaseCapable_def launchPair_def)

lemma Required_signed:
  assumes "needSignedOff n" "\<not> nativeNeed n" "map_of (Runtimes d) (needRuntime n) = Some ops"
  shows "Required d n =
    (if needRuntime n = ''muse'' \<and> \<not> museQualified d ops then Inl (unsupported (needRuntime n))
     else if exactChosen n ops \<or> \<not> leaseCapable d ops (''delegated'', launchPair n) then
       Inl (HostErr ''session_home_lease_unavailable'' [(''reason'', ''route_not_lease_capable'')])
     else case requirements n (fst (launchPair n)) (snd (launchPair n)) of
       None \<Rightarrow> Inl (unsupported (needRuntime n))
     | Some s \<Rightarrow> (case missingCap d ops s of Some c \<Rightarrow> Inl (capabilityMissing c)
        | None \<Rightarrow> Inr \<lparr>routeKind = ''delegated'', routeNotice = [], routeCaps = sort (fst s)\<rparr>))"
proof -
  obtain cap oper where p: "launchPair n = (cap, oper)"
    by (cases "launchPair n")
  have e: "\<not> leaseCapable d ops (''exact'', r)" for r
    by (cases r) (simp add: leaseCapable_def)
  have l: "leaseCapable d ops (''delegated'', cap, oper) \<Longrightarrow> \<not> needResume n \<Longrightarrow> ''launch'' \<in> set ops"
    using leaseCapable_launch [of d ops "''delegated''" n] p by simp
  have start: "Required d n =
    (if needRuntime n = ''muse'' \<and> \<not> museQualified d ops then Inl (unsupported (needRuntime n))
     else case launchRoute n ops of (route, cap, oper) \<Rightarrow>
            if \<not> leaseCapable d ops (route, cap, oper) then Inl (HostErr ''session_home_lease_unavailable'' [(''reason'', ''route_not_lease_capable'')])
            else if \<not> needResume n \<and> needDoorbell n \<and> ''launch'' \<notin> set ops \<and> ''launch-exact'' \<in> set ops then
              Inl (capabilityMissing ''launch-exact-doorbell'')
            else if \<not> needResume n \<and> needDetached n \<and> ''launch'' \<notin> set ops \<and> ''launch-exact'' \<in> set ops then
              Inl (capabilityMissing ''launch-exact-detached'')
            else (case requirements n cap oper of
              None \<Rightarrow> Inl (unsupported (needRuntime n))
            | Some s \<Rightarrow> (case missingCap d ops s of
                Some c \<Rightarrow> Inl (capabilityMissing c)
              | None \<Rightarrow> activation n route (sort (fst s)))))"
    using assms(2) unfolding Required_def assms(3) option.case nativeNeed_def [symmetric] by simp
  show ?thesis
  proof (cases "exactChosen n ops \<or> \<not> leaseCapable d ops (''delegated'', cap, oper)")
    case True
    then show ?thesis
      using e unfolding start launchRoute_cases p by (cases "exactChosen n ops") simp_all
  next
    case False
    then show ?thesis
      using assms(1) l unfolding start launchRoute_cases p
      by (cases "needResume n") (simp_all add: activation_def split: option.split)
  qed
qed

lemma Required_native: "nativeNeed n \<Longrightarrow> Required d n = Inr (routeOf ''native'')"
  by (simp add: Required_def nativeNeed_def)

lemma Required_iff:
  assumes "needSignedOff n" "\<not> nativeNeed n"
  shows "Required d n = Inr r \<longleftrightarrow>
    routeKind r = ''delegated'' \<and> routeNotice r = [] \<and> sorted (routeCaps r) \<and> distinct (routeCaps r) \<and> set (routeCaps r) = wantedCaps n \<and>
    (\<exists>ops. map_of (Runtimes d) (needRuntime n) = Some ops \<and> serves d ops n)"
    (is "?l \<longleftrightarrow> ?r")
proof
  assume l: ?l
  then obtain ops where o: "map_of (Runtimes d) (needRuntime n) = Some ops"
    using assms(2) by (auto simp: Required_def nativeNeed_def split: option.split_asm if_split_asm)
  then obtain s where s: "requirements n (fst (launchPair n)) (snd (launchPair n)) = Some s" "missingCap d ops s = None"
    "r = \<lparr>routeKind = ''delegated'', routeNotice = [], routeCaps = sort (fst s)\<rparr>" "\<not> exactChosen n ops"
    "needRuntime n = ''muse'' \<longrightarrow> museQualified d ops"
    using l Required_signed [OF assms o] by (auto split: if_split_asm option.split_asm)
  moreover have "serves d ops n"
    using s missingCap_None [OF s(1), of d ops] requirements_None [of n "fst (launchPair n)" "snd (launchPair n)"]
    by (auto simp: serves_def)
  ultimately show ?r
    using o requirements_tracks [OF s(1)] requirements_set [OF s(1)] by (simp add: tracks_def)
next
  assume r: ?r
  then obtain ops where o: "map_of (Runtimes d) (needRuntime n) = Some ops" "serves d ops n"
    by blast
  obtain s where s: "requirements n (fst (launchPair n)) (snd (launchPair n)) = Some s"
    using o(2) requirements_None [of n "fst (launchPair n)" "snd (launchPair n)"]
    by (cases "requirements n (fst (launchPair n)) (snd (launchPair n))") (auto simp: serves_def)
  have "Required d n = Inr \<lparr>routeKind = ''delegated'', routeNotice = [], routeCaps = sort (fst s)\<rparr>"
    using o s missingCap_None [OF s, of d ops] serves_lease [OF o(2)] unfolding Required_signed [OF assms o(1)]
    by (simp add: serves_def)
  moreover have "routeCaps r = sort (fst s)"
    using r requirements_set [OF s] requirements_tracks [OF s]
    by (intro sorted_distinct_set_unique) (simp_all add: tracks_def)
  ultimately show ?l
    using r by (cases r) simp
qed

section \<open>Who hosts a launch\<close>

definition carriable :: "hostWorld \<Rightarrow> Invocation \<Rightarrow> fragment \<Rightarrow> bool" where
  "carriable w i f \<longleftrightarrow> \<not> (Environment f = EnvClaudeCode \<and> hwClaudeAuth w) \<and> \<not> NetworkSet i \<and> \<not> GatewayRecoveryEnabled i \<and>
     \<not> hwProxy w \<and> \<not> hwGatewayDefault w \<and> (\<not> Detach i \<longrightarrow> hwTerminalOpens w \<and> hwTerminalValid w \<and> hwStdinTerminal w)"

definition registeredState :: "hostWorld \<Rightarrow> state option \<Rightarrow> bool" where
  "registeredState w st \<longleftrightarrow> (\<exists>reg path. Load (hwRegistry w) = Inr (reg, path) \<and> SessionRegistry.Resolve reg (hwExecutable w) = (st, None))"

definition hostable :: "hostWorld \<Rightarrow> Invocation \<Rightarrow> fragment \<Rightarrow> bool" where
  "hostable w i f \<longleftrightarrow> \<not> nativeAuthority w i \<and> carriable w i f \<and> Environment f \<in> {EnvClaudeCode, EnvCodexCLI, EnvMuse} \<and>
     (\<exists>manager en. registeredState w (Some (StateSelected manager en)))"

fun contactRank :: "bool \<Rightarrow> contact \<Rightarrow> nat" where
  "contactRank explicit OpenTerminal = (if explicit then 0 else 2)"
| "contactRank explicit ReadRegistry = 1"
| "contactRank explicit Recover = 3"
| "contactRank explicit CallDescribe = 4"
| "contactRank explicit (HostNotice t) = 5"
| "contactRank explicit CloseTerminal = 6"

definition inOrder :: "bool \<Rightarrow> contact list \<Rightarrow> bool" where
  "inOrder explicit cs \<longleftrightarrow> sorted_wrt (\<lambda>a b. contactRank explicit a < contactRank explicit b) cs"

definition modeOf :: "hostWorld \<Rightarrow> string" where
  "modeOf w = (if hwMode w = [] then ''auto'' else hwMode w)"

definition hostedBy :: "hostWorld \<Rightarrow> Invocation \<Rightarrow> fragment \<Rightarrow> resumeIntent \<Rightarrow> bool" where
  "hostedBy w i f intent \<longleftrightarrow> hwRecover w = Inr False \<and> (\<exists>d ops. hwDescribe w = Inr d \<and> map_of (Runtimes d) (Environment f) = Some ops \<and>
     serves d ops (hostNeeds w i f (modeOf w) intent))"

lemma tbind_Inr: "tbind m g = (cs, Inr y) \<longleftrightarrow> (\<exists>xs x ys. m = (xs, Inr x) \<and> g x = (ys, Inr y) \<and> cs = xs @ ys)"
  by (cases m; cases "snd m") (auto simp: tbind_def prod_eq_iff)

lemma tbind_Inl: "tbind m g = (cs, Inl e) \<longleftrightarrow> m = (cs, Inl e) \<or> (\<exists>xs x ys. m = (xs, Inr x) \<and> g x = (ys, Inl e) \<and> cs = xs @ ys)"
  by (cases m; cases "snd m") (auto simp: tbind_def prod_eq_iff)

lemma hostChecks_Inr: "hostChecks w i f = (cs, Inr b) \<Longrightarrow> carriable w i f \<and> cs = (if Detach i then [] else [OpenTerminal])"
  by (auto simp: hostChecks_def carriable_def split: if_split_asm)

lemma hostChecks_fst: "hostChecks w i f = (cs, r) \<Longrightarrow> cs \<in> {[], [OpenTerminal]}"
  by (auto simp: hostChecks_def split: if_split_asm)

lemma negotiate_fst: "negotiate w i f mode n manager sel intent = (cs, r) \<Longrightarrow>
  cs \<in> {[Recover], [Recover, CallDescribe]} \<or> (\<exists>t. cs = [Recover, CallDescribe, HostNotice t])"
  by (auto simp: negotiate_def tbind_def upgradeNotice_def split: sum.split_asm if_split_asm)

lemma negotiate_Inr:
  assumes "negotiate w i f mode n manager sel intent = (cs, Inr s)"
  shows "hwRecover w = Inr True \<and> s = sel\<lparr>selRecovered := True\<rparr> \<or>
    hwRecover w = Inr False \<and> (\<exists>d r. hwDescribe w = Inr d \<and> Required d (hostNeeds w i f mode intent) = Inr r \<and>
      s = (if routeKind r = ''native'' then sel else sel\<lparr>selKind := routeKind r\<rparr>))"
  using assms by (auto simp: negotiate_def tbind_Inr split: if_split_asm)

lemma hostedLaunch_fst:
  assumes "hostedLaunch w i f mode n manager t = (cs, r)"
  shows "cs = [] \<or> cs \<in> {[Recover], [Recover, CallDescribe]} \<or> (\<exists>t. cs = [Recover, CallDescribe, HostNotice t])"
  using assms by (auto simp: hostedLaunch_def Let_def split: if_split_asm sum.split_asm option.split_asm dest!: negotiate_fst)

lemma hostedLaunch_env:
  "hostedLaunch w i f mode n manager t = (cs, r) \<Longrightarrow> cs \<noteq> [] \<Longrightarrow> Environment f \<in> {EnvClaudeCode, EnvCodexCLI, EnvMuse}"
  by (auto simp: hostedLaunch_def Let_def split: if_split_asm)

lemma hostedLaunch_Inr:
  assumes "hostedLaunch w i f mode n manager t = (cs, Inr s)"
  obtains tail intent where "negotiate w i f mode n manager
    (nativeSelection\<lparr>selTerminal := t, selTail := tail, selIntent := Some intent\<rparr>) intent = (cs, Inr s)"
  using assms by (auto simp: hostedLaunch_def Let_def split: if_split_asm sum.split_asm option.split_asm)

definition afterRegistry :: "hostWorld \<Rightarrow> Invocation \<Rightarrow> fragment \<Rightarrow> contact list \<Rightarrow> hostFailure + hostSelection \<Rightarrow> bool" where
  "afterRegistry w i f cs r \<longleftrightarrow>
     cs = [] \<and> (\<exists>e. r = Inl e) \<or>
     \<not> explicitHost w i \<and> (\<exists>st. registeredState w st \<and> (\<forall>m en. st \<noteq> Some (StateSelected m en))) \<and>
       (\<exists>t. cs = [HostNotice t]) \<and> r = Inr nativeSelection \<or>
     \<not> explicitHost w i \<and> (\<exists>e. hostChecks w i f = (cs, Inl e) \<and> r = Inl e) \<or>
     (\<exists>manager en c2 rest n t. registeredState w (Some (StateSelected manager en)) \<and>
       (if explicitHost w i then c2 = [] else \<exists>b. hostChecks w i f = (c2, Inr b)) \<and>
       cs = c2 @ rest \<and> hostedLaunch w i f (modeOf w) n manager t = (rest, r))"

lemma resolveBody_split:
  assumes "resolveBody w i f = (cs, r)" "\<not> nativeAuthority w i"
  shows "explicitHost w i \<and> (\<exists>e. hostChecks w i f = (cs, Inl e) \<and> r = Inl e) \<or>
    (\<exists>c1 rest. cs = c1 @ ReadRegistry # rest \<and>
      (if explicitHost w i then \<exists>b. hostChecks w i f = (c1, Inr b) else c1 = []) \<and> afterRegistry w i f rest r)"
proof -
  define k where "k = (\<lambda>opened reg. case SessionRegistry.Resolve reg (hwExecutable w) of
               (_, Some e) \<Rightarrow> ([], Inl (RegistryErr (Code e) (hwErrorText w e)))
             | (Some (StateSelected manager en), None) \<Rightarrow>
                 tbind (if explicitHost w i then ([], Inr opened) else hostChecks w i f) (\<lambda>terminal.
                   hostedLaunch w i f (modeOf w) (length (Managers reg)) manager terminal)
             | (st, None) \<Rightarrow>
                 if explicitHost w i then
                   ([], Inl (HostErr ''session_host_missing'' [(''reason'', if st = Some StateEmpty then ''no manager registered'' else ''no manager selected'')]))
                 else ([HostNotice (hostNotice (length (Managers reg)))], Inr nativeSelection))"
  have k: "afterRegistry w i f rest r" if "k opened reg = (rest, r)" "Load (hwRegistry w) = Inr (reg, path)" for opened reg rest path r
  proof (cases "SessionRegistry.Resolve reg (hwExecutable w)")
    case (Pair st e)
    show ?thesis
    proof (cases "e = None \<and> (\<exists>m en. st = Some (StateSelected m en))")
      case False
      then show ?thesis
        using that Pair unfolding k_def afterRegistry_def registeredState_def
        by (cases e; cases st; cases "the st"; cases "explicitHost w i") (auto simp: Pair)
    next
      case True
      then obtain m en where st: "st = Some (StateSelected m en)" "e = None" by blast
      then have reg: "registeredState w (Some (StateSelected m en))"
        using that(2) Pair unfolding registeredState_def by blast
      have "tbind (if explicitHost w i then ([], Inr opened) else hostChecks w i f) (\<lambda>terminal.
                   hostedLaunch w i f (modeOf w) (length (Managers reg)) m terminal) = (rest, r)"
        using that(1) Pair st unfolding k_def by simp
      then show ?thesis
        using reg unfolding afterRegistry_def
        by (cases r; cases "explicitHost w i") (fastforce simp: tbind_Inr tbind_Inl)+
    qed
  qed
  have b: "tbind (if explicitHost w i then hostChecks w i f else ([], Inr False)) (\<lambda>opened.
      tbind ([ReadRegistry], case Load (hwRegistry w) of
               Inl e \<Rightarrow> Inl (RegistryErr (Code e) (hwErrorText w e)) | Inr (reg, _) \<Rightarrow> Inr reg) (k opened)) = (cs, r)"
    using assms unfolding resolveBody_def k_def modeOf_def [symmetric] by (simp add: Let_def)
  have a: "afterRegistry w i f [] (Inl e)" for e
    unfolding afterRegistry_def by simp
  have k': "afterRegistry w i f (fst (k opened reg)) (snd (k opened reg))" if "Load (hwRegistry w) = Inr (reg, path)" for opened reg path
    using k [OF prod.collapse [symmetric]] that by blast
  show ?thesis
  proof (cases "explicitHost w i")
    case True
    then show ?thesis
      using b by (cases "hostChecks w i f"; cases "snd (hostChecks w i f)"; cases "Load (hwRegistry w)")
        (auto simp: tbind_def a intro: k')
  next
    case False
    show ?thesis
    proof (cases "Load (hwRegistry w)")
      case (Inr p)
      then show ?thesis
        using False b k' [of "fst p" "snd p" False] by (cases p) (auto simp: tbind_def)
    qed (use False b a in \<open>auto simp: tbind_def\<close>)
  qed
qed

lemma hostedLaunch_order:
  assumes "hostedLaunch w i f mode n manager t = (cs, r)"
  shows "inOrder False (ReadRegistry # cs)" "inOrder False (ReadRegistry # OpenTerminal # cs)"
    "inOrder True (ReadRegistry # cs)" "inOrder True (OpenTerminal # ReadRegistry # cs)" "CloseTerminal \<notin> set cs"
  using hostedLaunch_fst [OF assms] unfolding inOrder_def by auto

lemma resolveBody_order:
  assumes "resolveBody w i f = (cs, r)"
  shows "inOrder (explicitHost w i) cs \<and> CloseTerminal \<notin> set cs"
proof (cases "nativeAuthority w i")
  case True
  then show ?thesis
    using assms by (simp add: resolveBody_def inOrder_def)
next
  case False
  from resolveBody_split [OF assms this] show ?thesis
    unfolding afterRegistry_def
    by (cases "explicitHost w i") (auto simp: inOrder_def dest!: hostChecks_fst dest: hostedLaunch_fst)
qed

lemma hostChecks_local: "hostChecks w i f = (cs, r) \<Longrightarrow> Recover \<notin> set cs \<and> CallDescribe \<notin> set cs"
  by (auto dest: hostChecks_fst)

lemma hostable_contacts:
  assumes "hostedLaunch w i f mode n manager t = (rest, r)" "Recover \<in> set rest \<or> CallDescribe \<in> set rest"
    "hostChecks w i f = (c1, Inr b)" "registeredState w (Some (StateSelected manager en))" "\<not> nativeAuthority w i"
  shows "hostable w i f"
proof -
  have "rest \<noteq> []"
    using assms(2) by auto
  then show ?thesis
    using assms(4,5) hostChecks_Inr [OF assms(3)] hostedLaunch_env [OF assms(1)] unfolding hostable_def by blast
qed

lemma resolveBody_contacted:
  assumes "resolveBody w i f = (cs, r)" "Recover \<in> set cs \<or> CallDescribe \<in> set cs"
  shows "hostable w i f"
proof -
  have n: "\<not> nativeAuthority w i"
    using assms by (auto simp: resolveBody_def)
  from resolveBody_split [OF assms(1) n] show ?thesis
    using assms(2) n hostable_contacts unfolding afterRegistry_def
    by (cases "explicitHost w i") (fastforce dest: hostChecks_local)+
qed

lemma resolveBody_Inr:
  assumes "resolveBody w i f = (cs, Inr s)" "\<not> nativeAuthority w i"
  obtains (unselected) st where "\<not> explicitHost w i" "registeredState w st" "\<forall>m en. st \<noteq> Some (StateSelected m en)" "s = nativeSelection"
  | (selected) n manager t tail intent xs where "negotiate w i f (modeOf w) n manager
      (nativeSelection\<lparr>selTerminal := t, selTail := tail, selIntent := Some intent\<rparr>) intent = (xs, Inr s)" "hostable w i f"
proof -
  have h: "hostable w i f" if "negotiate w i f m n manager sel intent = (xs, Inr s)" "set xs \<subseteq> set cs" for m n manager sel intent xs
    using resolveBody_contacted [OF assms(1)] negotiate_fst [OF that(1)] that(2) by auto
  show thesis
    using resolveBody_split [OF assms] selected h unselected unfolding afterRegistry_def
    by (cases "explicitHost w i") (fastforce elim!: hostedLaunch_Inr)+
qed

lemma selected_kind:
  assumes "negotiate w i f (modeOf w) n manager (nativeSelection\<lparr>selTerminal := t, selTail := tail, selIntent := Some intent\<rparr>) intent = (xs, Inr s)"
    "\<not> nativeAuthority w i" "HostFlag i \<in> {[], HostFlagHosted, HostFlagNative, HostFlagUntracked}"
  shows "selRecovered s \<and> hwRecover w = Inr True \<or> \<not> selRecovered s \<and> selKind s = ''delegated'' \<and> selIntent s = Some intent \<and> hostedBy w i f intent"
proof -
  have signed: "needSignedOff (hostNeeds w i f (modeOf w) intent)" "needRuntime (hostNeeds w i f (modeOf w) intent) = Environment f"
    by (simp_all add: hostNeeds_def Q1SignedOff_def)
  have "\<not> nativeNeed (hostNeeds w i f (modeOf w) intent)"
    using assms(2,3) by (auto simp: nativeNeed_def hostNeeds_def nativeAuthority_def ExplicitNative_def modeOf_def split: if_split_asm)
  note iff = Required_iff [OF signed(1) this, unfolded signed(2)]
  show ?thesis
    using negotiate_Inr [OF assms(1)] by (auto simp: iff hostedBy_def nativeSelection_def)
qed

lemma rank_last: "c \<noteq> CloseTerminal \<Longrightarrow> contactRank e c < contactRank e CloseTerminal"
  by (cases c) simp_all

text \<open>C10. A launch reaches the manager only when it may be hosted at all: no native authority, no
  network binding, no Claude authorization, a terminal unless detached, and a registered,
  selected, executable manager. The contacts come in one order, the native authority makes none,
  a result is native only by that authority or with no selected manager, a hosted result is
  delegated to a manager that serves every need of the launch, and a refusal closes the terminal
  it opened.\<close>

theorem host_resolution:
  assumes "resolveHost w i f = (cs, res)" "HostFlag i \<in> {[], HostFlagHosted, HostFlagNative, HostFlagUntracked}"
  shows "inOrder (explicitHost w i) cs \<and>
    (nativeAuthority w i \<longrightarrow> cs = [] \<and> res = Inr nativeSelection) \<and>
    (Recover \<in> set cs \<or> CallDescribe \<in> set cs \<longrightarrow> hostable w i f) \<and>
    (CloseTerminal \<in> set cs \<longleftrightarrow> isl res \<and> OpenTerminal \<in> set cs \<and> hwTerminalOpens w) \<and>
    (\<forall>s. res = Inr s \<longrightarrow>
       (selRecovered s \<and> hostable w i f \<and> hwRecover w = Inr True) \<or>
       (selKind s = ''native'' \<and> (nativeAuthority w i \<or>
          \<not> explicitHost w i \<and> (\<exists>st. registeredState w st \<and> (\<forall>m en. st \<noteq> Some (StateSelected m en))))) \<or>
       (selKind s = ''delegated'' \<and> hostable w i f \<and> (\<exists>intent. selIntent s = Some intent \<and> hostedBy w i f intent)))"
proof (cases "nativeAuthority w i")
  case True
  then have "cs = []" "res = Inr nativeSelection"
    using assms(1) by (simp_all add: resolveHost_def resolveBody_def)
  then show ?thesis
    using True by (simp add: inOrder_def nativeSelection_def)
next
  case False
  obtain bs where b: "resolveBody w i f = (bs, res)" "cs = bs @ (if isl res \<and> OpenTerminal \<in> set bs \<and> hwTerminalOpens w then [CloseTerminal] else [])"
    using assms(1) by (cases "resolveBody w i f"; cases "snd (resolveBody w i f)") (auto simp: resolveHost_def split: if_split_asm)
  have o: "inOrder (explicitHost w i) bs" "CloseTerminal \<notin> set bs"
    using resolveBody_order [OF b(1)] by simp_all
  have "inOrder (explicitHost w i) (bs @ [CloseTerminal])"
    using o rank_last unfolding inOrder_def sorted_wrt_append by auto metis
  then have order: "inOrder (explicitHost w i) cs"
    using o b(2) by simp
  have result: "(selRecovered s \<and> hostable w i f \<and> hwRecover w = Inr True) \<or>
       (selKind s = ''native'' \<and> \<not> explicitHost w i \<and> (\<exists>st. registeredState w st \<and> (\<forall>m en. st \<noteq> Some (StateSelected m en)))) \<or>
       (selKind s = ''delegated'' \<and> hostable w i f \<and> (\<exists>intent. selIntent s = Some intent \<and> hostedBy w i f intent))" if "res = Inr s" for s
    using b(1) [unfolded that] False
  proof (cases rule: resolveBody_Inr)
    case unselected
    then show ?thesis
      by (auto simp: nativeSelection_def)
  next
    case selected
    then show ?thesis
      using selected_kind [OF selected(1) False assms(2)] by blast
  qed
  show ?thesis
    using False order o(2) b(2) resolveBody_contacted [OF b(1)] result by auto
qed

text \<open>A registered manager that serves Codex.\<close>

definition sampleHostRegistry :: string where
  "sampleHostRegistry = ''{\"schema\":\"curator-run-session-managers-v1\",\"managers\":{\"m1\":{\"executable\":\"/m\",\"argv_prefix\":[],\"protocol\":\"curator-session-manager/1\",\"registered_at\":\"2026-01-02T03:04:05Z\",\"registered_by\":\"me\"}},\"selected\":\"m1\"}''"

definition sampleHostWorld :: hostWorld where
  "sampleHostWorld = \<lparr>hwMode = [], hwTrial = False, hwClaudeAuth = False, hwProxy = False, hwGatewayDefault = False,
     hwTerminalOpens = True, hwTerminalValid = True, hwStdinTerminal = True,
     hwRegistry = (\<lambda>ly. (\<lparr>data = sampleHostRegistry, present = True, readErr = None\<rparr>, ''/u/session-managers.json'')),
     hwExecutable = (\<lambda>p. p = ''/m''), hwErrorText = Code,
     hwElevate = (\<lambda>system wrapper tail. Inr (tail, \<lparr>intentKind = ''new'', intentIdentity = None\<rparr>)),
     hwWorkdir = Inr ''/w'', hwPhysical = Some, hwRecover = Inr False,
     hwDescribe = Inr \<lparr>Capabilities = [''admission/1'', ''attach/1'', ''launch-delegated/1'', ''status/1''],
       Runtimes = [(EnvCodexCLI, [''launch'', ''attach'', ''status'', ''cancel''])]\<rparr>, hwResumeNew = ''new''\<rparr>"

definition sampleHostFragment :: fragment where
  "sampleHostFragment = \<lparr>Revision = IdentityV4, Environment = EnvCodexCLI,
     Profile = \<lparr>profName = ''default'', profLockSHA256 = []\<rparr>,
     Precedence = \<lparr>precWinner = ''managed'', precPlacement = ''append''\<rparr>, Permissions = None, RootContext = None,
     CredentialStore = None, Env = [], SystemPrompt = None, MCP = None, PathPrepend = [], fCanonical = [], fDigest = []\<rparr>"

lemma sample_host:
  "map_sum id selKind (snd (resolveHost sampleHostWorld noInvocation sampleHostFragment)) = Inr ''delegated''"
  "fst (resolveHost sampleHostWorld noInvocation sampleHostFragment) =
     [ReadRegistry, OpenTerminal, Recover, CallDescribe,
      HostNotice (''curator-run: session manager m1 ends hosted sessions when it is upgraded'' @ [CHR 0x0A])]"
  by code_simp+

theorem host_resolution_witness:
  "\<exists>cs s. resolveHost sampleHostWorld noInvocation sampleHostFragment = (cs, Inr s) \<and> selKind s = ''delegated'' \<and>
     hostable sampleHostWorld noInvocation sampleHostFragment \<and>
     (\<exists>intent. hostedBy sampleHostWorld noInvocation sampleHostFragment intent)"
proof -
  obtain cs r where r: "resolveHost sampleHostWorld noInvocation sampleHostFragment = (cs, r)"
    by (cases "resolveHost sampleHostWorld noInvocation sampleHostFragment") blast
  obtain s where s: "r = Inr s" "selKind s = ''delegated''"
    using sample_host(1) unfolding r by (cases r) auto
  have "HostFlag noInvocation \<in> {[], HostFlagHosted, HostFlagNative, HostFlagUntracked}"
    by (simp add: noInvocation_def)
  note h = host_resolution [OF r this]
  have "Recover \<in> set cs" "hwRecover sampleHostWorld \<noteq> Inr True"
    using sample_host(2) unfolding r by (simp_all add: sampleHostWorld_def)
  then show ?thesis
    using h r s by auto
qed

end
