(* ===== verification/FrontLaunch.thy ===== *)
theory FrontLaunch
  imports HostRoute LaunchPlan Execution SystemPrompt
begin

text \<open>
  \<open>launch\<close> and \<open>runNative\<close> of \<open>cmd/curator-run/main.go\<close>, with the lease owner of \<open>lease_owner.go\<close>: the
  composition of host resolution, permission, plan, prompt, network, composed value and native
  run. A step is the list of the acts it makes, in order, with either the exit status it ends the
  launcher with or the value the next step takes; the status is \<open>None\<close> while a child still runs.
  Network preparation, delegation and the functions of the modules are fields of \<open>launchWorld\<close>;
  an error that only reaches a line is its text.
\<close>

section \<open>Acts\<close>

datatype act =
  Out string | Err string
| CheckRemovedAX | ReadPolicy | ReadSelection | ReadSelectorConfig | RunCurator | ReadDefaults | AskSelector
| ReadGatewayDefault | HostContact contact | ModuleCall moduleCall
| SnapshotArtifact | PrepareNetwork | HoldLease | StartShadow | ObserveShadow | Delegate | ExactLaunch
| Child event | FinishLease | Administer string

type_synonym 'a fronted = "act list \<times> (int option + 'a)"

definition fbind :: "'a fronted \<Rightarrow> ('a \<Rightarrow> 'b fronted) \<Rightarrow> 'b fronted" where
  "fbind m g = (case snd m of Inl st \<Rightarrow> (fst m, Inl st) | Inr x \<Rightarrow> (fst m @ fst (g x), snd (g x)))"

definition stop :: "string \<times> nat \<Rightarrow> 'a fronted" where
  "stop l = ([Err (fst l)], Inl (Some (int (snd l))))"

definition go :: "act list \<Rightarrow> unit fronted" where
  "go as = (as, Inr ())"

definition refuseIf :: "bool \<Rightarrow> string \<times> nat \<Rightarrow> unit fronted" where
  "refuseIf b l = (if b then stop l else go [])"

text \<open>\<open>diagnostics.Emit\<close> of a code and a detail, as it is.\<close>

definition emit :: "string \<Rightarrow> string \<Rightarrow> string \<times> nat" where
  "emit code detail = (DiagnosticLine code detail, ExitForCode code)"

datatype netFailure = NetRefusal string string | NetPlain string

fun emitNetworkFailure :: "netFailure \<Rightarrow> string \<times> nat" where
  "emitNetworkFailure (NetRefusal code detail) = emit code detail"
| "emitNetworkFailure (NetPlain msg) = emitFailure ''plan_refused'' msg"

section \<open>The world of a launch\<close>

record netRequest =
  nrExplicit :: string
  nrExplicitSet :: bool
  nrLauncherProfile :: string
  nrDefaultGateway :: bool
  nrRecovery :: bool
  nrHosted :: bool
  nrHarness :: string
  nrEntrypoint :: string
  nrArtifact :: bool
  nrMode :: string
  nrPin :: string
  nrKnownBad :: string
  nrFragEnv :: strmap
  nrPromptEnv :: strmap
  nrMCPEnvNames :: "string list"
  nrProjectRoot :: string
  nrChildEnv :: "string list"
  nrNative :: "string list"

record Prepared =
  prPatch :: patch
  prLease :: bool
  prCheckComposed :: "string list \<Rightarrow> strmap \<Rightarrow> string list \<Rightarrow> netFailure option"
  prProvenanceFails :: bool
  prRecord :: "string option"
  prRecheck :: "string option option"

text \<open>What the sentinels of agents-management say of an error of a build.\<close>

record buildSentinels =
  bsModeUnsupported :: bool
  bsPolicyUnknown :: bool
  bsModeDuplicate :: bool
  bsConflict :: "(string \<times> string) option"

record launchWorld =
  lwEnviron :: "string list"
  lwGatewayDefault :: "netFailure + bool"
  lwHost :: hostWorld
  lwProfile :: "string option"
  lwAuth :: bool
  lwWorkdir :: "string + string"
  lwAuthOverlays :: "strmap \<Rightarrow> string list \<Rightarrow> string option"
  lwInject :: "string list \<Rightarrow> string list option"
  lwModes :: permissionModes
  lwRegistered :: "string \<Rightarrow> bool"
  lwTerminal :: bool
  lwRelease :: "string \<times> string option"
  lwMapping :: "string \<Rightarrow> string \<Rightarrow> string \<times> mappingFailure option"
  lwPermissionDetail :: "permissionFailure \<Rightarrow> string"
  lwAvailability :: "string + (string \<times> string \<times> string \<Rightarrow> moduleError + verdict)"
  lwBuild :: "spawnRequest \<Rightarrow> moduleError + plan"
  lwVersion :: "string option"
  lwLinked :: string
  lwOwnedEnv :: "plan \<Rightarrow> string list"
  lwSentinels :: "moduleError \<Rightarrow> buildSentinels"
  lwUnknownText :: string
  lwCarriers :: "string \<times> string"
  lwQuote :: "string \<Rightarrow> string"
  lwQuoteList :: "string list \<Rightarrow> string"
  lwEntrypoint :: "plan \<Rightarrow> string \<Rightarrow> string list \<Rightarrow> netFailure + string"
  lwSnapshot :: "plan \<Rightarrow> netFailure + string"
  lwPrepare :: "netRequest \<Rightarrow> netFailure + Prepared"
  lwPatchLib :: patchLib
  lwComposeFailure :: "composeError \<Rightarrow> netFailure"
  lwInspection :: "plan \<Rightarrow> policyInspection"
  lwProbes :: "string \<Rightarrow> probe"
  lwSignal :: "bool \<times> bool \<times> bool"
  lwRun :: runWorld
  lwDelegated :: nat
  lwExact :: nat
  lwResumeNew :: string
  lwShadow :: bool
  lwUsage :: string
  lwRefusalText :: "string \<Rightarrow> string \<Rightarrow> string"

definition usageTail :: "launchWorld \<Rightarrow> act list" where
  "usageTail w = [Err (CHR 0x0A # lwUsage w)]"

definition promptText :: "launchWorld \<Rightarrow> promptError \<Rightarrow> string" where
  "promptText w e = (case e of PromptError code path cause \<Rightarrow> code @ '': '' @ lwQuote w path @ '': '' @ cause)"

definition promptCode :: "promptError \<Rightarrow> string" where
  "promptCode e = (case e of PromptError code path cause \<Rightarrow> code)"

section \<open>Route\<close>

definition managedNetwork :: "launchWorld \<Rightarrow> Invocation \<Rightarrow> bool \<Rightarrow> bool" where
  "managedNetwork w i gateway \<longleftrightarrow> NetworkSet i \<or> (lwProfile w \<noteq> None \<and> lwProfile w \<noteq> Some []) \<or> gateway"

definition gatewayDefault :: "launchWorld \<Rightarrow> Invocation \<Rightarrow> bool fronted" where
  "gatewayDefault w i =
     (if NetworkSet i \<or> lwProfile w \<noteq> None then ([], Inr False)
      else fbind (go [ReadGatewayDefault]) (\<lambda>_. case lwGatewayDefault w of
        Inl e \<Rightarrow> stop (emitNetworkFailure e) | Inr b \<Rightarrow> ([], Inr b)))"

definition launchHost :: "launchWorld \<Rightarrow> Invocation \<Rightarrow> fragment \<Rightarrow> bool \<Rightarrow> hostSelection fronted" where
  "launchHost w i f gateway =
     (case resolveHost ((lwHost w)\<lparr>hwGatewayDefault := gateway, hwProxy := (lwProfile w \<noteq> None), hwClaudeAuth := lwAuth w\<rparr>) i f of
        (cs, Inl e) \<Rightarrow> fbind (go (map HostContact cs)) (\<lambda>_. stop (emitHostFailure (lwQuote w) e))
      | (cs, Inr sel) \<Rightarrow> (map HostContact cs, Inr sel))"

text \<open>The options that need the route they did not get.\<close>

definition routeChecks :: "launchWorld \<Rightarrow> Invocation \<Rightarrow> bool \<Rightarrow> unit fronted" where
  "routeChecks w i hosted =
     fbind (refuseIf (GatewayRecoveryEnabled i \<and> hosted) (emit ''network_scope_unsupported'' (lwRefusalText w ''gateway'' ''recovery requires native execution''))) (\<lambda>_.
     fbind (refuseIf (\<not> hosted \<and> A2A i \<noteq> []) (emit ''usage'' ''--a2a requires hosted execution'')) (\<lambda>_.
     fbind (refuseIf (\<not> hosted \<and> (BoardGoal i \<or> Detach i)) (emit ''usage'' ''--board-goal and --detach require hosted execution'')) (\<lambda>_.
     refuseIf (\<not> hosted \<and> (ResumeRequested i \<or> ResumeIDSet i))
       (emit ''usage'' ''resume selectors require hosted execution; use --hosted or a hosted default''))))"

section \<open>Permission\<close>

definition launchPermission :: "launchWorld \<Rightarrow> Invocation \<Rightarrow> fragment \<Rightarrow> string \<Rightarrow> Files \<Rightarrow> bool \<Rightarrow> (PermissionDecision \<times> string) fronted" where
  "launchPermission w i f system fs hosted =
     (case resolvePermission (lwModes w) i f system fs (lwRegistered w system)
          (HasNonInteractiveMarker (lwEnviron w) \<or> \<not> lwTerminal w) (lwRelease w) (lwMapping w) hosted of
        Inl e \<Rightarrow> ([Err (DiagnosticLine (failureCode e) (lwPermissionDetail w e))] @ (if snd (permissionExit e) then usageTail w else []),
            Inl (Some (int (fst (permissionExit e)))))
      | Inr (d, release, line) \<Rightarrow> ((case line of Some l \<Rightarrow> [Err l] | None \<Rightarrow> []), Inr (d, release)))"

section \<open>Plan\<close>

definition planRequestOf :: "launchWorld \<Rightarrow> Invocation \<Rightarrow> fragment \<Rightarrow> Resolved \<Rightarrow> PermissionDecision \<times> string \<Rightarrow> string \<Rightarrow> string list \<Rightarrow> planRequest" where
  "planRequestOf w i f r d wd tail =
     \<lparr>reqRuntime = rRuntime r, reqModel = (case rModel r of Some (v, _) \<Rightarrow> v | None \<Rightarrow> []),
      reqEffort = (case rEffort r of Some (v, _) \<Rightarrow> v | None \<Rightarrow> []), reqMode = DecidedMode (fst d),
      reqToolRelease = snd d, reqNative = tail,
      reqContext = ContextOf (fst (lwCarriers w)) (snd (lwCarriers w)) f (Cli.SystemPrompt i),
      reqHome = Home f, reqWorkDir = wd, reqEnv = lwEnviron w\<rparr>"

text \<open>The refusal of a build: the module's conflict with the fragment's channel, a usage error with the
  usage text, or the code line followed by the evidence.\<close>

definition buildRefusal :: "launchWorld \<Rightarrow> bool \<Rightarrow> string list \<Rightarrow> planError \<Rightarrow> 'a fronted" where
  "buildRefusal w hosted tail e =
     (let text = planErrorText e;
          s = (case e of Refused _ (Some c) \<Rightarrow> lwSentinels w c
               | _ \<Rightarrow> \<lparr>bsModeUnsupported = False, bsPolicyUnknown = False, bsModeDuplicate = False, bsConflict = None\<rparr>);
          code = (case e of Limited _ \<Rightarrow> ''plan_provider_limited''
                  | _ \<Rightarrow> if bsModeUnsupported s then ''permission_mode_unsupported''
                         else if bsPolicyUnknown s \<or> bsModeDuplicate s then ''usage'' else ''plan_refused'')
      in case bsConflict s of
           Some (channel, reason) \<Rightarrow>
             stop (emitFailure ''plan_refused''
               (if hosted then ''native arguments conflict with fragment channel '' @ channel @ '': '' @ reason
                else ''native arguments '' @ lwQuoteList w tail @ '' conflict with fragment channel '' @ channel @ '': '' @ text))
         | None \<Rightarrow>
             if code = ''usage'' then
               ([Err (DiagnosticLine code (if hosted \<and> bsPolicyUnknown s then lwUnknownText w else text))] @ usageTail w,
                Inl (Some (int (ExitForCode code))))
             else ([Err (DiagnosticLine code ''spawn-plane admission refused the launch''), Err (text @ [CHR 0x0A])],
                Inl (Some (int (ExitForCode code)))))"

definition launchPlan :: "launchWorld \<Rightarrow> Invocation \<Rightarrow> fragment \<Rightarrow> string \<Rightarrow> Resolved \<Rightarrow> PermissionDecision \<times> string \<Rightarrow> string \<Rightarrow> string list \<Rightarrow> bool \<Rightarrow>
    (Selection \<times> plan) fronted" where
  "launchPlan w i f system r d wd tail hosted =
     (case lwAvailability w of
        Inl e \<Rightarrow> stop (emitFailure ''plan_refused'' e)
      | Inr availability \<Rightarrow> (case SelectPrompt (lwQuote w) f (Cli.SystemPrompt i) of
          Inl e \<Rightarrow> stop (emitFailure (promptCode e) (promptText w e))
        | Inr sel \<Rightarrow>
            (case Build \<lparr>BuildLaunch = Some (lwBuild w), Availability = Some availability, ModuleVersion = lwVersion w, linked = lwLinked w\<rparr>
                (planRequestOf w i f r d wd tail) of
              (calls, Inl e) \<Rightarrow> fbind (go (map ModuleCall calls)) (\<lambda>_. buildRefusal w hosted tail e)
            | (calls, Inr p) \<Rightarrow>
                fbind (go (map ModuleCall calls)) (\<lambda>_.
                fbind (refuseIf (hosted \<and> fst (planStdin p))
                  (emitFailure ''session_host_stdin_unsupported'' ''session_host_stdin_unsupported: hosted launches in Phase 1 do not support attached stdin'')) (\<lambda>_.
                fbind (go (if \<not> hosted \<and> DecidedMode (fst d) = ModeYolo (lwModes w) \<and> system = ''muse''
                  then [Err (''curator-run: permissions='' @ DecidedMode (fst d) @ '' source='' @ DecidedSource (fst d) @ '' mapped=module-attested'' @ [CHR 0x0A])]
                  else [])) (\<lambda>_. ([], Inr (sel, p))))))))"

section \<open>Network\<close>

definition netRequestOf :: "launchWorld \<Rightarrow> Invocation \<Rightarrow> fragment \<Rightarrow> string \<Rightarrow> bool \<Rightarrow> bool \<Rightarrow> string \<Rightarrow> bool \<Rightarrow> plan \<Rightarrow> netRequest" where
  "netRequestOf w i f system gateway hosted entrypoint artifact p =
     \<lparr>nrExplicit = Network i, nrExplicitSet = NetworkSet i, nrLauncherProfile = (case lwProfile w of Some x \<Rightarrow> x | None \<Rightarrow> []),
      nrDefaultGateway = gateway, nrRecovery = GatewayRecoveryEnabled i, nrHosted = hosted, nrHarness = system,
      nrEntrypoint = entrypoint, nrArtifact = artifact, nrMode = NetworkMode i, nrPin = NetworkPin i, nrKnownBad = NetworkKnownBad i,
      nrFragEnv = Env f, nrPromptEnv = [], nrMCPEnvNames = mcpNamesOf f, nrProjectRoot = Clean (planWorkDir p),
      nrChildEnv = planEnv p, nrNative = Native i\<rparr>"

text \<open>The path of the snapshot, when one was taken, and the prepared network. A registered lease is held
  from here on.\<close>

definition launchNetwork :: "launchWorld \<Rightarrow> Invocation \<Rightarrow> fragment \<Rightarrow> string \<Rightarrow> bool \<Rightarrow> bool \<Rightarrow> plan \<Rightarrow> (string option \<times> Prepared) fronted" where
  "launchNetwork w i f system gateway hosted p =
     (let managed = managedNetwork w i gateway
      in fbind (if managed then (case lwEntrypoint w p system (Native i) of Inl e \<Rightarrow> stop (emitNetworkFailure e) | Inr x \<Rightarrow> ([], Inr x))
                else ([], Inr [])) (\<lambda>entrypoint.
         fbind (if managed \<and> \<not> hosted then
             fbind (go [SnapshotArtifact]) (\<lambda>_. case lwSnapshot w p of Inl e \<Rightarrow> stop (emitNetworkFailure e) | Inr x \<Rightarrow> ([], Inr (Some x)))
           else ([], Inr None)) (\<lambda>snapshot.
         fbind (go [PrepareNetwork]) (\<lambda>_.
           case lwPrepare w (netRequestOf w i f system gateway hosted entrypoint (snapshot \<noteq> None) p) of
             Inl e \<Rightarrow> stop (emitNetworkFailure e)
           | Inr pr \<Rightarrow> (if prLease pr then [HoldLease] else [], Inr (snapshot, pr))))))"

section \<open>The composed value\<close>

definition launchValue :: "launchWorld \<Rightarrow> fragment \<Rightarrow> Selection \<Rightarrow> plan \<Rightarrow> string list \<Rightarrow> string option \<Rightarrow> Prepared \<Rightarrow> composed fronted" where
  "launchValue w f sel p tail snapshot pr =
     (case ComposeAdmittedPlanWithNetwork (lwPatchLib w) p (lwOwnedEnv w p) f \<lparr>promptArgv = selArgv sel, promptEnv = []\<rparr> tail (prPatch pr) of
        Inl e \<Rightarrow> stop (emitNetworkFailure (lwComposeFailure w e))
      | Inr v \<Rightarrow> (case prCheckComposed pr (cEnv v) (EnvLiterals v) (EnvNames v) of
          Some e \<Rightarrow> stop (emitNetworkFailure e)
        | None \<Rightarrow>
            fbind (go (if lwShadow w then [StartShadow] else [])) (\<lambda>_.
            fbind (refuseIf (prProvenanceFails pr) (emit ''network_scope_unsupported'' (lwRefusalText w ''adapter'' ''provenance emission failed''))) (\<lambda>_.
            fbind (go (case prRecord pr of Some l \<Rightarrow> [Err (l @ [CHR 0x0A])] | None \<Rightarrow> [])) (\<lambda>_.
              ([], Inr (case snapshot of Some path \<Rightarrow> v\<lparr>cBinary := path\<rparr> | None \<Rightarrow> v)))))))"

section \<open>The boundary\<close>

definition warningLine :: "string \<Rightarrow> string" where
  "warningLine t = ''curator-run: '' @ t @ [CHR 0x0A]"

text \<open>The boundary callback: the lines it prints and its error.\<close>

definition promptBoundary :: "launchWorld \<Rightarrow> Invocation \<Rightarrow> fragment \<Rightarrow> act list \<times> string option" where
  "promptBoundary w i f = (case PrepareLaunch (lwQuote w) (lwProbes w) f (Cli.SystemPrompt i) of
     Inl e \<Rightarrow> ([], Some (promptText w e))
   | Inr (_, warns) \<Rightarrow> (map (\<lambda>t. Err (warningLine t)) warns, None))"

text \<open>With a lease the boundary also refuses a held signal and repeats the settings check. \<open>lwSignal\<close>
  says whether a signal is held before and after that check, and after the lookup of the Claude
  credential.\<close>

definition interruptedText :: string where
  "interruptedText = ''plan_refused: interrupted before the runtime started''"

definition leaseBoundary :: "launchWorld \<Rightarrow> Prepared \<Rightarrow> string option \<Rightarrow> string option" where
  "leaseBoundary w pr e = (case e of
     Some t \<Rightarrow> Some t
   | None \<Rightarrow>
       if fst (lwSignal w) then Some interruptedText
       else (case prRecheck pr of
           None \<Rightarrow> None
         | Some (Some t) \<Rightarrow> Some t
         | Some None \<Rightarrow> if fst (snd (lwSignal w)) then Some interruptedText else None))"

text \<open>The environment of the child when the launcher holds a Claude credential.\<close>

definition authEnvironment :: "launchWorld \<Rightarrow> composed \<Rightarrow> Prepared \<Rightarrow> bool \<Rightarrow> string list \<Rightarrow> string list option" where
  "authEnvironment w v pr owned es =
     (if lwAuthOverlays w (EnvLiterals v) (EnvNames v) \<noteq> None then None
      else case lwInject w es of
        None \<Rightarrow> None
      | Some child \<Rightarrow>
          if owned \<and> snd (snd (lwSignal w)) then None
          else if prCheckComposed pr child (EnvLiterals v) (EnvNames v) \<noteq> None then None
          else Some child)"

section \<open>The native run\<close>

definition nativeWorld :: "launchWorld \<Rightarrow> string \<Rightarrow> composed \<Rightarrow> Prepared \<Rightarrow> string option \<Rightarrow> runWorld" where
  "nativeWorld w system v pr e =
     (lwRun w)\<lparr>boundaryResult := Some (if prLease pr then leaseBoundary w pr e else e),
       childEnvironment := (if system = ''claude-code'' \<and> lwAuth w then Some (authEnvironment w v pr (prLease pr)) else None)\<rparr>"

text \<open>The boundary is reached when the binary and the MCP layer pass; its lines come after the warnings
  of the value.\<close>

definition boundaryReached :: "composed \<Rightarrow> runWorld \<Rightarrow> bool" where
  "boundaryReached v rw \<longleftrightarrow> \<not> isl (executable (files rw) (cBinary v) (cWorkDir v) (cEnv v)) \<and> CheckLaunchBoundary v (layerProbe rw) = None"

definition runNative :: "launchWorld \<Rightarrow> Invocation \<Rightarrow> fragment \<Rightarrow> string \<Rightarrow> PermissionDecision \<Rightarrow> plan \<Rightarrow> Prepared \<Rightarrow> composed \<Rightarrow> act list \<times> int option" where
  "runNative w i f system d p pr v =
     (let report = (if DecidedMode d = ModeNative (lwModes w) then map Err (ReportEffectiveNativePolicy (lwInspection w p)) else []);
          (ls, e) = promptBoundary w i f;
          rw = nativeWorld w system v pr e;
          (evs, st) = RunLaunch v rw;
          n = length (Warnings v)
      in (report @ map Child (take n evs) @ (if boundaryReached v rw then ls else []) @ map Child (drop n evs) @
            (if prLease pr \<and> st \<noteq> None then [FinishLease] else []), st))"

section \<open>A launch\<close>

text \<open>A hosted launch whose plan is composed: the warnings, the boundary, and the delegation.\<close>

definition runHostedPlan :: "launchWorld \<Rightarrow> Invocation \<Rightarrow> fragment \<Rightarrow> hostSelection \<Rightarrow> composed \<Rightarrow> act list \<times> int option" where
  "runHostedPlan w i f sel v =
     (if selKind sel = ''delegated'' then
        (let warns = map (\<lambda>t. Err (warningLine t)) (Warnings v); (ls, e) = promptBoundary w i f
         in case e of
              Some t \<Rightarrow> (case emitFailure ''plan_refused'' t of (l, n) \<Rightarrow> (warns @ ls @ [Err l], Some (int n)))
            | None \<Rightarrow> (warns @ ls @ [Delegate], Some (int (lwDelegated w))))
      else ([ExactLaunch], Some (int (lwExact w))))"

text \<open>From the prepared network on: a refusal before the child ends the lease.\<close>

definition afterNetwork :: "launchWorld \<Rightarrow> Invocation \<Rightarrow> fragment \<Rightarrow> string \<Rightarrow> hostSelection \<Rightarrow> bool \<Rightarrow> PermissionDecision \<Rightarrow> string list \<Rightarrow>
    Selection \<times> plan \<Rightarrow> string option \<times> Prepared \<Rightarrow> act list \<times> int option" where
  "afterNetwork w i f system host hosted d tail sp net =
     (let pr = snd net; finish = (if prLease pr then [FinishLease] else [])
      in case launchValue w f (fst sp) (snd sp) tail (fst net) pr of
           (as, Inl st) \<Rightarrow> (as @ finish, st)
         | (as, Inr v) \<Rightarrow>
             if hosted then (case runHostedPlan w i f host v of (bs, st) \<Rightarrow> (as @ bs @ finish, st))
             else (case runNative w i f system d (snd sp) pr v of (bs, st) \<Rightarrow> (as @ bs, st)))"

definition ended :: "(act list \<times> int option) fronted \<Rightarrow> act list \<times> int option" where
  "ended m = (case m of (as, Inl st) \<Rightarrow> (as, st) | (as, Inr (bs, st)) \<Rightarrow> (as @ bs, st))"

definition authOverlays :: "launchWorld \<Rightarrow> string \<Rightarrow> strmap \<Rightarrow> string list \<Rightarrow> unit fronted" where
  "authOverlays w system m names =
     (if system = ''claude-code'' \<and> lwAuth w then
        (case lwAuthOverlays w m names of Some t \<Rightarrow> stop (emitFailure ''plan_refused'' t) | None \<Rightarrow> go [])
      else go [])"

definition planned :: "launchWorld \<Rightarrow> Invocation \<Rightarrow> fragment \<Rightarrow> string \<Rightarrow> Resolved \<Rightarrow> bool \<Rightarrow> hostSelection \<Rightarrow> bool \<Rightarrow> string \<Rightarrow>
    PermissionDecision \<times> string \<Rightarrow> string list \<Rightarrow> act list \<times> int option" where
  "planned w i f system r gateway host hosted wd d tail =
     ended (fbind (launchPlan w i f system r d wd tail hosted) (\<lambda>sp.
            fbind (authOverlays w system [] []) (\<lambda>_.
            fbind (launchNetwork w i f system gateway hosted (snd sp)) (\<lambda>net.
              ([], Inr (afterNetwork w i f system host hosted (fst d) tail sp net))))))"

definition resumed :: "launchWorld \<Rightarrow> hostSelection \<Rightarrow> bool" where
  "resumed w host \<longleftrightarrow> (case selIntent host of Some intent \<Rightarrow> intentKind intent \<noteq> lwResumeNew w | None \<Rightarrow> False)"

definition launch :: "launchWorld \<Rightarrow> Invocation \<Rightarrow> fragment \<Rightarrow> string \<Rightarrow> Resolved \<Rightarrow> Files \<Rightarrow> act list \<times> int option" where
  "launch w i f system r fs =
     ended (fbind (gatewayDefault w i) (\<lambda>gateway.
            fbind (launchHost w i f gateway) (\<lambda>host.
            let hosted = (selKind host \<noteq> ''native'') in
            if selRecovered host then ([], Inl (Some 0))
            else fbind (routeChecks w i hosted) (\<lambda>_.
            fbind (case lwWorkdir w of Inl e \<Rightarrow> stop (emitFailure ''plan_refused'' e) | Inr x \<Rightarrow> ([], Inr x)) (\<lambda>wd.
            fbind (authOverlays w system (Env f) (mcpNamesOf f)) (\<lambda>_.
            fbind (launchPermission w i f system fs hosted) (\<lambda>d.
              if hosted \<and> resumed w host then
                ((if lwShadow w then [StartShadow] else []) @ [Delegate], Inl (Some (int (lwDelegated w))))
              else ([], Inr (planned w i f system r gateway host hosted wd d (if hosted then selTail host else Native i))))))))))"

end
