(* ===== verification/FrontDoor.thy ===== *)
theory FrontDoor
  imports FrontLaunch FragmentResolve LauncherConfig Selector
begin

text \<open>
  \<open>run\<close> of \<open>cmd/curator-run/main.go\<close> with \<open>runGatewayRecovery\<close> of \<open>gateway_recover.go\<close> and the request of
  \<open>selector.go\<close>: from the arguments to the exit status. The configuration files, the runs of
  \<open>curator\<close> and of the selector, and the administrative commands are fields of \<open>frontWorld\<close>; the
  locations of the configuration are the production ones.
\<close>

section \<open>Gateway recovery\<close>

record recoveryAnswer =
  raError :: "string option"
  raConfirmed :: bool
  raOutcome :: string
  raCommitted :: bool

text \<open>The error is the one of \<open>recoveryjournal.FailureCode\<close>.\<close>

definition gatewayDetail :: "string \<Rightarrow> recoveryAnswer \<Rightarrow> bool \<Rightarrow> string" where
  "gatewayDetail code a valid =
     (if code = ''local_evidence_failed'' then
        (if raConfirmed a \<and> valid then
           ''gateway service confirmed '' @ raOutcome a @ ''; local evidence failed; original recovery envelope retained''
         else ''gateway local evidence failed; original recovery envelope retained'')
      else if code = ''gateway_recovery_state_invalid'' then
        ''original gateway recovery state unavailable or invalid; no replacement selected''
      else ''gateway recovery unconfirmed; original recovery evidence retained'')"

definition runGatewayRecovery :: "string list \<Rightarrow> string \<Rightarrow> (string \<Rightarrow> recoveryAnswer) \<Rightarrow> bool \<Rightarrow> act list \<times> nat" where
  "runGatewayRecovery args help recover stdoutOk =
     (case Cli.Parse args of
        Inr i \<Rightarrow> (case GatewayRecovery i of
          Some attempt \<Rightarrow>
            (let a = recover attempt;
                 valid = (raOutcome a = ''revoked'' \<or> raOutcome a = ''cancelled_before_issue'');
                 sure = (raConfirmed a \<and> raCommitted a \<and> valid);
                 line = ''attempt='' @ attempt @ '' service_result='' @ raOutcome a @ '' receipt=committed'' @ [CHR 0x0A];
                 code = (case raError a of Some c \<Rightarrow> c
                   | None \<Rightarrow> if raConfirmed a \<and> valid then ''local_evidence_failed'' else ''gateway_recovery_unconfirmed'');
                 failed = [Err (DiagnosticLine code (''attempt='' @ attempt @ '' '' @ gatewayDetail code a valid))]
             in if raError a = None \<and> sure then
                  (if stdoutOk then ([Administer ''gateway'', Out line], 0) else (Administer ''gateway'' # Out line # failed, ExitOperational))
                else (Administer ''gateway'' # failed, ExitOperational))
        | None \<Rightarrow> ([Err (DiagnosticLine ''usage'' ''expected gateway recover --attempt <64 lowercase hex>''), Err help], ExitUsage))
      | Inl _ \<Rightarrow> ([Err (DiagnosticLine ''usage'' ''expected gateway recover --attempt <64 lowercase hex>''), Err help], ExitUsage))"

section \<open>The world of the front door\<close>

record frontWorld =
  fwLocations :: "string + Locations"
  fwHelp :: "helpText \<Rightarrow> string"
  fwUsage :: string
  fwVersion :: string
  fwUsageDetail :: "usageError \<Rightarrow> string"
  fwRecover :: "string \<Rightarrow> recoveryAnswer"
  fwStdoutOk :: bool
  fwWerkstatt :: "WerkstattCommand.Command \<Rightarrow> nat"
  fwObserve :: "SessionCommand.Command \<Rightarrow> nat"
  fwSession :: "SessionCommand.Command \<Rightarrow> (string \<times> string) option"
  fwMigrate :: "bool \<Rightarrow> (string \<times> string) option"
  fwRemovedAX :: "string \<times> string option"
  fwPolicyRead :: "layer \<Rightarrow> fileRead \<times> string"
  fwSelectorRead :: "layer \<Rightarrow> fileRead \<times> string"
  fwConfigText :: "string \<times> (string + configError) \<Rightarrow> string"
  fwSelectorText :: "string \<times> (string + selectorError) \<Rightarrow> string"
  fwSelectedRun :: "string list \<times> bool"
  fwBinary :: string
  fwCurator :: "call \<Rightarrow> string ran"
  fwResolveText :: "string resolveDetail \<Rightarrow> string"
  fwFiles :: "defaultsError + Files"
  fwDefaultsText :: "defaultsError \<Rightarrow> string"
  fwRegistry :: "registry option"
  fwCandidates :: "string \<Rightarrow> selectionCandidate list option"
  fwAdmission :: string
  fwSelectorRun :: "string list \<times> bool \<times> bool"
  fwProvider :: string
  fwStatePath :: string
  fwLaunch :: launchWorld

section \<open>Codes and lines\<close>

definition curatorCodeName :: "curatorCode \<Rightarrow> string" where
  "curatorCodeName c = (case c of CodeInvocationFailed \<Rightarrow> ''resolve_invocation_failed'' | CodeEnvironmentUnknown \<Rightarrow> ''resolve_environment_unknown''
     | CodeProfileUnknown \<Rightarrow> ''resolve_profile_unknown'' | CodeRepairFailed \<Rightarrow> ''resolve_repair_failed''
     | CodeLockUnavailable \<Rightarrow> ''resolve_lock_unavailable'' | CodeFragmentInvalid \<Rightarrow> ''resolve_fragment_invalid'')"

definition defaultsCode :: "defaultsError \<Rightarrow> string" where
  "defaultsCode e = (case e of Invalid HostWithdrawn \<Rightarrow> ''host_member_withdrawn'' | Invalid _ \<Rightarrow> ''defaults_config_invalid''
     | LockedFlag _ _ \<Rightarrow> ''usage'' | LockedHost _ _ \<Rightarrow> ''usage'' | UnknownHostFlag _ \<Rightarrow> ''usage''
     | NoSystem _ \<Rightarrow> ''env_unsupported'' | Unresolvable _ \<Rightarrow> ''defaults_unresolvable'')"

definition versionText :: "frontWorld \<Rightarrow> string" where
  "versionText w = ''curator-run '' @ fwVersion w @ '' (specification 0.5.1-draft)'' @ [CHR 0x0A]"

text \<open>Help and version are answered before any configuration is read.\<close>

definition helpAnswer :: "frontWorld \<Rightarrow> string list \<Rightarrow> unit fronted" where
  "helpAnswer w args = (case TopicHelp args of
     Some t \<Rightarrow> ([Out (fwHelp w t)], Inl (Some 0))
   | None \<Rightarrow> (case Cli.Parse args of
       Inr i \<Rightarrow> (case Info i of
           InfoHelp \<Rightarrow> ([Out (versionText w @ [CHR 0x0A] @ fwUsage w)], Inl (Some 0))
         | InfoVersion \<Rightarrow> ([Out (versionText w)], Inl (Some 0))
         | InfoNone \<Rightarrow> go [])
     | Inl _ \<Rightarrow> go []))"

section \<open>Administrative commands\<close>

definition exitWith :: "act list \<Rightarrow> nat \<Rightarrow> 'a fronted" where
  "exitWith as n = (as, Inl (Some (int n)))"

definition commandResult :: "string \<Rightarrow> (string \<times> string) option \<Rightarrow> 'a fronted" where
  "commandResult word r = (case r of
     Some (code, msg) \<Rightarrow> fbind (go [Administer word]) (\<lambda>_. stop (emitFailure code msg))
   | None \<Rightarrow> exitWith [Administer word] 0)"

definition parsed :: "frontWorld \<Rightarrow> string list \<Rightarrow> Invocation fronted" where
  "parsed w args = (case Cli.Parse args of
     Inl e \<Rightarrow> stop (emitFailure ''usage'' (''usage: '' @ fwUsageDetail w e)) | Inr i \<Rightarrow> ([], Inr i))"

text \<open>A command line of these words that parses has its command (\<open>werkstatt_word\<close> and \<open>session_word\<close> of
  \<open>FrontDoorProps\<close>), so the branches without one are never taken.\<close>

definition administration :: "frontWorld \<Rightarrow> string list \<Rightarrow> unit fronted" where
  "administration w args = (case args of
     [] \<Rightarrow> go []
   | word # _ \<Rightarrow>
       if word = ''werkstatt'' then fbind (parsed w args) (\<lambda>i. case Werkstatt i of
         Some c \<Rightarrow> exitWith [Administer word] (fwWerkstatt w c) | None \<Rightarrow> go [])
       else if word = ''session-manager'' then fbind (parsed w args) (\<lambda>i. case SessionManager i of
         Some c \<Rightarrow> if SessionCommand.Operation c = ''observe'' then exitWith [Administer word] (fwObserve w c)
           else commandResult word (fwSession w c)
       | None \<Rightarrow> go [])
       else if word = ''migrate'' then fbind (parsed w args) (\<lambda>i. commandResult word (fwMigrate w (DryRun i)))
       else go [])"

section \<open>Configuration\<close>

definition configuration :: "frontWorld \<Rightarrow> Locations \<Rightarrow> (Config \<times> Selected \<times> selectorConfig) fronted" where
  "configuration w locs =
     fbind (go [CheckRemovedAX]) (\<lambda>_.
     fbind (case fwRemovedAX w of
        (path, err) \<Rightarrow> if path \<noteq> [] then stop (emitFailure ''ax_tracking_removed'' (''delete this file: path='' @ lwQuote (fwLaunch w) path))
          else (case err of Some e \<Rightarrow> stop (emitFailure ''defaults_config_invalid'' e) | None \<Rightarrow> go [])) (\<lambda>_.
     fbind (go [ReadPolicy]) (\<lambda>_.
     fbind (case LoadConfig locs (fwPolicyRead w) of
        Inl e \<Rightarrow> stop (emitFailure ''defaults_config_invalid'' (fwConfigText w e)) | Inr c \<Rightarrow> ([], Inr c)) (\<lambda>c.
     fbind (go [ReadSelection]) (\<lambda>_.
     fbind (case readSelectedCommand (fst (fwSelectedRun w)) (snd (fwSelectedRun w)) of
        None \<Rightarrow> stop (emitFailure ''defaults_config_invalid'' ''invalid selected Core launcher configuration'')
      | Some s \<Rightarrow> ([], Inr s)) (\<lambda>s.
     fbind (go [ReadSelectorConfig]) (\<lambda>_.
     case LoadSelector locs (fwSelectorRead w) of
        Inl e \<Rightarrow> stop (emitFailure ''defaults_config_invalid'' (fwSelectorText w e))
      | Inr sc \<Rightarrow> ([], Inr (c, s, sc)))))))))"

section \<open>The fragment\<close>

definition fragmentRequest :: "Invocation \<Rightarrow> request" where
  "fragmentRequest i = \<lparr>request.EnvID = Invocation.EnvID i, rqProfile = Cli.Profile i, ProfileSet = Invocation.ProfileSet i, rqDir = [], rqEnv = None\<rparr>"

definition versionFailure :: "launchWorld \<Rightarrow> versionError \<Rightarrow> 'a fronted" where
  "versionFailure w e = stop (emitHostFailure (lwQuote w) (VersionErr (veEnvironment e) (veRequired e)))"

definition resolveFragment :: "frontWorld \<Rightarrow> Invocation \<Rightarrow> fragment fronted" where
  "resolveFragment w i =
     (case FragmentResolve.Resolve (\<lambda>_ c. (fwCurator w c, True)) (fwBinary w) (lwEnviron (fwLaunch w)) (fragmentRequest i) False of
        (r, stderr, asked) \<Rightarrow>
          fbind (go ((if asked then [RunCurator] else []) @ (if stderr = [] then [] else [Err stderr]))) (\<lambda>_. case r of
            Inl (UpgradeRequired e) \<Rightarrow> versionFailure (fwLaunch w) e
          | Inl (ResolveFailed e) \<Rightarrow> stop (emit (curatorCodeName (reCode e)) (fwResolveText w (reDetail e)))
          | Inr f \<Rightarrow> (case CheckLaunchRevision f of
              Some e \<Rightarrow> versionFailure (fwLaunch w) e
            | None \<Rightarrow> ([], Inr f))))"

section \<open>Model and effort\<close>

definition flagPair :: "Invocation \<Rightarrow> Pair" where
  "flagPair i = \<lparr>Model = (if ModelSet i then Some (Cli.Model i) else None), Effort = (if EffortSet i then Some (Cli.Effort i) else None),
     Permissions = (if PermissionSet i then Some (PermissionMode i) else None), Host = None\<rparr>"

definition selectionRequest :: "frontWorld \<Rightarrow> Invocation \<Rightarrow> fragment \<Rightarrow> selectorRequest option" where
  "selectionRequest w i f = (case (lwWorkdir (fwLaunch w), fwCandidates w (Environment f)) of
     (Inr cwd, Some cs) \<Rightarrow> Some \<lparr>srEnvID = Environment f, srProfile = profName (fragment.Profile f), srCWD = cwd, srRole = None, srProject = None,
        srWerkstatt = None, srTask = None, srFlagModel = (if ModelSet i then Some (Cli.Model i) else None),
        srFlagEffort = (if EffortSet i then Some (Cli.Effort i) else None), srCandidates = cs, srAdmission = fwAdmission w\<rparr>
   | _ \<Rightarrow> None)"

definition selectedEffort :: "Decision \<Rightarrow> string" where
  "selectedEffort d = (case dEffort d of None \<Rightarrow> [] | Some e \<Rightarrow> e)"

definition defaultsFailure :: "frontWorld \<Rightarrow> defaultsError \<Rightarrow> 'a fronted" where
  "defaultsFailure w e = stop (emit (defaultsCode e) (fwDefaultsText w e))"

text \<open>The selector's exchange, when it is enforced.\<close>

definition enforced :: "frontWorld \<Rightarrow> Files \<Rightarrow> fragment \<Rightarrow> Pair \<Rightarrow> selectorRequest option \<Rightarrow> Resolved fronted" where
  "enforced w fs f flags req =
     (case Defaults.Resolve fs (Environment f) flags of
        Inl e \<Rightarrow> stop (emitFailure (defaultsCode e) (fwDefaultsText w e))
      | Inr _ \<Rightarrow> (case req of
          None \<Rightarrow> stop (emitFailure ''selector_unavailable'' ''selector unavailable reason=invalid'')
        | Some r \<Rightarrow>
            fbind (go [AskSelector]) (\<lambda>_.
            case Enforce r (fst (fwSelectorRun w)) (fst (snd (fwSelectorRun w))) (snd (snd (fwSelectorRun w))) of
              Inl e \<Rightarrow> stop (emitFailure (case e of Unavailable _ \<Rightarrow> ''selector_unavailable'' | Abstained _ \<Rightarrow> ''selector_abstained'') (failureText e))
            | Inr d \<Rightarrow> (case CompleteWithSelection fs (Environment f) flags
                  \<lparr>Model = Some (dModel d), Effort = Some (selectedEffort d), Permissions = None, Host = None\<rparr> (fwRegistry w) of
                Inl e \<Rightarrow> defaultsFailure w e
              | Inr r \<Rightarrow> ([], Inr (r\<lparr>SelectorDecisionID := DecisionID d, SelectorRuntime := dRuntime d\<rparr>))))))"

definition completed :: "frontWorld \<Rightarrow> selectorConfig \<Rightarrow> Files \<Rightarrow> Invocation \<Rightarrow> fragment \<Rightarrow> (Resolved \<times> selectorRequest option) fronted" where
  "completed w sc fs i f =
     (let req = (if scMode sc \<noteq> [] then selectionRequest w i f else None)
      in fbind (if scMode sc = ''enforce'' then enforced w fs f (flagPair i) req
                else (case Complete fs (Environment f) (flagPair i) (fwRegistry w) of Inl e \<Rightarrow> defaultsFailure w e | Inr r \<Rightarrow> ([], Inr r))) (\<lambda>r.
         (map Err [ProviderLine (fwProvider w) @ [CHR 0x0A], Line r @ [CHR 0x0A]], Inr (r, req))))"

section \<open>The front door\<close>

text \<open>The launch takes the host policy and the selection that were read, and the shadow selector starts
  when a request and a path exist.\<close>

definition launchWorldOf :: "frontWorld \<Rightarrow> Config \<Rightarrow> Selected \<Rightarrow> bool \<Rightarrow> launchWorld" where
  "launchWorldOf w c s shadow = (let l = fwLaunch w in
     l\<lparr>lwHost := (lwHost l)\<lparr>hwMode := ModeValue (HostMode c), hwTrial := DelegatedTrial c\<rparr>, lwProfile := Proxy s,
       lwAuth := (ClaudeAuth s \<noteq> None), lwShadow := shadow, lwUsage := fwUsage w\<rparr>)"

definition launched :: "frontWorld \<Rightarrow> Config \<Rightarrow> Selected \<Rightarrow> selectorConfig \<Rightarrow> Invocation \<Rightarrow> (act list \<times> int option) fronted" where
  "launched w c s sc i =
     fbind (go (if HostFlag i = HostFlagUntracked then
       [Err (''curator-run: --untracked is deprecated; use --native (alias retained for two releases)'' @ [CHR 0x0A])] else [])) (\<lambda>_.
     fbind (resolveFragment w i) (\<lambda>f.
     fbind (case MapSystem (Environment f) of
        None \<Rightarrow> stop (emit ''env_unsupported'' (''environment '' @ lwQuote (fwLaunch w) (Environment f) @ '' has no supported system mapping''))
      | Some system \<Rightarrow> ([], Inr system)) (\<lambda>system.
     fbind (go [ReadDefaults]) (\<lambda>_.
     fbind (case fwFiles w of Inl e \<Rightarrow> defaultsFailure w e | Inr fs \<Rightarrow> ([], Inr fs)) (\<lambda>fs.
     fbind (completed w sc fs i f) (\<lambda>(r, req).
       let shadow = (scMode sc = ''shadow'' \<and> req \<noteq> None \<and> fwStatePath w \<noteq> []);
           (as, st) = launch (launchWorldOf w c s shadow) i f system r fs
       in ([], Inr (as @ (if shadow \<and> Encode (the req) \<noteq> None \<and> st \<noteq> None then [ObserveShadow] else []), st))))))))"

definition run :: "frontWorld \<Rightarrow> string list \<Rightarrow> act list \<times> int option" where
  "run w args =
     ended (fbind (helpAnswer w args) (\<lambda>_.
       if args \<noteq> [] \<and> hd args = ''gateway'' then
         (case runGatewayRecovery args (fwHelp w GatewayRecoveryHelp) (fwRecover w) (fwStdoutOk w) of (as, n) \<Rightarrow> exitWith as n)
       else
         fbind (case fwLocations w of Inl e \<Rightarrow> stop (emitFailure ''defaults_config_invalid'' e) | Inr locs \<Rightarrow> ([], Inr locs)) (\<lambda>locs.
         fbind (administration w args) (\<lambda>_.
         (case Cli.Parse args of
            Inl e \<Rightarrow> ([Err (DiagnosticLine ''usage'' (fwUsageDetail w e)), Err (CHR 0x0A # fwUsage w)], Inl (Some (int ExitUsage)))
          | Inr i \<Rightarrow>
              fbind (configuration w locs) (\<lambda>(c, s, sc).
              launched w c s sc (i\<lparr>Invocation.EnvID := NormalizeEnvID (Invocation.EnvID i)\<rparr>)))))))"

end
