(* ===== verification/FrontDoorProps.thy ===== *)
theory FrontDoorProps
  imports FrontDoor
begin

text \<open>
  The front door starts a child only after every stage of the launch has passed, a usage error comes
  before anything is read, and a lease that was registered is ended once, after the child.
\<close>

section \<open>Steps\<close>

definition plainAct :: "act \<Rightarrow> bool" where
  "plainAct a \<longleftrightarrow> (\<forall>e. a \<noteq> Child e) \<and> a \<noteq> HoldLease \<and> a \<noteq> FinishLease"

definition emits :: "(act \<Rightarrow> bool) \<Rightarrow> 'a fronted \<Rightarrow> bool" where
  "emits P m \<longleftrightarrow> list_all P (fst m)"

lemma plainAct_simps [simp]:
  "plainAct (Out t)" "plainAct (Err t)" "plainAct CheckRemovedAX" "plainAct ReadPolicy" "plainAct ReadSelection"
  "plainAct ReadSelectorConfig" "plainAct RunCurator" "plainAct ReadDefaults" "plainAct AskSelector" "plainAct ReadGatewayDefault"
  "plainAct (HostContact c)" "plainAct (ModuleCall m)" "plainAct SnapshotArtifact" "plainAct PrepareNetwork"
  "plainAct StartShadow" "plainAct ObserveShadow" "plainAct Delegate" "plainAct ExactLaunch" "plainAct (Administer t)"
  "\<not> plainAct HoldLease" "\<not> plainAct FinishLease" "\<not> plainAct (Child e)"
  by (simp_all add: plainAct_def)

lemma emits_fbind [intro!]: "emits P m \<Longrightarrow> (\<And>x. snd m = Inr x \<Longrightarrow> emits P (g x)) \<Longrightarrow> emits P (fbind m g)"
  by (cases "snd m") (auto simp: emits_def fbind_def)

lemma emits_if: "emits P m \<Longrightarrow> emits P n \<Longrightarrow> emits P (if b then m else n)"
  by simp

lemma emits_option: "emits P m \<Longrightarrow> (\<And>x. emits P (f x)) \<Longrightarrow> emits P (case a of None \<Rightarrow> m | Some x \<Rightarrow> f x)"
  by (simp split: option.split)

lemma emits_pair [simp]: "emits P (as, r) \<longleftrightarrow> list_all P as"
  by (simp add: emits_def)

lemma emits_go [simp]: "emits P (go as) \<longleftrightarrow> list_all P as"
  by (simp add: go_def)

lemma emits_stop [simp]: "emits P (stop l) \<longleftrightarrow> P (Err (fst l))"
  by (simp add: stop_def)

lemma emits_refuseIf [simp]: "P (Err (fst l)) \<Longrightarrow> emits P (refuseIf b l)"
  by (simp add: refuseIf_def)

lemma emits_map [simp]: "(\<And>x. P (f x)) \<Longrightarrow> list_all P (map f xs)"
  by (simp add: list_all_iff)

lemma plain_gatewayDefault: "emits plainAct (gatewayDefault w i)"
  by (auto simp: gatewayDefault_def split: sum.split)

lemma plain_launchHost: "emits plainAct (launchHost w i f gateway)"
  by (auto simp: launchHost_def split: prod.split sum.split)

lemma plain_routeChecks: "emits plainAct (routeChecks w i hosted)"
  by (auto simp: routeChecks_def)

lemma plain_authOverlays: "emits plainAct (authOverlays w system m names)"
  by (auto simp: authOverlays_def split: option.split)

lemma plain_launchPermission: "emits plainAct (launchPermission w i f system fs hosted)"
  by (auto simp: launchPermission_def usageTail_def split: sum.split prod.split option.split)

lemma plain_buildRefusal: "emits plainAct (buildRefusal w hosted tail e)"
  by (auto simp: buildRefusal_def usageTail_def Let_def split: option.split)

lemma plain_launchPlan: "emits plainAct (launchPlan w i f system r d wd tail hosted)"
  by (auto simp: launchPlan_def plain_buildRefusal split: sum.split prod.split)

text \<open>The acts that open, bracket and end a child: the lease and the start of a process.\<close>

definition marks :: "act list \<Rightarrow> act list" where
  "marks as = filter (\<lambda>a. a = HoldLease \<or> a = FinishLease \<or> (\<exists>ps. a = Child (Spawn ps))) as"

lemma marks_simps [simp]:
  "marks [] = []" "marks (as @ bs) = marks as @ marks bs" "marks (HoldLease # as) = HoldLease # marks as"
  "marks (FinishLease # as) = FinishLease # marks as"
  by (simp_all add: marks_def)

lemma plain_marks [simp]: "list_all plainAct as \<Longrightarrow> marks as = []"
  by (induction as) (auto simp: marks_def)

definition held :: "(string option \<times> Prepared) fronted \<Rightarrow> bool" where
  "held m \<longleftrightarrow> marks (fst m) = (case snd m of Inl st \<Rightarrow> [] | Inr (s, pr) \<Rightarrow> if prLease pr then [HoldLease] else [])"

lemma held_fbind: "emits plainAct m \<Longrightarrow> (\<And>x. held (g x)) \<Longrightarrow> held (fbind m g)"
  by (cases "snd m") (simp_all add: held_def fbind_def emits_def)

lemma launchNetwork_held: "held (launchNetwork w i f system gateway hosted p)"
  unfolding launchNetwork_def Let_def
proof (intro held_fbind)
  show "emits plainAct (if managedNetwork w i gateway
      then (case lwEntrypoint w p system (Native i) of Inl e \<Rightarrow> stop (emitNetworkFailure e) | Inr x \<Rightarrow> ([], Inr x)) else ([], Inr []))"
    by (simp split: sum.split)
  show "emits plainAct (if managedNetwork w i gateway \<and> \<not> hosted
      then fbind (go [SnapshotArtifact]) (\<lambda>_. case lwSnapshot w p of Inl e \<Rightarrow> stop (emitNetworkFailure e) | Inr x \<Rightarrow> ([], Inr (Some x)))
      else ([], Inr None))"
    by (intro emits_if emits_fbind) (simp_all split: sum.split)
  show "held (case lwPrepare w (netRequestOf w i f system gateway hosted entrypoint (snapshot \<noteq> None) p) of
      Inl e \<Rightarrow> stop (emitNetworkFailure e) | Inr pr \<Rightarrow> (if prLease pr then [HoldLease] else [], Inr (snapshot, pr)))" for entrypoint snapshot
    by (simp add: held_def stop_def split: sum.split)
qed simp

lemma plain_launchValue: "emits plainAct (launchValue w f sel p tail snapshot pr)"
  by (auto simp: launchValue_def split: sum.split option.split)

section \<open>Children\<close>

fun spawnOf :: "event \<Rightarrow> processSpec list" where
  "spawnOf (Spawn ps) = [ps]"
| "spawnOf e = []"

fun childSpawn :: "act \<Rightarrow> processSpec list" where
  "childSpawn (Child e) = spawnOf e"
| "childSpawn a = []"

definition spawnsOf :: "act list \<Rightarrow> processSpec list" where
  "spawnsOf as = concat (map childSpawn as)"

definition eventSpawns :: "event list \<Rightarrow> processSpec list" where
  "eventSpawns es = concat (map spawnOf es)"

lemma eventSpawns_simps [simp]:
  "eventSpawns [] = []" "eventSpawns (e # es) = spawnOf e @ eventSpawns es" "eventSpawns (es @ fs) = eventSpawns es @ eventSpawns fs"
  by (simp_all add: eventSpawns_def)

lemma spawnsOf_simps [simp]:
  "spawnsOf [] = []" "spawnsOf (a # as) = childSpawn a @ spawnsOf as" "spawnsOf (as @ bs) = spawnsOf as @ spawnsOf bs"
  "spawnsOf (map Child es) = eventSpawns es"
  by (simp_all add: spawnsOf_def eventSpawns_def comp_def)

lemma plain_spawns [simp]: "list_all plainAct as \<Longrightarrow> spawnsOf as = []"
proof (induction as)
  case (Cons a as)
  then show ?case by (cases a) simp_all
qed simp

lemma spawns_marks: "spawnsOf as = spawnsOf (marks as)"
proof (induction as)
  case (Cons a as)
  show ?case
  proof (cases a)
    case (Child e)
    then show ?thesis using Cons by (cases e) (simp_all add: marks_def spawnsOf_def)
  qed (use Cons in \<open>simp_all add: marks_def spawnsOf_def\<close>)
qed simp

lemma held_spawns: "held m \<Longrightarrow> spawnsOf (fst m) = []"
  by (subst spawns_marks) (auto simp: held_def split: sum.split prod.split)

lemma ended_fbind:
  "ended (fbind m g) = (case snd m of Inl st \<Rightarrow> (fst m, st) | Inr x \<Rightarrow> (fst m @ fst (ended (g x)), snd (ended (g x))))"
  by (cases m; cases "snd m") (auto simp: ended_def fbind_def split: prod.split sum.split)

lemma spawns_fbind:
  "emits plainAct m \<Longrightarrow> spawnsOf (fst (ended (fbind m g))) = (case snd m of Inl st \<Rightarrow> [] | Inr x \<Rightarrow> spawnsOf (fst (ended (g x))))"
  by (cases "snd m") (auto simp: ended_fbind emits_def)

lemma spawns_network:
  "held m \<Longrightarrow> spawnsOf (fst (ended (fbind m g))) = (case snd m of Inl st \<Rightarrow> [] | Inr x \<Rightarrow> spawnsOf (fst (ended (g x))))"
  using held_spawns [of m] by (cases "snd m") (auto simp: ended_fbind)

lemma failWith_spawns [simp]: "eventSpawns (fst (failWith t)) = []"
  by (simp add: failWith_def split: option.split prod.split)

lemma childStatus_spawns [simp]: "eventSpawns (fst (childStatus b r)) = []"
proof (cases r)
  case (Some c)
  then show ?thesis
    using failWith_spawns by (cases c) (auto simp: case_prod_unfold)
qed simp

lemma warnings_spawns [simp]: "eventSpawns (map WarningLine ws) = []"
  by (simp add: eventSpawns_def)

lemma RunLaunch_spawns:
  assumes "eventSpawns (fst (RunLaunch v w)) \<noteq> []"
  obtains path es where "preflight v w = Inr (path, es)" "eventSpawns (fst (RunLaunch v w)) = [spec v path es]"
proof (cases "preflight v w")
  case (Inl t)
  then show ?thesis
    using assms failWith_spawns [of t] by (simp add: RunLaunch_def Let_def case_prod_unfold)
next
  case (Inr p)
  have "eventSpawns (fst (RunChild v w ps)) \<in> {[], [ps]}" for ps
    by (auto simp: RunChild_def Let_def case_prod_unfold split: option.split)
  then show ?thesis
    using Inr assms that [of "fst p" "snd p"] by (auto simp: RunLaunch_def Let_def case_prod_unfold)
qed

lemma spawns_split: "eventSpawns (take n es) @ eventSpawns (drop n es) = eventSpawns es"
  by (metis append_take_drop_id eventSpawns_simps(3))

lemma report_plain: "list_all plainAct (map Err ls)"
  by simp

lemma promptBoundary_plain: "list_all plainAct (fst (promptBoundary w i f))"
  by (auto simp: promptBoundary_def split: sum.split prod.split)

lemma runNative_spawns:
  assumes "spawnsOf (fst (runNative w i f system d p pr v)) \<noteq> []"
  obtains path es where "preflight v (nativeWorld w system v pr (snd (promptBoundary w i f))) = Inr (path, es)"
    "spawnsOf (fst (runNative w i f system d p pr v)) = [spec v path es]"
proof -
  let ?rw = "nativeWorld w system v pr (snd (promptBoundary w i f))"
  have eq: "spawnsOf (fst (runNative w i f system d p pr v)) = eventSpawns (fst (RunLaunch v ?rw))"
    unfolding runNative_def Let_def using promptBoundary_plain [of w i f]
    by (auto simp: case_prod_unfold spawns_split)
  show ?thesis
    using RunLaunch_spawns [of v ?rw] assms that unfolding eq by metis
qed

lemma fbind_Inr: "snd (fbind m g) = Inr y \<longleftrightarrow> (\<exists>x. snd m = Inr x \<and> snd (g x) = Inr y)"
  by (auto simp: fbind_def split: sum.split)

lemma step_simps [simp]: "snd (stop l) \<noteq> Inr x" "snd (go as) = Inr u" "snd (refuseIf b l) = Inr u \<longleftrightarrow> \<not> b"
  by (simp_all add: stop_def go_def refuseIf_def)

definition composedFrom :: "launchWorld \<Rightarrow> fragment \<Rightarrow> Selection \<Rightarrow> plan \<Rightarrow> string list \<Rightarrow> string option \<Rightarrow> Prepared \<Rightarrow> composed \<Rightarrow> bool" where
  "composedFrom w f sel p tail snapshot pr v \<longleftrightarrow>
     (\<exists>v0. ComposeAdmittedPlanWithNetwork (lwPatchLib w) p (lwOwnedEnv w p) f \<lparr>promptArgv = selArgv sel, promptEnv = []\<rparr> tail (prPatch pr) = Inr v0 \<and>
        prCheckComposed pr (cEnv v0) (EnvLiterals v0) (EnvNames v0) = None \<and>
        v = (case snapshot of Some path \<Rightarrow> v0\<lparr>cBinary := path\<rparr> | None \<Rightarrow> v0))"

lemma launchValue_Inr: "snd (launchValue w f sel p tail snapshot pr) = Inr v \<Longrightarrow> composedFrom w f sel p tail snapshot pr v"
  by (auto simp: launchValue_def composedFrom_def fbind_Inr split: sum.split_asm option.split_asm)

lemma runHostedPlan_plain: "list_all plainAct (fst (runHostedPlan w i f sel v))"
  using promptBoundary_plain [of w i f]
  by (auto simp: runHostedPlan_def case_prod_unfold Let_def split: option.split)

lemma afterNetwork_spawns:
  assumes "spawnsOf (fst (afterNetwork w i f system host hosted d tail sp net)) \<noteq> []"
  obtains v path es where "\<not> hosted" "composedFrom w f (fst sp) (snd sp) tail (fst net) (snd net) v"
    "preflight v (nativeWorld w system v (snd net) (snd (promptBoundary w i f))) = Inr (path, es)"
    "spawnsOf (fst (afterNetwork w i f system host hosted d tail sp net)) = [spec v path es]"
proof (cases "launchValue w f (fst sp) (snd sp) tail (fst net) (snd net)")
  case (Pair as r)
  have plain: "list_all plainAct as"
    using plain_launchValue [of w f "fst sp" "snd sp" tail "fst net" "snd net"] unfolding Pair by simp
  show ?thesis
  proof (cases r)
    case (Inl st)
    then show ?thesis
      using assms plain unfolding afterNetwork_def Let_def Pair by (simp split: if_split_asm)
  next
    case (Inr v)
    have native: "\<not> hosted"
      using assms plain runHostedPlan_plain [of w i f host v] Inr unfolding afterNetwork_def Let_def Pair
      by (auto simp: case_prod_unfold split: if_split_asm)
    then have eq: "spawnsOf (fst (afterNetwork w i f system host hosted d tail sp net)) =
        spawnsOf (fst (runNative w i f system d (snd sp) (snd net) v))"
      using plain Inr unfolding afterNetwork_def Let_def Pair by (simp add: case_prod_unfold)
    obtain path es where "preflight v (nativeWorld w system v (snd net) (snd (promptBoundary w i f))) = Inr (path, es)"
      "spawnsOf (fst (runNative w i f system d (snd sp) (snd net) v)) = [spec v path es]"
      using runNative_spawns assms unfolding eq by metis
    then show ?thesis
      using that native eq launchValue_Inr [of w f "fst sp" "snd sp" tail "fst net" "snd net" v] Pair Inr by simp
  qed
qed

definition plannedFor :: "launchWorld \<Rightarrow> Invocation \<Rightarrow> fragment \<Rightarrow> Resolved \<Rightarrow> PermissionDecision \<times> string \<Rightarrow> string \<Rightarrow> string list \<Rightarrow> Selection \<Rightarrow> plan \<Rightarrow> bool" where
  "plannedFor w i f r d wd tail sel p \<longleftrightarrow>
     SelectPrompt (lwQuote w) f (Cli.SystemPrompt i) = Inr sel \<and>
     (\<exists>availability. lwAvailability w = Inr availability \<and>
        snd (Build \<lparr>BuildLaunch = Some (lwBuild w), Availability = Some availability, ModuleVersion = lwVersion w, linked = lwLinked w\<rparr>
          (planRequestOf w i f r d wd tail)) = Inr p)"

lemma buildRefusal_Inl: "snd (buildRefusal w hosted tail e) \<noteq> Inr x"
  by (auto simp: buildRefusal_def Let_def split: option.split)

lemma launchPlan_Inr: "snd (launchPlan w i f system r d wd tail hosted) = Inr (sel, p) \<Longrightarrow> plannedFor w i f r d wd tail sel p"
  by (auto simp: launchPlan_def plannedFor_def fbind_Inr buildRefusal_Inl split: sum.split_asm prod.split_asm)

lemma prepare_Inr:
  "snd (case a of Inl e \<Rightarrow> stop (emitNetworkFailure e) | Inr pr \<Rightarrow> (h pr, Inr (s, pr))) = Inr (s', pr') \<longleftrightarrow> a = Inr pr' \<and> s = s'"
  by (auto split: sum.split)

lemma launchNetwork_Inr:
  assumes "snd (launchNetwork w i f system gateway hosted p) = Inr (snapshot, pr)"
  obtains entrypoint where "lwPrepare w (netRequestOf w i f system gateway hosted entrypoint (snapshot \<noteq> None) p) = Inr pr"
    "snapshot \<noteq> None \<longrightarrow> managedNetwork w i gateway \<and> \<not> hosted \<and> lwSnapshot w p = Inr (the snapshot)"
proof -
  have "\<exists>entrypoint. lwPrepare w (netRequestOf w i f system gateway hosted entrypoint (snapshot \<noteq> None) p) = Inr pr \<and>
     (snapshot \<noteq> None \<longrightarrow> managedNetwork w i gateway \<and> \<not> hosted \<and> lwSnapshot w p = Inr (the snapshot))"
    using assms unfolding launchNetwork_def Let_def fbind_Inr prepare_Inr
    by (cases "lwSnapshot w p") (auto simp: fbind_Inr split: if_split_asm)
  then show ?thesis using that by blast
qed

text \<open>What a planned child is: the composed value of the admitted plan on the prepared network, past the
  late checks.\<close>

definition plannedChild :: "launchWorld \<Rightarrow> Invocation \<Rightarrow> fragment \<Rightarrow> string \<Rightarrow> Resolved \<Rightarrow> bool \<Rightarrow> string \<Rightarrow> PermissionDecision \<times> string \<Rightarrow>
    string list \<Rightarrow> processSpec \<Rightarrow> bool" where
  "plannedChild w i f system r gateway wd d tail ps \<longleftrightarrow>
     (\<exists>sel p snapshot pr entrypoint v path es. plannedFor w i f r d wd tail sel p \<and>
        lwPrepare w (netRequestOf w i f system gateway False entrypoint (snapshot \<noteq> None) p) = Inr pr \<and>
        (snapshot \<noteq> None \<longrightarrow> managedNetwork w i gateway \<and> lwSnapshot w p = Inr (the snapshot)) \<and>
        composedFrom w f sel p tail snapshot pr v \<and>
        preflight v (nativeWorld w system v pr (snd (promptBoundary w i f))) = Inr (path, es) \<and> ps = spec v path es)"

lemma ended_Inr [simp]: "ended ([], Inr x) = x"
  by (cases x) (simp add: ended_def)

lemma planned_spawns:
  assumes "spawnsOf (fst (planned w i f system r gateway host hosted wd d tail)) \<noteq> []"
  shows "\<not> hosted \<and> (\<exists>ps. spawnsOf (fst (planned w i f system r gateway host hosted wd d tail)) = [ps] \<and>
    plannedChild w i f system r gateway wd d tail ps)"
proof -
  have eq: "spawnsOf (fst (planned w i f system r gateway host hosted wd d tail)) =
    (case snd (launchPlan w i f system r d wd tail hosted) of Inl st \<Rightarrow> [] | Inr sp \<Rightarrow>
       (case snd (authOverlays w system [] []) of Inl st \<Rightarrow> [] | Inr u \<Rightarrow>
         (case snd (launchNetwork w i f system gateway hosted (snd sp)) of Inl st \<Rightarrow> [] | Inr net \<Rightarrow>
            spawnsOf (fst (afterNetwork w i f system host hosted (fst d) tail sp net)))))"
    by (simp only: planned_def spawns_fbind [OF plain_launchPlan] spawns_fbind [OF plain_authOverlays] spawns_network [OF launchNetwork_held] ended_Inr)
  obtain sp net where sp: "snd (launchPlan w i f system r d wd tail hosted) = Inr sp"
    and net: "snd (launchNetwork w i f system gateway hosted (snd sp)) = Inr net"
    and e2: "spawnsOf (fst (planned w i f system r gateway host hosted wd d tail)) =
      spawnsOf (fst (afterNetwork w i f system host hosted (fst d) tail sp net))"
    using assms unfolding eq by (auto split: sum.split_asm)
  obtain v path es where v: "\<not> hosted" "composedFrom w f (fst sp) (snd sp) tail (fst net) (snd net) v"
    "preflight v (nativeWorld w system v (snd net) (snd (promptBoundary w i f))) = Inr (path, es)"
    "spawnsOf (fst (afterNetwork w i f system host hosted (fst d) tail sp net)) = [spec v path es]"
    using afterNetwork_spawns [OF assms [unfolded e2]] by blast
  have net': "snd (launchNetwork w i f system gateway hosted (snd sp)) = Inr (fst net, snd net)"
    using net by simp
  obtain entrypoint where entry: "lwPrepare w (netRequestOf w i f system gateway hosted entrypoint (fst net \<noteq> None) (snd sp)) = Inr (snd net)"
    "fst net \<noteq> None \<longrightarrow> managedNetwork w i gateway \<and> \<not> hosted \<and> lwSnapshot w (snd sp) = Inr (the (fst net))"
    using launchNetwork_Inr [OF net'] by blast
  have "plannedFor w i f r d wd tail (fst sp) (snd sp)"
    using launchPlan_Inr [of w i f system r d wd tail hosted "fst sp" "snd sp"] sp by simp
  then have "plannedChild w i f system r gateway wd d tail (spec v path es)"
    unfolding plannedChild_def
    by (intro exI [of _ "fst sp"] exI [of _ "snd sp"] exI [of _ "fst net"] exI [of _ "snd net"] exI [of _ entrypoint] exI [of _ v]
        exI [of _ path] exI [of _ es]) (use v entry in simp)
  then show ?thesis
    using v(1,4) e2 by simp
qed

definition hostWorldOf :: "launchWorld \<Rightarrow> bool \<Rightarrow> hostWorld" where
  "hostWorldOf w gateway = (lwHost w)\<lparr>hwGatewayDefault := gateway, hwProxy := (lwProfile w \<noteq> None), hwClaudeAuth := lwAuth w\<rparr>"

text \<open>What a launched child rests on: a native host, no option that needs a hosted one, a permission, and
  a planned child with the native arguments.\<close>

definition launchedChild :: "launchWorld \<Rightarrow> Invocation \<Rightarrow> fragment \<Rightarrow> string \<Rightarrow> Resolved \<Rightarrow> Files \<Rightarrow> processSpec \<Rightarrow> bool" where
  "launchedChild w i f system r fs ps \<longleftrightarrow>
     (\<exists>gateway cs host wd d release line.
        resolveHost (hostWorldOf w gateway) i f = (cs, Inr host) \<and> selKind host = ''native'' \<and> \<not> selRecovered host \<and>
        A2A i = [] \<and> \<not> BoardGoal i \<and> \<not> Detach i \<and> \<not> ResumeRequested i \<and> \<not> ResumeIDSet i \<and>
        (NetworkSet i \<or> lwProfile w \<noteq> None \<or> lwGatewayDefault w = Inr gateway) \<and> lwWorkdir w = Inr wd \<and>
        resolvePermission (lwModes w) i f system fs (lwRegistered w system) (HasNonInteractiveMarker (lwEnviron w) \<or> \<not> lwTerminal w)
          (lwRelease w) (lwMapping w) False = Inr (d, release, line) \<and>
        plannedChild w i f system r gateway wd (d, release) (Native i) ps)"

lemma gatewayDefault_Inr: "snd (gatewayDefault w i) = Inr b \<Longrightarrow> NetworkSet i \<or> lwProfile w \<noteq> None \<or> lwGatewayDefault w = Inr b"
  by (auto simp: gatewayDefault_def fbind_Inr split: if_split_asm sum.split_asm)

lemma launchHost_Inr: "snd (launchHost w i f gateway) = Inr host \<Longrightarrow> \<exists>cs. resolveHost (hostWorldOf w gateway) i f = (cs, Inr host)"
  by (auto simp: launchHost_def hostWorldOf_def fbind_Inr split: prod.split_asm sum.split_asm)

lemma routeChecks_Inr: "snd (routeChecks w i False) = Inr u \<Longrightarrow>
  A2A i = [] \<and> \<not> BoardGoal i \<and> \<not> Detach i \<and> \<not> ResumeRequested i \<and> \<not> ResumeIDSet i"
  by (auto simp: routeChecks_def fbind_Inr)

lemma launchPermission_Inr: "snd (launchPermission w i f system fs hosted) = Inr d \<Longrightarrow>
  \<exists>line. resolvePermission (lwModes w) i f system fs (lwRegistered w system) (HasNonInteractiveMarker (lwEnviron w) \<or> \<not> lwTerminal w)
     (lwRelease w) (lwMapping w) hosted = Inr (fst d, snd d, line)"
  by (auto simp: launchPermission_def split: sum.split_asm prod.split_asm)

lemma plain_workdir: "emits plainAct (case lwWorkdir w of Inl e \<Rightarrow> stop (emitFailure ''plan_refused'' e) | Inr x \<Rightarrow> ([], Inr x))"
  by (auto split: sum.split)

lemma workdir_Inr: "snd (case a of Inl e \<Rightarrow> stop (emitFailure ''plan_refused'' e) | Inr x \<Rightarrow> ([], Inr x)) = Inr y \<longleftrightarrow> a = Inr y"
  by (auto split: sum.split)

lemma ended_if: "ended (if b then x else y) = (if b then ended x else ended y)"
  by simp

text \<open>The end of a launch that is not a recovered one.\<close>

definition launchRest :: "launchWorld \<Rightarrow> Invocation \<Rightarrow> fragment \<Rightarrow> string \<Rightarrow> Resolved \<Rightarrow> Files \<Rightarrow> bool \<Rightarrow> hostSelection \<Rightarrow> bool \<Rightarrow> (act list \<times> int option) fronted" where
  "launchRest w i f system r fs gateway host hosted =
     fbind (routeChecks w i hosted) (\<lambda>_.
            fbind (case lwWorkdir w of Inl e \<Rightarrow> stop (emitFailure ''plan_refused'' e) | Inr x \<Rightarrow> ([], Inr x)) (\<lambda>wd.
            fbind (authOverlays w system (Env f) (mcpNamesOf f)) (\<lambda>_.
            fbind (launchPermission w i f system fs hosted) (\<lambda>d.
              if hosted \<and> resumed w host then
                ((if lwShadow w then [StartShadow] else []) @ [Delegate], Inl (Some (int (lwDelegated w))))
              else ([], Inr (planned w i f system r gateway host hosted wd d (if hosted then selTail host else Native i)))))))"

lemma launch_rest:
  "launch w i f system r fs = ended (fbind (gatewayDefault w i) (\<lambda>gateway. fbind (launchHost w i f gateway) (\<lambda>host.
     if selRecovered host then ([], Inl (Some 0)) else launchRest w i f system r fs gateway host (selKind host \<noteq> ''native''))))"
  by (simp only: launch_def launchRest_def Let_def)

lemma launchRest_spawns:
  assumes "spawnsOf (fst (ended (launchRest w i f system r fs gateway host hosted))) \<noteq> []"
  shows "\<exists>wd d release line ps. \<not> hosted \<and> A2A i = [] \<and> \<not> BoardGoal i \<and> \<not> Detach i \<and> \<not> ResumeRequested i \<and> \<not> ResumeIDSet i \<and>
    lwWorkdir w = Inr wd \<and>
    resolvePermission (lwModes w) i f system fs (lwRegistered w system) (HasNonInteractiveMarker (lwEnviron w) \<or> \<not> lwTerminal w)
      (lwRelease w) (lwMapping w) False = Inr (d, release, line) \<and>
    plannedChild w i f system r gateway wd (d, release) (Native i) ps \<and>
    spawnsOf (fst (ended (launchRest w i f system r fs gateway host hosted))) = [ps]"
proof -
  have eq: "spawnsOf (fst (ended (launchRest w i f system r fs gateway host hosted))) =
    (case snd (routeChecks w i hosted) of Inl st \<Rightarrow> [] | Inr u \<Rightarrow>
      (case snd (case lwWorkdir w of Inl e \<Rightarrow> stop (emitFailure ''plan_refused'' e) | Inr x \<Rightarrow> ([], Inr x)) of Inl st \<Rightarrow> [] | Inr wd \<Rightarrow>
        (case snd (authOverlays w system (Env f) (mcpNamesOf f)) of Inl st \<Rightarrow> [] | Inr u \<Rightarrow>
          (case snd (launchPermission w i f system fs hosted) of Inl st \<Rightarrow> [] | Inr d \<Rightarrow>
            spawnsOf (fst (ended (if hosted \<and> resumed w host then
                ((if lwShadow w then [StartShadow] else []) @ [Delegate], Inl (Some (int (lwDelegated w))))
              else ([], Inr (planned w i f system r gateway host hosted wd d (if hosted then selTail host else Native i))))))))))"
    by (simp only: launchRest_def spawns_fbind [OF plain_routeChecks] spawns_fbind [OF plain_workdir] spawns_fbind [OF plain_authOverlays]
        spawns_fbind [OF plain_launchPermission])
  obtain u wd d where steps: "snd (routeChecks w i hosted) = Inr u" "lwWorkdir w = Inr wd" "snd (launchPermission w i f system fs hosted) = Inr d"
    and e: "spawnsOf (fst (ended (launchRest w i f system r fs gateway host hosted))) = spawnsOf (fst (ended (if hosted \<and> resumed w host then
                ((if lwShadow w then [StartShadow] else []) @ [Delegate], Inl (Some (int (lwDelegated w))))
              else ([], Inr (planned w i f system r gateway host hosted wd d (if hosted then selTail host else Native i))))))"
    using assms unfolding eq by (auto split: sum.split_asm)
  have "\<not> (hosted \<and> resumed w host)"
    using assms unfolding e by (auto simp: ended_def split: if_split_asm)
  then have p: "spawnsOf (fst (ended (launchRest w i f system r fs gateway host hosted))) =
      spawnsOf (fst (planned w i f system r gateway host hosted wd d (if hosted then selTail host else Native i)))"
    unfolding e by simp
  have h: "\<not> hosted"
    using planned_spawns assms unfolding p by blast
  obtain ps where ps: "spawnsOf (fst (planned w i f system r gateway host hosted wd d (Native i))) = [ps]"
    "plannedChild w i f system r gateway wd d (Native i) ps"
    using planned_spawns [of w i f system r gateway host hosted wd d "Native i"] assms h unfolding p by auto
  obtain line where "resolvePermission (lwModes w) i f system fs (lwRegistered w system) (HasNonInteractiveMarker (lwEnviron w) \<or> \<not> lwTerminal w)
      (lwRelease w) (lwMapping w) False = Inr (fst d, snd d, line)"
    using launchPermission_Inr [OF steps(3)] h by auto
  then show ?thesis
    using routeChecks_Inr [of w i u] steps(1,2) ps h unfolding p
    by (intro exI [of _ wd] exI [of _ "fst d"] exI [of _ "snd d"] exI [of _ line] exI [of _ ps]) simp
qed

lemma launch_spawns:
  assumes "spawnsOf (fst (launch w i f system r fs)) \<noteq> []"
  shows "\<exists>ps. spawnsOf (fst (launch w i f system r fs)) = [ps] \<and> launchedChild w i f system r fs ps"
proof -
  have eq: "spawnsOf (fst (launch w i f system r fs)) =
    (case snd (gatewayDefault w i) of Inl st \<Rightarrow> [] | Inr gateway \<Rightarrow> (case snd (launchHost w i f gateway) of Inl st \<Rightarrow> [] | Inr host \<Rightarrow>
       spawnsOf (fst (ended (if selRecovered host then ([], Inl (Some 0)) else launchRest w i f system r fs gateway host (selKind host \<noteq> ''native''))))))"
    by (simp only: launch_rest spawns_fbind [OF plain_gatewayDefault] spawns_fbind [OF plain_launchHost])
  obtain gateway host where steps: "snd (gatewayDefault w i) = Inr gateway" "snd (launchHost w i f gateway) = Inr host"
    and e: "spawnsOf (fst (launch w i f system r fs)) =
      spawnsOf (fst (ended (if selRecovered host then ([], Inl (Some 0)) else launchRest w i f system r fs gateway host (selKind host \<noteq> ''native''))))"
    using assms unfolding eq by (auto split: sum.split_asm)
  have rec: "\<not> selRecovered host"
    using assms unfolding e by (auto simp: ended_def split: if_split_asm)
  then have e': "spawnsOf (fst (launch w i f system r fs)) = spawnsOf (fst (ended (launchRest w i f system r fs gateway host (selKind host \<noteq> ''native''))))"
    unfolding e by simp
  obtain cs where cs: "resolveHost (hostWorldOf w gateway) i f = (cs, Inr host)"
    using launchHost_Inr [OF steps(2)] by blast
  show ?thesis
    using launchRest_spawns [OF assms [unfolded e']] cs rec gatewayDefault_Inr [OF steps(1)] unfolding e' launchedChild_def by blast
qed

section \<open>The front door\<close>

lemma plain_helpAnswer: "emits plainAct (helpAnswer w args)"
  by (auto simp: helpAnswer_def split: option.split sum.split info.split)

lemma plain_exitWith [simp]: "emits P (exitWith as n) \<longleftrightarrow> list_all P as"
  by (simp add: exitWith_def)

lemma plain_parsed: "emits plainAct (parsed w args)"
  by (auto simp: parsed_def split: sum.split)

lemma plain_commandResult: "emits plainAct (commandResult word r)"
  by (auto simp: commandResult_def split: option.split)

lemma plain_administration: "emits plainAct (administration w args)"
proof (cases args)
  case Nil
  then show ?thesis by (simp add: administration_def)
next
  case (Cons word rest)
  show ?thesis
    unfolding administration_def Cons list.case
    by (intro emits_if emits_fbind emits_option plain_parsed plain_commandResult) simp_all
qed

lemma plain_configuration: "emits plainAct (configuration w locs)"
  by (auto simp: configuration_def split: prod.split sum.split option.split)

lemma plain_versionFailure [simp]: "emits plainAct (versionFailure w e)"
  by (simp add: versionFailure_def)

lemma plain_defaultsFailure [simp]: "emits plainAct (defaultsFailure w e)"
  by (simp add: defaultsFailure_def)

lemma plain_resolveFragment: "emits plainAct (resolveFragment w i)"
  by (auto simp: resolveFragment_def split: prod.split sum.split resolveFailure.split option.split)

lemma plain_enforced: "emits plainAct (enforced w fs f flags req)"
  by (auto simp: enforced_def split: sum.split option.split)

lemma plain_completed: "emits plainAct (completed w sc fs i f)"
  by (auto simp: completed_def Let_def plain_enforced split: sum.split)

lemma plain_gateway: "list_all plainAct (fst (runGatewayRecovery args help recover ok))"
  by (auto simp: runGatewayRecovery_def Let_def split: sum.split option.split)

text \<open>What a child of the front door rests on: a launch command line, the configuration, the fragment
  Curator resolved, the defaults, and a launched child.\<close>

definition frontChild :: "frontWorld \<Rightarrow> string list \<Rightarrow> processSpec \<Rightarrow> bool" where
  "frontChild w args ps \<longleftrightarrow>
     (\<exists>i0 i locs c s sc f system fs r req shadow.
        Cli.Parse args = Inr i0 \<and> Info i0 = InfoNone \<and> (args = [] \<or> hd args \<notin> {''gateway'', ''werkstatt'', ''session-manager'', ''migrate''}) \<and>
        i = i0\<lparr>Invocation.EnvID := NormalizeEnvID (Invocation.EnvID i0)\<rparr> \<and>
        fwLocations w = Inr locs \<and> fwRemovedAX w = ([], None) \<and> LoadConfig locs (fwPolicyRead w) = Inr c \<and>
        readSelectedCommand (fst (fwSelectedRun w)) (snd (fwSelectedRun w)) = Some s \<and> LoadSelector locs (fwSelectorRead w) = Inr sc \<and>
        fst (FragmentResolve.Resolve (\<lambda>_ call. (fwCurator w call, True)) (fwBinary w) (lwEnviron (fwLaunch w)) (fragmentRequest i) False) = Inr f \<and>
        CheckLaunchRevision f = None \<and> MapSystem (Environment f) = Some system \<and> fwFiles w = Inr fs \<and>
        snd (completed w sc fs i f) = Inr (r, req) \<and> launchedChild (launchWorldOf w c s shadow) i f system r fs ps)"

lemma resolveFragment_Inr:
  assumes "snd (resolveFragment w i) = Inr f"
  shows "fst (FragmentResolve.Resolve (\<lambda>_ call. (fwCurator w call, True)) (fwBinary w) (lwEnviron (fwLaunch w)) (fragmentRequest i) False) = Inr f \<and>
    CheckLaunchRevision f = None"
  using assms by (auto simp: resolveFragment_def fbind_Inr versionFailure_def split: prod.split_asm sum.split_asm resolveFailure.split_asm option.split_asm)

lemma configuration_Inr:
  assumes "snd (configuration w locs) = Inr (c, s, sc)"
  shows "fwRemovedAX w = ([], None) \<and> LoadConfig locs (fwPolicyRead w) = Inr c \<and>
    readSelectedCommand (fst (fwSelectedRun w)) (snd (fwSelectedRun w)) = Some s \<and> LoadSelector locs (fwSelectorRead w) = Inr sc"
  using assms by (cases "LoadSelector locs (fwSelectorRead w)"; cases "readSelectedCommand (fst (fwSelectedRun w)) (snd (fwSelectedRun w))")
    (auto simp: configuration_def fbind_Inr split: prod.split_asm sum.split_asm option.split_asm if_split_asm)

lemma launched_spawns:
  assumes "spawnsOf (fst (ended (launched w c s sc i))) \<noteq> []"
  shows "\<exists>f system fs r req shadow ps. spawnsOf (fst (ended (launched w c s sc i))) = [ps] \<and>
    snd (resolveFragment w i) = Inr f \<and> MapSystem (Environment f) = Some system \<and> fwFiles w = Inr fs \<and>
    snd (completed w sc fs i f) = Inr (r, req) \<and> launchedChild (launchWorldOf w c s shadow) i f system r fs ps"
proof -
  have untracked: "emits plainAct (go (if HostFlag i = HostFlagUntracked then
       [Err (''curator-run: --untracked is deprecated; use --native (alias retained for two releases)'' @ [CHR 0x0A])] else []))"
    by simp
  have maps: "emits plainAct (case MapSystem (Environment f) of
        None \<Rightarrow> stop (emit ''env_unsupported'' (''environment '' @ lwQuote (fwLaunch w) (Environment f) @ '' has no supported system mapping''))
      | Some system \<Rightarrow> ([], Inr system))" for f
    by (auto split: option.split)
  have defaults: "emits plainAct (go [ReadDefaults])" "emits plainAct (case fwFiles w of Inl e \<Rightarrow> defaultsFailure w e | Inr fs \<Rightarrow> ([], Inr fs))"
    by (auto split: sum.split)
  define K where "K = (\<lambda>f system fs (r, req).
       let shadow = (scMode sc = ''shadow'' \<and> req \<noteq> None \<and> fwStatePath w \<noteq> []);
           (as, st) = launch (launchWorldOf w c s shadow) i f system r fs
       in ([], Inr (as @ (if shadow \<and> Encode (the req) \<noteq> None \<and> st \<noteq> None then [ObserveShadow] else []), st)) :: (act list \<times> int option) fronted)"
  have eq: "spawnsOf (fst (ended (launched w c s sc i))) =
    (case snd (go (if HostFlag i = HostFlagUntracked then
       [Err (''curator-run: --untracked is deprecated; use --native (alias retained for two releases)'' @ [CHR 0x0A])] else [])) of Inl st \<Rightarrow> [] | Inr u \<Rightarrow>
     (case snd (resolveFragment w i) of Inl st \<Rightarrow> [] | Inr f \<Rightarrow>
     (case snd (case MapSystem (Environment f) of
        None \<Rightarrow> stop (emit ''env_unsupported'' (''environment '' @ lwQuote (fwLaunch w) (Environment f) @ '' has no supported system mapping''))
      | Some system \<Rightarrow> ([], Inr system)) of Inl st \<Rightarrow> [] | Inr system \<Rightarrow>
     (case snd (go [ReadDefaults]) of Inl st \<Rightarrow> [] | Inr u \<Rightarrow>
     (case snd (case fwFiles w of Inl e \<Rightarrow> defaultsFailure w e | Inr fs \<Rightarrow> ([], Inr fs)) of Inl st \<Rightarrow> [] | Inr fs \<Rightarrow>
     (case snd (completed w sc fs i f) of Inl st \<Rightarrow> [] | Inr rr \<Rightarrow> spawnsOf (fst (ended (K f system fs rr)))))))))"
    unfolding launched_def K_def
    by (simp only: spawns_fbind [OF untracked] spawns_fbind [OF plain_resolveFragment] spawns_fbind [OF maps]
        spawns_fbind [OF defaults(1)] spawns_fbind [OF defaults(2)] spawns_fbind [OF plain_completed])
  have mapsI: "snd (case m of None \<Rightarrow> stop l | Some x \<Rightarrow> ([], Inr x)) = Inr y \<longleftrightarrow> m = Some y" for m :: "string option" and l y
    by (auto split: option.split)
  have filesI: "snd (case m of Inl e \<Rightarrow> defaultsFailure w e | Inr x \<Rightarrow> ([], Inr x)) = Inr y \<longleftrightarrow> m = Inr y" for m :: "defaultsError + Files" and y
    by (auto simp: defaultsFailure_def split: sum.split)
  obtain f system fs rr where steps: "snd (resolveFragment w i) = Inr f" "MapSystem (Environment f) = Some system" "fwFiles w = Inr fs"
    "snd (completed w sc fs i f) = Inr rr"
    and e: "spawnsOf (fst (ended (launched w c s sc i))) = spawnsOf (fst (ended (K f system fs rr)))"
    using assms unfolding eq by (auto simp: mapsI filesI split: sum.split_asm)
  define shadow where "shadow = (scMode sc = ''shadow'' \<and> snd rr \<noteq> None \<and> fwStatePath w \<noteq> [])"
  have l: "spawnsOf (fst (ended (launched w c s sc i))) = spawnsOf (fst (launch (launchWorldOf w c s shadow) i f system (fst rr) fs))"
    unfolding e shadow_def K_def by (cases rr) (simp add: Let_def case_prod_unfold)
  obtain ps where "spawnsOf (fst (launch (launchWorldOf w c s shadow) i f system (fst rr) fs)) = [ps]"
    "launchedChild (launchWorldOf w c s shadow) i f system (fst rr) fs ps"
    using launch_spawns [of "launchWorldOf w c s shadow" i f system "fst rr" fs] assms unfolding l by blast
  then show ?thesis
    using steps l by (metis prod.collapse)
qed

lemma ended_plain: "emits plainAct m \<Longrightarrow> snd m = Inl st \<Longrightarrow> spawnsOf (fst (ended m)) = []"
  by (cases m) (simp add: ended_def)

text \<open>The part of \<open>run\<close> after the command line is known.\<close>

definition configured :: "frontWorld \<Rightarrow> Locations \<Rightarrow> string list \<Rightarrow> (act list \<times> int option) fronted" where
  "configured w locs args = (case Cli.Parse args of
            Inl e \<Rightarrow> ([Err (DiagnosticLine ''usage'' (fwUsageDetail w e)), Err (CHR 0x0A # fwUsage w)], Inl (Some (int ExitUsage)))
          | Inr i \<Rightarrow>
              fbind (configuration w locs) (\<lambda>(c, s, sc).
              launched w c s sc (i\<lparr>Invocation.EnvID := NormalizeEnvID (Invocation.EnvID i)\<rparr>)))"

definition located :: "frontWorld \<Rightarrow> Locations fronted" where
  "located w = (case fwLocations w of Inl e \<Rightarrow> stop (emitFailure ''defaults_config_invalid'' e) | Inr locs \<Rightarrow> ([], Inr locs))"

lemma run_stages:
  "run w args = ended (fbind (helpAnswer w args) (\<lambda>_.
     if args \<noteq> [] \<and> hd args = ''gateway'' then
       (case runGatewayRecovery args (fwHelp w GatewayRecoveryHelp) (fwRecover w) (fwStdoutOk w) of (as, n) \<Rightarrow> exitWith as n)
     else fbind (located w) (\<lambda>locs. fbind (administration w args) (\<lambda>_. configured w locs args))))"
  by (simp only: run_def configured_def located_def)

lemma plain_located: "emits plainAct (located w)"
  by (auto simp: located_def split: sum.split)

lemma located_Inr: "snd (located w) = Inr locs \<longleftrightarrow> fwLocations w = Inr locs"
  by (auto simp: located_def split: sum.split)

lemma exitWith_Inl [simp]: "snd (exitWith as n) = Inl (Some (int n))" "ended (exitWith as n) = (as, Some (int n))"
  by (simp_all add: exitWith_def ended_def)

lemma configured_spawns:
  assumes "spawnsOf (fst (ended (configured w locs args))) \<noteq> []"
  obtains i c s sc where "Cli.Parse args = Inr i" "snd (configuration w locs) = Inr (c, s, sc)"
    "spawnsOf (fst (ended (configured w locs args))) =
       spawnsOf (fst (ended (launched w c s sc (i\<lparr>Invocation.EnvID := NormalizeEnvID (Invocation.EnvID i)\<rparr>))))"
proof (cases "Cli.Parse args")
  case (Inl e)
  then show ?thesis using assms by (simp add: configured_def ended_def)
next
  case (Inr i)
  show ?thesis
  proof (cases "snd (configuration w locs)")
    case (Inl st)
    then show ?thesis
      using assms by (simp add: configured_def \<open>Cli.Parse args = Inr i\<close> spawns_fbind [OF plain_configuration])
  next
    case c: (Inr p)
    obtain c s sc where p: "p = (c, s, sc)" by (cases p)
    show ?thesis
      by (rule that [of i c s sc])
        (simp_all add: configured_def Inr c p spawns_fbind [OF plain_configuration])
  qed
qed

text \<open>An administrative word ends the run before any configuration is read.\<close>

lemma commandResult_Inr: "snd (commandResult word r) \<noteq> Inr u"
  by (auto simp: commandResult_def fbind_Inr split: option.split)

definition adminWords :: "string list" where
  "adminWords = [''werkstatt'', ''session-manager'', ''migrate'']"

lemma werkstatt_word: "Cli.Parse (''werkstatt'' # as) = Inr i \<Longrightarrow> Werkstatt i \<noteq> None"
  by (auto simp: Cli.Parse_def split: sum.split_asm)

lemma session_word: "Cli.Parse (''session-manager'' # as) = Inr i \<Longrightarrow> SessionManager i \<noteq> None"
  by (auto simp: Cli.Parse_def split: sum.split_asm)

lemma parsed_Inr: "snd (parsed w args) = Inr i \<longleftrightarrow> Cli.Parse args = Inr i"
  by (auto simp: parsed_def split: sum.split)

lemma administration_Inr:
  assumes "snd (administration w args) = Inr u"
  shows "args = [] \<or> hd args \<notin> set adminWords"
proof (cases args)
  case (Cons word rest)
  have werkstatt: "word \<noteq> ''werkstatt''"
  proof
    assume word: "word = ''werkstatt''"
    then obtain i where i: "Cli.Parse (word # rest) = Inr i" "snd (case Werkstatt i of
         Some c \<Rightarrow> exitWith [Administer word] (fwWerkstatt w c) | None \<Rightarrow> go []) = Inr u"
      using assms unfolding administration_def Cons list.case by (auto simp: fbind_Inr parsed_Inr simp del: step_simps)
    then show False
      using werkstatt_word [of rest i] word by (cases "Werkstatt i") simp_all
  qed
  have session: "word \<noteq> ''session-manager''"
  proof
    assume word: "word = ''session-manager''"
    then obtain i where i: "Cli.Parse (word # rest) = Inr i" "snd (case SessionManager i of
         Some c \<Rightarrow> if SessionCommand.Operation c = ''observe'' then exitWith [Administer word] (fwObserve w c)
           else commandResult word (fwSession w c)
       | None \<Rightarrow> go []) = Inr u"
      using assms unfolding administration_def Cons list.case by (auto simp: fbind_Inr parsed_Inr simp del: step_simps)
    then show False
      using session_word [of rest i] word by (cases "SessionManager i") (simp_all add: commandResult_Inr split: if_split_asm)
  qed
  have "word \<noteq> ''migrate''"
  proof
    assume word: "word = ''migrate''"
    then show False
      using assms unfolding administration_def Cons list.case by (auto simp: fbind_Inr parsed_Inr commandResult_Inr)
  qed
  with werkstatt session show ?thesis
    by (simp add: Cons adminWords_def)
qed simp

lemma administration_none: "args = [] \<or> hd args \<notin> set adminWords \<Longrightarrow> administration w args = go []"
  by (cases args) (simp_all add: administration_def adminWords_def)

lemma helpAnswer_Inr:
  assumes "snd (helpAnswer w args) = Inr u" "Cli.Parse args = Inr i"
  shows "Info i = InfoNone"
  using assms by (cases "Info i") (auto simp: helpAnswer_def split: option.split_asm)

lemma run_spawns:
  assumes "spawnsOf (fst (run w args)) \<noteq> []"
  shows "\<exists>ps. spawnsOf (fst (run w args)) = [ps] \<and> frontChild w args ps"
proof -
  let ?g = "case runGatewayRecovery args (fwHelp w GatewayRecoveryHelp) (fwRecover w) (fwStdoutOk w) of (as, n) \<Rightarrow> exitWith as n"
  let ?rest = "fbind (located w) (\<lambda>locs. fbind (administration w args) (\<lambda>_. configured w locs args))"
  have gateway: "spawnsOf (fst (ended ?g)) = []"
    using plain_gateway [of args "fwHelp w GatewayRecoveryHelp" "fwRecover w" "fwStdoutOk w"] by (simp add: case_prod_unfold)
  have eq: "spawnsOf (fst (run w args)) = (case snd (helpAnswer w args) of Inl st \<Rightarrow> [] | Inr u \<Rightarrow>
      spawnsOf (fst (ended (if args \<noteq> [] \<and> hd args = ''gateway'' then ?g else ?rest))))"
    by (simp only: run_stages spawns_fbind [OF plain_helpAnswer])
  obtain u where answered: "snd (helpAnswer w args) = Inr u"
    using assms unfolding eq by (auto split: sum.split_asm)
  have word: "args = [] \<or> hd args \<noteq> ''gateway''"
    using assms gateway unfolding eq answered by auto
  have eq2: "spawnsOf (fst (run w args)) = (case snd (located w) of Inl st \<Rightarrow> [] | Inr locs \<Rightarrow>
      (case snd (administration w args) of Inl st \<Rightarrow> [] | Inr u \<Rightarrow> spawnsOf (fst (ended (configured w locs args)))))"
    using word unfolding eq answered sum.case by (auto simp: spawns_fbind [OF plain_located] spawns_fbind [OF plain_administration] split: sum.split)
  obtain locs u' where locs: "snd (located w) = Inr locs" "snd (administration w args) = Inr u'"
    using assms unfolding eq2 by (auto split: sum.split_asm)
  have e: "spawnsOf (fst (run w args)) = spawnsOf (fst (ended (configured w locs args)))"
    unfolding eq2 locs by simp
  obtain i0 c s sc where conf: "Cli.Parse args = Inr i0" "snd (configuration w locs) = Inr (c, s, sc)"
    and l: "spawnsOf (fst (run w args)) =
       spawnsOf (fst (ended (launched w c s sc (i0\<lparr>Invocation.EnvID := NormalizeEnvID (Invocation.EnvID i0)\<rparr>))))"
    using configured_spawns [OF assms [unfolded e]] unfolding e by metis
  let ?i = "i0\<lparr>Invocation.EnvID := NormalizeEnvID (Invocation.EnvID i0)\<rparr>"
  obtain f system fs r req shadow ps where ps: "spawnsOf (fst (run w args)) = [ps]" "snd (resolveFragment w ?i) = Inr f"
    "MapSystem (Environment f) = Some system" "fwFiles w = Inr fs" "snd (completed w sc fs ?i f) = Inr (r, req)"
    "launchedChild (launchWorldOf w c s shadow) ?i f system r fs ps"
    using launched_spawns [OF assms [unfolded l]] unfolding l by blast
  have words: "args = [] \<or> hd args \<notin> {''gateway'', ''werkstatt'', ''session-manager'', ''migrate''}"
    using word administration_Inr [OF locs(2)] unfolding adminWords_def by auto
  have "frontChild w args ps"
    unfolding frontChild_def
    by (intro exI [of _ i0] exI [of _ ?i] exI [of _ locs] exI [of _ c] exI [of _ s] exI [of _ sc] exI [of _ f] exI [of _ system]
        exI [of _ fs] exI [of _ r] exI [of _ req] exI [of _ shadow] conjI conf(1) helpAnswer_Inr [OF answered conf(1)] words refl
        resolveFragment_Inr [OF ps(2), THEN conjunct1] resolveFragment_Inr [OF ps(2), THEN conjunct2] ps
        configuration_Inr [OF conf(2), THEN conjunct1] configuration_Inr [OF conf(2), THEN conjunct2, THEN conjunct1]
        configuration_Inr [OF conf(2), THEN conjunct2, THEN conjunct2, THEN conjunct1]
        configuration_Inr [OF conf(2), THEN conjunct2, THEN conjunct2, THEN conjunct2] locs(1) [unfolded located_Inr])
  with ps(1) show ?thesis by blast
qed

end
