(* ===== verification/FrontDoorRun.thy ===== *)
theory FrontDoorRun
  imports FrontDoorProps
begin

text \<open>
  The runs of the front door as a whole: the lease brackets the child, and help, version and usage are
  answered from the arguments alone.
\<close>

section \<open>The lease and the child\<close>

text \<open>The marks of a run: at most one child, a lease opened before it when one is registered, and, once
  there is an exit status, ended after it.\<close>

definition bracketed :: "act list \<times> int option \<Rightarrow> bool" where
  "bracketed m \<longleftrightarrow> (\<exists>leased children. length children \<le> 1 \<and>
     marks (fst m) = (if leased then [HoldLease] else []) @ map (\<lambda>ps. Child (Spawn ps)) children @
       (if leased \<and> snd m \<noteq> None then [FinishLease] else []))"

lemma bracketed_plain: "list_all plainAct as \<Longrightarrow> bracketed (as, st)"
  unfolding bracketed_def by (intro exI [of _ False] exI [of _ "[]"]) simp

lemma bracketed_ended:
  assumes "emits plainAct m" "\<And>x. snd m = Inr x \<Longrightarrow> bracketed (ended (g x))"
  shows "bracketed (ended (fbind m g))"
proof (cases "snd m")
  case (Inl st)
  then show ?thesis
    using assms(1) bracketed_plain by (simp add: ended_fbind emits_def)
next
  case (Inr x)
  then show ?thesis
    using assms by (simp add: ended_fbind emits_def bracketed_def)
qed

lemma bracketed_value [simp]: "bracketed (ended ([], Inr x)) = bracketed x"
  by simp

definition closed_after :: "bool \<Rightarrow> act list \<times> int option \<Rightarrow> bool" where
  "closed_after leased m \<longleftrightarrow> (\<exists>children. length children \<le> 1 \<and>
     marks (fst m) = map (\<lambda>ps. Child (Spawn ps)) children @ (if leased \<and> snd m \<noteq> None then [FinishLease] else []))"

lemma event_marks: "marks (map Child es) = map (\<lambda>ps. Child (Spawn ps)) (eventSpawns es)"
proof (induction es)
  case (Cons e es)
  then show ?case by (cases e) (simp_all add: marks_def)
qed simp

lemma RunLaunch_single: "length (eventSpawns (fst (RunLaunch v w))) \<le> 1"
proof (cases "eventSpawns (fst (RunLaunch v w)) = []")
  case False
  then show ?thesis
    using RunLaunch_spawns [OF False] by (metis One_nat_def length_Cons list.size(3) order_refl)
qed simp

lemma runNative_closed: "closed_after (prLease pr) (runNative w i f system d p pr v)"
proof -
  let ?run = "RunLaunch v (nativeWorld w system v pr (snd (promptBoundary w i f)))"
  have "marks (fst (runNative w i f system d p pr v)) = map (\<lambda>ps. Child (Spawn ps)) (eventSpawns (fst ?run)) @
      (if prLease pr \<and> snd ?run \<noteq> None then [FinishLease] else [])"
    unfolding runNative_def Let_def using promptBoundary_plain [of w i f]
    by (simp add: case_prod_unfold event_marks spawns_split flip: map_append)
  moreover have "snd (runNative w i f system d p pr v) = snd ?run"
    by (simp add: runNative_def Let_def case_prod_unfold)
  ultimately show ?thesis
    unfolding closed_after_def using RunLaunch_single by (intro exI [of _ "eventSpawns (fst ?run)"]) simp
qed

definition ends :: "'a fronted \<Rightarrow> bool" where
  "ends m \<longleftrightarrow> snd m \<noteq> Inl None"

lemma ends_fbind: "ends m \<Longrightarrow> (\<And>x. ends (g x)) \<Longrightarrow> ends (fbind m g)"
  by (cases "snd m") (simp_all add: ends_def fbind_def)

lemma ends_simps [simp]: "ends (stop l)" "ends (go as)" "ends (refuseIf b l)" "ends (as, Inr x)"
  by (simp_all add: ends_def stop_def go_def refuseIf_def)

lemma launchValue_ends: "ends (launchValue w f sel p tail snapshot pr)"
  unfolding launchValue_def by (auto intro!: ends_fbind split: sum.split option.split)

lemma runHostedPlan_ends: "snd (runHostedPlan w i f sel v) \<noteq> None"
  by (auto simp: runHostedPlan_def case_prod_unfold Let_def split: option.split)

lemma afterNetwork_closed: "closed_after (prLease (snd net)) (afterNetwork w i f system host hosted d tail sp net)"
proof (cases "launchValue w f (fst sp) (snd sp) tail (fst net) (snd net)")
  case (Pair as r)
  have plain: "marks as = []"
    using plain_launchValue [of w f "fst sp" "snd sp" tail "fst net" "snd net"] unfolding Pair by simp
  show ?thesis
  proof (cases r)
    case (Inl st)
    then have "st \<noteq> None"
      using launchValue_ends [of w f "fst sp" "snd sp" tail "fst net" "snd net"] unfolding Pair by (simp add: ends_def)
    then show ?thesis
      using plain unfolding afterNetwork_def Let_def Pair Inl closed_after_def by (intro exI [of _ "[]"]) simp
  next
    case (Inr v)
    show ?thesis
    proof (cases hosted)
      case True
      then show ?thesis
        using plain runHostedPlan_ends [of w i f host v] plain_marks [OF runHostedPlan_plain [of w i f host v]]
        unfolding afterNetwork_def Let_def Pair Inr closed_after_def by (intro exI [of _ "[]"]) (simp add: case_prod_unfold)
    next
      case False
      then show ?thesis
        using plain runNative_closed [of "snd net" w i f system d "snd sp" v]
        unfolding afterNetwork_def Let_def Pair Inr closed_after_def by (simp add: case_prod_unfold)
    qed
  qed
qed

lemma bracketed_network:
  assumes "\<And>net. closed_after (prLease (snd net)) (g net)"
  shows "bracketed (ended (fbind (launchNetwork w i f system gateway hosted p) (\<lambda>net. ([], Inr (g net)))))"
proof (cases "snd (launchNetwork w i f system gateway hosted p)")
  case (Inl st)
  then have "marks (fst (launchNetwork w i f system gateway hosted p)) = []"
    using launchNetwork_held [of w i f system gateway hosted p] by (simp add: held_def)
  then show ?thesis
    unfolding bracketed_def using Inl by (intro exI [of _ False] exI [of _ "[]"]) (simp add: ended_fbind)
next
  case (Inr net)
  then have m: "marks (fst (launchNetwork w i f system gateway hosted p)) = (if prLease (snd net) then [HoldLease] else [])"
    using launchNetwork_held [of w i f system gateway hosted p] by (simp add: held_def case_prod_unfold)
  obtain cs where "length cs \<le> 1" "marks (fst (g net)) = map (\<lambda>ps. Child (Spawn ps)) cs @ (if prLease (snd net) \<and> snd (g net) \<noteq> None then [FinishLease] else [])"
    using assms [of net] unfolding closed_after_def by blast
  then show ?thesis
    unfolding bracketed_def using Inr m by (intro exI [of _ "prLease (snd net)"] exI [of _ cs]) (simp add: ended_fbind)
qed

lemma planned_bracketed: "bracketed (planned w i f system r gateway host hosted wd d tail)"
  unfolding planned_def
  by (intro bracketed_ended bracketed_network plain_launchPlan plain_authOverlays afterNetwork_closed)

lemma launchRest_bracketed: "bracketed (ended (launchRest w i f system r fs gateway host hosted))"
  unfolding launchRest_def
  by (intro bracketed_ended plain_routeChecks plain_workdir plain_authOverlays plain_launchPermission)
    (simp add: planned_bracketed bracketed_plain ended_def)

lemma launch_bracketed: "bracketed (launch w i f system r fs)"
  unfolding launch_rest
  by (intro bracketed_ended plain_gatewayDefault plain_launchHost) (auto simp: ended_if launchRest_bracketed, simp add: ended_def bracketed_plain)

lemma launched_bracketed: "bracketed (ended (launched w c s sc i))"
  unfolding launched_def
proof (intro bracketed_ended plain_resolveFragment plain_completed)
  fix f system fs rr
  show "bracketed (ended (case rr of (r, req) \<Rightarrow>
      let shadow = (scMode sc = ''shadow'' \<and> req \<noteq> None \<and> fwStatePath w \<noteq> []);
          (as, st) = launch (launchWorldOf w c s shadow) i f system r fs
      in ([], Inr (as @ (if shadow \<and> Encode (the req) \<noteq> None \<and> st \<noteq> None then [ObserveShadow] else []), st))))"
    using launch_bracketed [of "launchWorldOf w c s (scMode sc = ''shadow'' \<and> snd rr \<noteq> None \<and> fwStatePath w \<noteq> [])" i f system "fst rr" fs]
    by (simp add: case_prod_unfold Let_def bracketed_def marks_def)
qed (auto simp: defaultsFailure_def split: option.split sum.split)

lemma configured_bracketed: "bracketed (ended (configured w locs args))"
proof (cases "Cli.Parse args")
  case (Inl e)
  then show ?thesis by (simp add: configured_def ended_def bracketed_plain)
next
  case (Inr i)
  show ?thesis
    unfolding configured_def Inr sum.case by (intro bracketed_ended plain_configuration) (simp add: case_prod_unfold launched_bracketed)
qed

lemma run_bracketed: "bracketed (run w args)"
  unfolding run_stages
  by (intro bracketed_ended plain_helpAnswer)
    (simp add: case_prod_unfold plain_gateway bracketed_plain bracketed_ended plain_located plain_administration configured_bracketed)

section \<open>Answers from the arguments alone\<close>

text \<open>The answer to a command line that does not parse: the lines of the gateway command, the failure to
  locate the configuration, the one line of an administrative command, or the refusal with the usage
  text.\<close>

definition usageAnswer :: "frontWorld \<Rightarrow> string list \<Rightarrow> usageError \<Rightarrow> act list \<times> int option" where
  "usageAnswer w args e =
     (if args \<noteq> [] \<and> hd args = ''gateway'' then
        ([Err (DiagnosticLine ''usage'' ''expected gateway recover --attempt <64 lowercase hex>''), Err (fwHelp w GatewayRecoveryHelp)], Some 2)
      else case fwLocations w of
        Inl t \<Rightarrow> ([Err (fst (emitFailure ''defaults_config_invalid'' t))], Some 1)
      | Inr _ \<Rightarrow>
          if args \<noteq> [] \<and> hd args \<in> set adminWords then ([Err (fst (emitFailure ''usage'' (''usage: '' @ fwUsageDetail w e)))], Some 2)
          else ([Err (DiagnosticLine ''usage'' (fwUsageDetail w e)), Err (CHR 0x0A # fwUsage w)], Some 2))"

lemma run_answered: "snd (helpAnswer w args) = Inl st \<Longrightarrow> run w args = (fst (helpAnswer w args), st)"
  by (simp add: run_stages ended_fbind)

lemma helpAnswer_none: "TopicHelp args = None \<Longrightarrow> Cli.Parse args = Inl e \<Longrightarrow> helpAnswer w args = go []"
  by (simp add: helpAnswer_def)

lemma usage_exits: "ExitForCode ''usage'' = 2" "ExitForCode ''defaults_config_invalid'' = 1"
  by code_simp+

lemma parsed_usage: "Cli.Parse args = Inl e \<Longrightarrow> parsed w args = ([Err (fst (emitFailure ''usage'' (''usage: '' @ fwUsageDetail w e)))], Inl (Some 2))"
  by (simp add: parsed_def stop_def emitFailure_def usage_exits)

lemma administration_usage:
  assumes "Cli.Parse args = Inl e" "args \<noteq> []" "hd args \<in> set adminWords"
  shows "administration w args = ([Err (fst (emitFailure ''usage'' (''usage: '' @ fwUsageDetail w e)))], Inl (Some 2))"
  using assms parsed_usage [OF assms(1), of w]
  by (cases args) (auto simp: administration_def adminWords_def fbind_def)

lemma run_usage:
  assumes topic: "TopicHelp args = None" and parse: "Cli.Parse args = Inl e"
  shows "run w args = usageAnswer w args e"
proof (cases "args \<noteq> [] \<and> hd args = ''gateway''")
  case True
  then show ?thesis
    by (simp add: run_stages helpAnswer_none [OF topic parse] ended_fbind runGatewayRecovery_def parse go_def ExitUsage_def usageAnswer_def)
next
  case False
  then have run: "run w args = ended (fbind (located w) (\<lambda>locs. fbind (administration w args) (\<lambda>_. configured w locs args)))"
    by (auto simp: run_stages helpAnswer_none [OF topic parse] ended_fbind go_def)
  show ?thesis
  proof (cases "fwLocations w")
    case (Inl t)
    have "snd (emitFailure ''defaults_config_invalid'' t) = 1"
      by (simp add: emitFailure_def usage_exits)
    then have "run w args = ([Err (fst (emitFailure ''defaults_config_invalid'' t))], Some 1)"
      by (simp add: run located_def Inl ended_fbind stop_def)
    then show ?thesis
      using False unfolding usageAnswer_def Inl by auto
  next
    case (Inr locs)
    then have run': "run w args = ended (fbind (administration w args) (\<lambda>_. configured w locs args))"
      by (simp add: run located_def ended_fbind)
    show ?thesis
    proof (cases "args \<noteq> [] \<and> hd args \<in> set adminWords")
      case True
      then show ?thesis
        using False administration_usage [OF parse, of w] unfolding run' usageAnswer_def Inr by (auto simp: ended_fbind)
    next
      case admin: False
      then have "administration w args = go []"
        by (intro administration_none) blast
      then have "run w args = ([Err (DiagnosticLine ''usage'' (fwUsageDetail w e)), Err (CHR 0x0A # fwUsage w)], Some 2)"
        by (simp add: run' fbind_def go_def configured_def parse ended_def ExitUsage_def)
      then show ?thesis
        using False admin unfolding usageAnswer_def Inr by auto
    qed
  qed
qed

section \<open>The front door\<close>

text \<open>C1. The front door starts a child only from a command line that parses as a launch, and only when every
  stage before it passed: the removed tracking file is absent, the host policy, the selected
  configuration and the selector configuration load, Curator resolves the normalized environment to a
  fragment of a launch revision whose environment maps to a system, the defaults load and complete the
  model and the effort, the host route is native with no option that needs a hosted one, the permission
  resolves, the plan is admitted on the completed pair, the network is prepared for that plan, the value
  is composed and checked, and the checks at the boundary pass. The child is then the one child of the
  run, and it is the process of that composed value.\<close>

theorem front_door_child:
  "spawnsOf (fst (run w args)) = [] \<or> (\<exists>ps. spawnsOf (fst (run w args)) = [ps] \<and> frontChild w args ps)"
  using run_spawns [of w args] by blast

text \<open>C13. A run registers at most one lease and starts at most one child. The lease is registered before the
  child starts, and a run that has an exit status has ended a registered lease, after the child and
  once, on every path: a refusal by composition, by the late checks, by the boundary, or a child that
  exited.\<close>

theorem front_door_lease: "bracketed (run w args)"
  by (rule run_bracketed)

text \<open>C24. Help, version and usage errors are answered from the arguments: a help topic, the help and the
  version print one text on standard output and exit with 0 whatever the configuration holds. A
  command line that does not parse writes only the diagnostics shown, reads no configuration and
  starts nothing. When the configuration can be located it always exits with 2, and a launch prints
  the diagnostic and the usage text. This departs from the specification (3 and 6) in two places. The
  locations are computed before the grammar of any command but the gateway's is checked, so a home
  directory that cannot be found wins over the usage error, with \<open>defaults_config_invalid\<close> and 1;
  and the administrative commands print their diagnostic without the usage text.\<close>

theorem front_door_answers:
  "(\<forall>t. TopicHelp args = Some t \<longrightarrow> run w args = ([Out (fwHelp w t)], Some 0)) \<and>
   (\<forall>i. TopicHelp args = None \<and> Cli.Parse args = Inr i \<and> Info i = InfoHelp \<longrightarrow>
      run w args = ([Out (versionText w @ [CHR 0x0A] @ fwUsage w)], Some 0)) \<and>
   (\<forall>i. TopicHelp args = None \<and> Cli.Parse args = Inr i \<and> Info i = InfoVersion \<longrightarrow>
      run w args = ([Out (versionText w)], Some 0)) \<and>
   (\<forall>e. TopicHelp args = None \<and> Cli.Parse args = Inl e \<longrightarrow> run w args = usageAnswer w args e)"
  using run_answered run_usage by (intro conjI allI impI) (simp_all add: helpAnswer_def)

theorem front_door_answers_witness:
  "\<forall>w. run w [''werkstatt'', ''up'', ''--help''] = ([Out (fwHelp w (WerkstattVerbHelp ''up''))], Some 0) \<and>
     run w [''--version''] = ([Out (versionText w)], Some 0) \<and>
     run w [''migrate'', ''--now''] = usageAnswer w [''migrate'', ''--now''] ExpectedMigrate \<and>
     snd (run w [''gateway'']) = Some 2"
proof (intro allI conjI)
  fix w
  have topic: "TopicHelp [''werkstatt'', ''up'', ''--help''] = Some (WerkstattVerbHelp ''up'')"
    and version: "TopicHelp [''--version''] = None" "Cli.Parse [''--version''] = Inr (noInvocation\<lparr>Info := InfoVersion\<rparr>)"
    and usage: "TopicHelp [''migrate'', ''--now''] = None" "Cli.Parse [''migrate'', ''--now''] = Inl ExpectedMigrate"
    and gateway: "TopicHelp [''gateway''] = None" "Cli.Parse [''gateway''] = Inl ExpectedGatewayRecover"
    by code_simp+
  show "run w [''werkstatt'', ''up'', ''--help''] = ([Out (fwHelp w (WerkstattVerbHelp ''up''))], Some 0)"
    using front_door_answers [of "[''werkstatt'', ''up'', ''--help'']" w] topic by blast
  show "run w [''--version''] = ([Out (versionText w)], Some 0)"
    using front_door_answers [of "[''--version'']" w] version by simp
  show "run w [''migrate'', ''--now''] = usageAnswer w [''migrate'', ''--now''] ExpectedMigrate"
    using front_door_answers [of "[''migrate'', ''--now'']" w] usage by blast
  have "run w [''gateway''] = usageAnswer w [''gateway''] ExpectedGatewayRecover"
    using front_door_answers [of "[''gateway'']" w] gateway by blast
  then show "snd (run w [''gateway'']) = Some 2"
    by (simp add: usageAnswer_def)
qed

end
