(* ===== verification/Spec2Isabelle.thy ===== *)
theory Spec2Isabelle
  imports FragmentGuarantees MemberGuarantees MemberDescriptor
    CliGrammar SessionService DefaultsProps NetLeaseProps NetRecoveryProps CompositionProps
    DiagnosticsProps NativeArgsProps LauncherConfigProps PermissionProps LaunchPlanProps
    ExecutionProps SystemPromptProps SelectorProps HostStatusProps HostPayloadProps HostRouteProps
    FrontDoorRun
begin

text \<open>
  Curator agent launcher: a verification library.

  The launcher (\<open>curator-run\<close>) turns a command line into one interactive run of an agent harness.
  It asks the manager (\<open>curator\<close>) for a launch fragment, reads its own defaults, completes model
  and effort from a module registry, composes the argument vector and the environment of the
  child, and, for a managed network, leases a token from a gateway while the child runs. Beside
  that path it keeps the registry of session managers and reads member-wire records. Every one
  of these parts reads untrusted bytes into a closed vocabulary, so the library models the
  readers byte by byte and the decisions behind them branch by branch.

  Shared layers.
  \<^item> \<open>Prelude\<close>, \<open>Utf8\<close>, \<open>GoStrings\<close>, \<open>Sha256\<close>: results as sums, byte classes, Go's UTF-8 decoding,
    the functions of \<open>strings\<close> and \<open>strconv\<close> that the code calls, and SHA-256 from its standard.
    A Go string is a \<open>string\<close> of bytes.

  The launch fragment (\<open>internal/fragment\<close>).
  \<^item> \<open>FragmentJson\<close> is \<open>json.go\<close> and \<open>ccj1.go\<close>: the strict reader and the canonical writer.
    \<open>FragmentJsonReader\<close> shows that the reader returns on every input and what it accepts;
    \<open>FragmentRoundtrip\<close> that reading inverts writing and that canonical bytes and digests
    are stable and injective. The reader's loops carry fuel: the number of bytes left bounds
    every loop, and \<open>ParseJSON_total\<close> shows that the fuel never runs out.
  \<^item> \<open>Fragment\<close> is \<open>fragment.go\<close>, \<open>v4.go\<close>, \<open>launch.go\<close>: one definition per section of the schema.
    \<open>FragmentProps\<close> has a lemma per section, \<open>FragmentGuarantees\<close> the properties.
  \<^item> \<open>FragmentResolve\<close> is \<open>resolve.go\<close>: one run of the manager and its classification. The
    process runner is a parameter.

  The member wire (\<open>internal/memberwire\<close>).
  \<^item> \<open>MemberLex\<close>, \<open>MemberParse\<close> (\<open>lex.go\<close>, \<open>decode.go\<close>): tokens, the pushdown grammar with its
    fault flags, and the construction of values; 64-bit numerals are words. \<open>MemberParseProps\<close>
    relates grammar and construction, \<open>MemberReader\<close> the tokens and the bytes.
  \<^item> \<open>MemberSchema\<close>, \<open>MemberLifecycle\<close>, \<open>MemberDecode\<close>: the record predicates and the decoders, all
    instances of one locale of record kinds; \<open>MemberGuarantees\<close> and \<open>MemberDescriptor\<close> have the
    properties. The recursion of \<open>buildValue\<close> has fuel twice the number of tokens, and
    \<open>decode_never_panics\<close> shows it suffices.

  The command line (\<open>internal/cli\<close>, \<open>internal/werkstattcommand\<close>).
  \<^item> \<open>WerkstattCommand\<close>, \<open>SessionCommand\<close>, \<open>Cli\<close>: the three grammars. \<open>WerkstattGrammar\<close>, \<open>CliGrammar\<close>
    and the end of \<open>SessionCommand\<close> characterise their languages: the accepted vectors are those
    of the well-formed commands, each read back from the vector printed for it.

  Defaults and lineup (\<open>internal/mapping\<close>, \<open>internal/defaults\<close>).
  \<^item> \<open>Defaults\<close>: the reader of \<open>defaults.json\<close>, the precedence of flag, operator and machine, the
    machine lock, the host, the completion from the module's candidates, and the rendered
    lines. \<open>DefaultsProps\<close> has the properties. The module registry is the record \<open>registry\<close> of the
    functions the code calls; its ranking is only assumed to order the rows it is given.

  The session-manager registry (\<open>internal/sessionmanager\<close>, \<open>internal/configfile/locations.go\<close>).
  \<^item> \<open>SessionRegistry\<close>: locations, the layered lookup, the registry and manifest readers and
    \<open>Resolve\<close>. \<open>SessionService\<close>: the operations of the service over the record \<open>world\<close> of what the
    process can observe and do, an abstract registry (a partial map with a selection) that
    they refine, and reachability over any sequence of commands.

  The network gateway client (\<open>internal/netproxy\<close>).
  \<^item> \<open>NetControl\<close> (\<open>control.go\<close>): replies, errors and the token calls. \<open>NetLease\<close> (\<open>lease.go\<close>): the
    duties of a lease as functions of what each attempt observes; \<open>None\<close> is a loop that is
    still running, and \<open>finish_returns\<close> shows which observations end it. \<open>NetRecovery\<close>
    (\<open>control2.go\<close>): the closed recovery protocol with its 64-bit issuance window. \<open>NetRegister\<close>:
    the two registrations, whose replies carry the token. \<open>NetLeaseProps\<close> and \<open>NetRecoveryProps\<close> have the properties.

  Composition (\<open>internal/composition\<close>, and \<open>CheckOverlays\<close> of \<open>internal/network\<close>).
  \<^item> \<open>Composition\<close>: the overlays, the Muse policy, the network patch and the MCP lookups; the patch
    library is the record \<open>patchLib\<close>, and \<open>documented\<close> states what its documentation says of
    \<open>Apply\<close>. \<open>CompositionProps\<close> has the layering theorem.

  The native argument guard (\<open>internal/network/native_args.go\<close>).
  \<^item> \<open>NativeArgs\<close>: the option tables and the two passes over the tail. \<open>NativeArgsProps\<close> gives the
    grammar of the tails that pass.

  Diagnostics (\<open>internal/diagnostics\<close>).
  \<^item> \<open>Diagnostics\<close>: the code set, exit statuses, the classification of wrapped errors and the code
    line. An error is the tree of the errors it wraps. \<open>DiagnosticsProps\<close> has the contract.

  Machine configuration (\<open>internal/launcherconfig\<close>).
  \<^item> \<open>LauncherConfig\<close>: the host policy of both layers and the selection Core projects.
    \<open>LauncherConfigProps\<close> shows its authority and the exact documents that are accepted, with
    \<open>ClosedMembers\<close> for documents that are equal up to the order of their members.

  The permission ladder (\<open>internal/execution/permission.go\<close>, \<open>resolvePermission\<close> of \<open>cmd/curator-run/main.go\<close>).
  \<^item> \<open>Permission\<close>: the ladder from flag to default, the lock of the fragment, the established tool
    release, the report and its exit status. \<open>PermissionProps\<close> states it over the command line, the
    fragment and the defaults files it is computed from.

  The launch plan (\<open>internal/plan\<close>).
  \<^item> \<open>LaunchPlan\<close>: the curator context, the spawn request, the Muse release and the interactive form,
    and the admission with the module calls it makes, in order. \<open>LaunchPlanProps\<close> has the contract.

  The native run (\<open>internal/execution/execution.go\<close>, \<open>process.go\<close>).
  \<^item> \<open>Execution\<close>: the search for the binary, the late checks in their order, the wait loop and the
    exit status. A run is the list of its events; \<open>None\<close> as status is a child that still runs.
    \<open>ExecutionProps\<close> has the contract.

  System prompt (\<open>internal/systemprompt\<close>).
  \<^item> \<open>SystemPrompt\<close>: the selected channel, the probe of the home files and the warnings;
    \<open>SystemPromptProps\<close> states it for the fragments \<open>Parse\<close> accepts.

  Selector (\<open>internal/selector\<close>).
  \<^item> \<open>Selector\<close>: machine configuration, request, response, and what a child's run amounts to.
    \<open>SelectorProps\<close> has the property of one exchange.

  Hosted launches (\<open>internal/hosted\<close>, \<open>cmd/curator-run/host_selection.go\<close>, the capabilities and the error
  lines of \<open>internal/sessionmanager/client\<close>).
  \<^item> \<open>HostRoute\<close>: what a manager must advertise, and who hosts a launch with the contacts made on the
    way. \<open>HostRouteProps\<close> gives the exact capability decision and the resolution's contract.
  \<^item> \<open>HostPayload\<close>: the checks, the wire object and the digest of a hosted plan; \<open>HostPayloadProps\<close>
    states what a payload that is built guarantees to its receiver.
  \<^item> \<open>HostStatus\<close>: the refusal registry, one status record, the framed channel and the exit status
    of a hosted run; the channel is read frame by frame, so every frame shortens it.

  The front door (\<open>cmd/curator-run/main.go\<close>, \<open>gateway_recover.go\<close>, \<open>selector.go\<close>, \<open>lease_owner.go\<close>).
  \<^item> \<open>FrontLaunch\<close> is \<open>launch\<close> and \<open>runNative\<close>, \<open>FrontDoor\<close> is \<open>run\<close>: the models above composed the way the
    code composes them. A stage is the list of its acts with an exit status or the value of the next
    stage; what happens outside (network preparation, delegation, the services) is a field of the
    world. \<open>FrontDoorProps\<close> follows a child back through the stages; \<open>FrontDoorRun\<close> shows what a child of
    a run rests on, that the lease brackets it, and what is answered from the arguments alone.

  How the parts interact: \<open>Cli.Parse\<close> gives the environment and the pair that \<open>FragmentResolve.Resolve\<close>
  and \<open>Defaults.Complete\<close> work on; the selector may fill the pair; flag, fragment and defaults meet
  in \<open>Permission\<close>, whose mode enters the spawn request of \<open>LaunchPlan\<close>; plan, fragment, prompt and
  network patch meet in \<open>Composition\<close>, and the composed value is what \<open>Execution\<close> runs;
  \<open>SessionCommand\<close> feeds \<open>SessionService\<close>; all readers of JSON configuration share \<open>FragmentJson\<close>.

  Parameters. Files, processes, clocks, the terminal and the gateway are inputs: a file read is a
  record of data, presence and error, a run of a process its exit and output, an attempt of the
  lease its answer and its timing. Third-party code (agents-management, curator-network-profiles)
  is a parameter with its documented behaviour as a named hypothesis where a property needs it.
  Bodies of gateway replies are taken after the standard library's JSON scanner.

  Not modelled. The delegated and the exact hosted run of \<open>cmd/curator-run\<close> and its wiring of
  services, the terminal ioctls, file ownership checks and locked file transactions, keychain
  access: these are calls of the operating system with little logic of their own. The network
  admission rests on \<open>net/url\<close>, \<open>net\<close> and the third-party profile library; what \<open>url.Parse\<close> and
  \<open>net.ParseIP\<close> say of the base URLs of a registration is a parameter of \<open>NetRegister\<close>. The session
  manager's leases and file transactions, the recovery journal, the settings guard, migration and
  the werkstatt service are separate subsystems that the launch path above only calls.
\<close>

end
